(* ===== verification/Prelude.thy ===== *)
theory Prelude
  imports Main "HOL-Library.Word" "HOL-Library.State_Monad"
begin

text \<open>
  Shared material: the development's fact collections, the lemmas on lists and on the
  state monad that several components use, and the type of an effectful Go call.

  \<^item> \<open>go_simps\<close> collects the equations that evaluate the model's operations;
  \<^item> \<open>law_simps\<close> collects the consequences of the laws of third-party libraries.
\<close>

named_theorems go_simps \<open>evaluation of the model's operations\<close>
named_theorems law_simps \<open>consequences of the library laws\<close>

section \<open>Lists\<close>

text \<open>The first element that satisfies a predicate, as a loop that returns early finds it.\<close>

fun first_such :: "('a \<Rightarrow> bool) \<Rightarrow> 'a list \<Rightarrow> 'a option" where
  "first_such P [] = None"
| "first_such P (x # xs) = (if P x then Some x else first_such P xs)"

text \<open>Replaces the first element that satisfies a predicate.\<close>

fun replace_first :: "('a \<Rightarrow> bool) \<Rightarrow> 'a \<Rightarrow> 'a list \<Rightarrow> 'a list" where
  "replace_first P y [] = []"
| "replace_first P y (x # xs) = (if P x then y # xs else x # replace_first P y xs)"

lemma first_such_None_iff: "first_such P xs = None \<longleftrightarrow> (\<forall>x \<in> set xs. \<not> P x)"
  by (induction xs) auto

lemma first_such_SomeD: "first_such P xs = Some x \<Longrightarrow> x \<in> set xs \<and> P x"
  by (induction xs) (auto split: if_splits)

lemma length_replace_first [simp]: "length (replace_first P y xs) = length xs"
  by (induction xs) auto

lemma replace_first_absent: "\<forall>x \<in> set xs. \<not> P x \<Longrightarrow> replace_first P y xs = xs"
  by (induction xs) auto

lemma map_replace_first:
  "(\<And>x. x \<in> set xs \<Longrightarrow> P x \<Longrightarrow> f x = f y) \<Longrightarrow> map f (replace_first P y xs) = map f xs"
  by (induction xs) auto

lemma first_such_replace_first_same:
  "first_such P xs \<noteq> None \<Longrightarrow> P y \<Longrightarrow> first_such P (replace_first P y xs) = Some y"
  by (induction xs) auto

lemma first_such_replace_first_other:
  "(\<And>x. P x \<Longrightarrow> \<not> Q x) \<Longrightarrow> \<not> Q y \<Longrightarrow>
   first_such Q (replace_first P y xs) = first_such Q xs"
  by (induction xs) auto

lemma first_such_append:
  "first_such P (xs @ ys) = (case first_such P xs of None \<Rightarrow> first_such P ys | Some x \<Rightarrow> Some x)"
  by (induction xs) auto

lemma set_replace_first_subset: "set (replace_first P y xs) \<subseteq> insert y (set xs)"
  by (induction xs) auto

lemma first_such_replace_first_cases:
  "first_such Q (replace_first P y xs) =
     (if \<exists>x \<in> set xs. P x then first_such Q (replace_first P y xs) else first_such Q xs)"
  by (auto simp: replace_first_absent)

section \<open>The state monad\<close>

text \<open>
  Sequencing is the state monad's bind. \<open>run_state_bind\<close> unfolds it to a case on a pair;
  the lemmas below keep it in projections, so that the simplifier evaluates a handler
  without introducing new variables.
\<close>

lemma run_state_State [go_simps, simp]: "run_state (State f) s = f s"
  by simp

lemma run_bind_split:
  "run_state (State_Monad.bind m f) s =
     run_state (f (fst (run_state m s))) (snd (run_state m s))"
  by (simp add: split_beta)

lemma run_state_if:
  "run_state (if b then m else n) s = (if b then run_state m s else run_state n s)"
  by simp

lemmas monad_simps = run_state_if

lemma short_list:
  obtains (empty) "xs = []" | (single) x where "xs = [x]" | (more) x y ys where "xs = x # y # ys"
  by (cases xs; cases "tl xs") auto

end
