(* ===== verification/Go_Runtime.thy ===== *)
theory Go_Runtime
  imports Prelude
begin

text \<open>
  What the operator uses of the Go language and its standard library: instants and
  durations (int nanoseconds), error values with \<open>%w\<close> wrapping and \<open>errors.As\<close>, the result
  of a call that can return an error or panic, \<open>strconv.Itoa\<close> and \<open>strconv.Atoi\<close> on 64-bit
  ints, \<open>strings.HasPrefix\<close> and \<open>strings.TrimPrefix\<close>, and the printing of a duration.
  A Go string is a sequence of bytes, here a \<^typ>\<open>string\<close>.
\<close>

section \<open>Instants and durations\<close>

type_synonym time = int      \<comment> \<open>nanoseconds since the epoch\<close>
type_synonym duration = int  \<comment> \<open>nanoseconds\<close>

definition second :: duration where
  "second = 1000000000"

definition zero_time :: time where
  "zero_time = -62135596800000000000"

definition is_zero_time :: "time option \<Rightarrow> bool" where
  "is_zero_time t \<longleftrightarrow> t = None \<or> t = Some zero_time"

section \<open>64-bit ints\<close>

definition max_int :: int where
  "max_int = 9223372036854775807"

definition wrap64 :: "int \<Rightarrow> int" where
  "wrap64 i = signed_take_bit 63 i"

lemma wrap64_id: "- max_int - 1 \<le> i \<Longrightarrow> i \<le> max_int \<Longrightarrow> wrap64 i = i"
  by (simp add: wrap64_def max_int_def signed_take_bit_int_eq_self)

definition wrap32 :: "int \<Rightarrow> int" where
  "wrap32 i = signed_take_bit 31 i"

lemma wrap32_id: "- 2147483648 \<le> i \<Longrightarrow> i < 2147483648 \<Longrightarrow> wrap32 i = i"
  by (simp add: wrap32_def signed_take_bit_int_eq_self)

section \<open>Decimal notation\<close>

definition digit_char :: "nat \<Rightarrow> char" where
  "digit_char n = char_of (48 + n)"

definition is_digit :: "char \<Rightarrow> bool" where
  "is_digit c \<longleftrightarrow> 48 \<le> (of_char c :: nat) \<and> (of_char c :: nat) \<le> 57"

definition digit_val :: "char \<Rightarrow> nat" where
  "digit_val c = of_char c - 48"

fun show_nat :: "nat \<Rightarrow> string" where
  "show_nat n = (if n < 10 then [digit_char n] else show_nat (n div 10) @ [digit_char (n mod 10)])"

declare show_nat.simps [simp del]

definition itoa :: "int \<Rightarrow> string" where
  "itoa i = (if i < 0 then CHR ''-'' # show_nat (nat (- i)) else show_nat (nat i))"

definition digits_val :: "string \<Rightarrow> nat" where
  "digits_val = foldl (\<lambda>v c. 10 * v + digit_val c) 0"

text \<open>\<open>strconv.Atoi\<close>: an optional sign, at least one digit, and a value in the range of an int.\<close>

definition atoi_unsigned :: "string \<Rightarrow> nat option" where
  "atoi_unsigned s = (if s \<noteq> [] \<and> list_all is_digit s then Some (digits_val s) else None)"

definition in_int_range :: "int \<Rightarrow> bool" where
  "in_int_range i \<longleftrightarrow> - max_int - 1 \<le> i \<and> i \<le> max_int"

definition atoi :: "string \<Rightarrow> int option" where
  "atoi s =
     (let (neg, digits) =
        (case s of [] \<Rightarrow> (False, [])
         | c # cs \<Rightarrow> if c = CHR ''-'' then (True, cs) else if c = CHR ''+'' then (False, cs) else (False, s))
      in case atoi_unsigned digits of
           None \<Rightarrow> None
         | Some n \<Rightarrow> let i = (if neg then - int n else int n) in if in_int_range i then Some i else None)"

lemma is_digit_digit_char [simp]: "n < 10 \<Longrightarrow> is_digit (digit_char n)"
  by (simp add: is_digit_def digit_char_def)

lemma digit_val_digit_char [simp]: "n < 10 \<Longrightarrow> digit_val (digit_char n) = n"
  by (simp add: digit_val_def digit_char_def)

lemma show_nat_nonempty [simp]: "show_nat n \<noteq> []"
  by (subst show_nat.simps) simp

lemma show_nat_digits: "list_all is_digit (show_nat n)"
proof (induction n rule: show_nat.induct)
  case (1 n)
  show ?case
    using 1 by (cases "n < 10") (simp_all add: show_nat.simps [of n])
qed

lemma digits_val_snoc: "digits_val (s @ [c]) = 10 * digits_val s + digit_val c"
  by (simp add: digits_val_def)

lemma digits_val_show_nat [simp]: "digits_val (show_nat n) = n"
proof (induction n rule: show_nat.induct)
  case (1 n)
  show ?case
  proof (cases "n < 10")
    case True
    then show ?thesis by (simp add: show_nat.simps [of n] digits_val_def)
  next
    case False
    with 1 have "digits_val (show_nat (n div 10)) = n div 10" by simp
    with False show ?thesis
      by (simp add: show_nat.simps [of n] digits_val_snoc)
  qed
qed

lemma show_nat_inject: "show_nat m = show_nat n \<longleftrightarrow> m = n"
  by (metis digits_val_show_nat)

lemma atoi_unsigned_show_nat [simp]: "atoi_unsigned (show_nat n) = Some n"
  by (simp add: atoi_unsigned_def show_nat_digits)

lemma is_digit_sign [simp]: "\<not> is_digit (CHR ''-'')" "\<not> is_digit (CHR ''+'')"
  by (simp_all add: is_digit_def)

lemma hd_show_nat: "show_nat n = c # cs \<Longrightarrow> is_digit c"
  using show_nat_digits [of n] by simp

text \<open>Printing and reading back an int in range gives it back.\<close>

lemma atoi_itoa:
  assumes "in_int_range i"
  shows "atoi (itoa i) = Some i"
proof (cases "i < 0")
  case True
  with assms show ?thesis by (simp add: atoi_def itoa_def)
next
  case False
  obtain c cs where s: "show_nat (nat i) = c # cs"
    by (cases "show_nat (nat i)") auto
  then have "is_digit c" by (rule hd_show_nat)
  then have "c \<noteq> CHR ''-''" "c \<noteq> CHR ''+''" by auto
  with False s assms show ?thesis
    using atoi_unsigned_show_nat [of "nat i"] by (simp add: atoi_def itoa_def)
qed

lemma itoa_nonempty [simp]: "itoa i \<noteq> []"
  by (simp add: itoa_def)

section \<open>Prefixes and joining\<close>

definition has_prefix :: "string \<Rightarrow> string \<Rightarrow> bool" where
  "has_prefix s p \<longleftrightarrow> take (length p) s = p"

definition trim_prefix :: "string \<Rightarrow> string \<Rightarrow> string" where
  "trim_prefix s p = (if has_prefix s p then drop (length p) s else s)"

lemma has_prefix_append [simp]: "has_prefix (p @ s) p"
  by (simp add: has_prefix_def)

lemma trim_prefix_append [simp]: "trim_prefix (p @ s) p = s"
  by (simp add: trim_prefix_def)

lemma has_prefixD: "has_prefix s p \<Longrightarrow> s = p @ trim_prefix s p"
  by (metis append_take_drop_id has_prefix_def trim_prefix_def)

section \<open>Printing a duration\<close>

text \<open>\<open>time.Duration.String\<close>: the fraction loses its trailing zeros.\<close>

fun pad_nat :: "nat \<Rightarrow> nat \<Rightarrow> string" where
  "pad_nat 0 v = []"
| "pad_nat (Suc k) v = pad_nat k (v div 10) @ [digit_char (v mod 10)]"

definition drop_trailing_zeros :: "string \<Rightarrow> string" where
  "drop_trailing_zeros s = rev (dropWhile (\<lambda>c. c = CHR ''0'') (rev s))"

definition fmt_frac :: "nat \<Rightarrow> nat \<Rightarrow> string" where
  "fmt_frac v k =
     (let f = drop_trailing_zeros (pad_nat k (v mod 10 ^ k))
      in if f = [] then show_nat (v div 10 ^ k) else show_nat (v div 10 ^ k) @ ''.'' @ f)"

definition show_duration :: "duration \<Rightarrow> string" where
  "show_duration d =
     (let u = nat \<bar>d\<bar>;
          body = (if u = 0 then ''0s''
            else if u < 1000 then show_nat u @ ''ns''
            else if u < 1000000 then fmt_frac u 3 @ [char_of (194 :: nat), char_of (181 :: nat)] @ ''s''
            else if u < 1000000000 then fmt_frac u 6 @ ''ms''
            else (let secs = u div 1000000000; m = secs div 60; h = m div 60
                  in (if h > 0 then show_nat h @ ''h'' else []) @
                     (if m > 0 then show_nat (m mod 60) @ ''m'' else []) @
                     fmt_frac (u mod 60000000000) 9 @ ''s''))
      in if d < 0 then CHR ''-'' # body else body)"

section \<open>Errors and results\<close>

text \<open>
  An error value. \<open>Wrap p e\<close> is \<open>fmt.Errorf("p: %w", e)\<close>, which \<open>errors.As\<close> looks
  through; \<open>StatusError\<close> is an API server's answer with its reason; \<open>ExtError\<close> any other
  error of code outside the repository.
\<close>

datatype api_reason = NotFound | Conflict | OtherReason string

datatype go_error =
    Errorf string
  | Wrap string go_error
  | RateLimitError duration
  | NotFoundError string string
  | MethodNotAllowedError string string
  | StatusError api_reason string
  | ExtError string

fun err_text :: "go_error \<Rightarrow> string" where
  "err_text (Errorf s) = s"
| "err_text (Wrap p e) = p @ '': '' @ err_text e"
| "err_text (RateLimitError d) = ''rate limit active, retry after '' @ show_duration d"
| "err_text (NotFoundError r _) = ''resource not found: '' @ r"
| "err_text (MethodNotAllowedError op _) = ''method not allowed: '' @ op"
| "err_text (StatusError _ s) = s"
| "err_text (ExtError s) = s"

fun as_rate_limit :: "go_error \<Rightarrow> duration option" where
  "as_rate_limit (Wrap _ e) = as_rate_limit e"
| "as_rate_limit (RateLimitError d) = Some d"
| "as_rate_limit _ = None"

fun as_not_found :: "go_error \<Rightarrow> bool" where
  "as_not_found (Wrap _ e) = as_not_found e"
| "as_not_found (NotFoundError _ _) = True"
| "as_not_found _ = False"

fun as_method_not_allowed :: "go_error \<Rightarrow> bool" where
  "as_method_not_allowed (Wrap _ e) = as_method_not_allowed e"
| "as_method_not_allowed (MethodNotAllowedError _ _) = True"
| "as_method_not_allowed _ = False"

text \<open>\<open>apierrors.IsNotFound\<close> and \<open>IsConflict\<close>, and \<open>client.IgnoreNotFound\<close>.\<close>

fun api_reason_of :: "go_error \<Rightarrow> api_reason option" where
  "api_reason_of (Wrap _ e) = api_reason_of e"
| "api_reason_of (StatusError r _) = Some r"
| "api_reason_of _ = None"

definition is_not_found :: "go_error \<Rightarrow> bool" where
  "is_not_found e \<longleftrightarrow> api_reason_of e = Some NotFound"

definition is_conflict :: "go_error \<Rightarrow> bool" where
  "is_conflict e \<longleftrightarrow> api_reason_of e = Some Conflict"

definition ignore_not_found :: "go_error \<Rightarrow> go_error option" where
  "ignore_not_found e = (if is_not_found e then None else Some e)"

text \<open>A call returns a value, returns an error, or panics.\<close>

datatype 'a res = Ok 'a | Error go_error | Panic string

definition wrap_err :: "string \<Rightarrow> 'a res \<Rightarrow> 'a res" where
  "wrap_err p r = (case r of Error e \<Rightarrow> Error (Wrap p e) | _ \<Rightarrow> r)"

lemma wrap_err_simps [simp]:
  "wrap_err p (Ok x) = Ok x" "wrap_err p (Error e) = Error (Wrap p e)" "wrap_err p (Panic s) = Panic s"
  by (simp_all add: wrap_err_def)

end
