(* ===== verification/Meta_Types.thy ===== *)
theory Meta_Types
  imports Go_Runtime
begin

text \<open>
  The parts of the Kubernetes object model the operator reads and writes: object metadata,
  object keys, status conditions and the result of a reconciliation. Labels and annotations
  are maps, finalizers a list. The locale \<open>ref_field\<close> is the contract of the accessor pairs
  of the status references (\<open>Set...Name\<close> / \<open>Get...Name\<close>).
\<close>

section \<open>Object metadata\<close>

record object_meta =
  om_name :: string
  om_namespace :: string
  om_labels :: "string \<rightharpoonup> string"
  om_annotations :: "string \<rightharpoonup> string"
  om_finalizers :: "string list"
  om_deletionTimestamp :: "time option"
  om_generation :: int

definition deleting :: "object_meta \<Rightarrow> bool" where
  "deleting m \<longleftrightarrow> \<not> is_zero_time (om_deletionTimestamp m)"

record object_key =
  key_namespace :: string
  key_name :: string

definition key_of :: "object_meta \<Rightarrow> object_key" where
  "key_of m = \<lparr>key_namespace = om_namespace m, key_name = om_name m\<rparr>"

section \<open>Conditions\<close>

datatype cond_status = ConditionTrue | ConditionFalse | ConditionUnknown

record condition =
  c_type :: string
  c_status :: cond_status
  c_reason :: string
  c_message :: string
  c_observedGeneration :: int
  c_lastTransitionTime :: time

text \<open>A composite literal that leaves the other fields zero.\<close>

definition mk_condition :: "string \<Rightarrow> cond_status \<Rightarrow> string \<Rightarrow> string \<Rightarrow> condition" where
  "mk_condition t s reason msg =
     \<lparr>c_type = t, c_status = s, c_reason = reason, c_message = msg,
      c_observedGeneration = 0, c_lastTransitionTime = zero_time\<rparr>"

section \<open>The result of a reconciliation\<close>

record ctrl_result =
  requeue :: bool
  requeueAfter :: duration

definition result_none :: ctrl_result where
  "result_none = \<lparr>requeue = False, requeueAfter = 0\<rparr>"

definition requeue_after :: "duration \<Rightarrow> ctrl_result" where
  "requeue_after d = result_none\<lparr>requeueAfter := d\<rparr>"

definition requeue_now :: ctrl_result where
  "requeue_now = result_none\<lparr>requeue := True\<rparr>"

lemma requeueAfter_simps [simp]:
  "requeueAfter (requeue_after d) = d" "requeueAfter result_none = 0" "requeueAfter requeue_now = 0"
  "requeue (requeue_after d) = False" "requeue result_none = False" "requeue requeue_now = True"
  by (simp_all add: requeue_after_def result_none_def requeue_now_def)

text \<open>
  What a handler leaves: the object it was given, as it mutated it, with the result and the
  error it returns; or a panic.
\<close>

datatype 'o outcome = Done (outcome_obj: 'o) (outcome_result: ctrl_result) (outcome_err: "go_error option")
  | Panicked string

section \<open>Accessors of a reference in the status\<close>

locale ref_field =
  fixes get :: "'o \<Rightarrow> string"
    and set :: "string \<Rightarrow> 'o \<Rightarrow> 'o"
  assumes get_set: "get (set v x) = v"
    and set_set: "set v (set w x) = set v x"
begin

lemma set_idem: "set v (set v x) = set v x"
  by (simp add: set_set)

lemma get_last_set: "get (set v (set w x)) = v"
  by (simp add: get_set)

lemma set_inject: "set v x = set w y \<Longrightarrow> v = w"
  by (metis get_set)

end

text \<open>Two accessor pairs of the same reference do not disturb each other.\<close>

locale ref_fields = a: ref_field get set + b: ref_field get' set'
  for get :: "'o \<Rightarrow> string" and set and get' :: "'o \<Rightarrow> string" and set' +
  assumes get_other: "get (set' v x) = get x"
    and get'_other: "get' (set v x) = get' x"
begin

lemma get_both:
  "get (set v (set' w x)) = v" "get' (set v (set' w x)) = w"
  "get (set' w (set v x)) = v" "get' (set' w (set v x)) = w"
  by (simp_all add: a.get_set b.get_set get_other get'_other)

end

end
