(* ===== verification/Job_Types.thy ===== *)
theory Job_Types
  imports Meta_Types
begin

text \<open>
  \<open>api/v1alpha1/job_types.go\<close>: the job history of a compute instance, its states, and
  \<open>FindLatestJobByType\<close>. The lemmas characterise the latest job: it is the first one with
  the greatest timestamp among the jobs of its type.
\<close>

datatype job_type = JobTypeProvision | JobTypeDeprovision

datatype job_state =
    JobStatePending | JobStateWaiting | JobStateRunning | JobStateSucceeded
  | JobStateFailed | JobStateCanceled | JobStateUnknown

definition isTerminal :: "job_state \<Rightarrow> bool" where
  "isTerminal s \<longleftrightarrow> s = JobStateSucceeded \<or> s = JobStateFailed \<or> s = JobStateCanceled"

definition isSuccessful :: "job_state \<Rightarrow> bool" where
  "isSuccessful s \<longleftrightarrow> s = JobStateSucceeded"

lemma isTerminal_simps [simp]:
  "\<not> isTerminal JobStatePending" "\<not> isTerminal JobStateWaiting" "\<not> isTerminal JobStateRunning"
  "\<not> isTerminal JobStateUnknown" "isTerminal JobStateSucceeded" "isTerminal JobStateFailed"
  "isTerminal JobStateCanceled"
  by (simp_all add: isTerminal_def)

lemma isSuccessful_simps [simp]:
  "isSuccessful s \<longleftrightarrow> s = JobStateSucceeded"
  by (simp add: isSuccessful_def)

record job_status =
  js_jobID :: string
  js_type :: job_type
  js_timestamp :: time
  js_state :: job_state
  js_message :: string
  js_blockDeletionOnFailure :: bool

text \<open>The loop of \<open>FindLatestJobByType\<close>, with the candidate found so far.\<close>

fun find_latest_loop :: "job_type \<Rightarrow> job_status option \<Rightarrow> job_status list \<Rightarrow> job_status option" where
  "find_latest_loop t latest [] = latest"
| "find_latest_loop t latest (j # js) =
     find_latest_loop t
       (if js_type j = t
        then (case latest of None \<Rightarrow> Some j
              | Some l \<Rightarrow> if js_timestamp l < js_timestamp j then Some j else latest)
        else latest) js"

definition findLatestJobByType :: "job_status list \<Rightarrow> job_type \<Rightarrow> job_status option" where
  "findLatestJobByType jobs t = find_latest_loop t None jobs"

text \<open>The specification: the first job with the greatest timestamp, of those of the type.\<close>

definition jobs_of_type :: "job_type \<Rightarrow> job_status list \<Rightarrow> job_status list" where
  "jobs_of_type t jobs = filter (\<lambda>j. js_type j = t) jobs"

definition newest :: "job_status list \<Rightarrow> job_status option" where
  "newest jobs = first_such (\<lambda>j. \<forall>k \<in> set jobs. js_timestamp k \<le> js_timestamp j) jobs"

lemma find_latest_loop_filter:
  "find_latest_loop t latest jobs = find_latest_loop t latest (jobs_of_type t jobs)"
  by (induction jobs arbitrary: latest) (auto simp: jobs_of_type_def)

lemma find_latest_loop_Some:
  assumes "\<forall>k \<in> set jobs. js_type k = t"
  shows "find_latest_loop t (Some l) jobs = newest (l # jobs)"
  using assms
proof (induction jobs arbitrary: l)
  case Nil
  then show ?case by (simp add: newest_def)
next
  case (Cons j jobs)
  show ?case
  proof (cases "js_timestamp l < js_timestamp j")
    case True
    then have "newest (l # j # jobs) = newest (j # jobs)"
      by (auto simp: newest_def intro!: arg_cong [where f = "\<lambda>P. first_such P jobs"])
    with True Cons show ?thesis by simp
  next
    case False
    have drop: "first_such (\<lambda>i. js_timestamp l \<le> js_timestamp i \<and> js_timestamp j \<le> js_timestamp i \<and> R i) jobs =
        first_such (\<lambda>i. js_timestamp l \<le> js_timestamp i \<and> R i) jobs" for R
      using False by (intro arg_cong [where f = "\<lambda>P. first_such P jobs"]) auto
    from False Cons show ?thesis
      by (auto simp: newest_def drop)
  qed
qed

lemma findLatestJobByType_newest:
  "findLatestJobByType jobs t = newest (jobs_of_type t jobs)"
proof (cases "jobs_of_type t jobs")
  case Nil
  then show ?thesis
    by (simp add: findLatestJobByType_def find_latest_loop_filter [of t None] newest_def)
next
  case (Cons l js)
  have "\<forall>k \<in> set (jobs_of_type t jobs). js_type k = t"
    by (simp add: jobs_of_type_def)
  with Cons show ?thesis
    by (simp add: findLatestJobByType_def find_latest_loop_filter [of t None] find_latest_loop_Some)
qed

lemma newest_SomeD:
  "newest jobs = Some j \<Longrightarrow> j \<in> set jobs \<and> (\<forall>k \<in> set jobs. js_timestamp k \<le> js_timestamp j)"
  by (auto simp: newest_def dest: first_such_SomeD)

lemma newest_None_iff: "newest jobs = None \<longleftrightarrow> jobs = []"
proof
  assume none: "newest jobs = None"
  show "jobs = []"
  proof (rule ccontr)
    assume ne: "jobs \<noteq> []"
    let ?m = "Max (js_timestamp ` set jobs)"
    have "?m \<in> js_timestamp ` set jobs" using ne by (intro Max_in) auto
    then obtain j where j: "j \<in> set jobs" "js_timestamp j = ?m" by auto
    have "\<forall>k \<in> set jobs. js_timestamp k \<le> js_timestamp j"
      unfolding j(2) by (intro ballI Max_ge) auto
    with j none show False by (auto simp: newest_def first_such_None_iff)
  qed
qed (simp add: newest_def)

lemma findLatestJobByType_SomeD:
  assumes "findLatestJobByType jobs t = Some j"
  shows "j \<in> set jobs" "js_type j = t"
    and "k \<in> set jobs \<Longrightarrow> js_type k = t \<Longrightarrow> js_timestamp k \<le> js_timestamp j"
  using newest_SomeD [of "jobs_of_type t jobs" j] assms
  by (auto simp: findLatestJobByType_newest jobs_of_type_def)

lemma findLatestJobByType_None_iff:
  "findLatestJobByType jobs t = None \<longleftrightarrow> (\<forall>j \<in> set jobs. js_type j \<noteq> t)"
  by (auto simp: findLatestJobByType_newest newest_None_iff jobs_of_type_def filter_empty_conv)

text \<open>A later job of another type does not matter; a newer one of the type wins.\<close>

lemma find_latest_loop_append:
  "find_latest_loop t l (xs @ ys) = find_latest_loop t (find_latest_loop t l xs) ys"
  by (induction xs arbitrary: l) auto

lemma findLatestJobByType_snoc:
  "findLatestJobByType (jobs @ [j]) t =
     (if js_type j = t
      then (case findLatestJobByType jobs t of None \<Rightarrow> Some j
            | Some l \<Rightarrow> if js_timestamp l < js_timestamp j then Some j else Some l)
      else findLatestJobByType jobs t)"
  by (auto simp: findLatestJobByType_def find_latest_loop_append split: option.split)

end
