(* ===== verification/Compute_Instance_Types.thy ===== *)
theory Compute_Instance_Types
  imports Job_Types
begin

text \<open>
  \<open>api/v1alpha1/computeinstance_types.go\<close>, \<open>computeinstance_conditions.go\<close> (the readers)
  and \<open>computeinstance_virtualmachinereference.go\<close>: the ComputeInstance resource, the
  accessors of its conditions and of its virtual machine and tenant references.
\<close>

section \<open>The resource\<close>

record compute_instance_spec =
  cisp_templateID :: string
  cisp_templateParameters :: string
  cisp_restartRequestedAt :: "time option"

datatype compute_instance_phase =
    ComputeInstancePhaseUnset | ComputeInstancePhaseStarting | ComputeInstancePhaseRunning
  | ComputeInstancePhaseFailed | ComputeInstancePhaseDeleting

record virtual_machine_reference =
  vmr_namespace :: string
  vmr_kubeVirtVirtualMachineName :: string

record tenant_reference =
  tr_name :: string
  tr_namespace :: string

record compute_instance_status =
  cis_phase :: compute_instance_phase
  cis_conditions :: "condition list"
  cis_virtualMachineReference :: "virtual_machine_reference option"
  cis_tenantReference :: "tenant_reference option"
  cis_desiredConfigVersion :: string
  cis_reconciledConfigVersion :: string
  cis_lastRestartedAt :: "time option"
  cis_jobs :: "job_status list"

record compute_instance =
  ci_meta :: object_meta
  ci_spec :: compute_instance_spec
  ci_status :: compute_instance_status

definition ComputeInstance_GetName :: "compute_instance \<Rightarrow> string" where
  "ComputeInstance_GetName ci = om_name (ci_meta ci)"

definition ComputeInstanceConditionAccepted :: string where
  "ComputeInstanceConditionAccepted = ''Accepted''"
definition ComputeInstanceConditionProgressing :: string where
  "ComputeInstanceConditionProgressing = ''Progressing''"
definition ComputeInstanceConditionAvailable :: string where
  "ComputeInstanceConditionAvailable = ''Available''"
definition ComputeInstanceConditionDeleting :: string where
  "ComputeInstanceConditionDeleting = ''Deleting''"
definition ComputeInstanceConditionRestartInProgress :: string where
  "ComputeInstanceConditionRestartInProgress = ''RestartInProgress''"
definition ComputeInstanceConditionRestartFailed :: string where
  "ComputeInstanceConditionRestartFailed = ''RestartFailed''"

lemmas ci_condition_types =
  ComputeInstanceConditionAccepted_def ComputeInstanceConditionProgressing_def
  ComputeInstanceConditionAvailable_def ComputeInstanceConditionDeleting_def
  ComputeInstanceConditionRestartInProgress_def ComputeInstanceConditionRestartFailed_def

section \<open>Field updates\<close>

definition set_phase :: "compute_instance_phase \<Rightarrow> compute_instance \<Rightarrow> compute_instance" where
  "set_phase p ci = ci\<lparr>ci_status := (ci_status ci)\<lparr>cis_phase := p\<rparr>\<rparr>"

definition set_conditions :: "condition list \<Rightarrow> compute_instance \<Rightarrow> compute_instance" where
  "set_conditions cs ci = ci\<lparr>ci_status := (ci_status ci)\<lparr>cis_conditions := cs\<rparr>\<rparr>"

definition set_jobs :: "job_status list \<Rightarrow> compute_instance \<Rightarrow> compute_instance" where
  "set_jobs js ci = ci\<lparr>ci_status := (ci_status ci)\<lparr>cis_jobs := js\<rparr>\<rparr>"

definition set_finalizers :: "string list \<Rightarrow> compute_instance \<Rightarrow> compute_instance" where
  "set_finalizers fs ci = ci\<lparr>ci_meta := (ci_meta ci)\<lparr>om_finalizers := fs\<rparr>\<rparr>"

abbreviation ci_jobs :: "compute_instance \<Rightarrow> job_status list" where
  "ci_jobs ci \<equiv> cis_jobs (ci_status ci)"

abbreviation ci_phase :: "compute_instance \<Rightarrow> compute_instance_phase" where
  "ci_phase ci \<equiv> cis_phase (ci_status ci)"

abbreviation ci_conditions :: "compute_instance \<Rightarrow> condition list" where
  "ci_conditions ci \<equiv> cis_conditions (ci_status ci)"

abbreviation ci_finalizers :: "compute_instance \<Rightarrow> string list" where
  "ci_finalizers ci \<equiv> om_finalizers (ci_meta ci)"

abbreviation ci_annotations :: "compute_instance \<Rightarrow> (string \<rightharpoonup> string)" where
  "ci_annotations ci \<equiv> om_annotations (ci_meta ci)"

lemmas ci_updates [go_simps] = set_phase_def set_conditions_def set_jobs_def set_finalizers_def

section \<open>Conditions\<close>

definition GetStatusCondition :: "string \<Rightarrow> compute_instance \<Rightarrow> condition option" where
  "GetStatusCondition t ci = first_such (\<lambda>c. c_type c = t) (ci_conditions ci)"

definition IsStatusConditionTrue :: "string \<Rightarrow> compute_instance \<Rightarrow> bool" where
  "IsStatusConditionTrue t ci =
     (case GetStatusCondition t ci of None \<Rightarrow> False | Some c \<Rightarrow> c_status c = ConditionTrue)"

definition IsStatusConditionFalse :: "string \<Rightarrow> compute_instance \<Rightarrow> bool" where
  "IsStatusConditionFalse t ci =
     (case GetStatusCondition t ci of None \<Rightarrow> False | Some c \<Rightarrow> c_status c = ConditionFalse)"

definition IsStatusConditionUnknown :: "string \<Rightarrow> compute_instance \<Rightarrow> bool" where
  "IsStatusConditionUnknown t ci =
     (case GetStatusCondition t ci of None \<Rightarrow> True | Some c \<Rightarrow> c_status c = ConditionUnknown)"

text \<open>The three readers partition the instances.\<close>

lemma condition_readers_partition:
  "IsStatusConditionTrue t ci \<longleftrightarrow> \<not> IsStatusConditionFalse t ci \<and> \<not> IsStatusConditionUnknown t ci"
  "IsStatusConditionFalse t ci \<longrightarrow> \<not> IsStatusConditionUnknown t ci"
  by (auto simp: IsStatusConditionTrue_def IsStatusConditionFalse_def IsStatusConditionUnknown_def
      split: option.splits intro: cond_status.exhaust)

section \<open>References\<close>

definition ensureVirtualMachineReference :: "compute_instance \<Rightarrow> virtual_machine_reference" where
  "ensureVirtualMachineReference ci =
     (case cis_virtualMachineReference (ci_status ci) of
        None \<Rightarrow> \<lparr>vmr_namespace = [], vmr_kubeVirtVirtualMachineName = []\<rparr> | Some r \<Rightarrow> r)"

definition SetVirtualMachineReferenceNamespace :: "string \<Rightarrow> compute_instance \<Rightarrow> compute_instance" where
  "SetVirtualMachineReferenceNamespace name ci =
     ci\<lparr>ci_status := (ci_status ci)\<lparr>cis_virtualMachineReference :=
       Some ((ensureVirtualMachineReference ci)\<lparr>vmr_namespace := name\<rparr>)\<rparr>\<rparr>"

definition SetVirtualMachineReferenceKubeVirtVirtualMachineName ::
    "string \<Rightarrow> compute_instance \<Rightarrow> compute_instance" where
  "SetVirtualMachineReferenceKubeVirtVirtualMachineName name ci =
     ci\<lparr>ci_status := (ci_status ci)\<lparr>cis_virtualMachineReference :=
       Some ((ensureVirtualMachineReference ci)\<lparr>vmr_kubeVirtVirtualMachineName := name\<rparr>)\<rparr>\<rparr>"

definition GetVirtualMachineReferenceNamespace :: "compute_instance \<Rightarrow> string" where
  "GetVirtualMachineReferenceNamespace ci =
     (case cis_virtualMachineReference (ci_status ci) of None \<Rightarrow> [] | Some r \<Rightarrow> vmr_namespace r)"

definition GetVirtualMachineReferenceKubeVirtVirtualMachineName :: "compute_instance \<Rightarrow> string" where
  "GetVirtualMachineReferenceKubeVirtVirtualMachineName ci =
     (case cis_virtualMachineReference (ci_status ci) of
        None \<Rightarrow> [] | Some r \<Rightarrow> vmr_kubeVirtVirtualMachineName r)"

definition ensureTenantReference :: "compute_instance \<Rightarrow> tenant_reference" where
  "ensureTenantReference ci =
     (case cis_tenantReference (ci_status ci) of
        None \<Rightarrow> \<lparr>tr_name = [], tr_namespace = []\<rparr> | Some r \<Rightarrow> r)"

definition SetTenantReferenceName :: "string \<Rightarrow> compute_instance \<Rightarrow> compute_instance" where
  "SetTenantReferenceName name ci =
     ci\<lparr>ci_status := (ci_status ci)\<lparr>cis_tenantReference :=
       Some ((ensureTenantReference ci)\<lparr>tr_name := name\<rparr>)\<rparr>\<rparr>"

definition SetTenantReferenceNamespace :: "string \<Rightarrow> compute_instance \<Rightarrow> compute_instance" where
  "SetTenantReferenceNamespace name ci =
     ci\<lparr>ci_status := (ci_status ci)\<lparr>cis_tenantReference :=
       Some ((ensureTenantReference ci)\<lparr>tr_namespace := name\<rparr>)\<rparr>\<rparr>"

definition GetTenantReferenceName :: "compute_instance \<Rightarrow> string" where
  "GetTenantReferenceName ci =
     (case cis_tenantReference (ci_status ci) of None \<Rightarrow> [] | Some r \<Rightarrow> tr_name r)"

definition GetTenantReferenceNamespace :: "compute_instance \<Rightarrow> string" where
  "GetTenantReferenceNamespace ci =
     (case cis_tenantReference (ci_status ci) of None \<Rightarrow> [] | Some r \<Rightarrow> tr_namespace r)"

lemmas ci_reference_defs =
  ensureVirtualMachineReference_def SetVirtualMachineReferenceNamespace_def
  SetVirtualMachineReferenceKubeVirtVirtualMachineName_def GetVirtualMachineReferenceNamespace_def
  GetVirtualMachineReferenceKubeVirtVirtualMachineName_def ensureTenantReference_def
  SetTenantReferenceName_def SetTenantReferenceNamespace_def GetTenantReferenceName_def
  GetTenantReferenceNamespace_def

interpretation vm_ref: ref_fields
  GetVirtualMachineReferenceNamespace SetVirtualMachineReferenceNamespace
  GetVirtualMachineReferenceKubeVirtVirtualMachineName
  SetVirtualMachineReferenceKubeVirtVirtualMachineName
  by unfold_locales (auto simp: ci_reference_defs split: option.splits)

interpretation tenant_ref: ref_fields
  GetTenantReferenceName SetTenantReferenceName
  GetTenantReferenceNamespace SetTenantReferenceNamespace
  by unfold_locales (auto simp: ci_reference_defs split: option.splits)

end
