(* ===== verification/Tenant_Types.thy ===== *)
theory Tenant_Types
  imports Meta_Types
begin

text \<open>\<open>api/v1alpha1/tenant_types.go\<close>: the Tenant resource.\<close>

datatype tenant_phase =
    TenantPhaseUnset | TenantPhaseProgressing | TenantPhaseFailed | TenantPhaseReady | TenantPhaseDeleting

record tenant_status =
  ts_phase :: tenant_phase
  ts_namespace :: string

record tenant =
  tn_meta :: object_meta
  tn_spec_name :: string  \<comment> \<open>\<open>Spec.Name\<close>, the only field of the spec\<close>
  tn_status :: tenant_status
  tn_ownerReferences :: "string list"  \<comment> \<open>names of the owning compute instances\<close>

definition tenant_set_phase :: "tenant_phase \<Rightarrow> tenant \<Rightarrow> tenant" where
  "tenant_set_phase p t = t\<lparr>tn_status := (tn_status t)\<lparr>ts_phase := p\<rparr>\<rparr>"

definition tenant_set_namespace :: "string \<Rightarrow> tenant \<Rightarrow> tenant" where
  "tenant_set_namespace n t = t\<lparr>tn_status := (tn_status t)\<lparr>ts_namespace := n\<rparr>\<rparr>"

definition tenant_set_finalizers :: "string list \<Rightarrow> tenant \<Rightarrow> tenant" where
  "tenant_set_finalizers fs t = t\<lparr>tn_meta := (tn_meta t)\<lparr>om_finalizers := fs\<rparr>\<rparr>"

lemmas tenant_updates [go_simps] =
  tenant_set_phase_def tenant_set_namespace_def tenant_set_finalizers_def

end
