(* ===== verification/Cluster_Order_Types.thy ===== *)
theory Cluster_Order_Types
  imports Meta_Types
begin

text \<open>
  \<open>api/v1alpha1/clusterorder_types.go\<close> and \<open>clusterorder_clusterreference.go\<close>: the
  ClusterOrder resource and the accessors of its cluster reference; the condition names of
  \<open>api/v1alpha1/conditions.go\<close>.
\<close>

record node_request =
  nr_resourceClass :: string
  nr_numberOfNodes :: int

record cluster_order_spec =
  cos_templateID :: string
  cos_templateParameters :: string
  cos_nodeRequests :: "node_request list"

datatype cluster_order_phase =
    ClusterOrderPhaseUnset | ClusterOrderPhaseProgressing | ClusterOrderPhaseFailed
  | ClusterOrderPhaseReady | ClusterOrderPhaseDeleting

record cluster_reference =
  cr_namespace :: string
  cr_hostedClusterName :: string
  cr_serviceAccountName :: string
  cr_roleBindingName :: string

record cluster_order_status =
  cost_phase :: cluster_order_phase
  cost_conditions :: "condition list"
  cost_clusterReference :: "cluster_reference option"
  cost_nodeRequests :: "node_request list"

record cluster_order =
  co_meta :: object_meta
  co_spec :: cluster_order_spec
  co_status :: cluster_order_status

definition ClusterOrder_GetName :: "cluster_order \<Rightarrow> string" where
  "ClusterOrder_GetName co = om_name (co_meta co)"

section \<open>Condition and reason names\<close>

definition ConditionAccepted :: string where "ConditionAccepted = ''Accepted''"
definition ConditionNamespaceCreated :: string where "ConditionNamespaceCreated = ''NamespaceCreated''"
definition ConditionControlPlaneCreated :: string where
  "ConditionControlPlaneCreated = ''ControlPlaneCreated''"
definition ConditionControlPlaneAvailable :: string where
  "ConditionControlPlaneAvailable = ''ControlPlaneAvailable''"
definition ConditionClusterAvailable :: string where "ConditionClusterAvailable = ''ClusterAvailable''"
definition ConditionProgressing :: string where "ConditionProgressing = ''Progressing''"
definition ConditionDeleting :: string where "ConditionDeleting = ''Deleting''"

definition ReasonInitialized :: string where "ReasonInitialized = ''Initialized''"
definition ReasonAsExpected :: string where "ReasonAsExpected = ''AsExpected''"
definition ReasonProgressing :: string where "ReasonProgressing = ''Progressing''"

lemmas condition_names = ConditionAccepted_def ConditionNamespaceCreated_def
  ConditionControlPlaneCreated_def ConditionControlPlaneAvailable_def ConditionClusterAvailable_def
  ConditionProgressing_def ConditionDeleting_def

text \<open>The condition types the cluster feedback controller tells apart.\<close>

definition ClusterOrderConditionAccepted :: string where "ClusterOrderConditionAccepted = ''Accepted''"
definition ClusterOrderConditionProgressing :: string where
  "ClusterOrderConditionProgressing = ''Progressing''"
definition ClusterOrderConditionControlPlaneAvailable :: string where
  "ClusterOrderConditionControlPlaneAvailable = ''ControlPlaneAvailable''"
definition ClusterOrderConditionAvailable :: string where
  "ClusterOrderConditionAvailable = ''Available''"

lemmas cluster_order_condition_types = ClusterOrderConditionAccepted_def
  ClusterOrderConditionProgressing_def ClusterOrderConditionControlPlaneAvailable_def
  ClusterOrderConditionAvailable_def

section \<open>Field updates\<close>

definition co_set_phase :: "cluster_order_phase \<Rightarrow> cluster_order \<Rightarrow> cluster_order" where
  "co_set_phase p co = co\<lparr>co_status := (co_status co)\<lparr>cost_phase := p\<rparr>\<rparr>"

definition co_set_conditions :: "condition list \<Rightarrow> cluster_order \<Rightarrow> cluster_order" where
  "co_set_conditions cs co = co\<lparr>co_status := (co_status co)\<lparr>cost_conditions := cs\<rparr>\<rparr>"

definition co_set_finalizers :: "string list \<Rightarrow> cluster_order \<Rightarrow> cluster_order" where
  "co_set_finalizers fs co = co\<lparr>co_meta := (co_meta co)\<lparr>om_finalizers := fs\<rparr>\<rparr>"

abbreviation co_conditions :: "cluster_order \<Rightarrow> condition list" where
  "co_conditions co \<equiv> cost_conditions (co_status co)"

lemmas co_updates [go_simps] = co_set_phase_def co_set_conditions_def co_set_finalizers_def

section \<open>The cluster reference\<close>

definition ensureClusterReference :: "cluster_order \<Rightarrow> cluster_reference" where
  "ensureClusterReference co =
     (case cost_clusterReference (co_status co) of
        None \<Rightarrow> \<lparr>cr_namespace = [], cr_hostedClusterName = [],
                 cr_serviceAccountName = [], cr_roleBindingName = []\<rparr>
      | Some r \<Rightarrow> r)"

definition upd_clusterReference ::
    "(cluster_reference \<Rightarrow> cluster_reference) \<Rightarrow> cluster_order \<Rightarrow> cluster_order" where
  "upd_clusterReference f co =
     co\<lparr>co_status := (co_status co)\<lparr>cost_clusterReference := Some (f (ensureClusterReference co))\<rparr>\<rparr>"

definition SetClusterReferenceNamespace :: "string \<Rightarrow> cluster_order \<Rightarrow> cluster_order" where
  "SetClusterReferenceNamespace name = upd_clusterReference (\<lambda>r. r\<lparr>cr_namespace := name\<rparr>)"

definition SetClusterReferenceServiceAccountName :: "string \<Rightarrow> cluster_order \<Rightarrow> cluster_order" where
  "SetClusterReferenceServiceAccountName name =
     upd_clusterReference (\<lambda>r. r\<lparr>cr_serviceAccountName := name\<rparr>)"

definition SetClusterReferenceRoleBindingName :: "string \<Rightarrow> cluster_order \<Rightarrow> cluster_order" where
  "SetClusterReferenceRoleBindingName name = upd_clusterReference (\<lambda>r. r\<lparr>cr_roleBindingName := name\<rparr>)"

definition SetClusterReferenceHostedClusterName :: "string \<Rightarrow> cluster_order \<Rightarrow> cluster_order" where
  "SetClusterReferenceHostedClusterName name =
     upd_clusterReference (\<lambda>r. r\<lparr>cr_hostedClusterName := name\<rparr>)"

definition get_clusterReference :: "(cluster_reference \<Rightarrow> string) \<Rightarrow> cluster_order \<Rightarrow> string" where
  "get_clusterReference f co = (case cost_clusterReference (co_status co) of None \<Rightarrow> [] | Some r \<Rightarrow> f r)"

definition GetClusterReferenceNamespace :: "cluster_order \<Rightarrow> string" where
  "GetClusterReferenceNamespace = get_clusterReference cr_namespace"

definition GetClusterReferenceServiceAccountName :: "cluster_order \<Rightarrow> string" where
  "GetClusterReferenceServiceAccountName = get_clusterReference cr_serviceAccountName"

definition GetClusterReferenceRoleBindingName :: "cluster_order \<Rightarrow> string" where
  "GetClusterReferenceRoleBindingName = get_clusterReference cr_roleBindingName"

definition GetClusterReferenceHostedClusterName :: "cluster_order \<Rightarrow> string" where
  "GetClusterReferenceHostedClusterName = get_clusterReference cr_hostedClusterName"

lemmas co_reference_defs = ensureClusterReference_def upd_clusterReference_def get_clusterReference_def
  SetClusterReferenceNamespace_def SetClusterReferenceServiceAccountName_def
  SetClusterReferenceRoleBindingName_def SetClusterReferenceHostedClusterName_def
  GetClusterReferenceNamespace_def GetClusterReferenceServiceAccountName_def
  GetClusterReferenceRoleBindingName_def GetClusterReferenceHostedClusterName_def

interpretation co_namespace_sa: ref_fields
  GetClusterReferenceNamespace SetClusterReferenceNamespace
  GetClusterReferenceServiceAccountName SetClusterReferenceServiceAccountName
  by unfold_locales (auto simp: co_reference_defs split: option.splits)

interpretation co_rolebinding_hosted: ref_fields
  GetClusterReferenceRoleBindingName SetClusterReferenceRoleBindingName
  GetClusterReferenceHostedClusterName SetClusterReferenceHostedClusterName
  by unfold_locales (auto simp: co_reference_defs split: option.splits)

interpretation co_namespace_rolebinding: ref_fields
  GetClusterReferenceNamespace SetClusterReferenceNamespace
  GetClusterReferenceRoleBindingName SetClusterReferenceRoleBindingName
  by unfold_locales (auto simp: co_reference_defs split: option.splits)

end
