(* ===== verification/Host_Pool_Types.thy ===== *)
theory Host_Pool_Types
  imports Meta_Types
begin

text \<open>
  \<open>api/v1alpha1/hostpool_types.go\<close>, \<open>hostpool_conditions.go\<close> (the readers and
  \<open>RemoveCondition\<close>) and \<open>hostpool_hostpoolreference.go\<close>: the HostPool resource.
\<close>

record host_set =
  hs_hostClass :: string
  hs_size :: int

datatype host_pool_phase =
    HostPoolPhaseUnset | HostPoolPhaseProgressing | HostPoolPhaseFailed
  | HostPoolPhaseReady | HostPoolPhaseDeleting

record host_pool_status =
  hps_phase :: host_pool_phase
  hps_conditions :: "condition list"
  hps_hostPoolReference :: "string option"  \<comment> \<open>the namespace, the reference's only field\<close>
  hps_hostSets :: "host_set list"

record host_pool =
  hp_meta :: object_meta
  hp_spec_hostSets :: "host_set list"
  hp_status :: host_pool_status

definition HostPool_GetName :: "host_pool \<Rightarrow> string" where
  "HostPool_GetName hp = om_name (hp_meta hp)"

definition HostPoolConditionAccepted :: string where "HostPoolConditionAccepted = ''Accepted''"
definition HostPoolConditionProgressing :: string where "HostPoolConditionProgressing = ''Progressing''"
definition HostPoolConditionAvailable :: string where "HostPoolConditionAvailable = ''Available''"
definition HostPoolConditionDeleting :: string where "HostPoolConditionDeleting = ''Deleting''"

lemmas hp_condition_types = HostPoolConditionAccepted_def HostPoolConditionProgressing_def
  HostPoolConditionAvailable_def HostPoolConditionDeleting_def

definition hp_set_phase :: "host_pool_phase \<Rightarrow> host_pool \<Rightarrow> host_pool" where
  "hp_set_phase p hp = hp\<lparr>hp_status := (hp_status hp)\<lparr>hps_phase := p\<rparr>\<rparr>"

definition hp_set_conditions :: "condition list \<Rightarrow> host_pool \<Rightarrow> host_pool" where
  "hp_set_conditions cs hp = hp\<lparr>hp_status := (hp_status hp)\<lparr>hps_conditions := cs\<rparr>\<rparr>"

definition hp_set_hostSets :: "host_set list \<Rightarrow> host_pool \<Rightarrow> host_pool" where
  "hp_set_hostSets hs hp = hp\<lparr>hp_status := (hp_status hp)\<lparr>hps_hostSets := hs\<rparr>\<rparr>"

definition hp_set_finalizers :: "string list \<Rightarrow> host_pool \<Rightarrow> host_pool" where
  "hp_set_finalizers fs hp = hp\<lparr>hp_meta := (hp_meta hp)\<lparr>om_finalizers := fs\<rparr>\<rparr>"

abbreviation hp_conditions :: "host_pool \<Rightarrow> condition list" where
  "hp_conditions hp \<equiv> hps_conditions (hp_status hp)"

lemmas hp_updates [go_simps] =
  hp_set_phase_def hp_set_conditions_def hp_set_hostSets_def hp_set_finalizers_def

section \<open>Conditions\<close>

definition GetCondition :: "string \<Rightarrow> host_pool \<Rightarrow> condition option" where
  "GetCondition t hp = first_such (\<lambda>c. c_type c = t) (hp_conditions hp)"

definition IsConditionTrue :: "string \<Rightarrow> host_pool \<Rightarrow> bool" where
  "IsConditionTrue t hp =
     (case GetCondition t hp of None \<Rightarrow> False | Some c \<Rightarrow> c_status c = ConditionTrue)"

definition IsConditionFalse :: "string \<Rightarrow> host_pool \<Rightarrow> bool" where
  "IsConditionFalse t hp =
     (case GetCondition t hp of None \<Rightarrow> False | Some c \<Rightarrow> c_status c = ConditionFalse)"

fun remove_first_condition :: "string \<Rightarrow> condition list \<Rightarrow> condition list" where
  "remove_first_condition t [] = []"
| "remove_first_condition t (c # cs) =
     (if c_type c = t then cs else c # remove_first_condition t cs)"

definition RemoveCondition :: "string \<Rightarrow> host_pool \<Rightarrow> host_pool" where
  "RemoveCondition t hp = hp_set_conditions (remove_first_condition t (hp_conditions hp)) hp"

section \<open>The reference\<close>

definition SetHostPoolReferenceNamespace :: "string \<Rightarrow> host_pool \<Rightarrow> host_pool" where
  "SetHostPoolReferenceNamespace name hp =
     hp\<lparr>hp_status := (hp_status hp)\<lparr>hps_hostPoolReference := Some name\<rparr>\<rparr>"

definition GetHostPoolReferenceNamespace :: "host_pool \<Rightarrow> string" where
  "GetHostPoolReferenceNamespace hp =
     (case hps_hostPoolReference (hp_status hp) of None \<Rightarrow> [] | Some n \<Rightarrow> n)"

interpretation hp_ref: ref_field GetHostPoolReferenceNamespace SetHostPoolReferenceNamespace
  by unfold_locales (simp_all add: GetHostPoolReferenceNamespace_def SetHostPoolReferenceNamespace_def)

end
