(* ===== verification/Fulfillment_Types.thy ===== *)
theory Fulfillment_Types
  imports Meta_Types
begin

text \<open>
  The records of the fulfillment service that the feedback controllers read and write
  (\<open>internal/api/private/v1/*_type.pb.go\<close>, \<open>internal/api/shared/v1/condition_status_type.pb.go\<close>).
  Fields the operator never touches (metadata, template parameters) are kept as opaque
  strings; a message pointer is an option; a message map an association list, in the order in
  which \<open>range\<close> visits it.
\<close>

datatype fulfillment_status = CONDITION_STATUS_UNSPECIFIED | CONDITION_STATUS_TRUE | CONDITION_STATUS_FALSE

record 'k api_condition =
  ac_type :: 'k
  ac_status :: fulfillment_status
  ac_lastTransitionTime :: "time option"
  ac_reason :: "string option"
  ac_message :: "string option"

section \<open>Compute instances\<close>

datatype compute_instance_state =
    COMPUTE_INSTANCE_STATE_UNSPECIFIED | COMPUTE_INSTANCE_STATE_STARTING
  | COMPUTE_INSTANCE_STATE_RUNNING | COMPUTE_INSTANCE_STATE_FAILED | COMPUTE_INSTANCE_STATE_DELETING

datatype compute_instance_condition_type =
    CI_TYPE_UNSPECIFIED | CI_TYPE_PROGRESSING | CI_TYPE_AVAILABLE | CI_TYPE_FAILED
  | CI_TYPE_DEGRADED | CI_TYPE_RESTART_IN_PROGRESS | CI_TYPE_RESTART_FAILED

record pci_status =
  pcis_state :: compute_instance_state
  pcis_conditions :: "compute_instance_condition_type api_condition list"
  pcis_ipAddress :: string
  pcis_hub :: string
  pcis_lastRestartedAt :: "time option"

record private_ci =
  pci_id :: string
  pci_metadata :: string
  pci_spec :: "string option"
  pci_status :: "pci_status option"

definition empty_pci_status :: pci_status where
  "empty_pci_status = \<lparr>pcis_state = COMPUTE_INSTANCE_STATE_UNSPECIFIED, pcis_conditions = [],
     pcis_ipAddress = [], pcis_hub = [], pcis_lastRestartedAt = None\<rparr>"

section \<open>Clusters\<close>

datatype cluster_state =
    CLUSTER_STATE_UNSPECIFIED | CLUSTER_STATE_PROGRESSING | CLUSTER_STATE_READY | CLUSTER_STATE_FAILED

datatype cluster_condition_type =
    CLUSTER_TYPE_UNSPECIFIED | CLUSTER_TYPE_PROGRESSING | CLUSTER_TYPE_READY | CLUSTER_TYPE_FAILED
  | CLUSTER_TYPE_DEGRADED

record cluster_node_set =
  cns_hostClass :: string
  cns_size :: int  \<comment> \<open>an int32\<close>

record pcl_spec =
  pcls_template :: string
  pcls_templateParameters :: string
  pcls_nodeSets :: "(string \<times> cluster_node_set) list"

record pcl_status =
  pclst_state :: cluster_state
  pclst_conditions :: "cluster_condition_type api_condition list"
  pclst_apiUrl :: string
  pclst_consoleUrl :: string
  pclst_nodeSets :: "(string \<times> cluster_node_set) list"
  pclst_hub :: string

record private_cluster =
  pcl_id :: string
  pcl_metadata :: string
  pcl_spec :: "pcl_spec option"
  pcl_status :: "pcl_status option"

definition empty_pcl_spec :: pcl_spec where
  "empty_pcl_spec = \<lparr>pcls_template = [], pcls_templateParameters = [], pcls_nodeSets = []\<rparr>"

definition empty_pcl_status :: pcl_status where
  "empty_pcl_status = \<lparr>pclst_state = CLUSTER_STATE_UNSPECIFIED, pclst_conditions = [], pclst_apiUrl = [],
     pclst_consoleUrl = [], pclst_nodeSets = [], pclst_hub = []\<rparr>"

section \<open>Host pools\<close>

datatype host_pool_state =
    HOST_POOL_STATE_UNSPECIFIED | HOST_POOL_STATE_PROGRESSING | HOST_POOL_STATE_READY
  | HOST_POOL_STATE_FAILED

datatype host_pool_condition_type =
    HP_TYPE_UNSPECIFIED | HP_TYPE_PROGRESSING | HP_TYPE_READY | HP_TYPE_FAILED | HP_TYPE_DEGRADED

record php_status =
  phps_state :: host_pool_state
  phps_hosts :: "string list"
  phps_conditions :: "host_pool_condition_type api_condition list"
  phps_hostSets :: string
  phps_hub :: string

record private_hp =
  php_id :: string
  php_metadata :: string
  php_spec :: "string option"
  php_status :: "php_status option"

definition empty_php_status :: php_status where
  "empty_php_status = \<lparr>phps_state = HOST_POOL_STATE_UNSPECIFIED, phps_hosts = [], phps_conditions = [],
     phps_hostSets = [], phps_hub = []\<rparr>"

end
