(* ===== verification/World.thy ===== *)
theory World
  imports Compute_Instance_Types Tenant_Types Cluster_Order_Types Host_Pool_Types Fulfillment_Types
begin

text \<open>
  The world outside the operator, and how the model's operations talk to it.

  Every call that leaves the process (a request to the Kubernetes API server, to AAP, to an
  EDA webhook or to the fulfillment service, and every reading of the clock) is an
  \<open>event\<close>. \<open>request\<close> appends it to the world's trace and answers with an arbitrary
  function of the trace so far, a field of \<open>env\<close>: the model says nothing about the
  environment that is not a named law below. The world also holds the two caches the
  operator keeps in memory across reconciliations. Third-party helpers that only compute
  (\<open>controllerutil\<close>, \<open>apimachinery/meta\<close>, the JSON codec) are functions of \<open>env\<close> too.
\<close>

section \<open>Objects of other projects\<close>

record namespace_obj =
  ns_meta :: object_meta
  ns_terminating :: bool

record virtual_machine =
  vm_meta :: object_meta
  vm_conditions :: "(string \<times> string) list"  \<comment> \<open>type and status\<close>

record virtual_machine_instance =
  vmi_meta :: object_meta
  vmi_creationTimestamp :: time

record udn_spec =
  udn_topology :: string
  udn_role :: string
  udn_ipamLifecycle :: string
  udn_subnets :: "string list"

record user_defined_network =
  udn_meta :: object_meta
  udn_spec_of :: udn_spec

record service_account =
  sa_meta :: object_meta

record rbac_subject =
  subj_kind :: string
  subj_name :: string
  subj_namespace :: string

record role_ref =
  rr_apiGroup :: string
  rr_kind :: string
  rr_name :: string

record role_binding =
  rb_meta :: object_meta
  rb_subjects :: "rbac_subject list"
  rb_roleRef :: role_ref

record hosted_cluster =
  hc_meta :: object_meta
  hc_conditions :: "condition list"
  hc_endpointHost :: string   \<comment> \<open>\<open>Status.ControlPlaneEndpoint\<close>\<close>
  hc_endpointPort :: int      \<comment> \<open>an int32\<close>
  hc_baseDomain :: string     \<comment> \<open>\<open>Spec.DNS.BaseDomain\<close>\<close>

record node_pool =
  np_meta :: object_meta
  np_replicas :: int  \<comment> \<open>an int32\<close>

definition new_meta :: "string \<Rightarrow> string \<Rightarrow> (string \<rightharpoonup> string) \<Rightarrow> object_meta" where
  "new_meta name ns labels =
     \<lparr>om_name = name, om_namespace = ns, om_labels = labels, om_annotations = Map.empty,
      om_finalizers = [], om_deletionTimestamp = None, om_generation = 0\<rparr>"

datatype kind =
    KindComputeInstance | KindTenant | KindClusterOrder | KindHostPool | KindNamespace
  | KindVirtualMachine | KindVirtualMachineInstance | KindUserDefinedNetwork
  | KindServiceAccount | KindRoleBinding | KindHostedCluster | KindNodePool

datatype k8s_object =
    KComputeInstance compute_instance | KTenant tenant | KClusterOrder cluster_order
  | KHostPool host_pool | KNamespace namespace_obj
  | KVirtualMachineInstance virtual_machine_instance
  | KUserDefinedNetwork user_defined_network | KServiceAccount service_account
  | KRoleBinding role_binding

section \<open>JSON and HTTP\<close>

datatype json =
    JNull | JBool bool | JInt int | JFrac string | JStr string | JArr "json list"
  | JObj "(string \<times> json) list"

record http_request =
  hr_method :: string
  hr_url :: string
  hr_headers :: "(string \<times> string) list"
  hr_body :: "string option"

text \<open>
  The answer's body is read to its end: the bytes, or the text of the error of the reading.
  Errors of Go's own packages are foreign to the operator: their text is all there is to them.
\<close>

record http_response =
  hs_statusCode :: int
  hs_body :: "string + string"

section \<open>Events\<close>

datatype rpc_record = RpcComputeInstance private_ci | RpcCluster private_cluster | RpcHostPool private_hp

datatype service = ComputeInstances | Clusters | HostPools

datatype event =
    EvNow
  | EvHttp http_request
  | EvGet kind object_key
  | EvList kind "string option" "(string \<times> string) list"  \<comment> \<open>namespace and label selector\<close>
  | EvUpdate k8s_object
  | EvStatusUpdate k8s_object
  | EvDelete k8s_object
  | EvFetch k8s_object    \<comment> \<open>the reading half of \<open>CreateOrUpdate\<close>\<close>
  | EvCommit k8s_object   \<comment> \<open>its writing half\<close>
  | EvRpcGet service string
  | EvRpcUpdate rpc_record
  | EvRpcSignal service string

type_synonym history = "event list"  \<comment> \<open>newest first\<close>

section \<open>The state kept in memory\<close>

datatype template_type = TemplateTypeJob | TemplateTypeWorkflow | TemplateTypeOther string

record template =
  tmpl_id :: int
  tmpl_name :: string
  tmpl_type :: template_type

record world =
  trace :: history
  templates :: "string \<rightharpoonup> template"        \<comment> \<open>\<open>aap.Client.templateCache\<close>\<close>
  inflight :: "(string \<times> time) list"        \<comment> \<open>\<open>WebhookClient.inflightRequests\<close>\<close>

type_synonym 'a act = "(world, 'a) state"

definition request :: "event \<Rightarrow> (history \<Rightarrow> 'a) \<Rightarrow> 'a act" where
  "request e f = State (\<lambda>w. (f (trace w), w\<lparr>trace := e # trace w\<rparr>))"

lemma run_request [simp]: "run_state (request e f) w = (f (trace w), w\<lparr>trace := e # trace w\<rparr>)"
  by (simp add: request_def)

section \<open>The environment\<close>

text \<open>Pure helpers of third-party packages.\<close>

record go_lib =
  containsFinalizer :: "string list \<Rightarrow> string \<Rightarrow> bool"
  addFinalizer :: "string list \<Rightarrow> string \<Rightarrow> bool \<times> string list"
  removeFinalizer :: "string list \<Rightarrow> string \<Rightarrow> bool \<times> string list"
  setStatusCondition :: "time \<Rightarrow> condition \<Rightarrow> condition list \<Rightarrow> condition list"
  removeStatusCondition :: "string \<Rightarrow> condition list \<Rightarrow> bool \<times> condition list"
  findStatusCondition :: "string \<Rightarrow> condition list \<Rightarrow> condition option"
  isStatusConditionTrue :: "condition list \<Rightarrow> string \<Rightarrow> bool"
  isStatusConditionFalse :: "condition list \<Rightarrow> string \<Rightarrow> bool"
  json_parse :: "string \<Rightarrow> json option"
  json_error :: "string \<Rightarrow> string"
  json_print :: "json \<Rightarrow> string"
  marshal_compute_instance :: "compute_instance \<Rightarrow> string + json"
  marshal_cluster_order :: "cluster_order \<Rightarrow> string + json"
  marshal_host_pool :: "host_pool \<Rightarrow> string + json"
  marshal_ci_spec :: "compute_instance_spec \<Rightarrow> string + string"
  parse_rfc3339 :: "string \<Rightarrow> time option"
  format_rfc3339 :: "time \<Rightarrow> string"
  parse_duration :: "string \<Rightarrow> duration option"
  setOwnerReference :: "compute_instance \<Rightarrow> tenant \<Rightarrow> go_error + tenant"
  retryOnConflict :: "(go_error option) act \<Rightarrow> (go_error option) act"

text \<open>Answers of the Kubernetes API server, one function for each call the operator makes.\<close>

record kube_api =
  get_compute_instance :: "object_key \<Rightarrow> history \<Rightarrow> go_error + compute_instance"
  update_compute_instance :: "compute_instance \<Rightarrow> history \<Rightarrow> go_error + compute_instance"
  update_compute_instance_status :: "compute_instance \<Rightarrow> history \<Rightarrow> go_error + compute_instance"
  get_tenant :: "object_key \<Rightarrow> history \<Rightarrow> go_error + tenant"
  update_tenant :: "tenant \<Rightarrow> history \<Rightarrow> go_error + tenant"
  update_tenant_status :: "tenant \<Rightarrow> history \<Rightarrow> go_error + tenant"
  fetch_tenant :: "tenant \<Rightarrow> history \<Rightarrow> go_error option \<times> tenant"
  commit_tenant :: "tenant \<Rightarrow> history \<Rightarrow> go_error option \<times> tenant"
  get_cluster_order :: "object_key \<Rightarrow> history \<Rightarrow> go_error + cluster_order"
  update_cluster_order :: "cluster_order \<Rightarrow> history \<Rightarrow> go_error + cluster_order"
  update_cluster_order_status :: "cluster_order \<Rightarrow> history \<Rightarrow> go_error + cluster_order"
  get_host_pool :: "object_key \<Rightarrow> history \<Rightarrow> go_error + host_pool"
  update_host_pool :: "host_pool \<Rightarrow> history \<Rightarrow> go_error + host_pool"
  update_host_pool_status :: "host_pool \<Rightarrow> history \<Rightarrow> go_error + host_pool"
  get_namespace :: "object_key \<Rightarrow> history \<Rightarrow> go_error + namespace_obj"
  list_namespaces :: "(string \<times> string) list \<Rightarrow> history \<Rightarrow> go_error + namespace_obj list"
  delete_namespace :: "namespace_obj \<Rightarrow> history \<Rightarrow> go_error option"
  fetch_namespace :: "namespace_obj \<Rightarrow> history \<Rightarrow> go_error option \<times> namespace_obj"
  commit_namespace :: "namespace_obj \<Rightarrow> history \<Rightarrow> go_error option \<times> namespace_obj"
  list_virtual_machines :: "string \<Rightarrow> (string \<times> string) list \<Rightarrow> history \<Rightarrow> go_error + virtual_machine list"
  get_vmi :: "object_key \<Rightarrow> history \<Rightarrow> go_error + virtual_machine_instance"
  delete_vmi :: "virtual_machine_instance \<Rightarrow> history \<Rightarrow> go_error option"
  get_udn :: "object_key \<Rightarrow> history \<Rightarrow> go_error + user_defined_network"
  delete_udn :: "user_defined_network \<Rightarrow> history \<Rightarrow> go_error option"
  fetch_udn :: "user_defined_network \<Rightarrow> history \<Rightarrow> go_error option \<times> user_defined_network"
  commit_udn :: "user_defined_network \<Rightarrow> history \<Rightarrow> go_error option \<times> user_defined_network"
  fetch_service_account :: "service_account \<Rightarrow> history \<Rightarrow> go_error option \<times> service_account"
  commit_service_account :: "service_account \<Rightarrow> history \<Rightarrow> go_error option \<times> service_account"
  fetch_role_binding :: "role_binding \<Rightarrow> history \<Rightarrow> go_error option \<times> role_binding"
  commit_role_binding :: "role_binding \<Rightarrow> history \<Rightarrow> go_error option \<times> role_binding"
  get_hosted_cluster :: "object_key \<Rightarrow> history \<Rightarrow> go_error + hosted_cluster"
  list_hosted_clusters :: "string \<Rightarrow> (string \<times> string) list \<Rightarrow> history \<Rightarrow> go_error + hosted_cluster list"
  list_node_pools :: "string \<Rightarrow> (string \<times> string) list \<Rightarrow> history \<Rightarrow> go_error + node_pool list"

text \<open>Answers of the fulfillment service.\<close>

record rpc_api =
  rpc_get_ci :: "string \<Rightarrow> history \<Rightarrow> go_error + private_ci"
  rpc_update_ci :: "private_ci \<Rightarrow> history \<Rightarrow> go_error option"
  rpc_signal_ci :: "string \<Rightarrow> history \<Rightarrow> go_error option"
  rpc_get_cluster :: "string \<Rightarrow> history \<Rightarrow> go_error + private_cluster"
  rpc_update_cluster :: "private_cluster \<Rightarrow> history \<Rightarrow> go_error option"
  rpc_get_host_pool :: "string \<Rightarrow> history \<Rightarrow> go_error + private_hp"
  rpc_update_host_pool :: "private_hp \<Rightarrow> history \<Rightarrow> go_error option"

record env =
  lib :: go_lib
  kube :: kube_api
  rpc :: rpc_api
  clock :: "history \<Rightarrow> time"
  http_new :: "string \<Rightarrow> string \<Rightarrow> string option"           \<comment> \<open>the error of \<open>http.NewRequest\<close>\<close>
  http_do :: "duration \<Rightarrow> http_request \<Rightarrow> history \<Rightarrow> string + http_response"

definition now :: "env \<Rightarrow> time act" where
  "now E = request EvNow (clock E)"

lemma run_now [simp]: "run_state (now E) w = (clock E (trace w), w\<lparr>trace := EvNow # trace w\<rparr>)"
  by (simp add: now_def)

text \<open>\<open>time.Since\<close>: the difference saturates at the range of a duration.\<close>

definition sub_time :: "time \<Rightarrow> time \<Rightarrow> duration" where
  "sub_time a b = max (- max_int - 1) (min max_int (a - b))"

definition since :: "env \<Rightarrow> time \<Rightarrow> duration act" where
  "since E t = do { n \<leftarrow> now E; State_Monad.return (sub_time n t) }"

end
