(* ===== verification/Effects.thy ===== *)
theory Effects
  imports World
begin

text \<open>
  Reasoning about effectful operations: the events an operation can issue (\<open>footprint\<close>),
  partial-correctness triples over the world (\<open>triple\<close>), and the laws of third-party code
  that properties may assume, with a concrete environment that satisfies them.
\<close>

section \<open>Footprints\<close>

text \<open>Every event the operation issues, in whatever world it starts, satisfies \<open>P\<close>.\<close>

definition footprint :: "(event \<Rightarrow> bool) \<Rightarrow> 'a act \<Rightarrow> bool" where
  "footprint P m \<longleftrightarrow>
     (\<forall>w. \<exists>es. trace (snd (run_state m w)) = es @ trace w \<and> (\<forall>e \<in> set es. P e))"

named_theorems fp_intros \<open>footprints of the model's operations\<close>

lemma fst_run_bind:
  "fst (run_state (State_Monad.bind m f) w) = fst (run_state (f (fst (run_state m w))) (snd (run_state m w)))"
  by (simp add: split_beta)

text \<open>The continuation only runs on a result of the first part.\<close>

lemma footprint_bind_run:
  assumes m: "footprint P m" and f: "\<And>w. footprint P (f (fst (run_state m w)))"
  shows "footprint P (State_Monad.bind m f)"
  unfolding footprint_def
proof
  fix w
  from m obtain es where es: "trace (snd (run_state m w)) = es @ trace w" "\<forall>e \<in> set es. P e"
    by (auto simp: footprint_def)
  from f [of w] obtain es' where
    "trace (snd (run_state (f (fst (run_state m w))) (snd (run_state m w)))) = es' @ es @ trace w"
    "\<forall>e \<in> set es'. P e"
    unfolding footprint_def by (metis es(1))
  with es show "\<exists>es. trace (snd (run_state (State_Monad.bind m f) w)) = es @ trace w \<and> (\<forall>e \<in> set es. P e)"
    by (intro exI [of _ "es' @ es"]) (auto simp: split_beta)
qed

lemma footprint_bind [fp_intros]:
  "footprint P m \<Longrightarrow> (\<And>x. footprint P (f x)) \<Longrightarrow> footprint P (State_Monad.bind m f)"
  by (rule footprint_bind_run)

lemma footprint_return [fp_intros]: "footprint P (State_Monad.return x)"
  by (simp add: footprint_def State_Monad.return_def)

lemma footprint_request [fp_intros]: "P e \<Longrightarrow> footprint P (request e f)"
  by (auto simp: footprint_def)

lemma footprint_now [fp_intros]: "P EvNow \<Longrightarrow> footprint P (now E)"
  by (simp add: now_def footprint_request)

lemma footprint_since [fp_intros]: "P EvNow \<Longrightarrow> footprint P (since E t)"
  unfolding since_def by (intro fp_intros)

lemma footprint_if [fp_intros]:
  "(b \<Longrightarrow> footprint P m) \<Longrightarrow> (\<not> b \<Longrightarrow> footprint P n) \<Longrightarrow> footprint P (if b then m else n)"
  by simp

lemma footprint_option [fp_intros]:
  "(x = None \<Longrightarrow> footprint P m) \<Longrightarrow> (\<And>y. x = Some y \<Longrightarrow> footprint P (f y)) \<Longrightarrow>
   footprint P (case x of None \<Rightarrow> m | Some y \<Rightarrow> f y)"
  by (cases x) simp_all

lemma footprint_sum [fp_intros]:
  "(\<And>y. x = Inl y \<Longrightarrow> footprint P (f y)) \<Longrightarrow> (\<And>y. x = Inr y \<Longrightarrow> footprint P (g y)) \<Longrightarrow>
   footprint P (case x of Inl y \<Rightarrow> f y | Inr y \<Rightarrow> g y)"
  by (cases x) simp_all

lemma footprint_res [fp_intros]:
  "(\<And>y. x = Ok y \<Longrightarrow> footprint P (f y)) \<Longrightarrow> (\<And>y. x = Error y \<Longrightarrow> footprint P (g y)) \<Longrightarrow>
   (\<And>y. x = Panic y \<Longrightarrow> footprint P (h y)) \<Longrightarrow>
   footprint P (case x of Ok y \<Rightarrow> f y | Error y \<Rightarrow> g y | Panic y \<Rightarrow> h y)"
  by (cases x) simp_all

lemma footprint_prod [fp_intros]:
  "(\<And>a b. x = (a, b) \<Longrightarrow> footprint P (f a b)) \<Longrightarrow> footprint P (case x of (a, b) \<Rightarrow> f a b)"
  by (cases x) simp

lemma footprint_list [fp_intros]:
  "(x = [] \<Longrightarrow> footprint P m) \<Longrightarrow> (\<And>y ys. x = y # ys \<Longrightarrow> footprint P (f y ys)) \<Longrightarrow>
   footprint P (case x of [] \<Rightarrow> m | y # ys \<Rightarrow> f y ys)"
  by (cases x) simp_all

lemma footprint_outcome [fp_intros]:
  "(\<And>a b c. x = Done a b c \<Longrightarrow> footprint P (f a b c)) \<Longrightarrow> (\<And>s. x = Panicked s \<Longrightarrow> footprint P (g s)) \<Longrightarrow>
   footprint P (case x of Done a b c \<Rightarrow> f a b c | Panicked s \<Rightarrow> g s)"
  by (cases x) simp_all

lemma footprint_let [fp_intros]: "footprint P (f x) \<Longrightarrow> footprint P (let y = x in f y)"
  by simp

lemma footprint_mono: "footprint P m \<Longrightarrow> (\<And>e. P e \<Longrightarrow> Q e) \<Longrightarrow> footprint Q m"
  unfolding footprint_def by blast

lemma footprintD:
  assumes "footprint P m" "run_state m w = (x, w')"
  obtains es where "trace w' = es @ trace w" "\<forall>e \<in> set es. P e"
  using assms unfolding footprint_def by (metis snd_conv)

lemma footprint_mem:
  "footprint P m \<Longrightarrow> run_state m w = (x, w') \<Longrightarrow> e \<in> set (trace w') \<Longrightarrow> \<not> P e \<Longrightarrow> e \<in> set (trace w)"
  by (metis UnE footprintD set_append)

section \<open>Triples\<close>

definition triple :: "(world \<Rightarrow> bool) \<Rightarrow> 'a act \<Rightarrow> ('a \<Rightarrow> world \<Rightarrow> bool) \<Rightarrow> bool" where
  "triple A m B \<longleftrightarrow> (\<forall>w. A w \<longrightarrow> B (fst (run_state m w)) (snd (run_state m w)))"

named_theorems tr_intros \<open>triples of the model's operations\<close>

lemma triple_bind [tr_intros]:
  "triple A m C \<Longrightarrow> (\<And>x. triple (C x) (f x) B) \<Longrightarrow> triple A (State_Monad.bind m f) B"
  by (simp add: triple_def split_beta)

lemma triple_return [tr_intros]: "(\<And>w. A w \<Longrightarrow> B x w) \<Longrightarrow> triple A (State_Monad.return x) B"
  by (simp add: triple_def State_Monad.return_def)

lemma triple_if [tr_intros]:
  "(b \<Longrightarrow> triple A m B) \<Longrightarrow> (\<not> b \<Longrightarrow> triple A n B) \<Longrightarrow> triple A (if b then m else n) B"
  by simp

lemma triple_option [tr_intros]:
  "(x = None \<Longrightarrow> triple A m B) \<Longrightarrow> (\<And>y. x = Some y \<Longrightarrow> triple A (f y) B) \<Longrightarrow>
   triple A (case x of None \<Rightarrow> m | Some y \<Rightarrow> f y) B"
  by (cases x) simp_all

lemma triple_sum [tr_intros]:
  "(\<And>y. x = Inl y \<Longrightarrow> triple A (f y) B) \<Longrightarrow> (\<And>y. x = Inr y \<Longrightarrow> triple A (g y) B) \<Longrightarrow>
   triple A (case x of Inl y \<Rightarrow> f y | Inr y \<Rightarrow> g y) B"
  by (cases x) simp_all

lemma triple_res [tr_intros]:
  "(\<And>y. x = Ok y \<Longrightarrow> triple A (f y) B) \<Longrightarrow> (\<And>y. x = Error y \<Longrightarrow> triple A (g y) B) \<Longrightarrow>
   (\<And>y. x = Panic y \<Longrightarrow> triple A (h y) B) \<Longrightarrow>
   triple A (case x of Ok y \<Rightarrow> f y | Error y \<Rightarrow> g y | Panic y \<Rightarrow> h y) B"
  by (cases x) simp_all

lemma triple_prod [tr_intros]:
  "(\<And>a b. x = (a, b) \<Longrightarrow> triple A (f a b) B) \<Longrightarrow> triple A (case x of (a, b) \<Rightarrow> f a b) B"
  by (cases x) simp

lemma triple_outcome [tr_intros]:
  "(\<And>a b c. x = Done a b c \<Longrightarrow> triple A (f a b c) B) \<Longrightarrow> (\<And>s. x = Panicked s \<Longrightarrow> triple A (g s) B) \<Longrightarrow>
   triple A (case x of Done a b c \<Rightarrow> f a b c | Panicked s \<Rightarrow> g s) B"
  by (cases x) simp_all

lemma triple_request [tr_intros]:
  "(\<And>w. A w \<Longrightarrow> B (f (trace w)) (w\<lparr>trace := e # trace w\<rparr>)) \<Longrightarrow> triple A (request e f) B"
  by (simp add: triple_def)

lemma triple_weaken:
  "triple A' m B' \<Longrightarrow> (\<And>w. A w \<Longrightarrow> A' w) \<Longrightarrow> (\<And>x w. B' x w \<Longrightarrow> B x w) \<Longrightarrow> triple A m B"
  by (simp add: triple_def)

lemma tripleD: "triple A m B \<Longrightarrow> A w \<Longrightarrow> run_state m w = (x, w') \<Longrightarrow> B x w'"
  by (metis triple_def fst_conv snd_conv)

section \<open>Laws of third-party code\<close>

text \<open>\<open>controllerutil\<close>: finalizers as a set; the flag says whether the object changed.\<close>

definition finalizer_laws :: "go_lib \<Rightarrow> bool" where
  "finalizer_laws L \<longleftrightarrow>
     (\<forall>fs f. containsFinalizer L fs f = (f \<in> set fs)) \<and>
     (\<forall>fs f. fst (addFinalizer L fs f) = (f \<notin> set fs) \<and> set (snd (addFinalizer L fs f)) = insert f (set fs)) \<and>
     (\<forall>fs f. fst (removeFinalizer L fs f) = (f \<in> set fs) \<and> set (snd (removeFinalizer L fs f)) = set fs - {f})"

lemma finalizer_simps:
  assumes "finalizer_laws L"
  shows "containsFinalizer L fs f \<longleftrightarrow> f \<in> set fs"
    and "fst (addFinalizer L fs f) \<longleftrightarrow> f \<notin> set fs"
    and "set (snd (addFinalizer L fs f)) = insert f (set fs)"
    and "fst (removeFinalizer L fs f) \<longleftrightarrow> f \<in> set fs"
    and "set (snd (removeFinalizer L fs f)) = set fs - {f}"
  using assms by (simp_all add: finalizer_laws_def)

text \<open>\<open>apimachinery/meta\<close>: what a condition reads after each operation.\<close>

definition updated_condition :: "time \<Rightarrow> condition \<Rightarrow> condition option \<Rightarrow> condition" where
  "updated_condition t c old =
     (let stamp = (if c_lastTransitionTime c = zero_time then t else c_lastTransitionTime c)
      in case old of
           None \<Rightarrow> c\<lparr>c_lastTransitionTime := stamp\<rparr>
         | Some o' \<Rightarrow> c\<lparr>c_lastTransitionTime :=
             (if c_status o' = c_status c then c_lastTransitionTime o' else stamp)\<rparr>)"

definition condition_laws :: "go_lib \<Rightarrow> bool" where
  "condition_laws L \<longleftrightarrow>
     (\<forall>t cs. findStatusCondition L t cs = first_such (\<lambda>c. c_type c = t) cs) \<and>
     (\<forall>n c t cs. first_such (\<lambda>c. c_type c = t) (setStatusCondition L n c cs) =
        (if t = c_type c then Some (updated_condition n c (first_such (\<lambda>c. c_type c = t) cs))
         else first_such (\<lambda>c. c_type c = t) cs)) \<and>
     (\<forall>t u cs. first_such (\<lambda>c. c_type c = u) (snd (removeStatusCondition L t cs)) =
        (if u = t then None else first_such (\<lambda>c. c_type c = u) cs)) \<and>
     (\<forall>t cs. fst (removeStatusCondition L t cs) = (first_such (\<lambda>c. c_type c = t) cs \<noteq> None)) \<and>
     (\<forall>t cs. isStatusConditionTrue L cs t =
        (\<exists>c. first_such (\<lambda>c. c_type c = t) cs = Some c \<and> c_status c = ConditionTrue)) \<and>
     (\<forall>t cs. isStatusConditionFalse L cs t =
        (\<exists>c. first_such (\<lambda>c. c_type c = t) cs = Some c \<and> c_status c = ConditionFalse))"

lemma condition_simps:
  assumes "condition_laws L"
  shows "findStatusCondition L t cs = first_such (\<lambda>c. c_type c = t) cs"
    and "first_such (\<lambda>c. c_type c = t) (setStatusCondition L n c cs) =
        (if t = c_type c then Some (updated_condition n c (first_such (\<lambda>c. c_type c = t) cs))
         else first_such (\<lambda>c. c_type c = t) cs)"
    and "first_such (\<lambda>c. c_type c = u) (snd (removeStatusCondition L t cs)) =
        (if u = t then None else first_such (\<lambda>c. c_type c = u) cs)"
    and "fst (removeStatusCondition L t cs) \<longleftrightarrow> first_such (\<lambda>c. c_type c = t) cs \<noteq> None"
    and "isStatusConditionTrue L cs t \<longleftrightarrow>
        (\<exists>c. first_such (\<lambda>c. c_type c = t) cs = Some c \<and> c_status c = ConditionTrue)"
    and "isStatusConditionFalse L cs t \<longleftrightarrow>
        (\<exists>c. first_such (\<lambda>c. c_type c = t) cs = Some c \<and> c_status c = ConditionFalse)"
  using assms unfolding condition_laws_def by blast+

lemma updated_condition_simps [simp]:
  "c_type (updated_condition t c old) = c_type c"
  "c_status (updated_condition t c old) = c_status c"
  "c_reason (updated_condition t c old) = c_reason c"
  "c_message (updated_condition t c old) = c_message c"
  by (simp_all add: updated_condition_def Let_def split: option.split)

text \<open>The clock does not go back (Go compares the monotonic readings).\<close>

definition clock_mono :: "env \<Rightarrow> bool" where
  "clock_mono E \<longleftrightarrow> (\<forall>e h. clock E h \<le> clock E (e # h))"

lemma clock_mono_append: "clock_mono E \<Longrightarrow> clock E h \<le> clock E (es @ h)"
  by (induction es) (auto simp: clock_mono_def intro: order_trans)

text \<open>A strictly increasing clock: a call takes some time.\<close>

definition clock_strict :: "env \<Rightarrow> bool" where
  "clock_strict E \<longleftrightarrow> (\<forall>e h. clock E h < clock E (e # h))"

lemma clock_strict_mono: "clock_strict E \<Longrightarrow> clock_mono E"
  by (auto simp: clock_strict_def clock_mono_def intro: less_imp_le)

text \<open>
  \<open>retry.RetryOnConflict\<close>: some number of attempts, each after a conflict.
\<close>

fun attempts :: "nat \<Rightarrow> (go_error option) act \<Rightarrow> (go_error option) act" where
  "attempts 0 f = f"
| "attempts (Suc n) f =
     do { r \<leftarrow> f;
          case r of None \<Rightarrow> State_Monad.return None
          | Some e \<Rightarrow> if is_conflict e then attempts n f else State_Monad.return (Some e) }"

definition retry_law :: "go_lib \<Rightarrow> bool" where
  "retry_law L \<longleftrightarrow> (\<exists>n. retryOnConflict L = attempts n)"

lemma footprint_attempts: "footprint P f \<Longrightarrow> footprint P (attempts n f)"
proof (induction n)
  case (Suc n)
  then show ?case
    by (auto intro!: fp_intros)
qed simp

lemma footprint_retry: "retry_law L \<Longrightarrow> footprint P f \<Longrightarrow> footprint P (retryOnConflict L f)"
  by (auto simp: retry_law_def footprint_attempts)

end
