(* ===== verification/Reference_Env.thy ===== *)
theory Reference_Env
  imports Effects
begin

text \<open>
  A concrete environment: finalizers and conditions as plain lists, an API server that knows
  no object, accepts every write and echoes it, a clock that advances by a second with every
  event. It satisfies the laws, so the properties that assume them are not vacuous; the
  witnesses run the operator in it, with single answers replaced.
\<close>

definition ref_setStatusCondition :: "time \<Rightarrow> condition \<Rightarrow> condition list \<Rightarrow> condition list" where
  "ref_setStatusCondition t c cs =
     (case first_such (\<lambda>k. c_type k = c_type c) cs of
        None \<Rightarrow> cs @ [updated_condition t c None]
      | Some old \<Rightarrow> replace_first (\<lambda>k. c_type k = c_type c) (updated_condition t c (Some old)) cs)"

definition ref_find :: "string \<Rightarrow> condition list \<Rightarrow> condition option" where
  "ref_find t cs = first_such (\<lambda>c. c_type c = t) cs"

definition ref_status_is :: "cond_status \<Rightarrow> condition list \<Rightarrow> string \<Rightarrow> bool" where
  "ref_status_is s cs t = (case ref_find t cs of None \<Rightarrow> False | Some c \<Rightarrow> c_status c = s)"

definition ref_lib :: go_lib where
  "ref_lib =
     \<lparr>containsFinalizer = (\<lambda>fs f. List.member fs f),
      addFinalizer = (\<lambda>fs f. if List.member fs f then (False, fs) else (True, fs @ [f])),
      removeFinalizer = (\<lambda>fs f. (List.member fs f, filter (\<lambda>g. g \<noteq> f) fs)),
      setStatusCondition = ref_setStatusCondition,
      removeStatusCondition = (\<lambda>t cs. (ref_find t cs \<noteq> None, filter (\<lambda>c. c_type c \<noteq> t) cs)),
      findStatusCondition = ref_find,
      isStatusConditionTrue = ref_status_is ConditionTrue,
      isStatusConditionFalse = ref_status_is ConditionFalse,
      json_parse = (\<lambda>s. None),
      json_error = (\<lambda>s. ''unexpected end of JSON input''),
      json_print = (\<lambda>j. []),
      marshal_compute_instance = (\<lambda>ci. Inr (JObj [])),
      marshal_cluster_order = (\<lambda>co. Inr (JObj [])),
      marshal_host_pool = (\<lambda>hp. Inr (JObj [])),
      marshal_ci_spec = (\<lambda>s. Inr (cisp_templateID s @ cisp_templateParameters s)),
      parse_rfc3339 = (\<lambda>s. None),
      format_rfc3339 = (\<lambda>t. []),
      parse_duration = (\<lambda>s. None),
      setOwnerReference = (\<lambda>ci t. Inr t),
      retryOnConflict = attempts 4\<rparr>"

definition ref_not_found :: go_error where
  "ref_not_found = StatusError NotFound ''not found''"

definition ref_kube :: kube_api where
  "ref_kube =
     \<lparr>get_compute_instance = (\<lambda>k h. Inl ref_not_found),
      update_compute_instance = (\<lambda>x h. Inr x),
      update_compute_instance_status = (\<lambda>x h. Inr x),
      get_tenant = (\<lambda>k h. Inl ref_not_found),
      update_tenant = (\<lambda>x h. Inr x),
      update_tenant_status = (\<lambda>x h. Inr x),
      fetch_tenant = (\<lambda>x h. (None, x)),
      commit_tenant = (\<lambda>x h. (None, x)),
      get_cluster_order = (\<lambda>k h. Inl ref_not_found),
      update_cluster_order = (\<lambda>x h. Inr x),
      update_cluster_order_status = (\<lambda>x h. Inr x),
      get_host_pool = (\<lambda>k h. Inl ref_not_found),
      update_host_pool = (\<lambda>x h. Inr x),
      update_host_pool_status = (\<lambda>x h. Inr x),
      get_namespace = (\<lambda>k h. Inl ref_not_found),
      list_namespaces = (\<lambda>s h. Inr []),
      delete_namespace = (\<lambda>x h. None),
      fetch_namespace = (\<lambda>x h. (None, x)),
      commit_namespace = (\<lambda>x h. (None, x)),
      list_virtual_machines = (\<lambda>n s h. Inr []),
      get_vmi = (\<lambda>k h. Inl ref_not_found),
      delete_vmi = (\<lambda>x h. None),
      get_udn = (\<lambda>k h. Inl ref_not_found),
      delete_udn = (\<lambda>x h. None),
      fetch_udn = (\<lambda>x h. (None, x)),
      commit_udn = (\<lambda>x h. (None, x)),
      fetch_service_account = (\<lambda>x h. (None, x)),
      commit_service_account = (\<lambda>x h. (None, x)),
      fetch_role_binding = (\<lambda>x h. (None, x)),
      commit_role_binding = (\<lambda>x h. (None, x)),
      get_hosted_cluster = (\<lambda>k h. Inl ref_not_found),
      list_hosted_clusters = (\<lambda>n s h. Inr []),
      list_node_pools = (\<lambda>n s h. Inr [])\<rparr>"

definition ref_rpc :: rpc_api where
  "ref_rpc =
     \<lparr>rpc_get_ci = (\<lambda>i h. Inr \<lparr>pci_id = i, pci_metadata = [], pci_spec = None, pci_status = None\<rparr>),
      rpc_update_ci = (\<lambda>x h. None),
      rpc_signal_ci = (\<lambda>i h. None),
      rpc_get_cluster = (\<lambda>i h. Inr \<lparr>pcl_id = i, pcl_metadata = [], pcl_spec = None, pcl_status = None\<rparr>),
      rpc_update_cluster = (\<lambda>x h. None),
      rpc_get_host_pool = (\<lambda>i h. Inr \<lparr>php_id = i, php_metadata = [], php_spec = None, php_status = None\<rparr>),
      rpc_update_host_pool = (\<lambda>x h. None)\<rparr>"

definition ref_env :: env where
  "ref_env =
     \<lparr>lib = ref_lib, kube = ref_kube, rpc = ref_rpc,
      clock = (\<lambda>h. int (length h) * second),
      http_new = (\<lambda>m u. None),
      http_do = (\<lambda>t r h. Inr \<lparr>hs_statusCode = 200, hs_body = Inr []\<rparr>)\<rparr>"

definition empty_world :: world where
  "empty_world = \<lparr>trace = [], templates = Map.empty, inflight = []\<rparr>"

lemma ref_env_simps [simp]:
  "lib ref_env = ref_lib" "kube ref_env = ref_kube" "rpc ref_env = ref_rpc"
  "clock ref_env h = int (length h) * second" "http_new ref_env m u = None"
  by (simp_all add: ref_env_def)

lemma empty_world_simps [simp]:
  "trace empty_world = []" "templates empty_world = Map.empty" "inflight empty_world = []"
  by (simp_all add: empty_world_def)

text \<open>The environment with every HTTP request answered by one status and one JSON body.\<close>

definition http_env :: "int \<Rightarrow> json \<Rightarrow> env" where
  "http_env code j =
     ref_env\<lparr>http_do := (\<lambda>t r h. Inr \<lparr>hs_statusCode = code, hs_body = Inr ''b''\<rparr>),
             lib := ref_lib\<lparr>json_parse := (\<lambda>s. Some j)\<rparr>\<rparr>"

lemma http_env_simps [simp]:
  "http_do (http_env code j) t r h = Inr \<lparr>hs_statusCode = code, hs_body = Inr ''b''\<rparr>"
  "http_new (http_env code j) m u = None"
  "json_parse (lib (http_env code j)) s = Some j"
  "marshal_compute_instance (lib (http_env code j)) ci = Inr (JObj [])"
  "kube (http_env code j) = ref_kube"
  "clock (http_env code j) h = int (length h) * second"
  by (simp_all add: http_env_def ref_env_def ref_lib_def)

section \<open>Sample resources\<close>

definition sample_meta :: object_meta where
  "sample_meta = new_meta ''x'' ''ns'' Map.empty"

definition sample_ci :: compute_instance where
  "sample_ci =
     \<lparr>ci_meta = sample_meta,
      ci_spec = \<lparr>cisp_templateID = ''t'', cisp_templateParameters = [], cisp_restartRequestedAt = None\<rparr>,
      ci_status = \<lparr>cis_phase = ComputeInstancePhaseUnset, cis_conditions = [],
        cis_virtualMachineReference = None, cis_tenantReference = None, cis_desiredConfigVersion = [],
        cis_reconciledConfigVersion = [], cis_lastRestartedAt = None, cis_jobs = []\<rparr>\<rparr>"

definition sample_hp :: host_pool where
  "sample_hp =
     \<lparr>hp_meta = sample_meta, hp_spec_hostSets = [],
      hp_status = \<lparr>hps_phase = HostPoolPhaseUnset, hps_conditions = [], hps_hostPoolReference = None,
        hps_hostSets = []\<rparr>\<rparr>"

definition sample_co :: cluster_order where
  "sample_co =
     \<lparr>co_meta = sample_meta,
      co_spec = \<lparr>cos_templateID = ''t'', cos_templateParameters = [], cos_nodeRequests = []\<rparr>,
      co_status = \<lparr>cost_phase = ClusterOrderPhaseUnset, cost_conditions = [], cost_clusterReference = None,
        cost_nodeRequests = []\<rparr>\<rparr>"

section \<open>The laws hold\<close>

lemma ref_finalizer_laws: "finalizer_laws ref_lib"
  by (auto simp: finalizer_laws_def ref_lib_def)

lemma first_such_filter:
  "first_such P (filter Q xs) = first_such (\<lambda>x. Q x \<and> P x) xs"
  by (induction xs) auto

lemma first_such_cong:
  "(\<And>x. x \<in> set xs \<Longrightarrow> P x = Q x) \<Longrightarrow> first_such P xs = first_such Q xs"
  by (induction xs) auto

lemma ref_set_reads:
  "first_such (\<lambda>k. c_type k = t) (ref_setStatusCondition n c cs) =
     (if t = c_type c then Some (updated_condition n c (first_such (\<lambda>k. c_type k = t) cs))
      else first_such (\<lambda>k. c_type k = t) cs)"
proof (cases "t = c_type c")
  case True
  then show ?thesis
    by (auto simp: ref_setStatusCondition_def first_such_append first_such_replace_first_same
        split: option.split)
next
  case False
  have "first_such (\<lambda>k. c_type k = t) (replace_first (\<lambda>k. c_type k = c_type c) (updated_condition n c o') cs) =
      first_such (\<lambda>k. c_type k = t) cs" for o'
    by (rule first_such_replace_first_other) (use False in auto)
  with False show ?thesis
    by (auto simp: ref_setStatusCondition_def first_such_append split: option.split)
qed

lemma ref_remove_reads:
  "first_such (\<lambda>k. c_type k = u) (filter (\<lambda>c. c_type c \<noteq> t) cs) =
     (if u = t then None else first_such (\<lambda>k. c_type k = u) cs)"
  by (auto simp: first_such_filter first_such_None_iff intro: first_such_cong)

lemma ref_condition_laws: "condition_laws ref_lib"
  by (auto simp: condition_laws_def ref_lib_def ref_find_def ref_status_is_def ref_set_reads
      ref_remove_reads split: option.splits)

lemma ref_retry_law: "retry_law ref_lib"
  by (auto simp: retry_law_def ref_lib_def)

lemma ref_clock_mono: "clock_mono ref_env"
  by (simp add: clock_mono_def second_def)

end
