(* ===== verification/Webhook_Client.thy ===== *)
theory Webhook_Client
  imports Reference_Env "HOL-Library.AList"
begin

text \<open>
  \<open>internal/controller/webhook_common.go\<close> and \<open>internal/webhook/types.go\<close>: the webhook
  client with its cache of inflight requests, and the locale \<open>webhook_service\<close>, the contract
  its callers rely on. The cache is a \<open>sync.Map\<close>; here an association list in the order
  \<open>Range\<close> visits it. Each reconciler owns one client, and each has a world of its own.

  The lemmas bound what \<open>TriggerWebhook\<close> returns, say when it sends a request, and show
  that the successful requests for one key are spaced by the minimum interval over any run.
\<close>

section \<open>Resources\<close>

text \<open>The resources that are sent, with \<open>GetName\<close> and \<open>json.Marshal\<close>.\<close>

datatype resource = ResComputeInstance compute_instance | ResClusterOrder cluster_order
  | ResHostPool host_pool

fun resource_name :: "resource \<Rightarrow> string" where
  "resource_name (ResComputeInstance ci) = ComputeInstance_GetName ci"
| "resource_name (ResClusterOrder co) = ClusterOrder_GetName co"
| "resource_name (ResHostPool hp) = HostPool_GetName hp"

fun marshal_resource :: "go_lib \<Rightarrow> resource \<Rightarrow> string + json" where
  "marshal_resource L (ResComputeInstance ci) = marshal_compute_instance L ci"
| "marshal_resource L (ResClusterOrder co) = marshal_cluster_order L co"
| "marshal_resource L (ResHostPool hp) = marshal_host_pool L hp"

section \<open>The client\<close>

record webhook_client =
  wc_clientTimeout :: duration
  wc_minimumRequestInterval :: duration

definition newWebhookClient :: "duration \<Rightarrow> duration \<Rightarrow> webhook_client" where
  "newWebhookClient timeout interval =
     \<lparr>wc_clientTimeout = timeout, wc_minimumRequestInterval = interval\<rparr>"

definition cache_key :: "string \<Rightarrow> string \<Rightarrow> string" where
  "cache_key url name = url @ '':'' @ name"

definition get_inflight :: "(string \<times> time) list act" where
  "get_inflight = State (\<lambda>w. (inflight w, w))"

definition set_inflight :: "(string \<times> time) list \<Rightarrow> unit act" where
  "set_inflight xs = State (\<lambda>w. ((), w\<lparr>inflight := xs\<rparr>))"

lemma run_inflight [simp]:
  "run_state get_inflight w = (inflight w, w)"
  "run_state (set_inflight xs) w = ((), w\<lparr>inflight := xs\<rparr>)"
  by (simp_all add: get_inflight_def set_inflight_def)

text \<open>The entries that survive a purge; the clock is read once for each.\<close>

fun purge_loop :: "env \<Rightarrow> webhook_client \<Rightarrow> (string \<times> time) list \<Rightarrow> (string \<times> time) list act" where
  "purge_loop E wc [] = State_Monad.return []"
| "purge_loop E wc ((k, t) # es) =
     do { delta \<leftarrow> since E t;
          rest \<leftarrow> purge_loop E wc es;
          State_Monad.return
            (if wc_minimumRequestInterval wc < delta then rest else (k, t) # rest) }"

definition purgeExpiredRequests :: "env \<Rightarrow> webhook_client \<Rightarrow> unit act" where
  "purgeExpiredRequests E wc =
     do { entries \<leftarrow> get_inflight;
          kept \<leftarrow> purge_loop E wc entries;
          set_inflight kept }"

definition checkForExistingRequest :: "env \<Rightarrow> webhook_client \<Rightarrow> string \<Rightarrow> string \<Rightarrow> duration act" where
  "checkForExistingRequest E wc url name =
     do { entries \<leftarrow> get_inflight;
          delta \<leftarrow> (case map_of entries (cache_key url name) of
              None \<Rightarrow> State_Monad.return 0
            | Some createTime \<Rightarrow>
                do { d \<leftarrow> since E createTime;
                     State_Monad.return (if wc_minimumRequestInterval wc \<le> d then 0 else d) });
          purgeExpiredRequests E wc;
          State_Monad.return delta }"

definition addInflightRequest :: "env \<Rightarrow> webhook_client \<Rightarrow> string \<Rightarrow> string \<Rightarrow> unit act" where
  "addInflightRequest E wc url name =
     do { t \<leftarrow> now E;
          entries \<leftarrow> get_inflight;
          set_inflight (AList.update (cache_key url name) t entries);
          purgeExpiredRequests E wc }"

definition webhook_request :: "go_lib \<Rightarrow> string \<Rightarrow> json \<Rightarrow> http_request" where
  "webhook_request L url j =
     \<lparr>hr_method = ''POST'', hr_url = url, hr_headers = [(''Content-Type'', ''application/json'')],
      hr_body = Some (json_print L j)\<rparr>"

definition is_success_code :: "int \<Rightarrow> bool" where
  "is_success_code c \<longleftrightarrow> \<not> (c < 200 \<or> 300 \<le> c)"

definition triggerWebhook ::
    "env \<Rightarrow> webhook_client \<Rightarrow> string \<Rightarrow> resource \<Rightarrow> duration res act" where
  "triggerWebhook E wc url r =
     do { delta \<leftarrow> checkForExistingRequest E wc url (resource_name r);
          if delta \<noteq> 0 then State_Monad.return (Ok delta)
          else (case marshal_resource (lib E) r of
              Inl e \<Rightarrow> State_Monad.return (Error (Wrap ''failed to marshal JSON'' (ExtError e)))
            | Inr j \<Rightarrow>
              (case http_new E ''POST'' url of
                Some e \<Rightarrow> State_Monad.return (Error (Wrap ''failed to create request'' (ExtError e)))
              | None \<Rightarrow>
                do { resp \<leftarrow> (let rq = webhook_request (lib E) url j
                        in request (EvHttp rq) (http_do E (wc_clientTimeout wc) rq));
                     case resp of
                       Inl e \<Rightarrow> State_Monad.return (Error (Wrap ''failed to send request'' (ExtError e)))
                     | Inr a \<Rightarrow>
                         if \<not> is_success_code (hs_statusCode a)
                         then State_Monad.return (Error (Errorf
                           (''received non-success status code: '' @ itoa (hs_statusCode a))))
                         else do { addInflightRequest E wc url (resource_name r);
                                   State_Monad.return (Ok 0) } })) }"

definition resetCache :: "unit act" where
  "resetCache = set_inflight []"


section \<open>Which events a call issues\<close>

definition webhook_events :: "string \<Rightarrow> event \<Rightarrow> bool" where
  "webhook_events url e \<longleftrightarrow>
     e = EvNow \<or> (\<exists>rq. e = EvHttp rq \<and> hr_method rq = ''POST'' \<and> hr_url rq = url)"

lemma footprint_inflight [fp_intros]:
  "footprint P get_inflight" "footprint P (set_inflight xs)"
  by (simp_all add: footprint_def)

lemma footprint_purge_loop [fp_intros]: "P EvNow \<Longrightarrow> footprint P (purge_loop E wc es)"
  by (induction es) (auto intro!: fp_intros)

lemma footprint_purge [fp_intros]: "P EvNow \<Longrightarrow> footprint P (purgeExpiredRequests E wc)"
  unfolding purgeExpiredRequests_def by (intro fp_intros)

lemma footprint_check [fp_intros]: "P EvNow \<Longrightarrow> footprint P (checkForExistingRequest E wc url name)"
  unfolding checkForExistingRequest_def by (intro fp_intros)

lemma footprint_add [fp_intros]: "P EvNow \<Longrightarrow> footprint P (addInflightRequest E wc url name)"
  unfolding addInflightRequest_def by (intro fp_intros)

lemma footprint_triggerWebhook: "footprint (webhook_events url) (triggerWebhook E wc url r)"
  unfolding triggerWebhook_def Let_def
  by (intro fp_intros) (auto simp: webhook_events_def webhook_request_def)

section \<open>The cache\<close>

lemma sub_time_mono: "a \<le> b \<Longrightarrow> sub_time a t \<le> sub_time b t"
  by (simp add: sub_time_def)

text \<open>The keys of the cache are distinct, as in any map.\<close>

definition cache_ok :: "world \<Rightarrow> bool" where
  "cache_ok w \<longleftrightarrow> distinct (map fst (inflight w))"

text \<open>A purge keeps a subset; under a clock that does not go back, what it drops has expired.\<close>

lemma purge_loop_Nil [simp]: "run_state (purge_loop E wc []) w = ([], w)"
  by (simp add: State_Monad.return_def)

lemma purge_loop_Cons [simp]:
  "run_state (purge_loop E wc ((k, t) # es)) w =
     (let r = run_state (purge_loop E wc es) (w\<lparr>trace := EvNow # trace w\<rparr>)
      in (if wc_minimumRequestInterval wc < sub_time (clock E (trace w)) t
          then fst r else (k, t) # fst r, snd r))"
  by (simp add: since_def State_Monad.return_def split_beta Let_def)

declare purge_loop.simps [simp del]

lemma purge_loop_world:
  "snd (run_state (purge_loop E wc es) w) = w\<lparr>trace := replicate (length es) EvNow @ trace w\<rparr>"
proof (induction es arbitrary: w)
  case (Cons e es)
  then show ?case by (cases e) (simp add: Let_def replicate_app_Cons_same)
qed simp

lemma purge_loop_subset: "set (fst (run_state (purge_loop E wc es) w)) \<subseteq> set es"
proof (induction es arbitrary: w)
  case (Cons e es)
  obtain k t where e: "e = (k, t)" by (cases e)
  from Cons [of "w\<lparr>trace := EvNow # trace w\<rparr>"] show ?case
    by (simp only: e purge_loop_Cons Let_def) auto
qed simp

lemma purge_loop_distinct:
  "distinct (map fst es) \<Longrightarrow> distinct (map fst (fst (run_state (purge_loop E wc es) w)))"
proof (induction es arbitrary: w)
  case (Cons e es)
  obtain k t where e: "e = (k, t)" by (cases e)
  let ?r = "fst (run_state (purge_loop E wc es) (w\<lparr>trace := EvNow # trace w\<rparr>))"
  have "fst ` set ?r \<subseteq> fst ` set es" by (rule image_mono) (rule purge_loop_subset)
  with Cons e show ?case by (auto simp: Let_def)
qed simp

lemma clock_mono_replicate: "clock_mono E \<Longrightarrow> clock E h \<le> clock E (replicate n EvNow @ h)"
  by (rule clock_mono_append)

lemma purge_loop_expired:
  assumes "clock_mono E" "(k, t) \<in> set es" "(k, t) \<notin> set (fst (run_state (purge_loop E wc es) w))"
  shows "wc_minimumRequestInterval wc < sub_time (clock E (replicate (length es) EvNow @ trace w)) t"
  using assms(2,3)
proof (induction es arbitrary: w)
  case (Cons e es)
  obtain k' t' where e: "e = (k', t')" by (cases e)
  let ?w = "w\<lparr>trace := EvNow # trace w\<rparr>"
  show ?case
  proof (cases "(k, t) \<in> set es \<and> (k, t) \<notin> set (fst (run_state (purge_loop E wc es) ?w))")
    case True
    with Cons.IH [of ?w] show ?thesis by (simp add: replicate_app_Cons_same)
  next
    case False
    with Cons.prems e have "k = k'" "t = t'"
      "wc_minimumRequestInterval wc < sub_time (clock E (trace w)) t'"
      by (auto simp: Let_def split: if_splits)
    then show ?thesis
      using sub_time_mono [OF clock_mono_replicate [OF assms(1), of "trace w" "length (e # es)"], of t]
      by simp
  qed
qed simp

text \<open>The same of the whole purge, read as a map.\<close>

lemma run_purge:
  "run_state (purgeExpiredRequests E wc) w =
     ((), w\<lparr>trace := replicate (length (inflight w)) EvNow @ trace w,
            inflight := fst (run_state (purge_loop E wc (inflight w)) w)\<rparr>)"
  by (simp add: purgeExpiredRequests_def split_beta purge_loop_world)

lemma map_of_purge:
  assumes "cache_ok w" "clock_mono E" and run: "w' = snd (run_state (purgeExpiredRequests E wc) w)"
  shows "cache_ok w'"
    and "map_of (inflight w') k = map_of (inflight w) k \<or>
      map_of (inflight w') k = None \<and>
      (\<forall>t. map_of (inflight w) k = Some t \<longrightarrow>
         wc_minimumRequestInterval wc < sub_time (clock E (trace w')) t)"
proof -
  let ?kept = "fst (run_state (purge_loop E wc (inflight w)) w)"
  have w': "inflight w' = ?kept" "trace w' = replicate (length (inflight w)) EvNow @ trace w"
    by (simp_all add: run run_purge)
  from assms(1) have d: "distinct (map fst ?kept)" "distinct (map fst (inflight w))"
    by (auto simp: cache_ok_def purge_loop_distinct)
  then show "cache_ok w'" by (simp add: cache_ok_def w')
  show "map_of (inflight w') k = map_of (inflight w) k \<or>
      map_of (inflight w') k = None \<and>
      (\<forall>t. map_of (inflight w) k = Some t \<longrightarrow>
         wc_minimumRequestInterval wc < sub_time (clock E (trace w')) t)"
  proof (cases "map_of ?kept k")
    case (Some t)
    then have "(k, t) \<in> set (inflight w)" using purge_loop_subset map_of_SomeD by fastforce
    with d(2) Some show ?thesis by (simp add: w')
  next
    case None
    have "wc_minimumRequestInterval wc < sub_time (clock E (trace w')) t"
      if "map_of (inflight w) k = Some t" for t
    proof -
      from that have "(k, t) \<in> set (inflight w)" by (rule map_of_SomeD)
      moreover from None have "(k, t) \<notin> set ?kept" by (auto simp: map_of_eq_None_iff image_iff)
      ultimately show ?thesis using purge_loop_expired [OF assms(2)] w' by simp
    qed
    with None show ?thesis by (simp add: w')
  qed
qed


section \<open>What a call returns\<close>

text \<open>The elapsed time that makes a call return early, 0 when it does not.\<close>

definition pending_delta :: "env \<Rightarrow> webhook_client \<Rightarrow> string \<Rightarrow> world \<Rightarrow> duration" where
  "pending_delta E wc key w =
     (case map_of (inflight w) key of
        None \<Rightarrow> 0
      | Some t \<Rightarrow> let d = sub_time (clock E (trace w)) t
          in if wc_minimumRequestInterval wc \<le> d then 0 else d)"

text \<open>The world in which the check has been made.\<close>

definition after_check :: "env \<Rightarrow> webhook_client \<Rightarrow> string \<Rightarrow> world \<Rightarrow> world" where
  "after_check E wc key w =
     snd (run_state (purgeExpiredRequests E wc)
       (case map_of (inflight w) key of None \<Rightarrow> w | Some t \<Rightarrow> w\<lparr>trace := EvNow # trace w\<rparr>))"

lemma run_check:
  "run_state (checkForExistingRequest E wc url name) w =
     (pending_delta E wc (cache_key url name) w, after_check E wc (cache_key url name) w)"
  by (auto simp: checkForExistingRequest_def pending_delta_def after_check_def since_def
      State_Monad.return_def Let_def run_purge split: option.split)

text \<open>After the check: the caches and the clock readings only.\<close>

lemma after_check_frame:
  "templates (after_check E wc key w) = templates w"
  "\<exists>n. trace (after_check E wc key w) = replicate n EvNow @ trace w"
proof -
  show "templates (after_check E wc key w) = templates w"
    by (simp add: after_check_def run_purge split: option.split)
  show "\<exists>n. trace (after_check E wc key w) = replicate n EvNow @ trace w"
    by (auto simp: after_check_def run_purge replicate_app_Cons_same split: option.split
        intro: exI [of _ "Suc (length (inflight w))"])
qed

lemma triggerWebhook_early:
  "pending_delta E wc (cache_key url (resource_name r)) w \<noteq> 0 \<Longrightarrow>
   run_state (triggerWebhook E wc url r) w =
     (Ok (pending_delta E wc (cache_key url (resource_name r)) w),
      after_check E wc (cache_key url (resource_name r)) w)"
  by (simp add: triggerWebhook_def run_check State_Monad.return_def)

text \<open>Otherwise a request is sent, unless the encoding of the resource or the URL fails.\<close>

definition send_result :: "env \<Rightarrow> webhook_client \<Rightarrow> string \<Rightarrow> resource \<Rightarrow> history \<Rightarrow> duration res \<times> event list" where
  "send_result E wc url r h =
     (case marshal_resource (lib E) r of
        Inl e \<Rightarrow> (Error (Wrap ''failed to marshal JSON'' (ExtError e)), [])
      | Inr j \<Rightarrow>
        (case http_new E ''POST'' url of
           Some e \<Rightarrow> (Error (Wrap ''failed to create request'' (ExtError e)), [])
         | None \<Rightarrow>
           let rq = webhook_request (lib E) url j
           in ((case http_do E (wc_clientTimeout wc) rq h of
                Inl e \<Rightarrow> Error (Wrap ''failed to send request'' (ExtError e))
              | Inr a \<Rightarrow> if is_success_code (hs_statusCode a) then Ok 0
                  else Error (Errorf
                    (''received non-success status code: '' @ itoa (hs_statusCode a)))),
              [EvHttp rq])))"

lemma triggerWebhook_send:
  assumes "pending_delta E wc (cache_key url (resource_name r)) w = 0"
  defines "w1 \<equiv> after_check E wc (cache_key url (resource_name r)) w"
  defines "s \<equiv> send_result E wc url r (trace w1)"
  defines "w2 \<equiv> w1\<lparr>trace := snd s @ trace w1\<rparr>"
  shows "run_state (triggerWebhook E wc url r) w =
     (fst s, if fst s = Ok 0
       then snd (run_state (addInflightRequest E wc url (resource_name r)) w2) else w2)"
  using assms(1) unfolding s_def w2_def
  by (simp add: triggerWebhook_def run_check State_Monad.return_def send_result_def Let_def
      w1_def [symmetric] split_beta split: sum.split option.split)

lemma pending_delta_bounds:
  assumes "pending_delta E wc key w = d" "d \<noteq> 0"
  obtains t where "map_of (inflight w) key = Some t" "d = sub_time (clock E (trace w)) t"
    "d < wc_minimumRequestInterval wc"
  using assms by (auto simp: pending_delta_def Let_def split: option.splits if_splits)

lemma triggerWebhook_cases:
  obtains (early) d where "d \<noteq> 0" "pending_delta E wc (cache_key url (resource_name r)) w = d"
      "run_state (triggerWebhook E wc url r) w =
        (Ok d, after_check E wc (cache_key url (resource_name r)) w)"
  | (sent) "pending_delta E wc (cache_key url (resource_name r)) w = 0"
      "fst (run_state (triggerWebhook E wc url r) w) = Ok 0"
  | (failed) e where "pending_delta E wc (cache_key url (resource_name r)) w = 0"
      "fst (run_state (triggerWebhook E wc url r) w) = Error e" "as_rate_limit e = None"
proof (cases "pending_delta E wc (cache_key url (resource_name r)) w = 0")
  case True
  then have "fst (run_state (triggerWebhook E wc url r) w) =
      fst (send_result E wc url r (trace (after_check E wc (cache_key url (resource_name r)) w)))"
    by (simp add: triggerWebhook_send)
  moreover have "fst (send_result E wc url r h) = Ok 0 \<or>
      (\<exists>e. fst (send_result E wc url r h) = Error e \<and> as_rate_limit e = None)" for h
    by (auto simp: send_result_def Let_def split: sum.split option.split)
  ultimately show ?thesis using True sent failed by metis
next
  case False
  then show ?thesis using early triggerWebhook_early by blast
qed

section \<open>The contract the callers rely on\<close>

text \<open>
  A call does not panic, leaves the template cache alone, and issues only POST requests to
  its URL. A non-zero remaining time means that no request was sent, and an error is never a
  rate-limit error.
\<close>

locale webhook_service =
  fixes trigger :: "string \<Rightarrow> resource \<Rightarrow> duration res act"
  assumes trigger_no_panic: "fst (run_state (trigger url r) w) \<noteq> Panic s"
    and trigger_footprint: "footprint (webhook_events url) (trigger url r)"
    and trigger_templates: "templates (snd (run_state (trigger url r) w)) = templates w"
    and trigger_limited: "run_state (trigger url r) w = (Ok d, w') \<Longrightarrow> d \<noteq> 0 \<Longrightarrow>
      \<exists>n. trace w' = replicate n EvNow @ trace w"
    and trigger_error: "fst (run_state (trigger url r) w) = Error e \<Longrightarrow> as_rate_limit e = None"
begin

lemma limited_sends_nothing:
  "run_state (trigger url r) w = (Ok d, w') \<Longrightarrow> d \<noteq> 0 \<Longrightarrow> EvHttp rq \<in> set (trace w') \<Longrightarrow>
   EvHttp rq \<in> set (trace w)"
  using trigger_limited by fastforce

lemma ok_or_error:
  "(\<exists>d. fst (run_state (trigger url r) w) = Ok d) \<or> (\<exists>e. fst (run_state (trigger url r) w) = Error e)"
  using trigger_no_panic by (metis res.exhaust)

end

lemma run_addInflight:
  "run_state (addInflightRequest E wc url name) w =
     run_state (purgeExpiredRequests E wc)
       (w\<lparr>trace := EvNow # trace w,
          inflight := AList.update (cache_key url name) (clock E (trace w)) (inflight w)\<rparr>)"
  by (simp add: addInflightRequest_def)

lemma first_call_sends:
  assumes "inflight w = []" "marshal_resource (lib E) r = Inr j" "http_new E ''POST'' url = None"
  shows "EvHttp (webhook_request (lib E) url j) \<in> set (trace (snd (run_state (triggerWebhook E wc url r) w)))"
  using assms
  by (simp add: triggerWebhook_send pending_delta_def send_result_def run_addInflight run_purge Let_def)

lemma triggerWebhook_templates: "templates (snd (run_state (triggerWebhook E wc url r) w)) = templates w"
proof (cases "pending_delta E wc (cache_key url (resource_name r)) w = 0")
  case True
  then show ?thesis by (simp add: triggerWebhook_send run_addInflight run_purge after_check_frame)
qed (simp add: triggerWebhook_early after_check_frame)

interpretation wc: webhook_service "triggerWebhook E wc" for E wc
proof
  fix url r w s d w'
  show "footprint (webhook_events url) (triggerWebhook E wc url r)"
    by (rule footprint_triggerWebhook)
  show "templates (snd (run_state (triggerWebhook E wc url r) w)) = templates w"
    by (rule triggerWebhook_templates)
  show "fst (run_state (triggerWebhook E wc url r) w) \<noteq> Panic s"
    by (rule triggerWebhook_cases [of E wc url r w]) auto
  show "as_rate_limit e = None" if "fst (run_state (triggerWebhook E wc url r) w) = Error e" for e
    using that by (cases rule: triggerWebhook_cases [of E wc url r w]) auto
  show "\<exists>n. trace w' = replicate n EvNow @ trace w"
    if "run_state (triggerWebhook E wc url r) w = (Ok d, w')" "d \<noteq> 0"
    using that after_check_frame(2)
    by (cases rule: triggerWebhook_cases [of E wc url r w]) auto
qed


section \<open>The minimum interval over a run\<close>

text \<open>
  \<open>shrunk E wc M w\<close>: the cache of \<open>w\<close> is the map \<open>M\<close>, less entries that have expired by the
  time of \<open>w\<close>.
\<close>

definition shrunk :: "env \<Rightarrow> webhook_client \<Rightarrow> (string \<rightharpoonup> time) \<Rightarrow> world \<Rightarrow> bool" where
  "shrunk E wc M w \<longleftrightarrow>
     cache_ok w \<and>
     (\<forall>k. map_of (inflight w) k = M k \<or>
        map_of (inflight w) k = None \<and>
        (\<forall>t. M k = Some t \<longrightarrow> wc_minimumRequestInterval wc < sub_time (clock E (trace w)) t))"

lemma shrunk_later:
  assumes "shrunk E wc M w" "clock_mono E" "inflight w' = inflight w" "trace w' = es @ trace w"
  shows "shrunk E wc M w'"
  using assms less_le_trans [OF _ sub_time_mono [OF clock_mono_append [OF assms(2)]]]
  unfolding shrunk_def cache_ok_def by (metis (no_types, lifting))

lemma shrunk_purge:
  assumes s: "shrunk E wc M w" and m: "clock_mono E"
  shows "shrunk E wc M (snd (run_state (purgeExpiredRequests E wc) w))"
proof -
  let ?w = "snd (run_state (purgeExpiredRequests E wc) w)"
  have ok: "cache_ok w" using s by (simp add: shrunk_def)
  have later: "clock E (trace w) \<le> clock E (trace ?w)"
    by (simp add: run_purge clock_mono_replicate [OF m])
  note p = map_of_purge [OF ok m refl, where wc = wc]
  show ?thesis
    unfolding shrunk_def
    using p s less_le_trans [OF _ sub_time_mono [OF later]] unfolding shrunk_def by metis
qed

lemma shrunk_after_check:
  assumes "cache_ok w" "clock_mono E"
  shows "shrunk E wc (map_of (inflight w)) (after_check E wc key w)"
proof -
  have "shrunk E wc (map_of (inflight w)) w" using assms by (simp add: shrunk_def)
  then have "shrunk E wc (map_of (inflight w)) (w\<lparr>trace := EvNow # trace w\<rparr>)"
    by (rule shrunk_later [OF _ assms(2), where es = "[EvNow]"]) simp_all
  with \<open>shrunk E wc (map_of (inflight w)) w\<close> show ?thesis
    by (simp add: after_check_def shrunk_purge assms(2) split: option.split)
qed

lemma shrunk_add:
  assumes "shrunk E wc M w" "clock_mono E"
  shows "shrunk E wc (M(cache_key url name \<mapsto> clock E (trace w)))
     (snd (run_state (addInflightRequest E wc url name) w))"
proof -
  let ?w = "w\<lparr>trace := EvNow # trace w,
      inflight := AList.update (cache_key url name) (clock E (trace w)) (inflight w)\<rparr>"
  have later: "sub_time (clock E (trace w)) t \<le> sub_time (clock E (EvNow # trace w)) t" for t
    using assms(2) by (simp add: clock_mono_def sub_time_mono)
  have "cache_ok ?w" using assms(1) by (simp add: shrunk_def cache_ok_def distinct_update)
  then have "shrunk E wc (M(cache_key url name \<mapsto> clock E (trace w))) ?w"
    using assms(1) less_le_trans [OF _ later] by (auto simp: shrunk_def update_conv')
  then show ?thesis by (simp add: run_addInflight shrunk_purge assms(2))
qed

text \<open>
  The runs of a client: calls of \<open>triggerWebhook\<close>, with anything else that leaves its cache
  alone in between. The log has, newest first, the key of every request that was accepted
  and the time at which its call began.
\<close>

inductive webhook_run :: "env \<Rightarrow> webhook_client \<Rightarrow> world \<Rightarrow> (string \<times> time) list \<Rightarrow> bool"
  for E :: env and wc :: webhook_client where
  run_start: "inflight w = [] \<Longrightarrow> webhook_run E wc w []"
| run_other: "webhook_run E wc w log \<Longrightarrow> inflight w' = inflight w \<Longrightarrow> trace w' = es @ trace w \<Longrightarrow>
    webhook_run E wc w' log"
| run_call: "webhook_run E wc w log \<Longrightarrow> run_state (triggerWebhook E wc url r) w = (res, w') \<Longrightarrow>
    webhook_run E wc w'
      (if res = Ok 0 then (cache_key url (resource_name r), clock E (trace w)) # log else log)"

text \<open>Accepted requests for one key are at least \<open>d\<close> apart.\<close>

fun spaced :: "duration \<Rightarrow> (string \<times> time) list \<Rightarrow> bool" where
  "spaced d [] \<longleftrightarrow> True"
| "spaced d ((k, t) # log) \<longleftrightarrow> (\<forall>s. (k, s) \<in> set log \<longrightarrow> d \<le> t - s) \<and> spaced d log"

text \<open>Every logged request is in the cache, or older than the interval.\<close>

definition log_covered :: "env \<Rightarrow> webhook_client \<Rightarrow> (string \<rightharpoonup> time) \<Rightarrow> history \<Rightarrow> (string \<times> time) list \<Rightarrow> bool" where
  "log_covered E wc M h log \<longleftrightarrow>
     (\<forall>(k, s) \<in> set log.
        (\<exists>t. M k = Some t \<and> s \<le> t \<and> t < clock E h) \<or>
        s \<le> clock E h \<and> wc_minimumRequestInterval wc < clock E h - s)"

lemma sub_time_le: "b \<le> a \<Longrightarrow> sub_time a b \<le> a - b"
  by (simp add: sub_time_def max_int_def)

lemma sub_time_pos: "b < a \<Longrightarrow> 0 < sub_time a b"
  by (simp add: sub_time_def max_int_def)

lemma log_covered_shrunk:
  assumes "log_covered E wc M h log" "shrunk E wc M w" "trace w = es @ h" "clock_mono E"
  shows "log_covered E wc (map_of (inflight w)) (trace w) log"
proof -
  have later: "clock E h \<le> clock E (trace w)" using assms(3,4) clock_mono_append by metis
  { fix k s assume "(k, s) \<in> set log"
    with assms(1) consider t where "M k = Some t" "s \<le> t" "t < clock E h"
      | "s \<le> clock E h" "wc_minimumRequestInterval wc < clock E h - s"
      by (auto simp: log_covered_def)
    then have "(\<exists>t. map_of (inflight w) k = Some t \<and> s \<le> t \<and> t < clock E (trace w)) \<or>
        s \<le> clock E (trace w) \<and> wc_minimumRequestInterval wc < clock E (trace w) - s"
    proof cases
      case 1
      from assms(2) have "map_of (inflight w) k = M k \<or>
          wc_minimumRequestInterval wc < sub_time (clock E (trace w)) t"
        using 1 unfolding shrunk_def by metis
      with 1 later sub_time_le [of t "clock E (trace w)"] show ?thesis by (smt (verit))
    next
      case 2
      with later show ?thesis by linarith
    qed }
  then show ?thesis by (auto simp: log_covered_def)
qed

lemma run_send_world:
  assumes "run_state (triggerWebhook E wc url r) w = (res, w')" "cache_ok w" "clock_mono E"
  shows "\<exists>es. trace w' = es @ trace w"
    and "res \<noteq> Ok 0 \<Longrightarrow> shrunk E wc (map_of (inflight w)) w'"
    and "res = Ok 0 \<Longrightarrow> clock_strict E \<Longrightarrow>
      \<exists>t. shrunk E wc ((map_of (inflight w))(cache_key url (resource_name r) \<mapsto> t)) w' \<and>
        clock E (trace w) \<le> t \<and> t < clock E (trace w')"
proof -
  let ?k = "cache_key url (resource_name r)"
  let ?w1 = "after_check E wc ?k w"
  let ?s = "send_result E wc url r (trace ?w1)"
  let ?w2 = "?w1\<lparr>trace := snd ?s @ trace ?w1\<rparr>"
  note s1 = shrunk_after_check [OF assms(2,3), of wc ?k]
  have s2: "shrunk E wc (map_of (inflight w)) ?w2"
    by (rule shrunk_later [OF s1 assms(3)]) simp_all
  have world: "w' = (if pending_delta E wc ?k w \<noteq> 0 then ?w1
      else if res = Ok 0 then snd (run_state (addInflightRequest E wc url (resource_name r)) ?w2) else ?w2)"
    using assms(1) by (cases "pending_delta E wc ?k w = 0")
      (auto simp: triggerWebhook_send triggerWebhook_early)
  show "\<exists>es. trace w' = es @ trace w"
    by (metis assms(1) footprintD footprint_triggerWebhook)
  show "shrunk E wc (map_of (inflight w)) w'" if "res \<noteq> Ok 0"
    using that s1 s2 world by simp
  show "\<exists>t. shrunk E wc ((map_of (inflight w))(?k \<mapsto> t)) w' \<and>
      clock E (trace w) \<le> t \<and> t < clock E (trace w')" if ok: "res = Ok 0" and strict: "clock_strict E"
  proof -
    have "pending_delta E wc ?k w = 0"
      using assms(1) ok triggerWebhook_early [of E wc url r w] by auto
    with ok world have w': "w' = snd (run_state (addInflightRequest E wc url (resource_name r)) ?w2)"
      by simp
    let ?t = "clock E (trace ?w2)"
    obtain n where "trace ?w1 = replicate n EvNow @ trace w"
      using after_check_frame(2) by blast
    then have le: "clock E (trace w) \<le> ?t"
      using clock_mono_append [OF assms(3), of "trace w" "snd ?s @ replicate n EvNow"] by simp
    have "?t < clock E (EvNow # trace ?w2)" using strict by (simp add: clock_strict_def)
    also have "\<dots> \<le> clock E (trace w')"
      by (simp add: w' run_addInflight run_purge clock_mono_replicate [OF assms(3)])
    finally show ?thesis
      using shrunk_add [OF s2 assms(3), of url "resource_name r"] le w' by blast
  qed
qed


lemma log_covered_time:
  "log_covered E wc M h log \<Longrightarrow> clock E h \<le> clock E h' \<Longrightarrow> log_covered E wc M h' log"
  unfolding log_covered_def by fastforce

lemma webhook_run_invariant:
  assumes "webhook_run E wc w log" "clock_strict E"
  shows "cache_ok w \<and> log_covered E wc (map_of (inflight w)) (trace w) log \<and>
     spaced (wc_minimumRequestInterval wc) log"
  using assms
proof (induction rule: webhook_run.induct)
  case (run_start w)
  then show ?case by (simp add: cache_ok_def log_covered_def)
next
  case (run_other w log w' es)
  then show ?case
    using clock_mono_append [OF clock_strict_mono [OF run_other.prems], of "trace w" es]
    by (auto simp: cache_ok_def intro: log_covered_time)
next
  case (run_call w log url r res w')
  let ?k = "cache_key url (resource_name r)" and ?c = "clock E (trace w)"
  note mono = clock_strict_mono [OF run_call.prems]
  from run_call have ok: "cache_ok w" and cov: "log_covered E wc (map_of (inflight w)) (trace w) log"
    and sp: "spaced (wc_minimumRequestInterval wc) log" by auto
  note world = run_send_world [OF run_call.hyps(2) ok mono]
  obtain es where es: "trace w' = es @ trace w" using world(1) by blast
  show ?case
  proof (cases "res = Ok 0")
    case False
    with world(2) log_covered_shrunk [OF cov _ es mono] sp show ?thesis
      by (auto simp: shrunk_def)
  next
    case True
    obtain t where t: "shrunk E wc ((map_of (inflight w))(?k \<mapsto> t)) w'" "?c \<le> t" "t < clock E (trace w')"
      using world(3) True run_call.prems by blast
    have old: "s \<le> ?c \<and> wc_minimumRequestInterval wc \<le> ?c - s" if "(?k, s) \<in> set log" for s
    proof -
      have idle: "pending_delta E wc ?k w = 0"
        using run_call.hyps(2) True triggerWebhook_early [of E wc url r w] by auto
      from cov that consider u where "map_of (inflight w) ?k = Some u" "s \<le> u" "u < ?c"
        | "s \<le> ?c" "wc_minimumRequestInterval wc < ?c - s"
        by (auto simp: log_covered_def)
      then show ?thesis
      proof cases
        case 1
        with idle sub_time_pos [of u ?c]
        have "wc_minimumRequestInterval wc \<le> sub_time ?c u"
          by (auto simp: pending_delta_def Let_def split: if_splits)
        with 1 sub_time_le [of u ?c] show ?thesis by linarith
      qed auto
    qed
    have "log_covered E wc ((map_of (inflight w))(?k \<mapsto> t)) (trace w') ((?k, ?c) # log)"
      unfolding log_covered_def
    proof (intro ballI, clarify)
      fix k s assume mem: "(k, s) \<in> set ((?k, ?c) # log)"
        and none: "\<not> (s \<le> clock E (trace w') \<and>
          wc_minimumRequestInterval wc < clock E (trace w') - s)"
      show "\<exists>u. ((map_of (inflight w))(?k \<mapsto> t)) k = Some u \<and> s \<le> u \<and> u < clock E (trace w')"
      proof (cases "k = ?k")
        case True
        with mem old t(2,3) show ?thesis by fastforce
      next
        case False
        with mem have "(k, s) \<in> set log" by simp
        with none False cov clock_mono_append [OF mono, of "trace w" es] es show ?thesis
          by (fastforce simp: log_covered_def)
      qed
    qed
    then have "log_covered E wc (map_of (inflight w')) (trace w') ((?k, ?c) # log)"
      by (rule log_covered_shrunk [OF _ t(1) _ mono, where es = "[]"]) simp
    with True t(1) sp old show ?thesis by (auto simp: shrunk_def)
  qed
qed


section \<open>Properties\<close>

text \<open>C9: over any run of a webhook client (any calls, for any URLs and resources, with
  successes and failures, and with anything else that happens in between), any two requests
  for the same URL and resource that were accepted with a 2xx status were started at least
  the minimum request interval apart, provided every call takes some time.\<close>

theorem webhook_requests_spaced:
  assumes "clock_strict E" "webhook_run E wc w log"
  shows "spaced (wc_minimumRequestInterval wc) log"
  using webhook_run_invariant [OF assms(2,1)] by blast

lemma ref_clock_strict: "clock_strict ref_env"
  by (simp add: clock_strict_def second_def)

definition sample_wc :: webhook_client where
  "sample_wc = newWebhookClient (10 * second) (5 * second)"

lemma sample_wc_interval [simp]: "wc_minimumRequestInterval sample_wc = 5 * second"
  by (simp add: sample_wc_def newWebhookClient_def)

lemma sample_hp_name [simp]: "HostPool_GetName sample_hp = ''x''"
  by (simp add: HostPool_GetName_def sample_hp_def sample_meta_def new_meta_def)

abbreviation sample_call :: "world \<Rightarrow> duration res \<times> world" where
  "sample_call \<equiv> run_state (triggerWebhook ref_env sample_wc ''u'' (ResHostPool sample_hp))"

lemma sample_call_accepted:
  assumes "pending_delta ref_env sample_wc ''u:x'' w = 0"
  shows "fst (sample_call w) = Ok 0"
  using triggerWebhook_send [of ref_env sample_wc "''u''" "ResHostPool sample_hp" w] assms
  by (simp add: cache_key_def send_result_def ref_lib_def ref_env_def is_success_code_def Let_def)

lemma sample_call_run:
  "sample_call empty_world =
     (Ok 0, empty_world\<lparr>trace := [EvNow, EvNow, EvHttp (webhook_request ref_lib ''u'' (JObj []))],
             inflight := [(''u:x'', second)]\<rparr>)"
  by (simp add: triggerWebhook_def run_check pending_delta_def after_check_def run_purge
      State_Monad.return_def ref_lib_def ref_env_def is_success_code_def Let_def
      run_addInflight cache_key_def sub_time_def second_def max_int_def)

theorem webhook_requests_spaced_witness:
  "\<exists>w. webhook_run ref_env sample_wc w [(''u:x'', 9 * second), (''u:x'', 0)] \<and>
     spaced (wc_minimumRequestInterval sample_wc) [(''u:x'', 9 * second), (''u:x'', 0)]"
proof -
  let ?w1 = "snd (sample_call empty_world)"
  let ?w2 = "?w1\<lparr>trace := replicate 6 EvNow @ trace ?w1\<rparr>"
  have "webhook_run ref_env sample_wc ?w1 [(''u:x'', 0)]"
    using run_call [OF run_start [of empty_world ref_env sample_wc], of "''u''" "ResHostPool sample_hp" "Ok 0" ?w1]
    by (simp add: sample_call_run cache_key_def)
  then have run2: "webhook_run ref_env sample_wc ?w2 [(''u:x'', 0)]"
    by (rule run_other [where es = "replicate 6 EvNow"]) simp_all
  have "pending_delta ref_env sample_wc ''u:x'' ?w2 = 0" and now: "clock ref_env (trace ?w2) = 9 * second"
    by (simp_all add: sample_call_run pending_delta_def sub_time_def second_def max_int_def)
  then have "fst (sample_call ?w2) = Ok 0" by (rule_tac sample_call_accepted)
  then have "sample_call ?w2 = (Ok 0, snd (sample_call ?w2))" by (simp add: prod_eq_iff)
  from run_call [OF run2 this] now
  have "webhook_run ref_env sample_wc (snd (sample_call ?w2)) [(''u:x'', 9 * second), (''u:x'', 0)]"
    by (simp only: simp_thms if_True resource_name.simps sample_hp_name cache_key_def append.simps)
  with webhook_requests_spaced [OF ref_clock_strict] show ?thesis by blast
qed

text \<open>When a call reports a remaining time, it sent nothing (it only read the clock),
  and the time it reports is the time elapsed since the cached request, which is below the
  minimum interval, and not the time that is left of the interval.\<close>

theorem triggerWebhook_reports_elapsed:
  assumes "run_state (triggerWebhook E wc url r) w = (Ok d, w')" "d \<noteq> 0"
  shows "\<exists>t. map_of (inflight w) (cache_key url (resource_name r)) = Some t \<and>
      d = sub_time (clock E (trace w)) t \<and> d < wc_minimumRequestInterval wc \<and>
      (\<exists>n. trace w' = replicate n EvNow @ trace w)"
proof -
  have "pending_delta E wc (cache_key url (resource_name r)) w = d"
    using assms by (cases rule: triggerWebhook_cases [of E wc url r w]) auto
  then show ?thesis
    using assms(2) pending_delta_bounds wc.trigger_limited [OF assms] by metis
qed

theorem triggerWebhook_reports_elapsed_witness:
  "\<exists>t. map_of (inflight (empty_world\<lparr>trace := replicate 9 EvNow, inflight := [(''u:x'', 5 * second)]\<rparr>))
       (cache_key ''u'' (resource_name (ResHostPool sample_hp))) = Some t \<and> 4 * second = 9 * second - t"
proof -
  let ?w = "empty_world\<lparr>trace := replicate 9 EvNow, inflight := [(''u:x'', 5 * second)]\<rparr>"
  have k: "cache_key ''u'' ''x'' = ''u:x''"
    by (simp add: cache_key_def)
  have d: "pending_delta ref_env sample_wc ''u:x'' ?w = 4 * second"
    by (simp add: pending_delta_def sample_wc_def newWebhookClient_def sub_time_def second_def max_int_def)
  have "run_state (triggerWebhook ref_env sample_wc ''u'' (ResHostPool sample_hp)) ?w =
      (Ok (4 * second), after_check ref_env sample_wc ''u:x'' ?w)"
    using triggerWebhook_early [of ref_env sample_wc "''u''" "ResHostPool sample_hp" ?w] d
    by (simp add: k second_def)
  from triggerWebhook_reports_elapsed [OF this] show ?thesis
    by (simp add: k second_def)
qed

end
