(* ===== verification/Provider.thy ===== *)
theory Provider
  imports Webhook_Client
begin

text \<open>
  \<open>internal/provisioning/provider.go\<close>: the interface of the provisioning providers with its
  result types, and the locale \<open>provisioning_provider\<close>, the contract that the comments of
  that file promise and that the controller of compute instances relies on.
\<close>

record provision_result =
  pr_jobID :: string
  pr_initialState :: job_state
  pr_message :: string

datatype deprovision_action = DeprovisionTriggered | DeprovisionWaiting | DeprovisionSkipped

record provision_status =
  ps_jobID :: string
  ps_state :: job_state
  ps_message :: string
  ps_progress :: int
  ps_startTime :: time
  ps_endTime :: time
  ps_reconciledVersion :: string
  ps_errorDetails :: string

record deprovision_result =
  dr_action :: deprovision_action
  dr_jobID :: string
  dr_blockDeletionOnFailure :: bool
  dr_provisionJobStatus :: "provision_status option"

record provider =
  triggerProvision :: "resource \<Rightarrow> provision_result res act"
  getProvisionStatus :: "resource \<Rightarrow> string \<Rightarrow> provision_status res act"
  triggerDeprovision :: "resource \<Rightarrow> deprovision_result res act"
  getDeprovisionStatus :: "resource \<Rightarrow> string \<Rightarrow> provision_status res act"
  providerName :: string

definition mk_status :: "string \<Rightarrow> job_state \<Rightarrow> string \<Rightarrow> provision_status" where
  "mk_status jobID state msg =
     \<lparr>ps_jobID = jobID, ps_state = state, ps_message = msg, ps_progress = 0, ps_startTime = zero_time,
      ps_endTime = zero_time, ps_reconciledVersion = [], ps_errorDetails = []\<rparr>"

lemma mk_status_simps [simp]:
  "ps_jobID (mk_status i s m) = i" "ps_state (mk_status i s m) = s" "ps_message (mk_status i s m) = m"
  by (simp_all add: mk_status_def)

text \<open>A provider talks to its own backend: it does not touch the cluster.\<close>

definition outside_event :: "event \<Rightarrow> bool" where
  "outside_event e \<longleftrightarrow> e = EvNow \<or> (\<exists>rq. e = EvHttp rq)"

lemma outside_if: "webhook_events url e \<Longrightarrow> outside_event e"
  by (auto simp: webhook_events_def outside_event_def)

text \<open>
  A triggered job has an identifier and is not finished yet; a deprovisioning that waits or
  is skipped has none. A rate-limit error says to come back after a positive time. The
  status of a job is reported under the identifier it was asked for, and asking does not
  panic; no operation makes a request to the cluster.
\<close>

locale provisioning_provider =
  fixes P :: provider
  assumes provision_id: "fst (run_state (triggerProvision P r) w) = Ok res \<Longrightarrow> pr_jobID res \<noteq> []"
    and provision_running:
      "fst (run_state (triggerProvision P r) w) = Ok res \<Longrightarrow> \<not> isTerminal (pr_initialState res)"
    and provision_retry:
      "fst (run_state (triggerProvision P r) w) = Error e \<Longrightarrow> as_rate_limit e = Some d \<Longrightarrow> 0 < d"
    and deprovision_id: "fst (run_state (triggerDeprovision P r) w) = Ok dr \<Longrightarrow>
      dr_jobID dr \<noteq> [] \<longleftrightarrow> dr_action dr = DeprovisionTriggered"
    and deprovision_retry:
      "fst (run_state (triggerDeprovision P r) w) = Error e \<Longrightarrow> as_rate_limit e = Some d \<Longrightarrow> 0 < d"
    and provision_status_id:
      "fst (run_state (getProvisionStatus P r i) w) = Ok s \<Longrightarrow> ps_jobID s = i"
    and deprovision_status_id:
      "fst (run_state (getDeprovisionStatus P r i) w) = Ok s \<Longrightarrow> ps_jobID s = i"
    and status_no_panic: "fst (run_state (getProvisionStatus P r i) w) \<noteq> Panic m"
      "fst (run_state (getDeprovisionStatus P r i) w) \<noteq> Panic m"
    and footprints: "footprint outside_event (triggerProvision P r)"
      "footprint outside_event (getProvisionStatus P r i)"
      "footprint outside_event (triggerDeprovision P r)"
      "footprint outside_event (getDeprovisionStatus P r i)"

end
