(* ===== verification/Eda_Provider.thy ===== *)
theory Eda_Provider
  imports Provider
begin

text \<open>
  \<open>internal/provisioning/eda_provider.go\<close>: provisioning by webhook. A webhook has no job,
  so the provider numbers the jobs it tracks itself, after the largest number in the
  history; the lemmas show that a new number is fresh. The webhook client is the interface
  value the provider was built with.
\<close>

definition EDAJobIDPrefix :: string where "EDAJobIDPrefix = ''eda-webhook-''"

definition IsEDAJobID :: "string \<Rightarrow> bool" where
  "IsEDAJobID jobID \<longleftrightarrow> has_prefix jobID EDAJobIDPrefix"

definition aap_finalizer :: string where
  "aap_finalizer = ''cloudkit.openshift.io/computeinstance-aap''"

section \<open>Job identifiers\<close>

definition job_counter :: "job_status \<Rightarrow> int option" where
  "job_counter j = (if IsEDAJobID (js_jobID j) then atoi (trim_prefix (js_jobID j) EDAJobIDPrefix) else None)"

fun max_counter :: "int \<Rightarrow> job_status list \<Rightarrow> int" where
  "max_counter m [] = m"
| "max_counter m (j # js) =
     max_counter (case job_counter j of None \<Rightarrow> m | Some c \<Rightarrow> if c > m then c else m) js"

definition generateEDAJobID :: "job_status list \<Rightarrow> string" where
  "generateEDAJobID jobs = EDAJobIDPrefix @ itoa (wrap64 (max_counter 0 jobs + 1))"

section \<open>The provider\<close>

record eda_provider =
  eda_webhookClient :: "string \<Rightarrow> resource \<Rightarrow> duration res act"
  eda_createURL :: string
  eda_deleteURL :: string

definition eda_triggerProvision :: "eda_provider \<Rightarrow> resource \<Rightarrow> provision_result res act" where
  "eda_triggerProvision p r =
     (if eda_createURL p = [] then State_Monad.return (Error (Errorf ''create webhook URL not configured''))
      else do { res \<leftarrow> eda_webhookClient p (eda_createURL p) r;
        State_Monad.return
          (case res of
             Error e \<Rightarrow> Error (Wrap ''failed to trigger create webhook'' e)
           | Panic s \<Rightarrow> Panic s
           | Ok remaining \<Rightarrow>
               if remaining > 0 then Error (RateLimitError remaining)
               else (case r of
                   ResComputeInstance ci \<Rightarrow> Ok
                     \<lparr>pr_jobID = generateEDAJobID (ci_jobs ci), pr_initialState = JobStateRunning,
                      pr_message = ''Webhook sent to EDA, provisioning in progress''\<rparr>
                 | _ \<Rightarrow> Error (Errorf ''resource is not a ComputeInstance''))) })"

definition eda_getProvisionStatus :: "resource \<Rightarrow> string \<Rightarrow> provision_status res act" where
  "eda_getProvisionStatus r jobID =
     State_Monad.return (Ok (mk_status jobID JobStateUnknown ''EDA provider does not support status polling''))"

fun resource_finalizers :: "resource \<Rightarrow> string list" where
  "resource_finalizers (ResComputeInstance ci) = om_finalizers (ci_meta ci)"
| "resource_finalizers (ResClusterOrder co) = om_finalizers (co_meta co)"
| "resource_finalizers (ResHostPool hp) = om_finalizers (hp_meta hp)"

definition eda_triggerDeprovision :: "go_lib \<Rightarrow> eda_provider \<Rightarrow> resource \<Rightarrow> deprovision_result res act" where
  "eda_triggerDeprovision L p r =
     (if \<not> containsFinalizer L (resource_finalizers r) aap_finalizer
      then State_Monad.return (Ok \<lparr>dr_action = DeprovisionSkipped, dr_jobID = [],
             dr_blockDeletionOnFailure = False, dr_provisionJobStatus = None\<rparr>)
      else if eda_deleteURL p = []
      then State_Monad.return (Error (Errorf ''delete webhook URL not configured''))
      else do { res \<leftarrow> eda_webhookClient p (eda_deleteURL p) r;
        State_Monad.return
          (case res of
             Error e \<Rightarrow> Error (Wrap ''failed to trigger delete webhook'' e)
           | Panic s \<Rightarrow> Panic s
           | Ok remaining \<Rightarrow>
               if remaining > 0 then Error (RateLimitError remaining)
               else (case r of
                   ResComputeInstance ci \<Rightarrow> Ok
                     \<lparr>dr_action = DeprovisionTriggered, dr_jobID = generateEDAJobID (ci_jobs ci),
                      dr_blockDeletionOnFailure = False, dr_provisionJobStatus = None\<rparr>
                 | _ \<Rightarrow> Error (Errorf ''resource is not a ComputeInstance''))) })"

definition eda_getDeprovisionStatus :: "go_lib \<Rightarrow> resource \<Rightarrow> string \<Rightarrow> provision_status res act" where
  "eda_getDeprovisionStatus L r jobID =
     State_Monad.return (Ok
       (if \<not> containsFinalizer L (resource_finalizers r) aap_finalizer
        then mk_status jobID JobStateSucceeded ''AAP playbook completed (finalizer removed)''
        else mk_status jobID JobStateRunning ''Waiting for AAP playbook to complete''))"

definition edaProvider :: "go_lib \<Rightarrow> eda_provider \<Rightarrow> provider" where
  "edaProvider L p =
     \<lparr>triggerProvision = eda_triggerProvision p, getProvisionStatus = eda_getProvisionStatus,
      triggerDeprovision = eda_triggerDeprovision L p, getDeprovisionStatus = eda_getDeprovisionStatus L,
      providerName = ''eda''\<rparr>"

section \<open>Freshness of the identifiers\<close>

lemma generateEDAJobID_nonempty [simp]: "generateEDAJobID jobs \<noteq> []"
  by (simp add: generateEDAJobID_def EDAJobIDPrefix_def)

lemma generateEDAJobID_prefix [simp]: "IsEDAJobID (generateEDAJobID jobs)"
  by (simp add: generateEDAJobID_def IsEDAJobID_def)

lemma max_counter_ge: "m \<le> max_counter m jobs"
  by (induction m jobs rule: max_counter.induct) (auto split: option.splits if_splits)

lemma max_counter_bound: "j \<in> set jobs \<Longrightarrow> job_counter j = Some c \<Longrightarrow> c \<le> max_counter m jobs"
proof (induction m jobs rule: max_counter.induct)
  case (2 m k js)
  show ?case
  proof (cases "j = k")
    case True
    with 2(3) max_counter_ge [of c js] max_counter_ge [of m js] show ?thesis by auto
  qed (use 2 in auto)
qed simp

lemma max_counter_attained:
  "max_counter m jobs = m \<or> (\<exists>j \<in> set jobs. job_counter j = Some (max_counter m jobs))"
  by (induction m jobs rule: max_counter.induct) (auto split: option.splits if_splits)

text \<open>The new job's counter is one more than the largest, as long as that is below the largest int.\<close>

lemma job_counter_generated:
  assumes "js_jobID j = generateEDAJobID jobs" "max_counter 0 jobs < max_int"
  shows "job_counter j = Some (max_counter 0 jobs + 1)"
proof -
  have w: "wrap64 (max_counter 0 jobs + 1) = max_counter 0 jobs + 1"
    using assms(2) max_counter_ge [of 0 jobs] by (intro wrap64_id) (auto simp: max_int_def)
  have "in_int_range (max_counter 0 jobs + 1)"
    using assms(2) max_counter_ge [of 0 jobs] by (auto simp: in_int_range_def max_int_def)
  then show ?thesis
    using assms(1) by (simp add: job_counter_def IsEDAJobID_def generateEDAJobID_def w atoi_itoa)
qed

lemma generateEDAJobID_fresh:
  assumes "max_counter 0 jobs < max_int"
  shows "generateEDAJobID jobs \<notin> js_jobID ` set jobs"
proof
  assume "generateEDAJobID jobs \<in> js_jobID ` set jobs"
  then obtain j where j: "j \<in> set jobs" "js_jobID j = generateEDAJobID jobs" by auto
  from max_counter_bound [OF j(1) job_counter_generated [OF j(2) assms], of 0] show False by simp
qed

section \<open>The contract\<close>

lemma eda_footprints:
  assumes "webhook_service (eda_webhookClient p)"
  shows "footprint outside_event (eda_triggerProvision p r)"
    and "footprint outside_event (eda_triggerDeprovision L p r)"
  unfolding eda_triggerProvision_def eda_triggerDeprovision_def
  by (intro fp_intros footprint_mono [OF webhook_service.trigger_footprint [OF assms]]; erule outside_if)+

lemma eda_contract:
  assumes "webhook_service (eda_webhookClient p)"
  shows "provisioning_provider (edaProvider L p)"
proof
  show "footprint outside_event (triggerProvision (edaProvider L p) r)"
    "footprint outside_event (triggerDeprovision (edaProvider L p) r)"
    "footprint outside_event (getProvisionStatus (edaProvider L p) r i)"
    "footprint outside_event (getDeprovisionStatus (edaProvider L p) r i)" for r i
    using eda_footprints [OF assms]
    by (auto simp: edaProvider_def eda_getProvisionStatus_def eda_getDeprovisionStatus_def intro: fp_intros)
qed (auto simp: edaProvider_def eda_triggerProvision_def eda_getProvisionStatus_def
      eda_triggerDeprovision_def eda_getDeprovisionStatus_def State_Monad.return_def split_beta
      dest: webhook_service.trigger_error [OF assms] split: res.splits resource.splits if_splits)

interpretation eda: provisioning_provider
  "edaProvider (lib E) \<lparr>eda_webhookClient = triggerWebhook E wc, eda_createURL = cu, eda_deleteURL = du\<rparr>"
  for E wc cu du
  by (rule eda_contract) (simp add: wc.webhook_service_axioms)


section \<open>Properties\<close>

text \<open>The identifier EDA's provider gives to a job it triggers is an EDA identifier that no
  job of the instance's history has, as long as no tracked counter is the largest 64-bit int.\<close>

theorem eda_job_id_fresh:
  assumes "run_state (eda_triggerProvision p (ResComputeInstance ci)) w = (Ok res, w')"
    and "max_counter 0 (ci_jobs ci) < max_int"
  shows "IsEDAJobID (pr_jobID res) \<and> pr_jobID res \<notin> js_jobID ` set (ci_jobs ci)"
proof -
  have "pr_jobID res = generateEDAJobID (ci_jobs ci)"
    using assms(1)
    by (auto simp: eda_triggerProvision_def State_Monad.return_def split_beta split: res.splits if_splits)
  then show ?thesis using generateEDAJobID_fresh [OF assms(2)] by simp
qed

definition sample_eda :: eda_provider where
  "sample_eda = \<lparr>eda_webhookClient = triggerWebhook ref_env sample_wc, eda_createURL = ''u'', eda_deleteURL = ''d''\<rparr>"

definition eda_job :: "string \<Rightarrow> job_status" where
  "eda_job i =
     \<lparr>js_jobID = i, js_type = JobTypeProvision, js_timestamp = 0, js_state = JobStateFailed,
      js_message = [], js_blockDeletionOnFailure = False\<rparr>"

lemma sample_counters:
  "max_counter 0 [eda_job ''eda-webhook-9'', eda_job ''12'', eda_job ''eda-webhook-x''] = 9"
  by code_simp

theorem eda_job_id_fresh_witness:
  "\<exists>res. fst (run_state (eda_triggerProvision sample_eda (ResComputeInstance
       (set_jobs [eda_job ''eda-webhook-9'', eda_job ''12'', eda_job ''eda-webhook-x''] sample_ci)))
       empty_world) = Ok res \<and>
     IsEDAJobID (pr_jobID res) \<and> pr_jobID res \<notin> {''eda-webhook-9'', ''12'', ''eda-webhook-x''}"
proof -
  let ?jobs = "[eda_job ''eda-webhook-9'', eda_job ''12'', eda_job ''eda-webhook-x'']"
  let ?ci = "set_jobs ?jobs sample_ci"
  let ?run = "run_state (eda_triggerProvision sample_eda (ResComputeInstance ?ci)) empty_world"
  have "fst (run_state (triggerWebhook ref_env sample_wc ''u'' (ResComputeInstance ?ci)) empty_world) = Ok 0"
    by (subst triggerWebhook_send)
      (simp_all add: pending_delta_def send_result_def ref_lib_def ref_env_def is_success_code_def)
  then obtain res where res: "fst ?run = Ok res"
    by (simp add: eda_triggerProvision_def sample_eda_def State_Monad.return_def split_beta)
  then have "?run = (Ok res, snd ?run)" by (metis surjective_pairing)
  moreover have jobs: "ci_jobs ?ci = ?jobs" by (simp add: set_jobs_def)
  moreover have "max_counter 0 ?jobs < max_int" unfolding sample_counters by (simp add: max_int_def)
  ultimately have "IsEDAJobID (pr_jobID res) \<and> pr_jobID res \<notin> js_jobID ` set ?jobs"
    using eda_job_id_fresh [of sample_eda ?ci empty_world res "snd ?run"] by metis
  with res show ?thesis by (auto simp: eda_job_def)
qed

lemma eda_without_finalizer:
  assumes "finalizer_laws L" "aap_finalizer \<notin> set (om_finalizers (ci_meta ci))"
  shows "run_state (eda_triggerDeprovision L p (ResComputeInstance ci)) w =
      (Ok \<lparr>dr_action = DeprovisionSkipped, dr_jobID = [], dr_blockDeletionOnFailure = False,
           dr_provisionJobStatus = None\<rparr>, w)"
    and "run_state (eda_getDeprovisionStatus L (ResComputeInstance ci) i) w =
      (Ok (mk_status i JobStateSucceeded ''AAP playbook completed (finalizer removed)''), w)"
  using assms
  by (simp_all add: eda_triggerDeprovision_def eda_getDeprovisionStatus_def State_Monad.return_def
      finalizer_simps)

end
