(* ===== verification/Go_Encoding.thy ===== *)
theory Go_Encoding
  imports Go_Runtime
begin

unbundle bit_operations_syntax

text \<open>
  The standard-library encodings the operator builds names and versions from:
  \<open>hash/fnv\<close> (64-bit FNV-1a), \<open>encoding/hex\<close>, \<open>encoding/base32\<close> (standard alphabet, no
  padding) and \<open>strings.ToLower\<close> on ASCII. The lemmas give the length and the alphabet of
  each encoding and show that nothing is lost after the hash.
\<close>

section \<open>FNV-1a\<close>

definition fnv64_offset :: "64 word" where
  "fnv64_offset = 14695981039346656037"

definition fnv64_prime :: "64 word" where
  "fnv64_prime = 1099511628211"

definition fnv64a_step :: "64 word \<Rightarrow> char \<Rightarrow> 64 word" where
  "fnv64a_step h c = (h XOR of_char c) * fnv64_prime"

definition fnv64a :: "string \<Rightarrow> 64 word" where
  "fnv64a s = foldl fnv64a_step fnv64_offset s"

lemma fnv64a_Nil: "fnv64a [] = fnv64_offset"
  by (simp add: fnv64a_def)

lemma fnv64a_snoc: "fnv64a (s @ [c]) = fnv64a_step (fnv64a s) c"
  by (simp add: fnv64a_def)

section \<open>Big-endian digits of a word\<close>

text \<open>
  \<open>Sum(nil)\<close> lists the hash's bytes, most significant first; hex prints each byte as two
  4-bit digits and base32 regroups the bits by five, the last group filled with zero bits.
  Both are the digits of the hash in a power-of-two base, written here for any width.
\<close>

fun be_digits :: "nat \<Rightarrow> nat \<Rightarrow> nat \<Rightarrow> nat list" where
  "be_digits b 0 v = []"
| "be_digits b (Suc k) v = be_digits b k (v div b) @ [v mod b]"

definition be_value :: "nat \<Rightarrow> nat list \<Rightarrow> nat" where
  "be_value b = foldl (\<lambda>v d. v * b + d) 0"

lemma length_be_digits [simp]: "length (be_digits b k v) = k"
  by (induction k arbitrary: v) auto

lemma be_digits_bound: "0 < b \<Longrightarrow> d \<in> set (be_digits b k v) \<Longrightarrow> d < b"
  by (induction k arbitrary: v) auto

lemma be_value_snoc: "be_value b (ds @ [d]) = be_value b ds * b + d"
  by (simp add: be_value_def)

lemma be_value_digits: "be_value b (be_digits b k v) = v mod b ^ k"
proof (induction k arbitrary: v)
  case 0
  then show ?case by (simp add: be_value_def)
next
  case (Suc k)
  have "be_value b (be_digits b (Suc k) v) = (v div b mod b ^ k) * b + v mod b"
    by (simp add: be_value_snoc Suc)
  also have "\<dots> = v mod (b * b ^ k)"
    by (simp add: mod_mult2_eq algebra_simps)
  finally show ?case by simp
qed

lemma be_digits_inject:
  assumes "v < b ^ k" "w < b ^ k" "be_digits b k v = be_digits b k w"
  shows "v = w"
proof -
  have "v = be_value b (be_digits b k v)"
    using assms(1) by (simp only: be_value_digits mod_less)
  also have "\<dots> = be_value b (be_digits b k w)"
    by (simp only: assms(3))
  also have "\<dots> = w"
    using assms(2) by (simp only: be_value_digits mod_less)
  finally show ?thesis .
qed

section \<open>Hexadecimal and base32\<close>

definition bytes_of_word :: "64 word \<Rightarrow> nat list" where
  "bytes_of_word h = be_digits 256 8 (unat h)"

definition hex_alphabet :: string where
  "hex_alphabet = ''0123456789abcdef''"

definition base32_alphabet :: string where
  "base32_alphabet = ''ABCDEFGHIJKLMNOPQRSTUVWXYZ234567''"

text \<open>\<open>hex.EncodeToString\<close>: two digits for each byte.\<close>

definition hex_encode :: "nat list \<Rightarrow> string" where
  "hex_encode bs = concat (map (\<lambda>b. [hex_alphabet ! (b div 16), hex_alphabet ! (b mod 16)]) bs)"

text \<open>
  \<open>base32.StdEncoding.WithPadding(NoPadding).EncodeToString\<close>: the bits of all bytes, five
  at a time, the last group filled up with zero bits.
\<close>

definition byte_bits :: "nat \<Rightarrow> nat list" where
  "byte_bits b = be_digits 2 8 b"

function group_bits :: "nat \<Rightarrow> nat list \<Rightarrow> nat list list" where
  "group_bits k bs =
     (if bs = [] \<or> k = 0 then []
      else take k (bs @ replicate (k - length bs) 0) # group_bits k (drop k bs))"
  by pat_completeness auto
termination
  by (relation "measure (\<lambda>(k, bs). length bs)") auto

declare group_bits.simps [simp del]

definition base32_encode :: "nat list \<Rightarrow> string" where
  "base32_encode bs =
     map (\<lambda>g. base32_alphabet ! be_value 2 g) (group_bits 5 (concat (map byte_bits bs)))"

text \<open>\<open>strings.ToLower\<close> on ASCII letters.\<close>

definition to_lower_char :: "char \<Rightarrow> char" where
  "to_lower_char c =
     (let n = (of_char c :: nat) in if 65 \<le> n \<and> n \<le> 90 then char_of (n + 32) else c)"

definition to_lower :: "string \<Rightarrow> string" where
  "to_lower = map to_lower_char"

section \<open>Lengths, alphabets and injectivity\<close>

lemma length_bytes_of_word [simp]: "length (bytes_of_word h) = 8"
  by (simp add: bytes_of_word_def)

lemma bytes_of_word_bound: "b \<in> set (bytes_of_word h) \<Longrightarrow> b < 256"
  using be_digits_bound [of 256 b 8 "unat h"] by (simp add: bytes_of_word_def)

lemma bytes_of_word_inject: "bytes_of_word g = bytes_of_word h \<longleftrightarrow> g = h"
proof
  assume eq: "bytes_of_word g = bytes_of_word h"
  have bound: "unat x < 256 ^ 8" for x :: "64 word"
    using unsigned_less [of x, where ?'a = nat] by simp
  have "unat g = unat h"
    using be_digits_inject [OF bound bound] eq by (simp add: bytes_of_word_def)
  then show "g = h" by (simp add: word_unat_eq_iff)
qed simp

lemma length_hex_encode [simp]: "length (hex_encode bs) = 2 * length bs"
  by (induction bs) (simp_all add: hex_encode_def)

lemma alphabets:
  "distinct hex_alphabet" "distinct base32_alphabet"
  "length hex_alphabet = 16" "length base32_alphabet = 32"
  "map to_lower_char base32_alphabet = ''abcdefghijklmnopqrstuvwxyz234567''"
  "distinct (map to_lower_char base32_alphabet)"
  by code_simp+

lemma hex_alphabet_inject:
  "i < 16 \<Longrightarrow> j < 16 \<Longrightarrow> hex_alphabet ! i = hex_alphabet ! j \<longleftrightarrow> i = j"
  by (rule nth_eq_iff_index_eq) (simp_all add: alphabets)

lemma hex_encode_inject:
  assumes "\<forall>b \<in> set bs. b < 256" "\<forall>b \<in> set cs. b < 256" "hex_encode bs = hex_encode cs"
  shows "bs = cs"
  using assms
proof (induction bs arbitrary: cs)
  case Nil
  then show ?case by (cases cs) (simp_all add: hex_encode_def)
next
  case (Cons b bs)
  then obtain c cs' where cs: "cs = c # cs'"
    by (cases cs) (auto simp: hex_encode_def)
  from Cons.prems cs have "b div 16 = c div 16" "b mod 16 = c mod 16"
    by (auto simp: hex_encode_def hex_alphabet_inject)
  then have "b = c" by (metis div_mod_decomp)
  moreover
  from Cons.prems cs have "hex_encode bs = hex_encode cs'"
    by (simp add: hex_encode_def)
  with Cons.IH Cons.prems(1,2) cs have "bs = cs'" by simp
  ultimately show ?case using cs by simp
qed

lemma base32_alphabet_nth: "i < 32 \<Longrightarrow> base32_alphabet ! i \<in> set base32_alphabet"
  by (rule nth_mem) (simp add: alphabets)

lemma base32_alphabet_inject:
  "i < 32 \<Longrightarrow> j < 32 \<Longrightarrow> base32_alphabet ! i = base32_alphabet ! j \<longleftrightarrow> i = j"
  by (rule nth_eq_iff_index_eq) (simp_all add: alphabets)

lemma length_group_bits:
  "0 < k \<Longrightarrow> length (group_bits k bs) = (length bs + k - 1) div k"
proof (induction k bs rule: group_bits.induct)
  case (1 k bs)
  show ?case
  proof (cases "bs = []")
    case True
    with 1 show ?thesis by (simp add: group_bits.simps)
  next
    case False
    with 1 have IH: "length (group_bits k (drop k bs)) = (length bs - k + k - 1) div k" by simp
    have pos: "0 < length bs" using False by simp
    show ?thesis
    proof (cases "length bs < k")
      case True
      have "(length bs + k - 1) div k = Suc 0"
        using True pos by (intro div_nat_eqI) linarith+
      moreover have "length (group_bits k bs) = Suc 0"
        using True False "1.prems" by (subst group_bits.simps) (simp add: group_bits.simps [of k "[]"])
      ultimately show ?thesis by simp
    next
      case F: False
      have "(length bs + k - 1) div k = Suc ((length bs - 1) div k)"
      proof -
        have "length bs + k - 1 = (length bs - 1) + k" using pos by linarith
        moreover have "k \<noteq> 0" using "1.prems" by simp
        ultimately show ?thesis by (metis Suc_eq_plus1 div_add_self2)
      qed
      with F False 1 IH show ?thesis by (subst group_bits.simps) (simp add: Suc_le_eq)
    qed
  qed
qed

lemma group_bits_members:
  "0 < k \<Longrightarrow> set bs \<subseteq> A \<Longrightarrow> 0 \<in> A \<Longrightarrow> g \<in> set (group_bits k bs) \<Longrightarrow>
   length g = k \<and> set g \<subseteq> A"
proof (induction k bs rule: group_bits.induct)
  case (1 k bs)
  show ?case
  proof (cases "bs = []")
    case True
    with 1 show ?thesis by (simp add: group_bits.simps)
  next
    case False
    with "1.prems" have "g = take k (bs @ replicate (k - length bs) 0) \<or> g \<in> set (group_bits k (drop k bs))"
      by (simp add: group_bits.simps [of k bs])
    then show ?thesis
    proof
      assume g: "g = take k (bs @ replicate (k - length bs) 0)"
      then have "set g \<subseteq> set bs \<union> {0}" using set_take_subset by fastforce
      with g "1.prems" show ?thesis by auto
    next
      assume "g \<in> set (group_bits k (drop k bs))"
      moreover have "set (drop k bs) \<subseteq> A" using "1.prems" set_drop_subset by fast
      ultimately show ?thesis using 1 False by simp
    qed
  qed
qed

text \<open>Grouping loses no bits: the groups, joined, start with the bits.\<close>

lemma concat_group_bits:
  "0 < k \<Longrightarrow> take (length bs) (concat (group_bits k bs)) = bs"
proof (induction k bs rule: group_bits.induct)
  case (1 k bs)
  show ?case
  proof (cases "bs = []")
    case False
    with 1 have IH: "take (length bs - k) (concat (group_bits k (drop k bs))) = drop k bs" by simp
    show ?thesis
    proof (cases "length bs \<le> k")
      case True
      with False 1 show ?thesis by (subst group_bits.simps) simp
    next
      case F: False
      with False 1 IH show ?thesis by (subst group_bits.simps) simp
    qed
  qed simp
qed

lemma be_value_append: "be_value b (ds @ es) = be_value b ds * b ^ length es + be_value b es"
proof (induction es rule: rev_induct)
  case Nil
  then show ?case by (simp add: be_value_def)
next
  case (snoc e es)
  have "be_value b (ds @ es @ [e]) = be_value b ((ds @ es) @ [e])" by simp
  also have "\<dots> = be_value b (ds @ es) * b + e" by (rule be_value_snoc)
  finally show ?case by (simp add: snoc be_value_snoc algebra_simps)
qed

lemma be_value_bound: "set ds \<subseteq> {..<b} \<Longrightarrow> be_value b ds < b ^ length ds"
proof (induction ds rule: rev_induct)
  case Nil
  then show ?case by (simp add: be_value_def)
next
  case (snoc d ds)
  then have "be_value b ds < b ^ length ds" "d < b" by auto
  then have "Suc (be_value b ds) * b \<le> b ^ length ds * b" by (intro mult_le_mono1) simp
  with \<open>d < b\<close> show ?case by (simp add: be_value_snoc algebra_simps)
qed

lemma be_digits_be_value: "set ds \<subseteq> {..<b} \<Longrightarrow> be_digits b (length ds) (be_value b ds) = ds"
proof (induction ds rule: rev_induct)
  case (snoc d ds)
  then show ?case by (simp add: be_value_snoc)
qed simp

lemma be_value_inject:
  "set ds \<subseteq> {..<b} \<Longrightarrow> set es \<subseteq> {..<b} \<Longrightarrow> length ds = length es \<Longrightarrow>
   be_value b ds = be_value b es \<longleftrightarrow> ds = es"
  by (metis be_digits_be_value)

lemma byte_bits_bits: "set (concat (map byte_bits bs)) \<subseteq> {..<2}"
  using be_digits_bound [of 2] by (force simp: byte_bits_def)

lemma length_byte_bits [simp]: "length (concat (map byte_bits bs)) = 8 * length bs"
  by (induction bs) (simp_all add: byte_bits_def)

lemma concat_byte_bits_inject:
  "\<forall>b \<in> set bs. b < 256 \<Longrightarrow> \<forall>b \<in> set cs. b < 256 \<Longrightarrow> length bs = length cs \<Longrightarrow>
   concat (map byte_bits bs) = concat (map byte_bits cs) \<Longrightarrow> bs = cs"
proof (induction bs cs rule: list_induct2')
  case (4 b bs c cs)
  then have "byte_bits b = byte_bits c" "concat (map byte_bits bs) = concat (map byte_bits cs)"
    by (auto simp: byte_bits_def)
  with 4 show ?case
    using be_digits_inject [of b 2 8 c] by (simp add: byte_bits_def)
qed auto

lemma length_base32_encode: "length (base32_encode bs) = (8 * length bs + 4) div 5"
  by (simp add: base32_encode_def length_group_bits)

lemma base32_group:
  assumes "g \<in> set (group_bits 5 (concat (map byte_bits bs)))"
  shows "length g = 5 \<and> set g \<subseteq> {..<2}" and "be_value 2 g < 32"
proof -
  show A: "length g = 5 \<and> set g \<subseteq> {..<2}"
    using group_bits_members [OF _ byte_bits_bits _ assms] by simp
  then show "be_value 2 g < 32"
    using be_value_bound [of g 2] by simp
qed

lemma set_base32_encode: "set (base32_encode bs) \<subseteq> set base32_alphabet"
  by (auto simp: base32_encode_def intro!: base32_alphabet_nth base32_group(2))

lemma map_inj_on_eq:
  "map f xs = map f ys \<Longrightarrow> inj_on f (set xs \<union> set ys) \<Longrightarrow> xs = ys"
  by (rule map_inj_on)

lemma base32_encode_inject:
  assumes "\<forall>b \<in> set bs. b < 256" "\<forall>b \<in> set cs. b < 256" "length bs = length cs"
    and eq: "base32_encode bs = base32_encode cs"
  shows "bs = cs"
proof -
  let ?bits = "\<lambda>xs. concat (map byte_bits xs)"
  let ?gs = "group_bits 5 (?bits bs)" and ?hs = "group_bits 5 (?bits cs)"
  have "inj_on (\<lambda>g. base32_alphabet ! be_value 2 g) (set ?gs \<union> set ?hs)"
  proof (rule inj_onI)
    fix g h
    assume g: "g \<in> set ?gs \<union> set ?hs" and h: "h \<in> set ?gs \<union> set ?hs"
      and same: "base32_alphabet ! be_value 2 g = base32_alphabet ! be_value 2 h"
    have G: "be_value 2 g < 32" "length g = 5" "set g \<subseteq> {..<2}"
      and H: "be_value 2 h < 32" "length h = 5" "set h \<subseteq> {..<2}"
      using g h base32_group by blast+
    with same show "g = h" by (simp add: base32_alphabet_inject be_value_inject)
  qed
  then have "?gs = ?hs"
    using eq unfolding base32_encode_def by (rule map_inj_on [rotated])
  then have "?bits bs = ?bits cs"
    by (metis concat_group_bits length_byte_bits assms(3) zero_less_numeral)
  with assms(1-3) show ?thesis by (rule concat_byte_bits_inject)
qed

lemma to_lower_inj_base32: "inj_on to_lower_char (set base32_alphabet)"
  using alphabets(6) by (simp add: distinct_map)

lemma to_lower_base32_inject:
  assumes "to_lower (base32_encode bs) = to_lower (base32_encode cs)"
  shows "base32_encode bs = base32_encode cs"
proof (rule map_inj_on)
  show "map to_lower_char (base32_encode bs) = map to_lower_char (base32_encode cs)"
    using assms by (simp add: to_lower_def)
  show "inj_on to_lower_char (set (base32_encode bs) \<union> set (base32_encode cs))"
    using to_lower_inj_base32 by (rule inj_on_subset) (use set_base32_encode in auto)
qed

lemma set_to_lower_base32:
  "set (to_lower (base32_encode bs)) \<subseteq> set ''abcdefghijklmnopqrstuvwxyz234567''"
proof -
  have "to_lower_char ` set base32_alphabet = set ''abcdefghijklmnopqrstuvwxyz234567''"
    using alphabets(5) by (metis set_map)
  then show ?thesis
    using image_mono [OF set_base32_encode, of to_lower_char bs] by (simp add: to_lower_def)
qed

end
