(* ===== verification/Json_Decode.thy ===== *)
theory Json_Decode
  imports Reference_Env Go_Encoding
begin

text \<open>
  What the operator uses of \<open>encoding/json\<close>: decoding a parsed value into a struct by its
  field tags. Keys match without regard to (ASCII) case, unknown keys are skipped, \<open>null\<close>
  leaves a field as it is, the last of several equal keys wins, and a value of another type
  is an error. Parsing the bytes is a parameter (\<open>json_parse\<close>).
\<close>

definition decode_int :: "json \<Rightarrow> int \<Rightarrow> int option" where
  "decode_int v old = (case v of JNull \<Rightarrow> Some old
     | JInt n \<Rightarrow> if in_int_range n then Some n else None | _ \<Rightarrow> None)"

definition decode_string :: "json \<Rightarrow> string \<Rightarrow> string option" where
  "decode_string v old = (case v of JNull \<Rightarrow> Some old | JStr s \<Rightarrow> Some s | _ \<Rightarrow> None)"

definition decode_bool :: "json \<Rightarrow> bool \<Rightarrow> bool option" where
  "decode_bool v old = (case v of JNull \<Rightarrow> Some old | JBool b \<Rightarrow> Some b | _ \<Rightarrow> None)"

definition decode_time :: "go_lib \<Rightarrow> json \<Rightarrow> time \<Rightarrow> time option" where
  "decode_time L v old = (case v of JNull \<Rightarrow> Some old | JStr s \<Rightarrow> parse_rfc3339 L s | _ \<Rightarrow> None)"

text \<open>A struct is described by its tags, each with the setter of the field.\<close>

type_synonym 'a fields = "(string \<times> (json \<Rightarrow> 'a \<Rightarrow> 'a option)) list"

definition field :: "string \<Rightarrow> (json \<Rightarrow> 'f \<Rightarrow> 'f option) \<Rightarrow> ('a \<Rightarrow> 'f) \<Rightarrow> ('f \<Rightarrow> 'a \<Rightarrow> 'a) \<Rightarrow>
    string \<times> (json \<Rightarrow> 'a \<Rightarrow> 'a option)" where
  "field tag dec get upd = (tag, \<lambda>v x. map_option (\<lambda>f. upd f x) (dec v (get x)))"

fun decode_members :: "'a fields \<Rightarrow> (string \<times> json) list \<Rightarrow> 'a \<Rightarrow> 'a option" where
  "decode_members fs [] x = Some x"
| "decode_members fs ((k, v) # kvs) x =
     (case map_of fs (to_lower k) of
        None \<Rightarrow> decode_members fs kvs x
      | Some f \<Rightarrow> (case f v x of None \<Rightarrow> None | Some y \<Rightarrow> decode_members fs kvs y))"

definition decode_struct :: "'a fields \<Rightarrow> 'a \<Rightarrow> json \<Rightarrow> 'a option" where
  "decode_struct fs zero v =
     (case v of JNull \<Rightarrow> Some zero | JObj kvs \<Rightarrow> decode_members fs kvs zero | _ \<Rightarrow> None)"

fun decode_elements :: "(json \<Rightarrow> 'a option) \<Rightarrow> json list \<Rightarrow> 'a list option" where
  "decode_elements dec [] = Some []"
| "decode_elements dec (v # vs) =
     (case dec v of None \<Rightarrow> None
      | Some x \<Rightarrow> (case decode_elements dec vs of None \<Rightarrow> None | Some xs \<Rightarrow> Some (x # xs)))"

definition decode_list :: "(json \<Rightarrow> 'a option) \<Rightarrow> json \<Rightarrow> 'a list \<Rightarrow> 'a list option" where
  "decode_list dec v old = (case v of JNull \<Rightarrow> Some old | JArr vs \<Rightarrow> decode_elements dec vs | _ \<Rightarrow> None)"

definition unmarshal :: "go_lib \<Rightarrow> 'a fields \<Rightarrow> 'a \<Rightarrow> string \<Rightarrow> 'a option" where
  "unmarshal L fs zero s = (case json_parse L s of None \<Rightarrow> None | Some v \<Rightarrow> decode_struct fs zero v)"

text \<open>Decoding the elements of an array keeps their number.\<close>

lemma decode_elements_length: "decode_elements dec vs = Some xs \<Longrightarrow> length xs = length vs"
  by (induction vs arbitrary: xs) (auto split: option.splits)

text \<open>Keys that the struct has no field for do not matter.\<close>

lemma decode_members_filter:
  "decode_members fs kvs x = decode_members fs (filter (\<lambda>(k, v). map_of fs (to_lower k) \<noteq> None) kvs) x"
  by (induction kvs arbitrary: x) (auto split: option.splits)

end
