(* ===== verification/Aap_Client.thy ===== *)
theory Aap_Client
  imports Json_Decode
begin

text \<open>
  \<open>internal/aap/client.go\<close>: the REST client of the Ansible Automation Platform, with its
  cache of templates, and the locale \<open>aap_service\<close>, the contract of the interface
  \<open>AAPClient\<close> that the provider uses. A template is identified in a request by its name.
\<close>

definition APIVersion :: string where "APIVersion = ''v2''"
definition JobTemplatesEndpoint :: string where "JobTemplatesEndpoint = ''job_templates''"
definition WorkflowJobTemplatesEndpoint :: string where
  "WorkflowJobTemplatesEndpoint = ''workflow_job_templates''"

lemmas endpoint_defs = APIVersion_def JobTemplatesEndpoint_def WorkflowJobTemplatesEndpoint_def

record aap_conn =
  aap_baseURL :: string
  aap_token :: string
  aap_timeout :: duration

definition newAapClient :: "string \<Rightarrow> string \<Rightarrow> aap_conn" where
  "newAapClient url token = \<lparr>aap_baseURL = url, aap_token = token, aap_timeout = 30 * second\<rparr>"

record aap_job =
  aj_id :: int
  aj_status :: string
  aj_started :: time
  aj_finished :: time
  aj_extraVars :: string
  aj_resultTraceback :: string

section \<open>Requests\<close>

definition aap_request :: "go_lib \<Rightarrow> aap_conn \<Rightarrow> string \<Rightarrow> string \<Rightarrow> json option \<Rightarrow> http_request" where
  "aap_request L c method url payload =
     \<lparr>hr_method = method, hr_url = url,
      hr_headers = [(''Content-Type'', ''application/json''), (''Authorization'', ''Bearer '' @ aap_token c)],
      hr_body = map_option (json_print L) payload\<rparr>"

definition classify_response :: "string \<Rightarrow> string \<Rightarrow> int \<Rightarrow> string \<Rightarrow> string res" where
  "classify_response method url code body =
     (if code < 200 \<or> 300 \<le> code
      then (if code = 404 then Error (NotFoundError url url)
            else if code = 405 then Error (MethodNotAllowedError (method @ '' '' @ url) url)
            else Error (Errorf (''received non-success status code '' @ itoa code @ '': '' @ body)))
      else Ok body)"

definition doRequest :: "env \<Rightarrow> aap_conn \<Rightarrow> string \<Rightarrow> string \<Rightarrow> json option \<Rightarrow> string res act" where
  "doRequest E c method url payload =
     (case http_new E method url of
        Some e \<Rightarrow> State_Monad.return (Error (Wrap ''failed to create request'' (ExtError e)))
      | None \<Rightarrow>
        do { resp \<leftarrow> (let rq = aap_request (lib E) c method url payload
                in request (EvHttp rq) (http_do E (aap_timeout c) rq));
             State_Monad.return
               (case resp of
                  Inl e \<Rightarrow> Error (Wrap ''failed to send request'' (ExtError e))
                | Inr a \<Rightarrow> (case hs_body a of
                    Inl e \<Rightarrow> Error (Wrap ''failed to read response body'' (ExtError e))
                  | Inr body \<Rightarrow> classify_response method url (hs_statusCode a) body)) })"

section \<open>The template cache\<close>

definition load_template :: "string \<Rightarrow> template option act" where
  "load_template name = State (\<lambda>w. (templates w name, w))"

definition store_template :: "string \<Rightarrow> template \<Rightarrow> unit act" where
  "store_template name t = State (\<lambda>w. ((), w\<lparr>templates := (templates w)(name \<mapsto> t)\<rparr>))"

definition invalidateTemplateCache :: "string \<Rightarrow> unit act" where
  "invalidateTemplateCache name = State (\<lambda>w. ((), w\<lparr>templates := (templates w)(name := None)\<rparr>))"

definition clearTemplateCache :: "unit act" where
  "clearTemplateCache = State (\<lambda>w. ((), w\<lparr>templates := Map.empty\<rparr>))"

definition doTemplateRequest ::
    "env \<Rightarrow> aap_conn \<Rightarrow> string \<Rightarrow> string \<Rightarrow> json option \<Rightarrow> string \<Rightarrow> string res act" where
  "doTemplateRequest E c method url payload name =
     do { resp \<leftarrow> doRequest E c method url payload;
          case resp of
            Error e \<Rightarrow> (if as_not_found e
              then do { invalidateTemplateCache name; State_Monad.return (Error e) }
              else State_Monad.return (Error e))
          | _ \<Rightarrow> State_Monad.return resp }"

section \<open>Launching and following jobs\<close>

definition launch_url :: "aap_conn \<Rightarrow> string \<Rightarrow> string \<Rightarrow> string" where
  "launch_url c endpoint name =
     aap_baseURL c @ ''/'' @ APIVersion @ ''/'' @ endpoint @ ''/'' @ name @ ''/launch/''"

definition launch_fields :: "int fields" where
  "launch_fields = [field ''id'' decode_int (\<lambda>x. x) (\<lambda>f x. f)]"

definition launch ::
    "env \<Rightarrow> aap_conn \<Rightarrow> string \<Rightarrow> string \<Rightarrow> string \<Rightarrow> json \<Rightarrow> int res act" where
  "launch E c what endpoint name extraVars =
     do { resp \<leftarrow> doTemplateRequest E c ''POST'' (launch_url c endpoint name)
            (Some (JObj [(''extra_vars'', extraVars)])) name;
          State_Monad.return
            (case resp of
               Error e \<Rightarrow> Error (Wrap what e)
             | Panic s \<Rightarrow> Panic s
             | Ok body \<Rightarrow> (case unmarshal (lib E) launch_fields 0 body of
                 None \<Rightarrow> Error (Wrap ''failed to parse launch response'' (ExtError (json_error (lib E) body)))
               | Some jobID \<Rightarrow> Ok jobID)) }"

definition launchJobTemplate :: "env \<Rightarrow> aap_conn \<Rightarrow> string \<Rightarrow> json \<Rightarrow> int res act" where
  "launchJobTemplate E c = launch E c ''failed to launch job template'' JobTemplatesEndpoint"

definition launchWorkflowTemplate :: "env \<Rightarrow> aap_conn \<Rightarrow> string \<Rightarrow> json \<Rightarrow> int res act" where
  "launchWorkflowTemplate E c =
     launch E c ''failed to launch workflow template'' WorkflowJobTemplatesEndpoint"

definition zero_job :: aap_job where
  "zero_job = \<lparr>aj_id = 0, aj_status = [], aj_started = zero_time, aj_finished = zero_time,
     aj_extraVars = [], aj_resultTraceback = []\<rparr>"

definition job_fields :: "go_lib \<Rightarrow> aap_job fields" where
  "job_fields L =
     [field ''id'' decode_int aj_id (\<lambda>f x. x\<lparr>aj_id := f\<rparr>),
      field ''status'' decode_string aj_status (\<lambda>f x. x\<lparr>aj_status := f\<rparr>),
      field ''started'' (decode_time L) aj_started (\<lambda>f x. x\<lparr>aj_started := f\<rparr>),
      field ''finished'' (decode_time L) aj_finished (\<lambda>f x. x\<lparr>aj_finished := f\<rparr>),
      field ''extra_vars'' decode_string aj_extraVars (\<lambda>f x. x\<lparr>aj_extraVars := f\<rparr>),
      field ''result_traceback'' decode_string aj_resultTraceback (\<lambda>f x. x\<lparr>aj_resultTraceback := f\<rparr>)]"

definition getJob :: "env \<Rightarrow> aap_conn \<Rightarrow> string \<Rightarrow> aap_job res act" where
  "getJob E c jobID =
     do { resp \<leftarrow> doRequest E c ''GET''
            (aap_baseURL c @ ''/'' @ APIVersion @ ''/jobs/'' @ jobID @ ''/'') None;
          State_Monad.return
            (case resp of
               Error e \<Rightarrow> Error (Wrap ''failed to get job'' e)
             | Panic s \<Rightarrow> Panic s
             | Ok body \<Rightarrow> (case unmarshal (lib E) (job_fields (lib E)) zero_job body of
                 None \<Rightarrow> Error (Wrap ''failed to parse job response'' (ExtError (json_error (lib E) body)))
               | Some job \<Rightarrow> Ok job)) }"

definition cancel_url :: "aap_conn \<Rightarrow> string \<Rightarrow> string" where
  "cancel_url c jobID = aap_baseURL c @ ''/'' @ APIVersion @ ''/jobs/'' @ jobID @ ''/cancel/''"

definition can_cancel_fields :: "bool fields" where
  "can_cancel_fields = [field ''can_cancel'' decode_bool (\<lambda>x. x) (\<lambda>f x. f)]"

definition canCancelJob :: "env \<Rightarrow> aap_conn \<Rightarrow> string \<Rightarrow> bool res act" where
  "canCancelJob E c jobID =
     do { resp \<leftarrow> doRequest E c ''GET'' (cancel_url c jobID) None;
          State_Monad.return
            (case resp of
               Error e \<Rightarrow> Error (Wrap ''failed to check if job can be canceled'' e)
             | Panic s \<Rightarrow> Panic s
             | Ok body \<Rightarrow> (case unmarshal (lib E) can_cancel_fields False body of
                 None \<Rightarrow> Error (Wrap ''failed to parse can_cancel response'' (ExtError (json_error (lib E) body)))
               | Some b \<Rightarrow> Ok b)) }"

definition cancelJob :: "env \<Rightarrow> aap_conn \<Rightarrow> string \<Rightarrow> unit res act" where
  "cancelJob E c jobID =
     do { resp \<leftarrow> doRequest E c ''POST'' (cancel_url c jobID) None;
          State_Monad.return
            (case resp of
               Error e \<Rightarrow> Error (Wrap ''failed to cancel job'' e)
             | Panic s \<Rightarrow> Panic s
             | Ok _ \<Rightarrow> Ok ()) }"

section \<open>Looking up templates\<close>

definition zero_template :: template where
  "zero_template = \<lparr>tmpl_id = 0, tmpl_name = [], tmpl_type = TemplateTypeOther []\<rparr>"

definition template_fields :: "template fields" where
  "template_fields =
     [field ''id'' decode_int tmpl_id (\<lambda>f x. x\<lparr>tmpl_id := f\<rparr>),
      field ''name'' decode_string tmpl_name (\<lambda>f x. x\<lparr>tmpl_name := f\<rparr>)]"

definition lookup_fields :: "(int \<times> template list) fields" where
  "lookup_fields =
     [field ''count'' decode_int fst (\<lambda>f x. (f, snd x)),
      field ''results'' (decode_list (decode_struct template_fields zero_template)) snd (\<lambda>f x. (fst x, f))]"

text \<open>\<open>Results[0]\<close> is read whenever the count is not zero: an empty list makes it panic.\<close>

definition select_template :: "go_lib \<Rightarrow> string \<Rightarrow> template_type \<Rightarrow> string \<Rightarrow> template res" where
  "select_template L name ty body =
     (case unmarshal L lookup_fields (0, []) body of
        None \<Rightarrow> Error (Wrap ''failed to parse template lookup response'' (ExtError (json_error L body)))
      | Some (count, results) \<Rightarrow>
          if count = 0 then Error (Errorf (''template '' @ name @ '' not found''))
          else (case results of
              [] \<Rightarrow> Panic ''runtime error: index out of range [0] with length 0''
            | t # _ \<Rightarrow> Ok (t\<lparr>tmpl_type := ty\<rparr>)))"

definition getTemplateFromEndpoint ::
    "env \<Rightarrow> aap_conn \<Rightarrow> string \<Rightarrow> string \<Rightarrow> template_type \<Rightarrow> template res act" where
  "getTemplateFromEndpoint E c endpoint name ty =
     do { resp \<leftarrow> doRequest E c ''GET''
            (aap_baseURL c @ ''/'' @ APIVersion @ ''/'' @ endpoint @ ''/?name='' @ name) None;
          State_Monad.return
            (case resp of
               Error e \<Rightarrow> Error e
             | Panic s \<Rightarrow> Panic s
             | Ok body \<Rightarrow> select_template (lib E) name ty body) }"

definition getTemplateByName :: "env \<Rightarrow> aap_conn \<Rightarrow> string \<Rightarrow> template res act" where
  "getTemplateByName E c name =
     do { job \<leftarrow> getTemplateFromEndpoint E c JobTemplatesEndpoint name TemplateTypeJob;
          case job of
            Error _ \<Rightarrow>
              do { wf \<leftarrow> getTemplateFromEndpoint E c WorkflowJobTemplatesEndpoint name TemplateTypeWorkflow;
                   State_Monad.return (case wf of
                     Error _ \<Rightarrow> Error (Errorf (''template '' @ name @ '' not found as '' @
                       JobTemplatesEndpoint @ '' or '' @ WorkflowJobTemplatesEndpoint))
                   | _ \<Rightarrow> wf) }
          | _ \<Rightarrow> State_Monad.return job }"

definition getTemplate :: "env \<Rightarrow> aap_conn \<Rightarrow> string \<Rightarrow> template res act" where
  "getTemplate E c name =
     do { cached \<leftarrow> load_template name;
          case cached of
            Some t \<Rightarrow> State_Monad.return (Ok t)
          | None \<Rightarrow>
              do { r \<leftarrow> getTemplateByName E c name;
                   case r of
                     Ok t \<Rightarrow> do { store_template name t; State_Monad.return (Ok t) }
                   | _ \<Rightarrow> State_Monad.return r } }"


section \<open>Behaviour of the requests\<close>

lemma footprint_cache [fp_intros]:
  "footprint P (load_template n)" "footprint P (store_template n t)"
  "footprint P (invalidateTemplateCache n)" "footprint P clearTemplateCache"
  by (simp_all add: footprint_def load_template_def store_template_def invalidateTemplateCache_def
      clearTemplateCache_def)

lemma footprint_doRequest [fp_intros]:
  "P (EvHttp (aap_request (lib E) c mth url payload)) \<Longrightarrow> footprint P (doRequest E c mth url payload)"
  unfolding doRequest_def Let_def by (intro fp_intros)

lemma footprint_doTemplateRequest [fp_intros]:
  "P (EvHttp (aap_request (lib E) c mth url payload)) \<Longrightarrow>
   footprint P (doTemplateRequest E c mth url payload name)"
  unfolding doTemplateRequest_def by (intro fp_intros)

text \<open>A request is one event at most, and keeps the caches.\<close>

lemma run_doRequest:
  obtains (not_sent) e where "http_new E mth url = Some e"
      "run_state (doRequest E c mth url payload) w =
        (Error (Wrap ''failed to create request'' (ExtError e)), w)"
  | (sent) "http_new E mth url = None"
      "snd (run_state (doRequest E c mth url payload) w) =
        w\<lparr>trace := EvHttp (aap_request (lib E) c mth url payload) # trace w\<rparr>"
  by (cases "http_new E mth url") (simp_all add: doRequest_def Let_def State_Monad.return_def)

lemma doRequest_trace:
  "trace (snd (run_state (doRequest E c mth url payload) w)) =
     (if http_new E mth url = None then [EvHttp (aap_request (lib E) c mth url payload)] else [])
     @ trace w"
  by (rule run_doRequest [of E mth url c payload w]) simp_all

lemma doRequest_no_panic [simp]: "fst (run_state (doRequest E c mth url payload) w) \<noteq> Panic s"
  by (simp add: doRequest_def Let_def State_Monad.return_def classify_response_def
      split: option.split sum.split)

text \<open>A request fails as not found exactly when the answer, read to its end, has status 404.\<close>

lemma doRequest_not_found_iff:
  assumes "run_state (doRequest E c mth url payload) w = (Error e, w')"
  shows "as_not_found e \<longleftrightarrow>
     http_new E mth url = None \<and>
     (\<exists>a body. http_do E (aap_timeout c) (aap_request (lib E) c mth url payload) (trace w) = Inr a \<and>
        hs_body a = Inr body \<and> hs_statusCode a = 404)"
  using assms
  by (auto simp: doRequest_def Let_def State_Monad.return_def classify_response_def
      split: option.splits sum.splits if_splits)

lemma doRequest_method_not_allowed_iff:
  assumes "run_state (doRequest E c mth url payload) w = (Error e, w')"
  shows "as_method_not_allowed e \<longleftrightarrow>
     http_new E mth url = None \<and>
     (\<exists>a body. http_do E (aap_timeout c) (aap_request (lib E) c mth url payload) (trace w) = Inr a \<and>
        hs_body a = Inr body \<and> hs_statusCode a = 405)"
  using assms
  by (auto simp: doRequest_def Let_def State_Monad.return_def classify_response_def
      split: option.splits sum.splits if_splits)

lemma run_doTemplateRequest:
  "run_state (doTemplateRequest E c mth url payload name) w =
     (let (r, w') = run_state (doRequest E c mth url payload) w
      in (r, case r of Error e \<Rightarrow> if as_not_found e then w'\<lparr>templates := (templates w')(name := None)\<rparr> else w'
             | _ \<Rightarrow> w'))"
  by (simp add: doTemplateRequest_def invalidateTemplateCache_def State_Monad.return_def split_beta
      split: res.split)

lemma doRequest_templates [simp]:
  "templates (snd (run_state (doRequest E c mth url payload) w)) = templates w"
  "inflight (snd (run_state (doRequest E c mth url payload) w)) = inflight w"
  by (rule run_doRequest [of E mth url c payload w]; simp)+

text \<open>Launching: a 404 forgets the template, and nothing else touches the cache.\<close>

lemma launch_templates:
  assumes "run_state (launch E c what endpoint name vars) w = (r, w')"
  shows "templates w' =
     (if \<exists>e. r = Error e \<and> as_not_found e then (templates w)(name := None) else templates w)"
  using assms
  by (auto simp: launch_def run_doTemplateRequest State_Monad.return_def split_beta Let_def
      split: res.splits option.splits)

lemma launch_inflight [simp]:
  "inflight (snd (run_state (launch E c what endpoint name vars) w)) = inflight w"
  by (simp add: launch_def run_doTemplateRequest State_Monad.return_def split_beta Let_def
      split: res.split)

lemma launch_no_panic [simp]: "fst (run_state (launch E c what endpoint name vars) w) \<noteq> Panic s"
  by (auto simp: launch_def run_doTemplateRequest State_Monad.return_def split_beta Let_def
      split: res.split option.split)

lemma getJob_frame [simp]:
  "templates (snd (run_state (getJob E c i) w)) = templates w"
  "inflight (snd (run_state (getJob E c i) w)) = inflight w"
  "fst (run_state (getJob E c i) w) \<noteq> Panic s"
  by (auto simp: getJob_def State_Monad.return_def split_beta split: res.split option.split)

lemma cancelJob_frame [simp]:
  "templates (snd (run_state (cancelJob E c i) w)) = templates w"
  "inflight (snd (run_state (cancelJob E c i) w)) = inflight w"
  "fst (run_state (cancelJob E c i) w) \<noteq> Panic s"
  by (auto simp: cancelJob_def State_Monad.return_def split_beta split: res.split)

section \<open>The cached lookup\<close>

definition known_type :: "template \<Rightarrow> bool" where
  "known_type t \<longleftrightarrow> tmpl_type t = TemplateTypeJob \<or> tmpl_type t = TemplateTypeWorkflow"

text \<open>Every cached template has one of the two types there are.\<close>

definition templates_ok :: "world \<Rightarrow> bool" where
  "templates_ok w \<longleftrightarrow> (\<forall>n t. templates w n = Some t \<longrightarrow> known_type t)"

lemma select_template_type: "select_template L name ty body = Ok t \<Longrightarrow> tmpl_type t = ty"
  by (auto simp: select_template_def split: option.splits prod.splits if_splits list.splits)

lemma getTemplateFromEndpoint_frame [simp]:
  "templates (snd (run_state (getTemplateFromEndpoint E c ep name ty) w)) = templates w"
  "inflight (snd (run_state (getTemplateFromEndpoint E c ep name ty) w)) = inflight w"
  by (simp_all add: getTemplateFromEndpoint_def State_Monad.return_def split_beta)

lemma getTemplateFromEndpoint_type:
  "fst (run_state (getTemplateFromEndpoint E c ep name ty) w) = Ok t \<Longrightarrow> tmpl_type t = ty"
  by (auto simp: getTemplateFromEndpoint_def State_Monad.return_def split_beta
      dest: select_template_type split: res.splits)

lemma getTemplateByName_frame [simp]:
  "templates (snd (run_state (getTemplateByName E c name) w)) = templates w"
  "inflight (snd (run_state (getTemplateByName E c name) w)) = inflight w"
  by (simp_all add: getTemplateByName_def State_Monad.return_def split_beta split: res.split)

lemma getTemplateByName_type:
  assumes "fst (run_state (getTemplateByName E c name) w) = Ok t"
  shows "known_type t"
proof -
  let ?job = "run_state (getTemplateFromEndpoint E c JobTemplatesEndpoint name TemplateTypeJob) w"
  let ?wf = "run_state (getTemplateFromEndpoint E c WorkflowJobTemplatesEndpoint name TemplateTypeWorkflow)
      (snd ?job)"
  from assms have "fst ?job = Ok t \<or> fst ?wf = Ok t"
    by (auto simp: getTemplateByName_def State_Monad.return_def split_beta split: res.splits)
  then show ?thesis by (auto simp: known_type_def dest: getTemplateFromEndpoint_type)
qed

text \<open>A lookup answers from the cache, or fills it with what it found.\<close>

lemma run_getTemplate:
  "run_state (getTemplate E c name) w =
     (case templates w name of
        Some t \<Rightarrow> (Ok t, w)
      | None \<Rightarrow> let (r, w') = run_state (getTemplateByName E c name) w
          in (r, case r of Ok t \<Rightarrow> w'\<lparr>templates := (templates w)(name \<mapsto> t)\<rparr> | _ \<Rightarrow> w'))"
  by (simp add: getTemplate_def load_template_def store_template_def State_Monad.return_def split_beta
      Let_def split: option.split res.split)

lemma getTemplate_inflight [simp]: "inflight (snd (run_state (getTemplate E c name) w)) = inflight w"
  by (auto simp: run_getTemplate Let_def split_beta split: option.split res.split)

lemma getTemplate_type:
  "templates_ok w \<Longrightarrow> fst (run_state (getTemplate E c name) w) = Ok t \<Longrightarrow> known_type t"
  by (auto simp: run_getTemplate Let_def split_beta templates_ok_def
      dest: getTemplateByName_type split: option.splits)

lemma getTemplate_templates_ok:
  "templates_ok w \<Longrightarrow> templates_ok (snd (run_state (getTemplate E c name) w))"
  by (auto simp: run_getTemplate Let_def split_beta templates_ok_def
      intro: getTemplateByName_type split: option.splits res.splits if_splits)

section \<open>The interface of the provider\<close>

record aap_client =
  ac_getTemplate :: "string \<Rightarrow> template res act"
  ac_launchJobTemplate :: "string \<Rightarrow> json \<Rightarrow> int res act"
  ac_launchWorkflowTemplate :: "string \<Rightarrow> json \<Rightarrow> int res act"
  ac_getJob :: "string \<Rightarrow> aap_job res act"
  ac_cancelJob :: "string \<Rightarrow> unit res act"

definition aapClient :: "env \<Rightarrow> aap_conn \<Rightarrow> aap_client" where
  "aapClient E c =
     \<lparr>ac_getTemplate = getTemplate E c,
      ac_launchJobTemplate = launchJobTemplate E c,
      ac_launchWorkflowTemplate = launchWorkflowTemplate E c,
      ac_getJob = getJob E c,
      ac_cancelJob = cancelJob E c\<rparr>"

definition has_suffix :: "string \<Rightarrow> string \<Rightarrow> bool" where
  "has_suffix s p \<longleftrightarrow> has_prefix (rev s) (rev p)"

lemma has_suffix_append [simp]: "has_suffix (s @ p) p"
  by (simp add: has_suffix_def)

definition is_launch :: "event \<Rightarrow> bool" where
  "is_launch e \<longleftrightarrow> (\<exists>rq. e = EvHttp rq \<and> hr_method rq = ''POST'' \<and> has_suffix (hr_url rq) ''/launch/'')"

definition is_cancel :: "event \<Rightarrow> bool" where
  "is_cancel e \<longleftrightarrow> (\<exists>rq. e = EvHttp rq \<and> hr_method rq = ''POST'' \<and> has_suffix (hr_url rq) ''/cancel/'')"

definition is_read :: "event \<Rightarrow> bool" where
  "is_read e \<longleftrightarrow> (\<exists>rq. e = EvHttp rq \<and> hr_method rq = ''GET'')"

text \<open>
  Looking up a template and reading a job only read; cancelling only cancels; each launch
  issues one launch request at most. A template that is found is of a known type, as long
  as the cached ones are, and every operation keeps them so. Only a lookup can panic, and no
  error is a rate-limit error.
\<close>

locale aap_service =
  fixes cl :: aap_client
  assumes template_type: "templates_ok w \<Longrightarrow> fst (run_state (ac_getTemplate cl n) w) = Ok t \<Longrightarrow> known_type t"
    and template_ok: "templates_ok w \<Longrightarrow> templates_ok (snd (run_state (ac_getTemplate cl n) w))"
    and template_reads: "footprint is_read (ac_getTemplate cl n)"
    and launch_one: "fst (run_state (ac_launchJobTemplate cl n v) w) \<noteq> Panic s"
      "\<exists>es. trace (snd (run_state (ac_launchJobTemplate cl n v) w)) = es @ trace w \<and>
        length es \<le> Suc 0 \<and> list_all is_launch es"
      "templates_ok w \<Longrightarrow> templates_ok (snd (run_state (ac_launchJobTemplate cl n v) w))"
    and workflow_one: "fst (run_state (ac_launchWorkflowTemplate cl n v) w) \<noteq> Panic s"
      "\<exists>es. trace (snd (run_state (ac_launchWorkflowTemplate cl n v) w)) = es @ trace w \<and>
        length es \<le> Suc 0 \<and> list_all is_launch es"
      "templates_ok w \<Longrightarrow> templates_ok (snd (run_state (ac_launchWorkflowTemplate cl n v) w))"
    and job_reads: "footprint is_read (ac_getJob cl i)"
    and job_frame: "fst (run_state (ac_getJob cl i) w) \<noteq> Panic s"
      "templates (snd (run_state (ac_getJob cl i) w)) = templates w"
    and cancel_cancels: "footprint is_cancel (ac_cancelJob cl i)"
    and cancel_frame: "fst (run_state (ac_cancelJob cl i) w) \<noteq> Panic s"
      "templates (snd (run_state (ac_cancelJob cl i) w)) = templates w"
    and inflight_frame: "inflight (snd (run_state (ac_getTemplate cl n) w)) = inflight w"
      "inflight (snd (run_state (ac_launchJobTemplate cl n v) w)) = inflight w"
      "inflight (snd (run_state (ac_launchWorkflowTemplate cl n v) w)) = inflight w"
      "inflight (snd (run_state (ac_getJob cl i) w)) = inflight w"
      "inflight (snd (run_state (ac_cancelJob cl i) w)) = inflight w"
    and no_rate_limit: "fst (run_state (ac_getTemplate cl n) w) = Error e \<Longrightarrow> as_rate_limit e = None"
      "fst (run_state (ac_launchJobTemplate cl n v) w) = Error e \<Longrightarrow> as_rate_limit e = None"
      "fst (run_state (ac_launchWorkflowTemplate cl n v) w) = Error e \<Longrightarrow> as_rate_limit e = None"
      "fst (run_state (ac_getJob cl i) w) = Error e \<Longrightarrow> as_rate_limit e = None"
      "fst (run_state (ac_cancelJob cl i) w) = Error e \<Longrightarrow> as_rate_limit e = None"

lemma launch_events:
  "\<exists>es. trace (snd (run_state (launch E c what ep n v) w)) = es @ trace w \<and>
     length es \<le> Suc 0 \<and> list_all is_launch es"
proof -
  have "is_launch (EvHttp (aap_request (lib E) c ''POST'' (launch_url c ep n) p))" for p
    using has_suffix_append [of "aap_baseURL c @ ''/'' @ APIVersion @ ''/'' @ ep @ ''/'' @ n" "''/launch/''"]
    by (simp add: is_launch_def aap_request_def launch_url_def)
  moreover have "trace (snd (run_state (launch E c what ep n v) w)) =
      trace (snd (run_state (doRequest E c ''POST'' (launch_url c ep n)
        (Some (JObj [(''extra_vars'', v)]))) w))"
    by (simp add: launch_def run_doTemplateRequest State_Monad.return_def split_beta Let_def
        split: res.split)
  ultimately show ?thesis by (simp add: doRequest_trace)
qed

lemma launch_templates_ok:
  "templates_ok w \<Longrightarrow> templates_ok (snd (run_state (launch E c what ep n v) w))"
  using launch_templates [OF surjective_pairing, of E c what ep n v w]
  by (auto simp: templates_ok_def split: if_splits)

lemma is_read_GET: "is_read (EvHttp (aap_request L c ''GET'' url p))"
  by (simp add: is_read_def aap_request_def)

lemma is_cancel_url: "is_cancel (EvHttp (aap_request L c ''POST'' (cancel_url c i) p))"
  using has_suffix_append [of "aap_baseURL c @ ''/'' @ APIVersion @ ''/jobs/'' @ i" "''/cancel/''"]
  by (simp add: is_cancel_def aap_request_def cancel_url_def)

text \<open>No error of the client is a rate-limit error.\<close>

lemma doRequest_rate:
  "fst (run_state (doRequest E c method url p) w) = Error e \<Longrightarrow> as_rate_limit e = None"
  by (auto simp: doRequest_def Let_def State_Monad.return_def classify_response_def
      split: option.splits sum.splits if_splits)

lemma launch_rate: "fst (run_state (launch E c what ep n v) w) = Error e \<Longrightarrow> as_rate_limit e = None"
  by (auto simp: launch_def run_doTemplateRequest State_Monad.return_def split_beta Let_def
      dest: doRequest_rate split: res.splits option.splits)

lemma getJob_rate: "fst (run_state (getJob E c i) w) = Error e \<Longrightarrow> as_rate_limit e = None"
  by (auto simp: getJob_def State_Monad.return_def split_beta dest: doRequest_rate
      split: res.splits option.splits)

lemma cancelJob_rate: "fst (run_state (cancelJob E c i) w) = Error e \<Longrightarrow> as_rate_limit e = None"
  by (auto simp: cancelJob_def State_Monad.return_def split_beta dest: doRequest_rate split: res.splits)

lemma getTemplate_rate: "fst (run_state (getTemplate E c n) w) = Error e \<Longrightarrow> as_rate_limit e = None"
  by (auto simp: run_getTemplate getTemplateByName_def State_Monad.return_def split_beta Let_def
      split: option.splits res.splits)

interpretation aap: aap_service "aapClient E c" for E c
proof (unfold_locales, simp_all add: aapClient_def launchJobTemplate_def launchWorkflowTemplate_def
    launch_events launch_templates_ok getTemplate_type getTemplate_templates_ok launch_rate getJob_rate
    cancelJob_rate getTemplate_rate)
  show "footprint is_read (getTemplate E c n)" for n
    unfolding getTemplate_def getTemplateByName_def getTemplateFromEndpoint_def
    by (intro fp_intros is_read_GET)
  show "footprint is_read (getJob E c i)" for i
    unfolding getJob_def by (intro fp_intros is_read_GET)
  show "footprint is_cancel (cancelJob E c i)" for i
    unfolding cancelJob_def by (intro fp_intros is_cancel_url)
qed


section \<open>Properties\<close>

lemma launch_outcome_not_found:
  assumes "run_state (launch E c what ep name v) w = (r, w')"
  shows "(\<exists>e. r = Error e \<and> as_not_found e) \<longleftrightarrow>
     http_new E ''POST'' (launch_url c ep name) = None \<and>
     (\<exists>a body. http_do E (aap_timeout c) (aap_request (lib E) c ''POST'' (launch_url c ep name)
          (Some (JObj [(''extra_vars'', v)]))) (trace w) = Inr a \<and>
        hs_body a = Inr body \<and> hs_statusCode a = 404)"
proof -
  let ?d = "run_state (doRequest E c ''POST'' (launch_url c ep name) (Some (JObj [(''extra_vars'', v)]))) w"
  have "(\<exists>e. r = Error e \<and> as_not_found e) \<longleftrightarrow> (\<exists>e. fst ?d = Error e \<and> as_not_found e)"
    using assms
    by (auto simp: launch_def run_doTemplateRequest State_Monad.return_def split_beta Let_def
        split: res.splits option.splits)
  also have "\<dots> \<longleftrightarrow> http_new E ''POST'' (launch_url c ep name) = None \<and>
     (\<exists>a body. http_do E (aap_timeout c) (aap_request (lib E) c ''POST'' (launch_url c ep name)
          (Some (JObj [(''extra_vars'', v)]))) (trace w) = Inr a \<and>
        hs_body a = Inr body \<and> hs_statusCode a = 404)"
    by (auto simp: doRequest_def Let_def State_Monad.return_def classify_response_def
        split: option.splits sum.splits if_splits)
  finally show ?thesis .
qed

text \<open>C34: launching a job template changes the template cache in one way only: it forgets the
  template, exactly when AAP answered the launch with status 404. Every other entry, and the
  entry itself on any other outcome, stays.\<close>

theorem launchJobTemplate_cache:
  assumes "run_state (launchJobTemplate E c name v) w = (r, w')"
  shows "templates w' =
     (if http_new E ''POST'' (launch_url c JobTemplatesEndpoint name) = None \<and>
        (\<exists>a body. http_do E (aap_timeout c)
            (aap_request (lib E) c ''POST'' (launch_url c JobTemplatesEndpoint name)
              (Some (JObj [(''extra_vars'', v)]))) (trace w) = Inr a \<and>
          hs_body a = Inr body \<and> hs_statusCode a = 404)
      then (templates w)(name := None) else templates w)"
  using assms launch_templates launch_outcome_not_found unfolding launchJobTemplate_def by (simp split: if_splits)

definition sample_conn :: aap_conn where
  "sample_conn = newAapClient ''h'' ''s''"

definition cached_world :: "string \<Rightarrow> world" where
  "cached_world name = empty_world\<lparr>templates :=
     [name \<mapsto> \<lparr>tmpl_id = 7, tmpl_name = name, tmpl_type = TemplateTypeJob\<rparr>]\<rparr>"

theorem launchJobTemplate_cache_witness:
  "templates (snd (run_state (launchJobTemplate (http_env 404 JNull) sample_conn ''p'' JNull)
     (cached_world ''p''))) = Map.empty"
  using launchJobTemplate_cache [OF surjective_pairing, of "http_env 404 JNull" sample_conn "''p''" JNull
      "cached_world ''p''"]
  by (simp add: cached_world_def)

text \<open>Once a lookup has found a template, looking the same name up again answers the same
  template and sends no request, for as long as the cache is not changed.\<close>

theorem getTemplate_answers_from_cache:
  assumes "run_state (getTemplate E c name) w = (Ok t, w')" "templates w1 = templates w'"
  shows "run_state (getTemplate E c name) w1 = (Ok t, w1)"
  using assms
  by (auto simp: run_getTemplate [of E c name w] run_getTemplate [of E c name w1] Let_def split_beta
      split: option.splits res.splits)

theorem getTemplate_answers_from_cache_witness:
  "run_state (getTemplate ref_env sample_conn ''p'') (cached_world ''p'') =
     (Ok \<lparr>tmpl_id = 7, tmpl_name = ''p'', tmpl_type = TemplateTypeJob\<rparr>, cached_world ''p'')"
  by (rule getTemplate_answers_from_cache [where w = "cached_world ''p''" and w' = "cached_world ''p''"])
    (simp_all add: run_getTemplate cached_world_def)

end
