(* ===== verification/Aap_Provider.thy ===== *)
theory Aap_Provider
  imports Eda_Provider Aap_Client
begin

text \<open>
  \<open>internal/provisioning/aap_provider.go\<close>: provisioning by launching AAP job or workflow
  templates. The lemmas give the contract of a provider and the guard of deprovisioning: a
  deprovision job is launched only when the provision job, if it is one of AAP, has ended; a
  job of EDA is judged by the phase of the instance alone, and is not waited for.
\<close>

record aap_provider =
  ap_client :: aap_client
  ap_provisionTemplate :: string
  ap_deprovisionTemplate :: string

section \<open>Extra variables\<close>

text \<open>The resource is marshalled, and decoded again into a map (numbers up to 2^53 survive this).\<close>

definition serializeResource :: "go_lib \<Rightarrow> resource \<Rightarrow> json res" where
  "serializeResource L r =
     (case marshal_resource L r of
        Inl e \<Rightarrow> Error (Wrap ''failed to marshal resource to JSON'' (ExtError e))
      | Inr (JObj kvs) \<Rightarrow> Ok (JObj kvs)
      | Inr JNull \<Rightarrow> Ok JNull
      | Inr j \<Rightarrow> Error (Wrap ''failed to unmarshal JSON to map'' (ExtError (json_error L (json_print L j)))))"

definition extractExtraVars :: "go_lib \<Rightarrow> resource \<Rightarrow> json res" where
  "extractExtraVars L r =
     (case serializeResource L r of
        Ok m \<Rightarrow> Ok (JObj [(''ansible_eda'', JObj [(''event'', JObj [(''payload'', m)])])])
      | Error e \<Rightarrow> Error (Wrap ''failed to serialize resource'' e)
      | Panic s \<Rightarrow> Panic s)"

section \<open>Launching\<close>

fun template_type_name :: "template_type \<Rightarrow> string" where
  "template_type_name TemplateTypeJob = ''job_template''"
| "template_type_name TemplateTypeWorkflow = ''workflow_job_template''"
| "template_type_name (TemplateTypeOther s) = s"

definition launch_by_type :: "aap_client \<Rightarrow> template \<Rightarrow> string \<Rightarrow> json \<Rightarrow> string res act" where
  "launch_by_type cl t name vars =
     (case tmpl_type t of
        TemplateTypeJob \<Rightarrow>
          do { r \<leftarrow> ac_launchJobTemplate cl name vars;
               State_Monad.return (case r of Ok i \<Rightarrow> Ok (itoa i)
                 | Error e \<Rightarrow> Error (Wrap ''failed to launch job template'' e) | Panic s \<Rightarrow> Panic s) }
      | TemplateTypeWorkflow \<Rightarrow>
          do { r \<leftarrow> ac_launchWorkflowTemplate cl name vars;
               State_Monad.return (case r of Ok i \<Rightarrow> Ok (itoa i)
                 | Error e \<Rightarrow> Error (Wrap ''failed to launch workflow template'' e) | Panic s \<Rightarrow> Panic s) }
      | TemplateTypeOther s \<Rightarrow>
          State_Monad.return (Error (Errorf (''unknown template type: '' @ s))))"

definition launch_job :: "go_lib \<Rightarrow> aap_client \<Rightarrow> string \<Rightarrow> string \<Rightarrow> resource \<Rightarrow> string res act" where
  "launch_job L cl what name r =
     (if name = [] then State_Monad.return (Error (Errorf (what @ '' template not configured'')))
      else do { t \<leftarrow> ac_getTemplate cl name;
        case t of
          Error e \<Rightarrow> State_Monad.return (Error (Wrap ''failed to get template'' e))
        | Panic s \<Rightarrow> State_Monad.return (Panic s)
        | Ok tmpl \<Rightarrow>
            (case extractExtraVars L r of
               Error e \<Rightarrow> State_Monad.return (Error (Wrap ''failed to extract extra vars'' e))
             | Panic s \<Rightarrow> State_Monad.return (Panic s)
             | Ok vars \<Rightarrow> launch_by_type cl tmpl name vars) })"

definition launchProvisionJob :: "go_lib \<Rightarrow> aap_provider \<Rightarrow> resource \<Rightarrow> string res act" where
  "launchProvisionJob L p = launch_job L (ap_client p) ''provision'' (ap_provisionTemplate p)"

definition launchDeprovisionJob :: "go_lib \<Rightarrow> aap_provider \<Rightarrow> resource \<Rightarrow> string res act" where
  "launchDeprovisionJob L p = launch_job L (ap_client p) ''deprovision'' (ap_deprovisionTemplate p)"

definition aap_triggerProvision :: "go_lib \<Rightarrow> aap_provider \<Rightarrow> resource \<Rightarrow> provision_result res act" where
  "aap_triggerProvision L p r =
     do { j \<leftarrow> launchProvisionJob L p r;
          State_Monad.return (case j of
              Error e \<Rightarrow> Error e
            | Panic s \<Rightarrow> Panic s
            | Ok jobID \<Rightarrow> Ok \<lparr>pr_jobID = jobID, pr_initialState = JobStatePending,
                              pr_message = ''Provisioning job triggered''\<rparr>) }"

section \<open>The status of a job\<close>

definition mapAAPStatusToJobState :: "string \<Rightarrow> job_state" where
  "mapAAPStatusToJobState s =
     (if s = ''successful'' then JobStateSucceeded
      else if s = ''failed'' \<or> s = ''error'' then JobStateFailed
      else if s = ''canceled'' then JobStateCanceled
      else if s = ''pending'' then JobStatePending
      else if s = ''waiting'' then JobStateWaiting
      else if s = ''running'' then JobStateRunning
      else JobStateUnknown)"

definition job_to_status :: "string \<Rightarrow> aap_job \<Rightarrow> provision_status" where
  "job_to_status jobID job =
     (let st = mapAAPStatusToJobState (aj_status job)
      in \<lparr>ps_jobID = jobID, ps_state = st, ps_message = aj_status job, ps_progress = 0,
          ps_startTime = aj_started job, ps_endTime = aj_finished job, ps_reconciledVersion = [],
          ps_errorDetails =
            (if st = JobStateFailed \<and> aj_resultTraceback job \<noteq> [] then aj_resultTraceback job else [])\<rparr>)"

definition getJobStatus :: "aap_provider \<Rightarrow> string \<Rightarrow> provision_status res act" where
  "getJobStatus p jobID =
     do { j \<leftarrow> ac_getJob (ap_client p) jobID;
          State_Monad.return (case j of
              Error e \<Rightarrow> Error (Wrap ''failed to get job'' e)
            | Panic s \<Rightarrow> Panic s
            | Ok job \<Rightarrow> Ok (job_to_status jobID job)) }"

definition aap_getProvisionStatus :: "aap_provider \<Rightarrow> resource \<Rightarrow> string \<Rightarrow> provision_status res act" where
  "aap_getProvisionStatus p r jobID = getJobStatus p jobID"

definition aap_getDeprovisionStatus :: "aap_provider \<Rightarrow> resource \<Rightarrow> string \<Rightarrow> provision_status res act" where
  "aap_getDeprovisionStatus p r jobID = getJobStatus p jobID"

section \<open>Deprovisioning\<close>

definition cancelProvisionJob :: "aap_provider \<Rightarrow> string \<Rightarrow> unit res act" where
  "cancelProvisionJob p jobID =
     do { r \<leftarrow> ac_cancelJob (ap_client p) jobID;
          State_Monad.return (case r of
              Ok u \<Rightarrow> Ok u
            | Panic s \<Rightarrow> Panic s
            | Error e \<Rightarrow> if as_method_not_allowed e then Ok ()
                else Error (Wrap ''failed to cancel job'' e)) }"

text \<open>Whether the instance is ready, with the status that was read; and the error.\<close>

definition isReadyForDeprovision ::
    "aap_provider \<Rightarrow> compute_instance \<Rightarrow> (bool \<times> provision_status option) res act" where
  "isReadyForDeprovision p ci =
     (case findLatestJobByType (ci_jobs ci) JobTypeProvision of
        None \<Rightarrow> State_Monad.return (Ok (True, None))
      | Some job \<Rightarrow>
        if IsEDAJobID (js_jobID job) then
          State_Monad.return (Ok
            (if ci_phase ci = ComputeInstancePhaseRunning then (True, None)
             else if ci_phase ci = ComputeInstancePhaseFailed then (True, None)
             else if ci_phase ci = ComputeInstancePhaseDeleting
               then (findLatestJobByType (ci_jobs ci) JobTypeDeprovision = None, None)
             else (False, None)))
        else do { st \<leftarrow> aap_getProvisionStatus p (ResComputeInstance ci) (js_jobID job);
          case st of
            Error e \<Rightarrow> State_Monad.return
              (if as_not_found e then Ok (True, None)
               else Error (Wrap ''failed to get provision job status'' e))
          | Panic s \<Rightarrow> State_Monad.return (Panic s)
          | Ok status \<Rightarrow>
              if isTerminal (ps_state status) then State_Monad.return (Ok (True, Some status))
              else do { c \<leftarrow> cancelProvisionJob p (js_jobID job);
                State_Monad.return (case c of
                    Error e \<Rightarrow> if \<not> as_method_not_allowed e
                      then Error (Wrap ''failed to cancel provision job'' e)
                      else Ok (True, Some status)
                  | Panic s \<Rightarrow> Panic s
                  | Ok _ \<Rightarrow> Ok (False, Some status)) } })"

definition aap_triggerDeprovision :: "go_lib \<Rightarrow> aap_provider \<Rightarrow> resource \<Rightarrow> deprovision_result res act" where
  "aap_triggerDeprovision L p r =
     (case r of
        ResComputeInstance ci \<Rightarrow>
          do { rd \<leftarrow> isReadyForDeprovision p ci;
            case rd of
              Error e \<Rightarrow> State_Monad.return (Error e)
            | Panic s \<Rightarrow> State_Monad.return (Panic s)
            | Ok (ready, status) \<Rightarrow>
                if \<not> ready then State_Monad.return (Ok
                  \<lparr>dr_action = DeprovisionWaiting, dr_jobID = [], dr_blockDeletionOnFailure = True,
                   dr_provisionJobStatus = status\<rparr>)
                else do { j \<leftarrow> launchDeprovisionJob L p r;
                  State_Monad.return (case j of
                      Error e \<Rightarrow> Error e
                    | Panic s \<Rightarrow> Panic s
                    | Ok jobID \<Rightarrow> Ok
                        \<lparr>dr_action = DeprovisionTriggered, dr_jobID = jobID,
                         dr_blockDeletionOnFailure = True, dr_provisionJobStatus = status\<rparr>) } }
      | _ \<Rightarrow> State_Monad.return (Panic ''interface conversion: client.Object is not *v1alpha1.ComputeInstance''))"

definition aapProvider :: "go_lib \<Rightarrow> aap_provider \<Rightarrow> provider" where
  "aapProvider L p =
     \<lparr>triggerProvision = aap_triggerProvision L p, getProvisionStatus = aap_getProvisionStatus p,
      triggerDeprovision = aap_triggerDeprovision L p, getDeprovisionStatus = aap_getDeprovisionStatus p,
      providerName = ''aap''\<rparr>"

section \<open>The contract\<close>

lemma getJobStatus_results:
  "fst (run_state (getJobStatus p i) w) = Ok s \<Longrightarrow> ps_jobID s = i"
  by (auto simp: getJobStatus_def State_Monad.return_def split_beta job_to_status_def Let_def
      split: res.splits)

lemma extractExtraVars_rate: "extractExtraVars L r = Error e \<Longrightarrow> as_rate_limit e = None"
  by (auto simp: extractExtraVars_def serializeResource_def split: sum.splits json.splits)

text \<open>What the client promises carries over to the provider's operations.\<close>

context aap_service
begin

lemma launch_by_type_id: "fst (run_state (launch_by_type cl t n v) w) = Ok i \<Longrightarrow> i \<noteq> []"
  by (auto simp: launch_by_type_def State_Monad.return_def split_beta split: template_type.splits res.splits)

lemma launch_by_type_rate:
  "fst (run_state (launch_by_type cl t n v) w) = Error e \<Longrightarrow> as_rate_limit e = None"
  by (auto simp: launch_by_type_def State_Monad.return_def split_beta dest: no_rate_limit
      split: template_type.splits res.splits)

lemma launch_job_id: "fst (run_state (launch_job L cl what n r) w) = Ok i \<Longrightarrow> i \<noteq> []"
  by (auto simp: launch_job_def State_Monad.return_def split_beta dest: launch_by_type_id
      split: res.splits if_splits)

lemma launch_job_rate:
  "fst (run_state (launch_job L cl what n r) w) = Error e \<Longrightarrow> as_rate_limit e = None"
  by (auto simp: launch_job_def State_Monad.return_def split_beta
      dest: launch_by_type_rate no_rate_limit extractExtraVars_rate split: res.splits if_splits)

lemma getJobStatus_rate:
  assumes [simp]: "ap_client p = cl"
  shows "fst (run_state (getJobStatus p i) w) = Error e \<Longrightarrow> as_rate_limit e = None"
  by (auto simp: getJobStatus_def State_Monad.return_def split_beta dest: no_rate_limit split: res.splits)

lemma getJobStatus_no_panic:
  assumes [simp]: "ap_client p = cl"
  shows "fst (run_state (getJobStatus p i) w) \<noteq> Panic s"
  by (auto simp: getJobStatus_def State_Monad.return_def split_beta job_frame(1) split: res.splits)

lemma cancelProvisionJob_rate:
  assumes [simp]: "ap_client p = cl"
  shows "fst (run_state (cancelProvisionJob p i) w) = Error e \<Longrightarrow> as_rate_limit e = None"
  by (auto simp: cancelProvisionJob_def State_Monad.return_def split_beta dest: no_rate_limit
      split: res.splits if_splits)

text \<open>Cancelling never reports a 405: that answer is already taken for success.\<close>

lemma cancelProvisionJob_not_405:
  "fst (run_state (cancelProvisionJob p i) w) = Error e \<Longrightarrow> \<not> as_method_not_allowed e"
  by (auto simp: cancelProvisionJob_def State_Monad.return_def split_beta split: res.splits if_splits)

lemma isReady_rate:
  assumes "ap_client p = cl"
  shows "fst (run_state (isReadyForDeprovision p ci) w) = Error e \<Longrightarrow> as_rate_limit e = None"
  by (auto simp: isReadyForDeprovision_def aap_getProvisionStatus_def State_Monad.return_def split_beta
      dest: getJobStatus_rate [OF assms] cancelProvisionJob_rate [OF assms] split: option.splits res.splits if_splits)

lemma outside_http: "is_read e \<Longrightarrow> outside_event e" "is_cancel e \<Longrightarrow> outside_event e" "is_launch e \<Longrightarrow> outside_event e"
  by (auto simp: is_read_def is_cancel_def is_launch_def outside_event_def)

lemma footprint_launches:
  "footprint outside_event (ac_launchJobTemplate cl n v)" "footprint outside_event (ac_launchWorkflowTemplate cl n v)"
  unfolding footprint_def using launch_one(2) workflow_one(2) outside_http(3)
  by (metis (no_types, lifting) list_all_iff)+

lemma footprint_launch_job: "footprint outside_event (launch_job L cl what n r)"
  unfolding launch_job_def launch_by_type_def
  by (intro fp_intros footprint_mono [OF template_reads outside_http(1)])
    (auto intro!: fp_intros footprint_launches split: template_type.split)

lemma footprint_aap_operations:
  assumes [simp]: "ap_client p = cl"
  shows "footprint outside_event (aap_triggerProvision L p r)"
    and "footprint outside_event (aap_triggerDeprovision L p r)"
    and "footprint outside_event (getJobStatus p i)"
proof -
  show job: "footprint outside_event (getJobStatus p i)" for i
    unfolding getJobStatus_def by (intro fp_intros) (simp add: footprint_mono [OF job_reads outside_http(1)])
  have cancel: "footprint outside_event (cancelProvisionJob p i)" for i
    unfolding cancelProvisionJob_def
    by (intro fp_intros) (simp add: footprint_mono [OF cancel_cancels outside_http(2)])
  show "footprint outside_event (aap_triggerProvision L p r)"
    unfolding aap_triggerProvision_def launchProvisionJob_def
    by (intro fp_intros) (simp add: footprint_launch_job)
  show "footprint outside_event (aap_triggerDeprovision L p r)"
    unfolding aap_triggerDeprovision_def launchDeprovisionJob_def isReadyForDeprovision_def
      aap_getProvisionStatus_def
    by (cases r) (auto intro!: fp_intros job cancel footprint_launch_job)
qed

lemma aap_contract:
  assumes [simp]: "ap_client p = cl"
  shows "provisioning_provider (aapProvider L p)"
proof
  show "pr_jobID res \<noteq> []" if "fst (run_state (triggerProvision (aapProvider L p) r) w) = Ok res" for r w res
    using that launch_job_id
    by (auto simp: aapProvider_def aap_triggerProvision_def launchProvisionJob_def State_Monad.return_def
        split_beta split: res.splits)
  show "\<not> isTerminal (pr_initialState res)"
    if "fst (run_state (triggerProvision (aapProvider L p) r) w) = Ok res" for r w res
    using that
    by (auto simp: aapProvider_def aap_triggerProvision_def State_Monad.return_def split_beta split: res.splits)
  show "0 < d" if "fst (run_state (triggerProvision (aapProvider L p) r) w) = Error e"
    "as_rate_limit e = Some d" for r w e d
    using that
    by (auto simp: aapProvider_def aap_triggerProvision_def launchProvisionJob_def State_Monad.return_def
        split_beta dest: launch_job_rate split: res.splits)
  show "dr_jobID dr \<noteq> [] \<longleftrightarrow> dr_action dr = DeprovisionTriggered"
    if "fst (run_state (triggerDeprovision (aapProvider L p) r) w) = Ok dr" for r w dr
    using that launch_job_id
    by (auto simp: aapProvider_def aap_triggerDeprovision_def launchDeprovisionJob_def
        State_Monad.return_def split_beta split: res.splits resource.splits prod.splits if_splits)
  show "0 < d" if "fst (run_state (triggerDeprovision (aapProvider L p) r) w) = Error e"
    "as_rate_limit e = Some d" for r w e d
    using that
    by (auto simp: aapProvider_def aap_triggerDeprovision_def launchDeprovisionJob_def
        State_Monad.return_def split_beta dest: launch_job_rate isReady_rate [OF assms]
        split: res.splits resource.splits prod.splits if_splits)
qed (use getJobStatus_results getJobStatus_no_panic [OF assms] footprint_aap_operations [OF assms] in
  \<open>auto simp: aapProvider_def aap_getProvisionStatus_def aap_getDeprovisionStatus_def\<close>)

end

interpretation aap_prov: provisioning_provider
  "aapProvider L \<lparr>ap_client = aapClient E c, ap_provisionTemplate = pt, ap_deprovisionTemplate = dt\<rparr>"
  for L E c pt dt
  by (rule aap.aap_contract) simp


section \<open>The guard of deprovisioning\<close>

text \<open>AAP has answered that a job has ended, or that it does not exist (any more).\<close>

definition aap_job_over :: "aap_provider \<Rightarrow> string \<Rightarrow> world \<Rightarrow> bool" where
  "aap_job_over p jobID w \<longleftrightarrow>
     (case fst (run_state (getJobStatus p jobID) w) of
        Ok status \<Rightarrow> isTerminal (ps_state status)
      | Error e \<Rightarrow> as_not_found e
      | Panic s \<Rightarrow> False)"

text \<open>The phases in which an EDA job, of which AAP knows nothing, does not hold up deprovisioning.\<close>

definition eda_phase_ready :: "compute_instance \<Rightarrow> bool" where
  "eda_phase_ready ci \<longleftrightarrow>
     ci_phase ci \<in> {ComputeInstancePhaseRunning, ComputeInstancePhaseFailed} \<or>
     ci_phase ci = ComputeInstancePhaseDeleting \<and> findLatestJobByType (ci_jobs ci) JobTypeDeprovision = None"

lemma not_launch_if_read: "is_read e \<Longrightarrow> \<not> is_launch e"
  by (auto simp: is_read_def is_launch_def)

lemma not_launch_if_cancel: "is_cancel e \<Longrightarrow> \<not> is_launch e"
  by (auto simp: is_cancel_def is_launch_def has_suffix_def has_prefix_def)

context aap_service
begin

lemma footprint_getJobStatus:
  assumes [simp]: "ap_client p = cl"
  shows "footprint is_read (getJobStatus p i)"
  unfolding getJobStatus_def by (intro fp_intros) (simp add: job_reads)

lemma footprint_cancelProvisionJob:
  assumes [simp]: "ap_client p = cl"
  shows "footprint is_cancel (cancelProvisionJob p i)"
  unfolding cancelProvisionJob_def by (intro fp_intros) (simp add: cancel_cancels)

lemma footprint_isReady:
  assumes "ap_client p = cl"
  shows "footprint (\<lambda>e. \<not> is_launch e) (isReadyForDeprovision p ci)"
  unfolding isReadyForDeprovision_def aap_getProvisionStatus_def
  by (intro fp_intros footprint_mono [OF footprint_getJobStatus [OF assms] not_launch_if_read]
      footprint_mono [OF footprint_cancelProvisionJob [OF assms] not_launch_if_cancel])

lemma isReady_over:
  "fst (run_state (isReadyForDeprovision p ci) w) = Ok (True, st) \<Longrightarrow>
   findLatestJobByType (ci_jobs ci) JobTypeProvision = Some job \<Longrightarrow>
   if IsEDAJobID (js_jobID job) then eda_phase_ready ci else aap_job_over p (js_jobID job) w"
  by (auto simp: isReadyForDeprovision_def aap_job_over_def eda_phase_ready_def aap_getProvisionStatus_def
      State_Monad.return_def split_beta dest: cancelProvisionJob_not_405
      split: option.splits res.splits if_splits)

lemma launch_guard:
  assumes cl: "ap_client p = cl"
    and run: "run_state (aap_triggerDeprovision L p (ResComputeInstance ci)) w = (r, w')"
    and new: "trace w' = es @ trace w" "e \<in> set es" "is_launch e"
    and job: "findLatestJobByType (ci_jobs ci) JobTypeProvision = Some job"
  shows "if IsEDAJobID (js_jobID job) then eda_phase_ready ci else aap_job_over p (js_jobID job) w"
proof -
  let ?rd = "run_state (isReadyForDeprovision p ci) w"
  obtain es' where es': "trace (snd ?rd) = es' @ trace w" "\<forall>e \<in> set es'. \<not> is_launch e"
    by (rule footprintD [OF footprint_isReady [OF cl] surjective_pairing])
  have "w' = snd ?rd" if "\<nexists>st. fst ?rd = Ok (True, st)"
    using run that
    by (auto simp: aap_triggerDeprovision_def State_Monad.return_def split_beta
        split: res.splits prod.splits if_splits)
  with es' new have "\<exists>st. fst ?rd = Ok (True, st)" by (metis append_same_eq)
  with isReady_over [OF _ job] show ?thesis by blast
qed

text \<open>An unfinished AAP job is asked to stop, and deprovisioning waits, whatever the answer.\<close>

lemma unfinished_waits:
  assumes [simp]: "ap_client p = cl"
    and job: "findLatestJobByType (ci_jobs ci) JobTypeProvision = Some job" "\<not> IsEDAJobID (js_jobID job)"
    and st: "run_state (getJobStatus p (js_jobID job)) w = (Ok status, w1)" "\<not> isTerminal (ps_state status)"
    and cancel: "run_state (ac_cancelJob cl (js_jobID job)) w1 = (c, w2)"
      "c = Ok () \<or> (\<exists>e. c = Error e \<and> as_method_not_allowed e)"
  shows "run_state (aap_triggerDeprovision L p (ResComputeInstance ci)) w =
    (Ok \<lparr>dr_action = DeprovisionWaiting, dr_jobID = [], dr_blockDeletionOnFailure = True,
        dr_provisionJobStatus = Some status\<rparr>, w2)"
  using cancel(2)
  by (auto simp: aap_triggerDeprovision_def isReadyForDeprovision_def aap_getProvisionStatus_def
      cancelProvisionJob_def State_Monad.return_def job st cancel(1))

end

definition direct_provider :: "env \<Rightarrow> aap_conn \<Rightarrow> string \<Rightarrow> string \<Rightarrow> aap_provider" where
  "direct_provider E c pt dt =
     \<lparr>ap_client = aapClient E c, ap_provisionTemplate = pt, ap_deprovisionTemplate = dt\<rparr>"

lemma direct_provider_client [simp]: "ap_client (direct_provider E c pt dt) = aapClient E c"
  by (simp add: direct_provider_def)

section \<open>Properties\<close>

text \<open>C12: AAP's provider launches a deprovision job only when the AAP job that provisions the
  instance can no longer run. Let the call issue any launch request, and let the instance have a
  provision job. If it is a job of AAP, then AAP has answered in this call that it has ended or
  does not exist. If it is a job of EDA (the provider has been switched), AAP cannot be asked:
  then the phase is Running or Failed, or it is Deleting and there is no deprovision job yet.
  That guard does not wait for an EDA job that is still running, as the deletion handler has
  set the phase Deleting just before.\<close>

theorem aap_deprovision_launch_guard:
  assumes "run_state (aap_triggerDeprovision L (direct_provider E c pt dt) (ResComputeInstance ci)) w = (r, w')"
    and "trace w' = es @ trace w" "e \<in> set es" "is_launch e"
    and "findLatestJobByType (ci_jobs ci) JobTypeProvision = Some job"
  shows "if IsEDAJobID (js_jobID job)
    then ci_phase ci \<in> {ComputeInstancePhaseRunning, ComputeInstancePhaseFailed} \<or>
      ci_phase ci = ComputeInstancePhaseDeleting \<and> findLatestJobByType (ci_jobs ci) JobTypeDeprovision = None
    else aap_job_over (direct_provider E c pt dt) (js_jobID job) w"
  using aap.launch_guard [OF direct_provider_client assms] unfolding eda_phase_ready_def by auto

text \<open>A provision job of EDA is not waited for: in the phase that the deletion handler sets, and
  before there is a deprovision job, the instance counts as ready, whatever the state of the
  job.\<close>

theorem aap_eda_job_not_awaited:
  assumes "findLatestJobByType (ci_jobs ci) JobTypeProvision = Some job" "IsEDAJobID (js_jobID job)"
    and "findLatestJobByType (ci_jobs ci) JobTypeDeprovision = None"
  shows "run_state (isReadyForDeprovision p (set_phase ComputeInstancePhaseDeleting ci)) w = (Ok (True, None), w)"
  using assms by (simp add: isReadyForDeprovision_def State_Monad.return_def set_phase_def)

text \<open>An AAP server that finds one job template and launches job 7.\<close>

definition launch_env :: env where
  "launch_env = http_env 200 (JObj [(''count'', JInt 1), (''results'', JArr [JObj []]), (''id'', JInt 7)])"

definition aap_ci :: "job_status list \<Rightarrow> compute_instance" where
  "aap_ci jobs = set_phase ComputeInstancePhaseDeleting (set_jobs jobs sample_ci)"

lemma launch_env_decodes:
  "unmarshal (lib launch_env) lookup_fields (0, []) s = Some (1, [zero_template])"
  "unmarshal (lib launch_env) launch_fields 0 s = Some 7"
  by (simp_all add: unmarshal_def launch_env_def) code_simp+

definition launched_world :: "string \<Rightarrow> world" where
  "launched_world name =
     empty_world\<lparr>templates := [name \<mapsto> zero_template\<lparr>tmpl_type := TemplateTypeJob\<rparr>],
       trace := [EvHttp (aap_request (lib launch_env) sample_conn ''POST''
           (launch_url sample_conn JobTemplatesEndpoint name)
           (Some (JObj [(''extra_vars'', JObj [(''ansible_eda'', JObj [(''event'',
             JObj [(''payload'', JObj [])])])])]))),
         EvHttp (aap_request (lib launch_env) sample_conn ''GET''
           (aap_baseURL sample_conn @ ''/'' @ APIVersion @ ''/'' @ JobTemplatesEndpoint @ ''/?name='' @ name) None)]\<rparr>"

lemma launched_world_launch: "\<exists>e \<in> set (trace (launched_world name)). is_launch e"
  by (simp add: launched_world_def is_launch_def aap_request_def launch_url_def has_suffix_def has_prefix_def)

lemma launch_env_job:
  assumes "name \<noteq> []"
  shows "run_state (launch_job (lib launch_env) (aapClient launch_env sample_conn) what name
      (ResComputeInstance ci)) empty_world = (Ok (itoa 7), launched_world name)"
proof -
  have env: "http_new launch_env m u = None"
    "http_do launch_env t q h = Inr \<lparr>hs_statusCode = 200, hs_body = Inr ''b''\<rparr>"
    "marshal_compute_instance (lib launch_env) ci = Inr (JObj [])" for m u t q h ci
    by (simp_all add: launch_env_def)
  from assms show ?thesis
    by (simp add: State_Monad.return_def launch_job_def aapClient_def run_getTemplate
        getTemplateByName_def getTemplateFromEndpoint_def doRequest_def env classify_response_def
        select_template_def launch_env_decodes extractExtraVars_def serializeResource_def Let_def
        launch_by_type_def launchJobTemplate_def launch_def run_doTemplateRequest launched_world_def)
qed

lemma launch_env_provision:
  "run_state (aap_triggerProvision (lib launch_env) (direct_provider launch_env sample_conn ''p'' ''d'')
       (ResComputeInstance ci)) empty_world =
     (Ok \<lparr>pr_jobID = itoa 7, pr_initialState = JobStatePending,
         pr_message = ''Provisioning job triggered''\<rparr>, launched_world ''p'')"
  by (simp add: aap_triggerProvision_def State_Monad.return_def launchProvisionJob_def
      direct_provider_def launch_env_job)


definition sample_job :: "string \<Rightarrow> job_type \<Rightarrow> time \<Rightarrow> job_state \<Rightarrow> job_status" where
  "sample_job i t ts s =
     \<lparr>js_jobID = i, js_type = t, js_timestamp = ts, js_state = s, js_message = [],
      js_blockDeletionOnFailure = True\<rparr>"

lemma latest_singleton:
  "findLatestJobByType (ci_jobs (aap_ci [sample_job i t ts s])) t = Some (sample_job i t ts s)"
  by (simp add: findLatestJobByType_def aap_ci_def ci_updates sample_job_def)

lemma not_eda_12: "\<not> IsEDAJobID ''12''"
  by (simp add: IsEDAJobID_def EDAJobIDPrefix_def has_prefix_def)

text \<open>The same server, when the provision job is gone: the first request is answered with 404.\<close>

definition purged_env :: env where
  "purged_env = launch_env\<lparr>http_do := (\<lambda>t q h. Inr \<lparr>hs_statusCode = (if h = [] then 404 else 200), hs_body = Inr ''b''\<rparr>)\<rparr>"

definition purged_ci :: compute_instance where
  "purged_ci = aap_ci [sample_job ''12'' JobTypeProvision 5 JobStateRunning]"

lemma purged_job:
  "findLatestJobByType (ci_jobs purged_ci) JobTypeProvision = Some (sample_job ''12'' JobTypeProvision 5 JobStateRunning)"
  by (simp add: purged_ci_def latest_singleton)

lemma purged_env_deprovision:
  "\<exists>w' e. run_state (aap_triggerDeprovision (lib purged_env) (direct_provider purged_env sample_conn ''p'' ''d'')
       (ResComputeInstance purged_ci)) empty_world = (Ok \<lparr>dr_action = DeprovisionTriggered, dr_jobID = itoa 7,
         dr_blockDeletionOnFailure = True, dr_provisionJobStatus = None\<rparr>, w') \<and>
     e \<in> set (trace w') \<and> is_launch e"
proof -
  have env: "http_new purged_env m u = None"
    "http_do purged_env t q h = Inr \<lparr>hs_statusCode = (if h = [] then 404 else 200), hs_body = Inr ''b''\<rparr>"
    "marshal_compute_instance (lib purged_env) ci = Inr (JObj [])" for m u t q h ci
    by (simp_all add: purged_env_def launch_env_def)
  have same: "lib purged_env = lib launch_env" by (simp add: purged_env_def)
  have job: "js_jobID (sample_job ''12'' JobTypeProvision 5 JobStateRunning) = ''12''" by (simp add: sample_job_def)
  show ?thesis
    by (simp add: aap_triggerDeprovision_def isReadyForDeprovision_def purged_job job not_eda_12
        aap_getProvisionStatus_def getJobStatus_def getJob_def direct_provider_def launchDeprovisionJob_def
        State_Monad.return_def launch_job_def aapClient_def run_getTemplate
        getTemplateByName_def getTemplateFromEndpoint_def doRequest_def env classify_response_def
        select_template_def launch_env_decodes [folded same] extractExtraVars_def serializeResource_def Let_def
        launch_by_type_def launchJobTemplate_def launch_def run_doTemplateRequest
        is_launch_def aap_request_def launch_url_def has_suffix_def has_prefix_def)
      (auto simp: exI [of _ "EvHttp rq" for rq])
qed

theorem aap_deprovision_launch_guard_witness:
  "aap_job_over (direct_provider purged_env sample_conn ''p'' ''d'') ''12'' empty_world"
proof -
  obtain w' e where run: "run_state (aap_triggerDeprovision (lib purged_env)
      (direct_provider purged_env sample_conn ''p'' ''d'') (ResComputeInstance purged_ci)) empty_world =
      (Ok \<lparr>dr_action = DeprovisionTriggered, dr_jobID = itoa 7, dr_blockDeletionOnFailure = True,
         dr_provisionJobStatus = None\<rparr>, w')" "e \<in> set (trace w')" "is_launch e"
    using purged_env_deprovision by blast
  from aap_deprovision_launch_guard [OF run(1) _ run(2,3) purged_job] show ?thesis
    by (simp add: sample_job_def not_eda_12)
qed

text \<open>EDA's job still runs, and the instance counts as ready.\<close>

theorem aap_eda_job_not_awaited_witness:
  "run_state (isReadyForDeprovision (direct_provider ref_env sample_conn ''p'' ''d'')
       (set_phase ComputeInstancePhaseDeleting
         (aap_ci [sample_job (EDAJobIDPrefix @ ''1'') JobTypeProvision 5 JobStateRunning]))) empty_world =
     (Ok (True, None), empty_world)"
  by (rule aap_eda_job_not_awaited [OF latest_singleton])
    (simp_all add: sample_job_def IsEDAJobID_def has_prefix_def findLatestJobByType_def aap_ci_def ci_updates)

text \<open>A provision job that AAP has purged does not hold up deprovisioning: when AAP
  answers the request for the job with status 404, the two layers of error wrapping still
  let the provider recognise it, and the instance is ready.\<close>

theorem aap_purged_job_is_ready:
  assumes job: "findLatestJobByType (ci_jobs ci) JobTypeProvision = Some job" "\<not> IsEDAJobID (js_jobID job)"
    and gone: "http_new E ''GET'' u = None"
      "http_do E (aap_timeout c) (aap_request (lib E) c ''GET'' u None) (trace w) =
        Inr \<lparr>hs_statusCode = 404, hs_body = Inr body\<rparr>"
    and u: "u = aap_baseURL c @ ''/'' @ APIVersion @ ''/jobs/'' @ js_jobID job @ ''/''"
  shows "fst (run_state (isReadyForDeprovision (direct_provider E c pt dt) ci) w) = Ok (True, None)"
  using gone unfolding u
  by (simp add: isReadyForDeprovision_def job aap_getProvisionStatus_def getJobStatus_def
      direct_provider_def aapClient_def getJob_def doRequest_def State_Monad.return_def
      classify_response_def Let_def)

theorem aap_purged_job_is_ready_witness:
  "fst (run_state (isReadyForDeprovision (direct_provider (http_env 404 JNull) sample_conn ''p'' ''d'')
     (aap_ci [sample_job ''12'' JobTypeProvision 5 JobStateRunning])) empty_world) = Ok (True, None)"
  by (rule aap_purged_job_is_ready [OF latest_singleton _ _ _ refl])
    (simp_all add: sample_job_def not_eda_12)

text \<open>When AAP refuses to cancel an unfinished provision job with status 405, the provider
  waits, as it does after a cancellation that was accepted, and launches nothing: the branch
  that would go on with deprovisioning is never taken.\<close>

theorem aap_cancel_405_waits:
  assumes job: "findLatestJobByType (ci_jobs ci) JobTypeProvision = Some job" "\<not> IsEDAJobID (js_jobID job)"
    and st: "run_state (getJobStatus (direct_provider E c pt dt) (js_jobID job)) w = (Ok status, w1)"
      "\<not> isTerminal (ps_state status)"
    and cancel: "run_state (cancelJob E c (js_jobID job)) w1 = (Error e, w2)" "as_method_not_allowed e"
  shows "run_state (aap_triggerDeprovision L (direct_provider E c pt dt) (ResComputeInstance ci)) w =
    (Ok \<lparr>dr_action = DeprovisionWaiting, dr_jobID = [], dr_blockDeletionOnFailure = True,
        dr_provisionJobStatus = Some status\<rparr>, w2)"
  by (rule aap.unfinished_waits [OF direct_provider_client job st]) (auto simp: aapClient_def cancel)

text \<open>Jobs run on this server, and cannot be cancelled.\<close>

definition refusing_env :: env where
  "refusing_env = (http_env 200 (JObj [(''status'', JStr ''running'')]))
     \<lparr>http_do := (\<lambda>t q h. Inr \<lparr>hs_statusCode = (if hr_method q = ''GET'' then 200 else 405),
                              hs_body = Inr ''b''\<rparr>)\<rparr>"

lemma refusing_env_simps [simp]:
  "http_new refusing_env m u = None" "lib refusing_env = lib (http_env 200 (JObj [(''status'', JStr ''running'')]))"
  "http_do refusing_env t q h =
     Inr \<lparr>hs_statusCode = (if hr_method q = ''GET'' then 200 else 405), hs_body = Inr ''b''\<rparr>"
  by (simp_all add: refusing_env_def)

definition busy_ci :: compute_instance where
  "busy_ci = aap_ci [sample_job ''12'' JobTypeProvision 5 JobStateRunning]"

lemma busy_ci_job:
  "findLatestJobByType (ci_jobs busy_ci) JobTypeProvision = Some (sample_job ''12'' JobTypeProvision 5 JobStateRunning)"
  by (simp add: busy_ci_def latest_singleton)

lemma refusing_job_running:
  "\<exists>w1. run_state (getJobStatus (direct_provider refusing_env sample_conn ''p'' ''d'') ''12'') w =
     (Ok (job_to_status ''12'' (zero_job\<lparr>aj_status := ''running''\<rparr>)), w1)"
proof -
  have "unmarshal (lib refusing_env) (job_fields (lib refusing_env)) zero_job s =
      Some (zero_job\<lparr>aj_status := ''running''\<rparr>)" for s
    by (simp add: unmarshal_def decode_struct_def job_fields_def field_def to_lower_def to_lower_char_def
        decode_string_def)
  then show ?thesis
    by (simp add: getJobStatus_def direct_provider_def aapClient_def getJob_def doRequest_def
        State_Monad.return_def aap_request_def Let_def classify_response_def del: refusing_env_simps(2))
qed

lemma refusing_cancel:
  "\<exists>e w2. run_state (cancelJob refusing_env sample_conn i) w = (Error e, w2) \<and> as_method_not_allowed e"
  by (simp add: cancelJob_def doRequest_def State_Monad.return_def aap_request_def Let_def
      classify_response_def)

lemma running_status [simp]:
  "\<not> isTerminal (ps_state (job_to_status i (zero_job\<lparr>aj_status := ''running''\<rparr>)))"
  by (simp add: job_to_status_def mapAAPStatusToJobState_def Let_def)

theorem aap_cancel_405_waits_witness:
  "\<exists>w2. run_state (aap_triggerDeprovision ref_lib
       (direct_provider refusing_env sample_conn ''p'' ''d'') (ResComputeInstance busy_ci)) empty_world =
     (Ok \<lparr>dr_action = DeprovisionWaiting, dr_jobID = [], dr_blockDeletionOnFailure = True,
        dr_provisionJobStatus = Some (job_to_status ''12'' (zero_job\<lparr>aj_status := ''running''\<rparr>))\<rparr>, w2)"
proof -
  obtain w1 where "run_state (getJobStatus (direct_provider refusing_env sample_conn ''p'' ''d'') ''12'')
      empty_world = (Ok (job_to_status ''12'' (zero_job\<lparr>aj_status := ''running''\<rparr>)), w1)"
    using refusing_job_running by blast
  moreover from refusing_cancel obtain e w2
    where "run_state (cancelJob refusing_env sample_conn ''12'') w1 = (Error e, w2) \<and> as_method_not_allowed e"
    by metis
  ultimately show ?thesis
    using aap_cancel_405_waits [OF busy_ci_job, of refusing_env sample_conn "''p''" "''d''" empty_world]
    by (auto simp: sample_job_def not_eda_12)
qed

text \<open>The same run, for the witnesses of other properties.\<close>

lemma aapClient_cancel: "ac_cancelJob (aapClient E C) = cancelJob E C"
  by (simp add: aapClient_def)

lemma refusing_env_waits:
  assumes "findLatestJobByType (ci_jobs ci) JobTypeProvision =
      Some (sample_job ''12'' JobTypeProvision 5 JobStateRunning)"
  shows "\<exists>w2. run_state (aap_triggerDeprovision L
       (direct_provider refusing_env sample_conn ''p'' ''d'') (ResComputeInstance ci)) empty_world =
     (Ok \<lparr>dr_action = DeprovisionWaiting, dr_jobID = [], dr_blockDeletionOnFailure = True,
        dr_provisionJobStatus = Some (job_to_status ''12'' (zero_job\<lparr>aj_status := ''running''\<rparr>))\<rparr>, w2)"
proof -
  obtain w1 where "run_state (getJobStatus (direct_provider refusing_env sample_conn ''p'' ''d'') ''12'')
      empty_world = (Ok (job_to_status ''12'' (zero_job\<lparr>aj_status := ''running''\<rparr>)), w1)"
    using refusing_job_running by blast
  moreover from refusing_cancel [folded aapClient_cancel] obtain e w2
    where "run_state (ac_cancelJob (aapClient refusing_env sample_conn) ''12'') w1 = (Error e, w2) \<and>
      as_method_not_allowed e"
    by metis
  ultimately show ?thesis
    using aap.unfinished_waits [OF direct_provider_client assms, of refusing_env sample_conn "''p''" "''d''" empty_world]
    by (auto simp: sample_job_def not_eda_12)
qed

end
