(* ===== verification/Names.thy ===== *)
theory Names
  imports Aap_Provider
begin

text \<open>
  The names the controllers use (\<open>constants_common.go\<close>, \<open>computeinstance_names.go\<close>,
  \<open>clusterorder_names.go\<close>, \<open>hostpool_names.go\<close>, \<open>tenant_names.go\<close> under
  \<open>internal/controller\<close>), with the lemmas that make the hashed ones valid and distinct.
\<close>

section \<open>Constants\<close>

definition ManagementStateManual :: string where "ManagementStateManual = ''manual''"
definition ManagementStateUnmanaged :: string where "ManagementStateUnmanaged = ''unmanaged''"
definition cloudkitAppName :: string where "cloudkitAppName = ''osac-operator''"
definition cloudkitPrefix :: string where "cloudkitPrefix = ''cloudkit.openshift.io''"

definition prefixed :: "string \<Rightarrow> string" where
  "prefixed s = cloudkitPrefix @ ''/'' @ s"

definition defaultComputeInstanceNamespace :: string where
  "defaultComputeInstanceNamespace = ''cloudkit-computeinstance''"
definition cloudkitComputeInstanceNameLabel :: string where
  "cloudkitComputeInstanceNameLabel = prefixed ''computeinstance''"
definition cloudkitComputeInstanceIDLabel :: string where
  "cloudkitComputeInstanceIDLabel = prefixed ''computeinstance-uuid''"
definition cloudkitComputeInstanceFinalizer :: string where
  "cloudkitComputeInstanceFinalizer = prefixed ''computeinstance''"
definition cloudkitAAPComputeInstanceFinalizer :: string where
  "cloudkitAAPComputeInstanceFinalizer = prefixed ''computeinstance-aap''"
definition cloudkitComputeInstanceFeedbackFinalizer :: string where
  "cloudkitComputeInstanceFeedbackFinalizer = prefixed ''computeinstance-feedback''"
definition cloudkitComputeInstanceManagementStateAnnotation :: string where
  "cloudkitComputeInstanceManagementStateAnnotation = prefixed ''management-state''"
definition cloudkitVirualMachineFloatingIPAddressAnnotation :: string where
  "cloudkitVirualMachineFloatingIPAddressAnnotation = prefixed ''floating-ip-address''"
definition cloudkitAAPReconciledConfigVersionAnnotation :: string where
  "cloudkitAAPReconciledConfigVersionAnnotation = prefixed ''reconciled-config-version''"

definition defaultClusterOrderNamespace :: string where
  "defaultClusterOrderNamespace = ''cloudkit-orders''"
definition defaultServiceAccountName :: string where "defaultServiceAccountName = ''cloudkit''"
definition defaultRoleBindingName :: string where "defaultRoleBindingName = ''cloudkit''"
definition cloudkitClusterOrderNameLabel :: string where
  "cloudkitClusterOrderNameLabel = prefixed ''clusterorder''"
definition cloudkitClusterOrderIDLabel :: string where
  "cloudkitClusterOrderIDLabel = prefixed ''clusterorder-uuid''"
definition cloudkitFinalizer :: string where "cloudkitFinalizer = prefixed ''finalizer''"
definition cloudkitManagementStateAnnotation :: string where
  "cloudkitManagementStateAnnotation = prefixed ''management-state''"

definition defaultHostPoolNamespace :: string where
  "defaultHostPoolNamespace = ''cloudkit-hostpool-orders''"
definition cloudkitHostPoolNameLabel :: string where "cloudkitHostPoolNameLabel = prefixed ''hostpool''"
definition cloudkitHostPoolIDLabel :: string where
  "cloudkitHostPoolIDLabel = prefixed ''hostpool-uuid''"
definition hostPoolFinalizer :: string where "hostPoolFinalizer = prefixed ''finalizer''"
definition cloudkitHostPoolManagementStateAnnotation :: string where
  "cloudkitHostPoolManagementStateAnnotation = prefixed ''management-state''"

definition cloudkitTenantRefLabel :: string where "cloudkitTenantRefLabel = prefixed ''tenant-ref''"
definition cloudkitProjectRefLabel :: string where "cloudkitProjectRefLabel = prefixed ''project''"
definition tenantFinalizer :: string where "tenantFinalizer = prefixed ''tenant''"
definition cloudkitTenantAnnotation :: string where "cloudkitTenantAnnotation = prefixed ''tenant''"
definition udnName :: string where "udnName = ''udn''"

lemma prefixed_inject [simp]: "prefixed s = prefixed t \<longleftrightarrow> s = t"
  by (simp add: prefixed_def)

lemmas ci_finalizer_names = cloudkitComputeInstanceFinalizer_def
  cloudkitAAPComputeInstanceFinalizer_def cloudkitComputeInstanceFeedbackFinalizer_def

text \<open>The three finalizers of a compute instance are distinct, and EDA's spelling is the second.\<close>

lemma ci_finalizers_distinct [simp]:
  "cloudkitComputeInstanceFinalizer \<noteq> cloudkitAAPComputeInstanceFinalizer"
  "cloudkitComputeInstanceFinalizer \<noteq> cloudkitComputeInstanceFeedbackFinalizer"
  "cloudkitAAPComputeInstanceFinalizer \<noteq> cloudkitComputeInstanceFeedbackFinalizer"
  "cloudkitComputeInstanceFeedbackFinalizer \<noteq> cloudkitComputeInstanceFinalizer"
  by (simp_all add: ci_finalizer_names)

lemma aap_finalizer_name: "aap_finalizer = cloudkitAAPComputeInstanceFinalizer"
  by (simp add: aap_finalizer_def ci_finalizer_names prefixed_def cloudkitPrefix_def)

section \<open>Generated names\<close>

definition generateNamespaceName :: "cluster_order \<Rightarrow> string" where
  "generateNamespaceName co = om_namespace (co_meta co) @ ''-'' @ om_name (co_meta co)"

definition generateHostPoolNamespaceName :: "host_pool \<Rightarrow> string" where
  "generateHostPoolNamespaceName hp = om_namespace (hp_meta hp) @ ''-'' @ om_name (hp_meta hp)"

definition encodeTenantName :: "string \<Rightarrow> string" where
  "encodeTenantName s = to_lower (base32_encode (bytes_of_word (fnv64a s)))"

definition generateTenantNamespaceName :: "tenant \<Rightarrow> string" where
  "generateTenantNamespaceName t =
     om_namespace (tn_meta t) @ ''-'' @ encodeTenantName (tn_spec_name t)"

definition getTenantObjectName :: "string \<Rightarrow> string" where
  "getTenantObjectName name = ''tenant-'' @ encodeTenantName name"


lemma length_encodeTenantName [simp]: "length (encodeTenantName s) = 13"
  by (simp add: encodeTenantName_def to_lower_def length_base32_encode)

lemma encodeTenantName_inject: "encodeTenantName s = encodeTenantName t \<longleftrightarrow> fnv64a s = fnv64a t"
proof
  assume "encodeTenantName s = encodeTenantName t"
  then have "base32_encode (bytes_of_word (fnv64a s)) = base32_encode (bytes_of_word (fnv64a t))"
    unfolding encodeTenantName_def by (rule to_lower_base32_inject)
  then have "bytes_of_word (fnv64a s) = bytes_of_word (fnv64a t)"
    by (rule base32_encode_inject [rotated -1]) (auto intro: bytes_of_word_bound)
  then show "fnv64a s = fnv64a t" by (simp add: bytes_of_word_inject)
qed (simp add: encodeTenantName_def)

section \<open>Properties\<close>

text \<open>The encoding of any tenant name is a valid piece of a Kubernetes name: thirteen
  characters, all lower-case letters or digits.\<close>

theorem encodeTenantName_valid:
  "length (encodeTenantName s) = 13 \<and>
   set (encodeTenantName s) \<subseteq> set ''abcdefghijklmnopqrstuvwxyz234567''"
  unfolding length_encodeTenantName unfolding encodeTenantName_def
  using set_to_lower_base32 by (simp only: simp_thms)

text \<open>C39: two tenants are given the same namespace exactly when they live in the same project
  and the 64-bit hashes of their names collide: neither the encoding nor the hyphen loses
  anything more, whatever the names contain.\<close>

theorem tenant_namespaces_distinct:
  "generateTenantNamespaceName t = generateTenantNamespaceName u \<longleftrightarrow>
     om_namespace (tn_meta t) = om_namespace (tn_meta u) \<and>
     fnv64a (tn_spec_name t) = fnv64a (tn_spec_name u)"
  by (auto simp: generateTenantNamespaceName_def encodeTenantName_inject)

end
