(* ===== verification/Provider_Config.thy ===== *)
theory Provider_Config
  imports Names
begin

text \<open>
  Choosing and configuring the provisioning provider: \<open>internal/provisioning/factory.go\<close>, and
  \<open>parsePollInterval\<close>, \<open>parseIntEnv\<close>, \<open>createEDAProvider\<close>, \<open>createAAPProvider\<close> and \<open>createProvider\<close>
  of \<open>cmd/main.go\<close>; \<open>GetEnvWithDefault\<close> of \<open>internal/helpers\<close> at the type the operator uses it.
  The process environment is a function from names to values, the empty string when unset.
\<close>

definition DefaultStatusPollInterval :: duration where "DefaultStatusPollInterval = 30 * second"

section \<open>The factory\<close>

record provider_config =
  pc_providerType :: string
  pc_webhookClient :: "(string \<Rightarrow> resource \<Rightarrow> duration res act) option"
  pc_provisionWebhook :: string
  pc_deprovisionWebhook :: string
  pc_aapClient :: "aap_client option"
  pc_provisionTemplate :: string
  pc_deprovisionTemplate :: string

definition ProviderTypeEDA :: string where "ProviderTypeEDA = ''eda''"
definition ProviderTypeAAP :: string where "ProviderTypeAAP = ''aap''"

definition newEDAProvider ::
    "(string \<Rightarrow> resource \<Rightarrow> duration res act) \<Rightarrow> string \<Rightarrow> string \<Rightarrow> eda_provider" where
  "newEDAProvider wc create delete =
     \<lparr>eda_webhookClient = wc, eda_createURL = create, eda_deleteURL = delete\<rparr>"

definition newAAPProvider :: "aap_client \<Rightarrow> string \<Rightarrow> string \<Rightarrow> aap_provider" where
  "newAAPProvider c pt dt = \<lparr>ap_client = c, ap_provisionTemplate = pt, ap_deprovisionTemplate = dt\<rparr>"

definition newProvider :: "go_lib \<Rightarrow> provider_config \<Rightarrow> provider res" where
  "newProvider L cfg =
     (if pc_providerType cfg = ProviderTypeEDA then
        (case pc_webhookClient cfg of
           None \<Rightarrow> Error (Errorf ''EDA provider requires WebhookClient'')
         | Some wc \<Rightarrow>
             if pc_provisionWebhook cfg = [] \<or> pc_deprovisionWebhook cfg = []
             then Error (Errorf ''EDA provider requires both ProvisionWebhook and DeprovisionWebhook'')
             else Ok (edaProvider L (newEDAProvider wc (pc_provisionWebhook cfg) (pc_deprovisionWebhook cfg))))
      else if pc_providerType cfg = ProviderTypeAAP then
        (case pc_aapClient cfg of
           None \<Rightarrow> Error (Errorf ''AAP provider requires AAPClient'')
         | Some c \<Rightarrow> Ok (aapProvider L (newAAPProvider c (pc_provisionTemplate cfg) (pc_deprovisionTemplate cfg))))
      else Error (Errorf (''unknown provider type: '' @ pc_providerType cfg)))"

section \<open>Reading the environment\<close>

definition envAAPStatusPollInterval :: string where
  "envAAPStatusPollInterval = ''CLOUDKIT_AAP_STATUS_POLL_INTERVAL''"
definition envMaxJobHistory :: string where "envMaxJobHistory = ''CLOUDKIT_MAX_JOB_HISTORY''"

type_synonym environ = "string \<Rightarrow> string"

definition parsePollInterval :: "go_lib \<Rightarrow> environ \<Rightarrow> string \<Rightarrow> duration \<Rightarrow> duration" where
  "parsePollInterval L getenv var def =
     (if getenv var = [] then def
      else case parse_duration L (getenv var) of None \<Rightarrow> def | Some d \<Rightarrow> d)"

definition parseIntEnv :: "environ \<Rightarrow> string \<Rightarrow> int \<Rightarrow> int" where
  "parseIntEnv getenv var def =
     (if getenv var = [] then def
      else case atoi (getenv var) of None \<Rightarrow> def | Some v \<Rightarrow> if v < 1 then def else v)"

definition getEnvWithDefault_duration :: "go_lib \<Rightarrow> environ \<Rightarrow> string \<Rightarrow> duration \<Rightarrow> duration" where
  "getEnvWithDefault_duration L getenv var def =
     (if getenv var = [] then def
      else case parse_duration L (getenv var) of None \<Rightarrow> def | Some d \<Rightarrow> d)"

section \<open>Creating the provider\<close>

definition createEDAProvider :: "env \<Rightarrow> string \<Rightarrow> string \<Rightarrow> duration \<Rightarrow> (provider \<times> duration) res" where
  "createEDAProvider E provisionWebhook deprovisionWebhook interval =
     (case newProvider (lib E)
         \<lparr>pc_providerType = ProviderTypeEDA,
          pc_webhookClient = Some (triggerWebhook E (newWebhookClient (10 * second) interval)),
          pc_provisionWebhook = provisionWebhook, pc_deprovisionWebhook = deprovisionWebhook,
          pc_aapClient = None, pc_provisionTemplate = [], pc_deprovisionTemplate = []\<rparr> of
        Ok P \<Rightarrow> Ok (P, DefaultStatusPollInterval) | Error e \<Rightarrow> Error e | Panic s \<Rightarrow> Panic s)"

definition createAAPProvider ::
    "env \<Rightarrow> environ \<Rightarrow> string \<Rightarrow> string \<Rightarrow> string \<Rightarrow> string \<Rightarrow> (provider \<times> duration) res" where
  "createAAPProvider E getenv url token pt dt =
     (let interval = parsePollInterval (lib E) getenv envAAPStatusPollInterval DefaultStatusPollInterval
      in case newProvider (lib E)
         \<lparr>pc_providerType = ProviderTypeAAP, pc_webhookClient = None, pc_provisionWebhook = [],
          pc_deprovisionWebhook = [], pc_aapClient = Some (aapClient E (newAapClient url token)),
          pc_provisionTemplate = pt, pc_deprovisionTemplate = dt\<rparr> of
        Ok P \<Rightarrow> Ok (P, interval) | Error e \<Rightarrow> Error e | Panic s \<Rightarrow> Panic s)"

record provider_settings =
  pset_provisionWebhook :: string
  pset_deprovisionWebhook :: string
  pset_aapURL :: string
  pset_aapToken :: string
  pset_provisionTemplate :: string
  pset_deprovisionTemplate :: string
  pset_minimumRequestInterval :: duration

definition createProvider ::
    "env \<Rightarrow> environ \<Rightarrow> string \<Rightarrow> provider_settings \<Rightarrow> (provider \<times> duration) res" where
  "createProvider E getenv ty s =
     (if ty = ProviderTypeEDA then createEDAProvider E (pset_provisionWebhook s)
          (pset_deprovisionWebhook s) (pset_minimumRequestInterval s)
      else if ty = ProviderTypeAAP then createAAPProvider E getenv (pset_aapURL s) (pset_aapToken s)
          (pset_provisionTemplate s) (pset_deprovisionTemplate s)
      else Error (Errorf (''unknown provider type: '' @ ty)))"

section \<open>Which providers there are\<close>

lemma createProvider_eda:
  "createProvider E getenv ProviderTypeEDA s =
     (if pset_provisionWebhook s = [] \<or> pset_deprovisionWebhook s = []
      then Error (Errorf ''EDA provider requires both ProvisionWebhook and DeprovisionWebhook'')
      else Ok (edaProvider (lib E) (newEDAProvider
        (triggerWebhook E (newWebhookClient (10 * second) (pset_minimumRequestInterval s)))
        (pset_provisionWebhook s) (pset_deprovisionWebhook s)), DefaultStatusPollInterval))"
  by (simp add: createProvider_def createEDAProvider_def newProvider_def)

lemma createProvider_aap:
  "createProvider E getenv ProviderTypeAAP s =
     Ok (aapProvider (lib E) (newAAPProvider (aapClient E (newAapClient (pset_aapURL s) (pset_aapToken s)))
          (pset_provisionTemplate s) (pset_deprovisionTemplate s)),
       parsePollInterval (lib E) getenv envAAPStatusPollInterval DefaultStatusPollInterval)"
  by (simp add: createProvider_def createAAPProvider_def newProvider_def ProviderTypeAAP_def ProviderTypeEDA_def)

lemma createProvider_cases:
  assumes "createProvider E getenv ty s = Ok (P, i)"
  obtains (eda) "ty = ProviderTypeEDA" "i = DefaultStatusPollInterval"
      "P = edaProvider (lib E) (newEDAProvider
        (triggerWebhook E (newWebhookClient (10 * second) (pset_minimumRequestInterval s)))
        (pset_provisionWebhook s) (pset_deprovisionWebhook s))"
      "pset_provisionWebhook s \<noteq> []" "pset_deprovisionWebhook s \<noteq> []"
  | (aap) "ty = ProviderTypeAAP"
      "P = aapProvider (lib E) (newAAPProvider (aapClient E (newAapClient (pset_aapURL s) (pset_aapToken s)))
          (pset_provisionTemplate s) (pset_deprovisionTemplate s))"
      "i = parsePollInterval (lib E) getenv envAAPStatusPollInterval DefaultStatusPollInterval"
proof (cases "ty = ProviderTypeEDA")
  case True
  with assms eda show ?thesis by (auto simp: createProvider_eda split: if_splits)
next
  case False
  with assms have "ty = ProviderTypeAAP" by (auto simp: createProvider_def split: if_splits)
  with assms aap show ?thesis by (auto simp: createProvider_aap)
qed

text \<open>Every provider the operator creates keeps the contract.\<close>

lemma createProvider_contract:
  "createProvider E getenv ty s = Ok (P, i) \<Longrightarrow> provisioning_provider P"
  by (elim createProvider_cases)
    (auto intro!: eda_contract aap.aap_contract
      simp: newEDAProvider_def newAAPProvider_def wc.webhook_service_axioms)

section \<open>Properties\<close>

text \<open>An integer setting is at least one whenever its default is, and it is the value that
  was written whenever that is the decimal notation of an int from one up.\<close>

theorem parseIntEnv_at_least_one:
  assumes "1 \<le> def"
  shows "1 \<le> parseIntEnv getenv var def \<and>
     (1 \<le> v \<and> in_int_range v \<and> getenv var = itoa v \<longrightarrow> parseIntEnv getenv var def = v)"
  using assms by (auto simp: parseIntEnv_def atoi_itoa split: option.split)

theorem parseIntEnv_at_least_one_witness:
  "1 \<le> parseIntEnv (\<lambda>_. itoa 25) envMaxJobHistory 10 \<and> parseIntEnv (\<lambda>_. itoa 25) envMaxJobHistory 10 = 25"
  using parseIntEnv_at_least_one [of 10 "\<lambda>_. itoa 25" envMaxJobHistory 25]
  by (simp add: in_int_range_def max_int_def)

text \<open>Whatever provider the operator is configured with, what it creates keeps the contract
  of a provisioning provider; creation fails only for an unknown type, or for EDA when one of
  its two URLs is missing: AAP's URL, token and templates are not checked.\<close>

theorem createProvider_total:
  "(\<exists>P i. createProvider E getenv ty s = Ok (P, i) \<and> provisioning_provider P \<and>
      (ty = ProviderTypeAAP \<or> ty = ProviderTypeEDA \<and> pset_provisionWebhook s \<noteq> [] \<and>
         pset_deprovisionWebhook s \<noteq> [])) \<or>
   (\<exists>e. createProvider E getenv ty s = Error e \<and> ty \<noteq> ProviderTypeAAP \<and>
      (if ty = ProviderTypeEDA then pset_provisionWebhook s = [] \<or> pset_deprovisionWebhook s = [] else True))"
proof -
  consider "ty = ProviderTypeEDA" | "ty = ProviderTypeAAP" | "ty \<noteq> ProviderTypeEDA" "ty \<noteq> ProviderTypeAAP"
    by blast
  then show ?thesis
  proof cases
    case 1
    then show ?thesis
      using createProvider_contract [of E getenv ty s] createProvider_eda [of E getenv s]
      by (auto simp: ProviderTypeAAP_def ProviderTypeEDA_def split: if_splits)
  next
    case 2
    then show ?thesis
      using createProvider_contract [of E getenv ty s] createProvider_aap [of E getenv s] by blast
  qed (simp add: createProvider_def)
qed

end
