(* ===== verification/CI_Provisioning.thy ===== *)
theory CI_Provisioning
  imports Provider_Config
begin

text \<open>
  The job history of a compute instance and the two job lifecycles of
  \<open>internal/controller/computeinstance_controller.go\<close>: \<open>findJobByID\<close>, \<open>appendJob\<close>, \<open>updateJob\<close>,
  \<open>handleProvisioning\<close> and \<open>handleDeprovisioning\<close>. A handler's pointer to the instance is
  the object of its outcome.
\<close>

record compute_instance_reconciler =
  cir_namespace :: string
  cir_provider :: "provider option"
  cir_statusPollInterval :: duration
  cir_maxJobHistory :: int

definition DefaultMaxJobHistory :: int where "DefaultMaxJobHistory = 10"

definition newComputeInstanceReconciler ::
    "string \<Rightarrow> provider option \<Rightarrow> duration \<Rightarrow> int \<Rightarrow> compute_instance_reconciler" where
  "newComputeInstanceReconciler ns provider interval maxHistory =
     \<lparr>cir_namespace = (if ns = [] then defaultComputeInstanceNamespace else ns),
      cir_provider = provider,
      cir_statusPollInterval = (if interval = 0 then 30 * second else interval),
      cir_maxJobHistory = (if maxHistory \<le> 0 then DefaultMaxJobHistory else maxHistory)\<rparr>"

section \<open>The job history\<close>

definition findJobByID :: "job_status list \<Rightarrow> string \<Rightarrow> job_status option" where
  "findJobByID jobs jobID = first_such (\<lambda>j. js_jobID j = jobID) jobs"

text \<open>A history limit that is not positive does not occur: the constructor replaces it.\<close>

definition appendJob :: "compute_instance_reconciler \<Rightarrow> job_status list \<Rightarrow> job_status \<Rightarrow> job_status list" where
  "appendJob r jobs newJob =
     (let jobs' = jobs @ [newJob]
      in if int (length jobs') > cir_maxJobHistory r
         then drop (nat (int (length jobs') - cir_maxJobHistory r)) jobs' else jobs')"

definition updateJob :: "job_status list \<Rightarrow> job_status \<Rightarrow> bool \<times> job_status list" where
  "updateJob jobs updated =
     (case findJobByID jobs (js_jobID updated) of
        None \<Rightarrow> (False, jobs)
      | Some _ \<Rightarrow> (True, replace_first (\<lambda>j. js_jobID j = js_jobID updated) updated jobs))"

definition new_job :: "string \<Rightarrow> job_type \<Rightarrow> time \<Rightarrow> job_state \<Rightarrow> string \<Rightarrow> bool \<Rightarrow> job_status" where
  "new_job i ty t st msg block =
     \<lparr>js_jobID = i, js_type = ty, js_timestamp = t, js_state = st, js_message = msg,
      js_blockDeletionOnFailure = block\<rparr>"

definition add_job :: "compute_instance_reconciler \<Rightarrow> job_status \<Rightarrow> compute_instance \<Rightarrow> compute_instance" where
  "add_job r j ci = set_jobs (appendJob r (ci_jobs ci) j) ci"

definition update_job :: "job_status \<Rightarrow> compute_instance \<Rightarrow> compute_instance" where
  "update_job j ci = set_jobs (snd (updateJob (ci_jobs ci) j)) ci"

text \<open>Whether there is no job of the type with an identifier yet.\<close>

definition needs_trigger :: "job_type \<Rightarrow> job_status list \<Rightarrow> bool" where
  "needs_trigger ty jobs =
     (case findLatestJobByType jobs ty of None \<Rightarrow> True | Some j \<Rightarrow> js_jobID j = [])"

definition managed_manually :: "compute_instance \<Rightarrow> bool" where
  "managed_manually ci \<longleftrightarrow>
     ci_annotations ci cloudkitComputeInstanceManagementStateAnnotation = Some ManagementStateManual"

section \<open>Provisioning\<close>

definition provision_trigger ::
    "env \<Rightarrow> compute_instance_reconciler \<Rightarrow> provider \<Rightarrow> compute_instance \<Rightarrow> compute_instance outcome act" where
  "provision_trigger E r P ci =
     do { res \<leftarrow> triggerProvision P (ResComputeInstance ci);
          case res of
            Panic s \<Rightarrow> State_Monad.return (Panicked s)
          | Error e \<Rightarrow>
              (case as_rate_limit e of
                 Some d \<Rightarrow> State_Monad.return (Done ci (requeue_after d) None)
               | None \<Rightarrow>
                   do { t \<leftarrow> now E;
                        State_Monad.return (Done
                          (add_job r (new_job [] JobTypeProvision t JobStateFailed
                            (''Failed to trigger provisioning: '' @ err_text e) False) ci)
                          (requeue_after (cir_statusPollInterval r)) None) })
          | Ok result \<Rightarrow>
              do { t \<leftarrow> now E;
                   State_Monad.return (Done
                     (add_job r (new_job (pr_jobID result) JobTypeProvision t (pr_initialState result)
                       (pr_message result) False) ci)
                     (requeue_after (cir_statusPollInterval r)) None) } }"

definition status_message :: "provision_status \<Rightarrow> string" where
  "status_message s =
     (if ps_errorDetails s \<noteq> [] then ps_message s @ '': '' @ ps_errorDetails s else ps_message s)"

definition with_status :: "provision_status \<Rightarrow> job_status \<Rightarrow> job_status" where
  "with_status s j = j\<lparr>js_state := ps_state s, js_message := status_message s\<rparr>"

definition provision_poll ::
    "compute_instance_reconciler \<Rightarrow> provider \<Rightarrow> compute_instance \<Rightarrow> job_status \<Rightarrow> compute_instance outcome act" where
  "provision_poll r P ci job =
     do { res \<leftarrow> getProvisionStatus P (ResComputeInstance ci) (js_jobID job);
          State_Monad.return (case res of
            Panic s \<Rightarrow> Panicked s
          | Error e \<Rightarrow> Done
              (update_job (job\<lparr>js_message := ''Failed to get job status: '' @ err_text e\<rparr>) ci)
              (requeue_after (cir_statusPollInterval r)) None
          | Ok status \<Rightarrow>
              let ci' = update_job (with_status status job) ci
              in if \<not> isTerminal (ps_state status)
                 then Done ci' (requeue_after (cir_statusPollInterval r)) None
                 else if isSuccessful (ps_state status)
                 then Done (if ps_reconciledVersion status \<noteq> []
                     then ci'\<lparr>ci_status := (ci_status ci')\<lparr>cis_reconciledConfigVersion :=
                       ps_reconciledVersion status\<rparr>\<rparr>
                     else ci') result_none None
                 else Done (set_phase ComputeInstancePhaseFailed ci') result_none None) }"

definition handleProvisioning ::
    "env \<Rightarrow> compute_instance_reconciler \<Rightarrow> compute_instance \<Rightarrow> compute_instance outcome act" where
  "handleProvisioning E r ci =
     (if managed_manually ci then State_Monad.return (Done ci result_none None)
      else case cir_provider r of
        None \<Rightarrow> State_Monad.return (Done ci result_none None)
      | Some P \<Rightarrow>
          (case findLatestJobByType (ci_jobs ci) JobTypeProvision of
             None \<Rightarrow> provision_trigger E r P ci
           | Some job \<Rightarrow>
               if js_jobID job = [] then provision_trigger E r P ci else provision_poll r P ci job))"

section \<open>Deprovisioning\<close>

text \<open>The provision job takes the status the provider reports with its answer.\<close>

definition record_provision_status :: "provision_status option \<Rightarrow> compute_instance \<Rightarrow> compute_instance" where
  "record_provision_status st ci =
     (case st of None \<Rightarrow> ci
      | Some s \<Rightarrow> (case findLatestJobByType (ci_jobs ci) JobTypeProvision of None \<Rightarrow> ci
          | Some job \<Rightarrow> update_job (job\<lparr>js_state := ps_state s, js_message := ps_message s\<rparr>) ci))"

definition deprovision_trigger ::
    "env \<Rightarrow> compute_instance_reconciler \<Rightarrow> provider \<Rightarrow> compute_instance \<Rightarrow> compute_instance outcome act" where
  "deprovision_trigger E r P ci =
     do { res \<leftarrow> triggerDeprovision P (ResComputeInstance ci);
          case res of
            Panic s \<Rightarrow> State_Monad.return (Panicked s)
          | Error e \<Rightarrow> State_Monad.return (Done ci
              (requeue_after (case as_rate_limit e of Some d \<Rightarrow> d | None \<Rightarrow> cir_statusPollInterval r)) None)
          | Ok result \<Rightarrow>
              (case dr_action result of
                 DeprovisionWaiting \<Rightarrow> State_Monad.return (Done
                   (record_provision_status (dr_provisionJobStatus result) ci)
                   (requeue_after (cir_statusPollInterval r)) None)
               | DeprovisionSkipped \<Rightarrow> State_Monad.return (Done ci result_none None)
               | DeprovisionTriggered \<Rightarrow>
                   do { t \<leftarrow> now E;
                        State_Monad.return (Done
                          (add_job r (new_job (dr_jobID result) JobTypeDeprovision t JobStatePending
                             ''Deprovisioning job triggered'' (dr_blockDeletionOnFailure result))
                            (record_provision_status (dr_provisionJobStatus result) ci))
                          (requeue_after (cir_statusPollInterval r)) None) }) }"

definition deprovision_poll ::
    "compute_instance_reconciler \<Rightarrow> provider \<Rightarrow> compute_instance \<Rightarrow> job_status \<Rightarrow> compute_instance outcome act" where
  "deprovision_poll r P ci job =
     do { res \<leftarrow> getDeprovisionStatus P (ResComputeInstance ci) (js_jobID job);
          State_Monad.return (case res of
            Panic s \<Rightarrow> Panicked s
          | Error e \<Rightarrow> Done
              (update_job (job\<lparr>js_message := ''Failed to get job status: '' @ err_text e\<rparr>) ci)
              (requeue_after (cir_statusPollInterval r)) None
          | Ok status \<Rightarrow>
              let ci' = update_job (with_status status job) ci
              in if \<not> isTerminal (ps_state status)
                 then Done ci' (requeue_after (cir_statusPollInterval r)) None
                 else if isSuccessful (ps_state status) then Done ci' result_none None
                 else if js_blockDeletionOnFailure job
                 then Done ci' (requeue_after (cir_statusPollInterval r)) None
                 else Done ci' result_none None) }"

definition handleDeprovisioning ::
    "env \<Rightarrow> compute_instance_reconciler \<Rightarrow> compute_instance \<Rightarrow> compute_instance outcome act" where
  "handleDeprovisioning E r ci =
     (if managed_manually ci then State_Monad.return (Done ci result_none None)
      else case findLatestJobByType (ci_jobs ci) JobTypeDeprovision of
          Some job \<Rightarrow>
            (case cir_provider r of
               None \<Rightarrow> State_Monad.return (Panicked
                 ''runtime error: invalid memory address or nil pointer dereference'')
             | Some P \<Rightarrow> if js_jobID job = [] then deprovision_trigger E r P ci
                 else deprovision_poll r P ci job)
        | None \<Rightarrow>
            (case cir_provider r of
               None \<Rightarrow> State_Monad.return (Panicked
                 ''runtime error: invalid memory address or nil pointer dereference'')
             | Some P \<Rightarrow> deprovision_trigger E r P ci))"

section \<open>Lemmas on the history\<close>

lemma appendJob_keeps_newest:
  "1 \<le> cir_maxJobHistory r \<Longrightarrow> \<exists>old. appendJob r jobs j = old @ [j] \<and> (\<exists>pre. jobs = pre @ old)"
  by (auto simp: appendJob_def Let_def)
    (metis append_take_drop_id)

lemma length_appendJob:
  "1 \<le> cir_maxJobHistory r \<Longrightarrow>
   int (length (appendJob r jobs j)) = min (int (length jobs) + 1) (cir_maxJobHistory r)"
  by (auto simp: appendJob_def Let_def)

lemma length_updateJob [simp]: "length (snd (updateJob jobs u)) = length jobs"
  by (simp add: updateJob_def split: option.split)

lemma updateJob_ids [simp]: "map js_jobID (snd (updateJob jobs u)) = map js_jobID jobs"
  by (auto simp: updateJob_def split: option.split intro: map_replace_first)

lemma updateJob_found: "fst (updateJob jobs u) \<longleftrightarrow> js_jobID u \<in> js_jobID ` set jobs"
  using first_such_None_iff [of "\<lambda>j. js_jobID j = js_jobID u" jobs]
  by (auto simp: updateJob_def findJobByID_def image_iff eq_commute split: option.splits)

lemma findJobByID_updateJob:
  "findJobByID (snd (updateJob jobs u)) i =
     (if i = js_jobID u \<and> findJobByID jobs i \<noteq> None then Some u else findJobByID jobs i)"
proof (cases "i = js_jobID u")
  case True
  then show ?thesis
    by (auto simp: updateJob_def findJobByID_def first_such_replace_first_same split: option.split)
next
  case False
  have "first_such (\<lambda>j. js_jobID j = i) (replace_first (\<lambda>j. js_jobID j = js_jobID u) u jobs) =
      first_such (\<lambda>j. js_jobID j = i) jobs"
    by (rule first_such_replace_first_other) (use False in auto)
  with False show ?thesis by (auto simp: updateJob_def findJobByID_def split: option.split)
qed

lemma needs_trigger_iff:
  "needs_trigger ty jobs \<longleftrightarrow>
     findLatestJobByType jobs ty = None \<or> (\<exists>j. findLatestJobByType jobs ty = Some j \<and> js_jobID j = [])"
  by (simp add: needs_trigger_def split: option.split)

text \<open>Which handler branch runs.\<close>

lemma handleProvisioning_cases:
  "handleProvisioning E r ci =
     (if managed_manually ci \<or> cir_provider r = None then State_Monad.return (Done ci result_none None)
      else if needs_trigger JobTypeProvision (ci_jobs ci)
      then provision_trigger E r (the (cir_provider r)) ci
      else provision_poll r (the (cir_provider r)) ci
             (the (findLatestJobByType (ci_jobs ci) JobTypeProvision)))"
  by (auto simp: handleProvisioning_def needs_trigger_def split: option.split)

lemma handleDeprovisioning_cases:
  "cir_provider r = Some P \<Longrightarrow>
   handleDeprovisioning E r ci =
     (if managed_manually ci then State_Monad.return (Done ci result_none None)
      else if needs_trigger JobTypeDeprovision (ci_jobs ci) then deprovision_trigger E r P ci
      else deprovision_poll r P ci (the (findLatestJobByType (ci_jobs ci) JobTypeDeprovision)))"
  by (auto simp: handleDeprovisioning_def needs_trigger_def split: option.split)


section \<open>What the handlers change\<close>

text \<open>Two instances that differ in the jobs, the phase and the reconciled version at most.\<close>

definition same_but_jobs :: "compute_instance \<Rightarrow> compute_instance \<Rightarrow> bool" where
  "same_but_jobs ci ci' \<longleftrightarrow>
     ci_meta ci' = ci_meta ci \<and> ci_spec ci' = ci_spec ci \<and>
     ci_conditions ci' = ci_conditions ci \<and>
     cis_virtualMachineReference (ci_status ci') = cis_virtualMachineReference (ci_status ci) \<and>
     cis_tenantReference (ci_status ci') = cis_tenantReference (ci_status ci) \<and>
     cis_desiredConfigVersion (ci_status ci') = cis_desiredConfigVersion (ci_status ci) \<and>
     cis_lastRestartedAt (ci_status ci') = cis_lastRestartedAt (ci_status ci)"

lemma same_but_jobs_simps [simp]:
  "same_but_jobs ci ci" "same_but_jobs ci (set_jobs js ci)" "same_but_jobs ci (add_job r j ci)"
  "same_but_jobs ci (update_job j ci)" "same_but_jobs ci (record_provision_status st ci)"
  "same_but_jobs ci (add_job r j (record_provision_status st ci))"
  by (simp_all add: same_but_jobs_def set_jobs_def add_job_def update_job_def record_provision_status_def
      split: option.split)

lemma same_but_jobs_sets [simp]:
  "same_but_jobs ci (set_phase p (update_job j ci))"
  "same_but_jobs ci ((update_job j ci)\<lparr>ci_status := (ci_status (update_job j ci))
     \<lparr>cis_reconciledConfigVersion := v\<rparr>\<rparr>)"
  by (simp_all add: same_but_jobs_def set_jobs_def set_phase_def update_job_def)

lemma add_job_jobs [simp]: "ci_jobs (add_job r j ci) = appendJob r (ci_jobs ci) j"
  by (simp add: add_job_def set_jobs_def)

lemma update_job_jobs [simp]: "ci_jobs (update_job j ci) = snd (updateJob (ci_jobs ci) j)"
  by (simp add: update_job_def set_jobs_def)

lemma set_phase_jobs [simp]: "ci_jobs (set_phase p ci) = ci_jobs ci"
  by (simp add: set_phase_def)

lemma length_record_provision_status [simp]:
  "length (ci_jobs (record_provision_status st ci)) = length (ci_jobs ci)"
  by (simp add: record_provision_status_def split: option.split)

text \<open>A handler's outcome: no error, and only jobs, phase and reconciled version touched.\<close>

definition tracked :: "compute_instance_reconciler \<Rightarrow> compute_instance \<Rightarrow> compute_instance outcome \<Rightarrow> bool" where
  "tracked r ci out \<longleftrightarrow>
     (\<forall>ci' res err. out = Done ci' res err \<longrightarrow>
        err = None \<and> requeue res = False \<and> same_but_jobs ci ci' \<and>
        (int (length (ci_jobs ci)) \<le> cir_maxJobHistory r \<longrightarrow>
           int (length (ci_jobs ci')) \<le> cir_maxJobHistory r))"

lemma tracked_Done:
  "same_but_jobs ci ci' \<Longrightarrow> requeue res = False \<Longrightarrow>
   (int (length (ci_jobs ci)) \<le> cir_maxJobHistory r \<Longrightarrow> int (length (ci_jobs ci')) \<le> cir_maxJobHistory r) \<Longrightarrow>
   tracked r ci (Done ci' res None)"
  by (simp add: tracked_def)

lemma provision_trigger_tracked:
  "1 \<le> cir_maxJobHistory r \<Longrightarrow> tracked r ci (fst (run_state (provision_trigger E r P ci) w))"
  by (auto simp: provision_trigger_def State_Monad.return_def split_beta tracked_def[where out = "Panicked _"]
      length_appendJob intro!: tracked_Done split: res.split option.split)

lemma provision_poll_tracked: "tracked r ci (fst (run_state (provision_poll r P ci job) w))"
  by (auto simp: provision_poll_def State_Monad.return_def split_beta tracked_def[where out = "Panicked _"] Let_def
      intro!: tracked_Done split: res.split)

lemma deprovision_trigger_tracked:
  "1 \<le> cir_maxJobHistory r \<Longrightarrow> tracked r ci (fst (run_state (deprovision_trigger E r P ci) w))"
  by (auto simp: deprovision_trigger_def State_Monad.return_def split_beta tracked_def[where out = "Panicked _"]
      length_appendJob intro!: tracked_Done split: res.split deprovision_action.split)

lemma deprovision_poll_tracked: "tracked r ci (fst (run_state (deprovision_poll r P ci job) w))"
  by (auto simp: deprovision_poll_def State_Monad.return_def split_beta tracked_def[where out = "Panicked _"] Let_def
      intro!: tracked_Done split: res.split)

lemma handleProvisioning_tracked:
  "1 \<le> cir_maxJobHistory r \<Longrightarrow> tracked r ci (fst (run_state (handleProvisioning E r ci) w))"
  by (auto simp: handleProvisioning_cases State_Monad.return_def
      intro!: tracked_Done provision_trigger_tracked provision_poll_tracked)

lemma handleDeprovisioning_tracked:
  "1 \<le> cir_maxJobHistory r \<Longrightarrow> tracked r ci (fst (run_state (handleDeprovisioning E r ci) w))"
  by (auto simp: handleDeprovisioning_def State_Monad.return_def tracked_def[where out = "Panicked _"]
      intro!: tracked_Done deprovision_trigger_tracked deprovision_poll_tracked split: option.split)


section \<open>A triggered job is found again\<close>

lemma findLatest_appendJob:
  assumes "1 \<le> cir_maxJobHistory r"
    and older: "\<forall>k \<in> set jobs. js_type k = js_type j \<longrightarrow> js_timestamp k < js_timestamp j"
  shows "findLatestJobByType (appendJob r jobs j) (js_type j) = Some j"
proof -
  obtain old pre where split: "appendJob r jobs j = old @ [j]" "jobs = pre @ old"
    using appendJob_keeps_newest [OF assms(1)] by blast
  then show ?thesis
    using older findLatestJobByType_SomeD [of old "js_type j"]
    by (auto simp: findLatestJobByType_snoc split: option.split)
qed

lemma appendJob_subset: "set (appendJob r jobs j) \<subseteq> insert j (set jobs)"
  by (auto simp: appendJob_def Let_def dest: in_set_dropD)

lemma new_job_simps [simp]:
  "js_jobID (new_job i ty t st m b) = i" "js_type (new_job i ty t st m b) = ty"
  "js_timestamp (new_job i ty t st m b) = t" "js_state (new_job i ty t st m b) = st"
  "js_message (new_job i ty t st m b) = m" "js_blockDeletionOnFailure (new_job i ty t st m b) = b"
  by (simp_all add: new_job_def)

lemma triggered_not_needed:
  assumes "1 \<le> cir_maxJobHistory r" "i \<noteq> []"
    and "\<forall>k \<in> set jobs. js_type k = ty \<longrightarrow> js_timestamp k < t"
  shows "\<not> needs_trigger ty (appendJob r jobs (new_job i ty t st m b))"
  using findLatest_appendJob [of r jobs "new_job i ty t st m b"] assms by (simp add: needs_trigger_def)

section \<open>When deprovisioning is over\<close>

definition deprovision_over :: "provider \<Rightarrow> compute_instance \<Rightarrow> world \<Rightarrow> bool" where
  "deprovision_over P ci w \<longleftrightarrow>
     managed_manually ci \<or>
     (case findLatestJobByType (ci_jobs ci) JobTypeDeprovision of
        None \<Rightarrow> (\<exists>dr. fst (run_state (triggerDeprovision P (ResComputeInstance ci)) w) = Ok dr \<and>
                   dr_action dr = DeprovisionSkipped)
      | Some job \<Rightarrow>
          if js_jobID job = []
          then (\<exists>dr. fst (run_state (triggerDeprovision P (ResComputeInstance ci)) w) = Ok dr \<and>
                  dr_action dr = DeprovisionSkipped)
          else (\<exists>s. fst (run_state (getDeprovisionStatus P (ResComputeInstance ci) (js_jobID job)) w) = Ok s \<and>
                  (ps_state s = JobStateSucceeded \<or>
                   isTerminal (ps_state s) \<and> \<not> js_blockDeletionOnFailure job)))"

context provisioning_provider
begin

lemma deprovision_trigger_requeue:
  assumes "0 < cir_statusPollInterval r"
    and "fst (run_state (deprovision_trigger E r P ci) w) = Done ci' res err"
  shows "0 < requeueAfter res \<longleftrightarrow>
    \<not> (\<exists>dr. fst (run_state (triggerDeprovision P (ResComputeInstance ci)) w) = Ok dr \<and>
        dr_action dr = DeprovisionSkipped)"
  using assms deprovision_retry [of "ResComputeInstance ci" w]
  by (auto simp: deprovision_trigger_def State_Monad.return_def split_beta
      split: res.splits option.splits deprovision_action.splits)

lemma deprovision_poll_requeue:
  assumes "0 < cir_statusPollInterval r"
    and "fst (run_state (deprovision_poll r P ci job) w) = Done ci' res err"
  shows "0 < requeueAfter res \<longleftrightarrow>
    \<not> (\<exists>s. fst (run_state (getDeprovisionStatus P (ResComputeInstance ci) (js_jobID job)) w) = Ok s \<and>
        (ps_state s = JobStateSucceeded \<or> isTerminal (ps_state s) \<and> \<not> js_blockDeletionOnFailure job))"
  using assms
  by (auto simp: deprovision_poll_def State_Monad.return_def split_beta Let_def isTerminal_def
      split: res.splits if_splits)

lemma handleDeprovisioning_requeue:
  assumes "cir_provider r = Some P" "0 < cir_statusPollInterval r"
    and "fst (run_state (handleDeprovisioning E r ci) w) = Done ci' res err"
  shows "0 < requeueAfter res \<longleftrightarrow> \<not> deprovision_over P ci w"
proof (cases "managed_manually ci")
  case True
  with assms(3) show ?thesis
    by (auto simp: handleDeprovisioning_def State_Monad.return_def deprovision_over_def)
next
  case False
  with assms deprovision_trigger_requeue [OF assms(2)] deprovision_poll_requeue [OF assms(2)] show ?thesis
    by (auto simp: handleDeprovisioning_def deprovision_over_def split: option.splits if_splits)
qed

lemma trigger_found_again:
  assumes prov: "cir_provider r = Some P" and hist: "1 \<le> cir_maxJobHistory r"
    and need: "\<not> managed_manually ci" "needs_trigger JobTypeProvision (ci_jobs ci)"
    and run: "run_state (triggerProvision P (ResComputeInstance ci)) w = (Ok res, w1)"
    and older: "\<forall>k \<in> set (ci_jobs ci). js_type k = JobTypeProvision \<longrightarrow> js_timestamp k < clock E (trace w1)"
  shows "\<exists>ci'. fst (run_state (handleProvisioning E r ci) w) =
       Done ci' (requeue_after (cir_statusPollInterval r)) None \<and>
     findLatestJobByType (ci_jobs ci') JobTypeProvision =
       Some (new_job (pr_jobID res) JobTypeProvision (clock E (trace w1)) (pr_initialState res)
         (pr_message res) False) \<and>
     \<not> needs_trigger JobTypeProvision (ci_jobs ci')"
proof -
  let ?j = "new_job (pr_jobID res) JobTypeProvision (clock E (trace w1)) (pr_initialState res)
      (pr_message res) False"
  have "fst (run_state (handleProvisioning E r ci) w) =
      Done (add_job r ?j ci) (requeue_after (cir_statusPollInterval r)) None"
    using prov need by (simp add: handleProvisioning_cases provision_trigger_def run State_Monad.return_def)
  moreover have "findLatestJobByType (ci_jobs (add_job r ?j ci)) JobTypeProvision = Some ?j"
    using findLatest_appendJob [OF hist, of "ci_jobs ci" ?j] older by simp
  moreover have "pr_jobID res \<noteq> []" using provision_id run by (metis fst_conv)
  ultimately show ?thesis by (auto simp: needs_trigger_def)
qed

end

section \<open>Launches of the direct provider\<close>

context aap_service
begin

lemma poll_reads:
  assumes [simp]: "ap_client p = cl"
  shows "footprint is_read (provision_poll r (aapProvider L p) ci job)"
    and "footprint is_read (deprovision_poll r (aapProvider L p) ci job)"
  unfolding provision_poll_def deprovision_poll_def
  by (auto simp: aapProvider_def aap_getProvisionStatus_def aap_getDeprovisionStatus_def
      intro!: fp_intros footprint_getJobStatus)

lemma provision_launch_needed:
  assumes p: "ap_client p = cl" "cir_provider r = Some (aapProvider L p)"
    and run: "run_state (handleProvisioning E r ci) w = (out, w')"
    and new: "trace w' = es @ trace w" "e \<in> set es" "is_launch e"
  shows "\<not> managed_manually ci \<and> needs_trigger JobTypeProvision (ci_jobs ci)"
proof (rule ccontr)
  assume not: "\<not> (\<not> managed_manually ci \<and> needs_trigger JobTypeProvision (ci_jobs ci))"
  have "footprint is_read (handleProvisioning E r ci)"
    using not p by (auto simp: handleProvisioning_cases intro!: fp_intros poll_reads)
  then obtain es' where "trace w' = es' @ trace w" "\<forall>e \<in> set es'. is_read e"
    using run by (rule footprintD)
  with new have "is_read e" by simp
  with new(3) not_launch_if_read show False by blast
qed

end


section \<open>Properties\<close>

text \<open>C17: adding a job to the history keeps its newest jobs: the result ends with the new job,
  has at most the configured number of jobs, and differs from the full history only by the
  oldest jobs, dropped from its front.\<close>

theorem appendJob_history:
  assumes "1 \<le> cir_maxJobHistory r"
  shows "\<exists>dropped. dropped @ appendJob r jobs j = jobs @ [j] \<and>
     last (appendJob r jobs j) = j \<and>
     int (length (appendJob r jobs j)) = min (int (length jobs) + 1) (cir_maxJobHistory r)"
proof -
  obtain old pre where "appendJob r jobs j = old @ [j]" "jobs = pre @ old"
    using appendJob_keeps_newest [OF assms] by blast
  then show ?thesis using length_appendJob [OF assms, of jobs j] by (intro exI [of _ pre]) simp
qed

definition sample_reconciler :: "provider option \<Rightarrow> compute_instance_reconciler" where
  "sample_reconciler P = newComputeInstanceReconciler [] P 0 2"

lemma sample_reconciler_simps [simp]:
  "cir_maxJobHistory (sample_reconciler P) = 2" "cir_provider (sample_reconciler P) = P"
  "cir_statusPollInterval (sample_reconciler P) = 30 * second"
  by (simp_all add: sample_reconciler_def newComputeInstanceReconciler_def)

theorem appendJob_history_witness:
  "length (appendJob (sample_reconciler None) [eda_job ''a'', eda_job ''b''] (eda_job ''c'')) = 2"
  using appendJob_history [of "sample_reconciler None" "[eda_job ''a'', eda_job ''b'']" "eda_job ''c''"]
  by simp

text \<open>Updating a job by its identifier replaces the first job that has it and changes
  nothing else: the identifiers in the history stay, in their order, and every other
  identifier finds the job it found before; an unknown identifier changes nothing.\<close>

theorem updateJob_frame:
  "map js_jobID (snd (updateJob jobs u)) = map js_jobID jobs \<and>
   findJobByID (snd (updateJob jobs u)) i =
     (if i = js_jobID u \<and> findJobByID jobs i \<noteq> None then Some u else findJobByID jobs i) \<and>
   (fst (updateJob jobs u) = (js_jobID u \<in> js_jobID ` set jobs))"
  by (simp add: findJobByID_updateJob updateJob_found)

text \<open>C4: a provision job that was triggered is recorded so that it is not triggered again: with
  any provider the operator can be configured with, the outcome asks to come back after the
  poll interval, the new job is the latest provision job of the history, and from any
  instance with that history, whatever has happened to the world and to the rest of the
  instance, provisioning polls that job and triggers nothing. (Earlier provision jobs must
  have earlier timestamps.)\<close>

theorem provision_triggered_once:
  assumes "createProvider E0 getenv ty s = Ok (P, i)" "cir_provider r = Some P" "1 \<le> cir_maxJobHistory r"
    and "\<not> managed_manually ci" "needs_trigger JobTypeProvision (ci_jobs ci)"
    and "run_state (triggerProvision P (ResComputeInstance ci)) w = (Ok res, w1)"
    and "\<forall>k \<in> set (ci_jobs ci). js_type k = JobTypeProvision \<longrightarrow> js_timestamp k < clock E (trace w1)"
  shows "\<exists>ci' job. fst (run_state (handleProvisioning E r ci) w) =
       Done ci' (requeue_after (cir_statusPollInterval r)) None \<and>
     js_jobID job = pr_jobID res \<and> findLatestJobByType (ci_jobs ci') JobTypeProvision = Some job \<and>
     (\<forall>E2 ci2. ci_jobs ci2 = ci_jobs ci' \<and> \<not> managed_manually ci2 \<longrightarrow>
        handleProvisioning E2 r ci2 = provision_poll r P ci2 job)"
proof -
  obtain ci' where ci': "fst (run_state (handleProvisioning E r ci) w) =
       Done ci' (requeue_after (cir_statusPollInterval r)) None"
     "findLatestJobByType (ci_jobs ci') JobTypeProvision =
       Some (new_job (pr_jobID res) JobTypeProvision (clock E (trace w1)) (pr_initialState res)
         (pr_message res) False)" "\<not> needs_trigger JobTypeProvision (ci_jobs ci')"
    using provisioning_provider.trigger_found_again [OF createProvider_contract [OF assms(1)] assms(2-7)]
    by blast
  with assms(2) have "handleProvisioning E2 r ci2 = provision_poll r P ci2
      (new_job (pr_jobID res) JobTypeProvision (clock E (trace w1)) (pr_initialState res) (pr_message res) False)"
    if "ci_jobs ci2 = ci_jobs ci'" "\<not> managed_manually ci2" for E2 ci2
    using that by (simp add: handleProvisioning_cases)
  with ci' show ?thesis by (intro exI [of _ ci'] exI) auto
qed

definition eda_settings :: provider_settings where
  "eda_settings = \<lparr>pset_provisionWebhook = ''u'', pset_deprovisionWebhook = ''d'', pset_aapURL = [],
     pset_aapToken = [], pset_provisionTemplate = [], pset_deprovisionTemplate = [],
     pset_minimumRequestInterval = 5 * second\<rparr>"

definition the_eda :: provider where
  "the_eda = edaProvider ref_lib (newEDAProvider (triggerWebhook ref_env sample_wc) ''u'' ''d'')"

lemma create_the_eda:
  "createProvider ref_env (\<lambda>_. []) ProviderTypeEDA eda_settings = Ok (the_eda, DefaultStatusPollInterval)"
  by (simp add: createProvider_eda eda_settings_def the_eda_def sample_wc_def)

lemma sample_ci_not_manual [simp]: "\<not> managed_manually sample_ci"
  by (simp add: managed_manually_def sample_ci_def sample_meta_def new_meta_def)

lemma sample_ci_jobs [simp]: "ci_jobs sample_ci = []"
  by (simp add: sample_ci_def)

lemma the_eda_triggers:
  "fst (run_state (triggerProvision the_eda (ResComputeInstance sample_ci)) empty_world) =
     Ok \<lparr>pr_jobID = generateEDAJobID [], pr_initialState = JobStateRunning,
         pr_message = ''Webhook sent to EDA, provisioning in progress''\<rparr>"
proof -
  have "fst (run_state (triggerWebhook ref_env sample_wc ''u'' (ResComputeInstance sample_ci)) empty_world) = Ok 0"
    by (subst triggerWebhook_send)
      (simp_all add: pending_delta_def send_result_def ref_lib_def ref_env_def is_success_code_def)
  then show ?thesis
    by (simp add: the_eda_def edaProvider_def newEDAProvider_def eda_triggerProvision_def
        State_Monad.return_def split_beta)
qed

theorem provision_triggered_once_witness:
  "\<exists>ci' job. fst (run_state (handleProvisioning ref_env (sample_reconciler (Some the_eda)) sample_ci)
       empty_world) = Done ci' (requeue_after (30 * second)) None \<and>
     js_jobID job = generateEDAJobID [] \<and> findLatestJobByType (ci_jobs ci') JobTypeProvision = Some job"
proof -
  let ?res = "\<lparr>pr_jobID = generateEDAJobID [], pr_initialState = JobStateRunning,
         pr_message = ''Webhook sent to EDA, provisioning in progress''\<rparr>"
  let ?run = "run_state (triggerProvision the_eda (ResComputeInstance sample_ci)) empty_world"
  have "?run = (Ok ?res, snd ?run)" by (simp add: prod_eq_iff the_eda_triggers)
  then obtain ci' job where
    "fst (run_state (handleProvisioning ref_env (sample_reconciler (Some the_eda)) sample_ci) empty_world) =
       Done ci' (requeue_after (cir_statusPollInterval (sample_reconciler (Some the_eda)))) None"
    "js_jobID job = pr_jobID ?res" "findLatestJobByType (ci_jobs ci') JobTypeProvision = Some job"
    using provision_triggered_once [OF create_the_eda, of "sample_reconciler (Some the_eda)" sample_ci
        empty_world ?res "snd ?run" ref_env]
    by (auto simp: needs_trigger_def findLatestJobByType_def)
  then show ?thesis by auto
qed

text \<open>With the direct AAP provider, the provisioning step launches a job only for an instance
  that is not managed by hand and whose history has no provision job with an identifier.\<close>

theorem aap_provision_launch_guard:
  assumes "cir_provider r = Some (aapProvider L (direct_provider E c pt dt))"
    and "run_state (handleProvisioning E r ci) w = (out, w')"
    and "trace w' = es @ trace w" "e \<in> set es" "is_launch e"
  shows "\<not> managed_manually ci \<and> needs_trigger JobTypeProvision (ci_jobs ci)"
  by (rule aap.provision_launch_needed [OF direct_provider_client assms])


theorem aap_provision_launch_guard_witness:
  "\<not> managed_manually sample_ci \<and> needs_trigger JobTypeProvision (ci_jobs sample_ci)"
proof -
  let ?p = "direct_provider launch_env sample_conn ''p'' ''d''"
  let ?w = "(launched_world ''p'')\<lparr>trace := EvNow # trace (launched_world ''p'')\<rparr>"
  obtain out where run: "run_state (handleProvisioning launch_env
      (sample_reconciler (Some (aapProvider (lib launch_env) ?p))) sample_ci) empty_world = (out, ?w)"
    by (simp add: handleProvisioning_cases needs_trigger_def findLatestJobByType_def provision_trigger_def
        aapProvider_def launch_env_provision State_Monad.return_def)
  obtain e where "e \<in> set (trace (launched_world ''p''))" "is_launch e"
    using launched_world_launch by blast
  then show ?thesis
    by (rule_tac aap_provision_launch_guard [OF _ run, where es = "trace ?w"]) simp_all
qed

end
