(* ===== verification/Kube_Client.thy ===== *)
theory Kube_Client
  imports Names
begin

text \<open>
  The calls of the controller-runtime client, one for each request that the operator makes,
  and \<open>CreateOrUpdate\<close>, whose reading and writing halves are answers of the environment
  around the operator's own mutate function. \<open>set_condition\<close> is \<open>meta.SetStatusCondition\<close>.
\<close>

definition kc_get_ci :: "env \<Rightarrow> object_key \<Rightarrow> (go_error + compute_instance) act" where
  "kc_get_ci E k = request (EvGet KindComputeInstance k) (get_compute_instance (kube E) k)"
definition kc_update_ci :: "env \<Rightarrow> compute_instance \<Rightarrow> (go_error + compute_instance) act" where
  "kc_update_ci E x = request (EvUpdate (KComputeInstance x)) (update_compute_instance (kube E) x)"
definition kc_status_ci :: "env \<Rightarrow> compute_instance \<Rightarrow> (go_error + compute_instance) act" where
  "kc_status_ci E x =
     request (EvStatusUpdate (KComputeInstance x)) (update_compute_instance_status (kube E) x)"
definition kc_get_tenant :: "env \<Rightarrow> object_key \<Rightarrow> (go_error + tenant) act" where
  "kc_get_tenant E k = request (EvGet KindTenant k) (get_tenant (kube E) k)"
definition kc_update_tenant :: "env \<Rightarrow> tenant \<Rightarrow> (go_error + tenant) act" where
  "kc_update_tenant E x = request (EvUpdate (KTenant x)) (update_tenant (kube E) x)"
definition kc_status_tenant :: "env \<Rightarrow> tenant \<Rightarrow> (go_error + tenant) act" where
  "kc_status_tenant E x = request (EvStatusUpdate (KTenant x)) (update_tenant_status (kube E) x)"
definition kc_get_co :: "env \<Rightarrow> object_key \<Rightarrow> (go_error + cluster_order) act" where
  "kc_get_co E k = request (EvGet KindClusterOrder k) (get_cluster_order (kube E) k)"
definition kc_update_co :: "env \<Rightarrow> cluster_order \<Rightarrow> (go_error + cluster_order) act" where
  "kc_update_co E x = request (EvUpdate (KClusterOrder x)) (update_cluster_order (kube E) x)"
definition kc_status_co :: "env \<Rightarrow> cluster_order \<Rightarrow> (go_error + cluster_order) act" where
  "kc_status_co E x = request (EvStatusUpdate (KClusterOrder x)) (update_cluster_order_status (kube E) x)"
definition kc_get_hp :: "env \<Rightarrow> object_key \<Rightarrow> (go_error + host_pool) act" where
  "kc_get_hp E k = request (EvGet KindHostPool k) (get_host_pool (kube E) k)"
definition kc_update_hp :: "env \<Rightarrow> host_pool \<Rightarrow> (go_error + host_pool) act" where
  "kc_update_hp E x = request (EvUpdate (KHostPool x)) (update_host_pool (kube E) x)"
definition kc_status_hp :: "env \<Rightarrow> host_pool \<Rightarrow> (go_error + host_pool) act" where
  "kc_status_hp E x = request (EvStatusUpdate (KHostPool x)) (update_host_pool_status (kube E) x)"
definition kc_get_namespace :: "env \<Rightarrow> object_key \<Rightarrow> (go_error + namespace_obj) act" where
  "kc_get_namespace E k = request (EvGet KindNamespace k) (get_namespace (kube E) k)"
definition kc_list_namespaces :: "env \<Rightarrow> (string \<times> string) list \<Rightarrow> (go_error + namespace_obj list) act" where
  "kc_list_namespaces E sel = request (EvList KindNamespace None sel) (list_namespaces (kube E) sel)"
definition kc_delete_namespace :: "env \<Rightarrow> namespace_obj \<Rightarrow> go_error option act" where
  "kc_delete_namespace E x = request (EvDelete (KNamespace x)) (delete_namespace (kube E) x)"
definition kc_list_vms ::
    "env \<Rightarrow> string \<Rightarrow> (string \<times> string) list \<Rightarrow> (go_error + virtual_machine list) act" where
  "kc_list_vms E ns sel = request (EvList KindVirtualMachine (Some ns) sel) (list_virtual_machines (kube E) ns sel)"
definition kc_get_vmi :: "env \<Rightarrow> object_key \<Rightarrow> (go_error + virtual_machine_instance) act" where
  "kc_get_vmi E k = request (EvGet KindVirtualMachineInstance k) (get_vmi (kube E) k)"
definition kc_delete_vmi :: "env \<Rightarrow> virtual_machine_instance \<Rightarrow> go_error option act" where
  "kc_delete_vmi E x = request (EvDelete (KVirtualMachineInstance x)) (delete_vmi (kube E) x)"
definition kc_get_udn :: "env \<Rightarrow> object_key \<Rightarrow> (go_error + user_defined_network) act" where
  "kc_get_udn E k = request (EvGet KindUserDefinedNetwork k) (get_udn (kube E) k)"
definition kc_delete_udn :: "env \<Rightarrow> user_defined_network \<Rightarrow> go_error option act" where
  "kc_delete_udn E x = request (EvDelete (KUserDefinedNetwork x)) (delete_udn (kube E) x)"
definition kc_get_hosted_cluster :: "env \<Rightarrow> object_key \<Rightarrow> (go_error + hosted_cluster) act" where
  "kc_get_hosted_cluster E k = request (EvGet KindHostedCluster k) (get_hosted_cluster (kube E) k)"
definition kc_list_hosted_clusters ::
    "env \<Rightarrow> string \<Rightarrow> (string \<times> string) list \<Rightarrow> (go_error + hosted_cluster list) act" where
  "kc_list_hosted_clusters E ns sel =
     request (EvList KindHostedCluster (Some ns) sel) (list_hosted_clusters (kube E) ns sel)"
definition kc_list_node_pools ::
    "env \<Rightarrow> string \<Rightarrow> (string \<times> string) list \<Rightarrow> (go_error + node_pool list) act" where
  "kc_list_node_pools E ns sel =
     request (EvList KindNodePool (Some ns) sel) (list_node_pools (kube E) ns sel)"

lemmas kc_defs = kc_get_ci_def kc_update_ci_def kc_status_ci_def kc_get_tenant_def kc_update_tenant_def
  kc_status_tenant_def kc_get_co_def kc_update_co_def kc_status_co_def kc_get_hp_def kc_update_hp_def
  kc_status_hp_def kc_get_namespace_def kc_list_namespaces_def kc_delete_namespace_def kc_list_vms_def
  kc_get_vmi_def kc_delete_vmi_def kc_get_udn_def kc_delete_udn_def kc_get_hosted_cluster_def kc_list_hosted_clusters_def
  kc_list_node_pools_def

lemma footprint_kc [fp_intros]:
  "P (EvGet KindComputeInstance k) \<Longrightarrow> footprint P (kc_get_ci E k)"
  "P (EvUpdate (KComputeInstance ci)) \<Longrightarrow> footprint P (kc_update_ci E ci)"
  "P (EvStatusUpdate (KComputeInstance ci)) \<Longrightarrow> footprint P (kc_status_ci E ci)"
  "P (EvGet KindTenant k) \<Longrightarrow> footprint P (kc_get_tenant E k)"
  "P (EvUpdate (KTenant t)) \<Longrightarrow> footprint P (kc_update_tenant E t)"
  "P (EvStatusUpdate (KTenant t)) \<Longrightarrow> footprint P (kc_status_tenant E t)"
  "P (EvGet KindClusterOrder k) \<Longrightarrow> footprint P (kc_get_co E k)"
  "P (EvUpdate (KClusterOrder co)) \<Longrightarrow> footprint P (kc_update_co E co)"
  "P (EvStatusUpdate (KClusterOrder co)) \<Longrightarrow> footprint P (kc_status_co E co)"
  "P (EvGet KindHostPool k) \<Longrightarrow> footprint P (kc_get_hp E k)"
  "P (EvUpdate (KHostPool hp)) \<Longrightarrow> footprint P (kc_update_hp E hp)"
  "P (EvStatusUpdate (KHostPool hp)) \<Longrightarrow> footprint P (kc_status_hp E hp)"
  "P (EvGet KindNamespace k) \<Longrightarrow> footprint P (kc_get_namespace E k)"
  "P (EvList KindNamespace None sel) \<Longrightarrow> footprint P (kc_list_namespaces E sel)"
  "P (EvDelete (KNamespace n)) \<Longrightarrow> footprint P (kc_delete_namespace E n)"
  "P (EvList KindVirtualMachine (Some ns) sel) \<Longrightarrow> footprint P (kc_list_vms E ns sel)"
  "P (EvGet KindVirtualMachineInstance k) \<Longrightarrow> footprint P (kc_get_vmi E k)"
  "P (EvDelete (KVirtualMachineInstance v)) \<Longrightarrow> footprint P (kc_delete_vmi E v)"
  "P (EvGet KindUserDefinedNetwork k) \<Longrightarrow> footprint P (kc_get_udn E k)"
  "P (EvDelete (KUserDefinedNetwork u)) \<Longrightarrow> footprint P (kc_delete_udn E u)"
  "P (EvGet KindHostedCluster k) \<Longrightarrow> footprint P (kc_get_hosted_cluster E k)"
  "P (EvList KindHostedCluster (Some ns) sel) \<Longrightarrow> footprint P (kc_list_hosted_clusters E ns sel)"
  "P (EvList KindNodePool (Some ns) sel) \<Longrightarrow> footprint P (kc_list_node_pools E ns sel)"
  by (simp_all add: kc_defs footprint_request)

section \<open>CreateOrUpdate\<close>

text \<open>
  The mutate function sees the object as it was read and the instance it closes over; it
  runs only when the reading has succeeded. The result is the error, the object as the call
  leaves it, and the instance.
\<close>

definition createOrUpdate ::
    "('o \<Rightarrow> k8s_object) \<Rightarrow> ('o \<Rightarrow> history \<Rightarrow> go_error option \<times> 'o) \<Rightarrow>
     ('o \<Rightarrow> history \<Rightarrow> go_error option \<times> 'o) \<Rightarrow> 'o \<Rightarrow> ('o \<Rightarrow> 'i \<Rightarrow> go_error + ('o \<times> 'i)) \<Rightarrow> 'i \<Rightarrow>
     (go_error option \<times> 'o \<times> 'i) act" where
  "createOrUpdate wrap fetch commit obj mutate inst =
     do { f \<leftarrow> request (EvFetch (wrap obj)) (fetch obj);
          case fst f of
            Some e \<Rightarrow> State_Monad.return (Some e, snd f, inst)
          | None \<Rightarrow>
              (case mutate (snd f) inst of
                 Inl e \<Rightarrow> State_Monad.return (Some e, snd f, inst)
               | Inr (obj', inst') \<Rightarrow>
                   do { c \<leftarrow> request (EvCommit (wrap obj')) (commit obj');
                        State_Monad.return (fst c, snd c, inst') }) }"

lemma footprint_createOrUpdate [fp_intros]:
  "P (EvFetch (wrap obj)) \<Longrightarrow> (\<And>x y i. mutate x inst = Inr (y, i) \<Longrightarrow> P (EvCommit (wrap y))) \<Longrightarrow>
   footprint P (createOrUpdate wrap fetch commit obj mutate inst)"
  unfolding createOrUpdate_def by (intro fp_intros) auto

text \<open>
  From the history \<open>h\<close> to \<open>h'\<close> the object \<open>obj\<close> was looked up, what was there (or \<open>obj\<close> itself)
  was sent with the change \<open>f\<close>, and the answer was \<open>z\<close>.
\<close>

definition wrote ::
    "('o \<Rightarrow> k8s_object) \<Rightarrow> ('o \<Rightarrow> history \<Rightarrow> go_error option \<times> 'o) \<Rightarrow>
     ('o \<Rightarrow> history \<Rightarrow> go_error option \<times> 'o) \<Rightarrow> 'o \<Rightarrow> ('o \<Rightarrow> 'o) \<Rightarrow> history \<Rightarrow> 'o \<Rightarrow> history \<Rightarrow> bool" where
  "wrote wrap fetch commit obj f h z h' \<longleftrightarrow>
     (\<exists>y. fetch obj h = (None, y) \<and> commit (f y) (EvFetch (wrap obj) # h) = (None, z) \<and>
        h' = EvCommit (wrap (f y)) # EvFetch (wrap obj) # h)"

lemma wrote_trace: "wrote wrap fetch commit obj f h z h' \<Longrightarrow> \<exists>y. h' = EvCommit (wrap y) # EvFetch (wrap obj) # h"
  unfolding wrote_def by blast

lemma run_createOrUpdate:
  assumes "run_state (createOrUpdate wrap fetch commit obj mutate i) w = ((None, z, j), w')"
    and "\<And>x. mutate x i = Inr (f x, k)"
  shows "wrote wrap fetch commit obj f (trace w) z (trace w')" "j = k"
proof -
  obtain err y where y: "fetch obj (trace w) = (err, y)" by (metis surj_pair)
  with assms(1) have err: "err = None" by (cases err) (auto simp: createOrUpdate_def State_Monad.return_def)
  obtain err' x where x: "commit (f y) (EvFetch (wrap obj) # trace w) = (err', x)" by (metis surj_pair)
  show "wrote wrap fetch commit obj f (trace w) z (trace w')" "j = k"
    using assms(1) y err x unfolding wrote_def
    by (auto simp: createOrUpdate_def State_Monad.return_def assms(2))
qed

section \<open>Labels\<close>

text \<open>\<open>lo.Assign\<close> and \<open>maps.Copy\<close> of the common labels; a skipped assignment would not change them.\<close>

definition merge_labels :: "(string \<rightharpoonup> string) \<Rightarrow> object_meta \<Rightarrow> object_meta" where
  "merge_labels common m = m\<lparr>om_labels := om_labels m ++ common\<rparr>"

definition has_labels :: "(string \<rightharpoonup> string) \<Rightarrow> object_meta \<Rightarrow> bool" where
  "has_labels common m \<longleftrightarrow> common \<subseteq>\<^sub>m om_labels m"

lemma has_labels_merge [simp]: "has_labels common (merge_labels common m)"
  by (simp add: has_labels_def merge_labels_def)

section \<open>Conditions\<close>

definition set_condition :: "env \<Rightarrow> condition \<Rightarrow> condition list \<Rightarrow> condition list act" where
  "set_condition E c cs =
     do { t \<leftarrow> now E; State_Monad.return (setStatusCondition (lib E) t c cs) }"

lemma footprint_set_condition [fp_intros]: "P EvNow \<Longrightarrow> footprint P (set_condition E c cs)"
  unfolding set_condition_def by (intro fp_intros)

lemma run_set_condition [simp]:
  "run_state (set_condition E c cs) w =
     (setStatusCondition (lib E) (clock E (trace w)) c cs, w\<lparr>trace := EvNow # trace w\<rparr>)"
  by (simp add: set_condition_def State_Monad.return_def)

text \<open>The methods of \<open>ComputeInstance\<close> and \<open>ClusterOrder\<close>.\<close>

definition ci_setStatusCondition ::
    "env \<Rightarrow> string \<Rightarrow> cond_status \<Rightarrow> string \<Rightarrow> string \<Rightarrow> compute_instance \<Rightarrow> compute_instance act" where
  "ci_setStatusCondition E t s msg reason ci =
     do { cs \<leftarrow> set_condition E (mk_condition t s reason msg) (ci_conditions ci);
          State_Monad.return (set_conditions cs ci) }"

definition co_setStatusCondition ::
    "env \<Rightarrow> string \<Rightarrow> cond_status \<Rightarrow> string \<Rightarrow> string \<Rightarrow> cluster_order \<Rightarrow> cluster_order act" where
  "co_setStatusCondition E t s msg reason co =
     do { cs \<leftarrow> set_condition E (mk_condition t s reason msg) (co_conditions co);
          State_Monad.return (co_set_conditions cs co) }"

lemma footprint_setStatusCondition [fp_intros]:
  "P EvNow \<Longrightarrow> footprint P (ci_setStatusCondition E t s m r ci)"
  "P EvNow \<Longrightarrow> footprint P (co_setStatusCondition E t s m r co)"
  unfolding ci_setStatusCondition_def co_setStatusCondition_def by (intro fp_intros; simp)+

lemma run_ci_setStatusCondition [simp]:
  "run_state (ci_setStatusCondition E t s m r ci) w =
     (set_conditions (setStatusCondition (lib E) (clock E (trace w)) (mk_condition t s r m) (ci_conditions ci)) ci,
      w\<lparr>trace := EvNow # trace w\<rparr>)"
  by (simp add: ci_setStatusCondition_def State_Monad.return_def)

lemma run_co_setStatusCondition [simp]:
  "run_state (co_setStatusCondition E t s m r co) w =
     (co_set_conditions (setStatusCondition (lib E) (clock E (trace w)) (mk_condition t s r m) (co_conditions co)) co,
      w\<lparr>trace := EvNow # trace w\<rparr>)"
  by (simp add: co_setStatusCondition_def State_Monad.return_def)

text \<open>\<open>client.IgnoreNotFound\<close> of an answer, as the readers of one object use it.\<close>

definition get_optional :: "(go_error + 'o) act \<Rightarrow> (go_error + 'o option) act" where
  "get_optional m =
     do { r \<leftarrow> m;
          State_Monad.return (case r of
            Inr x \<Rightarrow> Inr (Some x)
          | Inl e \<Rightarrow> (case ignore_not_found e of None \<Rightarrow> Inr None | Some e' \<Rightarrow> Inl e')) }"

lemma footprint_get_optional [fp_intros]: "footprint P m \<Longrightarrow> footprint P (get_optional m)"
  unfolding get_optional_def by (intro fp_intros)

lemma ignore_not_found_None: "ignore_not_found e = None \<longleftrightarrow> is_not_found e"
  by (simp add: ignore_not_found_def)

lemma ref_not_found_simps [simp]: "is_not_found ref_not_found" "ignore_not_found ref_not_found = None"
  by (simp_all add: ref_not_found_def is_not_found_def ignore_not_found_def)

text \<open>Everything a handler can do: it never writes the status itself.\<close>

definition handler_event :: "event \<Rightarrow> bool" where
  "handler_event e \<longleftrightarrow> \<not> (\<exists>x. e = EvStatusUpdate x)"

lemma handler_event_simps [simp]:
  "handler_event EvNow" "handler_event (EvHttp q)" "handler_event (EvGet k key)" "handler_event (EvList k n s)"
  "handler_event (EvUpdate x)" "handler_event (EvDelete x)" "handler_event (EvFetch x)"
  "handler_event (EvCommit x)" "\<not> handler_event (EvStatusUpdate x)"
  by (simp_all add: handler_event_def)

end
