(* ===== verification/CI_Restart.thy ===== *)
theory CI_Restart
  imports Kube_Client
begin

text \<open>
  \<open>internal/controller/computeinstance_restart.go\<close>: restarting a virtual machine by deleting
  its instance. The step relation \<open>restart_step\<close> is the protocol on the three facts that
  matter (the request, the last restart, whether one is in progress); every call of
  \<open>handleRestartRequest\<close> is one of its steps, and so one request deletes the virtual machine
  instance successfully at most once, as long as the status it writes is not lost.
\<close>

definition ReasonRestartInProgress :: string where "ReasonRestartInProgress = ''RestartInProgress''"
definition ReasonNoVMReference :: string where "ReasonNoVMReference = ''NoVMReference''"
definition ReasonVMIDeletionFailed :: string where "ReasonVMIDeletionFailed = ''VMIDeletionFailed''"

definition restart_condition :: "compute_instance \<Rightarrow> string \<Rightarrow> string \<Rightarrow> string \<Rightarrow> condition" where
  "restart_condition ci t reason msg =
     (mk_condition t ConditionTrue reason msg)\<lparr>c_observedGeneration := om_generation (ci_meta ci)\<rparr>"

definition clearRestartConditions :: "go_lib \<Rightarrow> compute_instance \<Rightarrow> bool \<times> compute_instance" where
  "clearRestartConditions L ci =
     (let (changed, cs) = removeStatusCondition L ComputeInstanceConditionRestartInProgress (ci_conditions ci);
          (changed', cs') = removeStatusCondition L ComputeInstanceConditionRestartFailed cs
      in (if changed' then True else changed, set_conditions cs' ci))"

definition vmi_key :: "virtual_machine_reference \<Rightarrow> object_key" where
  "vmi_key ref = \<lparr>key_namespace = vmr_namespace ref, key_name = vmr_kubeVirtVirtualMachineName ref\<rparr>"

text \<open>The instance after the check, and the error; \<open>requested\<close> is \<open>spec.restartRequestedAt\<close>.\<close>

definition checkRestartCompletion ::
    "env \<Rightarrow> time \<Rightarrow> compute_instance \<Rightarrow> (compute_instance \<times> go_error option) act" where
  "checkRestartCompletion E requested ci =
     (case cis_virtualMachineReference (ci_status ci) of
        None \<Rightarrow> State_Monad.return (ci, None)
      | Some ref \<Rightarrow>
          do { r \<leftarrow> kc_get_vmi E (vmi_key ref);
               State_Monad.return (case r of
                   Inl e \<Rightarrow> if is_not_found e then (ci, None) else (ci, Some e)
                 | Inr vmi \<Rightarrow>
                     if requested < vmi_creationTimestamp vmi
                     then (snd (clearRestartConditions (lib E)
                        (ci\<lparr>ci_status := (ci_status ci)\<lparr>cis_lastRestartedAt := Some requested\<rparr>\<rparr>)), None)
                     else (ci, None)) })"

definition performRestart ::
    "env \<Rightarrow> time \<Rightarrow> compute_instance \<Rightarrow> compute_instance outcome act" where
  "performRestart E requested ci =
     (case cis_virtualMachineReference (ci_status ci) of
        None \<Rightarrow>
          do { cs \<leftarrow> set_condition E (restart_condition ci ComputeInstanceConditionRestartFailed
                 ReasonNoVMReference ''No VirtualMachine reference found'') (ci_conditions ci);
               State_Monad.return (Done (set_conditions cs ci) result_none None) }
      | Some ref \<Rightarrow>
          do { r \<leftarrow> kc_get_vmi E (vmi_key ref);
            case r of
              Inl e \<Rightarrow>
                if is_not_found e then
                  do { cs \<leftarrow> set_condition E (restart_condition ci ComputeInstanceConditionRestartInProgress
                         ReasonRestartInProgress (''Waiting for VMI to be created (restart requested at '' @
                           format_rfc3339 (lib E) requested @ '')'')) (ci_conditions ci);
                       State_Monad.return (Done (set_conditions cs ci) result_none None) }
                else State_Monad.return (Done ci result_none (Some e))
            | Inr vmi \<Rightarrow>
                do { d \<leftarrow> kc_delete_vmi E vmi;
                  if (case d of None \<Rightarrow> False | Some e \<Rightarrow> \<not> is_not_found e) then
                    do { cs \<leftarrow> set_condition E (restart_condition ci ComputeInstanceConditionRestartFailed
                           ReasonVMIDeletionFailed (''Failed to delete VMI: '' @ err_text (the d)))
                           (ci_conditions ci);
                         State_Monad.return (Done (set_conditions cs ci) result_none d) }
                  else
                    do { cs \<leftarrow> set_condition E (restart_condition ci ComputeInstanceConditionRestartInProgress
                           ReasonRestartInProgress (''Restart initiated at '' @ format_rfc3339 (lib E) requested))
                           (ci_conditions ci);
                         State_Monad.return (Done (set_conditions
                           (snd (removeStatusCondition (lib E) ComputeInstanceConditionRestartFailed cs)) ci)
                           result_none None) } } })"

definition handleRestartRequest ::
    "env \<Rightarrow> compute_instance \<Rightarrow> compute_instance outcome act" where
  "handleRestartRequest E ci =
     (case cisp_restartRequestedAt (ci_spec ci) of
        None \<Rightarrow> State_Monad.return (Done (snd (clearRestartConditions (lib E) ci)) result_none None)
      | Some requested \<Rightarrow>
          if isStatusConditionTrue (lib E) (ci_conditions ci) ComputeInstanceConditionRestartInProgress
          then do { r \<leftarrow> checkRestartCompletion E requested ci;
                    State_Monad.return (Done (fst r) result_none (snd r)) }
          else if (case cis_lastRestartedAt (ci_status ci) of None \<Rightarrow> False | Some l \<Rightarrow> \<not> l < requested)
          then State_Monad.return (Done ci result_none None)
          else performRestart E requested ci)"

section \<open>The protocol\<close>

record restart_view =
  rv_requested :: "time option"
  rv_last :: "time option"
  rv_inProgress :: bool

definition restart_fresh :: "restart_view \<Rightarrow> bool" where
  "restart_fresh v \<longleftrightarrow> (\<exists>t. rv_requested v = Some t \<and> (\<forall>l. rv_last v = Some l \<longrightarrow> l < t))"

text \<open>The flag says whether the virtual machine instance was deleted.\<close>

inductive restart_step :: "restart_view \<Rightarrow> bool \<Rightarrow> restart_view \<Rightarrow> bool" where
  step_idle: "rv_requested v = None \<Longrightarrow> restart_step v False (v\<lparr>rv_inProgress := False\<rparr>)"
| step_wait: "restart_step v False v"
| step_complete: "rv_requested v = Some t \<Longrightarrow> rv_inProgress v \<Longrightarrow>
    restart_step v False (v\<lparr>rv_last := Some t, rv_inProgress := False\<rparr>)"
| step_start: "restart_fresh v \<Longrightarrow> \<not> rv_inProgress v \<Longrightarrow> restart_step v b (v\<lparr>rv_inProgress := True\<rparr>)"

inductive_cases restart_deleteE: "restart_step v True v'"

definition condition_true :: "string \<Rightarrow> condition list \<Rightarrow> bool" where
  "condition_true t cs = (\<exists>c. first_such (\<lambda>c. c_type c = t) cs = Some c \<and> c_status c = ConditionTrue)"

definition view_of :: "compute_instance \<Rightarrow> restart_view" where
  "view_of ci =
     \<lparr>rv_requested = cisp_restartRequestedAt (ci_spec ci),
      rv_last = cis_lastRestartedAt (ci_status ci),
      rv_inProgress = condition_true ComputeInstanceConditionRestartInProgress (ci_conditions ci)\<rparr>"

lemma view_set_conditions:
  "view_of (set_conditions cs ci) =
     (view_of ci)\<lparr>rv_inProgress := condition_true ComputeInstanceConditionRestartInProgress cs\<rparr>"
  by (simp add: view_of_def set_conditions_def)

text \<open>What a call did to the virtual machine instance.\<close>

definition is_vmi_delete :: "event \<Rightarrow> bool" where
  "is_vmi_delete e \<longleftrightarrow> (\<exists>v. e = EvDelete (KVirtualMachineInstance v))"

definition vmi_deletes :: "world \<Rightarrow> world \<Rightarrow> nat" where
  "vmi_deletes w w' = length (filter is_vmi_delete (trace w')) - length (filter is_vmi_delete (trace w))"

lemma vmi_deletes_same [simp]: "vmi_deletes w w = 0"
  by (simp add: vmi_deletes_def)

lemma restart_condition_simps [simp]:
  "c_type (restart_condition ci t r m) = t" "c_status (restart_condition ci t r m) = ConditionTrue"
  by (simp_all add: restart_condition_def mk_condition_def)

lemma restart_types_distinct [simp]:
  "ComputeInstanceConditionRestartInProgress \<noteq> ComputeInstanceConditionRestartFailed"
  "ComputeInstanceConditionRestartFailed \<noteq> ComputeInstanceConditionRestartInProgress"
  by (simp_all add: ci_condition_types)

text \<open>The in-progress condition after each of the operations on conditions.\<close>

lemma condition_true_laws:
  assumes "condition_laws L"
  shows "isStatusConditionTrue L cs t = condition_true t cs"
    and "condition_true t (setStatusCondition L n c cs) =
      (if t = c_type c then c_status c = ConditionTrue else condition_true t cs)"
    and "condition_true u (snd (removeStatusCondition L t cs)) = (u \<noteq> t \<and> condition_true u cs)"
  using assms by (simp_all add: condition_true_def condition_simps)

lemma clearRestartConditions_view:
  assumes "condition_laws L"
  shows "view_of (snd (clearRestartConditions L ci)) = (view_of ci)\<lparr>rv_inProgress := False\<rparr>"
  using assms
  by (simp add: clearRestartConditions_def split_beta Let_def condition_true_laws view_set_conditions)

lemma view_set_last [simp]:
  "view_of (ci\<lparr>ci_status := (ci_status ci)\<lparr>cis_lastRestartedAt := l\<rparr>\<rparr>) = (view_of ci)\<lparr>rv_last := l\<rparr>"
  by (simp add: view_of_def)

lemma view_same: "rv_inProgress v = b \<Longrightarrow> v\<lparr>rv_inProgress := b\<rparr> = v"
  by (cases v) simp

text \<open>What a call leaves, in terms of the view: its step, or a failed deletion.\<close>

definition restart_effect :: "compute_instance \<Rightarrow> world \<Rightarrow> compute_instance outcome \<times> world \<Rightarrow> bool" where
  "restart_effect ci w out \<longleftrightarrow>
     (\<forall>ci' res err. fst out = Done ci' res err \<longrightarrow>
        (\<exists>b. restart_step (view_of ci) b (view_of ci') \<and> vmi_deletes w (snd out) = (if b then 1 else 0)) \<or>
        err \<noteq> None \<and> view_of ci' = view_of ci \<and> vmi_deletes w (snd out) = 1)"

lemma effect_stepI:
  "restart_step (view_of ci) b (view_of ci') \<Longrightarrow> vmi_deletes w w' = (if b then 1 else 0) \<Longrightarrow>
   restart_effect ci w (Done ci' res err, w')"
  unfolding restart_effect_def by (intro allI impI disjI1 exI [of _ b]) simp

lemma effect_waitI:
  "view_of ci' = view_of ci \<Longrightarrow> vmi_deletes w w' = 0 \<Longrightarrow> restart_effect ci w (Done ci' res err, w')"
  by (rule effect_stepI [where b = False]) (simp_all add: step_wait)

lemma effect_failI:
  "view_of ci' = view_of ci \<Longrightarrow> vmi_deletes w w' = 1 \<Longrightarrow> restart_effect ci w (Done ci' res (Some e), w')"
  by (simp add: restart_effect_def)

lemma vmi_deletes_trace:
  "trace w' = es @ trace w \<Longrightarrow> vmi_deletes w w' = length (filter is_vmi_delete es)"
  by (simp add: vmi_deletes_def)

lemma is_vmi_delete_simps [simp]:
  "\<not> is_vmi_delete EvNow" "\<not> is_vmi_delete (EvGet k x)"
  "is_vmi_delete (EvDelete (KVirtualMachineInstance v))"
  by (simp_all add: is_vmi_delete_def)

lemma vmi_deletes_simps [simp]:
  "vmi_deletes w (w\<lparr>trace := EvNow # trace w\<rparr>) = 0"
  "vmi_deletes w (w\<lparr>trace := EvGet k x # trace w\<rparr>) = 0"
  "vmi_deletes w (w\<lparr>trace := EvNow # EvGet k x # trace w\<rparr>) = 0"
  "vmi_deletes w (w\<lparr>trace := EvNow # EvDelete (KVirtualMachineInstance v) # EvGet k x # trace w\<rparr>) = 1"
  by (simp_all add: vmi_deletes_def)

lemma view_set_failed:
  assumes "condition_laws L"
  shows "view_of (set_conditions (setStatusCondition L n
      (restart_condition ci ComputeInstanceConditionRestartFailed r m) (ci_conditions ci)) ci) = view_of ci"
  using assms by (simp add: condition_true_laws view_set_conditions) (simp add: view_of_def)

lemma view_set_progress:
  assumes "condition_laws L"
  shows "view_of (set_conditions (setStatusCondition L n
      (restart_condition ci ComputeInstanceConditionRestartInProgress r m) (ci_conditions ci)) ci) =
      (view_of ci)\<lparr>rv_inProgress := True\<rparr>"
    and "view_of (set_conditions (snd (removeStatusCondition L ComputeInstanceConditionRestartFailed
      (setStatusCondition L n (restart_condition ci ComputeInstanceConditionRestartInProgress r m)
        (ci_conditions ci)))) ci) = (view_of ci)\<lparr>rv_inProgress := True\<rparr>"
  using assms by (simp_all add: condition_true_laws view_set_conditions)

lemma performRestart_effect:
  assumes laws: "condition_laws (lib E)"
    and start: "restart_fresh (view_of ci)" "\<not> rv_inProgress (view_of ci)"
  shows "restart_effect ci w (run_state (performRestart E t ci) w)"
proof (cases "cis_virtualMachineReference (ci_status ci)")
  case None
  then show ?thesis
    by (simp add: performRestart_def State_Monad.return_def effect_waitI view_set_failed [OF laws])
next
  case (Some ref)
  note step = step_start [OF start]
  show ?thesis
  proof (cases "get_vmi (kube E) (vmi_key ref) (trace w)")
    case (Inl e)
    with Some step [of False] show ?thesis
      by (simp add: performRestart_def kc_defs State_Monad.return_def effect_waitI
          effect_stepI [where b = False] view_set_progress [OF laws])
  next
    case (Inr vmi)
    let ?h = "EvGet KindVirtualMachineInstance (vmi_key ref) # trace w"
    show ?thesis
    proof (cases "\<exists>e. delete_vmi (kube E) vmi ?h = Some e \<and> \<not> is_not_found e")
      case True
      with Some Inr show ?thesis
        by (auto simp: performRestart_def kc_defs State_Monad.return_def
            view_set_failed [OF laws] intro!: effect_failI)
    next
      case False
      then have "\<not> (case delete_vmi (kube E) vmi ?h of None \<Rightarrow> False | Some e \<Rightarrow> \<not> is_not_found e)"
        by (auto split: option.split)
      with Some Inr step [of True] show ?thesis
        by (simp add: performRestart_def kc_defs State_Monad.return_def
            effect_stepI [where b = True] view_set_progress [OF laws])
    qed
  qed
qed

lemma checkRestartCompletion_effect:
  assumes laws: "condition_laws (lib E)"
    and progress: "rv_requested (view_of ci) = Some t" "rv_inProgress (view_of ci)"
    and run: "run_state (checkRestartCompletion E t ci) w = (r, w')"
  shows "restart_effect ci w (Done (fst r) result_none (snd r), w')"
proof -
  have complete: "restart_effect ci w (Done (snd (clearRestartConditions (lib E)
      (ci\<lparr>ci_status := (ci_status ci)\<lparr>cis_lastRestartedAt := Some t\<rparr>\<rparr>))) result_none None, w2)"
    if "vmi_deletes w w2 = 0" for w2
    by (rule effect_stepI [where b = False])
      (use step_complete [OF progress] that in \<open>simp_all add: clearRestartConditions_view [OF laws]\<close>)
  show ?thesis
  proof (cases "cis_virtualMachineReference (ci_status ci)")
    case None
    with run show ?thesis
      by (auto simp: checkRestartCompletion_def State_Monad.return_def intro: effect_waitI)
  next
    case (Some ref)
    then show ?thesis
    proof (cases "get_vmi (kube E) (vmi_key ref) (trace w)")
      case (Inl e)
      with run Some show ?thesis
        by (auto simp: checkRestartCompletion_def kc_defs State_Monad.return_def intro: effect_waitI)
    next
      case (Inr vmi)
      with run Some complete show ?thesis
        by (cases "t < vmi_creationTimestamp vmi")
          (auto simp: checkRestartCompletion_def kc_defs State_Monad.return_def intro: effect_waitI)
    qed
  qed
qed

lemma handleRestartRequest_effect:
  assumes laws: "condition_laws (lib E)"
  shows "restart_effect ci w (run_state (handleRestartRequest E ci) w)"
proof (cases "cisp_restartRequestedAt (ci_spec ci)")
  case None
  then have "restart_step (view_of ci) False ((view_of ci)\<lparr>rv_inProgress := False\<rparr>)"
    by (intro step_idle) (simp add: view_of_def)
  with None show ?thesis
    by (simp add: handleRestartRequest_def State_Monad.return_def effect_stepI [where b = False]
        clearRestartConditions_view [OF laws])
next
  case (Some t)
  have progress: "isStatusConditionTrue (lib E) (ci_conditions ci) ComputeInstanceConditionRestartInProgress =
      rv_inProgress (view_of ci)"
    by (simp add: condition_true_laws(1) [OF laws] view_of_def)
  consider "rv_inProgress (view_of ci)"
    | "\<not> rv_inProgress (view_of ci)" "\<exists>l. cis_lastRestartedAt (ci_status ci) = Some l \<and> \<not> l < t"
    | "\<not> rv_inProgress (view_of ci)" "\<forall>l. cis_lastRestartedAt (ci_status ci) = Some l \<longrightarrow> l < t"
    by blast
  then show ?thesis
  proof cases
    case 1
    then show ?thesis
      using checkRestartCompletion_effect [OF laws _ 1 surjective_pairing, of t w] Some
      by (simp add: handleRestartRequest_def progress State_Monad.return_def split_beta) (simp add: view_of_def)
  next
    case 2
    then show ?thesis
      using Some by (auto simp: handleRestartRequest_def progress State_Monad.return_def intro: effect_waitI)
  next
    case 3
    then have "restart_fresh (view_of ci)" using Some by (auto simp: restart_fresh_def view_of_def)
    moreover have "handleRestartRequest E ci = performRestart E t ci"
      using 3 Some by (auto simp: handleRestartRequest_def progress split: option.split)
    ultimately show ?thesis using performRestart_effect [OF laws _ 3(1)] by simp
  qed
qed


section \<open>Invariants of the protocol\<close>

text \<open>A request is spent once its restart has begun.\<close>

definition spent :: "restart_view \<Rightarrow> bool" where
  "spent v \<longleftrightarrow> rv_inProgress v \<or> \<not> restart_fresh v"

lemma restart_step_invariant:
  "restart_step v b v' \<Longrightarrow> rv_requested v' = rv_requested v \<and>
     (spent v \<longrightarrow> spent v' \<and> \<not> b) \<and> (b \<longrightarrow> spent v')"
  by (induction rule: restart_step.induct) (auto simp: spent_def restart_fresh_def)

text \<open>
  Rounds of reconciliation of one request: calls of \<open>handleRestartRequest\<close> in arbitrary
  worlds. A round starts from the restart status that the last one left (\<open>rr_other\<close>: the rest of
  the instance may have changed), or from any other one (\<open>rr_stale\<close>), because that status was not
  written or an older one was read. The first number counts the deletions of virtual machine
  instances in calls without an error, the second the starts from another status.
\<close>

inductive restart_run :: "env \<Rightarrow> compute_instance \<Rightarrow> nat \<Rightarrow> nat \<Rightarrow> compute_instance \<Rightarrow> bool" for E :: env where
  rr_start: "restart_run E ci 0 0 ci"
| rr_other: "restart_run E ci n s ci1 \<Longrightarrow> view_of ci2 = view_of ci1 \<Longrightarrow> restart_run E ci n s ci2"
| rr_stale: "restart_run E ci n s ci1 \<Longrightarrow>
    cisp_restartRequestedAt (ci_spec ci2) = cisp_restartRequestedAt (ci_spec ci1) \<Longrightarrow> restart_run E ci n (Suc s) ci2"
| rr_call: "restart_run E ci n s ci1 \<Longrightarrow>
    run_state (handleRestartRequest E ci1) w = (Done ci2 res err, w') \<Longrightarrow>
    restart_run E ci (n + (if err = None then vmi_deletes w w' else 0)) s ci2"

lemma restart_run_invariant:
  assumes "restart_run E ci n s ci'" "condition_laws (lib E)"
  shows "n \<le> s \<or> n = Suc s \<and> spent (view_of ci')"
  using assms
proof (induction rule: restart_run.induct)
  case (rr_call ci n s ci1 w ci2 res err w')
  let ?d = "if err = None then vmi_deletes w w' else 0"
  from handleRestartRequest_effect [OF rr_call.prems, of ci1 w] rr_call.hyps(2)
  consider b where "restart_step (view_of ci1) b (view_of ci2)" "vmi_deletes w w' = (if b then 1 else 0)"
    | "err \<noteq> None" "view_of ci2 = view_of ci1"
    by (auto simp: restart_effect_def)
  then show ?case
  proof cases
    case 1
    with restart_step_invariant [OF 1(1)] rr_call.IH [OF rr_call.prems] show ?thesis by (cases b) auto
  next
    case 2
    with rr_call.IH [OF rr_call.prems] show ?thesis by auto
  qed
qed auto

section \<open>Properties\<close>

text \<open>C10: a restart request deletes the virtual machine instance at most once, as long as the
  restart status is kept. Over any number of rounds of reconciliation of one request, in
  whatever states the cluster is in and whether the restart completes in between or not, the
  deletions in rounds that end without an error are at most one more than the rounds that start
  from a restart status other than the one the last round left (an update of the status that
  was lost, or a stale read). The bound is reached: when the status written after the deletion
  is lost, the next round deletes again. It rests on the documented behaviour of the condition
  helpers.\<close>

theorem restart_deletes_once:
  assumes "condition_laws (lib E)" "restart_run E ci n s ci'"
  shows "n \<le> Suc s"
  using restart_run_invariant [OF assms(2,1)] by auto

definition vmi_env :: "time \<Rightarrow> env" where
  "vmi_env t = ref_env\<lparr>kube := ref_kube\<lparr>get_vmi := (\<lambda>k h. Inr
     \<lparr>vmi_meta = sample_meta, vmi_creationTimestamp = t\<rparr>)\<rparr>\<rparr>"

definition restart_ci :: compute_instance where
  "restart_ci = sample_ci\<lparr>ci_spec := (ci_spec sample_ci)\<lparr>cisp_restartRequestedAt := Some 5\<rparr>,
     ci_status := (ci_status sample_ci)\<lparr>cis_virtualMachineReference :=
       Some \<lparr>vmr_namespace = ''n'', vmr_kubeVirtVirtualMachineName = ''v''\<rparr>\<rparr>\<rparr>"

lemma restart_ci_simps [simp]:
  "cisp_restartRequestedAt (ci_spec restart_ci) = Some 5"
  "cis_virtualMachineReference (ci_status restart_ci) =
     Some \<lparr>vmr_namespace = ''n'', vmr_kubeVirtVirtualMachineName = ''v''\<rparr>"
  "cis_lastRestartedAt (ci_status restart_ci) = None" "ci_conditions restart_ci = []"
  by (simp_all add: restart_ci_def sample_ci_def)

lemma vmi_env_simps [simp]:
  "lib (vmi_env t) = ref_lib"
  "get_vmi (kube (vmi_env t)) k h = Inr \<lparr>vmi_meta = sample_meta, vmi_creationTimestamp = t\<rparr>"
  "delete_vmi (kube (vmi_env t)) x h = None"
  by (simp_all add: vmi_env_def ref_kube_def)

text \<open>Two rounds of one request that both delete, as the status of the first is lost.\<close>

theorem restart_deletes_once_witness:
  "\<exists>ci'. restart_run (vmi_env 3) restart_ci 1 0 ci' \<and> (1 :: nat) \<le> Suc 0 \<and>
     restart_run (vmi_env 3) restart_ci 2 1 ci' \<and> (2 :: nat) \<le> Suc 1"
proof -
  let ?run = "run_state (handleRestartRequest (vmi_env 3) restart_ci) empty_world"
  have "\<exists>ci2 res. fst ?run = Done ci2 res None \<and> ci_spec ci2 = ci_spec restart_ci"
    by (simp add: handleRestartRequest_def performRestart_def kc_defs State_Monad.return_def ref_lib_def
        ref_status_is_def ref_find_def set_conditions_def)
  then obtain ci2 res where ci2: "?run = (Done ci2 res None, snd ?run)" "ci_spec ci2 = ci_spec restart_ci"
    by (metis surjective_pairing)
  have one: "vmi_deletes empty_world (snd ?run) = 1"
    by (simp add: handleRestartRequest_def performRestart_def kc_defs State_Monad.return_def ref_lib_def
        ref_status_is_def ref_find_def vmi_deletes_def)
  have kept: "restart_run (vmi_env 3) restart_ci 1 0 ci2"
    using rr_call [OF rr_start ci2(1)] one by simp
  have lost: "restart_run (vmi_env 3) restart_ci 2 1 ci2"
    using rr_call [OF rr_stale [OF kept] ci2(1)] one ci2(2) by (simp add: numeral_2_eq_2)
  from restart_deletes_once [OF _ kept] restart_deletes_once [OF _ lost] show ?thesis
    using kept lost by (auto simp: ref_condition_laws)
qed

text \<open>C16: a restart in progress, of an instance whose status refers to its virtual machine and whose
  virtual machine instance the API server serves, is completed exactly when the virtual machine
  instance was created after the request: then the request is recorded as the last restart, both
  restart conditions are removed from the status (not merely set to false) and every other
  condition is as it was; otherwise the instance stays as it is, however long ago the virtual
  machine instance was created. In either case it is only looked up, and no new deletion is
  requested. It rests on the documented behaviour of the condition helpers.\<close>

theorem restart_completion:
  assumes "condition_laws (lib E)" "cisp_restartRequestedAt (ci_spec ci) = Some t"
    and "condition_true ComputeInstanceConditionRestartInProgress (ci_conditions ci)"
    and "cis_virtualMachineReference (ci_status ci) = Some ref"
    and "get_vmi (kube E) (vmi_key ref) (trace w) = Inr vmi"
  shows "\<exists>ci'. run_state (handleRestartRequest E ci) w =
       (Done ci' result_none None, w\<lparr>trace := EvGet KindVirtualMachineInstance (vmi_key ref) # trace w\<rparr>) \<and>
     (if t < vmi_creationTimestamp vmi
      then cis_lastRestartedAt (ci_status ci') = Some t \<and>
        (\<forall>u. first_such (\<lambda>c. c_type c = u) (ci_conditions ci') =
           (if u \<in> {ComputeInstanceConditionRestartInProgress, ComputeInstanceConditionRestartFailed} then None
            else first_such (\<lambda>c. c_type c = u) (ci_conditions ci)))
      else ci' = ci)"
  using assms condition_simps(3) [OF assms(1)]
  by (auto simp: handleRestartRequest_def condition_true_laws checkRestartCompletion_def kc_defs
      State_Monad.return_def clearRestartConditions_def split_beta Let_def set_conditions_def)

definition restarting_ci :: compute_instance where
  "restarting_ci = set_conditions
     [restart_condition restart_ci ComputeInstanceConditionRestartInProgress ReasonRestartInProgress ''m''] restart_ci"

lemma restarting_ci_progress:
  "condition_true ComputeInstanceConditionRestartInProgress (ci_conditions restarting_ci)"
  by (simp add: restarting_ci_def condition_true_def set_conditions_def)

theorem restart_completion_witness:
  "fst (run_state (handleRestartRequest (vmi_env 3) restarting_ci) empty_world) =
     Done restarting_ci result_none None"
proof -
  have "\<exists>ci'. run_state (handleRestartRequest (vmi_env 3) restarting_ci) empty_world =
       (Done ci' result_none None, empty_world\<lparr>trace := EvGet KindVirtualMachineInstance
         (vmi_key \<lparr>vmr_namespace = ''n'', vmr_kubeVirtVirtualMachineName = ''v''\<rparr>) # trace empty_world\<rparr>) \<and>
     (if (5::int) < vmi_creationTimestamp \<lparr>vmi_meta = sample_meta, vmi_creationTimestamp = 3\<rparr>
      then cis_lastRestartedAt (ci_status ci') = Some 5 \<and>
        (\<forall>u. first_such (\<lambda>c. c_type c = u) (ci_conditions ci') =
           (if u \<in> {ComputeInstanceConditionRestartInProgress, ComputeInstanceConditionRestartFailed} then None
            else first_such (\<lambda>c. c_type c = u) (ci_conditions restarting_ci)))
      else ci' = restarting_ci)"
    by (rule restart_completion [OF _ _ restarting_ci_progress])
      (simp_all add: ref_condition_laws, simp_all add: restarting_ci_def set_conditions_def)
  then show ?thesis by auto
qed

end
