(* ===== verification/CI_Controller.thy ===== *)
theory CI_Controller
  imports CI_Provisioning CI_Restart
begin

text \<open>
  The reconciler of compute instances: \<open>internal/controller/computeinstance_controller.go\<close> and
  \<open>computeinstance_resources.go\<close>. \<open>handleUpdate\<close> is split where the code returns early:
  the tenant, then the virtual machine and the restart, then the configuration versions.
\<close>

section \<open>Conditions\<close>

definition ci_initializeStatusCondition ::
    "env \<Rightarrow> string \<Rightarrow> cond_status \<Rightarrow> string \<Rightarrow> compute_instance \<Rightarrow> compute_instance act" where
  "ci_initializeStatusCondition E t s reason ci =
     (if GetStatusCondition t ci \<noteq> None then State_Monad.return ci
      else ci_setStatusCondition E t s [] reason ci)"

definition ci_initializeStatusConditions :: "env \<Rightarrow> compute_instance \<Rightarrow> compute_instance act" where
  "ci_initializeStatusConditions E ci =
     do { c1 \<leftarrow> ci_initializeStatusCondition E ComputeInstanceConditionAccepted ConditionTrue ReasonInitialized ci;
          c2 \<leftarrow> ci_initializeStatusCondition E ComputeInstanceConditionDeleting ConditionFalse ReasonInitialized c1;
          c3 \<leftarrow> ci_initializeStatusCondition E ComputeInstanceConditionProgressing ConditionTrue ReasonInitialized c2;
          ci_initializeStatusCondition E ComputeInstanceConditionAvailable ConditionFalse ReasonInitialized c3 }"

section \<open>The tenant\<close>

definition ci_getTenant :: "env \<Rightarrow> compute_instance \<Rightarrow> (go_error + tenant option) act" where
  "ci_getTenant E ci =
     (if GetTenantReferenceName ci = [] \<or> GetTenantReferenceNamespace ci = []
      then State_Monad.return (Inr None)
      else get_optional (kc_get_tenant E
        \<lparr>key_namespace = GetTenantReferenceNamespace ci, key_name = GetTenantReferenceName ci\<rparr>))"

definition new_tenant :: "string \<Rightarrow> string \<Rightarrow> tenant" where
  "new_tenant tenantName ns =
     \<lparr>tn_meta = new_meta (getTenantObjectName tenantName) ns [''app.kubernetes.io/name'' \<mapsto> cloudkitAppName],
      tn_spec_name = tenantName, tn_status = \<lparr>ts_phase = TenantPhaseUnset, ts_namespace = []\<rparr>,
      tn_ownerReferences = []\<rparr>"

text \<open>The instance after the call, and the error.\<close>

definition ci_createOrUpdateTenant ::
    "env \<Rightarrow> compute_instance \<Rightarrow> (compute_instance \<times> go_error option) act" where
  "ci_createOrUpdateTenant E ci =
     (case ci_annotations ci cloudkitTenantAnnotation of
        None \<Rightarrow> State_Monad.return (ci, Some (Errorf ''tenant name not found''))
      | Some tenantName \<Rightarrow>
          if tenantName = [] then State_Monad.return (ci, Some (Errorf ''tenant name not found''))
          else do { r \<leftarrow> createOrUpdate KTenant (fetch_tenant (kube E)) (commit_tenant (kube E))
                 (new_tenant tenantName (om_namespace (ci_meta ci)))
                 (\<lambda>t u. case setOwnerReference (lib E) ci t of Inl e \<Rightarrow> Inl e | Inr t' \<Rightarrow> Inr (t', u)) ();
               State_Monad.return (case fst r of
                   Some e \<Rightarrow> (ci, Some e)
                 | None \<Rightarrow> (SetTenantReferenceNamespace (om_namespace (tn_meta (fst (snd r))))
                     (SetTenantReferenceName (om_name (tn_meta (fst (snd r)))) ci), None)) })"

section \<open>The virtual machine\<close>

definition ci_labelSelector :: "compute_instance \<Rightarrow> (string \<times> string) list" where
  "ci_labelSelector ci = [(cloudkitComputeInstanceNameLabel, ComputeInstance_GetName ci)]"

definition findKubeVirtVMs ::
    "env \<Rightarrow> compute_instance \<Rightarrow> string \<Rightarrow> (go_error + virtual_machine option) act" where
  "findKubeVirtVMs E ci ns =
     do { l \<leftarrow> kc_list_vms E ns (ci_labelSelector ci);
          State_Monad.return (case l of
            Inl e \<Rightarrow> Inl e
          | Inr items \<Rightarrow>
              if length items > 1 then Inl (Errorf (''found too many ('' @ itoa (int (length items)) @
                '') matching KubeVirt VMs for '' @ ComputeInstance_GetName ci))
              else (case items of [] \<Rightarrow> Inr None | vm # _ \<Rightarrow> Inr (Some vm))) }"

definition kvVMGetCondition :: "virtual_machine \<Rightarrow> string \<Rightarrow> (string \<times> string) option" where
  "kvVMGetCondition vm t = first_such (\<lambda>c. fst c = t) (vm_conditions vm)"

definition kvVMHasConditionWithStatus :: "virtual_machine \<Rightarrow> string \<Rightarrow> string \<Rightarrow> bool" where
  "kvVMHasConditionWithStatus vm t s =
     (case kvVMGetCondition vm t of None \<Rightarrow> False | Some c \<Rightarrow> snd c = s)"

definition handleKubeVirtVM :: "env \<Rightarrow> virtual_machine \<Rightarrow> compute_instance \<Rightarrow> compute_instance act" where
  "handleKubeVirtVM E vm ci =
     do { c1 \<leftarrow> ci_setStatusCondition E ComputeInstanceConditionAccepted ConditionTrue [] ReasonAsExpected
            (SetVirtualMachineReferenceNamespace (om_namespace (vm_meta vm))
              (SetVirtualMachineReferenceKubeVirtVirtualMachineName (om_name (vm_meta vm)) ci));
          if kvVMHasConditionWithStatus vm ''Ready'' ''True''
          then ci_setStatusCondition E ComputeInstanceConditionAvailable ConditionTrue [] ReasonAsExpected c1
          else State_Monad.return c1 }"

section \<open>Configuration versions\<close>

definition config_version :: "string \<Rightarrow> string" where
  "config_version specJSON = hex_encode (bytes_of_word (fnv64a specJSON))"

definition handleDesiredConfigVersion :: "go_lib \<Rightarrow> compute_instance \<Rightarrow> go_error + compute_instance" where
  "handleDesiredConfigVersion L ci =
     (case marshal_ci_spec L (ci_spec ci) of
        Inl e \<Rightarrow> Inl (Wrap ''failed to marshal spec to JSON'' (ExtError e))
      | Inr s \<Rightarrow> Inr (ci\<lparr>ci_status := (ci_status ci)\<lparr>cis_desiredConfigVersion := config_version s\<rparr>\<rparr>))"

definition handleReconciledConfigVersion :: "compute_instance \<Rightarrow> compute_instance" where
  "handleReconciledConfigVersion ci =
     ci\<lparr>ci_status := (ci_status ci)\<lparr>cis_reconciledConfigVersion :=
       (case ci_annotations ci cloudkitAAPReconciledConfigVersionAnnotation of
          None \<Rightarrow> [] | Some v \<Rightarrow> v)\<rparr>\<rparr>"

section \<open>handleUpdate\<close>

definition ci_update_versions ::
    "env \<Rightarrow> compute_instance_reconciler \<Rightarrow> compute_instance \<Rightarrow> compute_instance outcome act" where
  "ci_update_versions E r ci =
     (case handleDesiredConfigVersion (lib E) ci of
        Inl e \<Rightarrow> State_Monad.return (Done ci result_none (Some e))
      | Inr ci1 \<Rightarrow>
          let ci2 = handleReconciledConfigVersion ci1
          in if cis_desiredConfigVersion (ci_status ci2) = cis_reconciledConfigVersion (ci_status ci2)
             then do { ci3 \<leftarrow> ci_setStatusCondition E ComputeInstanceConditionProgressing ConditionFalse []
                         ReasonAsExpected (set_phase ComputeInstancePhaseRunning ci2);
                       case findLatestJobByType (ci_jobs ci3) JobTypeProvision of
                         Some job \<Rightarrow>
                           if cir_provider r \<noteq> None \<and> \<not> isTerminal (js_state job)
                           then handleProvisioning E r ci3
                           else State_Monad.return (Done ci3 result_none None)
                       | None \<Rightarrow> State_Monad.return (Done ci3 result_none None) }
             else do { ci3 \<leftarrow> ci_setStatusCondition E ComputeInstanceConditionProgressing ConditionTrue
                         ''Applying configuration'' ReasonAsExpected (set_phase ComputeInstancePhaseStarting ci2);
                       handleProvisioning E r ci3 })"

definition ci_update_vm ::
    "env \<Rightarrow> compute_instance_reconciler \<Rightarrow> string \<Rightarrow> compute_instance \<Rightarrow> compute_instance outcome act" where
  "ci_update_vm E r ns ci =
     do { ci1 \<leftarrow> ci_setStatusCondition E ComputeInstanceConditionAccepted ConditionTrue [] ReasonAsExpected ci;
          kv \<leftarrow> findKubeVirtVMs E ci1 ns;
          case kv of
            Inl e \<Rightarrow> State_Monad.return (Done ci1 result_none (Some e))
          | Inr vm \<Rightarrow>
              do { ci2 \<leftarrow> (case vm of None \<Rightarrow> State_Monad.return ci1 | Some v \<Rightarrow> handleKubeVirtVM E v ci1);
                   restart \<leftarrow> handleRestartRequest E ci2;
                   case restart of
                     Panicked s \<Rightarrow> State_Monad.return (Panicked s)
                   | Done ci3 res err \<Rightarrow>
                       if err \<noteq> None \<or> requeueAfter res > 0 then State_Monad.return (Done ci3 res err)
                       else ci_update_versions E r ci3 } }"

definition ci_update_tenant ::
    "env \<Rightarrow> compute_instance_reconciler \<Rightarrow> compute_instance \<Rightarrow> compute_instance outcome act" where
  "ci_update_tenant E r ci =
     do { t \<leftarrow> ci_getTenant E ci;
          case t of
            Inl e \<Rightarrow> State_Monad.return (Done ci result_none (Some e))
          | Inr None \<Rightarrow>
              do { p \<leftarrow> ci_createOrUpdateTenant E ci;
                   State_Monad.return (Done (fst p) result_none (snd p)) }
          | Inr (Some tenant) \<Rightarrow>
              if ts_phase (tn_status tenant) \<noteq> TenantPhaseReady
              then State_Monad.return (Done ci result_none None)
              else ci_update_vm E r (ts_namespace (tn_status tenant)) ci }"

definition ci_handleUpdate ::
    "env \<Rightarrow> compute_instance_reconciler \<Rightarrow> compute_instance \<Rightarrow> compute_instance outcome act" where
  "ci_handleUpdate E r ci =
     do { ci0 \<leftarrow> ci_initializeStatusConditions E ci;
          let ci1 = set_phase ComputeInstancePhaseStarting ci0;
              added = addFinalizer (lib E) (ci_finalizers ci1) cloudkitComputeInstanceFinalizer;
              ci2 = set_finalizers (snd added) ci1
          in do { u \<leftarrow> (if fst added then kc_update_ci E ci2 else State_Monad.return (Inr ci2));
                  case u of
                    Inl e \<Rightarrow> State_Monad.return (Done ci2 result_none (Some e))
                  | Inr ci3 \<Rightarrow> ci_update_tenant E r ci3 } }"

section \<open>handleDelete\<close>

definition ci_handleDelete ::
    "env \<Rightarrow> compute_instance_reconciler \<Rightarrow> compute_instance \<Rightarrow> compute_instance outcome act" where
  "ci_handleDelete E r ci =
     (let ci1 = set_phase ComputeInstancePhaseDeleting ci
      in if \<not> containsFinalizer (lib E) (ci_finalizers ci1) cloudkitComputeInstanceFinalizer
         then State_Monad.return (Done ci1 result_none None)
         else do { out \<leftarrow> handleDeprovisioning E r ci1;
           case out of
             Panicked s \<Rightarrow> State_Monad.return (Panicked s)
           | Done ci2 res err \<Rightarrow>
               if err \<noteq> None then State_Monad.return (Done ci2 res err)
               else if requeueAfter res > 0 then State_Monad.return (Done ci2 res None)
               else let removed = removeFinalizer (lib E) (ci_finalizers ci2) cloudkitComputeInstanceFinalizer;
                        ci3 = set_finalizers (snd removed) ci2
                    in if fst removed
                       then do { u \<leftarrow> kc_update_ci E ci3;
                                 State_Monad.return (case u of
                                     Inl e \<Rightarrow> Done ci3 result_none (Some e)
                                   | Inr ci4 \<Rightarrow> Done ci4 result_none None) }
                       else State_Monad.return (Done ci3 result_none None) })"

section \<open>Reconcile\<close>

definition updateStatusWithRetry ::
    "env \<Rightarrow> object_key \<Rightarrow> compute_instance_status \<Rightarrow> go_error option act" where
  "updateStatusWithRetry E key newStatus =
     retryOnConflict (lib E)
       (do { g \<leftarrow> kc_get_ci E key;
             case g of
               Inl e \<Rightarrow> State_Monad.return (Some e)
             | Inr latest \<Rightarrow>
                 do { u \<leftarrow> kc_status_ci E (latest\<lparr>ci_status := newStatus\<rparr>);
                      State_Monad.return (case u of Inl e \<Rightarrow> Some e | Inr _ \<Rightarrow> None) } })"

definition ci_unmanaged :: "compute_instance \<Rightarrow> bool" where
  "ci_unmanaged ci \<longleftrightarrow>
     ci_annotations ci cloudkitComputeInstanceManagementStateAnnotation = Some ManagementStateUnmanaged"

definition ci_Reconcile ::
    "env \<Rightarrow> compute_instance_reconciler \<Rightarrow> object_key \<Rightarrow> unit outcome act" where
  "ci_Reconcile E r key =
     do { g \<leftarrow> kc_get_ci E key;
          case g of
            Inl e \<Rightarrow> State_Monad.return (Done () result_none (ignore_not_found e))
          | Inr ci \<Rightarrow>
              if ci_unmanaged ci then State_Monad.return (Done () result_none None)
              else do { out \<leftarrow> (if deleting (ci_meta ci) then ci_handleDelete E r ci
                                else ci_handleUpdate E r ci);
                case out of
                  Panicked s \<Rightarrow> State_Monad.return (Panicked s)
                | Done ci' res err \<Rightarrow>
                    if ci_status ci' \<noteq> ci_status ci
                    then do { e \<leftarrow> updateStatusWithRetry E key (ci_status ci');
                              State_Monad.return (Done () res (case e of Some e' \<Rightarrow> Some e' | None \<Rightarrow> err)) }
                    else State_Monad.return (Done () res err) } }"

section \<open>Which events concern the controller\<close>

definition ci_NamespacePredicate :: "string \<Rightarrow> object_meta \<Rightarrow> bool" where
  "ci_NamespacePredicate ns m \<longleftrightarrow> om_namespace m = ns"

definition mapObjectToComputeInstance ::
    "env \<Rightarrow> compute_instance_reconciler \<Rightarrow> object_meta \<Rightarrow> object_key list act" where
  "mapObjectToComputeInstance E r obj =
     (case om_labels obj cloudkitComputeInstanceNameLabel of
        None \<Rightarrow> State_Monad.return []
      | Some name \<Rightarrow>
          let key = \<lparr>key_namespace = cir_namespace r, key_name = name\<rparr>
          in do { g \<leftarrow> kc_get_ci E key;
                  State_Monad.return (case g of Inl e \<Rightarrow> [] | Inr _ \<Rightarrow> [key]) })"


section \<open>Deletion and the finalizer\<close>

lemma outside_EvNow [simp]: "outside_event EvNow"
  by (simp add: outside_event_def)

lemma outside_not_update: "outside_event e \<Longrightarrow> e \<noteq> EvUpdate x"
  by (auto simp: outside_event_def)

lemma containsFinalizer_delete:
  assumes "finalizer_laws (lib E)"
  shows "ci_handleDelete E r ci =
    (let ci1 = set_phase ComputeInstancePhaseDeleting ci
     in if cloudkitComputeInstanceFinalizer \<notin> set (ci_finalizers ci)
        then State_Monad.return (Done ci1 result_none None)
        else do { out \<leftarrow> handleDeprovisioning E r ci1;
           case out of
             Panicked s \<Rightarrow> State_Monad.return (Panicked s)
           | Done ci2 res err \<Rightarrow>
               if err \<noteq> None then State_Monad.return (Done ci2 res err)
               else if requeueAfter res > 0 then State_Monad.return (Done ci2 res None)
               else let removed = removeFinalizer (lib E) (ci_finalizers ci2) cloudkitComputeInstanceFinalizer;
                        ci3 = set_finalizers (snd removed) ci2
                    in if fst removed
                       then do { u \<leftarrow> kc_update_ci E ci3;
                                 State_Monad.return (case u of
                                     Inl e \<Rightarrow> Done ci3 result_none (Some e)
                                   | Inr ci4 \<Rightarrow> Done ci4 result_none None) }
                       else State_Monad.return (Done ci3 result_none None) })"
  using assms by (simp add: ci_handleDelete_def Let_def finalizer_simps set_phase_def)

context provisioning_provider
begin

lemma footprint_handleDeprovisioning:
  assumes "cir_provider r = Some P"
  shows "footprint outside_event (handleDeprovisioning E r ci)"
  unfolding handleDeprovisioning_cases [OF assms] deprovision_trigger_def deprovision_poll_def
  by (auto intro!: fp_intros footprints split: deprovision_action.split)

lemma footprint_handleProvisioning:
  assumes "cir_provider r = Some P"
  shows "footprint outside_event (handleProvisioning E r ci)"
  unfolding handleProvisioning_cases provision_trigger_def provision_poll_def assms
  by (auto intro!: fp_intros footprints)

text \<open>What deletion does once deprovisioning has answered.\<close>

lemma handleDelete_update_guard:
  assumes prov: "cir_provider r = Some P" "0 < cir_statusPollInterval r" "1 \<le> cir_maxJobHistory r"
    and laws: "finalizer_laws (lib E)"
    and run: "run_state (ci_handleDelete E r ci) w = (out, w')"
    and new: "trace w' = es @ trace w" "EvUpdate x \<in> set es"
  shows "cloudkitComputeInstanceFinalizer \<in> set (ci_finalizers ci) \<and>
     deprovision_over P (set_phase ComputeInstancePhaseDeleting ci) w \<and>
     (\<exists>y. x = KComputeInstance y \<and> ci_spec y = ci_spec ci \<and>
        key_of (ci_meta y) = key_of (ci_meta ci) \<and>
        set (ci_finalizers y) = set (ci_finalizers ci) - {cloudkitComputeInstanceFinalizer})"
proof -
  let ?ci1 = "set_phase ComputeInstancePhaseDeleting ci"
  let ?run = "run_state (handleDeprovisioning E r ?ci1) w"
  obtain es' where es': "trace (snd ?run) = es' @ trace w" "\<forall>e \<in> set es'. outside_event e"
    by (rule footprintD [OF footprint_handleDeprovisioning [OF prov(1)] surjective_pairing])
  have quiet: "False" if "trace w' = trace (snd ?run) \<or> w' = w"
    using that new es' by (auto dest: outside_not_update)
  have fin: "cloudkitComputeInstanceFinalizer \<in> set (ci_finalizers ci)"
    using run quiet by (auto simp: containsFinalizer_delete [OF laws] State_Monad.return_def Let_def split: if_splits)
  obtain ci2 res err where out: "fst ?run = Done ci2 res err"
    using run fin quiet
    by (cases "fst ?run") (auto simp: containsFinalizer_delete [OF laws] State_Monad.return_def Let_def split_beta)
  have frame: "err = None" "ci_meta ci2 = ci_meta ci" "ci_spec ci2 = ci_spec ci"
    using handleDeprovisioning_tracked [OF prov(3), of ?ci1 E w] out
    by (auto simp: tracked_def same_but_jobs_def set_phase_def)
  have over: "\<not> 0 < requeueAfter res"
    using run fin out quiet frame
    by (auto simp: containsFinalizer_delete [OF laws] State_Monad.return_def Let_def split_beta)
  let ?ci3 = "set_finalizers (snd (removeFinalizer (lib E) (ci_finalizers ci2) cloudkitComputeInstanceFinalizer)) ci2"
  have "trace w' = EvUpdate (KComputeInstance ?ci3) # trace (snd ?run)"
    using run fin out over frame
    by (auto simp: containsFinalizer_delete [OF laws] State_Monad.return_def Let_def split_beta kc_defs
        finalizer_simps [OF laws])
  with new es' have "x = KComputeInstance ?ci3"
    by (auto dest: outside_not_update)
  moreover have "deprovision_over P ?ci1 w"
    using handleDeprovisioning_requeue [OF prov(1,2) out] over by blast
  moreover have "set (ci_finalizers ?ci3) = set (ci_finalizers ci) - {cloudkitComputeInstanceFinalizer}"
      "ci_spec ?ci3 = ci_spec ci" "key_of (ci_meta ?ci3) = key_of (ci_meta ci)"
    using frame by (simp_all add: set_finalizers_def key_of_def finalizer_simps [OF laws])
  ultimately show ?thesis using fin by blast
qed

end

section \<open>Status updates\<close>

text \<open>Every status that is written is the new one, on top of an object that was just read.\<close>

definition writes_status :: "env \<Rightarrow> object_key \<Rightarrow> compute_instance_status \<Rightarrow> event \<Rightarrow> bool" where
  "writes_status E key st e \<longleftrightarrow>
     e = EvGet KindComputeInstance key \<or>
     (\<exists>latest h. get_compute_instance (kube E) key h = Inr latest \<and>
        e = EvStatusUpdate (KComputeInstance (latest\<lparr>ci_status := st\<rparr>)))"

definition status_attempt :: "env \<Rightarrow> object_key \<Rightarrow> compute_instance_status \<Rightarrow> go_error option act" where
  "status_attempt E key st =
     do { g \<leftarrow> kc_get_ci E key;
          case g of
            Inl e \<Rightarrow> State_Monad.return (Some e)
          | Inr latest \<Rightarrow>
              do { u \<leftarrow> kc_status_ci E (latest\<lparr>ci_status := st\<rparr>);
                   State_Monad.return (case u of Inl e \<Rightarrow> Some e | Inr _ \<Rightarrow> None) } }"

lemma updateStatusWithRetry_attempts:
  "updateStatusWithRetry E key st = retryOnConflict (lib E) (status_attempt E key st)"
  by (simp add: updateStatusWithRetry_def status_attempt_def)

lemma status_attempt_trace:
  "trace (snd (run_state (status_attempt E key st) w)) =
     (case get_compute_instance (kube E) key (trace w) of Inl e \<Rightarrow> []
      | Inr latest \<Rightarrow> [EvStatusUpdate (KComputeInstance (latest\<lparr>ci_status := st\<rparr>))]) @
     EvGet KindComputeInstance key # trace w"
  by (simp add: status_attempt_def kc_defs State_Monad.return_def split: sum.splits)

lemma snd_attempts_Suc:
  "snd (run_state (attempts (Suc n) f) w) =
     (if \<exists>e. fst (run_state f w) = Some e \<and> is_conflict e
      then snd (run_state (attempts n f) (snd (run_state f w))) else snd (run_state f w))"
  by (auto simp: split_beta State_Monad.return_def split: option.splits)

text \<open>Whatever the number of attempts, the object was read right before each write.\<close>

definition fresh_write ::
    "env \<Rightarrow> object_key \<Rightarrow> compute_instance_status \<Rightarrow> event list \<Rightarrow> event list \<Rightarrow> k8s_object \<Rightarrow> bool" where
  "fresh_write E key st h es x \<longleftrightarrow>
     (\<exists>later mid latest. es = later @ EvStatusUpdate x # EvGet KindComputeInstance key # mid \<and>
        get_compute_instance (kube E) key (mid @ h) = Inr latest \<and>
        x = KComputeInstance (latest\<lparr>ci_status := st\<rparr>))"

lemma fresh_write_once:
  assumes "get_compute_instance (kube E) key h = Inr latest"
  shows "fresh_write E key st h [EvStatusUpdate (KComputeInstance (latest\<lparr>ci_status := st\<rparr>)),
     EvGet KindComputeInstance key] (KComputeInstance (latest\<lparr>ci_status := st\<rparr>))"
  unfolding fresh_write_def
  by (intro exI [of _ "[]"] exI [of _ latest]) (simp add: assms)

lemma fresh_write_more:
  "fresh_write E key st h es x \<Longrightarrow> fresh_write E key st h (fs @ es) x"
  "fresh_write E key st (es @ h) fs x \<Longrightarrow> fresh_write E key st h (fs @ es) x"
  unfolding fresh_write_def by (metis append.assoc append_Cons)+

lemma footprint_status_attempt: "footprint (writes_status E key st) (status_attempt E key st)"
  unfolding footprint_def
proof
  fix w
  show "\<exists>es. trace (snd (run_state (status_attempt E key st) w)) = es @ trace w \<and>
      (\<forall>e \<in> set es. writes_status E key st e)"
    by (cases "get_compute_instance (kube E) key (trace w)")
      (auto simp: status_attempt_trace writes_status_def)
qed

lemma footprint_updateStatusWithRetry:
  assumes "retry_law (lib E)"
  shows "footprint (writes_status E key st) (updateStatusWithRetry E key st)"
  unfolding updateStatusWithRetry_attempts by (rule footprint_retry [OF assms footprint_status_attempt])

lemma attempts_status_writes:
  assumes "trace (snd (run_state (attempts n (status_attempt E key st)) w)) = es @ trace w"
    and "EvStatusUpdate x \<in> set es"
  shows "fresh_write E key st (trace w) es x"
  using assms
proof (induction n arbitrary: w es)
  case 0
  then show ?case
    by (auto simp: status_attempt_trace fresh_write_once split: sum.splits)
next
  case (Suc n)
  let ?f = "status_attempt E key st"
  let ?w = "snd (run_state ?f w)"
  obtain fs where fs: "trace ?w = fs @ trace w"
    and fresh: "EvStatusUpdate x \<in> set fs \<Longrightarrow> fresh_write E key st (trace w) fs x"
    by (cases "get_compute_instance (kube E) key (trace w)")
      (auto simp: status_attempt_trace fresh_write_once)
  obtain gs where gs: "trace (snd (run_state (attempts n ?f) ?w)) = gs @ trace ?w"
    by (rule footprintD [OF footprint_attempts [OF footprint_status_attempt] surjective_pairing])
  show ?case
  proof (cases "es = fs")
    case True
    with Suc.prems(2) fresh show ?thesis by simp
  next
    case False
    with Suc.prems(1) fs gs have es: "es = gs @ fs"
      by (simp add: snd_attempts_Suc del: attempts.simps split: if_splits)
    consider "EvStatusUpdate x \<in> set gs" | "EvStatusUpdate x \<in> set fs" using Suc.prems(2) es by auto
    then show ?thesis
    proof cases
      case 1
      from Suc.IH [OF gs 1] show ?thesis unfolding es fs by (rule fresh_write_more(2))
    next
      case 2
      from fresh [OF 2] show ?thesis unfolding es by (rule fresh_write_more(1))
    qed
  qed
qed

lemma updateStatusWithRetry_fresh:
  assumes "retry_law (lib E)"
    and "trace (snd (run_state (updateStatusWithRetry E key st) w)) = es @ trace w" "EvStatusUpdate x \<in> set es"
  shows "fresh_write E key st (trace w) es x"
  using assms by (auto simp: retry_law_def updateStatusWithRetry_attempts intro: attempts_status_writes)

section \<open>The tenant comes first\<close>

lemma footprint_getTenant [fp_intros]:
  "(\<And>k. P (EvGet KindTenant k)) \<Longrightarrow> footprint P (ci_getTenant E ci)"
  unfolding ci_getTenant_def by (intro fp_intros)

lemma footprint_createOrUpdateTenant [fp_intros]:
  "(\<And>t. P (EvFetch (KTenant t))) \<Longrightarrow> (\<And>t. P (EvCommit (KTenant t))) \<Longrightarrow>
   footprint P (ci_createOrUpdateTenant E ci)"
  unfolding ci_createOrUpdateTenant_def by (intro fp_intros)

lemma ci_getTenant_Some:
  assumes "run_state (ci_getTenant E ci) w = (Inr (Some t), w')"
  shows "get_tenant (kube E)
     \<lparr>key_namespace = GetTenantReferenceNamespace ci, key_name = GetTenantReferenceName ci\<rparr> (trace w) = Inr t"
  using assms
  by (auto simp: ci_getTenant_def get_optional_def kc_defs State_Monad.return_def
      split: if_splits sum.splits option.splits)

lemma ci_update_tenant_guard:
  assumes run: "run_state (ci_update_tenant E r ci) w = (out, w')"
    and new: "trace w' = es @ trace w" "e \<in> set es"
    and e: "(\<exists>rq. e = EvHttp rq) \<or> (\<exists>ns sel. e = EvList KindVirtualMachine ns sel) \<or> (\<exists>x. e = EvDelete x)"
  shows "\<exists>t. get_tenant (kube E)
       \<lparr>key_namespace = GetTenantReferenceNamespace ci, key_name = GetTenantReferenceName ci\<rparr> (trace w) = Inr t \<and>
     ts_phase (tn_status t) = TenantPhaseReady"
proof -
  let ?Q = "\<lambda>e. \<not> ((\<exists>rq. e = EvHttp rq) \<or> (\<exists>ns sel. e = EvList KindVirtualMachine ns sel) \<or> (\<exists>x. e = EvDelete x))"
  let ?g = "run_state (ci_getTenant E ci) w"
  obtain es1 where es1: "trace (snd ?g) = es1 @ trace w" "\<forall>e \<in> set es1. ?Q e"
    by (rule footprintD [OF footprint_getTenant surjective_pairing, of ?Q]) auto
  have quiet: "False" if "w' = snd ?g" using that new e es1 by auto
  show ?thesis
  proof (cases "fst ?g")
    case (Inl err)
    with run quiet show ?thesis by (simp add: ci_update_tenant_def State_Monad.return_def split_beta)
  next
    case (Inr found)
    show ?thesis
    proof (cases found)
      case None
      let ?c = "run_state (ci_createOrUpdateTenant E ci) (snd ?g)"
      obtain es2 where es2: "trace (snd ?c) = es2 @ trace (snd ?g)" "\<forall>e \<in> set es2. ?Q e"
        by (rule footprintD [OF footprint_createOrUpdateTenant surjective_pairing, of ?Q]) auto
      have "w' = snd ?c"
        using run Inr None by (simp add: ci_update_tenant_def State_Monad.return_def split_beta)
      with new(1) es1(1) es2(1) have "es = es2 @ es1" by simp
      with new(2) es1(2) es2(2) have "?Q e" by auto
      with e show ?thesis by blast
    next
      case (Some t)
      then have "ts_phase (tn_status t) = TenantPhaseReady"
        using run Inr quiet by (auto simp: ci_update_tenant_def State_Monad.return_def split_beta split: if_splits)
      moreover have "?g = (Inr (Some t), snd ?g)" using Inr Some by (simp add: prod_eq_iff)
      ultimately show ?thesis using ci_getTenant_Some by blast
    qed
  qed
qed


section \<open>The events of an update\<close>

lemma footprint_initialize [fp_intros]:
  "P EvNow \<Longrightarrow> footprint P (ci_initializeStatusCondition E t s reason ci)"
  "P EvNow \<Longrightarrow> footprint P (ci_initializeStatusConditions E ci)"
  unfolding ci_initializeStatusConditions_def ci_initializeStatusCondition_def by (intro fp_intros; simp)+

lemma footprint_findVMs [fp_intros]:
  "(\<And>sel. P (EvList KindVirtualMachine (Some ns) sel)) \<Longrightarrow> footprint P (findKubeVirtVMs E ci ns)"
  unfolding findKubeVirtVMs_def by (intro fp_intros)

lemma footprint_handleVM [fp_intros]: "P EvNow \<Longrightarrow> footprint P (handleKubeVirtVM E vm ci)"
  unfolding handleKubeVirtVM_def by (intro fp_intros)

lemma footprint_restart [fp_intros]: "footprint handler_event (handleRestartRequest E ci)"
  unfolding handleRestartRequest_def performRestart_def checkRestartCompletion_def
  by (intro fp_intros; simp)

lemma outside_handler: "outside_event e \<Longrightarrow> handler_event e"
  by (auto simp: outside_event_def)

lemma initialize_one_keeps [simp]:
  "cis_tenantReference (ci_status (fst (run_state (ci_initializeStatusCondition E t s reason ci) w))) =
     cis_tenantReference (ci_status ci)"
  "ci_meta (fst (run_state (ci_initializeStatusCondition E t s reason ci) w)) = ci_meta ci"
  by (simp_all add: ci_initializeStatusCondition_def State_Monad.return_def set_conditions_def)

lemma initialize_keeps:
  "cis_tenantReference (ci_status (fst (run_state (ci_initializeStatusConditions E ci) w))) =
     cis_tenantReference (ci_status ci)"
  "ci_meta (fst (run_state (ci_initializeStatusConditions E ci) w)) = ci_meta ci"
  by (simp_all only: ci_initializeStatusConditions_def fst_run_bind initialize_one_keeps)

context provisioning_provider
begin

lemma footprint_handleUpdate:
  assumes "cir_provider r = Some P"
  shows "footprint handler_event (ci_handleUpdate E r ci)"
  unfolding ci_handleUpdate_def ci_update_tenant_def ci_update_vm_def ci_update_versions_def Let_def
  by (intro fp_intros footprint_mono [OF footprint_handleProvisioning [OF assms] outside_handler]; simp)

lemma footprint_update_tenant:
  assumes "cir_provider r = Some P"
  shows "footprint handler_event (ci_update_tenant E r ci)"
  unfolding ci_update_tenant_def ci_update_vm_def ci_update_versions_def Let_def
  by (intro fp_intros footprint_mono [OF footprint_handleProvisioning [OF assms] outside_handler]; simp)

lemma handleUpdate_tenant_guard:
  assumes "cir_provider r = Some P"
    and "run_state (ci_handleUpdate E r ci) w = (out, w')"
    and "trace w' = es @ trace w" "e \<in> set es"
    and "(\<exists>rq. e = EvHttp rq) \<or> (\<exists>ns sel. e = EvList KindVirtualMachine ns sel) \<or> (\<exists>x. e = EvDelete x)"
  shows "\<exists>c t h. get_tenant (kube E)
       \<lparr>key_namespace = GetTenantReferenceNamespace c, key_name = GetTenantReferenceName c\<rparr> h = Inr t \<and>
     ts_phase (tn_status t) = TenantPhaseReady \<and>
     (cis_tenantReference (ci_status c) = cis_tenantReference (ci_status ci) \<or>
      (\<exists>y h'. update_compute_instance (kube E) y h' = Inr c))"
proof -
  let ?i = "run_state (ci_initializeStatusConditions E ci) w"
  let ?added = "addFinalizer (lib E) (ci_finalizers (set_phase ComputeInstancePhaseStarting (fst ?i)))
      cloudkitComputeInstanceFinalizer"
  let ?ci2 = "set_finalizers (snd ?added) (set_phase ComputeInstancePhaseStarting (fst ?i))"
  let ?upd = "if fst ?added then kc_update_ci E ?ci2 else State_Monad.return (Inr ?ci2)"
  let ?u = "run_state ?upd (snd ?i)"
  let ?Q = "\<lambda>e. \<not> ((\<exists>rq. e = EvHttp rq) \<or> (\<exists>ns sel. e = EvList KindVirtualMachine ns sel) \<or> (\<exists>x. e = EvDelete x))"
  have "footprint ?Q (ci_initializeStatusConditions E ci)" by (intro fp_intros; simp)
  then obtain es1 where es1: "trace (snd ?i) = es1 @ trace w" "\<forall>e \<in> set es1. ?Q e"
    by (rule footprintD [OF _ surjective_pairing])
  have "footprint ?Q ?upd" by (intro fp_intros; simp)
  then obtain es2 where es2: "trace (snd ?u) = es2 @ trace (snd ?i)" "\<forall>e \<in> set es2. ?Q e"
    by (rule footprintD [OF _ surjective_pairing])
  have run: "run_state (case fst ?u of
        Inl e \<Rightarrow> State_Monad.return (Done ?ci2 result_none (Some e))
      | Inr ci3 \<Rightarrow> ci_update_tenant E r ci3) (snd ?u) = (out, w')"
    using assms(2) by (simp add: ci_handleUpdate_def split_beta Let_def)
  have early: "e \<notin> set (es2 @ es1)" using es1 es2 assms(5) by auto
  show ?thesis
  proof (cases "fst ?u")
    case (Inl err)
    then show ?thesis
      using run early assms(3,4) es1(1) es2(1) by (simp add: State_Monad.return_def)
  next
    case (Inr c)
    with run have run': "run_state (ci_update_tenant E r c) (snd ?u) = (out, w')" by simp
    moreover obtain es3 where "trace w' = es3 @ trace (snd ?u)"
      using footprintD [OF footprint_update_tenant [OF assms(1)] run'] by blast
    moreover from this have "e \<in> set es3" using assms(3,4) es1(1) es2(1) early by auto
    ultimately have "\<exists>t. get_tenant (kube E)
       \<lparr>key_namespace = GetTenantReferenceNamespace c, key_name = GetTenantReferenceName c\<rparr> (trace (snd ?u)) = Inr t \<and>
       ts_phase (tn_status t) = TenantPhaseReady"
      using assms(5) by (rule ci_update_tenant_guard)
    moreover have "cis_tenantReference (ci_status c) = cis_tenantReference (ci_status ci) \<or>
        (\<exists>y h'. update_compute_instance (kube E) y h' = Inr c)"
      using Inr initialize_keeps(1) [of E ci w]
      by (auto simp: kc_defs State_Monad.return_def set_finalizers_def set_phase_def split: if_splits)
    ultimately show ?thesis by blast
  qed
qed

lemma footprint_handleDelete:
  assumes "cir_provider r = Some P"
  shows "footprint handler_event (ci_handleDelete E r ci)"
  unfolding ci_handleDelete_def Let_def
  by (intro fp_intros footprint_mono [OF footprint_handleDeprovisioning [OF assms] outside_handler]; simp)

end

definition ci_handle ::
    "env \<Rightarrow> compute_instance_reconciler \<Rightarrow> compute_instance \<Rightarrow> compute_instance outcome act" where
  "ci_handle E r ci = (if deleting (ci_meta ci) then ci_handleDelete E r ci else ci_handleUpdate E r ci)"

text \<open>A status that is written is the handler's, differs from the one that was read, and is written
  on an object that was read after the handler and right before the write.\<close>

lemma reconcile_status_writes:
  assumes P: "provisioning_provider P" "cir_provider r = Some P" and retry: "retry_law (lib E)"
    and run: "run_state (ci_Reconcile E r key) w = (out, w')"
    and new: "trace w' = es @ trace w" "EvStatusUpdate x \<in> set es"
  shows "\<exists>ci ci' res err w1 later mid latest.
     get_compute_instance (kube E) key (trace w) = Inr ci \<and> \<not> ci_unmanaged ci \<and>
     run_state (ci_handle E r ci) (w\<lparr>trace := EvGet KindComputeInstance key # trace w\<rparr>) = (Done ci' res err, w1) \<and>
     ci_status ci' \<noteq> ci_status ci \<and>
     trace w' = later @ EvStatusUpdate x # EvGet KindComputeInstance key # mid @ trace w1 \<and>
     get_compute_instance (kube E) key (mid @ trace w1) = Inr latest \<and>
     x = KComputeInstance (latest\<lparr>ci_status := ci_status ci'\<rparr>)"
proof -
  let ?w1 = "w\<lparr>trace := EvGet KindComputeInstance key # trace w\<rparr>"
  have quiet: "False" if "trace w' = es' @ trace w" "\<forall>e \<in> set es'. handler_event e" for es'
    using that new by auto
  obtain ci where ci: "get_compute_instance (kube E) key (trace w) = Inr ci"
    using run quiet [of "[EvGet KindComputeInstance key]"]
    by (cases "get_compute_instance (kube E) key (trace w)")
      (auto simp: ci_Reconcile_def kc_defs State_Monad.return_def)
  have managed: "\<not> ci_unmanaged ci"
    using run ci quiet [of "[EvGet KindComputeInstance key]"]
    by (auto simp: ci_Reconcile_def kc_defs State_Monad.return_def)
  let ?h = "run_state (ci_handle E r ci) ?w1"
  have "footprint handler_event (ci_handle E r ci)"
    using provisioning_provider.footprint_handleUpdate [OF P] provisioning_provider.footprint_handleDelete [OF P]
    by (simp add: ci_handle_def)
  then obtain es1 where es1: "trace (snd ?h) = es1 @ trace ?w1" "\<forall>e \<in> set es1. handler_event e"
    by (rule footprintD [OF _ surjective_pairing])
  have rest: "run_state (case fst ?h of
        Panicked s \<Rightarrow> State_Monad.return (Panicked s)
      | Done ci' res err \<Rightarrow>
          if ci_status ci' \<noteq> ci_status ci
          then do { e \<leftarrow> updateStatusWithRetry E key (ci_status ci');
                    State_Monad.return (Done () res (case e of Some e' \<Rightarrow> Some e' | None \<Rightarrow> err)) }
          else State_Monad.return (Done () res err)) (snd ?h) = (out, w')"
    using run ci managed by (simp add: ci_Reconcile_def kc_defs split_beta ci_handle_def)
  have loud: "w' \<noteq> snd ?h" using quiet [of "es1 @ [EvGet KindComputeInstance key]"] es1 by auto
  then obtain ci' res err where out: "fst ?h = Done ci' res err" "ci_status ci' \<noteq> ci_status ci"
    using rest by (auto simp: State_Monad.return_def split: outcome.splits if_splits)
  with rest have w': "w' = snd (run_state (updateStatusWithRetry E key (ci_status ci')) (snd ?h))"
    by (auto simp: State_Monad.return_def split_beta)
  obtain es2 where es2: "trace w' = es2 @ trace (snd ?h)"
    unfolding w' by (rule footprintD [OF footprint_updateStatusWithRetry [OF retry] surjective_pairing])
  with new es1 have "EvStatusUpdate x \<in> set es2" by fastforce
  with es2 have "fresh_write E key (ci_status ci') (trace (snd ?h)) es2 x"
    unfolding w' by (rule updateStatusWithRetry_fresh [OF retry])
  then obtain later mid latest where
      "es2 = later @ EvStatusUpdate x # EvGet KindComputeInstance key # mid"
      "get_compute_instance (kube E) key (mid @ trace (snd ?h)) = Inr latest"
      "x = KComputeInstance (latest\<lparr>ci_status := ci_status ci'\<rparr>)"
    unfolding fresh_write_def by blast
  moreover have "?h = (Done ci' res err, snd ?h)" using out(1) by (simp add: prod_eq_iff)
  moreover have "ci_status ci' \<noteq> ci_status ci" by (fact out(2))
  ultimately show ?thesis using ci managed es2
    by (intro exI [of _ ci] exI [of _ ci'] exI [of _ res] exI [of _ err] exI [of _ "snd ?h"]
        exI [of _ later] exI [of _ mid] exI [of _ latest]) simp
qed

section \<open>Configuration versions\<close>

lemma length_config_version [simp]: "length (config_version s) = 16"
  by (simp add: config_version_def)

lemma config_version_inject: "config_version s = config_version t \<longleftrightarrow> fnv64a s = fnv64a t"
proof
  assume "config_version s = config_version t"
  then have "bytes_of_word (fnv64a s) = bytes_of_word (fnv64a t)"
    unfolding config_version_def by (rule hex_encode_inject [rotated -1]) (auto intro: bytes_of_word_bound)
  then show "fnv64a s = fnv64a t" by (simp add: bytes_of_word_inject)
qed (simp add: config_version_def)


section \<open>Properties\<close>

text \<open>C1: with any provider the operator can be configured with, and any polling interval that is not
  negative (with a negative one this is false, see C33), the finalizer that keeps a compute
  instance in the cluster is removed only when its deprovisioning is over. If the deletion
  handler updates the instance at all, then the finalizer was there; the instance is managed
  by hand, or the provider skipped the deprovisioning, or the deprovision job it follows has
  succeeded, or has ended without success and was not to block the deletion; and the update
  removes that finalizer and no other. It rests on the documented behaviour of the finalizer
  helpers of controller-runtime.\<close>

theorem ci_finalizer_removed_when_over:
  assumes "createProvider E0 getenv ty s = Ok (P, i)" "0 \<le> i"
    and "r = newComputeInstanceReconciler ns (Some P) i n" "finalizer_laws (lib E)"
    and "run_state (ci_handleDelete E r ci) w = (out, w')"
    and "trace w' = es @ trace w" "EvUpdate x \<in> set es"
  shows "cloudkitComputeInstanceFinalizer \<in> set (ci_finalizers ci) \<and>
     deprovision_over P (set_phase ComputeInstancePhaseDeleting ci) w \<and>
     (\<exists>y. x = KComputeInstance y \<and> ci_spec y = ci_spec ci \<and>
        set (ci_finalizers y) = set (ci_finalizers ci) - {cloudkitComputeInstanceFinalizer})"
proof -
  have "cir_provider r = Some P" "0 < cir_statusPollInterval r" "1 \<le> cir_maxJobHistory r"
    using assms(2) by (auto simp: assms(3) newComputeInstanceReconciler_def second_def DefaultMaxJobHistory_def)
  from provisioning_provider.handleDelete_update_guard
      [OF createProvider_contract [OF assms(1)] this assms(4-7)] show ?thesis by blast
qed

definition deleting_ci :: compute_instance where
  "deleting_ci = set_finalizers [cloudkitComputeInstanceFinalizer] sample_ci"

lemma deleting_ci_simps [simp]:
  "ci_finalizers deleting_ci = [cloudkitComputeInstanceFinalizer]" "ci_jobs deleting_ci = []"
  "\<not> managed_manually deleting_ci"
  using sample_ci_not_manual
  by (simp_all add: deleting_ci_def set_finalizers_def managed_manually_def sample_ci_def)

lemma deleting_run:
  "\<exists>out y. run_state (ci_handleDelete ref_env (sample_reconciler (Some the_eda)) deleting_ci) empty_world =
     (out, empty_world\<lparr>trace := [EvUpdate (KComputeInstance y)]\<rparr>)"
proof -
  let ?ci = "set_phase ComputeInstancePhaseDeleting deleting_ci"
  have ci: "ci_finalizers ?ci = [cloudkitComputeInstanceFinalizer]" "ci_jobs ?ci = []" "\<not> managed_manually ?ci"
    using deleting_ci_simps by (simp_all add: set_phase_def managed_manually_def del: deleting_ci_simps(3))
  have "run_state (handleDeprovisioning ref_env (sample_reconciler (Some the_eda)) ?ci) empty_world =
      (Done ?ci result_none None, empty_world)"
    using ci by (simp add: handleDeprovisioning_cases needs_trigger_def findLatestJobByType_def
        deprovision_trigger_def the_eda_def edaProvider_def eda_triggerDeprovision_def ref_lib_def
        aap_finalizer_name ci_finalizers_distinct [symmetric] State_Monad.return_def)
  with ci show ?thesis
    by (simp add: ci_handleDelete_def Let_def kc_defs State_Monad.return_def ref_lib_def ref_kube_def) blast
qed

theorem ci_finalizer_removed_when_over_witness:
  "deprovision_over the_eda (set_phase ComputeInstancePhaseDeleting deleting_ci) empty_world"
proof -
  obtain out y where run: "run_state (ci_handleDelete ref_env (sample_reconciler (Some the_eda)) deleting_ci)
      empty_world = (out, empty_world\<lparr>trace := [EvUpdate (KComputeInstance y)]\<rparr>)"
    using deleting_run by blast
  have "sample_reconciler (Some the_eda) = newComputeInstanceReconciler [] (Some the_eda) DefaultStatusPollInterval 2"
    by (simp add: sample_reconciler_def newComputeInstanceReconciler_def DefaultStatusPollInterval_def)
  from ci_finalizer_removed_when_over [OF create_the_eda _ this _ run, of "[EvUpdate (KComputeInstance y)]"]
  show ?thesis by (simp add: ref_finalizer_laws DefaultStatusPollInterval_def second_def)
qed

text \<open>C14: the status of a compute instance is written only when the handler has changed it: the
  instance that was read is not unmanaged, and what is written is the status its handler
  left, which differs from the one that was read. Each write puts that status on the object
  that was read after the handler had finished and right before the write, so nothing else of
  the object is lost, however many conflicts the retry helper goes through. Of that helper it
  is assumed that it makes some number of attempts, each but the first after a conflict.\<close>

theorem ci_status_written_when_changed:
  assumes "createProvider E0 getenv ty s = Ok (P, i)" "cir_provider r = Some P" "retry_law (lib E)"
    and "run_state (ci_Reconcile E r key) w = (out, w')"
    and "trace w' = es @ trace w" "EvStatusUpdate x \<in> set es"
  shows "\<exists>ci ci' res err w1 later mid latest.
     get_compute_instance (kube E) key (trace w) = Inr ci \<and> \<not> ci_unmanaged ci \<and>
     run_state (ci_handle E r ci) (w\<lparr>trace := EvGet KindComputeInstance key # trace w\<rparr>) = (Done ci' res err, w1) \<and>
     ci_status ci' \<noteq> ci_status ci \<and>
     trace w' = later @ EvStatusUpdate x # EvGet KindComputeInstance key # mid @ trace w1 \<and>
     get_compute_instance (kube E) key (mid @ trace w1) = Inr latest \<and>
     x = KComputeInstance (latest\<lparr>ci_status := ci_status ci'\<rparr>)"
  by (rule reconcile_status_writes [OF createProvider_contract [OF assms(1)] assms(2-6)])

text \<open>A cluster in which the sample instance is being deleted, with no finalizer left.\<close>

definition gone_ci :: compute_instance where
  "gone_ci = sample_ci\<lparr>ci_meta := (ci_meta sample_ci)\<lparr>om_deletionTimestamp := Some 7\<rparr>\<rparr>"

definition gone_env :: env where
  "gone_env = ref_env\<lparr>kube := ref_kube\<lparr>get_compute_instance := (\<lambda>k h. Inr gone_ci)\<rparr>\<rparr>"

lemma gone_ci_simps [simp]:
  "deleting (ci_meta gone_ci)" "ci_finalizers gone_ci = []" "\<not> ci_unmanaged gone_ci"
  "set_phase ComputeInstancePhaseDeleting gone_ci \<noteq> gone_ci"
  "ci_finalizers (set_phase ComputeInstancePhaseDeleting gone_ci) = []"
  "ci_status (set_phase ComputeInstancePhaseDeleting gone_ci) \<noteq> ci_status gone_ci"
  by (simp_all add: gone_ci_def sample_ci_def sample_meta_def new_meta_def deleting_def is_zero_time_def
      zero_time_def ci_unmanaged_def set_phase_def)

lemma gone_env_simps [simp]:
  "lib gone_env = ref_lib" "get_compute_instance (kube gone_env) k h = Inr gone_ci"
  "update_compute_instance_status (kube gone_env) x h = Inr x"
  by (simp_all add: gone_env_def ref_kube_def)

definition gone_key :: object_key where
  "gone_key = \<lparr>key_namespace = ''ns'', key_name = ''vm''\<rparr>"

definition gone_events :: "event list" where
  "gone_events = [EvStatusUpdate (KComputeInstance (set_phase ComputeInstancePhaseDeleting gone_ci)),
     EvGet KindComputeInstance gone_key, EvGet KindComputeInstance gone_key]"

lemma attempts_done:
  "run_state f w = (None, w') \<Longrightarrow> run_state (attempts n f) w = (None, w')"
  by (cases n) (simp_all add: State_Monad.return_def)

lemma ref_containsFinalizer [simp]: "containsFinalizer ref_lib fs f \<longleftrightarrow> f \<in> set fs"
  using ref_finalizer_laws by (rule finalizer_simps)

lemma gone_handled:
  "ci_handleDelete gone_env r gone_ci =
     State_Monad.return (Done (set_phase ComputeInstancePhaseDeleting gone_ci) result_none None)"
  by (simp add: ci_handleDelete_def)

lemma gone_status: "gone_ci\<lparr>ci_status := ci_status (set_phase p gone_ci)\<rparr> = set_phase p gone_ci"
  by (simp add: set_phase_def)

lemma gone_retry:
  "run_state (updateStatusWithRetry gone_env gone_key (ci_status (set_phase p gone_ci)))
       (empty_world\<lparr>trace := h\<rparr>) =
     (None, empty_world\<lparr>trace := [EvStatusUpdate (KComputeInstance (set_phase p gone_ci)),
        EvGet KindComputeInstance gone_key] @ h\<rparr>)"
proof -
  obtain n where n: "retryOnConflict ref_lib = attempts n" using ref_retry_law by (auto simp: retry_law_def)
  show ?thesis
    unfolding updateStatusWithRetry_def gone_env_simps n
    by (rule attempts_done) (simp add: kc_defs State_Monad.return_def gone_status empty_world_def)
qed

lemma gone_run:
  "run_state (ci_Reconcile gone_env r gone_key) empty_world =
     (Done () result_none None, empty_world\<lparr>trace := gone_events\<rparr>)"
proof -
  have "empty_world\<lparr>trace := h\<rparr> = \<lparr>trace = h, templates = \<lambda>x. None, inflight = []\<rparr>" for h
    by (simp add: empty_world_def)
  note gone_retry [of _ h for h, unfolded this]
  then show ?thesis
    by (simp add: ci_Reconcile_def kc_defs State_Monad.return_def gone_handled [unfolded State_Monad.return_def]
      gone_events_def empty_world_def)
qed

theorem ci_status_written_when_changed_witness:
  "\<exists>ci' res err w1 later mid. run_state (ci_handle gone_env (sample_reconciler (Some the_eda)) gone_ci)
       (empty_world\<lparr>trace := [EvGet KindComputeInstance gone_key]\<rparr>) = (Done ci' res err, w1) \<and>
     ci_status ci' \<noteq> ci_status gone_ci \<and>
     gone_events = later @ EvStatusUpdate (KComputeInstance (gone_ci\<lparr>ci_status := ci_status ci'\<rparr>)) #
       EvGet KindComputeInstance gone_key # mid @ trace w1"
  using ci_status_written_when_changed [OF create_the_eda _ _ gone_run,
      of "sample_reconciler (Some the_eda)" gone_events
      "KComputeInstance (set_phase ComputeInstancePhaseDeleting gone_ci)"]
  by (simp add: gone_events_def ref_retry_law) metis

text \<open>An instance that is marked unmanaged is left alone: the reconciler reads it, and does
  nothing else, whatever state and deletion timestamp it has.\<close>

theorem ci_unmanaged_ignored:
  assumes "get_compute_instance (kube E) key (trace w) = Inr ci" "ci_unmanaged ci"
  shows "run_state (ci_Reconcile E r key) w =
     (Done () result_none None, w\<lparr>trace := EvGet KindComputeInstance key # trace w\<rparr>)"
  using assms by (simp add: ci_Reconcile_def kc_defs State_Monad.return_def)

definition unmanaged_ci :: compute_instance where
  "unmanaged_ci = gone_ci\<lparr>ci_meta := (ci_meta gone_ci)\<lparr>om_annotations :=
     [cloudkitComputeInstanceManagementStateAnnotation \<mapsto> ManagementStateUnmanaged]\<rparr>\<rparr>"

theorem ci_unmanaged_ignored_witness:
  "run_state (ci_Reconcile (ref_env\<lparr>kube := ref_kube\<lparr>get_compute_instance := (\<lambda>k h. Inr unmanaged_ci)\<rparr>\<rparr>)
       r gone_key) empty_world =
     (Done () result_none None, empty_world\<lparr>trace := [EvGet KindComputeInstance gone_key]\<rparr>)"
  using ci_unmanaged_ignored [of "ref_env\<lparr>kube := ref_kube\<lparr>get_compute_instance := (\<lambda>k h. Inr unmanaged_ci)\<rparr>\<rparr>"
      gone_key empty_world unmanaged_ci r]
  by (simp add: unmanaged_ci_def ci_unmanaged_def)

text \<open>C13: the tenant comes first. While an instance is not being deleted, its reconciler talks to
  the automation over HTTP, looks for virtual machines and deletes one only after it has
  read the tenant that the instance refers to and found it ready. The reference is the one of
  the instance that was handled, or of the API server's answer to the update that added the
  finalizer.\<close>

theorem ci_tenant_ready_first:
  assumes "createProvider E0 getenv ty s = Ok (P, i)" "cir_provider r = Some P"
    and "run_state (ci_handleUpdate E r ci) w = (out, w')"
    and "trace w' = es @ trace w" "e \<in> set es"
    and "(\<exists>rq. e = EvHttp rq) \<or> (\<exists>ns sel. e = EvList KindVirtualMachine ns sel) \<or> (\<exists>x. e = EvDelete x)"
  shows "\<exists>c t h. get_tenant (kube E)
       \<lparr>key_namespace = GetTenantReferenceNamespace c, key_name = GetTenantReferenceName c\<rparr> h = Inr t \<and>
     ts_phase (tn_status t) = TenantPhaseReady \<and>
     (cis_tenantReference (ci_status c) = cis_tenantReference (ci_status ci) \<or>
      (\<exists>y h'. update_compute_instance (kube E) y h' = Inr c))"
  by (rule provisioning_provider.handleUpdate_tenant_guard
      [OF createProvider_contract [OF assms(1)] assms(2-6)])

text \<open>An instance with its finalizer and a tenant reference, and a cluster with that tenant ready.\<close>

definition tenant_ci :: compute_instance where
  "tenant_ci = SetTenantReferenceNamespace ''ns'' (SetTenantReferenceName ''tenant'' deleting_ci)"

definition ready_tenant :: tenant where
  "ready_tenant = (new_tenant ''tenant'' ''ns'')\<lparr>tn_status := \<lparr>ts_phase = TenantPhaseReady, ts_namespace = ''sub''\<rparr>\<rparr>"

definition tenant_env :: env where
  "tenant_env = ref_env\<lparr>kube := ref_kube\<lparr>get_tenant := (\<lambda>k h. Inr ready_tenant),
     list_virtual_machines := (\<lambda>n s h. Inl ref_not_found)\<rparr>\<rparr>"

lemma tenant_env_simps [simp]:
  "lib tenant_env = ref_lib" "get_tenant (kube tenant_env) k h = Inr ready_tenant"
  "list_virtual_machines (kube tenant_env) n s h = Inl ref_not_found"
  "ts_phase (tn_status ready_tenant) = TenantPhaseReady"
  by (simp_all add: tenant_env_def ready_tenant_def)

lemma tenant_ci_simps [simp]:
  "ci_finalizers tenant_ci = [cloudkitComputeInstanceFinalizer]"
  "cis_tenantReference (ci_status tenant_ci) \<noteq> None"
  "GetTenantReferenceName tenant_ci = ''tenant''" "GetTenantReferenceNamespace tenant_ci = ''ns''"
  using deleting_ci_simps(1)
  by (simp_all add: tenant_ci_def SetTenantReferenceNamespace_def SetTenantReferenceName_def
      GetTenantReferenceName_def GetTenantReferenceNamespace_def ensureTenantReference_def deleting_ci_def
      set_finalizers_def sample_ci_def del: deleting_ci_simps)

lemma tenant_vm_list:
  "trace (snd (run_state (ci_update_vm tenant_env r ns ci) w)) =
     EvList KindVirtualMachine (Some ns) (ci_labelSelector ci) # EvNow # trace w"
  by (simp add: ci_update_vm_def findKubeVirtVMs_def kc_defs State_Monad.return_def ci_labelSelector_def
      ComputeInstance_GetName_def set_conditions_def)

lemma tenant_run:
  "\<exists>es sel. trace (snd (run_state (ci_handleUpdate tenant_env r tenant_ci) w)) =
     EvList KindVirtualMachine (Some (ts_namespace (tn_status ready_tenant))) sel # es @ trace w"
proof -
  let ?i = "run_state (ci_initializeStatusConditions tenant_env tenant_ci) w"
  obtain es where es: "trace (snd ?i) = es @ trace w"
    by (rule footprintD [OF footprint_initialize(2) surjective_pairing, of "\<lambda>_. True"]) simp
  let ?c = "set_finalizers (snd (addFinalizer ref_lib (ci_finalizers tenant_ci) cloudkitComputeInstanceFinalizer))
      (set_phase ComputeInstancePhaseStarting (fst ?i))"
  have ref: "GetTenantReferenceName ?c = GetTenantReferenceName tenant_ci"
      "GetTenantReferenceNamespace ?c = GetTenantReferenceNamespace tenant_ci"
    using initialize_keeps(1) [of tenant_env tenant_ci w]
    by (simp_all add: GetTenantReferenceName_def GetTenantReferenceNamespace_def set_finalizers_def set_phase_def)
  have "run_state (ci_handleUpdate tenant_env r tenant_ci) w = run_state (ci_update_tenant tenant_env r ?c) (snd ?i)"
    using initialize_keeps(2) [of tenant_env tenant_ci w]
    by (simp add: ci_handleUpdate_def split_beta Let_def finalizer_simps [OF ref_finalizer_laws]
        State_Monad.return_def set_phase_def)
  then show ?thesis
    using es ref
    by (simp add: ci_update_tenant_def ci_getTenant_def get_optional_def kc_defs State_Monad.return_def
        tenant_vm_list)
qed

theorem ci_tenant_ready_first_witness:
  "\<exists>c h. get_tenant (kube tenant_env)
     \<lparr>key_namespace = GetTenantReferenceNamespace c, key_name = GetTenantReferenceName c\<rparr> h = Inr ready_tenant"
proof -
  let ?run = "run_state (ci_handleUpdate tenant_env (sample_reconciler (Some the_eda)) tenant_ci) empty_world"
  obtain es sel where "trace (snd ?run) =
      (EvList KindVirtualMachine (Some (ts_namespace (tn_status ready_tenant))) sel # es) @ trace empty_world"
    using tenant_run by fastforce
  from ci_tenant_ready_first [OF create_the_eda _ surjective_pairing this]
  show ?thesis by auto
qed

text \<open>C33: a polling interval that is not positive breaks deletion. \<open>handleDelete\<close> takes
  \<open>RequeueAfter > 0\<close> for the sign that deprovisioning is not over, so with such an interval
  it removes the finalizer although the provider has answered that the caller must wait for
  the running provision job. The constructor replaces only the interval 0.\<close>

theorem ci_waiting_needs_positive_interval:
  assumes "cir_provider r = Some P" "cir_statusPollInterval r \<le> 0" "finalizer_laws (lib E)"
    and "cloudkitComputeInstanceFinalizer \<in> set (ci_finalizers ci)" "\<not> managed_manually ci"
    and "needs_trigger JobTypeDeprovision (ci_jobs ci)"
    and "run_state (triggerDeprovision P (ResComputeInstance (set_phase ComputeInstancePhaseDeleting ci))) w =
      (Ok res, w1)"
    and "dr_action res = DeprovisionWaiting"
  shows "\<exists>y. trace (snd (run_state (ci_handleDelete E r ci) w)) = EvUpdate (KComputeInstance y) # trace w1 \<and>
     cloudkitComputeInstanceFinalizer \<notin> set (ci_finalizers y)"
proof -
  let ?ci1 = "set_phase ComputeInstancePhaseDeleting ci"
  let ?ci2 = "record_provision_status (dr_provisionJobStatus res) ?ci1"
  let ?ci3 = "set_finalizers (snd (removeFinalizer (lib E) (ci_finalizers ?ci2) cloudkitComputeInstanceFinalizer)) ?ci2"
  have meta: "ci_meta ?ci1 = ci_meta ci" "ci_meta ?ci2 = ci_meta ci"
    using same_but_jobs_simps(5) [of ?ci1 "dr_provisionJobStatus res"]
    by (simp_all add: same_but_jobs_def set_phase_def)
  have "run_state (handleDeprovisioning E r ?ci1) w = (Done ?ci2 (requeue_after (cir_statusPollInterval r)) None, w1)"
    using assms(5-8) by (simp add: handleDeprovisioning_cases [OF assms(1)] deprovision_trigger_def
        State_Monad.return_def managed_manually_def meta)
  then have "trace (snd (run_state (ci_handleDelete E r ci) w)) = EvUpdate (KComputeInstance ?ci3) # trace w1"
    using assms(2,4) meta
    by (simp add: containsFinalizer_delete [OF assms(3)] State_Monad.return_def Let_def split_beta kc_defs
        finalizer_simps [OF assms(3)] requeue_after_def)
  moreover have "cloudkitComputeInstanceFinalizer \<notin> set (ci_finalizers ?ci3)"
    by (simp add: set_finalizers_def finalizer_simps [OF assms(3)])
  ultimately show ?thesis by blast
qed

text \<open>The AAP provider, while the job cannot be canceled, under a poll interval of \<open>-1s\<close>.\<close>

definition waiting_ci :: compute_instance where
  "waiting_ci = set_finalizers [cloudkitComputeInstanceFinalizer] busy_ci"

definition waiting_provider :: provider where
  "waiting_provider = aapProvider (lib refusing_env) (direct_provider refusing_env sample_conn ''p'' ''d'')"

definition impatient :: compute_instance_reconciler where
  "impatient = newComputeInstanceReconciler [] (Some waiting_provider) (- second) 2"

theorem ci_waiting_needs_positive_interval_witness:
  "\<exists>y h. trace (snd (run_state (ci_handleDelete ref_env impatient waiting_ci) empty_world)) =
       EvUpdate (KComputeInstance y) # h \<and>
     cloudkitComputeInstanceFinalizer \<notin> set (ci_finalizers y)"
proof -
  let ?ci = "set_phase ComputeInstancePhaseDeleting waiting_ci"
  have jobs: "ci_jobs waiting_ci = [sample_job ''12'' JobTypeProvision 5 JobStateRunning]"
    by (simp add: waiting_ci_def set_finalizers_def busy_ci_def aap_ci_def ci_updates)
  then have "findLatestJobByType (ci_jobs ?ci) JobTypeProvision =
      Some (sample_job ''12'' JobTypeProvision 5 JobStateRunning)"
    by (simp add: findLatestJobByType_def sample_job_def)
  then obtain w2 res where "run_state (triggerDeprovision waiting_provider (ResComputeInstance ?ci)) empty_world =
      (Ok res, w2)" "dr_action res = DeprovisionWaiting"
    using refusing_env_waits [of ?ci "lib refusing_env"]
    by (auto simp: waiting_provider_def aapProvider_def)
  moreover have "needs_trigger JobTypeDeprovision (ci_jobs waiting_ci)"
    unfolding jobs by (simp add: needs_trigger_def findLatestJobByType_def sample_job_def)
  moreover have "\<not> managed_manually waiting_ci"
    by (simp add: waiting_ci_def set_finalizers_def busy_ci_def aap_ci_def managed_manually_def
        ci_updates sample_ci_def sample_meta_def new_meta_def)
  ultimately show ?thesis
    using ci_waiting_needs_positive_interval [of impatient waiting_provider ref_env waiting_ci empty_world res w2]
    by (auto simp: impatient_def newComputeInstanceReconciler_def ref_finalizer_laws waiting_ci_def
        set_finalizers_def second_def)
qed

text \<open>C38: two specs get the same configuration version exactly when their JSON texts have the same
  64-bit FNV-1a hash, and a version is always sixteen characters long, so the version of a
  spec is never the empty one of an instance without the annotation.\<close>

theorem config_version_faithful:
  "(config_version s = config_version t \<longleftrightarrow> fnv64a s = fnv64a t) \<and>
   length (config_version s) = 16 \<and>
   config_version s \<noteq> cis_reconciledConfigVersion (ci_status (handleReconciledConfigVersion
     (ci\<lparr>ci_meta := (ci_meta ci)\<lparr>om_annotations := (om_annotations (ci_meta ci))
        (cloudkitAAPReconciledConfigVersionAnnotation := None)\<rparr>\<rparr>)))"
  using length_config_version [of s]
  by (auto simp: config_version_inject handleReconciledConfigVersion_def simp del: length_config_version)

section \<open>A configuration that is applied\<close>

text \<open>What the stages of an update keep of an instance, up to its configuration versions.\<close>

definition same_course :: "compute_instance \<Rightarrow> compute_instance \<Rightarrow> bool" where
  "same_course ci ci' \<longleftrightarrow> ci_meta ci' = ci_meta ci \<and> ci_spec ci' = ci_spec ci \<and> ci_jobs ci' = ci_jobs ci \<and>
     cis_tenantReference (ci_status ci') = cis_tenantReference (ci_status ci) \<and> view_of ci' = view_of ci"

lemma same_course_trans: "same_course a b \<Longrightarrow> same_course b c \<Longrightarrow> same_course a c"
  by (simp add: same_course_def)

lemma same_course_refl: "same_course ci ci"
  by (simp add: same_course_def)

lemma same_course_fields:
  "same_course ci (set_phase p ci)"
  "same_course ci (SetVirtualMachineReferenceNamespace a ci)"
  "same_course ci (SetVirtualMachineReferenceKubeVirtVirtualMachineName b ci)"
  by (simp_all add: same_course_def set_phase_def view_of_def SetVirtualMachineReferenceNamespace_def
      SetVirtualMachineReferenceKubeVirtVirtualMachineName_def ensureVirtualMachineReference_def
      split: option.splits)

lemma same_course_condition:
  assumes "condition_laws (lib E)" "t \<noteq> ComputeInstanceConditionRestartInProgress"
  shows "same_course ci (fst (run_state (ci_setStatusCondition E t s m r ci) w))"
  using assms condition_true_laws(2) [OF assms(1)]
  by (simp add: same_course_def view_set_conditions) (simp add: view_of_def set_conditions_def mk_condition_def)

lemma same_course_initialize:
  assumes "condition_laws (lib E)"
  shows "same_course ci (fst (run_state (ci_initializeStatusConditions E ci) w))"
proof -
  have one: "same_course c (fst (run_state (ci_initializeStatusCondition E t s reason c) w))"
    if "t \<noteq> ComputeInstanceConditionRestartInProgress" for c t s reason w
    using same_course_condition [OF assms that]
    by (simp add: ci_initializeStatusCondition_def State_Monad.return_def same_course_refl)
  show ?thesis
    unfolding ci_initializeStatusConditions_def fst_run_bind
    by (intro same_course_trans [OF one same_course_trans [OF one same_course_trans [OF one one]]])
      (simp_all add: ci_condition_types)
qed

lemma same_course_vm:
  assumes "condition_laws (lib E)"
  shows "same_course ci (fst (run_state (handleKubeVirtVM E vm ci) w))"
proof -
  have set: "same_course c (fst (run_state (ci_setStatusCondition E t s m r c) w))"
    if "t \<in> {ComputeInstanceConditionAccepted, ComputeInstanceConditionAvailable}" for t s m r c w
    using that by (intro same_course_condition [OF assms]) (auto simp: ci_condition_types)
  let ?c = "SetVirtualMachineReferenceNamespace (om_namespace (vm_meta vm))
      (SetVirtualMachineReferenceKubeVirtVirtualMachineName (om_name (vm_meta vm)) ci)"
  let ?c1 = "run_state (ci_setStatusCondition E ComputeInstanceConditionAccepted ConditionTrue []
      ReasonAsExpected ?c) w"
  have "same_course ci (fst ?c1)"
    by (rule same_course_trans [OF same_course_fields(3) same_course_trans [OF same_course_fields(2) set]]) simp
  moreover have "same_course (fst ?c1) (fst (run_state (handleKubeVirtVM E vm ci) w))"
    unfolding handleKubeVirtVM_def fst_run_bind
    by (simp only: if_distrib [of run_state] if_distribR if_distrib [of fst] split: if_split)
      (auto intro: set simp: same_course_refl State_Monad.return_def simp del: run_ci_setStatusCondition)
  ultimately show ?thesis by (rule same_course_trans)
qed

text \<open>No restart is to be done: none is requested, or the one requested is done.\<close>

definition restart_settled :: "restart_view \<Rightarrow> bool" where
  "restart_settled v \<longleftrightarrow>
     (case rv_requested v of None \<Rightarrow> True
      | Some t \<Rightarrow> \<not> rv_inProgress v \<and> (case rv_last v of None \<Rightarrow> False | Some l \<Rightarrow> t \<le> l))"

lemma handleRestartRequest_settled:
  assumes "condition_laws (lib E)" "restart_settled (view_of ci)"
  obtains ci' where "run_state (handleRestartRequest E ci) w = (Done ci' result_none None, w)"
    "ci_meta ci' = ci_meta ci" "ci_spec ci' = ci_spec ci" "ci_jobs ci' = ci_jobs ci"
proof -
  have "\<exists>ci'. run_state (handleRestartRequest E ci) w = (Done ci' result_none None, w) \<and>
      ci_meta ci' = ci_meta ci \<and> ci_spec ci' = ci_spec ci \<and> ci_jobs ci' = ci_jobs ci"
    using assms(2)
    by (auto simp: handleRestartRequest_def State_Monad.return_def restart_settled_def view_of_def
        condition_true_laws(1) [OF assms(1)] clearRestartConditions_def split_beta Let_def set_conditions_def
        split: option.splits)
  with that show thesis by blast
qed

text \<open>The events of an update that changes nothing: the clock, the tenant and the virtual machines.\<close>

definition looks :: "event \<Rightarrow> bool" where
  "looks e \<longleftrightarrow> e = EvNow \<or> (\<exists>k. e = EvGet KindTenant k) \<or> (\<exists>ns sel. e = EvList KindVirtualMachine ns sel)"

lemma looks_simps [simp]: "looks EvNow" "looks (EvGet KindTenant k)" "looks (EvList KindVirtualMachine ns sel)"
  by (simp_all add: looks_def)

text \<open>The automation has reported the version of the spec, and no provision job is unfinished.\<close>

definition applied :: "env \<Rightarrow> string \<Rightarrow> compute_instance \<Rightarrow> bool" where
  "applied E s ci \<longleftrightarrow> marshal_ci_spec (lib E) (ci_spec ci) = Inr s \<and>
     ci_annotations ci cloudkitAAPReconciledConfigVersionAnnotation = Some (config_version s) \<and>
     (\<forall>j. findLatestJobByType (ci_jobs ci) JobTypeProvision = Some j \<longrightarrow> isTerminal (js_state j))"

lemma applied_versions:
  assumes "applied E s ci" "condition_laws (lib E)"
  shows "\<exists>ci'. run_state (ci_update_versions E r ci) w =
       (Done ci' result_none None, w\<lparr>trace := EvNow # trace w\<rparr>) \<and>
     cis_phase (ci_status ci') = ComputeInstancePhaseRunning \<and>
     cis_desiredConfigVersion (ci_status ci') = config_version s \<and>
     cis_reconciledConfigVersion (ci_status ci') = config_version s \<and>
     IsStatusConditionFalse ComputeInstanceConditionProgressing ci' \<and>
     ci_jobs ci' = ci_jobs ci \<and> ci_spec ci' = ci_spec ci"
  using assms
  by (auto simp: ci_update_versions_def handleDesiredConfigVersion_def handleReconciledConfigVersion_def
      Let_def State_Monad.return_def set_phase_def set_conditions_def IsStatusConditionFalse_def applied_def
      GetStatusCondition_def condition_simps [OF assms(2)] mk_condition_def split: option.splits)

lemma findKubeVirtVMs_found:
  assumes "list_virtual_machines (kube E) ns (ci_labelSelector ci) (trace w) = Inr items" "length items \<le> 1"
  shows "\<exists>vm. run_state (findKubeVirtVMs E ci ns) w = (Inr vm,
     w\<lparr>trace := EvList KindVirtualMachine (Some ns) (ci_labelSelector ci) # trace w\<rparr>)"
  using assms by (cases items) (auto simp: findKubeVirtVMs_def kc_defs State_Monad.return_def)

lemma applied_vm:
  assumes "applied E s ci" "condition_laws (lib E)" "restart_settled (view_of ci)"
    and vms: "\<And>es sel. \<exists>items. list_virtual_machines (kube E) ns sel (es @ trace w) = Inr items \<and> length items \<le> 1"
  shows "\<exists>ci' es w'. run_state (ci_update_vm E r ns ci) w = (Done ci' result_none None, w') \<and>
     trace w' = es @ trace w \<and> (\<forall>e \<in> set es. looks e) \<and>
     cis_phase (ci_status ci') = ComputeInstancePhaseRunning \<and>
     cis_desiredConfigVersion (ci_status ci') = config_version s \<and>
     cis_reconciledConfigVersion (ci_status ci') = config_version s \<and>
     IsStatusConditionFalse ComputeInstanceConditionProgressing ci' \<and>
     ci_jobs ci' = ci_jobs ci \<and> ci_spec ci' = ci_spec ci"
proof -
  let ?a = "run_state (ci_setStatusCondition E ComputeInstanceConditionAccepted ConditionTrue [] ReasonAsExpected ci) w"
  have a: "same_course ci (fst ?a)" "trace (snd ?a) = EvNow # trace w"
    by (rule same_course_condition [OF assms(2)]) (simp_all add: ci_condition_types)
  let ?f = "run_state (findKubeVirtVMs E (fst ?a) ns) (snd ?a)"
  obtain items where "list_virtual_machines (kube E) ns (ci_labelSelector (fst ?a)) (trace (snd ?a)) = Inr items"
      "length items \<le> 1"
    using vms [of "ci_labelSelector (fst ?a)" "[EvNow]"] a(2) by auto
  from findKubeVirtVMs_found [OF this] obtain vm where f: "fst ?f = Inr vm"
      "trace (snd ?f) = EvList KindVirtualMachine (Some ns) (ci_labelSelector (fst ?a)) # EvNow # trace w"
    using a(2) by auto
  let ?v = "run_state (case vm of None \<Rightarrow> State_Monad.return (fst ?a) | Some v \<Rightarrow> handleKubeVirtVM E v (fst ?a)) (snd ?f)"
  have v: "same_course ci (fst ?v)"
    using a(1) same_course_vm [OF assms(2)]
    by (cases vm) (auto simp: State_Monad.return_def intro: same_course_trans)
  obtain es where es: "trace (snd ?v) = es @ trace (snd ?f)" "\<forall>e \<in> set es. looks e"
  proof (rule footprintD [OF _ surjective_pairing])
    show "footprint looks (case vm of None \<Rightarrow> State_Monad.return (fst ?a) | Some v \<Rightarrow> handleKubeVirtVM E v (fst ?a))"
      by (intro fp_intros; simp)
  qed
  obtain ci3 where h: "run_state (handleRestartRequest E (fst ?v)) (snd ?v) = (Done ci3 result_none None, snd ?v)"
      "ci_meta ci3 = ci_meta ci" "ci_spec ci3 = ci_spec ci" "ci_jobs ci3 = ci_jobs ci"
    using handleRestartRequest_settled [OF assms(2), of "fst ?v" "snd ?v"] v assms(3)
    by (auto simp: same_course_def)
  have run: "run_state (ci_update_vm E r ns ci) w = run_state (ci_update_versions E r ci3) (snd ?v)"
    using f(1) h(1) by (simp add: ci_update_vm_def split_beta result_none_def del: run_ci_setStatusCondition)
  have "applied E s ci3" using assms(1) h by (simp add: applied_def)
  from applied_versions [OF this assms(2), of r "snd ?v"] show ?thesis
    unfolding run using es f(2) h(3,4) by fastforce
qed

lemma applied_update:
  assumes "applied E s ci" "condition_laws (lib E)" "finalizer_laws (lib E)" "restart_settled (view_of ci)"
    and fin: "cloudkitComputeInstanceFinalizer \<in> set (ci_finalizers ci)"
    and ref: "GetTenantReferenceName ci \<noteq> []" "GetTenantReferenceNamespace ci \<noteq> []"
    and tn: "\<And>es. \<exists>t. get_tenant (kube E) \<lparr>key_namespace = GetTenantReferenceNamespace ci,
        key_name = GetTenantReferenceName ci\<rparr> (es @ trace w) = Inr t \<and> ts_phase (tn_status t) = TenantPhaseReady"
    and vms: "\<And>es ns sel. \<exists>items. list_virtual_machines (kube E) ns sel (es @ trace w) = Inr items \<and>
        length items \<le> 1"
  shows "\<exists>ci' es w'. run_state (ci_handleUpdate E r ci) w = (Done ci' result_none None, w') \<and>
     trace w' = es @ trace w \<and> (\<forall>e \<in> set es. looks e) \<and>
     cis_phase (ci_status ci') = ComputeInstancePhaseRunning \<and>
     cis_desiredConfigVersion (ci_status ci') = config_version s \<and>
     cis_reconciledConfigVersion (ci_status ci') = config_version s \<and>
     IsStatusConditionFalse ComputeInstanceConditionProgressing ci' \<and>
     ci_jobs ci' = ci_jobs ci \<and> ci_spec ci' = ci_spec ci"
proof -
  let ?i = "run_state (ci_initializeStatusConditions E ci) w"
  let ?c = "set_phase ComputeInstancePhaseStarting (fst ?i)"
  let ?c2 = "set_finalizers (snd (addFinalizer (lib E) (ci_finalizers ?c) cloudkitComputeInstanceFinalizer)) ?c"
  have i: "same_course ci (fst ?i)" by (rule same_course_initialize [OF assms(2)])
  have c: "same_course ci ?c" using same_course_trans [OF i same_course_fields(1)] .
  have "footprint looks (ci_initializeStatusConditions E ci)" by (intro fp_intros) simp
  then obtain es1 where es1: "trace (snd ?i) = es1 @ trace w" "\<forall>e \<in> set es1. looks e"
    by (rule footprintD [OF _ surjective_pairing])
  have added: "\<not> fst (addFinalizer (lib E) (ci_finalizers ?c) cloudkitComputeInstanceFinalizer)"
    using fin c by (simp add: same_course_def finalizer_simps [OF assms(3)])
  have c2: "ci_annotations ?c2 = ci_annotations ci" "ci_spec ?c2 = ci_spec ci" "ci_jobs ?c2 = ci_jobs ci"
      "cis_tenantReference (ci_status ?c2) = cis_tenantReference (ci_status ci)" "view_of ?c2 = view_of ci"
    using c by (simp_all add: same_course_def set_finalizers_def view_of_def)
  let ?k = "\<lparr>key_namespace = GetTenantReferenceNamespace ci, key_name = GetTenantReferenceName ci\<rparr>"
  obtain t where t: "get_tenant (kube E) ?k (trace (snd ?i)) = Inr t" "ts_phase (tn_status t) = TenantPhaseReady"
    using tn [of es1] es1(1) by auto
  have refs: "GetTenantReferenceName ?c2 = GetTenantReferenceName ci"
      "GetTenantReferenceNamespace ?c2 = GetTenantReferenceNamespace ci"
    unfolding GetTenantReferenceName_def GetTenantReferenceNamespace_def c2 by simp_all
  let ?w = "(snd ?i)\<lparr>trace := EvGet KindTenant ?k # trace (snd ?i)\<rparr>"
  have run: "run_state (ci_handleUpdate E r ci) w = run_state (ci_update_vm E r (ts_namespace (tn_status t)) ?c2) ?w"
    using t added refs ref
    by (simp add: ci_handleUpdate_def split_beta Let_def State_Monad.return_def ci_update_tenant_def
        ci_getTenant_def get_optional_def kc_defs)
  have "applied E s ?c2" "restart_settled (view_of ?c2)"
    using assms(1,4) unfolding applied_def c2 by auto
  then obtain ci' es w' where "run_state (ci_update_vm E r (ts_namespace (tn_status t)) ?c2) ?w =
        (Done ci' result_none None, w')"
      "trace w' = es @ trace ?w" "\<forall>e \<in> set es. looks e"
      "cis_phase (ci_status ci') = ComputeInstancePhaseRunning"
      "cis_desiredConfigVersion (ci_status ci') = config_version s"
      "cis_reconciledConfigVersion (ci_status ci') = config_version s"
      "IsStatusConditionFalse ComputeInstanceConditionProgressing ci'"
      "ci_jobs ci' = ci_jobs ?c2" "ci_spec ci' = ci_spec ?c2"
    using applied_vm [OF _ assms(2), of s ?c2 "ts_namespace (tn_status t)" ?w r]
      vms [of _ _ "_ @ EvGet KindTenant ?k # es1"] es1(1) by fastforce
  with es1 show ?thesis unfolding run c2
    by (intro exI [of _ ci'] exI [of _ "es @ EvGet KindTenant ?k # es1"] exI [of _ w']) auto
qed

text \<open>C15: an instance whose automation has reported the version of the current spec is Running. This
  is about an instance that has its finalizer and refers to a tenant that is ready whenever
  it is read, in a namespace where the listing succeeds with at most one virtual machine, with
  no restart left to do (none is requested, or none is in progress and the requested one is
  done), and without an unfinished provision job. Then the whole update handler succeeds: the
  phase is Running, the two versions in the status agree, PROGRESSING is false, jobs and spec
  are as before, and the handler does nothing but read the clock, the tenant and the virtual
  machines: it writes no object, and asks the automation for nothing. It rests on the
  documented behaviour of the finalizer and condition helpers.\<close>

theorem ci_configuration_applied:
  assumes "condition_laws (lib E)" "finalizer_laws (lib E)"
    and "marshal_ci_spec (lib E) (ci_spec ci) = Inr s"
    and "ci_annotations ci cloudkitAAPReconciledConfigVersionAnnotation = Some (config_version s)"
    and "\<forall>j. findLatestJobByType (ci_jobs ci) JobTypeProvision = Some j \<longrightarrow> isTerminal (js_state j)"
    and "cloudkitComputeInstanceFinalizer \<in> set (ci_finalizers ci)"
    and "GetTenantReferenceName ci \<noteq> []" "GetTenantReferenceNamespace ci \<noteq> []"
    and "\<forall>es. \<exists>t. get_tenant (kube E) \<lparr>key_namespace = GetTenantReferenceNamespace ci,
        key_name = GetTenantReferenceName ci\<rparr> (es @ trace w) = Inr t \<and> ts_phase (tn_status t) = TenantPhaseReady"
    and "\<forall>es ns sel. \<exists>vms. list_virtual_machines (kube E) ns sel (es @ trace w) = Inr vms \<and> length vms \<le> 1"
    and "\<forall>t. cisp_restartRequestedAt (ci_spec ci) = Some t \<longrightarrow>
        \<not> condition_true ComputeInstanceConditionRestartInProgress (ci_conditions ci) \<and>
        (\<exists>l. cis_lastRestartedAt (ci_status ci) = Some l \<and> t \<le> l)"
  shows "\<exists>ci' es w'. run_state (ci_handleUpdate E r ci) w = (Done ci' result_none None, w') \<and>
     trace w' = es @ trace w \<and>
     (\<forall>e \<in> set es. e = EvNow \<or> (\<exists>k. e = EvGet KindTenant k) \<or> (\<exists>ns sel. e = EvList KindVirtualMachine ns sel)) \<and>
     cis_phase (ci_status ci') = ComputeInstancePhaseRunning \<and>
     cis_desiredConfigVersion (ci_status ci') = config_version s \<and>
     cis_reconciledConfigVersion (ci_status ci') = config_version s \<and>
     IsStatusConditionFalse ComputeInstanceConditionProgressing ci' \<and>
     ci_jobs ci' = ci_jobs ci \<and> ci_spec ci' = ci_spec ci"
proof -
  have "applied E s ci" "restart_settled (view_of ci)"
    using assms(3-5,11) by (auto simp: applied_def restart_settled_def view_of_def split: option.split)
  from applied_update [OF this(1) assms(1,2) this(2) assms(6-8), of w r] assms(9,10)
  show ?thesis unfolding looks_def by blast
qed

text \<open>The instance with a ready tenant, whose spec has the text \<open>t\<close> in the reference environment, in
  a namespace without virtual machines.\<close>

definition applied_ci :: compute_instance where
  "applied_ci = tenant_ci\<lparr>ci_meta := (ci_meta tenant_ci)\<lparr>om_annotations :=
     [cloudkitAAPReconciledConfigVersionAnnotation \<mapsto> config_version ''t'']\<rparr>\<rparr>"

definition applied_env :: env where
  "applied_env = ref_env\<lparr>kube := ref_kube\<lparr>get_tenant := (\<lambda>k h. Inr ready_tenant),
     list_virtual_machines := (\<lambda>n s h. Inr [])\<rparr>\<rparr>"

lemma applied_env_simps [simp]:
  "lib applied_env = ref_lib" "get_tenant (kube applied_env) k h = Inr ready_tenant"
  "list_virtual_machines (kube applied_env) n s h = Inr []"
  by (simp_all add: applied_env_def)

lemma applied_ci_simps:
  "marshal_ci_spec ref_lib (ci_spec applied_ci) = Inr ''t''"
  "ci_annotations applied_ci cloudkitAAPReconciledConfigVersionAnnotation = Some (config_version ''t'')"
  "findLatestJobByType (ci_jobs applied_ci) JobTypeProvision = None"
  "ci_finalizers applied_ci = [cloudkitComputeInstanceFinalizer]"
  "GetTenantReferenceName applied_ci = ''tenant''" "GetTenantReferenceNamespace applied_ci = ''ns''"
  "cisp_restartRequestedAt (ci_spec applied_ci) = None"
  by (simp_all add: applied_ci_def tenant_ci_def deleting_ci_def set_finalizers_def sample_ci_def ref_lib_def
      findLatestJobByType_def SetTenantReferenceNamespace_def SetTenantReferenceName_def
      GetTenantReferenceName_def GetTenantReferenceNamespace_def ensureTenantReference_def)

theorem ci_configuration_applied_witness:
  "\<exists>ci' w'. run_state (ci_handleUpdate applied_env (sample_reconciler None) applied_ci) empty_world =
       (Done ci' result_none None, w') \<and>
     cis_phase (ci_status ci') = ComputeInstancePhaseRunning"
  using ci_configuration_applied [of applied_env applied_ci "''t''" empty_world "sample_reconciler None"]
  by (auto simp: applied_ci_simps ref_condition_laws ref_finalizer_laws)

text \<open>A secondary object wakes up only the instance it names: whatever object is mapped, the
  answer holds at most the key of the instance that its label names, in the namespace the
  controller watches, and only if that instance exists.\<close>

theorem mapObject_own_namespace:
  "fst (run_state (mapObjectToComputeInstance E r obj) w) =
     (case om_labels obj cloudkitComputeInstanceNameLabel of
        None \<Rightarrow> []
      | Some name \<Rightarrow>
          if \<exists>ci. get_compute_instance (kube E) \<lparr>key_namespace = cir_namespace r, key_name = name\<rparr> (trace w) = Inr ci
          then [\<lparr>key_namespace = cir_namespace r, key_name = name\<rparr>] else [])"
  by (auto simp: mapObjectToComputeInstance_def Let_def kc_defs State_Monad.return_def
      split: option.splits sum.splits)

end
