(* ===== verification/Tenant_Controller.thy ===== *)
theory Tenant_Controller
  imports Kube_Client
begin

text \<open>
  The reconciler of tenants: \<open>internal/controller/tenant_controller.go\<close> and
  \<open>tenant_resources.go\<close>. A tenant owns a namespace and, in it, a user defined network.
  The reconciler creates them in this order and deletes them in the opposite order, and the
  tenant keeps its finalizer until both are gone.
\<close>

record tenant_reconciler =
  tr_tenantNamespace :: string

definition newTenantReconciler :: "string \<Rightarrow> tenant_reconciler" where
  "newTenantReconciler ns = \<lparr>tr_tenantNamespace = ns\<rparr>"

section \<open>Labels\<close>

definition commonLabelsFromTenant :: "tenant \<Rightarrow> string \<rightharpoonup> string" where
  "commonLabelsFromTenant t =
     [''app.kubernetes.io/name'' \<mapsto> cloudkitAppName,
      cloudkitTenantRefLabel \<mapsto> om_name (tn_meta t),
      cloudkitProjectRefLabel \<mapsto> om_namespace (tn_meta t)]"

definition udnNamespaceLabel :: "string \<rightharpoonup> string" where
  "udnNamespaceLabel = [''k8s.ovn.org/primary-user-defined-network'' \<mapsto> []]"

definition ensureCommonLabelsForTenant :: "tenant \<Rightarrow> object_meta \<Rightarrow> object_meta" where
  "ensureCommonLabelsForTenant t m = merge_labels (commonLabelsFromTenant t) m"

section \<open>The namespace and the network\<close>

definition new_tenant_namespace :: "tenant \<Rightarrow> namespace_obj" where
  "new_tenant_namespace t =
     \<lparr>ns_meta = new_meta (generateTenantNamespaceName t) [] (commonLabelsFromTenant t ++ udnNamespaceLabel),
      ns_terminating = False\<rparr>"

text \<open>The tenant after the call, and the error. The name is that of the object as it was left.\<close>

definition createOrUpdateTenantNamespace :: "env \<Rightarrow> tenant \<Rightarrow> (tenant \<times> go_error option) act" where
  "createOrUpdateTenantNamespace E t =
     do { r \<leftarrow> createOrUpdate KNamespace (fetch_namespace (kube E)) (commit_namespace (kube E))
            (new_tenant_namespace t)
            (\<lambda>n u. Inr (n\<lparr>ns_meta := ensureCommonLabelsForTenant t (ns_meta n)\<rparr>, u)) ();
          State_Monad.return (tenant_set_namespace (om_name (ns_meta (fst (snd r)))) t, fst r) }"

definition new_tenant_udn :: "tenant \<Rightarrow> string \<Rightarrow> user_defined_network" where
  "new_tenant_udn t ns =
     \<lparr>udn_meta = new_meta udnName ns (commonLabelsFromTenant t),
      udn_spec_of = \<lparr>udn_topology = ''Layer2'', udn_role = ''Primary'', udn_ipamLifecycle = ''Persistent'',
        udn_subnets = [''10.200.0.0/16'']\<rparr>\<rparr>"

definition createOrUpdateTenantUDN :: "env \<Rightarrow> tenant \<Rightarrow> go_error option act" where
  "createOrUpdateTenantUDN E t =
     (let ns = ts_namespace (tn_status t)
      in if ns = []
         then State_Monad.return (Some (Errorf (''namespace not yet created for tenant '' @ om_name (tn_meta t))))
         else do { r \<leftarrow> createOrUpdate KUserDefinedNetwork (fetch_udn (kube E)) (commit_udn (kube E))
                     (new_tenant_udn t ns)
                     (\<lambda>n u. Inr (n\<lparr>udn_meta := ensureCommonLabelsForTenant t (udn_meta n)\<rparr>, u)) ();
                   State_Monad.return (fst r) })"

text \<open>What was found, and the error: a network that was found is deleted on every call.\<close>

definition deleteTenantUDN :: "env \<Rightarrow> tenant \<Rightarrow> (user_defined_network option \<times> go_error option) act" where
  "deleteTenantUDN E t =
     (let ns = ts_namespace (tn_status t)
      in if ns = [] then State_Monad.return (None, None)
         else do { g \<leftarrow> kc_get_udn E \<lparr>key_namespace = ns, key_name = udnName\<rparr>;
                   case g of
                     Inl e \<Rightarrow> State_Monad.return (None, ignore_not_found e)
                   | Inr udn \<Rightarrow> do { e \<leftarrow> kc_delete_udn E udn; State_Monad.return (Some udn, e) } })"

text \<open>A namespace that is already terminating is not deleted again.\<close>

definition deleteTenantNamespace :: "env \<Rightarrow> tenant \<Rightarrow> (namespace_obj option \<times> go_error option) act" where
  "deleteTenantNamespace E t =
     (let ns = ts_namespace (tn_status t)
      in if ns = [] then State_Monad.return (None, None)
         else do { g \<leftarrow> kc_get_namespace E \<lparr>key_namespace = [], key_name = ns\<rparr>;
                   case g of
                     Inl e \<Rightarrow> State_Monad.return (None, ignore_not_found e)
                   | Inr n \<Rightarrow>
                       if ns_terminating n then State_Monad.return (Some n, None)
                       else do { e \<leftarrow> kc_delete_namespace E n; State_Monad.return (Some n, e) } })"

section \<open>handleUpdate\<close>

definition tenant_handleUpdate :: "env \<Rightarrow> tenant \<Rightarrow> tenant outcome act" where
  "tenant_handleUpdate E t =
     (if \<not> containsFinalizer (lib E) (om_finalizers (tn_meta t)) tenantFinalizer
      then let t1 = tenant_set_finalizers (snd (addFinalizer (lib E) (om_finalizers (tn_meta t)) tenantFinalizer)) t
           in do { u \<leftarrow> kc_update_tenant E t1;
                   State_Monad.return (case u of
                       Inl e \<Rightarrow> Done t1 result_none (Some e)
                     | Inr t2 \<Rightarrow> Done t2 result_none None) }
      else do { n \<leftarrow> createOrUpdateTenantNamespace E (tenant_set_phase TenantPhaseProgressing t);
                case snd n of
                  Some e \<Rightarrow> State_Monad.return (Done (tenant_set_phase TenantPhaseFailed (fst n)) result_none (Some e))
                | None \<Rightarrow>
                    do { u \<leftarrow> createOrUpdateTenantUDN E (fst n);
                         State_Monad.return (case u of
                             Some e \<Rightarrow> Done (tenant_set_phase TenantPhaseFailed (fst n)) result_none (Some e)
                           | None \<Rightarrow> Done (tenant_set_phase TenantPhaseReady (fst n)) result_none None) } })"

section \<open>handleDelete\<close>

definition tenant_finish_delete :: "env \<Rightarrow> tenant \<Rightarrow> tenant outcome act" where
  "tenant_finish_delete E t =
     (let removed = removeFinalizer (lib E) (om_finalizers (tn_meta t)) tenantFinalizer;
          t1 = tenant_set_finalizers (snd removed) t
      in if fst removed
         then do { u \<leftarrow> kc_update_tenant E t1;
                   State_Monad.return (case u of
                       Inl e \<Rightarrow> Done t1 result_none (Some e)
                     | Inr t2 \<Rightarrow> Done t2 result_none None) }
         else State_Monad.return (Done t1 result_none None))"

definition tenant_handleDelete :: "env \<Rightarrow> tenant \<Rightarrow> tenant outcome act" where
  "tenant_handleDelete E t =
     (let t1 = tenant_set_phase TenantPhaseDeleting t
      in if \<not> containsFinalizer (lib E) (om_finalizers (tn_meta t1)) tenantFinalizer
         then State_Monad.return (Done t1 result_none None)
         else do { u \<leftarrow> deleteTenantUDN E t1;
                   if snd u \<noteq> None \<or> fst u \<noteq> None
                   then State_Monad.return (Done t1 result_none (snd u))
                   else do { n \<leftarrow> deleteTenantNamespace E t1;
                             if snd n \<noteq> None \<or> fst n \<noteq> None
                             then State_Monad.return (Done t1 result_none (snd n))
                             else tenant_finish_delete E t1 } })"

section \<open>Reconcile\<close>

definition tenant_handle :: "env \<Rightarrow> tenant \<Rightarrow> tenant outcome act" where
  "tenant_handle E t = (if deleting (tn_meta t) then tenant_handleDelete E t else tenant_handleUpdate E t)"

definition tenant_Reconcile :: "env \<Rightarrow> object_key \<Rightarrow> unit outcome act" where
  "tenant_Reconcile E key =
     do { g \<leftarrow> kc_get_tenant E key;
          case g of
            Inl e \<Rightarrow> State_Monad.return (Done () result_none (ignore_not_found e))
          | Inr t \<Rightarrow>
              do { out \<leftarrow> tenant_handle E t;
                   case out of
                     Panicked s \<Rightarrow> State_Monad.return (Panicked s)
                   | Done t' res err \<Rightarrow>
                       if tn_status t' \<noteq> tn_status t
                       then do { u \<leftarrow> kc_status_tenant E t';
                                 State_Monad.return (case u of
                                     Inl e \<Rightarrow> Done () result_none (Some e)
                                   | Inr _ \<Rightarrow> Done () res err) }
                       else State_Monad.return (Done () res err) } }"

section \<open>Which events concern the controller\<close>

definition mapObjectToTenant :: "env \<Rightarrow> tenant_reconciler \<Rightarrow> object_meta \<Rightarrow> object_key list act" where
  "mapObjectToTenant E r obj =
     (case om_labels obj cloudkitTenantRefLabel of
        None \<Rightarrow> State_Monad.return []
      | Some name \<Rightarrow>
          do { g \<leftarrow> kc_get_tenant E \<lparr>key_namespace = tr_tenantNamespace r, key_name = name\<rparr>;
               State_Monad.return (case g of Inl e \<Rightarrow> [] | Inr t \<Rightarrow> [key_of (tn_meta t)]) })"

definition tenantNamespacePredicate :: "string \<Rightarrow> object_meta \<Rightarrow> bool" where
  "tenantNamespacePredicate ns m \<longleftrightarrow> om_namespace m = ns"

definition tenantLabelSelector :: "string \<Rightarrow> object_meta \<Rightarrow> bool" where
  "tenantLabelSelector project m \<longleftrightarrow>
     om_labels m cloudkitTenantRefLabel \<noteq> None \<and> om_labels m cloudkitProjectRefLabel = Some project"


section \<open>Lemmas\<close>

lemma footprint_tenant_parts [fp_intros]:
  "(\<And>x. P (EvFetch x)) \<Longrightarrow> (\<And>x. P (EvCommit x)) \<Longrightarrow> footprint P (createOrUpdateTenantNamespace E t)"
  "(\<And>x. P (EvFetch x)) \<Longrightarrow> (\<And>x. P (EvCommit x)) \<Longrightarrow> footprint P (createOrUpdateTenantUDN E t)"
  unfolding createOrUpdateTenantNamespace_def createOrUpdateTenantUDN_def Let_def
  by (intro fp_intros; simp)+

definition udn_gone :: "env \<Rightarrow> string \<Rightarrow> history \<Rightarrow> bool" where
  "udn_gone E ns h \<longleftrightarrow>
     ns = [] \<or> (\<exists>e. get_udn (kube E) \<lparr>key_namespace = ns, key_name = udnName\<rparr> h = Inl e \<and> is_not_found e)"

definition namespace_gone :: "env \<Rightarrow> string \<Rightarrow> history \<Rightarrow> bool" where
  "namespace_gone E ns h \<longleftrightarrow>
     ns = [] \<or> (\<exists>e. get_namespace (kube E) \<lparr>key_namespace = [], key_name = ns\<rparr> h = Inl e \<and> is_not_found e)"

text \<open>The two deletions: what they do when they find nothing, and otherwise.\<close>

lemma run_deleteTenantUDN:
  "\<exists>es. trace (snd (run_state (deleteTenantUDN E t) w)) = es @ trace w \<and>
     (\<forall>e \<in> set es. (\<exists>k. e = EvGet KindUserDefinedNetwork k) \<or> (\<exists>u. e = EvDelete (KUserDefinedNetwork u))) \<and>
     (fst (run_state (deleteTenantUDN E t) w) = (None, None) \<longrightarrow>
        udn_gone E (ts_namespace (tn_status t)) (trace w))"
  by (cases "get_udn (kube E) \<lparr>key_namespace = ts_namespace (tn_status t), key_name = udnName\<rparr> (trace w)")
    (auto simp: deleteTenantUDN_def udn_gone_def kc_defs State_Monad.return_def Let_def ignore_not_found_None)

lemma run_deleteTenantNamespace:
  "\<exists>es. trace (snd (run_state (deleteTenantNamespace E t) w)) = es @ trace w \<and>
     (\<forall>e \<in> set es. (\<exists>k. e = EvGet KindNamespace k) \<or> (\<exists>n. e = EvDelete (KNamespace n) \<and> \<not> ns_terminating n)) \<and>
     (fst (run_state (deleteTenantNamespace E t) w) = (None, None) \<longrightarrow>
        namespace_gone E (ts_namespace (tn_status t)) (trace w))"
  by (cases "get_namespace (kube E) \<lparr>key_namespace = [], key_name = ts_namespace (tn_status t)\<rparr> (trace w)")
    (auto simp: deleteTenantNamespace_def namespace_gone_def kc_defs State_Monad.return_def Let_def
      ignore_not_found_None)

text \<open>The course of a deletion, in the order of its steps.\<close>

lemma tenant_delete_course:
  assumes laws: "finalizer_laws (lib E)"
    and run: "run_state (tenant_handleDelete E t) w = (out, w')"
  obtains (no_finalizer) "w' = w"
  | (network) es where "trace w' = es @ trace w"
      "\<forall>e \<in> set es. (\<exists>k. e = EvGet KindUserDefinedNetwork k) \<or> (\<exists>u. e = EvDelete (KUserDefinedNetwork u))"
  | (namespace) es1 es2 where "trace w' = es2 @ es1 @ trace w" "udn_gone E (ts_namespace (tn_status t)) (trace w)"
      "\<forall>e \<in> set es1. (\<exists>k. e = EvGet KindUserDefinedNetwork k) \<or> (\<exists>u. e = EvDelete (KUserDefinedNetwork u))"
      "\<forall>e \<in> set es2. (\<exists>k. e = EvGet KindNamespace k) \<or> (\<exists>n. e = EvDelete (KNamespace n) \<and> \<not> ns_terminating n)"
  | (finished) es1 es2 y where "trace w' = EvUpdate (KTenant y) # es2 @ es1 @ trace w"
      "udn_gone E (ts_namespace (tn_status t)) (trace w)"
      "namespace_gone E (ts_namespace (tn_status t)) (es1 @ trace w)"
      "set (om_finalizers (tn_meta y)) = set (om_finalizers (tn_meta t)) - {tenantFinalizer}"
      "\<forall>e \<in> set es1. (\<exists>k. e = EvGet KindUserDefinedNetwork k) \<or> (\<exists>u. e = EvDelete (KUserDefinedNetwork u))"
      "\<forall>e \<in> set es2. (\<exists>k. e = EvGet KindNamespace k) \<or> (\<exists>n. e = EvDelete (KNamespace n) \<and> \<not> ns_terminating n)"
proof -
  let ?t = "tenant_set_phase TenantPhaseDeleting t"
  have t: "ts_namespace (tn_status ?t) = ts_namespace (tn_status t)" "tn_meta ?t = tn_meta t"
    by (simp_all add: tenant_set_phase_def)
  let ?u = "run_state (deleteTenantUDN E ?t) w"
  obtain es1 where es1: "trace (snd ?u) = es1 @ trace w"
      "\<forall>e \<in> set es1. (\<exists>k. e = EvGet KindUserDefinedNetwork k) \<or> (\<exists>u. e = EvDelete (KUserDefinedNetwork u))"
      "fst ?u = (None, None) \<longrightarrow> udn_gone E (ts_namespace (tn_status t)) (trace w)"
    using run_deleteTenantUDN [of E ?t w] t by auto
  let ?n = "run_state (deleteTenantNamespace E ?t) (snd ?u)"
  obtain es2 where es2: "trace (snd ?n) = es2 @ trace (snd ?u)"
      "\<forall>e \<in> set es2. (\<exists>k. e = EvGet KindNamespace k) \<or> (\<exists>n. e = EvDelete (KNamespace n) \<and> \<not> ns_terminating n)"
      "fst ?n = (None, None) \<longrightarrow> namespace_gone E (ts_namespace (tn_status t)) (trace (snd ?u))"
    using run_deleteTenantNamespace [of E ?t "snd ?u"] t by auto
  show thesis
  proof (cases "tenantFinalizer \<in> set (om_finalizers (tn_meta t))")
    case False
    with run t show thesis
      by (intro no_finalizer) (simp add: tenant_handleDelete_def State_Monad.return_def finalizer_simps [OF laws])
  next
    case True
    show thesis
    proof (cases "fst ?u = (None, None)")
      case False
      then have "snd (fst ?u) \<noteq> None \<or> fst (fst ?u) \<noteq> None" by (simp add: prod_eq_iff) blast
      with True run t have "w' = snd ?u"
        by (auto simp: tenant_handleDelete_def State_Monad.return_def finalizer_simps [OF laws] split_beta Let_def)
      with es1 show thesis by (intro network) simp_all
    next
      case udn: True
      show thesis
      proof (cases "fst ?n = (None, None)")
        case False
        then have "snd (fst ?n) \<noteq> None \<or> fst (fst ?n) \<noteq> None" by (simp add: prod_eq_iff) blast
        with True run t udn have "w' = snd ?n"
          by (auto simp: tenant_handleDelete_def State_Monad.return_def finalizer_simps [OF laws] split_beta Let_def)
        with es1 es2 udn show thesis by (intro namespace) simp_all
      next
        case n: True
        let ?y = "tenant_set_finalizers (snd (removeFinalizer (lib E) (om_finalizers (tn_meta t)) tenantFinalizer)) ?t"
        have "trace w' = EvUpdate (KTenant ?y) # trace (snd ?n)"
          using True run t udn n
          by (auto simp: tenant_handleDelete_def tenant_finish_delete_def State_Monad.return_def
              finalizer_simps [OF laws] split_beta kc_defs Let_def)
        moreover have "set (om_finalizers (tn_meta ?y)) = set (om_finalizers (tn_meta t)) - {tenantFinalizer}"
          by (simp add: tenant_set_finalizers_def finalizer_simps [OF laws])
        ultimately show thesis
          using es1 es2 udn n by (intro finished [of ?y es2 es1]) simp_all
      qed
    qed
  qed
qed



lemma createNamespace_frame:
  "run_state (createOrUpdateTenantNamespace E t) w = ((t', err), w') \<Longrightarrow>
     tn_meta t' = tn_meta t \<and> tn_spec_name t' = tn_spec_name t"
  by (auto simp: createOrUpdateTenantNamespace_def State_Monad.return_def split_beta tenant_set_namespace_def)


lemma tenant_phase_of [simp]: "ts_phase (tn_status (tenant_set_phase p t)) = p"
  "tn_meta (tenant_set_phase p t) = tn_meta t" "tn_spec_name (tenant_set_phase p t) = tn_spec_name t"
  "ts_namespace (tn_status (tenant_set_phase p t)) = ts_namespace (tn_status t)"
  by (simp_all add: tenant_set_phase_def)

lemma commonLabels_meta:
  "tn_meta t = tn_meta t' \<Longrightarrow> commonLabelsFromTenant t = commonLabelsFromTenant t'"
  by (simp add: commonLabelsFromTenant_def)

lemma tenant_update_keeps_meta:
  assumes "finalizer_laws (lib E)" "tenantFinalizer \<in> set (om_finalizers (tn_meta t))"
    and "run_state (tenant_handleUpdate E t) w = (Done t' res err, w')"
  shows "tn_meta t' = tn_meta t"
proof -
  obtain t1 e1 w1 where n: "run_state (createOrUpdateTenantNamespace E (tenant_set_phase TenantPhaseProgressing t)) w =
      ((t1, e1), w1)" by (metis surj_pair)
  with createNamespace_frame [OF n] assms show ?thesis
    by (auto simp: tenant_handleUpdate_def State_Monad.return_def split_beta
        finalizer_simps [OF assms(1)] split: option.splits)
qed

lemma footprint_tenant_update: "footprint (\<lambda>_. True) (tenant_handleUpdate E t)"
  unfolding tenant_handleUpdate_def Let_def by (intro fp_intros; simp)

lemma tenant_phase_by_error:
  assumes "finalizer_laws (lib E)" "tenantFinalizer \<in> set (om_finalizers (tn_meta t))"
    and "run_state (tenant_handleUpdate E t) w = (Done t' res err, w')"
  shows "ts_phase (tn_status t') = (if err = None then TenantPhaseReady else TenantPhaseFailed)"
  using assms by (auto simp: tenant_handleUpdate_def State_Monad.return_def split_beta
      finalizer_simps [OF assms(1)] split: option.splits)

section \<open>A sample tenant\<close>

definition sample_tenant :: tenant where
  "sample_tenant =
     \<lparr>tn_meta = sample_meta\<lparr>om_finalizers := [tenantFinalizer]\<rparr>, tn_spec_name = ''acme'',
      tn_status = \<lparr>ts_phase = TenantPhaseProgressing, ts_namespace = ''sub''\<rparr>, tn_ownerReferences = []\<rparr>"

lemma sample_tenant_simps:
  "om_finalizers (tn_meta sample_tenant) = [tenantFinalizer]" "ts_namespace (tn_status sample_tenant) = ''sub''"
  "ts_phase (tn_status sample_tenant) = TenantPhaseProgressing" "\<not> deleting (tn_meta sample_tenant)"
  by (simp_all add: sample_tenant_def sample_meta_def new_meta_def deleting_def is_zero_time_def)

lemma sample_tenant_deleted:
  "\<exists>y h. run_state (tenant_handleDelete ref_env sample_tenant) empty_world =
     (Done y result_none None, empty_world\<lparr>trace := EvUpdate (KTenant y) # h\<rparr>)"
  by (simp add: tenant_handleDelete_def deleteTenantUDN_def deleteTenantNamespace_def tenant_finish_delete_def
      Let_def kc_defs State_Monad.return_def sample_tenant_simps finalizer_simps [OF ref_finalizer_laws]
      ref_kube_def) blast


section \<open>Properties\<close>

text \<open>C28: a tenant is taken down in order. Its namespace is deleted only when the API server has
  answered that the network in it is gone, and not while it is already terminating; the
  finalizer is removed, and no other, only when both are gone. A tenant whose status names no
  namespace has nothing to wait for.\<close>

theorem tenant_deleted_in_order:
  assumes "finalizer_laws (lib E)" "run_state (tenant_handleDelete E t) w = (out, w')"
    and "trace w' = es @ trace w" "e \<in> set es"
  shows "(\<forall>n. e = EvDelete (KNamespace n) \<longrightarrow>
        udn_gone E (ts_namespace (tn_status t)) (trace w) \<and> \<not> ns_terminating n) \<and>
     (\<forall>x. e = EvUpdate x \<longrightarrow>
        udn_gone E (ts_namespace (tn_status t)) (trace w) \<and>
        (\<exists>h. namespace_gone E (ts_namespace (tn_status t)) h) \<and>
        (\<exists>y. x = KTenant y \<and>
           set (om_finalizers (tn_meta y)) = set (om_finalizers (tn_meta t)) - {tenantFinalizer}))"
  using assms(1,2)
proof (cases rule: tenant_delete_course)
  case no_finalizer
  with assms(3,4) show ?thesis by simp
next
  case (network es')
  with assms(3,4) show ?thesis by auto
next
  case (namespace es1 es2)
  with assms(3) have "es = es2 @ es1" by simp
  with namespace assms(4) show ?thesis by auto
next
  case (finished es1 es2 y)
  with assms(3) have "es = EvUpdate (KTenant y) # es2 @ es1" by simp
  with assms(4) consider "e = EvUpdate (KTenant y)" | "e \<in> set es1" | "e \<in> set es2" by auto
  then show ?thesis
  proof cases
    case 1
    with finished(2-4) show ?thesis by blast
  next
    case 2
    with finished(5) show ?thesis by blast
  next
    case 3
    with finished(2,6) show ?thesis by blast
  qed
qed

theorem tenant_deleted_in_order_witness:
  "\<exists>y h. run_state (tenant_handleDelete ref_env sample_tenant) empty_world =
       (Done y result_none None, empty_world\<lparr>trace := EvUpdate (KTenant y) # h\<rparr>) \<and>
     set (om_finalizers (tn_meta y)) = {}"
proof -
  obtain y h where run: "run_state (tenant_handleDelete ref_env sample_tenant) empty_world =
      (Done y result_none None, empty_world\<lparr>trace := EvUpdate (KTenant y) # h\<rparr>)"
    using sample_tenant_deleted by blast
  from tenant_deleted_in_order [OF _ run, of "EvUpdate (KTenant y) # h" "EvUpdate (KTenant y)"]
  have "set (om_finalizers (tn_meta y)) = {}" by (simp add: ref_finalizer_laws sample_tenant_def)
  with run show ?thesis by blast
qed



text \<open>C35: a failure to create the tenant's objects is visible on the tenant. If the reconciliation of
  a tenant that is not being deleted and holds its finalizer returns an error, then the tenant
  is in the phase Failed already, or the reconciliation has asked for the phase Failed to be
  written, or the writing of the status is what failed. It rests on the documented behaviour
  of the finalizer helpers.\<close>

theorem tenant_failure_is_recorded:
  assumes "finalizer_laws (lib E)" "get_tenant (kube E) key (trace w) = Inr t"
    and "\<not> deleting (tn_meta t)" "tenantFinalizer \<in> set (om_finalizers (tn_meta t))"
    and "run_state (tenant_Reconcile E key) w = (Done () res (Some e), w')"
  shows "ts_phase (tn_status t) = TenantPhaseFailed \<or>
     (\<exists>y es. trace w' = EvStatusUpdate (KTenant y) # es @ trace w \<and> key_of (tn_meta y) = key_of (tn_meta t) \<and>
        (ts_phase (tn_status y) = TenantPhaseFailed \<or> update_tenant_status (kube E) y (es @ trace w) = Inl e))"
proof (cases "ts_phase (tn_status t) = TenantPhaseFailed")
  case failed: False
  let ?w1 = "w\<lparr>trace := EvGet KindTenant key # trace w\<rparr>"
  let ?h = "run_state (tenant_handleUpdate E t) ?w1"
  obtain t' res' err where out: "fst ?h = Done t' res' err"
    using assms(2,3,5)
    by (cases "fst ?h") (auto simp: tenant_Reconcile_def tenant_handle_def kc_defs State_Monad.return_def split_beta)
  then have h: "?h = (Done t' res' err, snd ?h)" by (simp add: prod_eq_iff)
  from tenant_phase_by_error [OF assms(1,4) h]
  have phase: "ts_phase (tn_status t') = (if err = None then TenantPhaseReady else TenantPhaseFailed)" .
  obtain es where es: "trace (snd ?h) = es @ trace ?w1"
    by (rule footprintD [OF footprint_tenant_update h])
  have key: "tn_meta t' = tn_meta t" by (rule tenant_update_keeps_meta [OF assms(1,4) h])
  show ?thesis
  proof (cases "tn_status t' = tn_status t")
    case True
    with assms(2,3,5) out have "err = Some e"
      by (simp add: tenant_Reconcile_def tenant_handle_def kc_defs State_Monad.return_def split_beta)
    with phase True failed show ?thesis by simp
  next
    case False
    have "trace w' = EvStatusUpdate (KTenant t') # trace (snd ?h)"
      "err \<noteq> None \<or> update_tenant_status (kube E) t' (trace (snd ?h)) = Inl e"
      using False assms(2,3,5) out
      by (auto simp: tenant_Reconcile_def tenant_handle_def kc_defs State_Monad.return_def split_beta split: sum.splits)
    with es phase key show ?thesis
      by (intro disjI2 exI [of _ t'] exI [of _ "es @ [EvGet KindTenant key]"]) auto
  qed
qed simp

text \<open>A cluster in which no namespace can be written.\<close>

definition no_namespace_env :: env where
  "no_namespace_env = ref_env\<lparr>kube := ref_kube\<lparr>get_tenant := (\<lambda>k h. Inr sample_tenant),
     fetch_namespace := (\<lambda>n h. (Some ref_not_found, n))\<rparr>\<rparr>"

theorem tenant_failure_is_recorded_witness:
  "\<exists>y es. trace (snd (run_state (tenant_Reconcile no_namespace_env (key_of sample_meta)) empty_world)) =
       EvStatusUpdate (KTenant y) # es \<and> ts_phase (tn_status y) = TenantPhaseFailed"
proof -
  have env: "lib no_namespace_env = ref_lib" "get_tenant (kube no_namespace_env) k h = Inr sample_tenant"
      "fetch_namespace (kube no_namespace_env) n h = (Some ref_not_found, n)"
      "update_tenant_status (kube no_namespace_env) t h = Inr t" for k h n t
    by (simp_all add: no_namespace_env_def ref_kube_def)
  let ?run = "run_state (tenant_Reconcile no_namespace_env (key_of sample_meta)) empty_world"
  have "fst ?run = Done () result_none (Some ref_not_found)"
    by (simp add: tenant_Reconcile_def tenant_handle_def kc_defs env tenant_handleUpdate_def
        createOrUpdateTenantNamespace_def createOrUpdate_def State_Monad.return_def sample_tenant_simps
        finalizer_simps [OF ref_finalizer_laws])
  then have "?run = (Done () result_none (Some ref_not_found), snd ?run)" by (simp add: prod_eq_iff)
  from tenant_failure_is_recorded [OF _ _ _ _ this] show ?thesis
    by (auto simp: env ref_finalizer_laws sample_tenant_simps)
qed

text \<open>C40: the labels that the controller puts on a tenant's namespace and network lead back to
  the tenant: the controller's label selector accepts the object, and an event on it wakes up
  exactly this tenant.\<close>

theorem tenant_objects_map_back:
  assumes "om_namespace (tn_meta t) = tr_tenantNamespace r"
    and "get_tenant (kube E) (key_of (tn_meta t)) (trace w) = Inr t"
  shows "tenantLabelSelector (tr_tenantNamespace r) (ensureCommonLabelsForTenant t m) \<and>
     fst (run_state (mapObjectToTenant E r (ensureCommonLabelsForTenant t m)) w) = [key_of (tn_meta t)]"
  using assms
  by (simp add: tenantLabelSelector_def mapObjectToTenant_def ensureCommonLabelsForTenant_def merge_labels_def
      commonLabelsFromTenant_def cloudkitTenantRefLabel_def cloudkitProjectRefLabel_def prefixed_def
      cloudkitPrefix_def kc_defs State_Monad.return_def key_of_def)

theorem tenant_objects_map_back_witness:
  "fst (run_state (mapObjectToTenant no_namespace_env \<lparr>tr_tenantNamespace = ''ns''\<rparr>
       (ensureCommonLabelsForTenant sample_tenant sample_meta)) empty_world) = [key_of sample_meta]"
  using tenant_objects_map_back [of sample_tenant "\<lparr>tr_tenantNamespace = ''ns''\<rparr>" no_namespace_env empty_world sample_meta]
  by (simp add: no_namespace_env_def sample_tenant_def sample_meta_def new_meta_def key_of_def)

end
