(* ===== verification/Cluster_Order_Controller.thy ===== *)
theory Cluster_Order_Controller
  imports Kube_Client
begin

text \<open>
  The reconciler of cluster orders: \<open>internal/controller/clusterorder_controller.go\<close> and
  \<open>clusterorder_resources.go\<close>. An order owns a namespace, a service account and a role
  binding, which are written in this order, and follows the hosted cluster and the node
  pools that AAP creates in the namespace. Both handlers end by calling a webhook.
\<close>

record cluster_order_reconciler =
  cor_createClusterWebhook :: string
  cor_deleteClusterWebhook :: string
  cor_clusterOrderNamespace :: string
  cor_webhookClient :: webhook_client

definition newClusterOrderReconciler ::
    "string \<Rightarrow> string \<Rightarrow> string \<Rightarrow> duration \<Rightarrow> cluster_order_reconciler" where
  "newClusterOrderReconciler create delete ns interval =
     \<lparr>cor_createClusterWebhook = create, cor_deleteClusterWebhook = delete,
      cor_clusterOrderNamespace = (if ns = [] then defaultClusterOrderNamespace else ns),
      cor_webhookClient = newWebhookClient (10 * second) interval\<rparr>"

section \<open>Labels\<close>

definition commonLabelsFromOrder :: "cluster_order \<Rightarrow> string \<rightharpoonup> string" where
  "commonLabelsFromOrder co =
     [''app.kubernetes.io/name'' \<mapsto> cloudkitAppName, cloudkitClusterOrderNameLabel \<mapsto> om_name (co_meta co)]"

definition ensureCommonLabels :: "cluster_order \<Rightarrow> object_meta \<Rightarrow> object_meta" where
  "ensureCommonLabels co m = merge_labels (commonLabelsFromOrder co) m"

definition labelSelectorFromInstance :: "cluster_order \<Rightarrow> (string \<times> string) list" where
  "labelSelectorFromInstance co = [(cloudkitClusterOrderNameLabel, ClusterOrder_GetName co)]"

section \<open>The components\<close>

definition newNamespace :: "env \<Rightarrow> cluster_order \<Rightarrow> (go_error + string) act" where
  "newNamespace E co =
     do { l \<leftarrow> kc_list_namespaces E (labelSelectorFromInstance co);
          State_Monad.return (case l of
            Inl e \<Rightarrow> Inl e
          | Inr items \<Rightarrow>
              if length items > 1
              then Inl (Errorf (''found multiple matching namespaces for '' @ ClusterOrder_GetName co))
              else (case items of
                  [] \<Rightarrow> if generateNamespaceName co = []
                        then Inl (Errorf ''failed to generate namespace name'')
                        else Inr (generateNamespaceName co)
                | n # _ \<Rightarrow> Inr (om_name (ns_meta n)))) }"

definition order_namespace :: "cluster_order \<Rightarrow> string \<Rightarrow> namespace_obj" where
  "order_namespace co name = \<lparr>ns_meta = new_meta name [] (commonLabelsFromOrder co), ns_terminating = False\<rparr>"

definition mutate_namespace ::
    "string \<Rightarrow> namespace_obj \<Rightarrow> cluster_order \<Rightarrow> go_error + (namespace_obj \<times> cluster_order)" where
  "mutate_namespace name n co =
     Inr (n\<lparr>ns_meta := ensureCommonLabels co (ns_meta n)\<rparr>, SetClusterReferenceNamespace name co)"

definition newServiceAccount :: "cluster_order \<Rightarrow> go_error + service_account" where
  "newServiceAccount co =
     (if GetClusterReferenceNamespace co = []
      then Inl (Errorf ''unable to retrieve required information from spec.clusterReference'')
      else Inr \<lparr>sa_meta = new_meta defaultServiceAccountName (GetClusterReferenceNamespace co)
        (commonLabelsFromOrder co)\<rparr>)"

definition mutate_service_account ::
    "service_account \<Rightarrow> cluster_order \<Rightarrow> go_error + (service_account \<times> cluster_order)" where
  "mutate_service_account sa co =
     Inr (sa\<lparr>sa_meta := ensureCommonLabels co (sa_meta sa)\<rparr>,
          SetClusterReferenceServiceAccountName defaultServiceAccountName co)"

definition newAdminRoleBinding :: "cluster_order \<Rightarrow> go_error + role_binding" where
  "newAdminRoleBinding co =
     (if GetClusterReferenceNamespace co = [] \<or> GetClusterReferenceServiceAccountName co = []
      then Inl (Errorf ''unable to retrieve required information from spec.clusterReference'')
      else Inr \<lparr>rb_meta = new_meta defaultRoleBindingName (GetClusterReferenceNamespace co)
          (commonLabelsFromOrder co),
        rb_subjects = [], rb_roleRef = \<lparr>rr_apiGroup = [], rr_kind = [], rr_name = []\<rparr>\<rparr>)"

text \<open>The subject is fixed when the component is built, from the instance as it was then.\<close>

definition mutate_role_binding ::
    "string \<Rightarrow> string \<Rightarrow> role_binding \<Rightarrow> cluster_order \<Rightarrow> go_error + (role_binding \<times> cluster_order)" where
  "mutate_role_binding ns sa rb co =
     (let co' = SetClusterReferenceRoleBindingName defaultRoleBindingName co
      in Inr (rb\<lparr>rb_meta := ensureCommonLabels co' (rb_meta rb),
            rb_subjects := [\<lparr>subj_kind = ''ServiceAccount'', subj_name = sa, subj_namespace = ns\<rparr>],
            rb_roleRef := \<lparr>rr_apiGroup = ''rbac.authorization.k8s.io'', rr_kind = ''ClusterRole'',
              rr_name = ''admin''\<rparr>\<rparr>, co'))"

text \<open>One pass of the loop over the components: the instance it leaves, and the error.\<close>

definition component_namespace :: "env \<Rightarrow> cluster_order \<Rightarrow> (cluster_order \<times> go_error option) act" where
  "component_namespace E co =
     do { r \<leftarrow> newNamespace E co;
          case r of
            Inl e \<Rightarrow> State_Monad.return (co, Some e)
          | Inr name \<Rightarrow>
              do { c \<leftarrow> createOrUpdate KNamespace (fetch_namespace (kube E)) (commit_namespace (kube E))
                     (order_namespace co name) (mutate_namespace name) co;
                   State_Monad.return (snd (snd c), fst c) } }"

definition component_service_account :: "env \<Rightarrow> cluster_order \<Rightarrow> (cluster_order \<times> go_error option) act" where
  "component_service_account E co =
     (case newServiceAccount co of
        Inl e \<Rightarrow> State_Monad.return (co, Some e)
      | Inr sa \<Rightarrow>
          do { c \<leftarrow> createOrUpdate KServiceAccount (fetch_service_account (kube E))
                 (commit_service_account (kube E)) sa mutate_service_account co;
               State_Monad.return (snd (snd c), fst c) })"

definition component_role_binding :: "env \<Rightarrow> cluster_order \<Rightarrow> (cluster_order \<times> go_error option) act" where
  "component_role_binding E co =
     (case newAdminRoleBinding co of
        Inl e \<Rightarrow> State_Monad.return (co, Some e)
      | Inr rb \<Rightarrow>
          do { c \<leftarrow> createOrUpdate KRoleBinding (fetch_role_binding (kube E)) (commit_role_binding (kube E)) rb
                 (mutate_role_binding (GetClusterReferenceNamespace co)
                   (GetClusterReferenceServiceAccountName co)) co;
               State_Monad.return (snd (snd c), fst c) })"

definition components :: "env \<Rightarrow> (cluster_order \<Rightarrow> (cluster_order \<times> go_error option) act) list" where
  "components E = [component_namespace E, component_service_account E, component_role_binding E]"

fun run_components ::
    "('o \<Rightarrow> ('o \<times> go_error option) act) list \<Rightarrow> 'o \<Rightarrow> ('o \<times> go_error option) act" where
  "run_components [] co = State_Monad.return (co, None)"
| "run_components (c # cs) co =
     do { r \<leftarrow> c co;
          case snd r of
            Some e \<Rightarrow> State_Monad.return (fst r, Some e)
          | None \<Rightarrow> run_components cs (fst r) }"

section \<open>Conditions\<close>

definition co_initializeStatusCondition ::
    "env \<Rightarrow> string \<Rightarrow> cond_status \<Rightarrow> string \<Rightarrow> cluster_order \<Rightarrow> cluster_order act" where
  "co_initializeStatusCondition E t s reason co =
     (if findStatusCondition (lib E) t (co_conditions co) \<noteq> None then State_Monad.return co
      else do { cs \<leftarrow> set_condition E (mk_condition t s reason []) (co_conditions co);
                State_Monad.return (co_set_conditions cs co) })"

definition co_initializeStatusConditions :: "env \<Rightarrow> cluster_order \<Rightarrow> cluster_order act" where
  "co_initializeStatusConditions E co =
     do { c1 \<leftarrow> co_initializeStatusCondition E ConditionAccepted ConditionTrue ReasonInitialized co;
          c2 \<leftarrow> co_initializeStatusCondition E ConditionDeleting ConditionFalse ReasonInitialized c1;
          c3 \<leftarrow> co_initializeStatusCondition E ConditionProgressing ConditionTrue ReasonProgressing c2;
          c4 \<leftarrow> co_initializeStatusCondition E ConditionNamespaceCreated ConditionFalse ReasonInitialized c3;
          c5 \<leftarrow> co_initializeStatusCondition E ConditionControlPlaneCreated ConditionFalse ReasonInitialized c4;
          co_initializeStatusCondition E ConditionControlPlaneAvailable ConditionFalse ReasonInitialized c5 }"

text \<open>The other methods of an order on its conditions, which no handler calls.\<close>

definition co_RemoveStatusCondition :: "go_lib \<Rightarrow> string \<Rightarrow> cluster_order \<Rightarrow> bool \<times> cluster_order" where
  "co_RemoveStatusCondition L t co =
     (let (removed, cs) = removeStatusCondition L t (co_conditions co) in (removed, co_set_conditions cs co))"

definition co_IsStatusConditionFalse :: "go_lib \<Rightarrow> string \<Rightarrow> cluster_order \<Rightarrow> bool" where
  "co_IsStatusConditionFalse L t co = isStatusConditionFalse L (co_conditions co) t"

definition co_IsStatusConditionTrue :: "go_lib \<Rightarrow> string \<Rightarrow> cluster_order \<Rightarrow> bool" where
  "co_IsStatusConditionTrue L t co = isStatusConditionTrue L (co_conditions co) t"

lemma co_conditions_removed:
  assumes "condition_laws L" "co_RemoveStatusCondition L t co = (removed, co')"
  shows "\<not> co_IsStatusConditionTrue L t co'" "\<not> co_IsStatusConditionFalse L t co'"
    and "removed \<longleftrightarrow> findStatusCondition L t (co_conditions co) \<noteq> None"
    and "u \<noteq> t \<Longrightarrow> co_IsStatusConditionTrue L u co' = co_IsStatusConditionTrue L u co"
proof -
  have "removed = fst (removeStatusCondition L t (co_conditions co))"
      "co' = co_set_conditions (snd (removeStatusCondition L t (co_conditions co))) co"
    using assms(2) by (simp_all add: co_RemoveStatusCondition_def split_beta)
  then show "\<not> co_IsStatusConditionTrue L t co'" "\<not> co_IsStatusConditionFalse L t co'"
      "removed \<longleftrightarrow> findStatusCondition L t (co_conditions co) \<noteq> None"
      "u \<noteq> t \<Longrightarrow> co_IsStatusConditionTrue L u co' = co_IsStatusConditionTrue L u co"
    by (simp_all add: co_IsStatusConditionTrue_def co_IsStatusConditionFalse_def condition_simps [OF assms(1)]
        co_set_conditions_def)
qed

section \<open>The hosted cluster\<close>

definition co_findNamespace :: "env \<Rightarrow> cluster_order \<Rightarrow> (go_error + namespace_obj option) act" where
  "co_findNamespace E co =
     do { l \<leftarrow> kc_list_namespaces E (labelSelectorFromInstance co);
          State_Monad.return (case l of
            Inl e \<Rightarrow> Inl e
          | Inr items \<Rightarrow>
              if length items > 1
              then Inl (Errorf (''found too many ('' @ itoa (int (length items)) @
                '') matching namespaces for '' @ ClusterOrder_GetName co))
              else (case items of [] \<Rightarrow> Inr None | n # _ \<Rightarrow> Inr (Some n))) }"

definition findHostedCluster ::
    "env \<Rightarrow> cluster_order \<Rightarrow> string \<Rightarrow> (go_error + hosted_cluster option) act" where
  "findHostedCluster E co ns =
     do { l \<leftarrow> kc_list_hosted_clusters E ns (labelSelectorFromInstance co);
          State_Monad.return (case l of
            Inl e \<Rightarrow> Inl e
          | Inr items \<Rightarrow>
              if length items > 1
              then Inl (Errorf (''found too many ('' @ itoa (int (length items)) @
                '') matching hosted clusters for '' @ ClusterOrder_GetName co))
              else (case items of [] \<Rightarrow> Inr None | hc # _ \<Rightarrow> Inr (Some hc))) }"

definition hostedClusterControlPlaneIsAvailable :: "go_lib \<Rightarrow> hosted_cluster \<Rightarrow> bool" where
  "hostedClusterControlPlaneIsAvailable L hc \<longleftrightarrow>
     isStatusConditionTrue L (hc_conditions hc) ''Available'' \<and>
     isStatusConditionFalse L (hc_conditions hc) ''Degraded''"

definition hostedClusterIsReady :: "go_lib \<Rightarrow> hosted_cluster \<Rightarrow> bool" where
  "hostedClusterIsReady L hc \<longleftrightarrow>
     isStatusConditionTrue L (hc_conditions hc) ''ClusterVersionSucceeding'' \<and>
     isStatusConditionFalse L (hc_conditions hc) ''Degraded''"

text \<open>The last item of the status with the resource class wins: the loop does not stop early.\<close>

fun last_index :: "('a \<Rightarrow> bool) \<Rightarrow> 'a list \<Rightarrow> nat option" where
  "last_index p [] = None"
| "last_index p (x # xs) =
     (case last_index p xs of Some i \<Rightarrow> Some (Suc i) | None \<Rightarrow> if p x then Some 0 else None)"

definition co_set_status_nodes :: "node_request list \<Rightarrow> cluster_order \<Rightarrow> cluster_order" where
  "co_set_status_nodes ns co = co\<lparr>co_status := (co_status co)\<lparr>cost_nodeRequests := ns\<rparr>\<rparr>"

definition co_set_spec_nodes :: "node_request list \<Rightarrow> cluster_order \<Rightarrow> cluster_order" where
  "co_set_spec_nodes ns co = co\<lparr>co_spec := (co_spec co)\<lparr>cos_nodeRequests := ns\<rparr>\<rparr>"

definition handleNodePool :: "node_pool \<Rightarrow> cluster_order \<Rightarrow> cluster_order" where
  "handleNodePool np co =
     (case cos_nodeRequests (co_spec co) of
        [rq] \<Rightarrow>
          let cls = nr_resourceClass rq; sts = cost_nodeRequests (co_status co)
          in (case last_index (\<lambda>s. nr_resourceClass s = cls) sts of
                Some i \<Rightarrow> co_set_status_nodes (sts[i := (sts ! i)\<lparr>nr_numberOfNodes := np_replicas np\<rparr>]) co
              | None \<Rightarrow> co_set_spec_nodes
                  [rq, \<lparr>nr_resourceClass = cls, nr_numberOfNodes = np_replicas np\<rparr>] co)
      | _ \<Rightarrow> co)"

definition handleNodePools :: "node_pool list \<Rightarrow> cluster_order \<Rightarrow> cluster_order" where
  "handleNodePools nps co = fold handleNodePool nps co"

definition handleHostedCluster ::
    "env \<Rightarrow> hosted_cluster \<Rightarrow> cluster_order \<Rightarrow> (cluster_order \<times> go_error option) act" where
  "handleHostedCluster E hc co =
     do { c1 \<leftarrow> co_setStatusCondition E ConditionControlPlaneCreated ConditionTrue [] ReasonAsExpected
            (SetClusterReferenceHostedClusterName (om_name (hc_meta hc)) co);
          c2 \<leftarrow> (if hostedClusterControlPlaneIsAvailable (lib E) hc
            then do { c \<leftarrow> co_setStatusCondition E ConditionControlPlaneAvailable ConditionTrue []
                        ReasonAsExpected c1;
                      if hostedClusterIsReady (lib E) hc
                      then do { d \<leftarrow> co_setStatusCondition E ConditionClusterAvailable ConditionTrue []
                                  ReasonAsExpected c;
                                State_Monad.return (co_set_phase ClusterOrderPhaseReady d) }
                      else State_Monad.return c }
            else State_Monad.return c1);
          l \<leftarrow> kc_list_node_pools E (om_namespace (hc_meta hc)) (labelSelectorFromInstance c2);
          State_Monad.return (case l of
            Inl e \<Rightarrow> (c2, Some e)
          | Inr nps \<Rightarrow> (handleNodePools nps c2, None)) }"

section \<open>The webhooks\<close>

definition co_manual :: "cluster_order \<Rightarrow> bool" where
  "co_manual co \<longleftrightarrow> om_annotations (co_meta co) cloudkitManagementStateAnnotation = Some ManagementStateManual"

definition co_webhook ::
    "env \<Rightarrow> cluster_order_reconciler \<Rightarrow> string \<Rightarrow> cluster_order \<Rightarrow> cluster_order outcome act" where
  "co_webhook E r url co =
     (if url = [] \<or> co_manual co then State_Monad.return (Done co result_none None)
      else do { t \<leftarrow> triggerWebhook E (cor_webhookClient r) url (ResClusterOrder co);
                State_Monad.return (case t of
                    Panic s \<Rightarrow> Panicked s
                  | Error e \<Rightarrow> Done co requeue_now None
                  | Ok d \<Rightarrow> if d \<noteq> 0 then Done co (requeue_after d) None else Done co result_none None) })"

section \<open>handleUpdate\<close>

definition nil_dereference :: string where
  "nil_dereference = ''runtime error: invalid memory address or nil pointer dereference''"

definition co_update_cluster ::
    "env \<Rightarrow> cluster_order_reconciler \<Rightarrow> cluster_order \<Rightarrow> cluster_order outcome act" where
  "co_update_cluster E r co =
     do { ns \<leftarrow> co_findNamespace E co;
          case ns of
            Inl e \<Rightarrow> State_Monad.return (Done co result_none (Some e))
          | Inr None \<Rightarrow> State_Monad.return (Panicked nil_dereference)
          | Inr (Some n) \<Rightarrow>
              do { h \<leftarrow> findHostedCluster E co (om_name (ns_meta n));
                   case h of
                     Inr (Some hc) \<Rightarrow>
                       do { p \<leftarrow> handleHostedCluster E hc co;
                            case snd p of
                              Some e \<Rightarrow> State_Monad.return (Done (fst p) result_none (Some e))
                            | None \<Rightarrow> co_webhook E r (cor_createClusterWebhook r) (fst p) }
                   | _ \<Rightarrow> co_webhook E r (cor_createClusterWebhook r) co } }"

definition co_handleUpdate ::
    "env \<Rightarrow> cluster_order_reconciler \<Rightarrow> cluster_order \<Rightarrow> cluster_order outcome act" where
  "co_handleUpdate E r co =
     do { co0 \<leftarrow> co_initializeStatusConditions E co;
          let co1 = co_set_phase ClusterOrderPhaseProgressing co0;
              added = addFinalizer (lib E) (om_finalizers (co_meta co1)) cloudkitFinalizer;
              co2 = co_set_finalizers (snd added) co1
          in do { u \<leftarrow> (if fst added then kc_update_co E co2 else State_Monad.return (Inr co2));
                  case u of
                    Inl e \<Rightarrow> State_Monad.return (Done co2 result_none (Some e))
                  | Inr co3 \<Rightarrow>
                      do { p \<leftarrow> run_components (components E) co3;
                           case snd p of
                             Some e \<Rightarrow> State_Monad.return (Done (fst p) result_none (Some e))
                           | None \<Rightarrow>
                               do { co4 \<leftarrow> co_setStatusCondition E ConditionNamespaceCreated ConditionTrue []
                                      ReasonAsExpected (fst p);
                                    co_update_cluster E r co4 } } } }"

section \<open>handleDelete\<close>

definition co_release :: "env \<Rightarrow> cluster_order \<Rightarrow> (cluster_order \<times> go_error option) act" where
  "co_release E co =
     (if containsFinalizer (lib E) (om_finalizers (co_meta co)) cloudkitFinalizer
      then let removed = removeFinalizer (lib E) (om_finalizers (co_meta co)) cloudkitFinalizer;
               co1 = co_set_finalizers (snd removed) co
           in if fst removed
              then do { u \<leftarrow> kc_update_co E co1;
                        State_Monad.return (case u of Inl e \<Rightarrow> (co1, Some e) | Inr co2 \<Rightarrow> (co2, None)) }
              else State_Monad.return (co1, None)
      else State_Monad.return (co, None))"

definition co_delete_resources :: "env \<Rightarrow> cluster_order \<Rightarrow> (cluster_order \<times> go_error option) act" where
  "co_delete_resources E co =
     do { ns \<leftarrow> co_findNamespace E co;
          case ns of
            Inl e \<Rightarrow> State_Monad.return (co, Some e)
          | Inr (Some n) \<Rightarrow>
              do { h \<leftarrow> findHostedCluster E co (om_name (ns_meta n));
                   case h of
                     Inl e \<Rightarrow> State_Monad.return (co, Some e)
                   | Inr (Some hc) \<Rightarrow> State_Monad.return (co, None)
                   | Inr None \<Rightarrow> do { e \<leftarrow> kc_delete_namespace E n; State_Monad.return (co, e) } }
          | Inr None \<Rightarrow> co_release E co }"

definition co_handleDelete ::
    "env \<Rightarrow> cluster_order_reconciler \<Rightarrow> cluster_order \<Rightarrow> cluster_order outcome act" where
  "co_handleDelete E r co =
     do { p \<leftarrow> co_delete_resources E (co_set_phase ClusterOrderPhaseDeleting co);
          case snd p of
            Some e \<Rightarrow> State_Monad.return (Done (fst p) result_none (Some e))
          | None \<Rightarrow> co_webhook E r (cor_deleteClusterWebhook r) (fst p) }"

section \<open>Reconcile\<close>

definition co_unmanaged :: "cluster_order \<Rightarrow> bool" where
  "co_unmanaged co \<longleftrightarrow>
     om_annotations (co_meta co) cloudkitManagementStateAnnotation = Some ManagementStateUnmanaged"

definition co_handle :: "env \<Rightarrow> cluster_order_reconciler \<Rightarrow> cluster_order \<Rightarrow> cluster_order outcome act" where
  "co_handle E r co = (if deleting (co_meta co) then co_handleDelete E r co else co_handleUpdate E r co)"

definition co_Reconcile :: "env \<Rightarrow> cluster_order_reconciler \<Rightarrow> object_key \<Rightarrow> unit outcome act" where
  "co_Reconcile E r key =
     do { g \<leftarrow> kc_get_co E key;
          case g of
            Inl e \<Rightarrow> State_Monad.return (Done () result_none (ignore_not_found e))
          | Inr co \<Rightarrow>
              if co_unmanaged co then State_Monad.return (Done () result_none None)
              else do { out \<leftarrow> co_handle E r co;
                case out of
                  Panicked s \<Rightarrow> State_Monad.return (Panicked s)
                | Done co' res err \<Rightarrow>
                    if err = None \<and> co_status co' \<noteq> co_status co
                    then do { u \<leftarrow> kc_status_co E co';
                              State_Monad.return (case u of
                                  Inl e \<Rightarrow> Done () res (Some e)
                                | Inr _ \<Rightarrow> Done () res err) }
                    else State_Monad.return (Done () res err) } }"

section \<open>Which events concern the controller\<close>

definition NamespacePredicate :: "string \<Rightarrow> object_meta \<Rightarrow> bool" where
  "NamespacePredicate ns m \<longleftrightarrow> om_namespace m = ns"

definition mapObjectToCluster ::
    "env \<Rightarrow> cluster_order_reconciler \<Rightarrow> object_meta \<Rightarrow> object_key list act" where
  "mapObjectToCluster E r obj =
     (case om_labels obj cloudkitClusterOrderNameLabel of
        None \<Rightarrow> State_Monad.return []
      | Some name \<Rightarrow>
          let key = \<lparr>key_namespace = cor_clusterOrderNamespace r, key_name = name\<rparr>
          in do { g \<leftarrow> kc_get_co E key;
                  State_Monad.return (case g of Inl e \<Rightarrow> [] | Inr _ \<Rightarrow> [key]) })"


section \<open>Lemmas on the components\<close>

lemma commonLabels_reference [simp]:
  "commonLabelsFromOrder (SetClusterReferenceRoleBindingName n co) = commonLabelsFromOrder co"
  "commonLabelsFromOrder (SetClusterReferenceServiceAccountName n co) = commonLabelsFromOrder co"
  "commonLabelsFromOrder (SetClusterReferenceNamespace n co) = commonLabelsFromOrder co"
  by (simp_all add: commonLabelsFromOrder_def co_reference_defs)

text \<open>The name of the namespace of an order: the only one listed, or a generated one.\<close>

definition namespace_name :: "env \<Rightarrow> cluster_order \<Rightarrow> history \<Rightarrow> string \<Rightarrow> bool" where
  "namespace_name E co h name \<longleftrightarrow>
     (\<exists>items. list_namespaces (kube E) (labelSelectorFromInstance co) h = Inr items \<and>
        (items = [] \<and> name = generateNamespaceName co \<or> (\<exists>x. items = [x] \<and> name = om_name (ns_meta x))))"

lemma run_component_namespace:
  assumes "run_state (component_namespace E co) w = ((co', None), w')"
  obtains name n where "co' = SetClusterReferenceNamespace name co" "namespace_name E co (trace w) name"
    "wrote KNamespace (fetch_namespace (kube E)) (commit_namespace (kube E)) (order_namespace co name)
       (\<lambda>x. x\<lparr>ns_meta := merge_labels (commonLabelsFromOrder co) (ns_meta x)\<rparr>)
       (EvList KindNamespace None (labelSelectorFromInstance co) # trace w) n (trace w')"
proof -
  let ?l = "run_state (newNamespace E co) w"
  have l: "trace (snd ?l) = EvList KindNamespace None (labelSelectorFromInstance co) # trace w"
    by (simp add: newNamespace_def kc_defs State_Monad.return_def)
  obtain name where name: "fst ?l = Inr name"
    using assms by (cases "fst ?l") (auto simp: component_namespace_def State_Monad.return_def split_beta)
  have listed: "namespace_name E co (trace w) name"
    using name by (auto simp: newNamespace_def kc_defs State_Monad.return_def namespace_name_def length_Suc_conv
        not_less le_Suc_eq split: sum.splits if_splits list.splits)
  obtain err n co1 w1 where c: "run_state (createOrUpdate KNamespace (fetch_namespace (kube E))
      (commit_namespace (kube E)) (order_namespace co name) (mutate_namespace name) co) (snd ?l) = ((err, n, co1), w1)"
    by (metis surj_pair)
  have out: "co' = co1" "err = None" "w' = w1"
    using assms name c by (auto simp: component_namespace_def State_Monad.return_def split_beta)
  show thesis
    by (rule that [OF _ listed])
      (use run_createOrUpdate [OF c [unfolded out(2)], of "\<lambda>x. x\<lparr>ns_meta := merge_labels (commonLabelsFromOrder co) (ns_meta x)\<rparr>"
         "SetClusterReferenceNamespace name co"] out l in \<open>simp_all add: mutate_namespace_def ensureCommonLabels_def\<close>)
qed

lemma run_component_service_account:
  assumes "run_state (component_service_account E co) w = ((co', None), w')"
  obtains s where "co' = SetClusterReferenceServiceAccountName defaultServiceAccountName co"
    "GetClusterReferenceNamespace co \<noteq> []"
    "wrote KServiceAccount (fetch_service_account (kube E)) (commit_service_account (kube E))
       \<lparr>sa_meta = new_meta defaultServiceAccountName (GetClusterReferenceNamespace co) (commonLabelsFromOrder co)\<rparr>
       (\<lambda>x. x\<lparr>sa_meta := merge_labels (commonLabelsFromOrder co) (sa_meta x)\<rparr>) (trace w) s (trace w')"
proof -
  obtain sa where sa: "newServiceAccount co = Inr sa"
    using assms by (auto simp: component_service_account_def State_Monad.return_def split: sum.splits)
  then have some: "GetClusterReferenceNamespace co \<noteq> []" "sa =
      \<lparr>sa_meta = new_meta defaultServiceAccountName (GetClusterReferenceNamespace co) (commonLabelsFromOrder co)\<rparr>"
    by (auto simp: newServiceAccount_def split: if_splits)
  obtain err s co1 w1 where c: "run_state (createOrUpdate KServiceAccount (fetch_service_account (kube E))
      (commit_service_account (kube E)) sa mutate_service_account co) w = ((err, s, co1), w1)"
    by (metis surj_pair)
  have out: "co' = co1" "err = None" "w' = w1"
    using assms sa c by (auto simp: component_service_account_def State_Monad.return_def split_beta)
  show thesis
    by (rule that [OF _ some(1)])
      (use run_createOrUpdate [OF c [unfolded out(2)], of "\<lambda>x. x\<lparr>sa_meta := merge_labels (commonLabelsFromOrder co) (sa_meta x)\<rparr>"
         "SetClusterReferenceServiceAccountName defaultServiceAccountName co"] out some(2)
       in \<open>simp_all add: mutate_service_account_def ensureCommonLabels_def\<close>)
qed

lemma run_component_role_binding:
  assumes "run_state (component_role_binding E co) w = ((co', None), w')"
  obtains rb where "co' = SetClusterReferenceRoleBindingName defaultRoleBindingName co"
    "wrote KRoleBinding (fetch_role_binding (kube E)) (commit_role_binding (kube E))
       \<lparr>rb_meta = new_meta defaultRoleBindingName (GetClusterReferenceNamespace co) (commonLabelsFromOrder co),
        rb_subjects = [], rb_roleRef = \<lparr>rr_apiGroup = [], rr_kind = [], rr_name = []\<rparr>\<rparr>
       (\<lambda>x. x\<lparr>rb_meta := merge_labels (commonLabelsFromOrder co) (rb_meta x),
          rb_subjects := [\<lparr>subj_kind = ''ServiceAccount'', subj_name = GetClusterReferenceServiceAccountName co,
            subj_namespace = GetClusterReferenceNamespace co\<rparr>],
          rb_roleRef := \<lparr>rr_apiGroup = ''rbac.authorization.k8s.io'', rr_kind = ''ClusterRole'', rr_name = ''admin''\<rparr>\<rparr>)
       (trace w) rb (trace w')"
proof -
  obtain rb0 where rb0: "newAdminRoleBinding co = Inr rb0"
    using assms by (auto simp: component_role_binding_def State_Monad.return_def split: sum.splits)
  then have new: "rb0 = \<lparr>rb_meta = new_meta defaultRoleBindingName (GetClusterReferenceNamespace co)
        (commonLabelsFromOrder co), rb_subjects = [], rb_roleRef = \<lparr>rr_apiGroup = [], rr_kind = [], rr_name = []\<rparr>\<rparr>"
    by (auto simp: newAdminRoleBinding_def split: if_splits)
  let ?mutate = "mutate_role_binding (GetClusterReferenceNamespace co) (GetClusterReferenceServiceAccountName co)"
  let ?f = "\<lambda>x. x\<lparr>rb_meta := merge_labels (commonLabelsFromOrder co) (rb_meta x),
      rb_subjects := [\<lparr>subj_kind = ''ServiceAccount'', subj_name = GetClusterReferenceServiceAccountName co,
        subj_namespace = GetClusterReferenceNamespace co\<rparr>],
      rb_roleRef := \<lparr>rr_apiGroup = ''rbac.authorization.k8s.io'', rr_kind = ''ClusterRole'', rr_name = ''admin''\<rparr>\<rparr>"
  obtain err rb co1 w1 where c: "run_state (createOrUpdate KRoleBinding (fetch_role_binding (kube E))
      (commit_role_binding (kube E)) rb0 ?mutate co) w = ((err, rb, co1), w1)"
    by (metis surj_pair)
  have out: "co' = co1" "err = None" "w' = w1"
    using assms rb0 c by (auto simp: component_role_binding_def State_Monad.return_def split_beta)
  have mutate: "?mutate x co = Inr (?f x, SetClusterReferenceRoleBindingName defaultRoleBindingName co)" for x
    by (simp add: mutate_role_binding_def ensureCommonLabels_def Let_def)
  show thesis
    by (rule that) (use run_createOrUpdate [OF c [unfolded out(2)] mutate] out new in simp_all)
qed

text \<open>The loop stops at the first error.\<close>

lemma run_components_Cons_None:
  assumes "run_state (run_components (c # cs) co) w = ((co', None), w')"
  obtains co1 w1 where "run_state (c co) w = ((co1, None), w1)" "run_state (run_components cs co1) w1 = ((co', None), w')"
proof -
  obtain co1 e w1 where c: "run_state (c co) w = ((co1, e), w1)" by (metis surj_pair)
  then show thesis
    using assms that by (cases e) (auto simp: State_Monad.return_def)
qed

lemma run_components_Nil [simp]: "run_state (run_components [] co) w = ((co, None), w)"
  by (simp add: State_Monad.return_def)

lemma reference_frame [simp]:
  "co_meta (SetClusterReferenceNamespace n co) = co_meta co"
  "co_meta (SetClusterReferenceServiceAccountName n co) = co_meta co"
  "co_meta (SetClusterReferenceRoleBindingName n co) = co_meta co"
  "co_spec (SetClusterReferenceNamespace n co) = co_spec co"
  "co_spec (SetClusterReferenceServiceAccountName n co) = co_spec co"
  "co_spec (SetClusterReferenceRoleBindingName n co) = co_spec co"
  by (simp_all add: co_reference_defs)

lemmas reference_access = co_namespace_sa.a.get_set co_namespace_sa.b.get_set co_namespace_sa.get_other
  co_namespace_sa.get'_other co_rolebinding_hosted.a.get_set co_namespace_rolebinding.get_other


section \<open>The events of the handlers\<close>

lemma footprint_co_initialize [fp_intros]:
  "P EvNow \<Longrightarrow> footprint P (co_initializeStatusCondition E t s reason co)"
  "P EvNow \<Longrightarrow> footprint P (co_initializeStatusConditions E co)"
  unfolding co_initializeStatusConditions_def co_initializeStatusCondition_def by (intro fp_intros; simp)+

lemma footprint_components [fp_intros]:
  assumes "\<And>x. P (EvFetch x)" "\<And>x. P (EvCommit x)" "\<And>s. P (EvList KindNamespace None s)"
  shows "footprint P (run_components (components E) co)"
  unfolding components_def run_components.simps component_namespace_def component_service_account_def
    component_role_binding_def newNamespace_def
  by (intro fp_intros; simp add: assms)

lemma footprint_find [fp_intros]:
  "(\<And>s. P (EvList KindNamespace None s)) \<Longrightarrow> footprint P (co_findNamespace E co)"
  "(\<And>n s. P (EvList KindHostedCluster n s)) \<Longrightarrow> footprint P (findHostedCluster E co ns)"
  unfolding co_findNamespace_def findHostedCluster_def by (intro fp_intros; simp)+

lemma footprint_handleHostedCluster [fp_intros]:
  "P EvNow \<Longrightarrow> (\<And>n s. P (EvList KindNodePool n s)) \<Longrightarrow> footprint P (handleHostedCluster E hc co)"
  unfolding handleHostedCluster_def by (intro fp_intros; simp)+

lemma footprint_trigger [fp_intros]:
  "P EvNow \<Longrightarrow> (\<And>rq. hr_method rq = ''POST'' \<Longrightarrow> hr_url rq = url \<Longrightarrow> P (EvHttp rq)) \<Longrightarrow>
   footprint P (triggerWebhook E wc url x)"
  by (rule footprint_mono [OF footprint_triggerWebhook]) (auto simp: webhook_events_def)

lemma footprint_co_webhook:
  "P EvNow \<Longrightarrow>
   (\<And>rq. url \<noteq> [] \<Longrightarrow> \<not> co_manual co \<Longrightarrow> hr_method rq = ''POST'' \<Longrightarrow> hr_url rq = url \<Longrightarrow> P (EvHttp rq)) \<Longrightarrow>
   footprint P (co_webhook E r url co)"
  unfolding co_webhook_def
  by (cases "url = [] \<or> co_manual co") (auto intro!: fp_intros)

lemma footprint_release [fp_intros]: "(\<And>y. P (EvUpdate (KClusterOrder y))) \<Longrightarrow> footprint P (co_release E co)"
  unfolding co_release_def Let_def by (intro fp_intros; simp)

lemma footprint_delete_resources [fp_intros]:
  "(\<And>x. P (EvUpdate x)) \<Longrightarrow> (\<And>x. P (EvDelete x)) \<Longrightarrow> (\<And>k n s. P (EvList k n s)) \<Longrightarrow>
   footprint P (co_delete_resources E co)"
  unfolding co_delete_resources_def by (intro fp_intros; simp)

lemma footprint_co_handle: "footprint handler_event (co_handle E r co)"
  unfolding co_handle_def co_handleDelete_def co_handleUpdate_def co_update_cluster_def Let_def
  by (intro fp_intros footprint_co_webhook; simp)

lemma delete_resources_events:
  assumes "finalizer_laws (lib E)" "trace (snd (run_state (co_delete_resources E co) w)) = es @ trace w" "e \<in> set es"
  shows "(\<forall>x. e = EvDelete x \<longrightarrow> (\<exists>n h. x = KNamespace n \<and>
        list_namespaces (kube E) (labelSelectorFromInstance co) (trace w) = Inr [n] \<and>
        list_hosted_clusters (kube E) (om_name (ns_meta n)) (labelSelectorFromInstance co) h = Inr [])) \<and>
     (\<forall>x. e = EvUpdate x \<longrightarrow>
        list_namespaces (kube E) (labelSelectorFromInstance co) (trace w) = Inr [] \<and>
        (\<exists>y. x = KClusterOrder y \<and>
           set (om_finalizers (co_meta y)) = set (om_finalizers (co_meta co)) - {cloudkitFinalizer}))"
proof -
  let ?sel = "labelSelectorFromInstance co"
  let ?w1 = "w\<lparr>trace := EvList KindNamespace None ?sel # trace w\<rparr>"
  consider (err) err where "run_state (co_findNamespace E co) w = (Inl err, ?w1)"
    | (none) "run_state (co_findNamespace E co) w = (Inr None, ?w1)" "list_namespaces (kube E) ?sel (trace w) = Inr []"
    | (one) n where "run_state (co_findNamespace E co) w = (Inr (Some n), ?w1)"
        "list_namespaces (kube E) ?sel (trace w) = Inr [n]"
  proof (cases "list_namespaces (kube E) ?sel (trace w)")
    case (Inl e)
    then show thesis by (intro err) (simp add: co_findNamespace_def kc_defs State_Monad.return_def)
  next
    case (Inr items)
    show thesis
    proof (cases items rule: short_list)
      case empty
      with Inr show thesis by (intro none) (simp_all add: co_findNamespace_def kc_defs State_Monad.return_def)
    next
      case (single n)
      with Inr show thesis by (intro one) (simp_all add: co_findNamespace_def kc_defs State_Monad.return_def)
    next
      case (more n m ns)
      with Inr show thesis by (intro err) (simp add: co_findNamespace_def kc_defs State_Monad.return_def)
    qed
  qed
  then show ?thesis
  proof cases
    case err
    with assms(2,3) show ?thesis by (auto simp: co_delete_resources_def State_Monad.return_def)
  next
    case none
    with assms(2,3) show ?thesis
      by (auto simp: co_delete_resources_def co_release_def Let_def kc_defs State_Monad.return_def split_beta
          co_set_finalizers_def finalizer_simps [OF assms(1)] split: if_splits)
  next
    case (one n)
    let ?ns = "om_name (ns_meta n)"
    let ?h = "list_hosted_clusters (kube E) ?ns ?sel (trace ?w1)"
    show ?thesis
    proof (cases "?h = Inr []")
      case True
      with one assms(2,3) show ?thesis
        by (auto simp: co_delete_resources_def findHostedCluster_def kc_defs State_Monad.return_def)
    next
      case False
      then have "es = [EvList KindHostedCluster (Some ?ns) ?sel, EvList KindNamespace None ?sel]"
        using one assms(2)
        by (auto simp: co_delete_resources_def findHostedCluster_def kc_defs State_Monad.return_def
            split: sum.splits list.splits if_splits)
      with assms(3) show ?thesis by auto
    qed
  qed
qed

section \<open>Lemmas on node pools\<close>

lemma last_index_None: "last_index p xs = None \<longleftrightarrow> (\<forall>x \<in> set xs. \<not> p x)"
  by (induction xs) (auto split: option.splits)

lemma last_index_Some: "last_index p xs = Some i \<Longrightarrow> i < length xs \<and> p (xs ! i)"
  by (induction xs arbitrary: i) (auto split: option.splits if_splits)

lemma handleNodePools_id:
  "\<nexists>rq. cos_nodeRequests (co_spec co) = [rq] \<Longrightarrow> handleNodePools nps co = co"
  unfolding handleNodePools_def
  by (induction nps arbitrary: co) (auto simp: handleNodePool_def split: list.splits)

lemma handleNodePools_Nil: "handleNodePools [] co = co"
  by (simp add: handleNodePools_def)

lemma handleNodePool_known:
  assumes "cos_nodeRequests (co_spec co) = [rq]"
    and "nr_resourceClass rq \<in> nr_resourceClass ` set (cost_nodeRequests (co_status co))"
  shows "co_spec (handleNodePool np co) = co_spec co \<and>
     map nr_resourceClass (cost_nodeRequests (co_status (handleNodePool np co))) =
     map nr_resourceClass (cost_nodeRequests (co_status co))"
proof -
  let ?p = "\<lambda>s. nr_resourceClass s = nr_resourceClass rq"
  from assms(2) obtain i where i: "last_index ?p (cost_nodeRequests (co_status co)) = Some i"
    by (cases "last_index ?p (cost_nodeRequests (co_status co))") (auto simp: last_index_None)
  with last_index_Some [OF i] show ?thesis
    by (simp add: handleNodePool_def assms(1) Let_def co_set_status_nodes_def map_update list_update_same_conv)
qed

lemma handleNodePools_known:
  assumes "cos_nodeRequests (co_spec co) = [rq]"
    and "nr_resourceClass rq \<in> nr_resourceClass ` set (cost_nodeRequests (co_status co))"
  shows "co_spec (handleNodePools nps co) = co_spec co \<and>
     map nr_resourceClass (cost_nodeRequests (co_status (handleNodePools nps co))) =
     map nr_resourceClass (cost_nodeRequests (co_status co))"
  using assms
proof (induction nps arbitrary: co)
  case (Cons np nps)
  note step = handleNodePool_known [OF Cons.prems, of np]
  have "nr_resourceClass rq \<in> nr_resourceClass ` set (cost_nodeRequests (co_status (handleNodePool np co)))"
    using Cons.prems(2) step by (metis set_map)
  with Cons.IH [of "handleNodePool np co"] Cons.prems(1) step show ?case
    by (simp add: handleNodePools_def)
qed (simp add: handleNodePools_Nil)

lemma handleNodePools_new:
  assumes "cos_nodeRequests (co_spec co) = [rq]"
    and "nr_resourceClass rq \<notin> nr_resourceClass ` set (cost_nodeRequests (co_status co))"
  shows "handleNodePools (np # nps) co = co_set_spec_nodes
     [rq, \<lparr>nr_resourceClass = nr_resourceClass rq, nr_numberOfNodes = np_replicas np\<rparr>] co"
proof -
  have "last_index (\<lambda>s. nr_resourceClass s = nr_resourceClass rq) (cost_nodeRequests (co_status co)) = None"
    using assms(2) by (auto simp: last_index_None image_iff)
  then have "handleNodePool np co = co_set_spec_nodes
      [rq, \<lparr>nr_resourceClass = nr_resourceClass rq, nr_numberOfNodes = np_replicas np\<rparr>] co"
    by (simp add: handleNodePool_def assms(1) Let_def)
  then show ?thesis
    using handleNodePools_id [of "handleNodePool np co" nps] by (simp add: handleNodePools_def co_set_spec_nodes_def)
qed

section \<open>Sample orders\<close>

definition no_webhooks :: cluster_order_reconciler where
  "no_webhooks = newClusterOrderReconciler [] [] [] second"

definition finalized_co :: cluster_order where
  "finalized_co = co_set_finalizers [cloudkitFinalizer] sample_co"

lemma sample_co_components:
  "\<exists>co' w'. run_state (run_components (components ref_env) sample_co) empty_world = ((co', None), w')"
  by (simp add: components_def component_namespace_def component_service_account_def component_role_binding_def
      newNamespace_def newServiceAccount_def newAdminRoleBinding_def generateNamespaceName_def
      createOrUpdate_def kc_defs State_Monad.return_def ref_kube_def mutate_namespace_def
      mutate_service_account_def mutate_role_binding_def Let_def reference_access defaultServiceAccountName_def)

lemma finalized_co_deleted:
  "\<exists>y. run_state (co_handleDelete ref_env no_webhooks finalized_co) empty_world =
     (Done y result_none None, empty_world\<lparr>trace := [EvUpdate (KClusterOrder y),
        EvList KindNamespace None (labelSelectorFromInstance finalized_co)]\<rparr>)"
  by (simp add: co_handleDelete_def co_delete_resources_def co_findNamespace_def co_release_def Let_def
      kc_defs State_Monad.return_def ref_kube_def finalizer_simps [OF ref_finalizer_laws] finalized_co_def
      co_updates co_webhook_def no_webhooks_def newClusterOrderReconciler_def labelSelectorFromInstance_def
      ClusterOrder_GetName_def)

section \<open>What stays as it was\<close>

lemma co_initialize_one_keeps [simp]:
  "co_meta (fst (run_state (co_initializeStatusCondition E t s reason co) w)) = co_meta co"
  by (simp add: co_initializeStatusCondition_def State_Monad.return_def co_set_conditions_def)

lemma co_initialize_keeps: "co_meta (fst (run_state (co_initializeStatusConditions E co) w)) = co_meta co"
  by (simp only: co_initializeStatusConditions_def fst_run_bind co_initialize_one_keeps)

text \<open>What a successful loop over the components leaves: the order's metadata, and a written namespace.\<close>

lemma components_course:
  assumes "run_state (run_components (components E) co) w = ((co', None), w')"
  shows "co_meta co' = co_meta co" "\<exists>n es. trace w' = es @ trace w \<and> EvCommit (KNamespace n) \<in> set es"
proof -
  from assms obtain co1 w1 co2 w2 where
    1: "run_state (component_namespace E co) w = ((co1, None), w1)" and
    2: "run_state (component_service_account E co1) w1 = ((co2, None), w2)" and
    3: "run_state (component_role_binding E co2) w2 = ((co', None), w')"
    unfolding components_def by (elim run_components_Cons_None) simp
  obtain n es1 where n: "co_meta co1 = co_meta co" "trace w1 = EvCommit (KNamespace n) # es1 @ trace w"
    by (rule run_component_namespace [OF 1]) (auto dest: wrote_trace)
  obtain es2 where sa: "co_meta co2 = co_meta co1" "trace w2 = es2 @ trace w1"
    by (rule run_component_service_account [OF 2]) (auto dest: wrote_trace)
  obtain es3 where rb: "co_meta co' = co_meta co2" "trace w' = es3 @ trace w2"
    by (rule run_component_role_binding [OF 3]) (auto dest: wrote_trace)
  show "co_meta co' = co_meta co" using n sa rb by simp
  show "\<exists>n es. trace w' = es @ trace w \<and> EvCommit (KNamespace n) \<in> set es"
    by (intro exI [of _ n] exI [of _ "es3 @ es2 @ EvCommit (KNamespace n) # es1"]) (use n sa rb in simp)
qed

lemma handleNodePools_meta [simp]: "co_meta (handleNodePools nps co) = co_meta co"
  unfolding handleNodePools_def
  by (induction nps arbitrary: co)
    (auto simp: handleNodePool_def Let_def co_set_status_nodes_def co_set_spec_nodes_def split: list.split option.split)

lemma handleHostedCluster_meta [simp]:
  "co_meta (fst (fst (run_state (handleHostedCluster E hc co) w))) = co_meta co"
  by (auto simp: handleHostedCluster_def State_Monad.return_def split_beta kc_defs co_set_conditions_def
      co_set_phase_def co_reference_defs split: sum.split)

lemma co_set_phase_meta [simp]: "co_meta (co_set_phase p co) = co_meta co"
  by (simp add: co_set_phase_def)

lemma co_manual_meta: "om_annotations (co_meta c) = om_annotations (co_meta c') \<Longrightarrow> co_manual c = co_manual c'"
  by (simp add: co_manual_def)

text \<open>A request may be sent to one address, and only for one order.\<close>

definition announces :: "string \<Rightarrow> cluster_order \<Rightarrow> event \<Rightarrow> bool" where
  "announces url c e \<longleftrightarrow>
     (\<forall>rq. e = EvHttp rq \<longrightarrow> hr_method rq = ''POST'' \<and> hr_url rq = url \<and> url \<noteq> [] \<and> \<not> co_manual c)"

lemma announces_simps [simp]:
  "announces u c EvNow" "announces u c (EvGet k key)" "announces u c (EvList k n s)" "announces u c (EvUpdate x)"
  "announces u c (EvDelete x)" "announces u c (EvFetch x)" "announces u c (EvCommit x)"
  by (simp_all add: announces_def)

lemma footprint_announce:
  "om_annotations (co_meta c) = om_annotations (co_meta co) \<Longrightarrow> footprint (announces url c) (co_webhook E r url co)"
  by (rule footprint_co_webhook) (auto simp: announces_def co_manual_meta [of c co])

lemma footprint_update_cluster:
  assumes "om_annotations (co_meta c) = om_annotations (co_meta co)"
  shows "footprint (announces (cor_createClusterWebhook r) c) (co_update_cluster E r co)"
  unfolding co_update_cluster_def
proof (rule footprint_bind)
  fix ns :: "go_error + namespace_obj option"
  show "footprint (announces (cor_createClusterWebhook r) c) (case ns of
          Inl e \<Rightarrow> State_Monad.return (Done co result_none (Some e))
        | Inr None \<Rightarrow> State_Monad.return (Panicked nil_dereference)
        | Inr (Some n) \<Rightarrow>
            do { h \<leftarrow> findHostedCluster E co (om_name (ns_meta n));
                 case h of
                   Inr (Some hc) \<Rightarrow>
                     do { p \<leftarrow> handleHostedCluster E hc co;
                          case snd p of
                            Some e \<Rightarrow> State_Monad.return (Done (fst p) result_none (Some e))
                          | None \<Rightarrow> co_webhook E r (cor_createClusterWebhook r) (fst p) }
                 | _ \<Rightarrow> co_webhook E r (cor_createClusterWebhook r) co })"
    by (intro fp_intros footprint_bind_run [OF footprint_handleHostedCluster] footprint_announce)
      (simp_all add: assms)
qed (auto intro: fp_intros)

text \<open>The same for the order that was handled, or for what the API server made of it.\<close>

definition announced :: "env \<Rightarrow> string \<Rightarrow> cluster_order \<Rightarrow> event \<Rightarrow> bool" where
  "announced E url co e \<longleftrightarrow>
     (\<forall>rq. e = EvHttp rq \<longrightarrow> hr_method rq = ''POST'' \<and> hr_url rq = url \<and> url \<noteq> [] \<and>
        (\<exists>c. \<not> co_manual c \<and> (om_annotations (co_meta c) = om_annotations (co_meta co) \<or>
           (\<exists>y h. update_cluster_order (kube E) y h = Inr c))))"

lemma announced_simps [simp]:
  "announced E u c EvNow" "announced E u c (EvGet k key)" "announced E u c (EvList k n s)"
  "announced E u c (EvUpdate x)" "announced E u c (EvDelete x)" "announced E u c (EvFetch x)"
  "announced E u c (EvCommit x)"
  by (simp_all add: announced_def)

lemma announces_announced:
  assumes "footprint (announces url c) m"
    and "om_annotations (co_meta c) = om_annotations (co_meta co) \<or> (\<exists>y h. update_cluster_order (kube E) y h = Inr c)"
  shows "footprint (announced E url co) m"
  using assms(1) by (rule footprint_mono) (use assms(2) in \<open>auto simp: announces_def announced_def\<close>)

lemma footprint_components_then:
  assumes "om_annotations (co_meta c) = om_annotations (co_meta co) \<or> (\<exists>y h. update_cluster_order (kube E) y h = Inr c)"
  shows "footprint (announced E (cor_createClusterWebhook r) co)
     (do { p \<leftarrow> run_components (components E) c;
           case snd p of
             Some e \<Rightarrow> State_Monad.return (Done (fst p) result_none (Some e))
           | None \<Rightarrow>
               do { co4 \<leftarrow> co_setStatusCondition E ConditionNamespaceCreated ConditionTrue []
                      ReasonAsExpected (fst p);
                    co_update_cluster E r co4 } })"
proof (rule footprint_bind_run)
  fix w
  let ?p = "run_state (run_components (components E) c) w"
  show "footprint (announced E (cor_createClusterWebhook r) co) (case snd (fst ?p) of
             Some e \<Rightarrow> State_Monad.return (Done (fst (fst ?p)) result_none (Some e))
           | None \<Rightarrow>
               do { co4 \<leftarrow> co_setStatusCondition E ConditionNamespaceCreated ConditionTrue []
                      ReasonAsExpected (fst (fst ?p));
                    co_update_cluster E r co4 })"
  proof (cases "snd (fst ?p)")
    case None
    then have "?p = ((fst (fst ?p), None), snd ?p)" by (simp add: prod_eq_iff)
    then have "co_meta (fst (fst ?p)) = co_meta c" by (rule components_course)
    then have "footprint (announced E (cor_createClusterWebhook r) co) (co_update_cluster E r
        (fst (run_state (co_setStatusCondition E t s m reason (fst (fst ?p))) w)))" for t s m reason w
      by (intro announces_announced [OF footprint_update_cluster assms]) (simp add: co_set_conditions_def)
    with None show ?thesis by (simp add: footprint_bind_run [OF footprint_setStatusCondition(2)])
  qed (auto intro: fp_intros)
qed (auto intro: fp_intros)

lemma update_answer:
  "fst (run_state (if b then kc_update_co E c else State_Monad.return (Inr c)) w) = Inr c' \<Longrightarrow>
   c' = c \<or> (\<exists>y h. update_cluster_order (kube E) y h = Inr c')"
  by (auto simp: kc_defs State_Monad.return_def split: if_splits)

lemma footprint_announced_update:
  "footprint (announced E (cor_createClusterWebhook r) co) (co_handleUpdate E r co)"
  unfolding co_handleUpdate_def Let_def
proof (intro footprint_bind_run, goal_cases)
  case (3 w w')
  let ?i = "fst (run_state (co_initializeStatusConditions E co) w)"
  let ?c = "co_set_finalizers (snd (addFinalizer (lib E) (om_finalizers (co_meta (co_set_phase
      ClusterOrderPhaseProgressing ?i))) cloudkitFinalizer)) (co_set_phase ClusterOrderPhaseProgressing ?i)"
  have "om_annotations (co_meta ?c) = om_annotations (co_meta co)"
    by (simp add: co_initialize_keeps co_set_finalizers_def)
  then have c: "om_annotations (co_meta c) = om_annotations (co_meta co) \<or>
      (\<exists>y h. update_cluster_order (kube E) y h = Inr c)"
    if "fst (run_state (if b then kc_update_co E ?c else State_Monad.return (Inr ?c)) v) = Inr c" for b v c
    using update_answer [OF that] by auto
  show ?case
    by (split sum.split) (intro conjI allI impI footprint_return footprint_components_then c)
qed (intro fp_intros; simp)+

lemma footprint_announced_delete:
  "footprint (announced E (cor_deleteClusterWebhook r) co) (co_handleDelete E r co)"
  unfolding co_handleDelete_def
proof (rule footprint_bind_run)
  fix w
  let ?p = "run_state (co_delete_resources E (co_set_phase ClusterOrderPhaseDeleting co)) w"
  show "footprint (announced E (cor_deleteClusterWebhook r) co) (case snd (fst ?p) of
          Some e \<Rightarrow> State_Monad.return (Done (fst (fst ?p)) result_none (Some e))
        | None \<Rightarrow> co_webhook E r (cor_deleteClusterWebhook r) (fst (fst ?p)))"
  proof (cases "snd (fst ?p)")
    case None
    then have "om_annotations (co_meta (fst (fst ?p))) = om_annotations (co_meta co) \<or>
        (\<exists>y h. update_cluster_order (kube E) y h = Inr (fst (fst ?p)))"
      by (auto simp: co_delete_resources_def co_release_def Let_def State_Monad.return_def split_beta kc_defs
          co_set_finalizers_def split: sum.splits option.splits if_splits)
    with None show ?thesis by (simp add: announces_announced [OF footprint_announce])
  qed (auto intro: fp_intros)
qed (intro fp_intros; simp)

section \<open>Properties\<close>

text \<open>C30: the components of an order are written in order. When the loop over them ends without
  an error, it has listed the namespaces with the label of the order and then written, in this
  order and nothing else, the namespace, the service account \<open>cloudkit\<close> in it and the role binding
  in it, whose only subject is that service account in that namespace and whose role is the
  cluster role \<open>admin\<close>. The namespace is the only one that was listed, or, if none was, the one
  of the generated name. Each of the three was looked up first; what was found, or the new
  object, was sent with the two labels of the order set and nothing else changed (but for
  the subjects and the role of the binding), and the API server accepted it. The reference in
  the status names the three, with the metadata and the spec of the order as they were.\<close>

theorem co_components_written:
  assumes "run_state (run_components (components E) co) w = ((co', None), w')"
    and "L = [''app.kubernetes.io/name'' \<mapsto> cloudkitAppName, cloudkitClusterOrderNameLabel \<mapsto> om_name (co_meta co)]"
  shows "\<exists>name n sa rb h1 h2. namespace_name E co (trace w) name \<and> name \<noteq> [] \<and>
     wrote KNamespace (fetch_namespace (kube E)) (commit_namespace (kube E))
       \<lparr>ns_meta = new_meta name [] L, ns_terminating = False\<rparr> (\<lambda>x. x\<lparr>ns_meta := merge_labels L (ns_meta x)\<rparr>)
       (EvList KindNamespace None [(cloudkitClusterOrderNameLabel, om_name (co_meta co))] # trace w) n h1 \<and>
     wrote KServiceAccount (fetch_service_account (kube E)) (commit_service_account (kube E))
       \<lparr>sa_meta = new_meta defaultServiceAccountName name L\<rparr> (\<lambda>x. x\<lparr>sa_meta := merge_labels L (sa_meta x)\<rparr>) h1 sa h2 \<and>
     wrote KRoleBinding (fetch_role_binding (kube E)) (commit_role_binding (kube E))
       \<lparr>rb_meta = new_meta defaultRoleBindingName name L, rb_subjects = [],
        rb_roleRef = \<lparr>rr_apiGroup = [], rr_kind = [], rr_name = []\<rparr>\<rparr>
       (\<lambda>x. x\<lparr>rb_meta := merge_labels L (rb_meta x),
          rb_subjects := [\<lparr>subj_kind = ''ServiceAccount'', subj_name = defaultServiceAccountName, subj_namespace = name\<rparr>],
          rb_roleRef := \<lparr>rr_apiGroup = ''rbac.authorization.k8s.io'', rr_kind = ''ClusterRole'', rr_name = ''admin''\<rparr>\<rparr>)
       h2 rb (trace w') \<and>
     GetClusterReferenceNamespace co' = name \<and>
     GetClusterReferenceServiceAccountName co' = defaultServiceAccountName \<and>
     GetClusterReferenceRoleBindingName co' = defaultRoleBindingName \<and>
     co_meta co' = co_meta co \<and> co_spec co' = co_spec co"
proof -
  from assms(1) obtain co1 w1 co2 w2 where
    1: "run_state (component_namespace E co) w = ((co1, None), w1)" and
    2: "run_state (component_service_account E co1) w1 = ((co2, None), w2)" and
    3: "run_state (component_role_binding E co2) w2 = ((co', None), w')"
    unfolding components_def by (elim run_components_Cons_None) simp
  have L: "commonLabelsFromOrder co = L" by (simp add: commonLabelsFromOrder_def assms(2))
  obtain name n where n: "co1 = SetClusterReferenceNamespace name co" "namespace_name E co (trace w) name"
    "wrote KNamespace (fetch_namespace (kube E)) (commit_namespace (kube E)) (order_namespace co name)
       (\<lambda>x. x\<lparr>ns_meta := merge_labels L (ns_meta x)\<rparr>)
       (EvList KindNamespace None (labelSelectorFromInstance co) # trace w) n (trace w1)"
    using run_component_namespace [OF 1] unfolding L .
  have same: "commonLabelsFromOrder co1 = L" "GetClusterReferenceNamespace co1 = name"
    by (simp_all add: n(1) L reference_access)
  obtain sa where sa: "co2 = SetClusterReferenceServiceAccountName defaultServiceAccountName co1" "name \<noteq> []"
    "wrote KServiceAccount (fetch_service_account (kube E)) (commit_service_account (kube E))
       \<lparr>sa_meta = new_meta defaultServiceAccountName name L\<rparr>
       (\<lambda>x. x\<lparr>sa_meta := merge_labels L (sa_meta x)\<rparr>) (trace w1) sa (trace w2)"
    using run_component_service_account [OF 2] unfolding same .
  have same2: "commonLabelsFromOrder co2 = L" "GetClusterReferenceNamespace co2 = name"
      "GetClusterReferenceServiceAccountName co2 = defaultServiceAccountName"
    by (simp_all add: n(1) sa(1) L reference_access)
  obtain rb where rb: "co' = SetClusterReferenceRoleBindingName defaultRoleBindingName co2"
    "wrote KRoleBinding (fetch_role_binding (kube E)) (commit_role_binding (kube E))
       \<lparr>rb_meta = new_meta defaultRoleBindingName name L, rb_subjects = [],
        rb_roleRef = \<lparr>rr_apiGroup = [], rr_kind = [], rr_name = []\<rparr>\<rparr>
       (\<lambda>x. x\<lparr>rb_meta := merge_labels L (rb_meta x),
          rb_subjects := [\<lparr>subj_kind = ''ServiceAccount'', subj_name = defaultServiceAccountName, subj_namespace = name\<rparr>],
          rb_roleRef := \<lparr>rr_apiGroup = ''rbac.authorization.k8s.io'', rr_kind = ''ClusterRole'', rr_name = ''admin''\<rparr>\<rparr>)
       (trace w2) rb (trace w')"
    using run_component_role_binding [OF 3] unfolding same2 .
  have refs: "GetClusterReferenceNamespace co' = name"
      "GetClusterReferenceServiceAccountName co' = defaultServiceAccountName"
      "GetClusterReferenceRoleBindingName co' = defaultRoleBindingName" "co_meta co' = co_meta co" "co_spec co' = co_spec co"
    by (simp_all add: rb(1) sa(1) n(1) co_reference_defs)
  show ?thesis
    using n(2) n(3) [unfolded order_namespace_def L labelSelectorFromInstance_def ClusterOrder_GetName_def] sa(2,3) rb(2) refs
    by blast
qed

theorem co_components_written_witness:
  "\<exists>co' w'. run_state (run_components (components ref_env) sample_co) empty_world = ((co', None), w') \<and>
     GetClusterReferenceServiceAccountName co' = defaultServiceAccountName"
proof -
  obtain co' w' where run: "run_state (run_components (components ref_env) sample_co) empty_world = ((co', None), w')"
    using sample_co_components by blast
  from co_components_written [OF run refl] run show ?thesis by blast
qed

text \<open>C29: an order is taken down in order. Its namespace is deleted only when it is the one
  namespace that carries the order's label and no hosted cluster is left in it; the finalizer
  is removed, and no other, only when no namespace carries the label any more.\<close>

theorem co_deleted_in_order:
  assumes "finalizer_laws (lib E)" "run_state (co_handleDelete E r co) w = (out, w')"
    and "trace w' = es @ trace w" "e \<in> set es"
  shows "(\<forall>x. e = EvDelete x \<longrightarrow> (\<exists>n h. x = KNamespace n \<and>
        list_namespaces (kube E) (labelSelectorFromInstance co) (trace w) = Inr [n] \<and>
        list_hosted_clusters (kube E) (om_name (ns_meta n)) (labelSelectorFromInstance co) h = Inr [])) \<and>
     (\<forall>x. e = EvUpdate x \<longrightarrow>
        list_namespaces (kube E) (labelSelectorFromInstance co) (trace w) = Inr [] \<and>
        (\<exists>y. x = KClusterOrder y \<and>
           set (om_finalizers (co_meta y)) = set (om_finalizers (co_meta co)) - {cloudkitFinalizer}))"
proof -
  let ?co = "co_set_phase ClusterOrderPhaseDeleting co"
  let ?p = "run_state (co_delete_resources E ?co) w"
  have same: "labelSelectorFromInstance ?co = labelSelectorFromInstance co" "co_meta ?co = co_meta co"
    by (simp_all add: labelSelectorFromInstance_def ClusterOrder_GetName_def co_set_phase_def)
  obtain es1 where es1: "trace (snd ?p) = es1 @ trace w"
    by (rule footprintD [OF footprint_delete_resources surjective_pairing, of "\<lambda>_. True"]) auto
  have "footprint (\<lambda>e. (\<forall>x. e \<noteq> EvDelete x) \<and> (\<forall>x. e \<noteq> EvUpdate x)) (co_webhook E r (cor_deleteClusterWebhook r) c)" for c
    by (rule footprint_co_webhook) simp_all
  note webhook = footprintD [OF this surjective_pairing]
  obtain es2 where es2: "trace w' = es2 @ trace (snd ?p)" "\<forall>e \<in> set es2. (\<forall>x. e \<noteq> EvDelete x) \<and> (\<forall>x. e \<noteq> EvUpdate x)"
  proof (cases "snd (fst ?p)")
    case (Some err)
    with assms(2) that [of "[]"] show thesis by (simp add: co_handleDelete_def State_Monad.return_def split_beta)
  next
    case None
    then have "w' = snd (run_state (co_webhook E r (cor_deleteClusterWebhook r) (fst (fst ?p))) (snd ?p))"
      using assms(2) by (simp add: co_handleDelete_def split_beta)
    with webhook [of "fst (fst ?p)" "snd ?p"] that show thesis by metis
  qed
  with es1 assms(3,4) consider "e \<in> set es1" | "(\<forall>x. e \<noteq> EvDelete x) \<and> (\<forall>x. e \<noteq> EvUpdate x)" by auto
  then show ?thesis
  proof cases
    case 1
    then show ?thesis
      using delete_resources_events [OF assms(1) es1 1] by (simp only: same)
  qed blast
qed

theorem co_deleted_in_order_witness:
  "\<exists>y. run_state (co_handleDelete ref_env no_webhooks finalized_co) empty_world =
       (Done y result_none None, empty_world\<lparr>trace := [EvUpdate (KClusterOrder y),
          EvList KindNamespace None (labelSelectorFromInstance finalized_co)]\<rparr>) \<and>
     set (om_finalizers (co_meta y)) = {}"
proof -
  obtain y where run: "run_state (co_handleDelete ref_env no_webhooks finalized_co) empty_world =
      (Done y result_none None, empty_world\<lparr>trace := [EvUpdate (KClusterOrder y),
         EvList KindNamespace None (labelSelectorFromInstance finalized_co)]\<rparr>)"
    using finalized_co_deleted by blast
  from co_deleted_in_order [OF _ run, of _ "EvUpdate (KClusterOrder y)"]
  have "set (om_finalizers (co_meta y)) = {}" by (simp add: ref_finalizer_laws finalized_co_def co_updates)
  with run show ?thesis by blast
qed

text \<open>Node pools do not get into the status of an order. Whatever pools are found, the
  status keeps its node requests and their classes, only the numbers change. An order with one
  node request whose class is not in the status gets the number of the first pool appended to
  its spec instead, which is not written back, and every further pool is ignored.\<close>

theorem co_node_pools_miss_status:
  "map nr_resourceClass (cost_nodeRequests (co_status (handleNodePools nps co))) =
     map nr_resourceClass (cost_nodeRequests (co_status co)) \<and>
   (case (cos_nodeRequests (co_spec co), nps) of
      ([rq], np # _) \<Rightarrow>
        if nr_resourceClass rq \<in> nr_resourceClass ` set (cost_nodeRequests (co_status co))
        then cos_nodeRequests (co_spec (handleNodePools nps co)) = [rq]
        else handleNodePools nps co = co_set_spec_nodes
          [rq, \<lparr>nr_resourceClass = nr_resourceClass rq, nr_numberOfNodes = np_replicas np\<rparr>] co
    | _ \<Rightarrow> handleNodePools nps co = co)"
proof (cases "\<exists>rq. cos_nodeRequests (co_spec co) = [rq]")
  case False
  then show ?thesis by (simp add: handleNodePools_id split: list.split)
next
  case True
  then obtain rq where rq: "cos_nodeRequests (co_spec co) = [rq]" by blast
  show ?thesis
  proof (cases "nr_resourceClass rq \<in> nr_resourceClass ` set (cost_nodeRequests (co_status co))")
    case True
    then show ?thesis
      using handleNodePools_known [OF rq True, of nps] True by (cases nps) (simp_all add: rq handleNodePools_Nil)
  next
    case False
    then show ?thesis
      by (cases nps) (simp_all add: rq handleNodePools_Nil handleNodePools_new co_set_spec_nodes_def)
  qed
qed

text \<open>The status of an order is written only after its handler has returned without an error:
  the order was read and is not unmanaged, and what is written is the order as the handler
  left it, with a status that differs from the one that was read. So whatever the handler puts
  into the status on a path that ends in an error, the phase included, is lost.\<close>

theorem co_status_written_on_success:
  assumes "run_state (co_Reconcile E r key) w = (out, w')"
    and "trace w' = es @ trace w" "EvStatusUpdate x \<in> set es"
  shows "\<exists>co co' res.
     get_cluster_order (kube E) key (trace w) = Inr co \<and> \<not> co_unmanaged co \<and>
     fst (run_state (co_handle E r co) (w\<lparr>trace := EvGet KindClusterOrder key # trace w\<rparr>)) = Done co' res None \<and>
     co_status co' \<noteq> co_status co \<and> x = KClusterOrder co'"
proof -
  let ?w1 = "w\<lparr>trace := EvGet KindClusterOrder key # trace w\<rparr>"
  have quiet: "False" if "trace w' = es' @ trace w" "\<forall>e \<in> set es'. handler_event e" for es'
    using that assms(2,3) by auto
  obtain co where co: "get_cluster_order (kube E) key (trace w) = Inr co" "\<not> co_unmanaged co"
    using assms(1) quiet [of "[EvGet KindClusterOrder key]"]
    by (cases "get_cluster_order (kube E) key (trace w)")
      (auto simp: co_Reconcile_def kc_defs State_Monad.return_def split: if_splits)
  let ?h = "run_state (co_handle E r co) ?w1"
  obtain es1 where es1: "trace (snd ?h) = es1 @ trace ?w1" "\<forall>e \<in> set es1. handler_event e"
    by (rule footprintD [OF footprint_co_handle surjective_pairing])
  have loud: "trace w' \<noteq> trace (snd ?h)" using quiet [of "es1 @ [EvGet KindClusterOrder key]"] es1 by auto
  then obtain co' res where out: "fst ?h = Done co' res None" "co_status co' \<noteq> co_status co"
      "trace w' = EvStatusUpdate (KClusterOrder co') # trace (snd ?h)"
    using assms(1) co
    by (auto simp: co_Reconcile_def kc_defs State_Monad.return_def split_beta split: outcome.splits if_splits)
  with es1 assms(2,3) have "x = KClusterOrder co'" by fastforce
  with co out show ?thesis by blast
qed

text \<open>An order that is being deleted and holds no finalizer; the status update is all that is left.\<close>

definition gone_co :: cluster_order where
  "gone_co = sample_co\<lparr>co_meta := sample_meta\<lparr>om_deletionTimestamp := Some 7\<rparr>\<rparr>"

definition gone_co_env :: env where
  "gone_co_env = ref_env\<lparr>kube := ref_kube\<lparr>get_cluster_order := (\<lambda>k h. Inr gone_co)\<rparr>\<rparr>"

definition gone_co_events :: "event list" where
  "gone_co_events = [EvStatusUpdate (KClusterOrder (co_set_phase ClusterOrderPhaseDeleting gone_co)),
     EvList KindNamespace None (labelSelectorFromInstance gone_co), EvGet KindClusterOrder (key_of sample_meta)]"

lemma gone_co_run:
  "run_state (co_Reconcile gone_co_env no_webhooks (key_of sample_meta)) empty_world =
     (Done () result_none None, empty_world\<lparr>trace := gone_co_events\<rparr>)"
proof -
  have env: "lib gone_co_env = ref_lib" "get_cluster_order (kube gone_co_env) k h = Inr gone_co"
      "update_cluster_order_status (kube gone_co_env) x h = Inr x" "list_namespaces (kube gone_co_env) s h = Inr []" for k h x s
    by (simp_all add: gone_co_env_def ref_kube_def)
  have co: "deleting (co_meta gone_co)" "\<not> co_unmanaged gone_co" "om_finalizers (co_meta gone_co) = []"
      "co_status (co_set_phase ClusterOrderPhaseDeleting gone_co) \<noteq> co_status gone_co"
      "co_meta (co_set_phase ClusterOrderPhaseDeleting gone_co) = co_meta gone_co"
    by (simp_all add: gone_co_def sample_co_def sample_meta_def new_meta_def deleting_def is_zero_time_def zero_time_def
        co_unmanaged_def co_set_phase_def)
  then show ?thesis
    by (simp add: co_Reconcile_def co_handle_def co_handleDelete_def co_delete_resources_def co_findNamespace_def
        co_release_def kc_defs env State_Monad.return_def finalizer_simps [OF ref_finalizer_laws] co_webhook_def
        no_webhooks_def newClusterOrderReconciler_def labelSelectorFromInstance_def ClusterOrder_GetName_def
        gone_co_events_def)
qed

theorem co_status_written_on_success_witness:
  "\<exists>co' res. fst (run_state (co_handle gone_co_env no_webhooks gone_co)
       (empty_world\<lparr>trace := [EvGet KindClusterOrder (key_of sample_meta)]\<rparr>)) = Done co' res None \<and>
     co_status co' \<noteq> co_status gone_co"
  using co_status_written_on_success [OF gone_co_run, of gone_co_events
      "KClusterOrder (co_set_phase ClusterOrderPhaseDeleting gone_co)"]
  by (auto simp: gone_co_env_def gone_co_events_def)

text \<open>\<open>handleUpdate\<close> after the components, with an empty list of namespaces.\<close>

lemma unlisted_panics:
  assumes "list_namespaces (kube E) (labelSelectorFromInstance co) (EvNow # trace w) = Inr []"
  shows "fst (run_state (do { co' \<leftarrow> co_setStatusCondition E t s m reason co; co_update_cluster E r co' }) w) =
     Panicked nil_dereference"
proof -
  have "labelSelectorFromInstance (co_set_conditions cs co) = labelSelectorFromInstance co" for cs
    by (simp add: labelSelectorFromInstance_def ClusterOrder_GetName_def co_set_conditions_def)
  with assms show ?thesis
    by (simp add: co_update_cluster_def co_findNamespace_def kc_defs State_Monad.return_def)
qed

text \<open>C37: the update of an order never succeeds when the list of the order's namespaces, read after
  the namespace has been written in the same reconciliation, is still empty: it returns an
  error, or it dereferences the nil that \<open>findNamespace\<close> returns for an empty list. This is what happens
  to a new order, with or without its finalizer, when the list comes from a cache that lags
  behind. The API server is taken not to rename an order in its answer to an update.\<close>

theorem co_update_needs_listed_namespace:
  assumes "\<forall>es n. EvCommit (KNamespace n) \<in> set es \<longrightarrow>
      list_namespaces (kube E) (labelSelectorFromInstance co) (es @ trace w) = Inr []"
    and "\<forall>y h c. update_cluster_order (kube E) y h = Inr c \<longrightarrow> ClusterOrder_GetName c = ClusterOrder_GetName y"
  shows "fst (run_state (co_handleUpdate E r co) w) = Panicked nil_dereference \<or>
     (\<exists>co' res e. fst (run_state (co_handleUpdate E r co) w) = Done co' res (Some e))"
proof -
  let ?i = "run_state (co_initializeStatusConditions E co) w"
  let ?added = "addFinalizer (lib E) (om_finalizers (co_meta (co_set_phase ClusterOrderPhaseProgressing (fst ?i)))) cloudkitFinalizer"
  let ?c = "co_set_finalizers (snd ?added) (co_set_phase ClusterOrderPhaseProgressing (fst ?i))"
  let ?upd = "if fst ?added then kc_update_co E ?c else State_Monad.return (Inr ?c)"
  let ?u = "run_state ?upd (snd ?i)"
  obtain es1 where es1: "trace (snd ?i) = es1 @ trace w"
    by (rule footprintD [OF footprint_co_initialize(2) surjective_pairing, of "\<lambda>_. True"]) simp
  have "footprint (\<lambda>_. True) ?upd" by (intro fp_intros; simp)
  then obtain es2 where es2: "trace (snd ?u) = es2 @ trace (snd ?i)" by (rule footprintD [OF _ surjective_pairing])
  have start: "run_state (co_handleUpdate E r co) w = run_state (case fst ?u of
        Inl e \<Rightarrow> State_Monad.return (Done ?c result_none (Some e))
      | Inr co3 \<Rightarrow> do { p \<leftarrow> run_components (components E) co3;
          case snd p of
            Some e \<Rightarrow> State_Monad.return (Done (fst p) result_none (Some e))
          | None \<Rightarrow> do { co4 \<leftarrow> co_setStatusCondition E ConditionNamespaceCreated ConditionTrue [] ReasonAsExpected (fst p);
                      co_update_cluster E r co4 } }) (snd ?u)"
    by (simp only: co_handleUpdate_def run_bind_split Let_def)
  show ?thesis
  proof (cases "fst ?u")
    case (Inl e)
    with start show ?thesis by (simp add: State_Monad.return_def)
  next
    case (Inr c)
    have "ClusterOrder_GetName ?c = ClusterOrder_GetName co"
      by (simp add: ClusterOrder_GetName_def co_initialize_keeps co_set_finalizers_def co_set_phase_def)
    with Inr assms(2) have named: "ClusterOrder_GetName c = ClusterOrder_GetName co"
      by (auto simp: kc_defs State_Monad.return_def split: if_splits)
    let ?p = "run_state (run_components (components E) c) (snd ?u)"
    show ?thesis
    proof (cases "snd (fst ?p)")
      case (Some e)
      with start Inr show ?thesis by (simp add: State_Monad.return_def split_beta)
    next
      case None
      then have "run_state (run_components (components E) c) (snd ?u) = ((fst (fst ?p), None), snd ?p)"
        by (simp add: prod_eq_iff)
      note course = components_course [OF this]
      then obtain n es3 where es3: "trace (snd ?p) = es3 @ trace (snd ?u)" "EvCommit (KNamespace n) \<in> set es3" by blast
      have "EvCommit (KNamespace n) \<in> set (EvNow # es3 @ es2 @ es1)" using es3(2) by simp
      with assms(1) have "list_namespaces (kube E) (labelSelectorFromInstance co)
          ((EvNow # es3 @ es2 @ es1) @ trace w) = Inr []" by blast
      then have empty: "list_namespaces (kube E) (labelSelectorFromInstance co) (EvNow # trace (snd ?p)) = Inr []"
        by (simp only: es3(1) es2 es1 append_Cons append_assoc)
      have "run_state (co_handleUpdate E r co) w = run_state (do { co4 \<leftarrow> co_setStatusCondition E
          ConditionNamespaceCreated ConditionTrue [] ReasonAsExpected (fst (fst ?p)); co_update_cluster E r co4 }) (snd ?p)"
        using start Inr None by (simp only: sum.case option.case run_bind_split)
      moreover have "labelSelectorFromInstance (fst (fst ?p)) = labelSelectorFromInstance co"
        using named course(1) by (simp add: labelSelectorFromInstance_def ClusterOrder_GetName_def)
      note unlisted_panics [OF empty [folded this]]
      ultimately show ?thesis by simp
    qed
  qed
qed

theorem co_update_needs_listed_namespace_witness:
  "fst (run_state (co_handleUpdate ref_env no_webhooks sample_co) empty_world) = Panicked nil_dereference \<or>
   (\<exists>co' res e. fst (run_state (co_handleUpdate ref_env no_webhooks sample_co) empty_world) = Done co' res (Some e))"
  using co_update_needs_listed_namespace [of ref_env sample_co empty_world no_webhooks]
  by (simp add: ref_kube_def)

text \<open>An order under manual management is never announced. A webhook is called only for an
  order that is not managed manually, with the address of its kind: the create webhook while
  the order lives, the delete webhook while it is being deleted, and no call without an
  address. The order is the one that was handled, or the API server's answer to the update of
  its finalizer.\<close>

theorem co_webhook_guard:
  assumes "run_state (co_handle E r co) w = (out, w')"
    and "trace w' = es @ trace w" "EvHttp rq \<in> set es"
  shows "hr_method rq = ''POST'' \<and> hr_url rq \<noteq> [] \<and>
     hr_url rq = (if deleting (co_meta co) then cor_deleteClusterWebhook r else cor_createClusterWebhook r) \<and>
     (\<exists>c. \<not> co_manual c \<and>
        (om_annotations (co_meta c) = om_annotations (co_meta co) \<or>
         (\<exists>y h. update_cluster_order (kube E) y h = Inr c)))"
proof -
  have "footprint (announced E (if deleting (co_meta co) then cor_deleteClusterWebhook r
      else cor_createClusterWebhook r) co) (co_handle E r co)"
    using footprint_announced_update [of E r co] footprint_announced_delete [of E r co]
    by (simp add: co_handle_def)
  then obtain es' where "trace w' = es' @ trace w" "\<forall>e \<in> set es'. announced E
      (if deleting (co_meta co) then cor_deleteClusterWebhook r else cor_createClusterWebhook r) co e"
    using assms(1) by (rule footprintD)
  with assms(2,3) have "announced E (if deleting (co_meta co) then cor_deleteClusterWebhook r
      else cor_createClusterWebhook r) co (EvHttp rq)" by simp
  then show ?thesis by (simp add: announced_def)
qed

definition announcing :: cluster_order_reconciler where
  "announcing = newClusterOrderReconciler ''c'' ''d'' [] second"

lemma gone_co_announced:
  "EvHttp (webhook_request ref_lib ''d'' (JObj [])) \<in>
     set (trace (snd (run_state (co_handle gone_co_env announcing gone_co) empty_world)))"
proof -
  have env: "lib gone_co_env = ref_lib" "list_namespaces (kube gone_co_env) s h = Inr []"
      "http_new gone_co_env m u = None" for s h m u
    by (simp_all add: gone_co_env_def ref_kube_def)
  have co: "deleting (co_meta gone_co)" "\<not> co_manual gone_co" "om_finalizers (co_meta gone_co) = []"
    by (simp_all add: gone_co_def sample_co_def sample_meta_def new_meta_def deleting_def is_zero_time_def zero_time_def
        co_manual_def)
  let ?c = "co_set_phase ClusterOrderPhaseDeleting gone_co"
  let ?w = "empty_world\<lparr>trace := [EvList KindNamespace None (labelSelectorFromInstance ?c)]\<rparr>"
  have "run_state (co_handle gone_co_env announcing gone_co) empty_world =
      run_state (co_webhook gone_co_env announcing ''d'' ?c) ?w"
    using co by (simp add: co_handle_def co_handleDelete_def co_delete_resources_def co_findNamespace_def
        co_release_def kc_defs env State_Monad.return_def finalizer_simps [OF ref_finalizer_laws]
        announcing_def newClusterOrderReconciler_def)
  moreover have "EvHttp (webhook_request ref_lib ''d'' (JObj [])) \<in>
      set (trace (snd (run_state (co_webhook gone_co_env announcing ''d'' ?c) ?w)))"
    using first_call_sends [of ?w gone_co_env "ResClusterOrder ?c" "JObj []" "''d''" "cor_webhookClient announcing"]
      co(2) co_manual_meta [of ?c gone_co]
    by (simp add: co_webhook_def State_Monad.return_def split_beta env ref_lib_def)
  ultimately show ?thesis by simp
qed

theorem co_webhook_guard_witness:
  "\<exists>es. trace (snd (run_state (co_handle gone_co_env announcing gone_co) empty_world)) = es \<and>
     EvHttp (webhook_request ref_lib ''d'' (JObj [])) \<in> set es \<and>
     hr_url (webhook_request ref_lib ''d'' (JObj [])) = cor_deleteClusterWebhook announcing"
proof -
  let ?run = "run_state (co_handle gone_co_env announcing gone_co) empty_world"
  have "deleting (co_meta gone_co)"
    by (simp add: gone_co_def deleting_def is_zero_time_def zero_time_def)
  then show ?thesis
    using co_webhook_guard [of gone_co_env announcing gone_co empty_world "fst ?run" "snd ?run" "trace (snd ?run)"
        "webhook_request ref_lib ''d'' (JObj [])"] gone_co_announced
    by simp
qed

end
