(* ===== verification/Host_Pool_Controller.thy ===== *)
theory Host_Pool_Controller
  imports Kube_Client
begin

text \<open>
  The reconciler of host pools: \<open>internal/controller/hostpool_controller.go\<close>,
  \<open>hostpool_resources.go\<close>, and \<open>SetCondition\<close> of \<open>api/v1alpha1/hostpool_conditions.go\<close>,
  which reads the clock. A host pool owns one namespace; it is Ready once the namespace is
  written and the create webhook has answered.
\<close>

record host_pool_reconciler =
  hpr_createHostPoolWebhook :: string
  hpr_deleteHostPoolWebhook :: string
  hpr_hostPoolNamespace :: string
  hpr_webhookClient :: webhook_client

definition newHostPoolReconciler :: "string \<Rightarrow> string \<Rightarrow> string \<Rightarrow> duration \<Rightarrow> host_pool_reconciler" where
  "newHostPoolReconciler create delete ns interval =
     \<lparr>hpr_createHostPoolWebhook = create, hpr_deleteHostPoolWebhook = delete,
      hpr_hostPoolNamespace = (if ns = [] then defaultHostPoolNamespace else ns),
      hpr_webhookClient = newWebhookClient (10 * second) interval\<rparr>"

section \<open>SetCondition\<close>

text \<open>The clock is read once, and again when the status of a condition changes.\<close>

definition SetCondition ::
    "env \<Rightarrow> string \<Rightarrow> cond_status \<Rightarrow> string \<Rightarrow> string \<Rightarrow> host_pool \<Rightarrow> host_pool act" where
  "SetCondition E t s reason msg hp =
     do { t0 \<leftarrow> now E;
          let c = (mk_condition t s reason msg)\<lparr>c_lastTransitionTime := t0\<rparr>
          in (case GetCondition t hp of
                None \<Rightarrow> State_Monad.return (hp_set_conditions (hp_conditions hp @ [c]) hp)
              | Some old \<Rightarrow>
                  do { t1 \<leftarrow> (if c_status old \<noteq> s then now E
                         else State_Monad.return (c_lastTransitionTime old));
                       State_Monad.return (hp_set_conditions
                         (replace_first (\<lambda>k. c_type k = t) (c\<lparr>c_lastTransitionTime := t1\<rparr>) (hp_conditions hp))
                         hp) }) }"

section \<open>The namespace\<close>

definition commonLabelsFromHostPool :: "host_pool \<Rightarrow> string \<rightharpoonup> string" where
  "commonLabelsFromHostPool hp =
     [''app.kubernetes.io/name'' \<mapsto> cloudkitAppName, cloudkitHostPoolNameLabel \<mapsto> om_name (hp_meta hp)]"

definition ensureCommonLabelsForHostPool :: "host_pool \<Rightarrow> object_meta \<Rightarrow> object_meta" where
  "ensureCommonLabelsForHostPool hp m = merge_labels (commonLabelsFromHostPool hp) m"

definition labelSelectorFromHostPoolInstance :: "host_pool \<Rightarrow> (string \<times> string) list" where
  "labelSelectorFromHostPoolInstance hp = [(cloudkitHostPoolNameLabel, HostPool_GetName hp)]"

definition newHostPoolNamespace :: "env \<Rightarrow> host_pool \<Rightarrow> (go_error + string) act" where
  "newHostPoolNamespace E hp =
     do { l \<leftarrow> kc_list_namespaces E (labelSelectorFromHostPoolInstance hp);
          State_Monad.return (case l of
            Inl e \<Rightarrow> Inl e
          | Inr items \<Rightarrow>
              if length items > 1
              then Inl (Errorf (''found multiple matching namespaces for '' @ HostPool_GetName hp))
              else (case items of
                  [] \<Rightarrow> if generateHostPoolNamespaceName hp = []
                        then Inl (Errorf ''failed to generate namespace name'')
                        else Inr (generateHostPoolNamespaceName hp)
                | n # _ \<Rightarrow> Inr (om_name (ns_meta n)))) }"

definition host_pool_namespace :: "host_pool \<Rightarrow> string \<Rightarrow> namespace_obj" where
  "host_pool_namespace hp name =
     \<lparr>ns_meta = new_meta name [] (commonLabelsFromHostPool hp), ns_terminating = False\<rparr>"

definition mutate_host_pool_namespace ::
    "string \<Rightarrow> namespace_obj \<Rightarrow> host_pool \<Rightarrow> go_error + (namespace_obj \<times> host_pool)" where
  "mutate_host_pool_namespace name n hp =
     Inr (n\<lparr>ns_meta := ensureCommonLabelsForHostPool hp (ns_meta n)\<rparr>, SetHostPoolReferenceNamespace name hp)"

definition hp_findNamespace :: "env \<Rightarrow> host_pool \<Rightarrow> (go_error + namespace_obj option) act" where
  "hp_findNamespace E hp =
     do { l \<leftarrow> kc_list_namespaces E (labelSelectorFromHostPoolInstance hp);
          State_Monad.return (case l of
            Inl e \<Rightarrow> Inl e
          | Inr items \<Rightarrow>
              if length items > 1
              then Inl (Errorf (''found too many ('' @ itoa (int (length items)) @
                '') matching namespaces for '' @ HostPool_GetName hp))
              else (case items of [] \<Rightarrow> Inr None | n # _ \<Rightarrow> Inr (Some n))) }"

section \<open>handleUpdate\<close>

text \<open>The three ways to fail leave the same trace on the pool.\<close>

definition hp_fail :: "env \<Rightarrow> string \<Rightarrow> string \<Rightarrow> go_error \<Rightarrow> host_pool \<Rightarrow> host_pool outcome act" where
  "hp_fail E reason msg e hp =
     do { hp1 \<leftarrow> SetCondition E HostPoolConditionProgressing ConditionFalse reason (msg @ err_text e) hp;
          State_Monad.return (Done (hp_set_phase HostPoolPhaseFailed hp1) result_none (Some e)) }"

definition hp_initialize :: "env \<Rightarrow> host_pool \<Rightarrow> host_pool act" where
  "hp_initialize E hp =
     (if hp_conditions hp \<noteq> [] then State_Monad.return hp
      else do { hp1 \<leftarrow> SetCondition E HostPoolConditionAccepted ConditionTrue ''HostPoolAccepted''
                  ''HostPool has been accepted for processing'' hp;
                hp2 \<leftarrow> SetCondition E HostPoolConditionProgressing ConditionTrue ''HostPoolProgressing''
                  ''HostPool is being processed'' hp1;
                State_Monad.return (hp_set_phase HostPoolPhaseProgressing hp2) })"

definition hp_ready :: "env \<Rightarrow> host_pool \<Rightarrow> host_pool outcome act" where
  "hp_ready E hp =
     do { hp1 \<leftarrow> SetCondition E HostPoolConditionProgressing ConditionFalse ''HostPoolReady''
            ''HostPool is ready'' hp;
          hp2 \<leftarrow> SetCondition E HostPoolConditionAvailable ConditionTrue ''HostPoolAvailable''
            ''HostPool is available'' hp1;
          State_Monad.return (Done (hp_set_hostSets (hp_spec_hostSets hp2) (hp_set_phase HostPoolPhaseReady hp2))
            result_none None) }"

definition hp_create_webhook :: "env \<Rightarrow> host_pool_reconciler \<Rightarrow> host_pool \<Rightarrow> host_pool outcome act" where
  "hp_create_webhook E r hp =
     (if hpr_createHostPoolWebhook r = [] then hp_ready E hp
      else do { t \<leftarrow> triggerWebhook E (hpr_webhookClient r) (hpr_createHostPoolWebhook r) (ResHostPool hp);
                case t of
                  Panic s \<Rightarrow> State_Monad.return (Panicked s)
                | Error e \<Rightarrow> hp_fail E ''WebhookFailed'' ''Webhook call failed: '' e hp
                | Ok d \<Rightarrow> hp_ready E hp })"

definition hp_components :: "env \<Rightarrow> host_pool_reconciler \<Rightarrow> host_pool \<Rightarrow> host_pool outcome act" where
  "hp_components E r hp =
     do { c \<leftarrow> newHostPoolNamespace E hp;
          case c of
            Inl e \<Rightarrow> hp_fail E ''ComponentCreationFailed'' ''Failed to create Namespace: '' e hp
          | Inr name \<Rightarrow>
              do { u \<leftarrow> createOrUpdate KNamespace (fetch_namespace (kube E)) (commit_namespace (kube E))
                     (host_pool_namespace hp name) (mutate_host_pool_namespace name) hp;
                   case fst u of
                     Some e \<Rightarrow> hp_fail E ''ComponentUpdateFailed'' ''Failed to update Namespace: '' e (snd (snd u))
                   | None \<Rightarrow> hp_create_webhook E r (snd (snd u)) } }"

definition hp_handleUpdate :: "env \<Rightarrow> host_pool_reconciler \<Rightarrow> host_pool \<Rightarrow> host_pool outcome act" where
  "hp_handleUpdate E r hp =
     (if \<not> containsFinalizer (lib E) (om_finalizers (hp_meta hp)) hostPoolFinalizer
      then let hp1 = hp_set_finalizers (snd (addFinalizer (lib E) (om_finalizers (hp_meta hp)) hostPoolFinalizer)) hp
           in do { u \<leftarrow> kc_update_hp E hp1;
                   State_Monad.return (case u of
                       Inl e \<Rightarrow> Done hp1 result_none (Some e)
                     | Inr hp2 \<Rightarrow> Done hp2 requeue_now None) }
      else do { hp1 \<leftarrow> hp_initialize E hp; hp_components E r hp1 })"

section \<open>handleDelete\<close>

definition hp_manual :: "host_pool \<Rightarrow> bool" where
  "hp_manual hp \<longleftrightarrow>
     om_annotations (hp_meta hp) cloudkitHostPoolManagementStateAnnotation = Some ManagementStateManual"

definition hp_delete_namespace :: "env \<Rightarrow> namespace_obj \<Rightarrow> host_pool \<Rightarrow> host_pool outcome act" where
  "hp_delete_namespace E n hp =
     do { e \<leftarrow> kc_delete_namespace E n; State_Monad.return (Done hp result_none e) }"

definition hp_delete_with_webhook ::
    "env \<Rightarrow> host_pool_reconciler \<Rightarrow> namespace_obj \<Rightarrow> host_pool \<Rightarrow> host_pool outcome act" where
  "hp_delete_with_webhook E r n hp =
     (if hpr_deleteHostPoolWebhook r = [] \<or> hp_manual hp then hp_delete_namespace E n hp
      else do { t \<leftarrow> triggerWebhook E (hpr_webhookClient r) (hpr_deleteHostPoolWebhook r) (ResHostPool hp);
                case t of
                  Panic s \<Rightarrow> State_Monad.return (Panicked s)
                | Error e \<Rightarrow> State_Monad.return (Done hp requeue_now None)
                | Ok d \<Rightarrow> if d \<noteq> 0 then State_Monad.return (Done hp (requeue_after d) None)
                    else hp_delete_namespace E n hp })"

definition hp_release :: "env \<Rightarrow> host_pool \<Rightarrow> host_pool outcome act" where
  "hp_release E hp =
     (let removed = removeFinalizer (lib E) (om_finalizers (hp_meta hp)) hostPoolFinalizer;
          hp1 = hp_set_finalizers (snd removed) hp
      in if fst removed
         then do { u \<leftarrow> kc_update_hp E hp1;
                   State_Monad.return (case u of
                       Inl e \<Rightarrow> Done hp1 result_none (Some e)
                     | Inr hp2 \<Rightarrow> Done hp2 result_none None) }
         else State_Monad.return (Done hp1 result_none None))"

definition hp_handleDelete :: "env \<Rightarrow> host_pool_reconciler \<Rightarrow> host_pool \<Rightarrow> host_pool outcome act" where
  "hp_handleDelete E r hp =
     do { hp0 \<leftarrow> SetCondition E HostPoolConditionDeleting ConditionTrue ''HostPoolDeleting''
            ''HostPool is being deleted'' hp;
          let hp1 = hp_set_phase HostPoolPhaseDeleting hp0
          in if \<not> containsFinalizer (lib E) (om_finalizers (hp_meta hp1)) hostPoolFinalizer
             then State_Monad.return (Done hp1 result_none None)
             else do { ns \<leftarrow> hp_findNamespace E hp1;
                       case ns of
                         Inl e \<Rightarrow> State_Monad.return (Done hp1 result_none (Some e))
                       | Inr (Some n) \<Rightarrow> hp_delete_with_webhook E r n hp1
                       | Inr None \<Rightarrow> hp_release E hp1 } }"

section \<open>Reconcile\<close>

definition hp_unmanaged :: "host_pool \<Rightarrow> bool" where
  "hp_unmanaged hp \<longleftrightarrow>
     om_annotations (hp_meta hp) cloudkitHostPoolManagementStateAnnotation = Some ManagementStateUnmanaged"

definition hp_handle :: "env \<Rightarrow> host_pool_reconciler \<Rightarrow> host_pool \<Rightarrow> host_pool outcome act" where
  "hp_handle E r hp = (if deleting (hp_meta hp) then hp_handleDelete E r hp else hp_handleUpdate E r hp)"

definition hp_Reconcile :: "env \<Rightarrow> host_pool_reconciler \<Rightarrow> object_key \<Rightarrow> unit outcome act" where
  "hp_Reconcile E r key =
     do { g \<leftarrow> kc_get_hp E key;
          case g of
            Inl e \<Rightarrow> State_Monad.return (Done () result_none (ignore_not_found e))
          | Inr hp \<Rightarrow>
              if hp_unmanaged hp then State_Monad.return (Done () result_none None)
              else do { out \<leftarrow> hp_handle E r hp;
                case out of
                  Panicked s \<Rightarrow> State_Monad.return (Panicked s)
                | Done hp' res err \<Rightarrow>
                    if err = None \<and> hp_status hp' \<noteq> hp_status hp
                    then do { u \<leftarrow> kc_status_hp E hp';
                              State_Monad.return (case u of
                                  Inl e \<Rightarrow> Done () res (Some e)
                                | Inr _ \<Rightarrow> Done () res err) }
                    else State_Monad.return (Done () res err) } }"

section \<open>Which events concern the controller\<close>

definition HostPoolNamespacePredicate :: "string \<Rightarrow> object_meta \<Rightarrow> bool" where
  "HostPoolNamespacePredicate ns m \<longleftrightarrow> om_namespace m = ns"

definition mapObjectToHostPool :: "env \<Rightarrow> host_pool_reconciler \<Rightarrow> object_meta \<Rightarrow> object_key list act" where
  "mapObjectToHostPool E r obj =
     (case om_labels obj cloudkitHostPoolNameLabel of
        None \<Rightarrow> State_Monad.return []
      | Some name \<Rightarrow>
          let key = \<lparr>key_namespace = hpr_hostPoolNamespace r, key_name = name\<rparr>
          in do { g \<leftarrow> kc_get_hp E key;
                  State_Monad.return (case g of Inl e \<Rightarrow> [] | Inr _ \<Rightarrow> [key]) })"


section \<open>Lemmas on conditions\<close>

definition condition_of :: "env \<Rightarrow> history \<Rightarrow> string \<Rightarrow> cond_status \<Rightarrow> string \<Rightarrow> string \<Rightarrow> host_pool \<Rightarrow> condition" where
  "condition_of E h t s reason msg hp =
     (mk_condition t s reason msg)\<lparr>c_lastTransitionTime :=
       (case GetCondition t hp of
          None \<Rightarrow> clock E h
        | Some old \<Rightarrow> if c_status old = s then c_lastTransitionTime old else clock E (EvNow # h))\<rparr>"

lemma run_SetCondition:
  "run_state (SetCondition E t s reason msg hp) w =
     (hp_set_conditions
        (case GetCondition t hp of
           None \<Rightarrow> hp_conditions hp @ [condition_of E (trace w) t s reason msg hp]
         | Some old \<Rightarrow> replace_first (\<lambda>k. c_type k = t) (condition_of E (trace w) t s reason msg hp) (hp_conditions hp)) hp,
      w\<lparr>trace := (if \<exists>old. GetCondition t hp = Some old \<and> c_status old \<noteq> s then [EvNow, EvNow] else [EvNow]) @ trace w\<rparr>)"
  by (auto simp: SetCondition_def condition_of_def State_Monad.return_def Let_def split: option.split)

lemma condition_of_simps [simp]:
  "c_type (condition_of E h t s reason msg hp) = t" "c_status (condition_of E h t s reason msg hp) = s"
  "c_reason (condition_of E h t s reason msg hp) = reason" "c_message (condition_of E h t s reason msg hp) = msg"
  by (simp_all add: condition_of_def mk_condition_def)

lemma first_such_other_type:
  "c_type c = t \<Longrightarrow> u \<noteq> t \<Longrightarrow>
   first_such (\<lambda>c. c_type c = u) (replace_first (\<lambda>k. c_type k = t) c cs) = first_such (\<lambda>c. c_type c = u) cs"
  by (induction cs) auto

lemma GetCondition_SetCondition:
  "GetCondition u (fst (run_state (SetCondition E t s reason msg hp) w)) =
     (if u = t then Some (condition_of E (trace w) t s reason msg hp) else GetCondition u hp)"
  by (auto simp: run_SetCondition GetCondition_def hp_set_conditions_def first_such_append
      first_such_replace_first_same first_such_other_type split: option.split)

lemma SetCondition_frame [simp]:
  "hp_meta (fst (run_state (SetCondition E t s reason msg hp) w)) = hp_meta hp"
  "hp_spec_hostSets (fst (run_state (SetCondition E t s reason msg hp) w)) = hp_spec_hostSets hp"
  "hps_phase (hp_status (fst (run_state (SetCondition E t s reason msg hp) w))) = hps_phase (hp_status hp)"
  "hps_hostPoolReference (hp_status (fst (run_state (SetCondition E t s reason msg hp) w))) =
     hps_hostPoolReference (hp_status hp)"
  by (simp_all add: run_SetCondition hp_set_conditions_def)

lemma map_type_replace_first:
  "c_type c = t \<Longrightarrow> map c_type (replace_first (\<lambda>k. c_type k = t) c cs) = map c_type cs"
  by (induction cs) auto

lemma footprint_SetCondition [fp_intros]: "P EvNow \<Longrightarrow> footprint P (SetCondition E t s reason msg hp)"
  unfolding SetCondition_def Let_def by (intro fp_intros; simp)

lemma set_phase_frame [simp]:
  "hp_meta (hp_set_phase p hp) = hp_meta hp" "hp_spec_hostSets (hp_set_phase p hp) = hp_spec_hostSets hp"
  "GetCondition t (hp_set_phase p hp) = GetCondition t hp" "hps_phase (hp_status (hp_set_phase p hp)) = p"
  "hps_hostPoolReference (hp_status (hp_set_phase p hp)) = hps_hostPoolReference (hp_status hp)"
  by (simp_all add: hp_set_phase_def GetCondition_def)

lemma set_hostSets_frame [simp]:
  "hp_meta (hp_set_hostSets hs hp) = hp_meta hp" "hps_hostSets (hp_status (hp_set_hostSets hs hp)) = hs"
  "GetCondition t (hp_set_hostSets hs hp) = GetCondition t hp"
  "hps_phase (hp_status (hp_set_hostSets hs hp)) = hps_phase (hp_status hp)"
  "hp_spec_hostSets (hp_set_hostSets hs hp) = hp_spec_hostSets hp"
  by (simp_all add: hp_set_hostSets_def GetCondition_def)

lemma hp_types_distinct [simp]:
  "HostPoolConditionAccepted \<noteq> HostPoolConditionProgressing" "HostPoolConditionAccepted \<noteq> HostPoolConditionAvailable"
  "HostPoolConditionProgressing \<noteq> HostPoolConditionAvailable" "HostPoolConditionAvailable \<noteq> HostPoolConditionProgressing"
  by (simp_all add: hp_condition_types)

section \<open>How an update ends\<close>

text \<open>A failure, or a pool that is ready; \<open>hp_ends\<close> is an invariant of the steps.\<close>

definition hp_ends :: "host_pool \<Rightarrow> host_pool outcome \<Rightarrow> bool" where
  "hp_ends hp out \<longleftrightarrow>
     (case out of
        Panicked s \<Rightarrow> False
      | Done hp' res err \<Rightarrow>
          res = result_none \<and> hp_meta hp' = hp_meta hp \<and> hp_spec_hostSets hp' = hp_spec_hostSets hp \<and>
          GetCondition HostPoolConditionAccepted hp' = GetCondition HostPoolConditionAccepted hp \<and>
          IsConditionFalse HostPoolConditionProgressing hp' \<and>
          (case err of
             Some e \<Rightarrow> hps_phase (hp_status hp') = HostPoolPhaseFailed
           | None \<Rightarrow> hps_phase (hp_status hp') = HostPoolPhaseReady \<and>
               IsConditionTrue HostPoolConditionAvailable hp' \<and>
               hps_hostSets (hp_status hp') = hp_spec_hostSets hp))"

lemma hp_fail_ends: "hp_ends hp (fst (run_state (hp_fail E reason msg e hp) w))"
  by (simp add: hp_fail_def hp_ends_def State_Monad.return_def split_beta IsConditionFalse_def
      GetCondition_SetCondition)

lemma hp_ready_ends: "hp_ends hp (fst (run_state (hp_ready E hp) w))"
  by (simp add: hp_ready_def hp_ends_def State_Monad.return_def split_beta IsConditionFalse_def IsConditionTrue_def
      GetCondition_SetCondition)

lemma hp_create_webhook_ends: "hp_ends hp (fst (run_state (hp_create_webhook E r hp) w))"
proof (cases "fst (run_state (triggerWebhook E (hpr_webhookClient r) (hpr_createHostPoolWebhook r) (ResHostPool hp)) w)")
  case (Panic s)
  then show ?thesis using wc.trigger_no_panic by blast
qed (simp_all add: hp_create_webhook_def hp_ready_ends hp_fail_ends split_beta)

lemma hp_ends_same:
  "hp_ends hp' out \<Longrightarrow> hp_meta hp' = hp_meta hp \<Longrightarrow> hp_spec_hostSets hp' = hp_spec_hostSets hp \<Longrightarrow>
   GetCondition HostPoolConditionAccepted hp' = GetCondition HostPoolConditionAccepted hp \<Longrightarrow> hp_ends hp out"
  by (cases out) (auto simp: hp_ends_def split: option.splits)

lemma reference_frame_hp [simp]:
  "hp_meta (SetHostPoolReferenceNamespace n hp) = hp_meta hp"
  "hp_spec_hostSets (SetHostPoolReferenceNamespace n hp) = hp_spec_hostSets hp"
  "GetCondition t (SetHostPoolReferenceNamespace n hp) = GetCondition t hp"
  by (simp_all add: SetHostPoolReferenceNamespace_def GetCondition_def)

text \<open>The instance is the one it was, or the one the mutate function has touched.\<close>

lemma createOrUpdate_instance:
  assumes "\<And>f x j. mutate f i = Inr (x, j) \<Longrightarrow> j = g i"
  shows "snd (snd (fst (run_state (createOrUpdate wrap fetch commit obj mutate i) w))) \<in> {i, g i}"
  using assms by (auto simp: createOrUpdate_def State_Monad.return_def split_beta split: option.split sum.split)

lemma hp_components_ends: "hp_ends hp (fst (run_state (hp_components E r hp) w))"
proof (cases "fst (run_state (newHostPoolNamespace E hp) w)")
  case (Inl e)
  then show ?thesis by (simp add: hp_components_def hp_fail_ends split_beta)
next
  case (Inr name)
  let ?w1 = "snd (run_state (newHostPoolNamespace E hp) w)"
  let ?u = "run_state (createOrUpdate KNamespace (fetch_namespace (kube E)) (commit_namespace (kube E))
      (host_pool_namespace hp name) (mutate_host_pool_namespace name) hp) ?w1"
  let ?hp = "snd (snd (fst ?u))"
  have "?hp \<in> {hp, SetHostPoolReferenceNamespace name hp}"
    by (rule createOrUpdate_instance) (auto simp: mutate_host_pool_namespace_def)
  then have same: "hp_meta ?hp = hp_meta hp" "hp_spec_hostSets ?hp = hp_spec_hostSets hp"
    "GetCondition HostPoolConditionAccepted ?hp = GetCondition HostPoolConditionAccepted hp" by auto
  show ?thesis
    by (cases "fst (fst ?u)")
      (use Inr hp_ends_same [OF hp_create_webhook_ends same] hp_ends_same [OF hp_fail_ends same] in
        \<open>simp_all add: hp_components_def split_beta\<close>)
qed

lemma hp_initialize_frame:
  "hp_meta (fst (run_state (hp_initialize E hp) w)) = hp_meta hp"
  "hp_spec_hostSets (fst (run_state (hp_initialize E hp) w)) = hp_spec_hostSets hp"
  "hp_conditions hp = [] \<Longrightarrow> IsConditionTrue HostPoolConditionAccepted (fst (run_state (hp_initialize E hp) w))"
  by (simp_all add: hp_initialize_def State_Monad.return_def split_beta IsConditionTrue_def GetCondition_SetCondition)

lemma hp_update_ends:
  assumes "finalizer_laws (lib E)" "hostPoolFinalizer \<in> set (om_finalizers (hp_meta hp))"
  shows "hp_ends (fst (run_state (hp_initialize E hp) w)) (fst (run_state (hp_handleUpdate E r hp) w))"
  using assms(2) by (simp add: hp_handleUpdate_def finalizer_simps [OF assms(1)] split_beta hp_components_ends)

section \<open>The events of the handlers\<close>

lemma footprint_hp_parts [fp_intros]:
  "(\<And>s. P (EvList KindNamespace None s)) \<Longrightarrow> footprint P (newHostPoolNamespace E hp)"
  "(\<And>s. P (EvList KindNamespace None s)) \<Longrightarrow> footprint P (hp_findNamespace E hp)"
  "P EvNow \<Longrightarrow> footprint P (hp_fail E reason msg e hp)"
  "P EvNow \<Longrightarrow> footprint P (hp_ready E hp)"
  "P EvNow \<Longrightarrow> footprint P (hp_initialize E hp)"
  unfolding newHostPoolNamespace_def hp_findNamespace_def hp_fail_def hp_ready_def hp_initialize_def
  by (intro fp_intros; simp)+

lemma footprint_hp_handle: "footprint handler_event (hp_handle E r hp)"
  unfolding hp_handle_def hp_handleDelete_def hp_handleUpdate_def hp_components_def hp_create_webhook_def
    hp_delete_with_webhook_def hp_delete_namespace_def hp_release_def Let_def
  by (intro fp_intros footprint_mono [OF footprint_triggerWebhook]; auto simp: webhook_events_def)

lemma hp_find_cases:
  obtains (err) e where "run_state (hp_findNamespace E hp) w =
      (Inl e, w\<lparr>trace := EvList KindNamespace None (labelSelectorFromHostPoolInstance hp) # trace w\<rparr>)"
  | (none) "run_state (hp_findNamespace E hp) w =
      (Inr None, w\<lparr>trace := EvList KindNamespace None (labelSelectorFromHostPoolInstance hp) # trace w\<rparr>)"
      "list_namespaces (kube E) (labelSelectorFromHostPoolInstance hp) (trace w) = Inr []"
  | (one) n where "run_state (hp_findNamespace E hp) w =
      (Inr (Some n), w\<lparr>trace := EvList KindNamespace None (labelSelectorFromHostPoolInstance hp) # trace w\<rparr>)"
      "list_namespaces (kube E) (labelSelectorFromHostPoolInstance hp) (trace w) = Inr [n]"
proof (cases "list_namespaces (kube E) (labelSelectorFromHostPoolInstance hp) (trace w)")
  case (Inl e)
  then show thesis by (intro err) (simp add: hp_findNamespace_def kc_defs State_Monad.return_def)
next
  case (Inr items)
  show thesis
  proof (cases items rule: short_list)
    case empty
    with Inr show thesis by (intro none) (simp_all add: hp_findNamespace_def kc_defs State_Monad.return_def)
  next
    case (single n)
    with Inr show thesis by (intro one) (simp_all add: hp_findNamespace_def kc_defs State_Monad.return_def)
  next
    case (more n m ns)
    with Inr show thesis by (intro err) (simp add: hp_findNamespace_def kc_defs State_Monad.return_def)
  qed
qed

text \<open>The delete webhook has accepted, in this very call, or nobody is to be told.\<close>

definition delete_announced :: "env \<Rightarrow> host_pool_reconciler \<Rightarrow> host_pool \<Rightarrow> bool" where
  "delete_announced E r hp \<longleftrightarrow>
     hpr_deleteHostPoolWebhook r = [] \<or> hp_manual hp \<or>
     (\<exists>hp' w w'. hp_meta hp' = hp_meta hp \<and>
        run_state (triggerWebhook E (hpr_webhookClient r) (hpr_deleteHostPoolWebhook r) (ResHostPool hp')) w =
          (Ok 0, w'))"

lemma delete_with_webhook_events:
  assumes "trace (snd (run_state (hp_delete_with_webhook E r n hp) w)) = es @ trace w" "e \<in> set es"
  shows "(\<forall>x. e \<noteq> EvUpdate x) \<and> (\<forall>x. e = EvDelete x \<longrightarrow> x = KNamespace n \<and> delete_announced E r hp)"
proof (cases "hpr_deleteHostPoolWebhook r = [] \<or> hp_manual hp")
  case True
  then have "run_state (hp_delete_with_webhook E r n hp) w = run_state (hp_delete_namespace E n hp) w"
    by (simp add: hp_delete_with_webhook_def)
  with assms have "e = EvDelete (KNamespace n)"
    by (auto simp: hp_delete_namespace_def kc_defs State_Monad.return_def)
  with True show ?thesis by (auto simp: delete_announced_def)
next
  case False
  let ?t = "run_state (triggerWebhook E (hpr_webhookClient r) (hpr_deleteHostPoolWebhook r) (ResHostPool hp)) w"
  obtain es1 where es1: "trace (snd ?t) = es1 @ trace w" "\<forall>e \<in> set es1. webhook_events (hpr_deleteHostPoolWebhook r) e"
    by (rule footprintD [OF footprint_triggerWebhook surjective_pairing])
  then have quiet: "(\<forall>x. e \<noteq> EvUpdate x) \<and> (\<forall>x. e \<noteq> EvDelete x)" if "e \<in> set es1"
    using that by (auto simp: webhook_events_def)
  show ?thesis
  proof (cases "fst ?t = Ok 0")
    case True
    then have "?t = (Ok 0, snd ?t)" by (simp add: prod_eq_iff)
    then have "delete_announced E r hp" unfolding delete_announced_def by blast
    moreover have "es = EvDelete (KNamespace n) # es1"
      using True False assms(1) es1(1)
      by (simp add: hp_delete_with_webhook_def hp_delete_namespace_def kc_defs State_Monad.return_def split_beta)
    ultimately show ?thesis using quiet assms(2) by auto
  next
    case notok: False
    then have "es = es1"
      using False assms(1) es1(1)
      by (cases "fst ?t") (auto simp: hp_delete_with_webhook_def State_Monad.return_def split_beta)
    with quiet assms(2) show ?thesis by blast
  qed
qed

section \<open>A sample pool\<close>

definition finalized_hp :: host_pool where
  "finalized_hp = hp_set_finalizers [hostPoolFinalizer] sample_hp"

definition quiet_hp :: host_pool_reconciler where
  "quiet_hp = newHostPoolReconciler [] [] [] second"

definition finalized_hp_env :: env where
  "finalized_hp_env = ref_env\<lparr>kube := ref_kube\<lparr>get_host_pool := (\<lambda>k h. Inr finalized_hp)\<rparr>\<rparr>"

lemma finalized_hp_simps [simp]:
  "om_finalizers (hp_meta finalized_hp) = [hostPoolFinalizer]" "\<not> deleting (hp_meta finalized_hp)"
  "\<not> hp_unmanaged finalized_hp" "hps_phase (hp_status finalized_hp) = HostPoolPhaseUnset"
  by (simp_all add: finalized_hp_def hp_set_finalizers_def sample_hp_def sample_meta_def new_meta_def deleting_def
      is_zero_time_def hp_unmanaged_def)

lemma finalized_hp_env_simps [simp]:
  "lib finalized_hp_env = ref_lib" "get_host_pool (kube finalized_hp_env) k h = Inr finalized_hp"
  "list_namespaces (kube finalized_hp_env) s h = Inr []" "fetch_namespace (kube finalized_hp_env) n h = (None, n)"
  "commit_namespace (kube finalized_hp_env) n h = (None, n)" "update_host_pool_status (kube finalized_hp_env) x h = Inr x"
  by (simp_all add: finalized_hp_env_def ref_kube_def)

text \<open>Where every call of the API server succeeds, and there is no webhook, so does the update.\<close>

lemma calm_update_succeeds:
  assumes "finalizer_laws (lib E)" "\<And>s h. list_namespaces (kube E) s h = Inr []"
    and "\<And>n h. fetch_namespace (kube E) n h = (None, n)" "\<And>n h. commit_namespace (kube E) n h = (None, n)"
    and "hostPoolFinalizer \<in> set (om_finalizers (hp_meta hp))"
  shows "\<exists>hp'. fst (run_state (hp_handleUpdate E quiet_hp hp) w) = Done hp' result_none None"
proof -
  let ?i = "run_state (hp_initialize E hp) w"
  have "fst (run_state (newHostPoolNamespace E (fst ?i)) (snd ?i)) = Inr (generateHostPoolNamespaceName (fst ?i))"
    by (simp add: newHostPoolNamespace_def kc_defs State_Monad.return_def generateHostPoolNamespaceName_def assms(2))
  moreover have "fst (fst (run_state (createOrUpdate KNamespace (fetch_namespace (kube E))
      (commit_namespace (kube E)) n (mutate_host_pool_namespace name) hp) v)) = None" for n name hp v
    by (simp add: createOrUpdate_def State_Monad.return_def mutate_host_pool_namespace_def assms(3,4))
  moreover have "\<exists>hp'. fst (run_state (hp_ready E hp) v) = Done hp' result_none None" for hp v
    by (simp add: hp_ready_def State_Monad.return_def split_beta)
  ultimately show ?thesis
    by (simp add: hp_handleUpdate_def finalizer_simps [OF assms(1)] assms(5) split_beta hp_components_def
        hp_create_webhook_def quiet_hp_def newHostPoolReconciler_def)
qed

lemma finalized_hp_succeeds:
  "\<exists>hp'. fst (run_state (hp_handleUpdate finalized_hp_env quiet_hp finalized_hp) w) = Done hp' result_none None"
  by (rule calm_update_succeeds) (simp_all add: ref_finalizer_laws)

lemma finalized_hp_run:
  "\<exists>y es. trace (snd (run_state (hp_Reconcile finalized_hp_env quiet_hp key) empty_world)) =
     EvStatusUpdate (KHostPool y) # es"
proof -
  let ?w = "empty_world\<lparr>trace := [EvGet KindHostPool key]\<rparr>"
  obtain hp' where out: "fst (run_state (hp_handle finalized_hp_env quiet_hp finalized_hp) ?w) = Done hp' result_none None"
    using finalized_hp_succeeds [of ?w] by (auto simp: hp_handle_def)
  have "hps_phase (hp_status hp') = HostPoolPhaseReady"
    using hp_update_ends [where E = finalized_hp_env and hp = finalized_hp and r = quiet_hp and w = ?w] out
    by (simp add: ref_finalizer_laws hp_handle_def hp_ends_def)
  then have "hp_status hp' \<noteq> hp_status finalized_hp" by auto
  with out show ?thesis
    by (simp add: hp_Reconcile_def kc_defs State_Monad.return_def split_beta)
qed

lemma finalized_hp_deleted:
  "\<exists>y es. trace (snd (run_state (hp_handleDelete ref_env quiet_hp finalized_hp) empty_world)) =
     EvUpdate (KHostPool y) # es"
  by (simp add: hp_handleDelete_def finalizer_simps [OF ref_finalizer_laws] split_beta hp_findNamespace_def kc_defs
      State_Monad.return_def ref_kube_def hp_release_def Let_def)

section \<open>Properties\<close>

text \<open>\<open>SetCondition\<close> sets exactly one condition. Afterwards the pool has the condition with the
  given status, reason and message, and every other one as it was; the list of types only
  ever grows by the new type, so a pool has at most one condition of each type; and the
  transition time of a condition that was there changes only with its status.\<close>

theorem SetCondition_functional:
  "let hp' = fst (run_state (SetCondition E t s reason msg hp) w)
   in (\<forall>u. u \<noteq> t \<longrightarrow> GetCondition u hp' = GetCondition u hp) \<and>
      (\<exists>c. GetCondition t hp' = Some c \<and> c_status c = s \<and> c_reason c = reason \<and> c_message c = msg \<and>
         (\<forall>old. GetCondition t hp = Some old \<and> c_status old = s \<longrightarrow>
            c_lastTransitionTime c = c_lastTransitionTime old)) \<and>
      (distinct (map c_type (hp_conditions hp)) \<longrightarrow> distinct (map c_type (hp_conditions hp'))) \<and>
      hp_meta hp' = hp_meta hp \<and> hps_phase (hp_status hp') = hps_phase (hp_status hp)"
proof -
  have "distinct (map c_type (hp_conditions (fst (run_state (SetCondition E t s reason msg hp) w))))"
    if "distinct (map c_type (hp_conditions hp))"
    using that first_such_None_iff [of "\<lambda>c. c_type c = t" "hp_conditions hp"]
    by (auto simp: run_SetCondition hp_set_conditions_def GetCondition_def map_type_replace_first split: option.split)
  then show ?thesis
    by (auto simp: Let_def GetCondition_SetCondition) (simp add: condition_of_def)
qed

theorem SetCondition_functional_witness:
  "let hp' = fst (run_state (SetCondition ref_env HostPoolConditionAccepted ConditionTrue ''r'' ''m'' sample_hp) empty_world)
   in (\<exists>c. GetCondition HostPoolConditionAccepted hp' = Some c \<and> c_reason c = ''r'') \<and>
      distinct (map c_type (hp_conditions hp'))"
  using SetCondition_functional [of ref_env HostPoolConditionAccepted ConditionTrue "''r''" "''m''" sample_hp empty_world]
  unfolding Let_def by (simp add: sample_hp_def) blast

text \<open>The update of a pool that holds its finalizer ends in one of two ways, and never in a
  panic: with an error, the phase Failed and PROGRESSING false; or without one, the phase
  Ready, PROGRESSING false, AVAILABLE true and the host sets of the spec in the status. The
  metadata and the spec are left as they were.\<close>

theorem hp_update_outcome:
  assumes "finalizer_laws (lib E)" "hostPoolFinalizer \<in> set (om_finalizers (hp_meta hp))"
  shows "\<exists>hp' err. fst (run_state (hp_handleUpdate E r hp) w) = Done hp' result_none err \<and>
     hp_meta hp' = hp_meta hp \<and> hp_spec_hostSets hp' = hp_spec_hostSets hp \<and>
     IsConditionFalse HostPoolConditionProgressing hp' \<and>
     hps_phase (hp_status hp') = (if err = None then HostPoolPhaseReady else HostPoolPhaseFailed) \<and>
     (err = None \<longrightarrow> IsConditionTrue HostPoolConditionAvailable hp' \<and>
        hps_hostSets (hp_status hp') = hp_spec_hostSets hp)"
  using hp_update_ends [OF assms, where r = r and w = w] hp_initialize_frame(1,2) [of E hp w]
  by (cases "fst (run_state (hp_handleUpdate E r hp) w)") (auto simp: hp_ends_def split: option.splits)

theorem hp_update_outcome_witness:
  "\<exists>hp' err. fst (run_state (hp_handleUpdate ref_env quiet_hp finalized_hp) empty_world) =
       Done hp' result_none err \<and>
     hps_phase (hp_status hp') = (if err = None then HostPoolPhaseReady else HostPoolPhaseFailed)"
proof -
  have "hostPoolFinalizer \<in> set (om_finalizers (hp_meta finalized_hp))" by simp
  from hp_update_outcome [OF _ this, of ref_env quiet_hp empty_world] show ?thesis
    unfolding ref_env_simps using ref_finalizer_laws by blast
qed

text \<open>C36: the phase Failed of a host pool never reaches the API server. The status that a
  reconciliation writes for a pool that holds its finalizer and is not being deleted always
  has the phase Ready, because the status is written only when the handler has returned no
  error.\<close>

theorem hp_failure_never_recorded:
  assumes "finalizer_laws (lib E)" "get_host_pool (kube E) key (trace w) = Inr hp"
    and "\<not> deleting (hp_meta hp)" "hostPoolFinalizer \<in> set (om_finalizers (hp_meta hp))"
    and "run_state (hp_Reconcile E r key) w = (out, w')"
    and "trace w' = es @ trace w" "EvStatusUpdate x \<in> set es"
  shows "\<exists>y. x = KHostPool y \<and> hps_phase (hp_status y) = HostPoolPhaseReady"
proof -
  let ?w1 = "w\<lparr>trace := EvGet KindHostPool key # trace w\<rparr>"
  let ?h = "run_state (hp_handle E r hp) ?w1"
  have quiet: "False" if "trace w' = es' @ trace w" "\<forall>e \<in> set es'. handler_event e" for es'
    using that assms(6,7) by auto
  have managed: "\<not> hp_unmanaged hp"
    using assms(2,5) quiet [of "[EvGet KindHostPool key]"]
    by (auto simp: hp_Reconcile_def kc_defs State_Monad.return_def)
  obtain es1 where es1: "trace (snd ?h) = es1 @ trace ?w1" "\<forall>e \<in> set es1. handler_event e"
    by (rule footprintD [OF footprint_hp_handle surjective_pairing])
  have loud: "trace w' \<noteq> trace (snd ?h)" using quiet [of "es1 @ [EvGet KindHostPool key]"] es1 by auto
  then obtain hp' res where out: "fst ?h = Done hp' res None"
      "trace w' = EvStatusUpdate (KHostPool hp') # trace (snd ?h)"
    using assms(2,5) managed
    by (auto simp: hp_Reconcile_def kc_defs State_Monad.return_def split_beta split: outcome.splits if_splits)
  then have "hps_phase (hp_status hp') = HostPoolPhaseReady"
    using hp_update_ends [OF assms(1,4), where r = r and w = ?w1] assms(3) by (simp add: hp_handle_def hp_ends_def)
  moreover have "x = KHostPool hp'" using es1 out(2) assms(6,7) by fastforce
  ultimately show ?thesis by blast
qed

theorem hp_failure_never_recorded_witness:
  "\<exists>y es. trace (snd (run_state (hp_Reconcile finalized_hp_env quiet_hp (key_of sample_meta)) empty_world)) =
       EvStatusUpdate (KHostPool y) # es \<and>
     hps_phase (hp_status y) = HostPoolPhaseReady"
proof -
  let ?run = "run_state (hp_Reconcile finalized_hp_env quiet_hp (key_of sample_meta)) empty_world"
  obtain y es where es: "trace (snd ?run) = EvStatusUpdate (KHostPool y) # es" using finalized_hp_run by blast
  moreover have "\<exists>z. KHostPool y = KHostPool z \<and> hps_phase (hp_status z) = HostPoolPhaseReady"
    by (rule hp_failure_never_recorded [OF _ _ _ _ surjective_pairing, of finalized_hp_env "key_of sample_meta"
          empty_world finalized_hp quiet_hp "EvStatusUpdate (KHostPool y) # es"])
      (simp_all add: es ref_finalizer_laws)
  ultimately show ?thesis by auto
qed

text \<open>C31: a host pool is taken down in order. Its namespace is deleted only when it is the one
  namespace that carries the pool's label and the delete webhook has accepted the pool, unless
  there is no such webhook or the pool is managed manually; the finalizer is removed, and no
  other, only when no namespace carries the label any more.\<close>

theorem hp_deleted_in_order:
  assumes "finalizer_laws (lib E)" "run_state (hp_handleDelete E r hp) w = (out, w')"
    and "trace w' = es @ trace w" "e \<in> set es"
  shows "(\<forall>x. e = EvDelete x \<longrightarrow> (\<exists>n h. x = KNamespace n \<and>
        list_namespaces (kube E) (labelSelectorFromHostPoolInstance hp) h = Inr [n] \<and> delete_announced E r hp)) \<and>
     (\<forall>x. e = EvUpdate x \<longrightarrow>
        (\<exists>h. list_namespaces (kube E) (labelSelectorFromHostPoolInstance hp) h = Inr []) \<and>
        (\<exists>y. x = KHostPool y \<and>
           set (om_finalizers (hp_meta y)) = set (om_finalizers (hp_meta hp)) - {hostPoolFinalizer}))"
proof -
  let ?s = "run_state (SetCondition E HostPoolConditionDeleting ConditionTrue ''HostPoolDeleting''
      ''HostPool is being deleted'' hp) w"
  let ?hp = "hp_set_phase HostPoolPhaseDeleting (fst ?s)"
  have same: "hp_meta ?hp = hp_meta hp" "labelSelectorFromHostPoolInstance ?hp = labelSelectorFromHostPoolInstance hp"
      "delete_announced E r ?hp = delete_announced E r hp"
    by (simp_all add: labelSelectorFromHostPoolInstance_def HostPool_GetName_def delete_announced_def hp_manual_def)
  obtain es0 where es0: "trace (snd ?s) = es0 @ trace w" "\<forall>e \<in> set es0. e = EvNow"
    by (auto simp: run_SetCondition)
  have early: "?thesis" if "e \<in> set es0" using that es0(2) by auto
  show ?thesis
  proof (cases "hostPoolFinalizer \<in> set (om_finalizers (hp_meta hp))")
    case False
    with assms(2) have "w' = snd ?s"
      by (simp add: hp_handleDelete_def finalizer_simps [OF assms(1)] split_beta State_Monad.return_def Let_def)
    with early es0 assms(3,4) show ?thesis by simp
  next
    case True
    note del = assms(2) [unfolded hp_handleDelete_def]
    let ?l = "EvList KindNamespace None (labelSelectorFromHostPoolInstance hp)"
    show ?thesis
    proof (cases rule: hp_find_cases [of E ?hp "snd ?s"])
      case (err e')
      with del True have "w' = (snd ?s)\<lparr>trace := ?l # trace (snd ?s)\<rparr>"
        by (simp add: finalizer_simps [OF assms(1)] split_beta State_Monad.return_def Let_def same)
      with assms(3,4) es0 early show ?thesis by auto
    next
      case none
      let ?y = "hp_set_finalizers (snd (removeFinalizer (lib E) (om_finalizers (hp_meta hp)) hostPoolFinalizer)) ?hp"
      have "trace w' = EvUpdate (KHostPool ?y) # ?l # trace (snd ?s)"
        using del True none by (auto simp: finalizer_simps [OF assms(1)] split_beta State_Monad.return_def Let_def same
            hp_release_def kc_defs)
      with assms(3) es0 have "es = EvUpdate (KHostPool ?y) # ?l # es0" by simp
      moreover have "set (om_finalizers (hp_meta ?y)) = set (om_finalizers (hp_meta hp)) - {hostPoolFinalizer}"
        by (simp add: hp_set_finalizers_def finalizer_simps [OF assms(1)])
      moreover have "\<exists>h. list_namespaces (kube E) (labelSelectorFromHostPoolInstance hp) h = Inr []"
        using none(2) same(2) by metis
      ultimately show ?thesis using early assms(4) by auto
    next
      case (one n)
      let ?w1 = "(snd ?s)\<lparr>trace := ?l # trace (snd ?s)\<rparr>"
      have w': "w' = snd (run_state (hp_delete_with_webhook E r n ?hp) ?w1)"
        using del True one by (simp add: finalizer_simps [OF assms(1)] split_beta Let_def same)
      have "footprint (\<lambda>_. True) (hp_delete_with_webhook E r n ?hp)"
        unfolding hp_delete_with_webhook_def hp_delete_namespace_def
        by (intro fp_intros footprint_mono [OF footprint_triggerWebhook]) auto
      then obtain es1 where es1: "trace w' = es1 @ trace ?w1"
        unfolding w' by (rule footprintD [OF _ surjective_pairing])
      note events = delete_with_webhook_events [OF es1 [unfolded w'], unfolded same]
      have "\<exists>h. list_namespaces (kube E) (labelSelectorFromHostPoolInstance hp) h = Inr [n]"
        using one(2) same(2) by metis
      moreover have "es = es1 @ ?l # es0" using es1 es0 assms(3) by simp
      ultimately show ?thesis using early assms(4) events by auto
    qed
  qed
qed

theorem hp_deleted_in_order_witness:
  "\<exists>y es. trace (snd (run_state (hp_handleDelete ref_env quiet_hp finalized_hp) empty_world)) =
       EvUpdate (KHostPool y) # es \<and>
     set (om_finalizers (hp_meta y)) = {}"
proof -
  let ?run = "run_state (hp_handleDelete ref_env quiet_hp finalized_hp) empty_world"
  obtain y es where es: "trace (snd ?run) = EvUpdate (KHostPool y) # es" using finalized_hp_deleted by blast
  from hp_deleted_in_order [OF _ surjective_pairing, of ref_env quiet_hp finalized_hp empty_world
      "EvUpdate (KHostPool y) # es" "EvUpdate (KHostPool y)"]
  have "set (om_finalizers (hp_meta y)) = {}" by (simp add: es ref_finalizer_laws)
  with es show ?thesis by blast
qed

end
