(* ===== verification/Feedback.thy ===== *)
theory Feedback
  imports Kube_Client
begin

text \<open>
  What the three feedback controllers share: the calls to the fulfillment service, the
  mapping of a condition's status, and the idiom that finds a condition of the service's
  record or appends a new one, copies status and message and stamps a changed status
  (\<open>findComputeInstanceCondition\<close>, \<open>findClusterCondition\<close>, \<open>findHostPoolCondition\<close> with
  their callers). The locale \<open>condition_sync\<close> is the contract of such a copy: it touches one
  kind of condition, and copying the same value again changes nothing.
\<close>

section \<open>Calls to the fulfillment service\<close>

definition rpc_fetch_ci :: "env \<Rightarrow> string \<Rightarrow> (go_error + private_ci) act" where
  "rpc_fetch_ci E i = request (EvRpcGet ComputeInstances i) (rpc_get_ci (rpc E) i)"
definition rpc_save_ci :: "env \<Rightarrow> private_ci \<Rightarrow> go_error option act" where
  "rpc_save_ci E x = request (EvRpcUpdate (RpcComputeInstance x)) (rpc_update_ci (rpc E) x)"
definition rpc_signal :: "env \<Rightarrow> string \<Rightarrow> go_error option act" where
  "rpc_signal E i = request (EvRpcSignal ComputeInstances i) (rpc_signal_ci (rpc E) i)"
definition rpc_fetch_cluster :: "env \<Rightarrow> string \<Rightarrow> (go_error + private_cluster) act" where
  "rpc_fetch_cluster E i = request (EvRpcGet Clusters i) (rpc_get_cluster (rpc E) i)"
definition rpc_save_cluster :: "env \<Rightarrow> private_cluster \<Rightarrow> go_error option act" where
  "rpc_save_cluster E x = request (EvRpcUpdate (RpcCluster x)) (rpc_update_cluster (rpc E) x)"
definition rpc_fetch_hp :: "env \<Rightarrow> string \<Rightarrow> (go_error + private_hp) act" where
  "rpc_fetch_hp E i = request (EvRpcGet HostPools i) (rpc_get_host_pool (rpc E) i)"
definition rpc_save_hp :: "env \<Rightarrow> private_hp \<Rightarrow> go_error option act" where
  "rpc_save_hp E x = request (EvRpcUpdate (RpcHostPool x)) (rpc_update_host_pool (rpc E) x)"

lemmas rpc_defs = rpc_fetch_ci_def rpc_save_ci_def rpc_signal_def rpc_fetch_cluster_def rpc_save_cluster_def
  rpc_fetch_hp_def rpc_save_hp_def

section \<open>Conditions\<close>

fun mapConditionStatus :: "cond_status \<Rightarrow> fulfillment_status" where
  "mapConditionStatus ConditionFalse = CONDITION_STATUS_FALSE"
| "mapConditionStatus ConditionTrue = CONDITION_STATUS_TRUE"
| "mapConditionStatus ConditionUnknown = CONDITION_STATUS_UNSPECIFIED"

definition new_api_condition :: "'k \<Rightarrow> 'k api_condition" where
  "new_api_condition kind =
     \<lparr>ac_type = kind, ac_status = CONDITION_STATUS_FALSE, ac_lastTransitionTime = None, ac_reason = None,
      ac_message = None\<rparr>"

definition find_condition :: "'k \<Rightarrow> 'k api_condition list \<Rightarrow> 'k api_condition option" where
  "find_condition kind cs = first_such (\<lambda>c. ac_type c = kind) cs"

text \<open>The list with the condition in it, and the condition.\<close>

definition find_or_add :: "'k \<Rightarrow> 'k api_condition list \<Rightarrow> 'k api_condition list \<times> 'k api_condition" where
  "find_or_add kind cs =
     (case find_condition kind cs of
        Some c \<Rightarrow> (cs, c)
      | None \<Rightarrow> (cs @ [new_api_condition kind], new_api_condition kind))"

definition sync_condition ::
    "env \<Rightarrow> 'k \<Rightarrow> fulfillment_status \<Rightarrow> string \<Rightarrow> 'k api_condition list \<Rightarrow> 'k api_condition list act" where
  "sync_condition E kind newStatus msg cs =
     (let (cs1, c) = find_or_add kind cs
      in do { t \<leftarrow> (if newStatus \<noteq> ac_status c then do { n \<leftarrow> now E; State_Monad.return (Some n) }
                else State_Monad.return (ac_lastTransitionTime c));
              State_Monad.return (replace_first (\<lambda>k. ac_type k = kind)
                (c\<lparr>ac_status := newStatus, ac_message := Some msg, ac_lastTransitionTime := t\<rparr>) cs1) })"

section \<open>The contract\<close>

locale condition_sync =
  fixes sync :: "'k \<Rightarrow> fulfillment_status \<Rightarrow> string \<Rightarrow> 'k api_condition list \<Rightarrow> 'k api_condition list act"
  assumes sync_footprint: "footprint (\<lambda>e. e = EvNow) (sync k s m cs)"
    and sync_sets: "\<exists>c. find_condition k (fst (run_state (sync k s m cs) w)) = Some c \<and>
      ac_status c = s \<and> ac_message c = Some m"
    and sync_others: "k' \<noteq> k \<Longrightarrow> find_condition k' (fst (run_state (sync k s m cs) w)) = find_condition k' cs"
    and sync_settled: "find_condition k cs = Some c \<Longrightarrow> ac_status c = s \<Longrightarrow> ac_message c = Some m \<Longrightarrow>
      run_state (sync k s m cs) w = (cs, w)"
begin

lemma sync_twice: "run_state (sync k s m (fst (run_state (sync k s m cs) w))) w' = (fst (run_state (sync k s m cs) w), w')"
  using sync_sets [of k s m cs w] sync_settled by metis

text \<open>A copy of another kind in between does not unsettle it.\<close>

lemma sync_settled_other:
  assumes "k' \<noteq> k"
  shows "run_state (sync k s m (fst (run_state (sync k' s' m' (fst (run_state (sync k s m cs) w))) w'))) w'' =
     (fst (run_state (sync k' s' m' (fst (run_state (sync k s m cs) w))) w'), w'')"
  using sync_sets [of k s m cs w] sync_others [of k k' s' m'] sync_settled assms by metis

text \<open>Several copies of different kinds: all of them are there in the end, and stay.\<close>

primrec sync_list :: "('k \<times> fulfillment_status \<times> string) list \<Rightarrow> 'k api_condition list \<Rightarrow> 'k api_condition list act" where
  "sync_list [] cs = State_Monad.return cs"
| "sync_list (x # xs) cs = do { cs' \<leftarrow> sync (fst x) (fst (snd x)) (snd (snd x)) cs; sync_list xs cs' }"

lemma sync_list_others:
  "k \<notin> fst ` set xs \<Longrightarrow> find_condition k (fst (run_state (sync_list xs cs) w)) = find_condition k cs"
  by (induction xs arbitrary: cs w) (auto simp: State_Monad.return_def split_beta sync_others)

lemma sync_list_sets:
  "distinct (map fst xs) \<Longrightarrow> (k, s, m) \<in> set xs \<Longrightarrow>
   \<exists>c. find_condition k (fst (run_state (sync_list xs cs) w)) = Some c \<and> ac_status c = s \<and> ac_message c = Some m"
proof (induction xs arbitrary: cs w)
  case (Cons x xs)
  show ?case
  proof (cases "(k, s, m) = x")
    case True
    then have "k \<notin> fst ` set xs" using Cons.prems(1) by (simp flip: True)
    then show ?thesis
      using True [symmetric] sync_sets [of k s m cs w] by (simp add: split_beta sync_list_others)
  next
    case False
    then show ?thesis using Cons by (simp add: split_beta)
  qed
qed simp

lemma sync_list_settled:
  "(\<And>k s m. (k, s, m) \<in> set xs \<Longrightarrow> \<exists>c. find_condition k cs = Some c \<and> ac_status c = s \<and> ac_message c = Some m) \<Longrightarrow>
   run_state (sync_list xs cs) w = (cs, w)"
proof (induction xs)
  case (Cons x xs)
  obtain k s m where x: "x = (k, s, m)" by (metis prod.collapse)
  obtain c where "find_condition k cs = Some c" "ac_status c = s" "ac_message c = Some m"
    using Cons.prems [of k s m] x by auto
  then have "run_state (sync k s m cs) w = (cs, w)" by (rule sync_settled)
  then show ?case using Cons x by simp
qed (simp add: State_Monad.return_def)

lemma sync_list_footprint: "footprint (\<lambda>e. e = EvNow) (sync_list xs cs)"
  by (induction xs arbitrary: cs) (simp_all add: footprint_return footprint_bind sync_footprint)

end

lemma find_replace_same:
  "find_condition k cs \<noteq> None \<Longrightarrow> ac_type c = k \<Longrightarrow>
   find_condition k (replace_first (\<lambda>x. ac_type x = k) c cs) = Some c"
  unfolding find_condition_def by (induction cs) auto

lemma find_replace_other:
  "k' \<noteq> k \<Longrightarrow> ac_type c = k \<Longrightarrow>
   find_condition k' (replace_first (\<lambda>x. ac_type x = k) c cs) = find_condition k' cs"
  unfolding find_condition_def by (induction cs) auto

lemma replace_first_same:
  "find_condition k cs = Some c \<Longrightarrow> replace_first (\<lambda>x. ac_type x = k) c cs = cs"
  unfolding find_condition_def by (induction cs) (auto split: if_splits)

lemma find_or_add_simps:
  "find_condition k (fst (find_or_add k cs)) = Some (snd (find_or_add k cs))"
  "ac_type (snd (find_or_add k cs)) = k"
  "k' \<noteq> k \<Longrightarrow> find_condition k' (fst (find_or_add k cs)) = find_condition k' cs"
proof -
  have append: "find_condition x (cs @ [c]) = (case find_condition x cs of None \<Rightarrow>
      if ac_type c = x then Some c else None | Some d \<Rightarrow> Some d)" for x and c :: "'a api_condition"
    unfolding find_condition_def by (induction cs) auto
  have type: "find_condition x cs = Some c \<Longrightarrow> ac_type c = x" for x c
    unfolding find_condition_def by (induction cs) (auto split: if_splits)
  show "find_condition k (fst (find_or_add k cs)) = Some (snd (find_or_add k cs))"
    "ac_type (snd (find_or_add k cs)) = k"
    "k' \<noteq> k \<Longrightarrow> find_condition k' (fst (find_or_add k cs)) = find_condition k' cs"
    by (auto simp: find_or_add_def append type new_api_condition_def split: option.split)
qed

lemma run_sync_condition:
  "run_state (sync_condition E k s m cs) w =
     (replace_first (\<lambda>x. ac_type x = k) ((snd (find_or_add k cs))\<lparr>ac_status := s, ac_message := Some m,
        ac_lastTransitionTime := (if s \<noteq> ac_status (snd (find_or_add k cs)) then Some (clock E (trace w))
          else ac_lastTransitionTime (snd (find_or_add k cs)))\<rparr>) (fst (find_or_add k cs)),
      if s \<noteq> ac_status (snd (find_or_add k cs)) then w\<lparr>trace := EvNow # trace w\<rparr> else w)"
  by (simp add: sync_condition_def State_Monad.return_def split_beta)

interpretation sc: condition_sync "sync_condition E"
proof
  show "footprint (\<lambda>e. e = EvNow) (sync_condition E k s m cs)" for k s m cs
    unfolding sync_condition_def split_beta Let_def by (intro fp_intros; simp)
  show "\<exists>c. find_condition k (fst (run_state (sync_condition E k s m cs) w)) = Some c \<and>
      ac_status c = s \<and> ac_message c = Some m" for k s m cs w
    by (simp add: run_sync_condition find_replace_same find_or_add_simps)
  show "k' \<noteq> k \<Longrightarrow> find_condition k' (fst (run_state (sync_condition E k s m cs) w)) = find_condition k' cs"
    for k' k s m cs w
    by (simp add: run_sync_condition find_replace_other find_or_add_simps)
  show "run_state (sync_condition E k s m cs) w = (cs, w)"
    if "find_condition k cs = Some c" "ac_status c = s" "ac_message c = Some m" for k cs c s m w
  proof -
    have "find_or_add k cs = (cs, c)" using that by (simp add: find_or_add_def)
    then show ?thesis
      by (simp add: run_sync_condition that(2,3) [symmetric] replace_first_same [OF that(1)])
  qed
qed

lemma footprint_sync [fp_intros]: "P EvNow \<Longrightarrow> footprint P (sync_condition E k s m cs)"
  by (rule footprint_mono [OF sc.sync_footprint]) simp

lemma footprint_rpc [fp_intros]:
  "P (EvRpcGet ComputeInstances i) \<Longrightarrow> footprint P (rpc_fetch_ci E i)"
  "P (EvRpcUpdate (RpcComputeInstance x)) \<Longrightarrow> footprint P (rpc_save_ci E x)"
  "P (EvRpcSignal ComputeInstances i) \<Longrightarrow> footprint P (rpc_signal E i)"
  "P (EvRpcGet Clusters i) \<Longrightarrow> footprint P (rpc_fetch_cluster E i)"
  "P (EvRpcUpdate (RpcCluster y)) \<Longrightarrow> footprint P (rpc_save_cluster E y)"
  "P (EvRpcGet HostPools i) \<Longrightarrow> footprint P (rpc_fetch_hp E i)"
  "P (EvRpcUpdate (RpcHostPool z)) \<Longrightarrow> footprint P (rpc_save_hp E z)"
  by (simp_all add: rpc_defs footprint_request)

section \<open>The loop over the conditions of an object\<close>

text \<open>
  \<open>syncConditions\<close> of the cluster and of the host pool controller: each condition of the
  object whose type is known is copied into the condition of the record that \<open>kind\<close> names.
\<close>

fun sync_conditions ::
    "env \<Rightarrow> (string \<Rightarrow> 'k option) \<Rightarrow> condition list \<Rightarrow> 'k api_condition list \<Rightarrow> 'k api_condition list act" where
  "sync_conditions E kind [] acs = State_Monad.return acs"
| "sync_conditions E kind (c # cs) acs =
     (case kind (c_type c) of
        None \<Rightarrow> sync_conditions E kind cs acs
      | Some k \<Rightarrow>
          do { acs' \<leftarrow> sync_condition E k (mapConditionStatus (c_status c)) (c_message c) acs;
               sync_conditions E kind cs acs' })"

lemma footprint_sync_conditions [fp_intros]: "P EvNow \<Longrightarrow> footprint P (sync_conditions E kind cs acs)"
  by (induction cs arbitrary: acs) (auto intro!: fp_intros)

text \<open>A kind of condition that nothing is mapped to stays.\<close>

lemma sync_conditions_other:
  assumes "\<forall>c \<in> set cs. kind (c_type c) \<noteq> Some k"
  shows "find_condition k (fst (run_state (sync_conditions E kind cs acs) w)) = find_condition k acs"
  using assms
  by (induction cs arbitrary: acs w) (auto simp: State_Monad.return_def split_beta sc.sync_others split: option.split)

text \<open>The status that a kind of condition has, as \<open>find_or_add\<close> sees it.\<close>

definition known_status :: "'k \<Rightarrow> 'k api_condition list \<Rightarrow> fulfillment_status" where
  "known_status k acs = ac_status (snd (find_or_add k acs))"

definition known_stamp :: "'k \<Rightarrow> 'k api_condition list \<Rightarrow> time option" where
  "known_stamp k acs = ac_lastTransitionTime (snd (find_or_add k acs))"

lemma known_cong: "find_condition k a = find_condition k b \<Longrightarrow>
    known_status k a = known_status k b \<and> known_stamp k a = known_stamp k b"
  by (simp add: known_status_def known_stamp_def find_or_add_def split: option.split)

lemma known_sync:
  "known_status k (fst (run_state (sync_condition E k s m acs) w)) = s"
  "known_stamp k (fst (run_state (sync_condition E k s m acs) w)) =
     (if s \<noteq> known_status k acs then Some (clock E (trace w)) else known_stamp k acs)"
proof -
  have "find_condition k (fst (run_state (sync_condition E k s m acs) w)) =
      Some ((snd (find_or_add k acs))\<lparr>ac_status := s, ac_message := Some m,
        ac_lastTransitionTime := (if s \<noteq> known_status k acs then Some (clock E (trace w)) else known_stamp k acs)\<rparr>)"
    by (simp add: run_sync_condition find_replace_same find_or_add_simps known_status_def known_stamp_def)
  then show "known_status k (fst (run_state (sync_condition E k s m acs) w)) = s"
    "known_stamp k (fst (run_state (sync_condition E k s m acs) w)) =
     (if s \<noteq> known_status k acs then Some (clock E (trace w)) else known_stamp k acs)"
    by (simp_all add: known_status_def [of k "fst _"] known_stamp_def [of k "fst _"] find_or_add_def)
qed

lemma known_sync_other:
  assumes "k' \<noteq> k"
  shows "known_status k (fst (run_state (sync_condition E k' s m acs) w)) = known_status k acs"
    and "known_stamp k (fst (run_state (sync_condition E k' s m acs) w)) = known_stamp k acs"
  using known_cong [OF sc.sync_others [of k k' E s m acs w]] assms by auto

text \<open>A status that differs is stamped with a time of the run.\<close>

lemma sync_conditions_stamp:
  assumes "run_state (sync_conditions E kind cs acs) w = (acs', w')"
  shows "if \<forall>c \<in> set cs. kind (c_type c) = Some k \<longrightarrow> mapConditionStatus (c_status c) = known_status k acs
     then known_stamp k acs' = known_stamp k acs
     else \<exists>h es es'. known_stamp k acs' = Some (clock E h) \<and> h = es @ trace w \<and> trace w' = es' @ EvNow # h"
  using assms
proof (induction cs arbitrary: acs w)
  case Nil
  then show ?case by (simp add: State_Monad.return_def)
next
  case (Cons c cs)
  show ?case
  proof (cases "kind (c_type c)")
    case None
    then show ?thesis using Cons.IH [of acs w] Cons.prems by simp
  next
    case (Some k')
    let ?s = "mapConditionStatus (c_status c)"
    let ?r = "run_state (sync_condition E k' ?s (c_message c) acs) w"
    have run: "run_state (sync_conditions E kind cs (fst ?r)) (snd ?r) = (acs', w')"
      using Cons.prems Some by (simp add: split_beta)
    note IH = Cons.IH [OF run]
    obtain e1 where e1: "trace (snd ?r) = e1 @ trace w"
      by (rule footprintD [OF sc.sync_footprint surjective_pairing])
    obtain e2 where e2: "trace w' = e2 @ trace (snd ?r)"
      by (rule footprintD [OF footprint_sync_conditions [of "\<lambda>_. True"] run]) simp_all
    show ?thesis
    proof (cases "k' = k")
      case False
      with IH Some e1 show ?thesis
        by (auto simp: known_sync_other split: if_splits)
    next
      case True
      show ?thesis
      proof (cases "\<forall>d \<in> set cs. kind (c_type d) = Some k \<longrightarrow> mapConditionStatus (c_status d) = ?s")
        case all: True
        then have "known_stamp k acs' = (if ?s \<noteq> known_status k acs then Some (clock E (trace w)) else known_stamp k acs)"
          using IH True by (simp add: known_sync)
        moreover have "trace (snd ?r) = EvNow # trace w" if "?s \<noteq> known_status k acs"
          using that True by (simp add: run_sync_condition known_status_def)
        ultimately show ?thesis using True Some all e2 by auto
      next
        case some: False
        have "\<exists>h es es'. known_stamp k acs' = Some (clock E h) \<and> h = es @ trace (snd ?r) \<and>
            trace w' = es' @ EvNow # h"
          using IH unfolding True known_sync(1) if_not_P [OF some] .
        then obtain h es es' where h: "known_stamp k acs' = Some (clock E h)" "h = es @ trace (snd ?r)"
            "trace w' = es' @ EvNow # h" by blast
        moreover have "\<not> (\<forall>d \<in> set (c # cs). kind (c_type d) = Some k \<longrightarrow>
            mapConditionStatus (c_status d) = known_status k acs)"
          using some Some True by auto
        ultimately show ?thesis using e1 by auto
      qed
    qed
  qed
qed

text \<open>
  The consequence: while two conditions of the object are mapped to one condition of the
  record and have different statuses, copying them never settles. Each round finds a status
  that differs, and stamps a new time.
\<close>

lemma sync_conditions_unsettled:
  assumes "clock_strict E" and "c \<in> set cs" "d \<in> set cs" "kind (c_type c) = Some k" "kind (c_type d) = Some k"
    and differ: "mapConditionStatus (c_status c) \<noteq> mapConditionStatus (c_status d)"
    and r1: "run_state (sync_conditions E kind cs acs) w = (acs1, w1)"
    and later: "trace w2 = es @ trace w1"
    and r2: "run_state (sync_conditions E kind cs acs1) w2 = (acs2, w3)"
  shows "acs2 \<noteq> acs1"
proof -
  have some: "\<not> (\<forall>c \<in> set cs. kind (c_type c) = Some k \<longrightarrow> mapConditionStatus (c_status c) = s)" for s
    using assms(2-6) by metis
  from sync_conditions_stamp [OF r1, of k] some obtain h1 e1 where
    1: "known_stamp k acs1 = Some (clock E h1)" "trace w1 = e1 @ EvNow # h1" by (auto simp: if_not_P)
  from sync_conditions_stamp [OF r2, of k] some obtain h2 e2 where
    2: "known_stamp k acs2 = Some (clock E h2)" "h2 = e2 @ trace w2" by (auto simp: if_not_P)
  have "clock E h1 < clock E (EvNow # h1)" using assms(1) by (simp add: clock_strict_def)
  also have "\<dots> \<le> clock E h2"
    using clock_mono_append [OF clock_strict_mono [OF assms(1)], of "EvNow # h1" "e2 @ es @ e1"] 1 2 later by simp
  finally show ?thesis using 1 2 by auto
qed

end
