(* ===== verification/CI_Feedback.thy ===== *)
theory CI_Feedback
  imports Feedback Reference_Env
begin

text \<open>
  \<open>internal/controller/computeinstance_feedback_controller.go\<close>: the controller that copies
  the state of a compute instance into its record in the fulfillment service, and holds a
  finalizer of its own until the deletion is recorded there.
\<close>

record ci_feedback_reconciler =
  cifr_computeInstanceNamespace :: string

definition newComputeInstanceFeedbackReconciler :: "string \<Rightarrow> ci_feedback_reconciler" where
  "newComputeInstanceFeedbackReconciler ns = \<lparr>cifr_computeInstanceNamespace = ns\<rparr>"

section \<open>The record\<close>

definition fetchComputeInstance :: "env \<Rightarrow> string \<Rightarrow> (go_error + private_ci) act" where
  "fetchComputeInstance E i =
     do { r \<leftarrow> rpc_fetch_ci E i;
          State_Monad.return (case r of
            Inl e \<Rightarrow> Inl e
          | Inr ci \<Rightarrow> Inr (ci\<lparr>pci_spec := Some (case pci_spec ci of None \<Rightarrow> [] | Some s \<Rightarrow> s),
              pci_status := Some (case pci_status ci of None \<Rightarrow> empty_pci_status | Some s \<Rightarrow> s)\<rparr>)) }"

definition saveComputeInstance :: "env \<Rightarrow> private_ci \<Rightarrow> private_ci \<Rightarrow> go_error option act" where
  "saveComputeInstance E before after =
     (if after \<noteq> before then rpc_save_ci E after else State_Monad.return None)"

text \<open>The status is there after \<open>fetchComputeInstance\<close>.\<close>

definition record_status :: "private_ci \<Rightarrow> pci_status" where
  "record_status ci = (case pci_status ci of None \<Rightarrow> empty_pci_status | Some s \<Rightarrow> s)"

definition upd_status :: "(pci_status \<Rightarrow> pci_status) \<Rightarrow> private_ci \<Rightarrow> private_ci" where
  "upd_status f ci = ci\<lparr>pci_status := Some (f (record_status ci))\<rparr>"

definition sync_ci_condition ::
    "env \<Rightarrow> compute_instance_condition_type \<Rightarrow> fulfillment_status \<Rightarrow> string \<Rightarrow> private_ci \<Rightarrow> private_ci act" where
  "sync_ci_condition E kind s msg ci =
     do { cs \<leftarrow> sync_condition E kind s msg (pcis_conditions (record_status ci));
          State_Monad.return (upd_status (\<lambda>st. st\<lparr>pcis_conditions := cs\<rparr>) ci) }"

section \<open>Synchronisation\<close>

definition progressing_value :: "compute_instance \<Rightarrow> fulfillment_status \<times> string" where
  "progressing_value obj =
     (if IsStatusConditionUnknown ComputeInstanceConditionProgressing obj \<and>
         IsStatusConditionUnknown ComputeInstanceConditionAccepted obj
      then (CONDITION_STATUS_UNSPECIFIED, [])
      else case (GetStatusCondition ComputeInstanceConditionProgressing obj,
                 GetStatusCondition ComputeInstanceConditionAccepted obj) of
        (p, a) \<Rightarrow>
          if IsStatusConditionTrue ComputeInstanceConditionProgressing obj
          then (case p of Some c \<Rightarrow> (mapConditionStatus (c_status c), c_message c)
                | None \<Rightarrow> (CONDITION_STATUS_FALSE, []))
          else if IsStatusConditionTrue ComputeInstanceConditionAccepted obj
          then (case a of Some c \<Rightarrow> (mapConditionStatus (c_status c), c_message c)
                | None \<Rightarrow> (CONDITION_STATUS_FALSE, []))
          else (CONDITION_STATUS_FALSE, []))"

definition syncProgressing :: "env \<Rightarrow> compute_instance \<Rightarrow> private_ci \<Rightarrow> private_ci act" where
  "syncProgressing E obj ci =
     (case progressing_value obj of (s, msg) \<Rightarrow> sync_ci_condition E CI_TYPE_PROGRESSING s msg ci)"

text \<open>\<open>syncAvailable\<close>, \<open>syncRestartInProgress\<close> and \<open>syncRestartFailed\<close> with \<open>syncVMConditionFromCR\<close>.\<close>

definition syncVMConditionFromCR ::
    "env \<Rightarrow> compute_instance_condition_type \<Rightarrow> string \<Rightarrow> compute_instance \<Rightarrow> private_ci \<Rightarrow> private_ci act" where
  "syncVMConditionFromCR E kind t obj ci =
     (case GetStatusCondition t obj of
        None \<Rightarrow> State_Monad.return ci
      | Some c \<Rightarrow> sync_ci_condition E kind (mapConditionStatus (c_status c)) (c_message c) ci)"

definition ci_syncConditions :: "env \<Rightarrow> compute_instance \<Rightarrow> private_ci \<Rightarrow> private_ci act" where
  "ci_syncConditions E obj ci =
     do { c1 \<leftarrow> syncProgressing E obj ci;
          c2 \<leftarrow> syncVMConditionFromCR E CI_TYPE_AVAILABLE ComputeInstanceConditionAvailable obj c1;
          c3 \<leftarrow> syncVMConditionFromCR E CI_TYPE_RESTART_IN_PROGRESS ComputeInstanceConditionRestartInProgress obj c2;
          syncVMConditionFromCR E CI_TYPE_RESTART_FAILED ComputeInstanceConditionRestartFailed obj c3 }"

fun state_of_phase :: "compute_instance_phase \<Rightarrow> compute_instance_state option" where
  "state_of_phase ComputeInstancePhaseStarting = Some COMPUTE_INSTANCE_STATE_STARTING"
| "state_of_phase ComputeInstancePhaseFailed = Some COMPUTE_INSTANCE_STATE_FAILED"
| "state_of_phase ComputeInstancePhaseRunning = Some COMPUTE_INSTANCE_STATE_RUNNING"
| "state_of_phase ComputeInstancePhaseDeleting = Some COMPUTE_INSTANCE_STATE_DELETING"
| "state_of_phase _ = None"

definition ci_syncPhase :: "compute_instance \<Rightarrow> private_ci \<Rightarrow> private_ci" where
  "ci_syncPhase obj ci =
     (case state_of_phase (ci_phase obj) of
        None \<Rightarrow> ci | Some s \<Rightarrow> upd_status (\<lambda>st. st\<lparr>pcis_state := s\<rparr>) ci)"

definition syncIPAddress :: "compute_instance \<Rightarrow> private_ci \<Rightarrow> private_ci" where
  "syncIPAddress obj ci =
     (case ci_annotations obj cloudkitVirualMachineFloatingIPAddressAnnotation of
        None \<Rightarrow> ci
      | Some ip \<Rightarrow> if ip \<noteq> [] then upd_status (\<lambda>st. st\<lparr>pcis_ipAddress := ip\<rparr>) ci else ci)"

definition syncLastRestartedAt :: "compute_instance \<Rightarrow> private_ci \<Rightarrow> private_ci" where
  "syncLastRestartedAt obj ci =
     (case cis_lastRestartedAt (ci_status obj) of
        None \<Rightarrow> ci | Some t \<Rightarrow> upd_status (\<lambda>st. st\<lparr>pcis_lastRestartedAt := Some t\<rparr>) ci)"

definition syncState :: "env \<Rightarrow> compute_instance \<Rightarrow> private_ci \<Rightarrow> private_ci act" where
  "syncState E obj ci =
     do { ci1 \<leftarrow> ci_syncConditions E obj ci;
          State_Monad.return (syncLastRestartedAt obj (syncIPAddress obj (ci_syncPhase obj ci1))) }"

section \<open>handleUpdate and Reconcile\<close>

text \<open>The instance as the update of its finalizer leaves it, the record, and the error.\<close>

definition feedback_handleUpdate ::
    "env \<Rightarrow> compute_instance \<Rightarrow> private_ci \<Rightarrow> (compute_instance \<times> private_ci \<times> go_error option) act" where
  "feedback_handleUpdate E obj ci =
     (let added = addFinalizer (lib E) (ci_finalizers obj) cloudkitComputeInstanceFeedbackFinalizer;
          obj1 = set_finalizers (snd added) obj
      in do { u \<leftarrow> (if fst added then kc_update_ci E obj1 else State_Monad.return (Inr obj1));
              case u of
                Inl e \<Rightarrow> State_Monad.return (obj1, ci, Some e)
              | Inr obj2 \<Rightarrow> do { ci' \<leftarrow> syncState E obj2 ci; State_Monad.return (obj2, ci', None) } })"

definition feedback_sync ::
    "env \<Rightarrow> compute_instance \<Rightarrow> private_ci \<Rightarrow> (compute_instance \<times> private_ci \<times> go_error option) act" where
  "feedback_sync E obj ci =
     (if deleting (ci_meta obj) then do { ci' \<leftarrow> syncState E obj ci; State_Monad.return (obj, ci', None) }
      else feedback_handleUpdate E obj ci)"

definition feedback_release :: "env \<Rightarrow> compute_instance \<Rightarrow> (go_error + compute_instance) act" where
  "feedback_release E obj =
     (let removed = removeFinalizer (lib E) (ci_finalizers obj) cloudkitComputeInstanceFeedbackFinalizer;
          obj1 = set_finalizers (snd removed) obj
      in if fst removed then kc_update_ci E obj1 else State_Monad.return (Inr obj1))"

definition feedback_finish :: "env \<Rightarrow> string \<Rightarrow> compute_instance \<Rightarrow> unit outcome act" where
  "feedback_finish E i obj =
     (if deleting (ci_meta obj) \<and>
         containsFinalizer (lib E) (ci_finalizers obj) cloudkitComputeInstanceFeedbackFinalizer \<and>
         length (ci_finalizers obj) = 1
      then do { u \<leftarrow> feedback_release E obj;
                case u of
                  Inl e \<Rightarrow> State_Monad.return (Done () result_none (Some e))
                | Inr _ \<Rightarrow> do { s \<leftarrow> rpc_signal E i; State_Monad.return (Done () result_none None) } }
      else State_Monad.return (Done () result_none None))"

definition feedback_unlabelled :: "env \<Rightarrow> compute_instance \<Rightarrow> unit outcome act" where
  "feedback_unlabelled E obj =
     (if deleting (ci_meta obj) \<and>
         containsFinalizer (lib E) (ci_finalizers obj) cloudkitComputeInstanceFeedbackFinalizer
      then do { u \<leftarrow> feedback_release E obj;
                State_Monad.return (Done () result_none (case u of Inl e \<Rightarrow> Some e | Inr _ \<Rightarrow> None)) }
      else State_Monad.return (Done () result_none None))"

definition feedback_labelled :: "env \<Rightarrow> string \<Rightarrow> compute_instance \<Rightarrow> unit outcome act" where
  "feedback_labelled E i obj =
     do { f \<leftarrow> fetchComputeInstance E i;
          case f of
            Inl e \<Rightarrow> State_Monad.return (Done () result_none (Some e))
          | Inr ci \<Rightarrow>
              do { h \<leftarrow> feedback_sync E obj ci;
                   case snd (snd h) of
                     Some e \<Rightarrow> State_Monad.return (Done () result_none (Some e))
                   | None \<Rightarrow>
                       do { s \<leftarrow> saveComputeInstance E ci (fst (snd h));
                            case s of
                              Some e \<Rightarrow> State_Monad.return (Done () result_none (Some e))
                            | None \<Rightarrow> feedback_finish E i (fst h) } } }"

definition ci_feedback_Reconcile :: "env \<Rightarrow> object_key \<Rightarrow> unit outcome act" where
  "ci_feedback_Reconcile E key =
     do { g \<leftarrow> kc_get_ci E key;
          case g of
            Inl e \<Rightarrow> State_Monad.return (Done () result_none (if is_not_found e then None else Some e))
          | Inr obj \<Rightarrow>
              (case om_labels (ci_meta obj) cloudkitComputeInstanceIDLabel of
                 None \<Rightarrow> feedback_unlabelled E obj
               | Some i \<Rightarrow> feedback_labelled E i obj) }"

section \<open>What the record has to say\<close>

text \<open>
  The contract of the synchronisation, without its order and its stores: the conditions that an
  instance asks for, and what the rest of the record's status has to be.
\<close>

definition wanted_from ::
    "compute_instance_condition_type \<Rightarrow> string \<Rightarrow> compute_instance \<Rightarrow>
     (compute_instance_condition_type \<times> fulfillment_status \<times> string) list" where
  "wanted_from kind t obj =
     (case GetStatusCondition t obj of
        None \<Rightarrow> [] | Some c \<Rightarrow> [(kind, mapConditionStatus (c_status c), c_message c)])"

definition wanted_conditions ::
    "compute_instance \<Rightarrow> (compute_instance_condition_type \<times> fulfillment_status \<times> string) list" where
  "wanted_conditions obj =
     (CI_TYPE_PROGRESSING, progressing_value obj) #
     wanted_from CI_TYPE_AVAILABLE ComputeInstanceConditionAvailable obj @
     wanted_from CI_TYPE_RESTART_IN_PROGRESS ComputeInstanceConditionRestartInProgress obj @
     wanted_from CI_TYPE_RESTART_FAILED ComputeInstanceConditionRestartFailed obj"

definition mirrors :: "compute_instance \<Rightarrow> private_ci \<Rightarrow> bool" where
  "mirrors obj ci \<longleftrightarrow> pci_status ci \<noteq> None \<and>
     (\<forall>(k, s, m) \<in> set (wanted_conditions obj). \<exists>c.
        find_condition k (pcis_conditions (record_status ci)) = Some c \<and> ac_status c = s \<and> ac_message c = Some m) \<and>
     (\<forall>s. state_of_phase (ci_phase obj) = Some s \<longrightarrow> pcis_state (record_status ci) = s) \<and>
     (\<forall>ip. ci_annotations obj cloudkitVirualMachineFloatingIPAddressAnnotation = Some ip \<and> ip \<noteq> [] \<longrightarrow>
        pcis_ipAddress (record_status ci) = ip) \<and>
     (\<forall>t. cis_lastRestartedAt (ci_status obj) = Some t \<longrightarrow> pcis_lastRestartedAt (record_status ci) = Some t)"

lemma wanted_distinct: "distinct (map fst (wanted_conditions obj))"
  by (simp add: wanted_conditions_def wanted_from_def split: option.split)

lemma upd_status_simps [simp]:
  "record_status (upd_status f ci) = f (record_status ci)"
  "upd_status f (upd_status g ci) = upd_status (f \<circ> g) ci"
  "pci_status (upd_status f ci) = Some (f (record_status ci))"
  "pci_id (upd_status f ci) = pci_id ci" "pci_metadata (upd_status f ci) = pci_metadata ci"
  "pci_spec (upd_status f ci) = pci_spec ci"
  by (simp_all add: upd_status_def record_status_def)

lemma upd_status_id: "pci_status ci \<noteq> None \<Longrightarrow> f (record_status ci) = record_status ci \<Longrightarrow> upd_status f ci = ci"
  by (auto simp: upd_status_def record_status_def)

text \<open>The four copies of the source are the list of the wanted conditions, copied in order.\<close>

lemma run_ci_syncConditions:
  "run_state (ci_syncConditions E obj ci) w =
     (let r = run_state (sc.sync_list E (wanted_conditions obj) (pcis_conditions (record_status ci))) w
      in (upd_status (\<lambda>st. st\<lparr>pcis_conditions := fst r\<rparr>) ci, snd r))"
  by (simp add: ci_syncConditions_def syncProgressing_def syncVMConditionFromCR_def sync_ci_condition_def
      wanted_conditions_def wanted_from_def State_Monad.return_def split_beta Let_def comp_def
      split: option.split)

lemma sync_parts:
  "ci_syncPhase obj ci = (case state_of_phase (ci_phase obj) of
     None \<Rightarrow> ci | Some s \<Rightarrow> upd_status (\<lambda>st. st\<lparr>pcis_state := s\<rparr>) ci)"
  "syncIPAddress obj ci = (case ci_annotations obj cloudkitVirualMachineFloatingIPAddressAnnotation of
     None \<Rightarrow> ci | Some ip \<Rightarrow> if ip \<noteq> [] then upd_status (\<lambda>st. st\<lparr>pcis_ipAddress := ip\<rparr>) ci else ci)"
  "syncLastRestartedAt obj ci = (case cis_lastRestartedAt (ci_status obj) of
     None \<Rightarrow> ci | Some t \<Rightarrow> upd_status (\<lambda>st. st\<lparr>pcis_lastRestartedAt := Some t\<rparr>) ci)"
  by (simp_all add: ci_syncPhase_def syncIPAddress_def syncLastRestartedAt_def)

lemma run_syncState:
  "run_state (syncState E obj ci) w =
     (let r = run_state (sc.sync_list E (wanted_conditions obj) (pcis_conditions (record_status ci))) w
      in (syncLastRestartedAt obj (syncIPAddress obj (ci_syncPhase obj
           (upd_status (\<lambda>st. st\<lparr>pcis_conditions := fst r\<rparr>) ci))), snd r))"
  by (simp add: syncState_def run_ci_syncConditions State_Monad.return_def Let_def)

lemma syncState_frame:
  "pci_id (fst (run_state (syncState E obj ci) w)) = pci_id ci"
  "pci_metadata (fst (run_state (syncState E obj ci) w)) = pci_metadata ci"
  "pci_spec (fst (run_state (syncState E obj ci) w)) = pci_spec ci"
  "pcis_hub (record_status (fst (run_state (syncState E obj ci) w))) = pcis_hub (record_status ci)"
  by (simp_all add: run_syncState Let_def sync_parts split: option.split)

text \<open>The synchronisation implements the contract, and has nothing to do where it holds.\<close>

lemma syncState_mirrors: "mirrors obj (fst (run_state (syncState E obj ci) w))"
proof -
  let ?r = "fst (run_state (sc.sync_list E (wanted_conditions obj) (pcis_conditions (record_status ci))) w)"
  let ?ci = "fst (run_state (syncState E obj ci) w)"
  have cs: "pcis_conditions (record_status ?ci) = ?r" and st: "pci_status ?ci \<noteq> None"
    by (simp_all add: run_syncState Let_def sync_parts split: option.split)
  have "\<forall>(k, s, m) \<in> set (wanted_conditions obj). \<exists>c.
      find_condition k ?r = Some c \<and> ac_status c = s \<and> ac_message c = Some m"
    using sc.sync_list_sets [OF wanted_distinct] by blast
  moreover have "(\<forall>s. state_of_phase (ci_phase obj) = Some s \<longrightarrow> pcis_state (record_status ?ci) = s) \<and>
     (\<forall>ip. ci_annotations obj cloudkitVirualMachineFloatingIPAddressAnnotation = Some ip \<and> ip \<noteq> [] \<longrightarrow>
        pcis_ipAddress (record_status ?ci) = ip) \<and>
     (\<forall>t. cis_lastRestartedAt (ci_status obj) = Some t \<longrightarrow> pcis_lastRestartedAt (record_status ?ci) = Some t)"
    by (simp add: run_syncState Let_def sync_parts split: option.split)
  ultimately show ?thesis unfolding mirrors_def cs using st by blast
qed

lemma syncState_settled:
  assumes "mirrors obj ci"
  shows "run_state (syncState E obj ci) w = (ci, w)"
proof -
  note m = assms [unfolded mirrors_def]
  have "run_state (sc.sync_list E (wanted_conditions obj) (pcis_conditions (record_status ci))) w =
      (pcis_conditions (record_status ci), w)"
    by (rule sc.sync_list_settled) (use m in auto)
  moreover have "upd_status (\<lambda>st. st\<lparr>pcis_conditions := pcis_conditions (record_status ci)\<rparr>) ci = ci"
    "ci_syncPhase obj ci = ci" "syncIPAddress obj ci = ci" "syncLastRestartedAt obj ci = ci"
    using m by (auto simp: sync_parts upd_status_id split: option.split)
  ultimately show ?thesis by (simp add: run_syncState Let_def)
qed

lemma footprint_syncState [fp_intros]: "P EvNow \<Longrightarrow> footprint P (syncState E obj ci)"
  unfolding syncState_def ci_syncConditions_def syncProgressing_def syncVMConditionFromCR_def
    sync_ci_condition_def by (intro fp_intros)

text \<open>The instance that the record has been made to mirror: as it was read, or as updated.\<close>

definition feedback_object :: "env \<Rightarrow> compute_instance \<Rightarrow> compute_instance \<Rightarrow> bool" where
  "feedback_object E obj obj' \<longleftrightarrow> obj' = obj \<or>
     set_finalizers (snd (addFinalizer (lib E) (ci_finalizers obj) cloudkitComputeInstanceFeedbackFinalizer)) obj = obj' \<or>
     (\<exists>y h. update_compute_instance (kube E) y h = Inr obj')"

lemma feedback_sync_result:
  assumes "run_state (feedback_sync E obj ci) w = ((obj', ci', None), w')"
  shows "feedback_object E obj obj' \<and> mirrors obj' ci' \<and> pci_id ci' = pci_id ci \<and>
     pci_metadata ci' = pci_metadata ci \<and> pci_spec ci' = pci_spec ci \<and>
     pcis_hub (record_status ci') = pcis_hub (record_status ci) \<and>
     (deleting (ci_meta obj) \<longrightarrow> obj' = obj)"
  using assms
  by (auto simp: feedback_sync_def feedback_handleUpdate_def Let_def split_beta State_Monad.return_def
      feedback_object_def syncState_frame kc_defs intro: syncState_mirrors split: if_splits sum.splits)

lemma fetchComputeInstance_result:
  assumes "fst (run_state (fetchComputeInstance E i) w) = Inr ci"
  shows "pci_status ci \<noteq> None \<and> (\<exists>r. rpc_get_ci (rpc E) i (trace w) = Inr r \<and> pci_id ci = pci_id r \<and>
     pci_metadata ci = pci_metadata r \<and> record_status ci = record_status r \<and>
     pci_spec ci = Some (case pci_spec r of None \<Rightarrow> [] | Some s \<Rightarrow> s))"
  using assms
  by (auto simp: fetchComputeInstance_def rpc_defs State_Monad.return_def record_status_def split: sum.splits option.splits)

definition feedback_record :: "env \<Rightarrow> string \<Rightarrow> compute_instance \<Rightarrow> private_ci \<Rightarrow> bool" where
  "feedback_record E i obj ci \<longleftrightarrow> (\<exists>obj' r h.
     feedback_object E obj obj' \<and> mirrors obj' ci \<and>
     rpc_get_ci (rpc E) i h = Inr r \<and> pci_id ci = pci_id r \<and> pci_metadata ci = pci_metadata r \<and>
     pci_spec ci = Some (case pci_spec r of None \<Rightarrow> [] | Some s \<Rightarrow> s) \<and>
     pcis_hub (record_status ci) = pcis_hub (record_status r))"

definition sends_record :: "env \<Rightarrow> string \<Rightarrow> compute_instance \<Rightarrow> event \<Rightarrow> bool" where
  "sends_record E i obj e \<longleftrightarrow>
     (\<forall>x. e = EvRpcUpdate x \<longrightarrow> (\<exists>ci. x = RpcComputeInstance ci \<and> feedback_record E i obj ci))"

lemma sends_record_simps [simp]:
  "sends_record E i obj EvNow" "sends_record E i obj (EvUpdate y)" "sends_record E i obj (EvGet k key)"
  "sends_record E i obj (EvRpcGet s j)" "sends_record E i obj (EvRpcSignal s j)"
  "sends_record E i obj (EvRpcUpdate (RpcComputeInstance ci)) = feedback_record E i obj ci"
  by (simp_all add: sends_record_def)

lemma footprint_fetchComputeInstance [fp_intros]:
  "P (EvRpcGet ComputeInstances i) \<Longrightarrow> footprint P (fetchComputeInstance E i)"
  unfolding fetchComputeInstance_def by (intro fp_intros)

lemma footprint_feedback_sync:
  "P EvNow \<Longrightarrow> (\<And>y. P (EvUpdate (KComputeInstance y))) \<Longrightarrow> footprint P (feedback_sync E obj ci)"
  unfolding feedback_sync_def feedback_handleUpdate_def Let_def by (intro fp_intros) simp_all

lemma footprint_feedback_finish:
  "(\<And>y. P (EvUpdate (KComputeInstance y))) \<Longrightarrow> P (EvRpcSignal ComputeInstances i) \<Longrightarrow>
   footprint P (feedback_finish E i obj)"
  unfolding feedback_finish_def feedback_release_def Let_def by (intro fp_intros) simp_all

lemma footprint_feedback_labelled: "footprint (sends_record E i obj) (feedback_labelled E i obj)"
proof -
  have save: "footprint (sends_record E i obj) (saveComputeInstance E ci ci')"
    if "fst (run_state (fetchComputeInstance E i) w) = Inr ci"
      "fst (run_state (feedback_sync E obj ci) w') = (obj', ci', None)" for ci ci' obj' w w'
  proof -
    from fetchComputeInstance_result [OF that(1)] obtain r where
      r: "rpc_get_ci (rpc E) i (trace w) = Inr r" "pci_id ci = pci_id r" "pci_metadata ci = pci_metadata r"
        "record_status ci = record_status r" "pci_spec ci = Some (case pci_spec r of None \<Rightarrow> [] | Some s \<Rightarrow> s)"
      by blast
    have "run_state (feedback_sync E obj ci) w' = ((obj', ci', None), snd (run_state (feedback_sync E obj ci) w'))"
      by (simp add: prod_eq_iff that(2))
    from feedback_sync_result [OF this] r have "feedback_record E i obj ci'"
      unfolding feedback_record_def by metis
    then show ?thesis unfolding saveComputeInstance_def by (intro fp_intros) simp_all
  qed
  show ?thesis
    unfolding feedback_labelled_def
    by (intro footprint_bind_run fp_intros footprint_feedback_sync footprint_feedback_finish save)
      (auto simp: prod_eq_iff)
qed

text \<open>The end of a deletion: what precedes a signal.\<close>

definition no_signal :: "event \<Rightarrow> bool" where
  "no_signal e \<longleftrightarrow> (\<forall>s j. e \<noteq> EvRpcSignal s j)"

lemma no_signal_simps [simp]:
  "no_signal EvNow" "no_signal (EvUpdate y)" "no_signal (EvRpcGet s j)" "no_signal (EvRpcUpdate x)"
  "no_signal (EvGet k key)" "\<not> no_signal (EvRpcSignal s j)"
  by (simp_all add: no_signal_def)

lemma footprint_save [fp_intros]:
  "P (EvRpcUpdate (RpcComputeInstance ci')) \<Longrightarrow> footprint P (saveComputeInstance E ci ci')"
  unfolding saveComputeInstance_def by (intro fp_intros)

lemma run_feedback_finish:
  assumes laws: "finalizer_laws (lib E)" and run: "run_state (feedback_finish E i obj) w = (out, w')"
    and es: "trace w' = es @ trace w" and sig: "EvRpcSignal s j \<in> set es"
  shows "deleting (ci_meta obj) \<and> set (ci_finalizers obj) = {cloudkitComputeInstanceFeedbackFinalizer} \<and>
     s = ComputeInstances \<and> j = i \<and>
     es = [EvRpcSignal ComputeInstances i, EvUpdate (KComputeInstance (set_finalizers [] obj))] \<and>
     (\<exists>z. update_compute_instance (kube E) (set_finalizers [] obj) (trace w) = Inr z)"
proof -
  let ?F = cloudkitComputeInstanceFeedbackFinalizer
  have last: "deleting (ci_meta obj) \<and> ?F \<in> set (ci_finalizers obj) \<and> length (ci_finalizers obj) = 1"
  proof (rule ccontr)
    assume "\<not> ?thesis"
    then have "w' = w"
      using run by (auto simp: feedback_finish_def finalizer_simps [OF laws] State_Monad.return_def)
    with es sig show False by simp
  qed
  then have fs: "ci_finalizers obj = [?F]" by (auto simp: length_Suc_conv)
  have none: "snd (removeFinalizer (lib E) (ci_finalizers obj) ?F) = []"
    using finalizer_simps(5) [OF laws, of "[?F]" ?F] by (simp add: fs)
  have "es = [EvRpcSignal ComputeInstances i, EvUpdate (KComputeInstance (set_finalizers [] obj))] \<and>
        (\<exists>z. update_compute_instance (kube E) (set_finalizers [] obj) (trace w) = Inr z) \<or>
      es = [EvUpdate (KComputeInstance (set_finalizers [] obj))]"
    using run es last none by (auto simp: feedback_finish_def feedback_release_def finalizer_simps [OF laws]
        State_Monad.return_def kc_defs rpc_defs Let_def split: sum.splits)
  then show ?thesis using run sig last fs es
    by (auto simp: feedback_finish_def feedback_release_def none rpc_defs)
qed

lemma no_signalD: "\<forall>e \<in> set es. no_signal e \<Longrightarrow> EvRpcSignal s j \<in> set es \<Longrightarrow> False"
  by (metis no_signal_simps(6))

text \<open>The service has the record's status: one of the events \<open>es\<close>, which follow \<open>h\<close>, is a save of that
  record that the service accepted, or a read that the service answered with that status.\<close>

definition record_stored :: "env \<Rightarrow> string \<Rightarrow> private_ci \<Rightarrow> history \<Rightarrow> history \<Rightarrow> bool" where
  "record_stored E i ci h es \<longleftrightarrow>
     (\<exists>later before. es = later @ EvRpcUpdate (RpcComputeInstance ci) # before \<and>
        rpc_update_ci (rpc E) ci (before @ h) = None) \<or>
     (\<exists>later before r. es = later @ EvRpcGet ComputeInstances i # before \<and>
        rpc_get_ci (rpc E) i (before @ h) = Inr r \<and> record_status r = record_status ci)"

lemma record_stored_more: "record_stored E i ci (g @ h) es \<Longrightarrow> record_stored E i ci h (fs @ es @ g)"
  unfolding record_stored_def
proof (elim disjE exE conjE)
  fix later before
  assume "es = later @ EvRpcUpdate (RpcComputeInstance ci) # before"
    "rpc_update_ci (rpc E) ci (before @ g @ h) = None"
  then show "(\<exists>later before. fs @ es @ g = later @ EvRpcUpdate (RpcComputeInstance ci) # before \<and>
        rpc_update_ci (rpc E) ci (before @ h) = None) \<or> Q" for Q
    by (intro disjI1 exI [of _ "fs @ later"] exI [of _ "before @ g"]) simp
next
  fix later before r
  assume "es = later @ EvRpcGet ComputeInstances i # before"
    "rpc_get_ci (rpc E) i (before @ g @ h) = Inr r" "record_status r = record_status ci"
  then show "Q \<or> (\<exists>later before r. fs @ es @ g = later @ EvRpcGet ComputeInstances i # before \<and>
        rpc_get_ci (rpc E) i (before @ h) = Inr r \<and> record_status r = record_status ci)" for Q
    by (intro disjI2 exI [of _ "fs @ later"] exI [of _ "before @ g"] exI [of _ r]) simp
qed

lemma saveComputeInstance_stores:
  assumes "fst (run_state (saveComputeInstance E before after) w) = None" "after \<noteq> before"
    and "trace (snd (run_state (saveComputeInstance E before after) w)) = es @ trace w"
  shows "record_stored E i after (trace w) es"
proof -
  have "es = [EvRpcUpdate (RpcComputeInstance after)]" "rpc_update_ci (rpc E) after (trace w) = None"
    using assms by (auto simp: saveComputeInstance_def rpc_defs)
  then show ?thesis unfolding record_stored_def
    by (intro disjI1 exI [of _ "[]"]) simp
qed

lemma feedback_labelled_signal:
  assumes laws: "finalizer_laws (lib E)" and run: "run_state (feedback_labelled E i obj) w = (out, w')"
    and es: "trace w' = es @ trace w" and sig: "EvRpcSignal s j \<in> set es"
  shows "\<exists>obj' z ci rest. feedback_object E obj obj' \<and> (deleting (ci_meta obj) \<longrightarrow> obj' = obj) \<and>
     deleting (ci_meta obj') \<and> set (ci_finalizers obj') = {cloudkitComputeInstanceFeedbackFinalizer} \<and>
     s = ComputeInstances \<and> j = i \<and>
     es = EvRpcSignal ComputeInstances i # EvUpdate (KComputeInstance (set_finalizers [] obj')) # rest \<and>
     update_compute_instance (kube E) (set_finalizers [] obj') (rest @ trace w) = Inr z \<and>
     mirrors obj' ci \<and> record_stored E i ci (trace w) rest"
proof -
  let ?f = "run_state (fetchComputeInstance E i) w"
  obtain e1 where e1: "trace (snd ?f) = e1 @ trace w" "\<forall>e \<in> set e1. no_signal e"
    by (rule footprintD [OF footprint_fetchComputeInstance surjective_pairing, of no_signal]) simp_all
  obtain ci where ci: "fst ?f = Inr ci"
  proof (cases "fst ?f")
    case (Inl e)
    then have "w' = snd ?f" using run by (simp add: feedback_labelled_def State_Monad.return_def split_beta)
    with e1 es sig show ?thesis by (auto dest: no_signalD)
  qed
  let ?h = "run_state (feedback_sync E obj ci) (snd ?f)"
  obtain e2 where e2: "trace (snd ?h) = e2 @ trace (snd ?f)" "\<forall>e \<in> set e2. no_signal e"
    by (rule footprintD [OF footprint_feedback_sync surjective_pairing, of no_signal]) simp_all
  obtain obj' ci' where h: "fst ?h = (obj', ci', None)"
  proof (cases "snd (snd (fst ?h))")
    case (Some e)
    then have "w' = snd ?h" using run ci by (simp add: feedback_labelled_def State_Monad.return_def split_beta)
    with e1 e2 es sig show ?thesis by (auto dest: no_signalD)
  qed (metis prod.collapse)
  let ?s = "run_state (saveComputeInstance E ci ci') (snd ?h)"
  obtain e3 where e3: "trace (snd ?s) = e3 @ trace (snd ?h)" "\<forall>e \<in> set e3. no_signal e"
    by (rule footprintD [OF footprint_save surjective_pairing, of no_signal]) simp_all
  have s: "fst ?s = None"
  proof (rule ccontr)
    assume "fst ?s \<noteq> None"
    then have "w' = snd ?s" using run ci h by (auto simp: feedback_labelled_def State_Monad.return_def split_beta)
    with e1 e2 e3 es sig show False by (auto dest: no_signalD)
  qed
  have finish: "run_state (feedback_finish E i obj') (snd ?s) = (out, w')"
    using run ci h s by (simp add: feedback_labelled_def split_beta)
  obtain e4 where e4: "trace w' = e4 @ trace (snd ?s)"
    by (rule footprintD [OF footprint_feedback_finish finish, of "\<lambda>_. True"]) simp_all
  have split: "es = e4 @ e3 @ e2 @ e1" using es e1 e2 e3 e4 by simp
  with sig e1 e2 e3 have "EvRpcSignal s j \<in> set e4" by (auto dest: no_signalD)
  from run_feedback_finish [OF laws finish e4 this] obtain z where
    y: "deleting (ci_meta obj')" "set (ci_finalizers obj') = {cloudkitComputeInstanceFeedbackFinalizer}"
      "s = ComputeInstances" "j = i"
      "e4 = [EvRpcSignal ComputeInstances i, EvUpdate (KComputeInstance (set_finalizers [] obj'))]"
      "update_compute_instance (kube E) (set_finalizers [] obj') (trace (snd ?s)) = Inr z" by blast
  have synced: "run_state (feedback_sync E obj ci) (snd ?f) = ((obj', ci', None), snd ?h)"
    by (simp add: prod_eq_iff h)
  note m = feedback_sync_result [OF synced]
  have "record_stored E i ci' (trace w) (e3 @ e2 @ e1)"
  proof (cases "ci' = ci")
    case True
    have "trace (snd ?f) = EvRpcGet ComputeInstances i # trace w"
      by (simp add: fetchComputeInstance_def rpc_defs State_Monad.return_def)
    with e1 have "e1 = [EvRpcGet ComputeInstances i]" by simp
    then have "record_stored E i ci' (trace w) e1"
      using True fetchComputeInstance_result [OF ci] by (fastforce simp: record_stored_def)
    with record_stored_more [of E i ci' "[]" "trace w" e1 "e3 @ e2"] show ?thesis by simp
  next
    case False
    have "record_stored E i ci' ((e2 @ e1) @ trace w) e3"
      using saveComputeInstance_stores [OF s False e3(1)] e1(1) e2(1) by simp
    then show ?thesis using record_stored_more [of E i ci' "e2 @ e1" "trace w" e3 "[]"] by simp
  qed
  with m y split e1(1) e2(1) e3(1) show ?thesis
    by (intro exI [of _ obj'] exI [of _ z] exI [of _ ci'] exI [of _ "e3 @ e2 @ e1"]) simp
qed

lemma run_ci_feedback:
  "run_state (ci_feedback_Reconcile E key) w =
     (let w1 = w\<lparr>trace := EvGet KindComputeInstance key # trace w\<rparr>
      in case get_compute_instance (kube E) key (trace w) of
           Inl e \<Rightarrow> (Done () result_none (if is_not_found e then None else Some e), w1)
         | Inr obj \<Rightarrow> (case om_labels (ci_meta obj) cloudkitComputeInstanceIDLabel of
             None \<Rightarrow> run_state (feedback_unlabelled E obj) w1
           | Some i \<Rightarrow> run_state (feedback_labelled E i obj) w1))"
  by (simp add: ci_feedback_Reconcile_def kc_defs State_Monad.return_def split: sum.split option.split)

text \<open>Only a labelled instance leads to a call of the fulfillment service.\<close>

definition rpc_event :: "event \<Rightarrow> bool" where
  "rpc_event e \<longleftrightarrow> (\<exists>s i. e = EvRpcGet s i) \<or> (\<exists>x. e = EvRpcUpdate x) \<or> (\<exists>s i. e = EvRpcSignal s i)"

lemma rpc_event_simps [simp]:
  "rpc_event (EvRpcUpdate x)" "rpc_event (EvRpcSignal s i)" "\<not> rpc_event (EvUpdate y)" "\<not> rpc_event (EvGet k key)"
  by (simp_all add: rpc_event_def)

lemma ci_feedback_rpc:
  assumes run: "run_state (ci_feedback_Reconcile E key) w = (out, w')"
    and es: "trace w' = es @ trace w" "e \<in> set es" "rpc_event e"
  obtains obj i es' where "get_compute_instance (kube E) key (trace w) = Inr obj"
    "om_labels (ci_meta obj) cloudkitComputeInstanceIDLabel = Some i"
    "es = es' @ [EvGet KindComputeInstance key]" "e \<in> set es'"
    "run_state (feedback_labelled E i obj) (w\<lparr>trace := EvGet KindComputeInstance key # trace w\<rparr>) = (out, w')"
    "trace w' = es' @ EvGet KindComputeInstance key # trace w"
proof -
  let ?w1 = "w\<lparr>trace := EvGet KindComputeInstance key # trace w\<rparr>"
  have unlabelled: "footprint (\<lambda>e. \<not> rpc_event e) (feedback_unlabelled E obj)" for obj
    unfolding feedback_unlabelled_def feedback_release_def Let_def by (intro fp_intros) simp_all
  obtain obj where obj: "get_compute_instance (kube E) key (trace w) = Inr obj"
    using run es by (cases "get_compute_instance (kube E) key (trace w)") (auto simp: run_ci_feedback Let_def)
  obtain i where i: "om_labels (ci_meta obj) cloudkitComputeInstanceIDLabel = Some i"
  proof (cases "om_labels (ci_meta obj) cloudkitComputeInstanceIDLabel")
    case None
    with run obj have "run_state (feedback_unlabelled E obj) ?w1 = (out, w')"
      by (simp only: run_ci_feedback Let_def sum.case option.case)
    then obtain es' where "trace w' = es' @ trace ?w1" "\<forall>e \<in> set es'. \<not> rpc_event e"
      by (rule footprintD [OF unlabelled])
    with es have "\<not> rpc_event e" by auto
    with es(3) show ?thesis by simp
  qed
  have lab: "run_state (feedback_labelled E i obj) ?w1 = (out, w')"
    using run obj i by (simp only: run_ci_feedback Let_def sum.case option.case)
  obtain es' where "trace w' = es' @ trace ?w1"
    by (rule footprintD [OF footprint_feedback_labelled lab])
  with es obj i lab that show thesis by auto
qed

section \<open>Properties\<close>

text \<open>An instance that is being deleted and that only the feedback controller still holds.\<close>

definition feedback_ci :: "bool \<Rightarrow> compute_instance" where
  "feedback_ci going = sample_ci\<lparr>ci_meta := sample_meta
     \<lparr>om_labels := [cloudkitComputeInstanceIDLabel \<mapsto> ''i''], om_deletionTimestamp := (if going then Some 1 else None),
      om_finalizers := [cloudkitComputeInstanceFeedbackFinalizer]\<rparr>,
     ci_status := (ci_status sample_ci)\<lparr>cis_phase := (if going then ComputeInstancePhaseDeleting else ComputeInstancePhaseRunning)\<rparr>\<rparr>"

definition feedback_env :: "bool \<Rightarrow> env" where
  "feedback_env going = ref_env\<lparr>kube := ref_kube\<lparr>get_compute_instance := (\<lambda>k h. Inr (feedback_ci going))\<rparr>\<rparr>"

definition feedback_key :: object_key where
  "feedback_key = \<lparr>key_namespace = ''ns'', key_name = ''vm''\<rparr>"

lemma feedback_ci_simps [simp]:
  "get_compute_instance (kube (feedback_env g)) k h = Inr (feedback_ci g)"
  "update_compute_instance (kube (feedback_env g)) x h = Inr x"
  "rpc (feedback_env g) = ref_rpc" "lib (feedback_env g) = ref_lib"
  "clock (feedback_env g) h = int (length h) * second"
  "om_labels (ci_meta (feedback_ci g)) cloudkitComputeInstanceIDLabel = Some ''i''"
  "deleting (ci_meta (feedback_ci g)) = g"
  "ci_finalizers (feedback_ci g) = [cloudkitComputeInstanceFeedbackFinalizer]"
  "GetStatusCondition t (feedback_ci g) = None"
  "ci_phase (feedback_ci g) = (if g then ComputeInstancePhaseDeleting else ComputeInstancePhaseRunning)"
  "cis_lastRestartedAt (ci_status (feedback_ci g)) = None"
  "ci_annotations (feedback_ci g) a = None"
  by (simp_all add: feedback_env_def feedback_ci_def ref_env_def ref_kube_def sample_ci_def sample_meta_def new_meta_def
      deleting_def is_zero_time_def zero_time_def GetStatusCondition_def)

definition feedback_unsaved :: private_ci where
  "feedback_unsaved = \<lparr>pci_id = ''i'', pci_metadata = [], pci_spec = Some [], pci_status = Some empty_pci_status\<rparr>"

lemma feedback_fetch:
  "rpc E = ref_rpc \<Longrightarrow> run_state (fetchComputeInstance E ''i'') w =
     (Inr feedback_unsaved, w\<lparr>trace := EvRpcGet ComputeInstances ''i'' # trace w\<rparr>)"
  by (simp add: fetchComputeInstance_def rpc_defs ref_rpc_def State_Monad.return_def feedback_unsaved_def)

lemma feedback_changes:
  "fst (run_state (syncState E (feedback_ci g) feedback_unsaved) w) \<noteq> feedback_unsaved"
proof -
  have "pcis_state (record_status (fst (run_state (syncState E (feedback_ci g) feedback_unsaved) w))) \<noteq>
      pcis_state (record_status feedback_unsaved)"
    using syncState_mirrors [of "feedback_ci g" E feedback_unsaved w]
    by (auto simp: mirrors_def feedback_unsaved_def record_status_def empty_pci_status_def split: if_splits)
  then show ?thesis by metis
qed

lemma feedback_finalizers [simp]:
  "addFinalizer ref_lib [f] f = (False, [f])" "removeFinalizer ref_lib [f] f = (True, [])" "containsFinalizer ref_lib [f] f"
  "set_finalizers [cloudkitComputeInstanceFeedbackFinalizer] (feedback_ci g) = feedback_ci g"
  by (simp_all add: ref_lib_def set_finalizers_def feedback_ci_def sample_ci_def sample_meta_def new_meta_def)

lemma feedback_synced: "lib E = ref_lib \<Longrightarrow> run_state (feedback_sync E (feedback_ci g) feedback_unsaved) w =
   (let r = run_state (syncState E (feedback_ci g) feedback_unsaved) w in ((feedback_ci g, fst r, None), snd r))"
  by (simp add: feedback_sync_def feedback_handleUpdate_def Let_def State_Monad.return_def split_beta)

text \<open>A run on that instance, with whatever history.\<close>

lemma feedback_run_at:
  assumes E: "lib E = ref_lib" "rpc E = ref_rpc" "\<And>x h. update_compute_instance (kube E) x h = Inr x"
    and get: "get_compute_instance (kube E) key (trace w) = Inr (feedback_ci g)"
  obtains ci w' es where "run_state (ci_feedback_Reconcile E key) w = (Done () result_none None, w')"
    "trace w' = es @ trace w" "EvRpcUpdate (RpcComputeInstance ci) \<in> set es"
    "g \<longrightarrow> EvRpcSignal ComputeInstances ''i'' \<in> set es"
proof -
  let ?w2 = "w\<lparr>trace := EvRpcGet ComputeInstances ''i'' # EvGet KindComputeInstance key # trace w\<rparr>"
  let ?r = "run_state (syncState E (feedback_ci g) feedback_unsaved) ?w2"
  let ?w3 = "(snd ?r)\<lparr>trace := EvRpcUpdate (RpcComputeInstance (fst ?r)) # trace (snd ?r)\<rparr>"
  obtain e where e: "trace (snd ?r) = e @ trace ?w2"
    by (rule footprintD [OF footprint_syncState [OF TrueI] surjective_pairing]) blast
  have lab: "run_state (ci_feedback_Reconcile E key) w = run_state (feedback_finish E ''i'' (feedback_ci g)) ?w3"
    using feedback_changes [of E g ?w2] E(1,2) get
    by (simp add: run_ci_feedback Let_def feedback_labelled_def feedback_fetch feedback_synced
        saveComputeInstance_def rpc_defs ref_rpc_def)
  show thesis
  proof (cases g)
    case False
    then have "run_state (feedback_finish E ''i'' (feedback_ci g)) ?w3 = (Done () result_none None, ?w3)"
      by (simp add: feedback_finish_def State_Monad.return_def)
    with lab False e show thesis
      by (intro that [of ?w3 "EvRpcUpdate (RpcComputeInstance (fst ?r)) # e @
            [EvRpcGet ComputeInstances ''i'', EvGet KindComputeInstance key]" "fst ?r"]) simp_all
  next
    case True
    let ?w4 = "?w3\<lparr>trace := EvRpcSignal ComputeInstances ''i'' # EvUpdate (KComputeInstance (set_finalizers [] (feedback_ci g))) # trace ?w3\<rparr>"
    from True E have "run_state (feedback_finish E ''i'' (feedback_ci g)) ?w3 = (Done () result_none None, ?w4)"
      by (simp add: feedback_finish_def feedback_release_def kc_defs rpc_defs ref_rpc_def State_Monad.return_def Let_def)
    with lab True e show thesis
      by (intro that [of ?w4 "EvRpcSignal ComputeInstances ''i'' # EvUpdate (KComputeInstance (set_finalizers [] (feedback_ci g))) #
            EvRpcUpdate (RpcComputeInstance (fst ?r)) # e @
            [EvRpcGet ComputeInstances ''i'', EvGet KindComputeInstance key]" "fst ?r"]) simp_all
  qed
qed

lemma feedback_run:
  obtains ci w' es where "run_state (ci_feedback_Reconcile (feedback_env g) feedback_key) empty_world = (Done () result_none None, w')"
    "trace w' = es @ trace empty_world" "EvRpcUpdate (RpcComputeInstance ci) \<in> set es"
    "g \<longrightarrow> EvRpcSignal ComputeInstances ''i'' \<in> set es"
  by (rule feedback_run_at [of "feedback_env g" feedback_key empty_world g]) (simp_all add: that)

text \<open>C20: what the controller stores mirrors the instance. Every record it sends has the state of
  the phase, the condition values, the address and the time of the last restart of the instance
  that it read, or of the API server's answer to the update of its finalizer. The identifier,
  the metadata, the spec and the hub are those that the service has answered for the identifier
  in the instance's label.\<close>

theorem ci_feedback_record_mirrors:
  assumes "run_state (ci_feedback_Reconcile E key) w = (out, w')"
    and "trace w' = es @ trace w" "EvRpcUpdate x \<in> set es"
  shows "\<exists>obj i ci. get_compute_instance (kube E) key (trace w) = Inr obj \<and>
     om_labels (ci_meta obj) cloudkitComputeInstanceIDLabel = Some i \<and>
     x = RpcComputeInstance ci \<and> feedback_record E i obj ci"
proof (rule ci_feedback_rpc [OF assms], simp)
  fix obj i es'
  assume 1: "get_compute_instance (kube E) key (trace w) = Inr obj"
    "om_labels (ci_meta obj) cloudkitComputeInstanceIDLabel = Some i" "EvRpcUpdate x \<in> set es'"
    and 2: "run_state (feedback_labelled E i obj) (w\<lparr>trace := EvGet KindComputeInstance key # trace w\<rparr>) = (out, w')"
    "trace w' = es' @ EvGet KindComputeInstance key # trace w"
  obtain es2 where "trace w' = es2 @ EvGet KindComputeInstance key # trace w" "\<forall>e \<in> set es2. sends_record E i obj e"
    by (rule footprintD [OF footprint_feedback_labelled 2(1)]) simp
  with 1(3) 2(2) have "sends_record E i obj (EvRpcUpdate x)" by auto
  with 1 show ?thesis by (auto simp: sends_record_def)
qed

theorem ci_feedback_record_mirrors_witness:
  "\<exists>ci. feedback_record (feedback_env False) ''i'' (feedback_ci False) ci"
proof (rule feedback_run [of False])
  fix ci w' es
  assume "run_state (ci_feedback_Reconcile (feedback_env False) feedback_key) empty_world = (Done () result_none None, w')"
    "trace w' = es @ trace empty_world" "EvRpcUpdate (RpcComputeInstance ci) \<in> set es"
  from ci_feedback_record_mirrors [OF this] show ?thesis by auto
qed

text \<open>C21: feedback comes to rest. Once the record mirrors an instance that is not being deleted and
  holds the feedback finalizer, a reconciliation reads both and sends nothing.\<close>

theorem ci_feedback_settles:
  assumes "finalizer_laws (lib E)" "get_compute_instance (kube E) key (trace w) = Inr obj"
    and "\<not> deleting (ci_meta obj)" "om_labels (ci_meta obj) cloudkitComputeInstanceIDLabel = Some i"
    and "snd (addFinalizer (lib E) (ci_finalizers obj) cloudkitComputeInstanceFeedbackFinalizer) = ci_finalizers obj"
    and "cloudkitComputeInstanceFeedbackFinalizer \<in> set (ci_finalizers obj)"
    and "rpc_get_ci (rpc E) i (EvGet KindComputeInstance key # trace w) = Inr ci" "mirrors obj ci"
    and "pci_spec ci \<noteq> None"
  shows "run_state (ci_feedback_Reconcile E key) w =
     (Done () result_none None,
      w\<lparr>trace := EvRpcGet ComputeInstances i # EvGet KindComputeInstance key # trace w\<rparr>)"
proof -
  let ?w1 = "w\<lparr>trace := EvGet KindComputeInstance key # trace w\<rparr>"
  let ?w2 = "w\<lparr>trace := EvRpcGet ComputeInstances i # EvGet KindComputeInstance key # trace w\<rparr>"
  obtain s r where sr: "pci_spec ci = Some s" "pci_status ci = Some r"
    using assms(8,9) by (auto simp: mirrors_def)
  then have "ci\<lparr>pci_spec := Some s, pci_status := Some r\<rparr> = ci" by simp
  with sr have fetch: "run_state (fetchComputeInstance E i) ?w1 = (Inr ci, ?w2)"
    by (simp add: fetchComputeInstance_def rpc_defs State_Monad.return_def assms(7))
  have "set_finalizers (ci_finalizers obj) obj = obj" by (simp add: set_finalizers_def)
  then have "run_state (feedback_sync E obj ci) ?w2 = ((obj, ci, None), ?w2)"
    by (simp add: feedback_sync_def feedback_handleUpdate_def assms(3,5,6) finalizer_simps(2) [OF assms(1)]
        syncState_settled [OF assms(8)] State_Monad.return_def)
  then have "run_state (feedback_labelled E i obj) ?w1 = (Done () result_none None, ?w2)"
    by (simp add: feedback_labelled_def fetch saveComputeInstance_def feedback_finish_def assms(3)
        State_Monad.return_def)
  then show ?thesis by (simp add: run_ci_feedback assms(2,4) Let_def)
qed

definition settled_record :: private_ci where
  "settled_record = fst (run_state (syncState ref_env (feedback_ci False) feedback_unsaved) empty_world)"

definition settled_env :: env where
  "settled_env = (feedback_env False)\<lparr>rpc := ref_rpc\<lparr>rpc_get_ci := (\<lambda>i h. Inr settled_record)\<rparr>\<rparr>"

theorem ci_feedback_settles_witness:
  "run_state (ci_feedback_Reconcile settled_env feedback_key) empty_world =
     (Done () result_none None, empty_world\<lparr>trace := [EvRpcGet ComputeInstances ''i'', EvGet KindComputeInstance feedback_key]\<rparr>)"
proof -
  have "lib settled_env = ref_lib" "get_compute_instance (kube settled_env) k h = Inr (feedback_ci False)"
    "rpc_get_ci (rpc settled_env) i h = Inr settled_record" for k h i
    using feedback_ci_simps(1,4) [where g = False] by (simp_all add: settled_env_def)
  moreover have "mirrors (feedback_ci False) settled_record" unfolding settled_record_def by (rule syncState_mirrors)
  moreover have "pci_spec settled_record \<noteq> None"
    by (simp add: settled_record_def syncState_frame feedback_unsaved_def)
  ultimately show ?thesis
    using ci_feedback_settles [of settled_env feedback_key empty_world "feedback_ci False" "''i''" settled_record]
    by (simp add: ref_finalizer_laws empty_world_def)
qed

text \<open>C19: the fulfillment service hears of the end of a deletion last. When the controller signals the
  service, then right before that the API server has accepted the removal of its finalizer,
  which was the last one, from an instance that is being deleted. That instance is the one
  that was read, or the API server's answer to the update that added the finalizer, and
  nothing but the finalizers differs in what was sent. Before the removal the service had the
  status that mirrors this instance, whatever phase the instance is in: it accepted that
  record, or answered the controller's read with that status. It rests on the documented
  behaviour of the finalizer helpers.\<close>

theorem ci_feedback_signal_last:
  assumes "finalizer_laws (lib E)" "run_state (ci_feedback_Reconcile E key) w = (out, w')"
    and "trace w' = es @ trace w" "EvRpcSignal s j \<in> set es"
  shows "\<exists>obj obj' z ci rest. get_compute_instance (kube E) key (trace w) = Inr obj \<and>
     om_labels (ci_meta obj) cloudkitComputeInstanceIDLabel = Some j \<and> s = ComputeInstances \<and>
     feedback_object E obj obj' \<and> (deleting (ci_meta obj) \<longrightarrow> obj' = obj) \<and> deleting (ci_meta obj') \<and>
     set (ci_finalizers obj') = {cloudkitComputeInstanceFeedbackFinalizer} \<and>
     es = EvRpcSignal ComputeInstances j # EvUpdate (KComputeInstance (set_finalizers [] obj')) # rest \<and>
     update_compute_instance (kube E) (set_finalizers [] obj') (rest @ trace w) = Inr z \<and>
     mirrors obj' ci \<and> record_stored E j ci (trace w) rest"
proof (rule ci_feedback_rpc [OF assms(2-4)], simp)
  fix obj i es'
  let ?g = "[EvGet KindComputeInstance key]"
  assume 1: "get_compute_instance (kube E) key (trace w) = Inr obj"
    "om_labels (ci_meta obj) cloudkitComputeInstanceIDLabel = Some i" "EvRpcSignal s j \<in> set es'"
    "es = es' @ ?g"
    and 2: "run_state (feedback_labelled E i obj) (w\<lparr>trace := EvGet KindComputeInstance key # trace w\<rparr>) = (out, w')"
    "trace w' = es' @ EvGet KindComputeInstance key # trace w"
  from feedback_labelled_signal [OF assms(1) 2(1) _ 1(3)] 2(2) obtain obj' z ci rest where
    3: "feedback_object E obj obj'" "deleting (ci_meta obj) \<longrightarrow> obj' = obj" "deleting (ci_meta obj')"
      "set (ci_finalizers obj') = {cloudkitComputeInstanceFeedbackFinalizer}" "s = ComputeInstances" "j = i"
      "es' = EvRpcSignal ComputeInstances i # EvUpdate (KComputeInstance (set_finalizers [] obj')) # rest"
      "update_compute_instance (kube E) (set_finalizers [] obj') (rest @ ?g @ trace w) = Inr z"
      "mirrors obj' ci" "record_stored E i ci (?g @ trace w) rest" by auto
  from record_stored_more [OF this(10), of "[]"] 1 3(1-9) show ?thesis
    by (intro exI [of _ obj] exI [of _ obj'] exI [of _ z] exI [of _ ci] exI [of _ "rest @ ?g"]) simp
qed

theorem ci_feedback_signal_last_witness:
  "\<exists>z ci rest. update_compute_instance (kube (feedback_env True)) (set_finalizers [] (feedback_ci True)) rest = Inr z \<and>
     mirrors (feedback_ci True) ci \<and> record_stored (feedback_env True) ''i'' ci [] rest"
proof (rule feedback_run [of True])
  fix ci w' es
  assume 1: "run_state (ci_feedback_Reconcile (feedback_env True) feedback_key) empty_world = (Done () result_none None, w')"
    "trace w' = es @ trace empty_world" "True \<longrightarrow> EvRpcSignal ComputeInstances ''i'' \<in> set es"
  have "finalizer_laws (lib (feedback_env True))" "deleting (ci_meta (feedback_ci True))"
    by (simp_all add: ref_finalizer_laws)
  with ci_feedback_signal_last [OF this(1) 1(1,2), of ComputeInstances "''i''"] 1(3) show ?thesis
    by (auto simp: empty_world_def)
qed

text \<open>A condition that the instance no longer has stays in the record as it was. The restart
  controller removes its two conditions from the instance when a restart is over, and the record
  keeps them with the values they had.\<close>

theorem ci_feedback_keeps_cleared:
  assumes "GetStatusCondition ComputeInstanceConditionRestartInProgress obj = None"
    and "GetStatusCondition ComputeInstanceConditionRestartFailed obj = None"
    and "k \<in> {CI_TYPE_RESTART_IN_PROGRESS, CI_TYPE_RESTART_FAILED}"
  shows "find_condition k (pcis_conditions (record_status (fst (run_state (ci_syncConditions E obj ci) w)))) =
    find_condition k (pcis_conditions (record_status ci))"
proof -
  have "k \<notin> fst ` set (wanted_conditions obj)"
    using assms by (auto simp: wanted_conditions_def wanted_from_def split: option.splits)
  then show ?thesis by (simp add: run_ci_syncConditions Let_def sc.sync_list_others)
qed

theorem ci_feedback_keeps_cleared_witness:
  "find_condition CI_TYPE_RESTART_FAILED (pcis_conditions (record_status (fst (run_state
     (ci_syncConditions ref_env (feedback_ci False) (upd_status (\<lambda>st. st\<lparr>pcis_conditions :=
        [new_api_condition CI_TYPE_RESTART_FAILED]\<rparr>) feedback_unsaved)) empty_world)))) =
    Some (new_api_condition CI_TYPE_RESTART_FAILED)"
  using ci_feedback_keeps_cleared [of "feedback_ci False" CI_TYPE_RESTART_FAILED ref_env
      "upd_status (\<lambda>st. st\<lparr>pcis_conditions := [new_api_condition CI_TYPE_RESTART_FAILED]\<rparr>) feedback_unsaved" empty_world]
  by (simp add: find_condition_def new_api_condition_def)

end
