(* ===== verification/Cluster_Feedback.thy ===== *)
theory Cluster_Feedback
  imports Feedback Reference_Env
begin

text \<open>
  \<open>internal/controller/feedback_controller.go\<close>: the controller that copies the state of a
  cluster order into the record of its cluster in the fulfillment service.
\<close>

record cluster_feedback_reconciler =
  clfr_clusterOrderNamespace :: string

definition newFeedbackReconciler :: "string \<Rightarrow> cluster_feedback_reconciler" where
  "newFeedbackReconciler ns = \<lparr>clfr_clusterOrderNamespace = ns\<rparr>"

section \<open>The record\<close>

definition fetchCluster :: "env \<Rightarrow> string \<Rightarrow> (go_error + private_cluster) act" where
  "fetchCluster E i =
     do { r \<leftarrow> rpc_fetch_cluster E i;
          State_Monad.return (case r of
            Inl e \<Rightarrow> Inl e
          | Inr cl \<Rightarrow> Inr (cl\<lparr>pcl_spec := Some (case pcl_spec cl of None \<Rightarrow> empty_pcl_spec | Some s \<Rightarrow> s),
              pcl_status := Some (case pcl_status cl of None \<Rightarrow> empty_pcl_status | Some s \<Rightarrow> s)\<rparr>)) }"

definition saveCluster :: "env \<Rightarrow> private_cluster \<Rightarrow> private_cluster \<Rightarrow> go_error option act" where
  "saveCluster E before after =
     (if after \<noteq> before then rpc_save_cluster E after else State_Monad.return None)"

text \<open>Spec and status are there after \<open>fetchCluster\<close>.\<close>

definition cluster_spec :: "private_cluster \<Rightarrow> pcl_spec" where
  "cluster_spec cl = (case pcl_spec cl of None \<Rightarrow> empty_pcl_spec | Some s \<Rightarrow> s)"

definition cluster_status :: "private_cluster \<Rightarrow> pcl_status" where
  "cluster_status cl = (case pcl_status cl of None \<Rightarrow> empty_pcl_status | Some s \<Rightarrow> s)"

definition upd_cluster :: "(pcl_status \<Rightarrow> pcl_status) \<Rightarrow> private_cluster \<Rightarrow> private_cluster" where
  "upd_cluster f cl = cl\<lparr>pcl_status := Some (f (cluster_status cl))\<rparr>"

section \<open>Conditions\<close>

text \<open>The switch of \<open>syncCondition\<close>, and the condition that each of its four branches looks up.\<close>

definition cluster_condition_kind :: "string \<Rightarrow> cluster_condition_type option" where
  "cluster_condition_kind t =
     (if t = ClusterOrderConditionAccepted then Some CLUSTER_TYPE_PROGRESSING
      else if t = ClusterOrderConditionProgressing then Some CLUSTER_TYPE_PROGRESSING
      else if t = ClusterOrderConditionControlPlaneAvailable then Some CLUSTER_TYPE_PROGRESSING
      else if t = ClusterOrderConditionAvailable then Some CLUSTER_TYPE_PROGRESSING
      else None)"

definition cluster_syncConditions :: "env \<Rightarrow> cluster_order \<Rightarrow> private_cluster \<Rightarrow> private_cluster act" where
  "cluster_syncConditions E co cl =
     do { cs \<leftarrow> sync_conditions E cluster_condition_kind (cost_conditions (co_status co))
            (pclst_conditions (cluster_status cl));
          State_Monad.return (upd_cluster (\<lambda>st. st\<lparr>pclst_conditions := cs\<rparr>) cl) }"

section \<open>Phase and addresses\<close>

definition fetchHostedCluster :: "env \<Rightarrow> cluster_order \<Rightarrow> (go_error + hosted_cluster option) act" where
  "fetchHostedCluster E co =
     (case cost_clusterReference (co_status co) of
        None \<Rightarrow> State_Monad.return (Inr None)
      | Some ref \<Rightarrow>
          if cr_namespace ref = [] \<or> cr_hostedClusterName ref = [] then State_Monad.return (Inr None)
          else do { g \<leftarrow> kc_get_hosted_cluster E
                      \<lparr>key_namespace = cr_namespace ref, key_name = cr_hostedClusterName ref\<rparr>;
                    State_Monad.return (case g of
                        Inl e \<Rightarrow> if is_not_found e then Inr None else Inl e
                      | Inr hc \<Rightarrow> Inr (Some hc)) })"

definition calculateAPIURL :: "hosted_cluster option \<Rightarrow> string" where
  "calculateAPIURL h =
     (case h of None \<Rightarrow> []
      | Some hc \<Rightarrow>
          if hc_endpointHost hc = [] \<or> hc_endpointPort hc = 0 then []
          else ''https://'' @ hc_endpointHost hc @ '':'' @ itoa (hc_endpointPort hc))"

definition calculateConsoleURL :: "hosted_cluster option \<Rightarrow> string" where
  "calculateConsoleURL h =
     (case h of None \<Rightarrow> []
      | Some hc \<Rightarrow> ''https://console-openshift-console.apps.'' @ om_name (hc_meta hc) @ ''.'' @ hc_baseDomain hc)"

text \<open>The record and the error of a phase.\<close>

definition cluster_syncPhaseReady ::
    "env \<Rightarrow> cluster_order \<Rightarrow> private_cluster \<Rightarrow> (private_cluster \<times> go_error option) act" where
  "cluster_syncPhaseReady E co cl =
     (let cl1 = upd_cluster (\<lambda>st. st\<lparr>pclst_state := CLUSTER_STATE_READY\<rparr>) cl
      in do { h \<leftarrow> fetchHostedCluster E co;
              case h of
                Inl e \<Rightarrow> State_Monad.return (cl1, Some e)
              | Inr hc \<Rightarrow>
                  let api = calculateAPIURL hc; console = calculateConsoleURL hc;
                      cl2 = (if api \<noteq> [] then upd_cluster (\<lambda>st. st\<lparr>pclst_apiUrl := api\<rparr>) cl1 else cl1);
                      cl3 = (if console \<noteq> [] then upd_cluster (\<lambda>st. st\<lparr>pclst_consoleUrl := console\<rparr>) cl2 else cl2)
                  in State_Monad.return (cl3, None) })"

definition cluster_syncPhase ::
    "env \<Rightarrow> cluster_order \<Rightarrow> private_cluster \<Rightarrow> (private_cluster \<times> go_error option) act" where
  "cluster_syncPhase E co cl =
     (case cost_phase (co_status co) of
        ClusterOrderPhaseProgressing \<Rightarrow>
          State_Monad.return (upd_cluster (\<lambda>st. st\<lparr>pclst_state := CLUSTER_STATE_PROGRESSING\<rparr>) cl, None)
      | ClusterOrderPhaseFailed \<Rightarrow>
          State_Monad.return (upd_cluster (\<lambda>st. st\<lparr>pclst_state := CLUSTER_STATE_FAILED\<rparr>) cl, None)
      | ClusterOrderPhaseReady \<Rightarrow> cluster_syncPhaseReady E co cl
      | ClusterOrderPhaseDeleting \<Rightarrow> State_Monad.return (cl, None)
      | ClusterOrderPhaseUnset \<Rightarrow> State_Monad.return (cl, None))"

section \<open>Node sets\<close>

text \<open>
  The node set of the spec whose host class is asked for; the empty identifier counts as not
  found. A new entry of the status has the class and no nodes.
\<close>

definition find_node_set :: "string \<Rightarrow> (string \<times> cluster_node_set) list \<Rightarrow> string" where
  "find_node_set class sets =
     (case first_such (\<lambda>p. cns_hostClass (snd p) = class) sets of None \<Rightarrow> [] | Some p \<Rightarrow> fst p)"

definition sync_node_sets ::
    "string \<Rightarrow> string \<Rightarrow> int \<Rightarrow> (string \<times> cluster_node_set) list \<Rightarrow> (string \<times> cluster_node_set) list" where
  "sync_node_sets i class n sets =
     (let sets1 = (if map_of sets i = None then sets @ [(i, \<lparr>cns_hostClass = class, cns_size = 0\<rparr>)] else sets)
      in map (\<lambda>p. if fst p = i then (i, (snd p)\<lparr>cns_size := wrap32 n\<rparr>) else p) sets1)"

definition syncNodeRequest :: "node_request \<Rightarrow> private_cluster \<Rightarrow> private_cluster" where
  "syncNodeRequest rq cl =
     (let i = find_node_set (nr_resourceClass rq) (pcls_nodeSets (cluster_spec cl))
      in if i = [] then cl
         else upd_cluster (\<lambda>st. st\<lparr>pclst_nodeSets :=
           sync_node_sets i (nr_resourceClass rq) (nr_numberOfNodes rq) (pclst_nodeSets st)\<rparr>) cl)"

definition syncNodeRequests :: "cluster_order \<Rightarrow> private_cluster \<Rightarrow> private_cluster" where
  "syncNodeRequests co cl = fold syncNodeRequest (cost_nodeRequests (co_status co)) cl"

section \<open>Handlers\<close>

definition cluster_feedback_handleUpdate ::
    "env \<Rightarrow> cluster_order \<Rightarrow> private_cluster \<Rightarrow> (private_cluster \<times> go_error option) act" where
  "cluster_feedback_handleUpdate E co cl =
     do { cl1 \<leftarrow> cluster_syncConditions E co cl;
          p \<leftarrow> cluster_syncPhase E co cl1;
          State_Monad.return (case snd p of
              Some e \<Rightarrow> (fst p, Some e)
            | None \<Rightarrow> (syncNodeRequests co (fst p), None)) }"

text \<open>\<open>handleDelete\<close> is still empty in the source.\<close>

definition cluster_feedback_handleDelete ::
    "env \<Rightarrow> cluster_order \<Rightarrow> private_cluster \<Rightarrow> (private_cluster \<times> go_error option) act" where
  "cluster_feedback_handleDelete E co cl = State_Monad.return (cl, None)"

definition cluster_feedback_handle ::
    "env \<Rightarrow> cluster_order \<Rightarrow> private_cluster \<Rightarrow> (private_cluster \<times> go_error option) act" where
  "cluster_feedback_handle E co cl =
     (if deleting (co_meta co) then cluster_feedback_handleDelete E co cl
      else cluster_feedback_handleUpdate E co cl)"

definition cluster_feedback_labelled :: "env \<Rightarrow> string \<Rightarrow> cluster_order \<Rightarrow> unit outcome act" where
  "cluster_feedback_labelled E i co =
     do { f \<leftarrow> fetchCluster E i;
          case f of
            Inl e \<Rightarrow> State_Monad.return (Done () result_none (Some e))
          | Inr cl \<Rightarrow>
              do { p \<leftarrow> cluster_feedback_handle E co cl;
                   case snd p of
                     Some e \<Rightarrow> State_Monad.return (Done () result_none (Some e))
                   | None \<Rightarrow> do { e \<leftarrow> saveCluster E cl (fst p);
                                   State_Monad.return (Done () result_none e) } } }"

definition cluster_feedback_Reconcile :: "env \<Rightarrow> object_key \<Rightarrow> unit outcome act" where
  "cluster_feedback_Reconcile E key =
     do { g \<leftarrow> kc_get_co E key;
          case g of
            Inl e \<Rightarrow> State_Monad.return (Done () result_none (ignore_not_found e))
          | Inr co \<Rightarrow>
              (case om_labels (co_meta co) cloudkitClusterOrderIDLabel of
                 None \<Rightarrow> State_Monad.return (Done () result_none None)
               | Some i \<Rightarrow> cluster_feedback_labelled E i co) }"

section \<open>What each part leaves alone\<close>

lemma upd_cluster_simps [simp]:
  "cluster_status (upd_cluster f cl) = f (cluster_status cl)"
  "pcl_id (upd_cluster f cl) = pcl_id cl" "pcl_metadata (upd_cluster f cl) = pcl_metadata cl"
  "pcl_spec (upd_cluster f cl) = pcl_spec cl" "cluster_spec (upd_cluster f cl) = cluster_spec cl"
  by (simp_all add: upd_cluster_def cluster_status_def cluster_spec_def)

fun cluster_state_of_phase :: "cluster_order_phase \<Rightarrow> cluster_state option" where
  "cluster_state_of_phase ClusterOrderPhaseProgressing = Some CLUSTER_STATE_PROGRESSING"
| "cluster_state_of_phase ClusterOrderPhaseFailed = Some CLUSTER_STATE_FAILED"
| "cluster_state_of_phase ClusterOrderPhaseReady = Some CLUSTER_STATE_READY"
| "cluster_state_of_phase ClusterOrderPhaseDeleting = None"
| "cluster_state_of_phase ClusterOrderPhaseUnset = None"

text \<open>Identity, metadata, spec and hub; then also conditions or node sets.\<close>

definition same_cluster :: "private_cluster \<Rightarrow> private_cluster \<Rightarrow> bool" where
  "same_cluster cl cl' \<longleftrightarrow> pcl_id cl' = pcl_id cl \<and> pcl_metadata cl' = pcl_metadata cl \<and>
     pcl_spec cl' = pcl_spec cl \<and> pclst_hub (cluster_status cl') = pclst_hub (cluster_status cl)"

lemma same_cluster_refl [simp]: "same_cluster cl cl"
  by (simp add: same_cluster_def)

lemma same_cluster_trans: "same_cluster a b \<Longrightarrow> same_cluster b c \<Longrightarrow> same_cluster a c"
  by (simp add: same_cluster_def)

lemma run_cluster_syncConditions:
  "run_state (cluster_syncConditions E co cl) w =
     (let r = run_state (sync_conditions E cluster_condition_kind (cost_conditions (co_status co))
        (pclst_conditions (cluster_status cl))) w
      in (upd_cluster (\<lambda>st. st\<lparr>pclst_conditions := fst r\<rparr>) cl, snd r))"
  by (simp add: cluster_syncConditions_def State_Monad.return_def Let_def split_beta)

lemma cluster_kind_only_progressing: "k \<noteq> CLUSTER_TYPE_PROGRESSING \<Longrightarrow> cluster_condition_kind t \<noteq> Some k"
  by (simp add: cluster_condition_kind_def)

lemma cluster_syncConditions_frame:
  "same_cluster cl (fst (run_state (cluster_syncConditions E co cl) w))"
  "pclst_nodeSets (cluster_status (fst (run_state (cluster_syncConditions E co cl) w))) = pclst_nodeSets (cluster_status cl)"
  "pclst_state (cluster_status (fst (run_state (cluster_syncConditions E co cl) w))) = pclst_state (cluster_status cl)"
  "k \<noteq> CLUSTER_TYPE_PROGRESSING \<Longrightarrow>
   find_condition k (pclst_conditions (cluster_status (fst (run_state (cluster_syncConditions E co cl) w)))) =
   find_condition k (pclst_conditions (cluster_status cl))"
  by (simp_all add: run_cluster_syncConditions Let_def same_cluster_def sync_conditions_other
      cluster_kind_only_progressing)

lemma cluster_syncPhase_frame:
  assumes "run_state (cluster_syncPhase E co cl) w = ((cl', err), w')"
  shows "same_cluster cl cl'" "pclst_nodeSets (cluster_status cl') = pclst_nodeSets (cluster_status cl)"
    "pclst_conditions (cluster_status cl') = pclst_conditions (cluster_status cl)"
    "pclst_state (cluster_status cl') = (case cluster_state_of_phase (cost_phase (co_status co)) of
       None \<Rightarrow> pclst_state (cluster_status cl) | Some s \<Rightarrow> s)"
  using assms
  by (cases "cost_phase (co_status co)"; auto simp: cluster_syncPhase_def cluster_syncPhaseReady_def
      State_Monad.return_def Let_def same_cluster_def split_beta split: sum.splits if_splits)+

lemma syncNodeRequest_frame:
  "same_cluster cl (syncNodeRequest rq cl)"
  "pclst_conditions (cluster_status (syncNodeRequest rq cl)) = pclst_conditions (cluster_status cl)"
  "pclst_state (cluster_status (syncNodeRequest rq cl)) = pclst_state (cluster_status cl)"
  by (simp_all add: syncNodeRequest_def Let_def same_cluster_def)

lemma syncNodeRequests_frame:
  "same_cluster cl (syncNodeRequests co cl)"
  "pclst_conditions (cluster_status (syncNodeRequests co cl)) = pclst_conditions (cluster_status cl)"
  "pclst_state (cluster_status (syncNodeRequests co cl)) = pclst_state (cluster_status cl)"
proof -
  have "same_cluster cl (fold syncNodeRequest rqs cl) \<and>
     pclst_conditions (cluster_status (fold syncNodeRequest rqs cl)) = pclst_conditions (cluster_status cl) \<and>
     pclst_state (cluster_status (fold syncNodeRequest rqs cl)) = pclst_state (cluster_status cl)" for rqs
    by (induction rqs arbitrary: cl) (auto simp: syncNodeRequest_frame intro: same_cluster_trans syncNodeRequest_frame)
  then show "same_cluster cl (syncNodeRequests co cl)"
    "pclst_conditions (cluster_status (syncNodeRequests co cl)) = pclst_conditions (cluster_status cl)"
    "pclst_state (cluster_status (syncNodeRequests co cl)) = pclst_state (cluster_status cl)"
    by (simp_all add: syncNodeRequests_def)
qed

text \<open>The update handler, taken apart.\<close>

lemma cluster_handleUpdate_parts:
  assumes "run_state (cluster_feedback_handleUpdate E co cl) w = ((cl', None), w')"
  obtains cl1 w1 cl2 where "run_state (cluster_syncConditions E co cl) w = (cl1, w1)"
    "run_state (cluster_syncPhase E co cl1) w1 = ((cl2, None), w')" "cl' = syncNodeRequests co cl2"
  using assms
  by (auto simp: cluster_feedback_handleUpdate_def State_Monad.return_def split_beta prod_eq_iff
      split: option.splits intro: that)

definition cluster_state_after :: "cluster_order \<Rightarrow> cluster_state \<Rightarrow> cluster_state" where
  "cluster_state_after co s =
     (case cluster_state_of_phase (cost_phase (co_status co)) of None \<Rightarrow> s | Some s' \<Rightarrow> s')"

lemma cluster_handleUpdate_frame:
  assumes "run_state (cluster_feedback_handleUpdate E co cl) w = ((cl', None), w')"
  shows "same_cluster cl cl' \<and>
     pclst_state (cluster_status cl') = cluster_state_after co (pclst_state (cluster_status cl)) \<and>
     (\<forall>k. k \<noteq> CLUSTER_TYPE_PROGRESSING \<longrightarrow>
        find_condition k (pclst_conditions (cluster_status cl')) = find_condition k (pclst_conditions (cluster_status cl)))"
proof (rule cluster_handleUpdate_parts [OF assms])
  fix cl1 w1 cl2
  assume 1: "run_state (cluster_syncConditions E co cl) w = (cl1, w1)"
    and 2: "run_state (cluster_syncPhase E co cl1) w1 = ((cl2, None), w')" and 3: "cl' = syncNodeRequests co cl2"
  note f1 = cluster_syncConditions_frame [where cl = cl and E = E and co = co and w = w, unfolded 1, simplified]
  note f2 = cluster_syncPhase_frame [OF 2]
  note f3 = syncNodeRequests_frame [where cl = cl2 and co = co, folded 3]
  show ?thesis
    using f1 f2 f3 by (auto simp: cluster_state_after_def split: option.split intro: same_cluster_trans)
qed

lemma fetchCluster_result:
  assumes "fst (run_state (fetchCluster E i) w) = Inr cl"
  shows "\<exists>r. rpc_get_cluster (rpc E) i (trace w) = Inr r \<and> pcl_id cl = pcl_id r \<and>
     pcl_metadata cl = pcl_metadata r \<and> cluster_status cl = cluster_status r \<and> pcl_spec cl = Some (cluster_spec r)"
  using assms
  by (auto simp: fetchCluster_def rpc_defs State_Monad.return_def cluster_status_def cluster_spec_def
      split: sum.splits option.splits)

lemma footprint_fetchCluster [fp_intros]: "P (EvRpcGet Clusters i) \<Longrightarrow> footprint P (fetchCluster E i)"
  unfolding fetchCluster_def by (intro fp_intros)

lemma footprint_cluster_handle:
  "P EvNow \<Longrightarrow> (\<And>key. P (EvGet KindHostedCluster key)) \<Longrightarrow> footprint P (cluster_feedback_handle E co cl)"
  unfolding cluster_feedback_handle_def cluster_feedback_handleDelete_def cluster_feedback_handleUpdate_def
    cluster_syncConditions_def cluster_syncPhase_def cluster_syncPhaseReady_def fetchHostedCluster_def Let_def
  by (cases "cost_phase (co_status co)") (auto intro!: fp_intros)

text \<open>What the controller may send for an order.\<close>

definition cluster_record :: "env \<Rightarrow> string \<Rightarrow> cluster_order \<Rightarrow> private_cluster \<Rightarrow> bool" where
  "cluster_record E i co cl \<longleftrightarrow> \<not> deleting (co_meta co) \<and> (\<exists>r h.
     rpc_get_cluster (rpc E) i h = Inr r \<and> pcl_id cl = pcl_id r \<and> pcl_metadata cl = pcl_metadata r \<and>
     pcl_spec cl = Some (cluster_spec r) \<and> pclst_hub (cluster_status cl) = pclst_hub (cluster_status r) \<and>
     pclst_state (cluster_status cl) = cluster_state_after co (pclst_state (cluster_status r)) \<and>
     (\<forall>k. k \<noteq> CLUSTER_TYPE_PROGRESSING \<longrightarrow>
        find_condition k (pclst_conditions (cluster_status cl)) = find_condition k (pclst_conditions (cluster_status r))))"

definition sends_cluster :: "env \<Rightarrow> string \<Rightarrow> cluster_order \<Rightarrow> event \<Rightarrow> bool" where
  "sends_cluster E i co e \<longleftrightarrow>
     (\<forall>x. e = EvRpcUpdate x \<longrightarrow> (\<exists>cl. x = RpcCluster cl \<and> cluster_record E i co cl))"

lemma footprint_cluster_labelled: "footprint (sends_cluster E i co) (cluster_feedback_labelled E i co)"
proof -
  have save: "footprint (sends_cluster E i co) (saveCluster E cl (fst (fst (run_state (cluster_feedback_handle E co cl) w'))))"
    if "fst (run_state (fetchCluster E i) w) = Inr cl"
      "snd (fst (run_state (cluster_feedback_handle E co cl) w')) = None" for cl w w'
  proof (cases "deleting (co_meta co)")
    case True
    then show ?thesis
      by (simp add: cluster_feedback_handle_def cluster_feedback_handleDelete_def State_Monad.return_def
          saveCluster_def footprint_return [unfolded State_Monad.return_def])
  next
    case False
    let ?cl = "fst (fst (run_state (cluster_feedback_handle E co cl) w'))"
    have "run_state (cluster_feedback_handleUpdate E co cl) w' =
        ((?cl, None), snd (run_state (cluster_feedback_handle E co cl) w'))"
      using that(2) False by (simp add: cluster_feedback_handle_def prod_eq_iff)
    from cluster_handleUpdate_frame [OF this] fetchCluster_result [OF that(1)] False
    have "cluster_record E i co ?cl" unfolding cluster_record_def same_cluster_def by metis
    then show ?thesis unfolding saveCluster_def by (intro fp_intros) (simp_all add: sends_cluster_def)
  qed
  show ?thesis
    unfolding cluster_feedback_labelled_def
    by (intro footprint_bind_run fp_intros footprint_cluster_handle save) (simp_all add: sends_cluster_def)
qed

lemma run_cluster_feedback:
  "run_state (cluster_feedback_Reconcile E key) w =
     (let w1 = w\<lparr>trace := EvGet KindClusterOrder key # trace w\<rparr>
      in case get_cluster_order (kube E) key (trace w) of
           Inl e \<Rightarrow> (Done () result_none (ignore_not_found e), w1)
         | Inr co \<Rightarrow> (case om_labels (co_meta co) cloudkitClusterOrderIDLabel of
             None \<Rightarrow> (Done () result_none None, w1)
           | Some i \<Rightarrow> run_state (cluster_feedback_labelled E i co) w1))"
  by (simp add: cluster_feedback_Reconcile_def kc_defs State_Monad.return_def split: sum.split option.split)

lemma cluster_handleUpdate_conditions:
  assumes "run_state (cluster_feedback_handleUpdate E co cl) w = ((cl', None), w')"
  obtains wa es where "run_state (sync_conditions E cluster_condition_kind (cost_conditions (co_status co))
        (pclst_conditions (cluster_status cl))) w = (pclst_conditions (cluster_status cl'), wa)"
    "trace w' = es @ trace wa"
proof (rule cluster_handleUpdate_parts [OF assms])
  fix cl1 w1 cl2
  assume 1: "run_state (cluster_syncConditions E co cl) w = (cl1, w1)"
    and 2: "run_state (cluster_syncPhase E co cl1) w1 = ((cl2, None), w')" and 3: "cl' = syncNodeRequests co cl2"
  have "pclst_conditions (cluster_status cl') = pclst_conditions (cluster_status cl1)"
    using cluster_syncPhase_frame(3) [OF 2] syncNodeRequests_frame(2) [where cl = cl2 and co = co, folded 3] by simp
  moreover have "run_state (sync_conditions E cluster_condition_kind (cost_conditions (co_status co))
      (pclst_conditions (cluster_status cl))) w = (pclst_conditions (cluster_status cl1), w1)"
    using 1 by (auto simp: run_cluster_syncConditions Let_def prod_eq_iff)
  moreover have "footprint (\<lambda>_. True) (cluster_syncPhase E co cl1)"
    unfolding cluster_syncPhase_def cluster_syncPhaseReady_def fetchHostedCluster_def Let_def
    by (cases "cost_phase (co_status co)") (auto intro!: fp_intros)
  then obtain es where "trace w' = es @ trace w1" by (rule footprintD [OF _ 2])
  ultimately show thesis by (intro that [of w1 es]) simp_all
qed

text \<open>One node set: its entry is set, every other entry stays.\<close>

lemma map_of_set_entry:
  "map_of (map (\<lambda>p. if fst p = i then (i, f (snd p)) else p) sets) j =
     (if j = i then map_option f (map_of sets i) else map_of sets j)"
  by (induction sets) auto

lemma map_of_sync_node_sets:
  "map_of (sync_node_sets i class n sets) j =
     (if j = i then Some ((case map_of sets i of None \<Rightarrow> \<lparr>cns_hostClass = class, cns_size = 0\<rparr> | Some s \<Rightarrow> s)
        \<lparr>cns_size := wrap32 n\<rparr>) else map_of sets j)"
  by (simp add: sync_node_sets_def Let_def map_of_set_entry [of i "\<lambda>s. s\<lparr>cns_size := wrap32 n\<rparr>"] map_add_def
      split: option.split)

lemma find_node_set_iff:
  assumes "distinct (map fst sets)" "distinct (map (cns_hostClass \<circ> snd) sets)" "map_of sets i = Some s"
  shows "find_node_set class sets = i \<and> i \<noteq> [] \<longleftrightarrow> cns_hostClass s = class \<and> i \<noteq> []"
  using assms
proof (induction sets)
  case (Cons p sets)
  obtain j r where p: "p = (j, r)" by (cases p)
  show ?case
  proof (cases "j = i")
    case True
    then have r: "r = s" using Cons.prems(3) p by simp
    have "i \<notin> fst ` set sets" using Cons.prems(1) p True by simp
    then have "first_such (\<lambda>q. cns_hostClass (snd q) = class) sets = Some q \<Longrightarrow> fst q \<noteq> i" for q
      by (metis first_such_SomeD image_eqI)
    then show ?thesis using p True r by (auto simp: find_node_set_def split: option.splits)
  next
    case False
    then have i: "map_of sets i = Some s" using Cons.prems(3) p by simp
    then have "cns_hostClass s \<noteq> cns_hostClass r"
      using Cons.prems(2) p map_of_SomeD [OF i] by (force simp: image_iff)
    then show ?thesis using Cons i p False by (auto simp: find_node_set_def)
  qed
qed simp

text \<open>One request, and all of them.\<close>

definition resized :: "node_request \<Rightarrow> cluster_node_set option \<Rightarrow> cluster_node_set" where
  "resized rq old =
     (case old of None \<Rightarrow> \<lparr>cns_hostClass = nr_resourceClass rq, cns_size = 0\<rparr> | Some s \<Rightarrow> s)
       \<lparr>cns_size := wrap32 (nr_numberOfNodes rq)\<rparr>"

definition spec_sets_ok :: "(string \<times> cluster_node_set) list \<Rightarrow> bool" where
  "spec_sets_ok sets \<longleftrightarrow> distinct (map fst sets) \<and> distinct (map (cns_hostClass \<circ> snd) sets) \<and> [] \<notin> fst ` set sets"

lemma find_node_set_None:
  assumes "map_of sets i = None" "find_node_set class sets = i"
  shows "i = []"
proof (cases "first_such (\<lambda>p. cns_hostClass (snd p) = class) sets")
  case (Some p)
  from first_such_SomeD [OF this] assms(1) have "fst p \<noteq> i" by (auto simp: map_of_eq_None_iff)
  with assms(2) show ?thesis by (simp add: find_node_set_def Some)
qed (use assms(2) in \<open>simp add: find_node_set_def\<close>)

lemma syncNodeRequest_entry:
  assumes "spec_sets_ok (pcls_nodeSets (cluster_spec c))"
  shows "map_of (pclst_nodeSets (cluster_status (syncNodeRequest rq c))) i =
     (case map_of (pcls_nodeSets (cluster_spec c)) i of
        None \<Rightarrow> map_of (pclst_nodeSets (cluster_status c)) i
      | Some s \<Rightarrow> if nr_resourceClass rq = cns_hostClass s
          then Some (resized rq (map_of (pclst_nodeSets (cluster_status c)) i))
          else map_of (pclst_nodeSets (cluster_status c)) i)"
proof (cases "map_of (pcls_nodeSets (cluster_spec c)) i")
  case None
  from find_node_set_None [OF this] None show ?thesis
    by (auto simp: syncNodeRequest_def Let_def map_of_sync_node_sets)
next
  case (Some s)
  then have "i \<noteq> []" using assms by (force simp: spec_sets_ok_def dest: map_of_SomeD)
  then have "find_node_set (nr_resourceClass rq) (pcls_nodeSets (cluster_spec c)) = i \<longleftrightarrow>
      nr_resourceClass rq = cns_hostClass s"
    using find_node_set_iff [of "pcls_nodeSets (cluster_spec c)" i s "nr_resourceClass rq"] Some assms
    by (auto simp: spec_sets_ok_def)
  with Some \<open>i \<noteq> []\<close> show ?thesis
    by (cases "nr_resourceClass rq = cns_hostClass s")
      (simp_all add: syncNodeRequest_def Let_def map_of_sync_node_sets resized_def split: option.split)
qed

lemma fold_syncNodeRequest_entry:
  "spec_sets_ok (pcls_nodeSets (cluster_spec c)) \<Longrightarrow> distinct (map nr_resourceClass rqs) \<Longrightarrow>
   map_of (pclst_nodeSets (cluster_status (fold syncNodeRequest rqs c))) i =
     (case map_of (pcls_nodeSets (cluster_spec c)) i of
        None \<Rightarrow> map_of (pclst_nodeSets (cluster_status c)) i
      | Some s \<Rightarrow> (case first_such (\<lambda>rq. nr_resourceClass rq = cns_hostClass s) rqs of
          None \<Rightarrow> map_of (pclst_nodeSets (cluster_status c)) i
        | Some rq \<Rightarrow> Some (resized rq (map_of (pclst_nodeSets (cluster_status c)) i))))"
proof (induction rqs arbitrary: c)
  case (Cons rq rqs)
  have spec: "cluster_spec (syncNodeRequest rq c) = cluster_spec c"
    by (simp add: syncNodeRequest_def Let_def)
  have gone: "first_such (\<lambda>q. nr_resourceClass q = cns_hostClass s) rqs = None"
    if "nr_resourceClass rq = cns_hostClass s" for s
    using Cons.prems(2) that by (force simp: first_such_None_iff image_iff)
  note IH = Cons.IH [of "syncNodeRequest rq c", unfolded spec, OF Cons.prems(1)]
  note one = syncNodeRequest_entry [OF Cons.prems(1), of rq i]
  show ?case
  proof (cases "map_of (pcls_nodeSets (cluster_spec c)) i")
    case None
    with IH one Cons.prems(2) show ?thesis by simp
  next
    case (Some s)
    with IH one Cons.prems(2) gone [of s] show ?thesis
      by (cases "nr_resourceClass rq = cns_hostClass s") (simp_all split: option.split)
  qed
qed (simp split: option.split)

section \<open>Properties\<close>

text \<open>An order that is accepted and no longer progressing, whose cluster has one node set.\<close>

definition feedback_co :: cluster_order where
  "feedback_co = sample_co\<lparr>co_meta := sample_meta\<lparr>om_labels := [cloudkitClusterOrderIDLabel \<mapsto> ''i'']\<rparr>,
     co_status := (co_status sample_co)\<lparr>cost_phase := ClusterOrderPhaseProgressing,
       cost_conditions := [mk_condition ClusterOrderConditionAccepted ConditionTrue [] [],
         mk_condition ClusterOrderConditionProgressing ConditionFalse [] []],
       cost_nodeRequests := [\<lparr>nr_resourceClass = ''c'', nr_numberOfNodes = 3\<rparr>]\<rparr>\<rparr>"

definition feedback_cluster :: private_cluster where
  "feedback_cluster = \<lparr>pcl_id = ''i'', pcl_metadata = [],
     pcl_spec = Some \<lparr>pcls_template = [], pcls_templateParameters = [],
       pcls_nodeSets = [(''n'', \<lparr>cns_hostClass = ''c'', cns_size = 3\<rparr>)]\<rparr>,
     pcl_status = Some empty_pcl_status\<rparr>"

text \<open>A service that answers what it was sent last.\<close>

primrec stored_cluster :: "history \<Rightarrow> private_cluster" where
  "stored_cluster [] = feedback_cluster"
| "stored_cluster (e # h) = (case e of EvRpcUpdate (RpcCluster cl) \<Rightarrow> cl | _ \<Rightarrow> stored_cluster h)"

definition cluster_env :: env where
  "cluster_env = ref_env\<lparr>kube := ref_kube\<lparr>get_cluster_order := (\<lambda>k h. Inr feedback_co)\<rparr>,
     rpc := ref_rpc\<lparr>rpc_get_cluster := (\<lambda>i h. Inr (stored_cluster h))\<rparr>\<rparr>"

lemma feedback_co_simps [simp]:
  "om_labels (co_meta feedback_co) cloudkitClusterOrderIDLabel = Some ''i''" "\<not> deleting (co_meta feedback_co)"
  "cost_phase (co_status feedback_co) = ClusterOrderPhaseProgressing"
  "cost_conditions (co_status feedback_co) = [mk_condition ClusterOrderConditionAccepted ConditionTrue [] [],
     mk_condition ClusterOrderConditionProgressing ConditionFalse [] []]"
  "get_cluster_order (kube cluster_env) key h = Inr feedback_co"
  "rpc_get_cluster (rpc cluster_env) i h = Inr (stored_cluster h)" "clock cluster_env h = int (length h) * second"
  "rpc_update_cluster (rpc cluster_env) x h = None"
  by (simp_all add: feedback_co_def cluster_env_def sample_co_def sample_meta_def new_meta_def deleting_def
      is_zero_time_def ref_kube_def ref_rpc_def)

text \<open>In that phase no reconciliation of the order fails.\<close>

lemma feedback_co_run:
  obtains cl' w' where "run_state (cluster_feedback_handleUpdate cluster_env feedback_co cl0) w = ((cl', None), w')"
  by (simp add: cluster_feedback_handleUpdate_def cluster_syncPhase_def State_Monad.return_def split_beta)

lemma feedback_co_reconcile:
  obtains w' where "run_state (cluster_feedback_Reconcile cluster_env key) w = (Done () result_none None, w')"
  by (simp add: run_cluster_feedback Let_def cluster_feedback_labelled_def cluster_feedback_handle_def fetchCluster_def
      cluster_feedback_handleUpdate_def cluster_syncPhase_def saveCluster_def rpc_defs State_Monad.return_def split_beta)

lemma feedback_co_sends:
  obtains cl w' es where
    "run_state (cluster_feedback_Reconcile cluster_env key) empty_world = (Done () result_none None, w')"
    "trace w' = es @ trace empty_world" "EvRpcUpdate (RpcCluster cl) \<in> set es"
proof -
  let ?w2 = "empty_world\<lparr>trace := [EvRpcGet Clusters ''i'', EvGet KindClusterOrder key]\<rparr>"
  have fetch: "run_state (fetchCluster cluster_env ''i'') (empty_world\<lparr>trace := [EvGet KindClusterOrder key]\<rparr>) =
      (Inr feedback_cluster, ?w2)"
    by (simp add: fetchCluster_def rpc_defs State_Monad.return_def feedback_cluster_def)
  obtain cl w1 where h: "run_state (cluster_feedback_handleUpdate cluster_env feedback_co feedback_cluster) ?w2 =
      ((cl, None), w1)" by (rule feedback_co_run)
  from cluster_handleUpdate_frame [OF h] have "pclst_state (cluster_status cl) = CLUSTER_STATE_PROGRESSING"
    by (simp add: cluster_state_after_def)
  moreover have "pclst_state (cluster_status feedback_cluster) = CLUSTER_STATE_UNSPECIFIED"
    by (simp add: feedback_cluster_def cluster_status_def empty_pcl_status_def)
  ultimately have "cl \<noteq> feedback_cluster" by auto
  then have "run_state (cluster_feedback_Reconcile cluster_env key) empty_world =
      (Done () result_none None, w1\<lparr>trace := EvRpcUpdate (RpcCluster cl) # trace w1\<rparr>)"
    using h fetch by (simp add: run_cluster_feedback Let_def cluster_feedback_labelled_def cluster_feedback_handle_def
        saveCluster_def rpc_defs State_Monad.return_def empty_world_def)
  then show thesis by (rule that [of _ "EvRpcUpdate (RpcCluster cl) # trace w1" cl]) (simp_all add: empty_world_def)
qed

text \<open>C24: the controller owns the state and one condition of a cluster's record. Every record it
  sends belongs to an order that is not being deleted, has the identity, the metadata, the spec
  and the hub that the service has answered for the identifier in the order's label, the state
  of the order's phase, and every condition as the service has it, except PROGRESSING. So READY,
  FAILED and DEGRADED are never reported, whatever conditions the order has.\<close>

theorem cluster_feedback_owns_progressing:
  assumes "run_state (cluster_feedback_Reconcile E key) w = (out, w')"
    and "trace w' = es @ trace w" "EvRpcUpdate x \<in> set es"
  shows "\<exists>co i cl. get_cluster_order (kube E) key (trace w) = Inr co \<and>
     om_labels (co_meta co) cloudkitClusterOrderIDLabel = Some i \<and> x = RpcCluster cl \<and> cluster_record E i co cl"
proof -
  let ?w1 = "w\<lparr>trace := EvGet KindClusterOrder key # trace w\<rparr>"
  obtain co where co: "get_cluster_order (kube E) key (trace w) = Inr co"
    using assms by (cases "get_cluster_order (kube E) key (trace w)") (auto simp: run_cluster_feedback Let_def)
  obtain i where i: "om_labels (co_meta co) cloudkitClusterOrderIDLabel = Some i"
    using assms co by (cases "om_labels (co_meta co) cloudkitClusterOrderIDLabel") (auto simp: run_cluster_feedback Let_def)
  have "run_state (cluster_feedback_labelled E i co) ?w1 = (out, w')"
    using assms(1) co i by (simp add: run_cluster_feedback Let_def)
  then obtain es' where "trace w' = es' @ trace ?w1" "\<forall>e \<in> set es'. sends_cluster E i co e"
    by (rule footprintD [OF footprint_cluster_labelled])
  with assms(2,3) have "sends_cluster E i co (EvRpcUpdate x)" by auto
  with co i show ?thesis by (auto simp: sends_cluster_def)
qed

theorem cluster_feedback_owns_progressing_witness:
  "\<exists>cl. cluster_record cluster_env ''i'' feedback_co cl"
proof (rule feedback_co_sends [of "\<lparr>key_namespace = [], key_name = []\<rparr>"])
  fix cl w' es
  assume "run_state (cluster_feedback_Reconcile cluster_env \<lparr>key_namespace = [], key_name = []\<rparr>) empty_world =
      (Done () result_none None, w')" "trace w' = es @ trace empty_world" "EvRpcUpdate (RpcCluster cl) \<in> set es"
  from cluster_feedback_owns_progressing [OF this] show ?thesis by auto
qed

text \<open>C23: the feedback of a cluster never comes to rest while two of the order's known conditions have
  different statuses. All of them are copied into the one condition PROGRESSING, so every round
  changes its status on the way and stamps a new transition time. A reconciliation that finds
  in the service exactly the record that the last one has produced, for the same order, sends
  another one all the same.\<close>

theorem cluster_feedback_never_settles:
  assumes "clock_strict E"
    and "c \<in> set (cost_conditions (co_status co))" "d \<in> set (cost_conditions (co_status co))"
    and "cluster_condition_kind (c_type c) \<noteq> None" "cluster_condition_kind (c_type d) \<noteq> None"
    and "c_status c \<noteq> c_status d"
    and last: "run_state (cluster_feedback_handleUpdate E co cl) w = ((cl1, None), w1)" "trace w2 = es @ trace w1"
    and order: "get_cluster_order (kube E) key (trace w2) = Inr co" "\<not> deleting (co_meta co)"
      "om_labels (co_meta co) cloudkitClusterOrderIDLabel = Some i"
    and stored: "rpc_get_cluster (rpc E) i (EvGet KindClusterOrder key # trace w2) = Inr cl1"
    and again: "run_state (cluster_feedback_Reconcile E key) w2 = (Done () res None, w3)"
  shows "\<exists>cl2. cl2 \<noteq> cl1 \<and> hd (trace w3) = EvRpcUpdate (RpcCluster cl2)"
proof -
  let ?w = "w2\<lparr>trace := EvRpcGet Clusters i # EvGet KindClusterOrder key # trace w2\<rparr>"
  obtain cl0 where cl0: "run_state (fetchCluster E i) (w2\<lparr>trace := EvGet KindClusterOrder key # trace w2\<rparr>) = (Inr cl0, ?w)"
      "cluster_status cl0 = cluster_status cl1"
    using stored by (auto simp: fetchCluster_def rpc_defs State_Monad.return_def cluster_status_def
        split: option.splits)
  have lab: "run_state (cluster_feedback_labelled E i co) (w2\<lparr>trace := EvGet KindClusterOrder key # trace w2\<rparr>) =
      (Done () res None, w3)"
    using again order by (simp add: run_cluster_feedback Let_def)
  obtain cl2 w4 where h: "run_state (cluster_feedback_handleUpdate E co cl0) ?w = ((cl2, None), w4)"
  proof (cases "snd (fst (run_state (cluster_feedback_handleUpdate E co cl0) ?w))")
    case (Some e)
    with lab order(2) cl0(1) show ?thesis
      by (simp add: cluster_feedback_labelled_def cluster_feedback_handle_def State_Monad.return_def split_beta)
  qed (metis prod.collapse)
  obtain wa ea where a: "run_state (sync_conditions E cluster_condition_kind (cost_conditions (co_status co))
      (pclst_conditions (cluster_status cl))) w = (pclst_conditions (cluster_status cl1), wa)" "trace w1 = ea @ trace wa"
    by (rule cluster_handleUpdate_conditions [OF last(1)])
  obtain wb eb where b: "run_state (sync_conditions E cluster_condition_kind (cost_conditions (co_status co))
      (pclst_conditions (cluster_status cl1))) ?w = (pclst_conditions (cluster_status cl2), wb)" "trace w4 = eb @ trace wb"
    by (rule cluster_handleUpdate_conditions [OF h]) (simp add: cl0)
  have kinds: "cluster_condition_kind (c_type c) = Some CLUSTER_TYPE_PROGRESSING"
    "cluster_condition_kind (c_type d) = Some CLUSTER_TYPE_PROGRESSING"
    using assms(4,5) by (auto simp: cluster_condition_kind_def split: if_splits)
  have "mapConditionStatus (c_status c) \<noteq> mapConditionStatus (c_status d)"
    using assms(6) by (cases "c_status c"; cases "c_status d") simp_all
  from sync_conditions_unsettled [OF assms(1-3) kinds this a(1) _ b(1)] a(2) last(2)
  have "pclst_conditions (cluster_status cl2) \<noteq> pclst_conditions (cluster_status cl1)" by auto
  then have "cl2 \<noteq> cl0" "cl2 \<noteq> cl1" using cl0(2) by auto
  moreover have "hd (trace w3) = EvRpcUpdate (RpcCluster cl2)"
    using lab cl0(1) h order(2) \<open>cl2 \<noteq> cl0\<close>
    by (auto simp: cluster_feedback_labelled_def cluster_feedback_handle_def saveCluster_def rpc_defs State_Monad.return_def)
  ultimately show ?thesis by blast
qed

theorem cluster_feedback_never_settles_witness:
  "\<exists>cl1 cl2 w w3. stored_cluster (trace w) = cl1 \<and> cl2 \<noteq> cl1 \<and>
     run_state (cluster_feedback_Reconcile cluster_env \<lparr>key_namespace = [], key_name = []\<rparr>) w =
       (Done () result_none None, w3) \<and> hd (trace w3) = EvRpcUpdate (RpcCluster cl2)"
proof (rule feedback_co_run [of feedback_cluster empty_world])
  fix cl1 and w1 :: world
  let ?key = "\<lparr>key_namespace = [], key_name = []\<rparr>"
  let ?w2 = "w1\<lparr>trace := EvRpcUpdate (RpcCluster cl1) # trace w1\<rparr>"
  assume first: "run_state (cluster_feedback_handleUpdate cluster_env feedback_co feedback_cluster) empty_world =
      ((cl1, None), w1)"
  obtain w3 where again: "run_state (cluster_feedback_Reconcile cluster_env ?key) ?w2 = (Done () result_none None, w3)"
    by (rule feedback_co_reconcile)
  obtain cl2 where "cl2 \<noteq> cl1 \<and> hd (trace w3) = EvRpcUpdate (RpcCluster cl2)"
    by (rule exE [OF cluster_feedback_never_settles [OF _ _ _ _ _ _ first _ _ _ _ _ again,
          of "mk_condition ClusterOrderConditionAccepted ConditionTrue [] []"
             "mk_condition ClusterOrderConditionProgressing ConditionFalse [] []" "[EvRpcUpdate (RpcCluster cl1)]" "''i''"]])
      (simp_all add: clock_strict_def second_def mk_condition_def cluster_condition_kind_def)
  with again show ?thesis
    by (intro exI [of _ cl1] exI [of _ cl2] exI [of _ ?w2] exI [of _ w3]) simp
qed

text \<open>C25: the sizes of the node sets. Where the identifiers and the host classes of the node sets
  in the cluster's spec are distinct, and the resource classes in the order's status too, an
  entry of the record's node sets changes only if the spec has a node set of that identifier and
  the order's status a request of its class; then its size is that request's number of nodes,
  as an int32, and a missing entry is created with the class. Every other entry stays.\<close>

theorem cluster_node_sets_synced:
  assumes "spec_sets_ok (pcls_nodeSets (cluster_spec cl))"
    and "distinct (map nr_resourceClass (cost_nodeRequests (co_status co)))"
  shows "map_of (pclst_nodeSets (cluster_status (syncNodeRequests co cl))) i =
     (case map_of (pcls_nodeSets (cluster_spec cl)) i of
        None \<Rightarrow> map_of (pclst_nodeSets (cluster_status cl)) i
      | Some s \<Rightarrow> (case first_such (\<lambda>rq. nr_resourceClass rq = cns_hostClass s) (cost_nodeRequests (co_status co)) of
          None \<Rightarrow> map_of (pclst_nodeSets (cluster_status cl)) i
        | Some rq \<Rightarrow> Some (resized rq (map_of (pclst_nodeSets (cluster_status cl)) i))))"
  unfolding syncNodeRequests_def using assms by (rule fold_syncNodeRequest_entry)

theorem cluster_node_sets_synced_witness:
  "map_of (pclst_nodeSets (cluster_status (syncNodeRequests feedback_co feedback_cluster))) ''n'' =
     Some \<lparr>cns_hostClass = ''c'', cns_size = 3\<rparr>"
  using cluster_node_sets_synced [of feedback_cluster feedback_co "''n''"]
  by (simp add: feedback_cluster_def feedback_co_def sample_co_def cluster_spec_def cluster_status_def spec_sets_ok_def
      empty_pcl_status_def resized_def wrap32_def)

end
