(* ===== verification/Host_Pool_Feedback.thy ===== *)
theory Host_Pool_Feedback
  imports Feedback Reference_Env
begin

text \<open>
  \<open>internal/controller/hostpool_feedback_controller.go\<close>: the controller that copies the state
  of a host pool into its record in the fulfillment service.
\<close>

record host_pool_feedback_reconciler =
  hpfr_hostPoolNamespace :: string

definition newHostPoolFeedbackReconciler :: "string \<Rightarrow> host_pool_feedback_reconciler" where
  "newHostPoolFeedbackReconciler ns = \<lparr>hpfr_hostPoolNamespace = ns\<rparr>"

section \<open>The record\<close>

definition fetchHostPool :: "env \<Rightarrow> string \<Rightarrow> (go_error + private_hp) act" where
  "fetchHostPool E i =
     do { r \<leftarrow> rpc_fetch_hp E i;
          State_Monad.return (case r of
            Inl e \<Rightarrow> Inl e
          | Inr p \<Rightarrow> Inr (p\<lparr>php_spec := Some (case php_spec p of None \<Rightarrow> [] | Some s \<Rightarrow> s),
              php_status := Some (case php_status p of None \<Rightarrow> empty_php_status | Some s \<Rightarrow> s)\<rparr>)) }"

definition saveHostPool :: "env \<Rightarrow> private_hp \<Rightarrow> private_hp \<Rightarrow> go_error option act" where
  "saveHostPool E before after =
     (if after \<noteq> before then rpc_save_hp E after else State_Monad.return None)"

definition pool_status :: "private_hp \<Rightarrow> php_status" where
  "pool_status p = (case php_status p of None \<Rightarrow> empty_php_status | Some s \<Rightarrow> s)"

definition upd_pool :: "(php_status \<Rightarrow> php_status) \<Rightarrow> private_hp \<Rightarrow> private_hp" where
  "upd_pool f p = p\<lparr>php_status := Some (f (pool_status p))\<rparr>"

section \<open>Synchronisation\<close>

text \<open>The switch of \<open>syncCondition\<close>, and the condition that each of its four branches looks up.\<close>

definition pool_condition_kind :: "string \<Rightarrow> host_pool_condition_type option" where
  "pool_condition_kind t =
     (if t = HostPoolConditionAccepted then Some HP_TYPE_PROGRESSING
      else if t = HostPoolConditionProgressing then Some HP_TYPE_PROGRESSING
      else if t = HostPoolConditionAvailable then Some HP_TYPE_READY
      else if t = HostPoolConditionDeleting then Some HP_TYPE_PROGRESSING
      else None)"

definition pool_syncConditions :: "env \<Rightarrow> host_pool \<Rightarrow> private_hp \<Rightarrow> private_hp act" where
  "pool_syncConditions E hp p =
     do { cs \<leftarrow> sync_conditions E pool_condition_kind (hp_conditions hp) (phps_conditions (pool_status p));
          State_Monad.return (upd_pool (\<lambda>st. st\<lparr>phps_conditions := cs\<rparr>) p) }"

fun pool_state_of_phase :: "host_pool_phase \<Rightarrow> host_pool_state option" where
  "pool_state_of_phase HostPoolPhaseProgressing = Some HOST_POOL_STATE_PROGRESSING"
| "pool_state_of_phase HostPoolPhaseFailed = Some HOST_POOL_STATE_FAILED"
| "pool_state_of_phase HostPoolPhaseReady = Some HOST_POOL_STATE_READY"
| "pool_state_of_phase HostPoolPhaseDeleting = None"
| "pool_state_of_phase HostPoolPhaseUnset = None"

definition pool_syncPhase :: "host_pool \<Rightarrow> private_hp \<Rightarrow> private_hp" where
  "pool_syncPhase hp p =
     (case pool_state_of_phase (hps_phase (hp_status hp)) of
        None \<Rightarrow> p | Some s \<Rightarrow> upd_pool (\<lambda>st. st\<lparr>phps_state := s\<rparr>) p)"

section \<open>Handlers\<close>

definition pool_feedback_handleUpdate :: "env \<Rightarrow> host_pool \<Rightarrow> private_hp \<Rightarrow> private_hp act" where
  "pool_feedback_handleUpdate E hp p =
     do { p1 \<leftarrow> pool_syncConditions E hp p; State_Monad.return (pool_syncPhase hp p1) }"

definition pool_feedback_labelled :: "env \<Rightarrow> string \<Rightarrow> host_pool \<Rightarrow> unit outcome act" where
  "pool_feedback_labelled E i hp =
     (if deleting (hp_meta hp) then State_Monad.return (Done () result_none None)
      else do { f \<leftarrow> fetchHostPool E i;
                case f of
                  Inl e \<Rightarrow> State_Monad.return (Done () result_none (Some e))
                | Inr p \<Rightarrow> do { p' \<leftarrow> pool_feedback_handleUpdate E hp p;
                                e \<leftarrow> saveHostPool E p p';
                                State_Monad.return (Done () result_none e) } })"

definition pool_feedback_Reconcile :: "env \<Rightarrow> object_key \<Rightarrow> unit outcome act" where
  "pool_feedback_Reconcile E key =
     do { g \<leftarrow> kc_get_hp E key;
          case g of
            Inl e \<Rightarrow> State_Monad.return (Done () result_none (ignore_not_found e))
          | Inr hp \<Rightarrow>
              (case om_labels (hp_meta hp) cloudkitHostPoolIDLabel of
                 None \<Rightarrow> State_Monad.return (Done () result_none None)
               | Some i \<Rightarrow> pool_feedback_labelled E i hp) }"

section \<open>What each part leaves alone\<close>

lemma upd_pool_simps [simp]:
  "pool_status (upd_pool f p) = f (pool_status p)"
  "php_id (upd_pool f p) = php_id p" "php_metadata (upd_pool f p) = php_metadata p" "php_spec (upd_pool f p) = php_spec p"
  by (simp_all add: upd_pool_def pool_status_def)

lemma run_pool_handleUpdate:
  "run_state (pool_feedback_handleUpdate E hp p) w =
     (let r = run_state (sync_conditions E pool_condition_kind (hp_conditions hp) (phps_conditions (pool_status p))) w
      in (pool_syncPhase hp (upd_pool (\<lambda>st. st\<lparr>phps_conditions := fst r\<rparr>) p), snd r))"
  by (simp add: pool_feedback_handleUpdate_def pool_syncConditions_def State_Monad.return_def Let_def split_beta)

lemma pool_syncPhase_frame [simp]:
  "phps_conditions (pool_status (pool_syncPhase hp p)) = phps_conditions (pool_status p)"
  "phps_hub (pool_status (pool_syncPhase hp p)) = phps_hub (pool_status p)"
  "phps_hosts (pool_status (pool_syncPhase hp p)) = phps_hosts (pool_status p)"
  "phps_hostSets (pool_status (pool_syncPhase hp p)) = phps_hostSets (pool_status p)"
  "php_id (pool_syncPhase hp p) = php_id p" "php_metadata (pool_syncPhase hp p) = php_metadata p"
  "php_spec (pool_syncPhase hp p) = php_spec p"
  by (simp_all add: pool_syncPhase_def split: option.split)

definition pool_state_after :: "host_pool \<Rightarrow> host_pool_state \<Rightarrow> host_pool_state" where
  "pool_state_after hp s = (case pool_state_of_phase (hps_phase (hp_status hp)) of None \<Rightarrow> s | Some s' \<Rightarrow> s')"

lemma pool_syncPhase_state [simp]:
  "phps_state (pool_status (pool_syncPhase hp p)) = pool_state_after hp (phps_state (pool_status p))"
  by (simp add: pool_syncPhase_def pool_state_after_def split: option.split)

lemma fetchHostPool_result:
  assumes "fst (run_state (fetchHostPool E i) w) = Inr p"
  shows "\<exists>r. rpc_get_host_pool (rpc E) i (trace w) = Inr r \<and> php_id p = php_id r \<and>
     php_metadata p = php_metadata r \<and> pool_status p = pool_status r"
  using assms
  by (auto simp: fetchHostPool_def rpc_defs State_Monad.return_def pool_status_def split: sum.splits option.splits)

text \<open>What the controller may send for a pool.\<close>

definition pool_record :: "env \<Rightarrow> string \<Rightarrow> host_pool \<Rightarrow> private_hp \<Rightarrow> bool" where
  "pool_record E i hp p \<longleftrightarrow> \<not> deleting (hp_meta hp) \<and> (\<exists>r h.
     rpc_get_host_pool (rpc E) i h = Inr r \<and> php_id p = php_id r \<and> php_metadata p = php_metadata r \<and>
     phps_hub (pool_status p) = phps_hub (pool_status r) \<and> phps_hosts (pool_status p) = phps_hosts (pool_status r) \<and>
     phps_hostSets (pool_status p) = phps_hostSets (pool_status r) \<and>
     phps_state (pool_status p) = pool_state_after hp (phps_state (pool_status r)) \<and>
     (\<forall>k. k \<notin> {HP_TYPE_PROGRESSING, HP_TYPE_READY} \<longrightarrow>
        find_condition k (phps_conditions (pool_status p)) = find_condition k (phps_conditions (pool_status r))))"

definition sends_pool :: "env \<Rightarrow> string \<Rightarrow> host_pool \<Rightarrow> event \<Rightarrow> bool" where
  "sends_pool E i hp e \<longleftrightarrow> (\<forall>x. e = EvRpcUpdate x \<longrightarrow> (\<exists>p. x = RpcHostPool p \<and> pool_record E i hp p))"

lemma pool_kind_cases: "k \<notin> {HP_TYPE_PROGRESSING, HP_TYPE_READY} \<Longrightarrow> pool_condition_kind t \<noteq> Some k"
  by (auto simp: pool_condition_kind_def)

lemma footprint_pool_labelled: "footprint (sends_pool E i hp) (pool_feedback_labelled E i hp)"
proof -
  have save: "footprint (sends_pool E i hp) (saveHostPool E p (fst (run_state (pool_feedback_handleUpdate E hp p) w')))"
    if "fst (run_state (fetchHostPool E i) w) = Inr p" "\<not> deleting (hp_meta hp)" for p w w'
  proof -
    from fetchHostPool_result [OF that(1)] obtain r where
      "rpc_get_host_pool (rpc E) i (trace w) = Inr r" "php_id p = php_id r" "php_metadata p = php_metadata r"
      "pool_status p = pool_status r" by blast
    then have "pool_record E i hp (fst (run_state (pool_feedback_handleUpdate E hp p) w'))"
      using that(2) unfolding pool_record_def
      by (intro conjI exI [of _ r] exI [of _ "trace w"])
        (simp_all add: run_pool_handleUpdate Let_def sync_conditions_other pool_kind_cases)
    then show ?thesis unfolding saveHostPool_def by (intro fp_intros) (simp_all add: sends_pool_def)
  qed
  have fetch: "footprint (sends_pool E i hp) (fetchHostPool E i)"
    unfolding fetchHostPool_def by (intro fp_intros) (simp add: sends_pool_def)
  have handle: "footprint (sends_pool E i hp) (pool_feedback_handleUpdate E hp p)" for p
    unfolding pool_feedback_handleUpdate_def pool_syncConditions_def by (intro fp_intros) (simp add: sends_pool_def)
  show ?thesis
    unfolding pool_feedback_labelled_def
    by (intro footprint_bind_run [OF fetch] footprint_bind_run [OF handle] footprint_bind_run [OF save] fp_intros)
qed

lemma run_pool_feedback:
  "run_state (pool_feedback_Reconcile E key) w =
     (let w1 = w\<lparr>trace := EvGet KindHostPool key # trace w\<rparr>
      in case get_host_pool (kube E) key (trace w) of
           Inl e \<Rightarrow> (Done () result_none (ignore_not_found e), w1)
         | Inr hp \<Rightarrow> (case om_labels (hp_meta hp) cloudkitHostPoolIDLabel of
             None \<Rightarrow> (Done () result_none None, w1)
           | Some i \<Rightarrow> run_state (pool_feedback_labelled E i hp) w1))"
  by (simp add: pool_feedback_Reconcile_def kc_defs State_Monad.return_def split: sum.split option.split)

text \<open>Two known conditions with different statuses that share a condition of the record.\<close>

lemma pool_feedback_unsettled:
  assumes "clock_strict E" "c \<in> set (hp_conditions hp)" "d \<in> set (hp_conditions hp)"
    and "pool_condition_kind (c_type c) = Some k" "pool_condition_kind (c_type d) = Some k" "c_status c \<noteq> c_status d"
    and first: "run_state (pool_feedback_handleUpdate E hp p) w = (p1, w1)" "trace w2 = es @ trace w1"
    and pool: "get_host_pool (kube E) key (trace w2) = Inr hp" "\<not> deleting (hp_meta hp)"
      "om_labels (hp_meta hp) cloudkitHostPoolIDLabel = Some i"
    and stored: "rpc_get_host_pool (rpc E) i (EvGet KindHostPool key # trace w2) = Inr p1"
  shows "\<exists>p2. p2 \<noteq> p1 \<and> hd (trace (snd (run_state (pool_feedback_Reconcile E key) w2))) = EvRpcUpdate (RpcHostPool p2)"
proof -
  let ?w = "w2\<lparr>trace := EvRpcGet HostPools i # EvGet KindHostPool key # trace w2\<rparr>"
  obtain p0 where p0: "run_state (fetchHostPool E i) (w2\<lparr>trace := EvGet KindHostPool key # trace w2\<rparr>) = (Inr p0, ?w)"
      "pool_status p0 = pool_status p1"
    using stored by (auto simp: fetchHostPool_def rpc_defs State_Monad.return_def pool_status_def split: option.splits)
  obtain p2 w4 where h: "run_state (pool_feedback_handleUpdate E hp p0) ?w = (p2, w4)" by (cases "run_state (pool_feedback_handleUpdate E hp p0) ?w")
  have a: "run_state (sync_conditions E pool_condition_kind (hp_conditions hp) (phps_conditions (pool_status p))) w =
      (phps_conditions (pool_status p1), w1)"
    using first(1) by (auto simp: run_pool_handleUpdate Let_def prod_eq_iff)
  have b: "run_state (sync_conditions E pool_condition_kind (hp_conditions hp) (phps_conditions (pool_status p1))) ?w =
      (phps_conditions (pool_status p2), w4)"
    using h p0(2) by (auto simp: run_pool_handleUpdate Let_def prod_eq_iff)
  have "mapConditionStatus (c_status c) \<noteq> mapConditionStatus (c_status d)"
    using assms(6) by (cases "c_status c"; cases "c_status d") simp_all
  from sync_conditions_unsettled [OF assms(1-5) this a _ b] first(2)
  have "phps_conditions (pool_status p2) \<noteq> phps_conditions (pool_status p1)" by auto
  then have "p2 \<noteq> p0" "p2 \<noteq> p1" using p0(2) by auto
  moreover have "hd (trace (snd (run_state (pool_feedback_Reconcile E key) w2))) = EvRpcUpdate (RpcHostPool p2)"
    using p0(1) h pool \<open>p2 \<noteq> p0\<close>
    by (simp add: run_pool_feedback Let_def pool_feedback_labelled_def saveHostPool_def rpc_defs State_Monad.return_def)
  ultimately show ?thesis by blast
qed

text \<open>A pool that is ready, and a service that answers what it was sent last.\<close>

definition feedback_hp :: host_pool where
  "feedback_hp = hp_set_phase HostPoolPhaseReady
     (sample_hp\<lparr>hp_meta := sample_meta\<lparr>om_labels := [cloudkitHostPoolIDLabel \<mapsto> ''i'']\<rparr>\<rparr>)"

definition empty_pool :: private_hp where
  "empty_pool = \<lparr>php_id = ''i'', php_metadata = [], php_spec = Some [], php_status = Some empty_php_status\<rparr>"

primrec stored_pool_record :: "history \<Rightarrow> private_hp" where
  "stored_pool_record [] = empty_pool"
| "stored_pool_record (e # h) = (case e of EvRpcUpdate (RpcHostPool p) \<Rightarrow> p | _ \<Rightarrow> stored_pool_record h)"

definition pool_env :: env where
  "pool_env = ref_env\<lparr>kube := ref_kube\<lparr>get_host_pool := (\<lambda>k h. Inr feedback_hp)\<rparr>,
     rpc := ref_rpc\<lparr>rpc_get_host_pool := (\<lambda>i h. Inr (stored_pool_record h))\<rparr>\<rparr>"

lemma feedback_hp_simps [simp]:
  "om_labels (hp_meta feedback_hp) cloudkitHostPoolIDLabel = Some ''i''" "\<not> deleting (hp_meta feedback_hp)"
  "hp_conditions feedback_hp = []" "hps_phase (hp_status feedback_hp) = HostPoolPhaseReady"
  "get_host_pool (kube pool_env) key h = Inr feedback_hp"
  "rpc_get_host_pool (rpc pool_env) i h = Inr (stored_pool_record h)"
  by (simp_all add: feedback_hp_def pool_env_def sample_hp_def sample_meta_def new_meta_def deleting_def
      is_zero_time_def hp_set_phase_def ref_kube_def ref_rpc_def)

section \<open>Properties\<close>

text \<open>The controller owns the state and two conditions of a host pool's record. Every record it
  sends belongs to a labelled pool that is not being deleted, and has the identity, the metadata,
  the hub, the hosts, the host sets and every other condition that the service has answered; its
  state is that of the pool's phase. The deletion of a pool is never reported.\<close>

theorem pool_feedback_owns_state:
  assumes "run_state (pool_feedback_Reconcile E key) w = (out, w')"
    and "trace w' = es @ trace w" "EvRpcUpdate x \<in> set es"
  shows "\<exists>hp i p. get_host_pool (kube E) key (trace w) = Inr hp \<and>
     om_labels (hp_meta hp) cloudkitHostPoolIDLabel = Some i \<and> x = RpcHostPool p \<and> pool_record E i hp p"
proof -
  let ?w1 = "w\<lparr>trace := EvGet KindHostPool key # trace w\<rparr>"
  obtain hp where hp: "get_host_pool (kube E) key (trace w) = Inr hp"
    using assms by (cases "get_host_pool (kube E) key (trace w)") (auto simp: run_pool_feedback Let_def)
  obtain i where i: "om_labels (hp_meta hp) cloudkitHostPoolIDLabel = Some i"
    using assms hp by (cases "om_labels (hp_meta hp) cloudkitHostPoolIDLabel") (auto simp: run_pool_feedback Let_def)
  have "run_state (pool_feedback_labelled E i hp) ?w1 = (out, w')"
    using assms(1) hp i by (simp add: run_pool_feedback Let_def)
  then obtain es' where "trace w' = es' @ trace ?w1" "\<forall>e \<in> set es'. sends_pool E i hp e"
    by (rule footprintD [OF footprint_pool_labelled])
  with assms(2,3) have "sends_pool E i hp (EvRpcUpdate x)" by auto
  with hp i show ?thesis by (auto simp: sends_pool_def)
qed

theorem pool_feedback_owns_state_witness:
  "\<exists>p. pool_record pool_env ''i'' feedback_hp p \<and> phps_state (pool_status p) = HOST_POOL_STATE_READY"
proof -
  let ?key = "\<lparr>key_namespace = [], key_name = []\<rparr>"
  let ?p = "pool_syncPhase feedback_hp empty_pool"
  have "?p \<noteq> empty_pool"
    by (simp add: pool_syncPhase_def upd_pool_def empty_pool_def pool_status_def empty_php_status_def)
  moreover have "upd_pool (\<lambda>st. st\<lparr>phps_conditions := []\<rparr>) empty_pool = empty_pool"
    by (simp add: upd_pool_def empty_pool_def pool_status_def empty_php_status_def)
  ultimately have run: "run_state (pool_feedback_Reconcile pool_env ?key) empty_world =
      (Done () (result_none) (rpc_update_host_pool (rpc pool_env) ?p [EvRpcGet HostPools ''i'', EvGet KindHostPool ?key]),
       empty_world\<lparr>trace := [EvRpcUpdate (RpcHostPool ?p), EvRpcGet HostPools ''i'', EvGet KindHostPool ?key]\<rparr>)"
    by (simp add: run_pool_feedback Let_def pool_feedback_labelled_def fetchHostPool_def saveHostPool_def rpc_defs
        run_pool_handleUpdate State_Monad.return_def empty_pool_def pool_status_def empty_php_status_def empty_world_def)
  from pool_feedback_owns_state [OF this, of "[EvRpcUpdate (RpcHostPool ?p), EvRpcGet HostPools ''i'', EvGet KindHostPool ?key]"]
  show ?thesis by (auto simp: empty_world_def pool_state_after_def)
qed

end
