(* ===== verification/Manager_Setup.thy ===== *)
theory Manager_Setup
  imports CI_Controller Tenant_Controller Cluster_Order_Controller Host_Pool_Controller
    CI_Feedback Cluster_Feedback Host_Pool_Feedback
begin

text \<open>
  How the controllers are wired to the manager: the \<open>SetupWithManager\<close> of each reconciler.
  A registration says which kind of object a controller reconciles, under which predicate,
  which other kinds it watches, which predicate filters their events and to which requests an
  event is mapped, and what is run for a request. controller-runtime is a parameter: how it
  evaluates a label selector, which owners an object has, and whether it accepts a
  registration.
\<close>

section \<open>Registrations\<close>

datatype label_requirement = LabelExists string | LabelIn string "string list"

record watch =
  w_kind :: kind
  w_requests :: "object_meta \<Rightarrow> object_key list act"
  w_predicate :: "object_meta \<Rightarrow> bool"

record registration =
  reg_name :: "string option"  \<comment> \<open>the argument of \<open>Named\<close>\<close>
  reg_for :: kind
  reg_predicate :: "object_meta \<Rightarrow> bool"
  reg_watches :: "watch list"
  reg_reconcile :: "object_key \<Rightarrow> unit outcome act"

record manager =
  mgr_labelSelectorPredicate :: "label_requirement list \<Rightarrow> go_error + (object_meta \<Rightarrow> bool)"
  mgr_requestForOwner :: "kind \<Rightarrow> object_meta \<Rightarrow> object_key list"
  mgr_complete :: "registration list \<Rightarrow> registration \<Rightarrow> go_error option"

text \<open>What \<open>LabelSelectorPredicate\<close> is documented to do with the requirements the operator uses.\<close>

fun meets_requirement :: "object_meta \<Rightarrow> label_requirement \<Rightarrow> bool" where
  "meets_requirement m (LabelExists k) \<longleftrightarrow> om_labels m k \<noteq> None"
| "meets_requirement m (LabelIn k vs) \<longleftrightarrow> (case om_labels m k of None \<Rightarrow> False | Some v \<Rightarrow> v \<in> set vs)"

definition selector_law :: "manager \<Rightarrow> bool" where
  "selector_law M \<longleftrightarrow>
     (\<forall>rs. mgr_labelSelectorPredicate M rs = Inr (\<lambda>m. list_all (meets_requirement m) rs))"

text \<open>\<open>Complete\<close>: the registrations made so far with the new one, or the error.\<close>

definition complete :: "manager \<Rightarrow> registration list \<Rightarrow> registration \<Rightarrow> go_error + registration list" where
  "complete M regs reg = (case mgr_complete M regs reg of Some e \<Rightarrow> Inl e | None \<Rightarrow> Inr (regs @ [reg]))"

section \<open>SetupWithManager\<close>

definition watches_of ::
    "kind list \<Rightarrow> (object_meta \<Rightarrow> object_key list act) \<Rightarrow> (object_meta \<Rightarrow> bool) \<Rightarrow> watch list" where
  "watches_of ks f p = map (\<lambda>k. \<lparr>w_kind = k, w_requests = f, w_predicate = p\<rparr>) ks"

definition co_registration ::
    "env \<Rightarrow> cluster_order_reconciler \<Rightarrow> (object_meta \<Rightarrow> bool) \<Rightarrow> registration" where
  "co_registration E r labelPredicate =
     \<lparr>reg_name = None, reg_for = KindClusterOrder,
       reg_predicate = NamespacePredicate (cor_clusterOrderNamespace r),
       reg_watches = watches_of
         [KindNamespace, KindServiceAccount, KindRoleBinding, KindHostedCluster, KindNodePool]
         (mapObjectToCluster E r) labelPredicate,
       reg_reconcile = co_Reconcile E r\<rparr>"

definition co_SetupWithManager ::
    "manager \<Rightarrow> env \<Rightarrow> cluster_order_reconciler \<Rightarrow> registration list \<Rightarrow> go_error + registration list" where
  "co_SetupWithManager M E r regs =
     (case mgr_labelSelectorPredicate M [LabelExists cloudkitClusterOrderNameLabel] of
        Inl e \<Rightarrow> Inl e
      | Inr labelPredicate \<Rightarrow> complete M regs (co_registration E r labelPredicate))"

definition hp_registration ::
    "env \<Rightarrow> host_pool_reconciler \<Rightarrow> (object_meta \<Rightarrow> bool) \<Rightarrow> registration" where
  "hp_registration E r labelPredicate =
     \<lparr>reg_name = None, reg_for = KindHostPool,
       reg_predicate = HostPoolNamespacePredicate (hpr_hostPoolNamespace r),
       reg_watches = watches_of [KindNamespace] (mapObjectToHostPool E r) labelPredicate,
       reg_reconcile = hp_Reconcile E r\<rparr>"

definition hp_SetupWithManager ::
    "manager \<Rightarrow> env \<Rightarrow> host_pool_reconciler \<Rightarrow> registration list \<Rightarrow> go_error + registration list" where
  "hp_SetupWithManager M E r regs =
     (case mgr_labelSelectorPredicate M [LabelExists cloudkitHostPoolNameLabel] of
        Inl e \<Rightarrow> Inl e
      | Inr labelPredicate \<Rightarrow> complete M regs (hp_registration E r labelPredicate))"

definition ci_registration ::
    "manager \<Rightarrow> env \<Rightarrow> compute_instance_reconciler \<Rightarrow> (object_meta \<Rightarrow> bool) \<Rightarrow> registration" where
  "ci_registration M E r labelPredicate =
     \<lparr>reg_name = None, reg_for = KindComputeInstance,
       reg_predicate = ci_NamespacePredicate (cir_namespace r),
       reg_watches = watches_of [KindVirtualMachine] (mapObjectToComputeInstance E r) labelPredicate @
         watches_of [KindTenant]
           (\<lambda>m. State_Monad.return (mgr_requestForOwner M KindComputeInstance m))
           (ci_NamespacePredicate (cir_namespace r)),
       reg_reconcile = ci_Reconcile E r\<rparr>"

definition ci_SetupWithManager ::
    "manager \<Rightarrow> env \<Rightarrow> compute_instance_reconciler \<Rightarrow> registration list \<Rightarrow> go_error + registration list" where
  "ci_SetupWithManager M E r regs =
     (case mgr_labelSelectorPredicate M [LabelExists cloudkitComputeInstanceNameLabel] of
        Inl e \<Rightarrow> Inl e
      | Inr labelPredicate \<Rightarrow> complete M regs (ci_registration M E r labelPredicate))"

definition tenant_requirements :: "string \<Rightarrow> label_requirement list" where
  "tenant_requirements project =
     [LabelExists cloudkitTenantRefLabel, LabelIn cloudkitProjectRefLabel [project]]"

definition tenant_registration ::
    "env \<Rightarrow> tenant_reconciler \<Rightarrow> (object_meta \<Rightarrow> bool) \<Rightarrow> registration" where
  "tenant_registration E r tenantLabelPredicate =
     \<lparr>reg_name = Some ''tenant'', reg_for = KindTenant,
       reg_predicate = tenantNamespacePredicate (tr_tenantNamespace r),
       reg_watches = watches_of [KindNamespace, KindUserDefinedNetwork] (mapObjectToTenant E r)
         tenantLabelPredicate,
       reg_reconcile = tenant_Reconcile E\<rparr>"

definition tenant_SetupWithManager ::
    "manager \<Rightarrow> env \<Rightarrow> tenant_reconciler \<Rightarrow> registration list \<Rightarrow> go_error + registration list" where
  "tenant_SetupWithManager M E r regs =
     (case mgr_labelSelectorPredicate M (tenant_requirements (tr_tenantNamespace r)) of
        Inl e \<Rightarrow> Inl e
      | Inr tenantLabelPredicate \<Rightarrow> complete M regs (tenant_registration E r tenantLabelPredicate))"

definition cluster_feedback_registration :: "env \<Rightarrow> cluster_feedback_reconciler \<Rightarrow> registration" where
  "cluster_feedback_registration E r =
     \<lparr>reg_name = Some ''clusterorder-feedback'', reg_for = KindClusterOrder,
      reg_predicate = NamespacePredicate (clfr_clusterOrderNamespace r), reg_watches = [],
      reg_reconcile = cluster_feedback_Reconcile E\<rparr>"

definition cluster_feedback_SetupWithManager ::
    "manager \<Rightarrow> env \<Rightarrow> cluster_feedback_reconciler \<Rightarrow> registration list \<Rightarrow> go_error + registration list" where
  "cluster_feedback_SetupWithManager M E r regs = complete M regs (cluster_feedback_registration E r)"

definition pool_feedback_registration :: "env \<Rightarrow> host_pool_feedback_reconciler \<Rightarrow> registration" where
  "pool_feedback_registration E r =
     \<lparr>reg_name = Some ''hostpool-feedback'', reg_for = KindHostPool,
      reg_predicate = HostPoolNamespacePredicate (hpfr_hostPoolNamespace r), reg_watches = [],
      reg_reconcile = pool_feedback_Reconcile E\<rparr>"

definition pool_feedback_SetupWithManager ::
    "manager \<Rightarrow> env \<Rightarrow> host_pool_feedback_reconciler \<Rightarrow> registration list \<Rightarrow> go_error + registration list" where
  "pool_feedback_SetupWithManager M E r regs = complete M regs (pool_feedback_registration E r)"

definition ci_feedback_registration :: "env \<Rightarrow> ci_feedback_reconciler \<Rightarrow> registration" where
  "ci_feedback_registration E r =
     \<lparr>reg_name = Some ''computeinstance-feedback'', reg_for = KindComputeInstance,
      reg_predicate = ci_NamespacePredicate (cifr_computeInstanceNamespace r), reg_watches = [],
      reg_reconcile = ci_feedback_Reconcile E\<rparr>"

definition ci_feedback_SetupWithManager ::
    "manager \<Rightarrow> env \<Rightarrow> ci_feedback_reconciler \<Rightarrow> registration list \<Rightarrow> go_error + registration list" where
  "ci_feedback_SetupWithManager M E r regs = complete M regs (ci_feedback_registration E r)"

section \<open>Which events reach a controller\<close>

lemma complete_Inr [simp]:
  "complete M regs reg = Inr regs' \<longleftrightarrow> mgr_complete M regs reg = None \<and> regs' = regs @ [reg]"
  by (auto simp: complete_def split: option.split)

lemmas setup_defs = co_SetupWithManager_def hp_SetupWithManager_def ci_SetupWithManager_def
  tenant_SetupWithManager_def cluster_feedback_SetupWithManager_def pool_feedback_SetupWithManager_def
  ci_feedback_SetupWithManager_def

lemmas registration_defs = co_registration_def hp_registration_def ci_registration_def
  tenant_registration_def cluster_feedback_registration_def pool_feedback_registration_def
  ci_feedback_registration_def

lemma tenant_requirements_select:
  "selector_law M \<Longrightarrow> mgr_labelSelectorPredicate M (tenant_requirements ns) = Inr (tenantLabelSelector ns)"
  by (auto simp: selector_law_def tenant_requirements_def tenantLabelSelector_def fun_eq_iff
      split: option.split)

end
