(* ===== verification/Operator_Main.thy ===== *)
theory Operator_Main
  imports Manager_Setup
begin

text \<open>
  The program itself: \<open>main\<close>, \<open>createGrpcConn\<close> and \<open>fileTokenSource\<close> of \<open>cmd/main.go\<close>. The
  settings come from the environment and from the command line, which is a parameter that
  overrides the defaults of the flags. The manager, the gRPC client and the file system are
  parameters. \<open>main\<close> ends with the registrations that were served, or with \<open>os.Exit(1)\<close> after
  the message that was logged.
\<close>

section \<open>The connection to the fulfillment service\<close>

datatype transport_credentials = InsecureTransport | TLSWithALPNDisabled bool  \<comment> \<open>\<open>InsecureSkipVerify\<close>\<close>

record grpc_options =
  go_transport :: transport_credentials
  go_tokenFile :: "string option"

definition dial_options :: "bool \<Rightarrow> bool \<Rightarrow> string \<Rightarrow> grpc_options" where
  "dial_options plaintext insecure tokenFile =
     \<lparr>go_transport = (if plaintext then InsecureTransport else TLSWithALPNDisabled insecure),
      go_tokenFile = (if tokenFile \<noteq> [] then Some tokenFile else None)\<rparr>"

definition createGrpcConn ::
    "(string \<Rightarrow> grpc_options \<Rightarrow> go_error + unit) \<Rightarrow> bool \<Rightarrow> bool \<Rightarrow> string \<Rightarrow> string \<Rightarrow> go_error + unit" where
  "createGrpcConn newClient plaintext insecure tokenFile serverAddress =
     newClient serverAddress (dial_options plaintext insecure tokenFile)"

text \<open>
  \<open>strings.TrimSpace\<close>: the UTF-8 encodings of the characters that \<open>unicode.IsSpace\<close> accepts
  are removed at both ends.
\<close>

definition utf8_spaces :: "nat list list" where
  "utf8_spaces =
     [[9], [10], [11], [12], [13], [32], [0xC2, 0x85], [0xC2, 0xA0], [0xE1, 0x9A, 0x80],
      [0xE2, 0x80, 0xA8], [0xE2, 0x80, 0xA9], [0xE2, 0x80, 0xAF], [0xE2, 0x81, 0x9F], [0xE3, 0x80, 0x80]]
     @ map (\<lambda>b. [0xE2, 0x80, b]) [0x80 ..< 0x8B]"

definition spaces :: "string list" where
  "spaces = map (map char_of) utf8_spaces"

text \<open>Removes one member of the list from the front, if there is one.\<close>

definition strip_one :: "string list \<Rightarrow> string \<Rightarrow> string option" where
  "strip_one ps s = (case first_such (\<lambda>p. has_prefix s p) ps of None \<Rightarrow> None | Some p \<Rightarrow> Some (drop (length p) s))"

function strip :: "string list \<Rightarrow> string \<Rightarrow> string" where
  "strip ps s = (case strip_one ps s of None \<Rightarrow> s | Some s' \<Rightarrow> if length s' < length s then strip ps s' else s)"
  by auto
termination by (relation "measure (\<lambda>(ps, s). length s)") auto

declare strip.simps [simp del]

definition trimSpace :: "string \<Rightarrow> string" where
  "trimSpace s = rev (strip (map rev spaces) (rev (strip spaces s)))"

definition fileTokenSource_Token :: "(string \<Rightarrow> string + string) \<Rightarrow> string \<Rightarrow> go_error + string" where
  "fileTokenSource_Token readFile tokenFile =
     (case readFile tokenFile of
        Inl e \<Rightarrow> Inl (Wrap (''failed to read token from file '' @ [CHR 0x27] @ tokenFile @ [CHR 0x27]) (ExtError e))
      | Inr data \<Rightarrow> Inr (trimSpace data))"

section \<open>The settings\<close>

definition envComputeInstanceProvisionWebhook :: string where
  "envComputeInstanceProvisionWebhook = ''CLOUDKIT_COMPUTE_INSTANCE_PROVISION_WEBHOOK''"
definition envComputeInstanceDeprovisionWebhook :: string where
  "envComputeInstanceDeprovisionWebhook = ''CLOUDKIT_COMPUTE_INSTANCE_DEPROVISION_WEBHOOK''"
definition envProvisioningProvider :: string where
  "envProvisioningProvider = ''CLOUDKIT_PROVISIONING_PROVIDER''"
definition envAAPURL :: string where "envAAPURL = ''CLOUDKIT_AAP_URL''"
definition envAAPToken :: string where "envAAPToken = ''CLOUDKIT_AAP_TOKEN''"
definition envAAPProvisionTemplate :: string where
  "envAAPProvisionTemplate = ''CLOUDKIT_AAP_PROVISION_TEMPLATE''"
definition envAAPDeprovisionTemplate :: string where
  "envAAPDeprovisionTemplate = ''CLOUDKIT_AAP_DEPROVISION_TEMPLATE''"

record flags =
  fl_metricsAddr :: string
  fl_probeAddr :: string
  fl_enableLeaderElection :: bool
  fl_secureMetrics :: bool
  fl_enableHTTP2 :: bool
  fl_grpcPlaintext :: bool
  fl_grpcInsecure :: bool
  fl_grpcTokenFile :: string
  fl_fulfillmentServerAddress :: string
  fl_minimumRequestInterval :: duration

definition default_flags :: "go_lib \<Rightarrow> environ \<Rightarrow> flags" where
  "default_flags L getenv =
     \<lparr>fl_metricsAddr = ''0'', fl_probeAddr = '':8081'', fl_enableLeaderElection = False,
      fl_secureMetrics = True, fl_enableHTTP2 = False, fl_grpcPlaintext = False, fl_grpcInsecure = False,
      fl_grpcTokenFile = getenv ''CLOUDKIT_FULFILLMENT_TOKEN_FILE'',
      fl_fulfillmentServerAddress = getenv ''CLOUDKIT_FULFILLMENT_SERVER_ADDRESS'',
      fl_minimumRequestInterval =
        getEnvWithDefault_duration L getenv ''CLOUDKIT_MINIMUM_REQUEST_INTERVAL'' 0\<rparr>"

text \<open>The options of the manager: \<open>None\<close> for the protocols leaves the choice to the TLS package.\<close>

record manager_options =
  mo_nextProtos :: "string list option"
  mo_metricsAddr :: string
  mo_secureServing :: bool
  mo_authenticateMetrics :: bool
  mo_healthProbeAddr :: string
  mo_leaderElection :: bool
  mo_leaderElectionID :: string

definition manager_options_of :: "flags \<Rightarrow> manager_options" where
  "manager_options_of fl =
     \<lparr>mo_nextProtos = (if fl_enableHTTP2 fl then None else Some [''http/1.1'']),
      mo_metricsAddr = fl_metricsAddr fl, mo_secureServing = fl_secureMetrics fl,
      mo_authenticateMetrics = fl_secureMetrics fl, mo_healthProbeAddr = fl_probeAddr fl,
      mo_leaderElection = fl_enableLeaderElection fl, mo_leaderElectionID = ''95f7e044.openshift.io''\<rparr>"

section \<open>main\<close>

text \<open>What \<open>main\<close> calls that is not in the repository.\<close>

record platform =
  pf_parse :: "flags \<Rightarrow> flags"  \<comment> \<open>\<open>flag.Parse\<close> on the command line at hand\<close>
  pf_newManager :: "manager_options \<Rightarrow> go_error + manager"
  pf_newGrpcClient :: "string \<Rightarrow> grpc_options \<Rightarrow> go_error + unit"
  pf_addHealthzCheck :: "go_error option"
  pf_addReadyzCheck :: "go_error option"
  pf_start :: "registration list \<Rightarrow> go_error option"

datatype stop = Exit1 string | Crashed string

text \<open>\<open>if err != nil { setupLog.Error(err, msg); os.Exit(1) }\<close>, before the rest.\<close>

definition or_exit :: "string \<Rightarrow> go_error + 'a \<Rightarrow> ('a \<Rightarrow> stop + 'b) \<Rightarrow> stop + 'b" where
  "or_exit msg x rest = (case x of Inl e \<Rightarrow> Inl (Exit1 msg) | Inr y \<Rightarrow> rest y)"

definition checked :: "go_error option \<Rightarrow> go_error + unit" where
  "checked e = (case e of None \<Rightarrow> Inr () | Some e' \<Rightarrow> Inl e')"

definition setup_feedback ::
    "platform \<Rightarrow> env \<Rightarrow> environ \<Rightarrow> flags \<Rightarrow> manager \<Rightarrow> registration list \<Rightarrow> stop + registration list" where
  "setup_feedback pf E getenv fl M regs =
     (if fl_fulfillmentServerAddress fl \<noteq> [] then
        or_exit ''failed to create gRPC connection to fulfillment service''
          (createGrpcConn (pf_newGrpcClient pf) (fl_grpcPlaintext fl) (fl_grpcInsecure fl) (fl_grpcTokenFile fl)
            (fl_fulfillmentServerAddress fl)) (\<lambda>_.
        or_exit ''unable to create feedback controller''
          (cluster_feedback_SetupWithManager M E
            (newFeedbackReconciler (getenv ''CLOUDKIT_CLUSTER_ORDER_NAMESPACE'')) regs) (\<lambda>regs.
        or_exit ''unable to create hostpool feedback controller''
          (pool_feedback_SetupWithManager M E
            (newHostPoolFeedbackReconciler (getenv ''CLOUDKIT_HOSTPOOL_ORDER_NAMESPACE'')) regs) (\<lambda>regs.
        or_exit ''unable to create computeinstance feedback controller''
          (ci_feedback_SetupWithManager M E
            (newComputeInstanceFeedbackReconciler (getenv ''CLOUDKIT_COMPUTE_INSTANCE_NAMESPACE'')) regs) Inr)))
      else Inr regs)"

text \<open>The reconcilers with the settings \<open>main\<close> gives them.\<close>

definition main_order_reconciler :: "environ \<Rightarrow> flags \<Rightarrow> cluster_order_reconciler" where
  "main_order_reconciler getenv fl =
     newClusterOrderReconciler (getenv ''CLOUDKIT_CLUSTER_CREATE_WEBHOOK'')
       (getenv ''CLOUDKIT_CLUSTER_DELETE_WEBHOOK'') (getenv ''CLOUDKIT_CLUSTER_ORDER_NAMESPACE'')
       (fl_minimumRequestInterval fl)"

definition main_pool_reconciler :: "environ \<Rightarrow> flags \<Rightarrow> host_pool_reconciler" where
  "main_pool_reconciler getenv fl =
     newHostPoolReconciler (getenv ''CLOUDKIT_HOSTPOOL_CREATE_WEBHOOK'')
       (getenv ''CLOUDKIT_HOSTPOOL_DELETE_WEBHOOK'') (getenv ''CLOUDKIT_HOSTPOOL_ORDER_NAMESPACE'')
       (fl_minimumRequestInterval fl)"

definition main_instance_reconciler ::
    "environ \<Rightarrow> provider \<Rightarrow> duration \<Rightarrow> compute_instance_reconciler" where
  "main_instance_reconciler getenv P statusPollInterval =
     newComputeInstanceReconciler (getenv ''CLOUDKIT_COMPUTE_INSTANCE_NAMESPACE'') (Some P) statusPollInterval
       (parseIntEnv getenv envMaxJobHistory DefaultMaxJobHistory)"

definition main_tenant_reconciler :: "environ \<Rightarrow> tenant_reconciler" where
  "main_tenant_reconciler getenv = newTenantReconciler (getenv ''CLOUDKIT_COMPUTE_INSTANCE_NAMESPACE'')"

definition setup_orders ::
    "env \<Rightarrow> environ \<Rightarrow> flags \<Rightarrow> manager \<Rightarrow> registration list \<Rightarrow> stop + registration list" where
  "setup_orders E getenv fl M regs =
     or_exit ''unable to create controller''
       (co_SetupWithManager M E
         (main_order_reconciler getenv fl) regs) (\<lambda>regs.
     or_exit ''unable to create controller''
       (hp_SetupWithManager M E
         (main_pool_reconciler getenv fl) regs) Inr)"

definition provider_type :: "environ \<Rightarrow> string" where
  "provider_type getenv =
     (if getenv envProvisioningProvider = [] then ProviderTypeEDA else getenv envProvisioningProvider)"

definition provider_settings_of :: "environ \<Rightarrow> flags \<Rightarrow> provider_settings" where
  "provider_settings_of getenv fl =
     \<lparr>pset_provisionWebhook = getenv envComputeInstanceProvisionWebhook,
      pset_deprovisionWebhook = getenv envComputeInstanceDeprovisionWebhook,
      pset_aapURL = getenv envAAPURL, pset_aapToken = getenv envAAPToken,
      pset_provisionTemplate = getenv envAAPProvisionTemplate,
      pset_deprovisionTemplate = getenv envAAPDeprovisionTemplate,
      pset_minimumRequestInterval = fl_minimumRequestInterval fl\<rparr>"

definition setup_instances ::
    "env \<Rightarrow> environ \<Rightarrow> flags \<Rightarrow> manager \<Rightarrow> registration list \<Rightarrow> stop + registration list" where
  "setup_instances E getenv fl M regs =
     (case createProvider E getenv (provider_type getenv) (provider_settings_of getenv fl) of
        Panic s \<Rightarrow> Inl (Crashed s)
      | Error e \<Rightarrow> Inl (Exit1 ''failed to create provisioning provider'')
      | Ok (P, statusPollInterval) \<Rightarrow>
          or_exit ''unable to create controller''
            (ci_SetupWithManager M E
              (main_instance_reconciler getenv P statusPollInterval) regs) (\<lambda>regs.
          or_exit ''unable to create controller''
            (tenant_SetupWithManager M E
              (main_tenant_reconciler getenv) regs) Inr))"

definition setup_controllers ::
    "platform \<Rightarrow> env \<Rightarrow> environ \<Rightarrow> flags \<Rightarrow> manager \<Rightarrow> stop + registration list" where
  "setup_controllers pf E getenv fl M =
     (case setup_feedback pf E getenv fl M [] of
        Inl s \<Rightarrow> Inl s
      | Inr regs \<Rightarrow>
          (case setup_orders E getenv fl M regs of
             Inl s \<Rightarrow> Inl s
           | Inr regs \<Rightarrow> setup_instances E getenv fl M regs))"

definition operator_main :: "platform \<Rightarrow> env \<Rightarrow> environ \<Rightarrow> stop + registration list" where
  "operator_main pf E getenv =
     (let fl = pf_parse pf (default_flags (lib E) getenv)
      in or_exit ''unable to start manager'' (pf_newManager pf (manager_options_of fl)) (\<lambda>M.
         case setup_controllers pf E getenv fl M of
           Inl s \<Rightarrow> Inl s
         | Inr regs \<Rightarrow>
             or_exit ''unable to set up health check'' (checked (pf_addHealthzCheck pf)) (\<lambda>_.
             or_exit ''unable to set up ready check'' (checked (pf_addReadyzCheck pf)) (\<lambda>_.
             or_exit ''problem running manager'' (checked (pf_start pf regs)) (\<lambda>_. Inr regs)))))"

section \<open>What is registered\<close>

lemma case_sum_Inr: "(case x of Inl s \<Rightarrow> Inl s | Inr y \<Rightarrow> f y) = Inr z \<longleftrightarrow> (\<exists>y. x = Inr y \<and> f y = Inr z)"
  by (cases x) auto

lemma or_exit_Inr: "or_exit msg x f = Inr y \<longleftrightarrow> (\<exists>z. x = Inr z \<and> f z = Inr y)"
  by (auto simp: or_exit_def split: sum.split)

definition feedback_registrations :: "env \<Rightarrow> environ \<Rightarrow> registration list" where
  "feedback_registrations E getenv =
     [cluster_feedback_registration E (newFeedbackReconciler (getenv ''CLOUDKIT_CLUSTER_ORDER_NAMESPACE'')),
      pool_feedback_registration E (newHostPoolFeedbackReconciler (getenv ''CLOUDKIT_HOSTPOOL_ORDER_NAMESPACE'')),
      ci_feedback_registration E
        (newComputeInstanceFeedbackReconciler (getenv ''CLOUDKIT_COMPUTE_INSTANCE_NAMESPACE''))]"

lemma setup_feedback_Inr:
  "setup_feedback pf E getenv fl M regs = Inr regs' \<Longrightarrow>
   regs' = regs @ (if fl_fulfillmentServerAddress fl \<noteq> [] then feedback_registrations E getenv else [])"
  by (auto simp: setup_feedback_def or_exit_Inr setup_defs feedback_registrations_def split: if_splits)

lemma setup_orders_Inr:
  assumes "setup_orders E getenv fl M regs = Inr regs'"
  obtains p q where "regs' = regs @
      [co_registration E (main_order_reconciler getenv fl) p,
       hp_registration E (main_pool_reconciler getenv fl) q]"
  using assms by (auto simp: setup_orders_def or_exit_Inr setup_defs split: sum.splits)

lemma setup_instances_Inr:
  assumes "setup_instances E getenv fl M regs = Inr regs'"
  obtains P i p q where
    "createProvider E getenv (provider_type getenv) (provider_settings_of getenv fl) = Ok (P, i)"
    "regs' = regs @
      [ci_registration M E (main_instance_reconciler getenv P i) p,
       tenant_registration E (main_tenant_reconciler getenv) q]"
  using assms by (auto simp: setup_instances_def or_exit_Inr setup_defs split: sum.splits res.splits)

text \<open>What a successful start has registered, in order.\<close>

lemma operator_main_Inr:
  assumes "operator_main pf E getenv = Inr regs"
  obtains fl M P i p q p' q' where
    "fl = pf_parse pf (default_flags (lib E) getenv)"
    "createProvider E getenv (provider_type getenv) (provider_settings_of getenv fl) = Ok (P, i)"
    "regs = (if fl_fulfillmentServerAddress fl \<noteq> [] then feedback_registrations E getenv else []) @
      [co_registration E (main_order_reconciler getenv fl) p,
       hp_registration E (main_pool_reconciler getenv fl) q,
       ci_registration M E (main_instance_reconciler getenv P i) p',
       tenant_registration E (main_tenant_reconciler getenv) q']"
proof -
  let ?fl = "pf_parse pf (default_flags (lib E) getenv)"
  from assms obtain M where "setup_controllers pf E getenv ?fl M = Inr regs"
    by (auto simp: operator_main_def Let_def or_exit_Inr case_sum_Inr)
  then obtain r1 r2 where steps: "setup_feedback pf E getenv ?fl M [] = Inr r1"
      "setup_orders E getenv ?fl M r1 = Inr r2" "setup_instances E getenv ?fl M r2 = Inr regs"
    by (auto simp: setup_controllers_def case_sum_Inr)
  note r1 = setup_feedback_Inr [OF steps(1)]
  obtain p q where r2: "r2 = r1 @
      [co_registration E (main_order_reconciler getenv ?fl) p,
       hp_registration E (main_pool_reconciler getenv ?fl) q]"
    by (rule setup_orders_Inr [OF steps(2)])
  obtain P i p' q' where
    P: "createProvider E getenv (provider_type getenv) (provider_settings_of getenv ?fl) = Ok (P, i)" and
    r3: "regs = r2 @
      [ci_registration M E (main_instance_reconciler getenv P i) p',
       tenant_registration E (main_tenant_reconciler getenv) q']"
    by (rule setup_instances_Inr [OF steps(3)])
  show thesis
    by (rule that [OF refl P]) (simp add: r1 r2 r3)
qed

section \<open>A platform for the examples\<close>

text \<open>Every call of \<open>main\<close> succeeds, and no flag is set on the command line.\<close>

definition sample_manager :: manager where
  "sample_manager =
     \<lparr>mgr_labelSelectorPredicate = (\<lambda>rs. Inr (\<lambda>m. list_all (meets_requirement m) rs)),
      mgr_requestForOwner = (\<lambda>k m. []), mgr_complete = (\<lambda>regs reg. None)\<rparr>"

definition sample_platform :: platform where
  "sample_platform =
     \<lparr>pf_parse = id, pf_newManager = (\<lambda>os. Inr sample_manager), pf_newGrpcClient = (\<lambda>a os. Inr ()),
      pf_addHealthzCheck = None, pf_addReadyzCheck = None, pf_start = (\<lambda>regs. None)\<rparr>"

text \<open>Only the provider and the address of the fulfillment service are configured.\<close>

definition sample_environ :: environ where
  "sample_environ v =
     (if v = envProvisioningProvider then ProviderTypeAAP
      else if v = ''CLOUDKIT_FULFILLMENT_SERVER_ADDRESS'' then ''f:8000'' else [])"

lemma selector_law_sample: "selector_law sample_manager"
  by (simp add: selector_law_def sample_manager_def)

lemma sample_main:
  obtains regs where "operator_main sample_platform ref_env sample_environ = Inr regs"
proof -
  have "provider_type sample_environ = ProviderTypeAAP"
    by (simp add: provider_type_def sample_environ_def ProviderTypeAAP_def)
  then have "\<exists>regs. operator_main sample_platform ref_env sample_environ = Inr regs"
    by (simp add: operator_main_def Let_def or_exit_Inr case_sum_Inr setup_controllers_def setup_feedback_def
        setup_orders_def setup_instances_def createProvider_aap setup_defs sample_platform_def sample_manager_def
        createGrpcConn_def checked_def)
  then show thesis using that by blast
qed

section \<open>Properties\<close>

text \<open>C26: whatever the environment and the command line say, a program that has started has
  registered its controllers in a fixed order, the feedback controllers only when the address
  of the fulfillment service is set; the controller of compute instances has a provider that
  keeps the contract, a positive job history and a poll interval that is not zero.\<close>

theorem main_controllers:
  assumes "operator_main pf E getenv = Inr regs"
  shows "map reg_for regs =
      (if fl_fulfillmentServerAddress (pf_parse pf (default_flags (lib E) getenv)) \<noteq> []
       then [KindClusterOrder, KindHostPool, KindComputeInstance] else []) @
      [KindClusterOrder, KindHostPool, KindComputeInstance, KindTenant] \<and>
    (\<exists>P r reg. reg \<in> set regs \<and> reg_reconcile reg = ci_Reconcile E r \<and>
       reg_predicate reg = ci_NamespacePredicate (cir_namespace r) \<and>
       cir_provider r = Some P \<and> provisioning_provider P \<and>
       1 \<le> cir_maxJobHistory r \<and> cir_statusPollInterval r \<noteq> 0 \<and> cir_namespace r \<noteq> [])"
proof -
  from assms obtain fl M P i p q p' q' where
    fl: "fl = pf_parse pf (default_flags (lib E) getenv)" and
    P: "createProvider E getenv (provider_type getenv) (provider_settings_of getenv fl) = Ok (P, i)" and
    regs: "regs = (if fl_fulfillmentServerAddress fl \<noteq> [] then feedback_registrations E getenv else []) @
      [co_registration E (main_order_reconciler getenv fl) p,
       hp_registration E (main_pool_reconciler getenv fl) q,
       ci_registration M E (main_instance_reconciler getenv P i) p',
       tenant_registration E (main_tenant_reconciler getenv) q']"
    by (rule operator_main_Inr)
  let ?r = "main_instance_reconciler getenv P i"
  have "cir_provider ?r = Some P" "1 \<le> cir_maxJobHistory ?r" "cir_statusPollInterval ?r \<noteq> 0" "cir_namespace ?r \<noteq> []"
    by (simp_all add: main_instance_reconciler_def newComputeInstanceReconciler_def second_def
        DefaultMaxJobHistory_def defaultComputeInstanceNamespace_def)
  moreover have "ci_registration M E ?r p' \<in> set regs"
    by (simp add: regs)
  moreover have "provisioning_provider P"
    by (rule createProvider_contract [OF P])
  moreover have "map reg_for regs = (if fl_fulfillmentServerAddress fl \<noteq> []
      then [KindClusterOrder, KindHostPool, KindComputeInstance] else []) @
      [KindClusterOrder, KindHostPool, KindComputeInstance, KindTenant]"
    by (simp add: regs feedback_registrations_def registration_defs)
  ultimately show ?thesis
    unfolding fl by (intro conjI exI [of _ P] exI [of _ ?r] exI [of _ "ci_registration M E ?r p'"])
      (simp_all add: ci_registration_def)
qed

theorem main_controllers_witness:
  "\<exists>regs. operator_main sample_platform ref_env sample_environ = Inr regs \<and> map reg_for regs =
      [KindClusterOrder, KindHostPool, KindComputeInstance, KindClusterOrder, KindHostPool, KindComputeInstance, KindTenant]"
proof (rule sample_main)
  fix regs
  assume run: "operator_main sample_platform ref_env sample_environ = Inr regs"
  have "fl_fulfillmentServerAddress (pf_parse sample_platform (default_flags (lib ref_env) sample_environ)) \<noteq> []"
    by (simp add: sample_platform_def default_flags_def sample_environ_def envProvisioningProvider_def)
  with run main_controllers [OF run] show ?thesis by auto
qed

text \<open>The controller of compute instances accepts what lives in its namespace.\<close>

lemma main_registers_instances:
  assumes "operator_main pf E getenv = Inr regs"
  shows "\<exists>reg \<in> set regs. reg_for reg = KindComputeInstance \<and> reg_name reg = None \<and>
    (\<forall>m. reg_predicate reg m \<longleftrightarrow> om_namespace m =
       (if getenv ''CLOUDKIT_COMPUTE_INSTANCE_NAMESPACE'' = [] then defaultComputeInstanceNamespace
        else getenv ''CLOUDKIT_COMPUTE_INSTANCE_NAMESPACE''))"
  using assms by (rule operator_main_Inr)
    (auto simp: registration_defs ci_NamespacePredicate_def main_instance_reconciler_def
      newComputeInstanceReconciler_def)

text \<open>The tenant the controller asks for lives in the namespace of the instance.\<close>

lemma createOrUpdateTenant_namespace:
  assumes "run_state (ci_createOrUpdateTenant E ci) w = (x, w')" "trace w' = es @ trace w"
    "EvFetch (KTenant t) \<in> set es"
  shows "om_namespace (tn_meta t) = om_namespace (ci_meta ci)"
proof -
  let ?Q = "\<lambda>e. \<forall>t. e = EvFetch (KTenant t) \<longrightarrow> om_namespace (tn_meta t) = om_namespace (ci_meta ci)"
  have "footprint ?Q (ci_createOrUpdateTenant E ci)"
    unfolding ci_createOrUpdateTenant_def by (intro fp_intros) (simp_all add: new_tenant_def new_meta_def)
  from footprintD [OF this assms(1)] obtain es' where "trace w' = es' @ trace w" "\<forall>e \<in> set es'. ?Q e"
    by blast
  with assms(2,3) show ?thesis by auto
qed

text \<open>C27: the controllers of compute instances and of tenants agree on a namespace only when one
  is configured. Take an instance that the registered controller accepts, and a tenant that
  the controller asks for on behalf of it: that tenant reaches the tenant controller exactly
  when \<open>CLOUDKIT_COMPUTE_INSTANCE_NAMESPACE\<close> is set. With the variable unset, the instance
  controller works in its default namespace and no tenant it creates is ever reconciled.\<close>

theorem tenants_need_namespace:
  assumes "operator_main pf E getenv = Inr regs"
    and "reg \<in> set regs" "reg_for reg = KindComputeInstance" "reg_name reg = None"
    and "reg_predicate reg (ci_meta ci)"
    and "run_state (ci_createOrUpdateTenant E ci) w = (x, w')" "trace w' = es @ trace w"
      "EvFetch (KTenant t) \<in> set es"
  shows "(\<exists>reg' \<in> set regs. reg_for reg' = KindTenant \<and> reg_predicate reg' (tn_meta t)) \<longleftrightarrow>
    getenv ''CLOUDKIT_COMPUTE_INSTANCE_NAMESPACE'' \<noteq> []"
proof -
  from assms(1) obtain fl M P i p q p' q' where
    regs: "regs = (if fl_fulfillmentServerAddress fl \<noteq> [] then feedback_registrations E getenv else []) @
      [co_registration E (main_order_reconciler getenv fl) p,
       hp_registration E (main_pool_reconciler getenv fl) q,
       ci_registration M E (main_instance_reconciler getenv P i) p',
       tenant_registration E (main_tenant_reconciler getenv) q']"
    by (rule operator_main_Inr)
  let ?ns = "getenv ''CLOUDKIT_COMPUTE_INSTANCE_NAMESPACE''"
  have "reg = ci_registration M E (main_instance_reconciler getenv P i) p'"
    using assms(2-4) by (auto simp: regs feedback_registrations_def registration_defs split: if_splits)
  with assms(5) have "om_namespace (ci_meta ci) = (if ?ns = [] then defaultComputeInstanceNamespace else ?ns)"
    by (simp add: ci_registration_def ci_NamespacePredicate_def main_instance_reconciler_def
        newComputeInstanceReconciler_def)
  with createOrUpdateTenant_namespace [OF assms(6-8)]
  have "om_namespace (tn_meta t) = ?ns \<longleftrightarrow> ?ns \<noteq> []"
    by (simp add: defaultComputeInstanceNamespace_def)
  moreover have "(\<exists>reg' \<in> set regs. reg_for reg' = KindTenant \<and> reg_predicate reg' (tn_meta t)) \<longleftrightarrow>
      om_namespace (tn_meta t) = ?ns"
    by (auto simp: regs feedback_registrations_def registration_defs tenantNamespacePredicate_def
        main_tenant_reconciler_def newTenantReconciler_def)
  ultimately show ?thesis by simp
qed

definition owned_ci :: compute_instance where
  "owned_ci = sample_ci\<lparr>ci_meta := (new_meta ''x'' defaultComputeInstanceNamespace Map.empty)
     \<lparr>om_annotations := [cloudkitTenantAnnotation \<mapsto> ''acme'']\<rparr>\<rparr>"

theorem tenants_need_namespace_witness:
  "\<exists>regs. operator_main sample_platform ref_env sample_environ = Inr regs \<and>
     \<not> (\<exists>reg' \<in> set regs. reg_for reg' = KindTenant \<and>
       reg_predicate reg' (tn_meta (new_tenant ''acme'' defaultComputeInstanceNamespace)))"
proof (rule sample_main)
  fix regs
  assume run: "operator_main sample_platform ref_env sample_environ = Inr regs"
  from main_registers_instances [OF run] obtain reg where reg: "reg \<in> set regs" "reg_for reg = KindComputeInstance"
      "reg_name reg = None" "reg_predicate reg (ci_meta owned_ci)"
    by (auto simp: sample_environ_def envProvisioningProvider_def owned_ci_def new_meta_def)
  let ?out = "run_state (ci_createOrUpdateTenant ref_env owned_ci) empty_world"
  have asked: "EvFetch (KTenant (new_tenant ''acme'' defaultComputeInstanceNamespace)) \<in> set (trace (snd ?out))"
    by (simp add: ci_createOrUpdateTenant_def owned_ci_def sample_ci_def new_meta_def createOrUpdate_def
        State_Monad.return_def split_beta ref_kube_def ref_lib_def)
  have "trace (snd ?out) = trace (snd ?out) @ trace empty_world" by simp
  from tenants_need_namespace [OF run reg surjective_pairing this asked] run show ?thesis
    by (auto simp: sample_environ_def envProvisioningProvider_def)
qed

text \<open>The variable that names the namespace of a kind.\<close>

definition namespace_variable :: "kind \<Rightarrow> string" where
  "namespace_variable k =
     (case k of KindClusterOrder \<Rightarrow> ''CLOUDKIT_CLUSTER_ORDER_NAMESPACE''
      | KindHostPool \<Rightarrow> ''CLOUDKIT_HOSTPOOL_ORDER_NAMESPACE''
      | _ \<Rightarrow> ''CLOUDKIT_COMPUTE_INSTANCE_NAMESPACE'')"

lemma feedback_accepts:
  "(\<exists>reg' \<in> set (feedback_registrations E getenv). reg_for reg' = k \<and> reg_name reg' \<noteq> None \<and> reg_predicate reg' m) \<longleftrightarrow>
     k \<in> {KindClusterOrder, KindHostPool, KindComputeInstance} \<and> om_namespace m = getenv (namespace_variable k)"
  by (cases k) (simp_all add: feedback_registrations_def cluster_feedback_registration_def
      pool_feedback_registration_def ci_feedback_registration_def namespace_variable_def newFeedbackReconciler_def
      newHostPoolFeedbackReconciler_def newComputeInstanceFeedbackReconciler_def NamespacePredicate_def
      HostPoolNamespacePredicate_def ci_NamespacePredicate_def)

text \<open>The feedback controllers and the controllers of orders, pools and instances read the same
  variables, but only the latter replace an empty namespace by a default. For each of the
  three kinds, an object that its controller accepts reaches a feedback controller exactly
  when the address of the fulfillment service and the namespace of the kind are both set.\<close>

theorem feedback_needs_namespace:
  assumes "operator_main pf E getenv = Inr regs"
    and "k \<in> {KindClusterOrder, KindHostPool, KindComputeInstance}"
    and "reg \<in> set regs" "reg_for reg = k" "reg_name reg = None" "reg_predicate reg m"
  shows "(\<exists>reg' \<in> set regs. reg_for reg' = k \<and> reg_name reg' \<noteq> None \<and> reg_predicate reg' m) \<longleftrightarrow>
    fl_fulfillmentServerAddress (pf_parse pf (default_flags (lib E) getenv)) \<noteq> [] \<and>
    getenv (namespace_variable k) \<noteq> []"
proof -
  from assms(1) obtain fl M P i p q p' q' where
    fl: "fl = pf_parse pf (default_flags (lib E) getenv)" and
    regs: "regs = (if fl_fulfillmentServerAddress fl \<noteq> [] then feedback_registrations E getenv else []) @
      [co_registration E (main_order_reconciler getenv fl) p,
       hp_registration E (main_pool_reconciler getenv fl) q,
       ci_registration M E (main_instance_reconciler getenv P i) p',
       tenant_registration E (main_tenant_reconciler getenv) q']"
    by (rule operator_main_Inr)
  consider "k = KindClusterOrder" | "k = KindHostPool" | "k = KindComputeInstance" using assms(2) by blast
  then have "om_namespace m = (if getenv (namespace_variable k) \<noteq> [] then getenv (namespace_variable k) else
      if k = KindClusterOrder then defaultClusterOrderNamespace else if k = KindHostPool then defaultHostPoolNamespace
      else defaultComputeInstanceNamespace)"
  proof cases
    case 1
    with assms(3-5) have "reg = co_registration E (main_order_reconciler getenv fl) p"
      by (auto simp: regs feedback_registrations_def registration_defs split: if_splits)
    with 1 assms(6) show ?thesis by (auto simp: namespace_variable_def co_registration_def NamespacePredicate_def
        main_order_reconciler_def newClusterOrderReconciler_def)
  next
    case 2
    with assms(3-5) have "reg = hp_registration E (main_pool_reconciler getenv fl) q"
      by (auto simp: regs feedback_registrations_def registration_defs split: if_splits)
    with 2 assms(6) show ?thesis by (auto simp: namespace_variable_def hp_registration_def
        HostPoolNamespacePredicate_def main_pool_reconciler_def newHostPoolReconciler_def)
  next
    case 3
    with assms(3-5) have "reg = ci_registration M E (main_instance_reconciler getenv P i) p'"
      by (auto simp: regs feedback_registrations_def registration_defs split: if_splits)
    with 3 assms(6) show ?thesis by (auto simp: namespace_variable_def ci_registration_def
        ci_NamespacePredicate_def main_instance_reconciler_def newComputeInstanceReconciler_def)
  qed
  then have "om_namespace m = getenv (namespace_variable k) \<longleftrightarrow> getenv (namespace_variable k) \<noteq> []"
    by (cases "getenv (namespace_variable k) = []")
      (simp_all add: defaultClusterOrderNamespace_def defaultHostPoolNamespace_def defaultComputeInstanceNamespace_def)
  moreover have "(\<exists>reg' \<in> set regs. reg_for reg' = k \<and> reg_name reg' \<noteq> None \<and> reg_predicate reg' m) \<longleftrightarrow>
      fl_fulfillmentServerAddress fl \<noteq> [] \<and> om_namespace m = getenv (namespace_variable k)"
    using assms(2) feedback_accepts [of E getenv k m]
    by (cases "fl_fulfillmentServerAddress fl = []")
      (simp_all add: regs bex_Un co_registration_def hp_registration_def ci_registration_def tenant_registration_def,
       auto)
  ultimately show ?thesis unfolding fl by auto
qed

theorem feedback_needs_namespace_witness:
  "\<exists>regs. operator_main sample_platform ref_env sample_environ = Inr regs \<and>
     \<not> (\<exists>reg' \<in> set regs. reg_for reg' = KindComputeInstance \<and> reg_name reg' \<noteq> None \<and>
       reg_predicate reg' (ci_meta owned_ci))"
proof (rule sample_main)
  fix regs
  assume run: "operator_main sample_platform ref_env sample_environ = Inr regs"
  from main_registers_instances [OF run] obtain reg where reg: "reg \<in> set regs" "reg_for reg = KindComputeInstance"
      "reg_name reg = None" "reg_predicate reg (ci_meta owned_ci)"
    by (auto simp: sample_environ_def envProvisioningProvider_def owned_ci_def new_meta_def)
  from feedback_needs_namespace [OF run _ reg] run show ?thesis
    by (auto simp: sample_environ_def envProvisioningProvider_def namespace_variable_def)
qed

section \<open>The token\<close>

lemma strip_one_shorter: "strip_one ps s = Some s' \<Longrightarrow> length s' \<le> length s"
  by (auto simp: strip_one_def split: option.splits)

lemma has_prefix_iff: "has_prefix s p \<longleftrightarrow> (\<exists>u. s = p @ u)"
  by (auto simp: has_prefix_def) (metis append_take_drop_id)

lemma strip_oneD: "strip_one ps s = Some s' \<Longrightarrow> \<exists>p \<in> set ps. s = p @ s'"
  by (auto simp: strip_one_def has_prefix_def split: option.splits dest!: first_such_SomeD)
    (metis append_take_drop_id)

text \<open>Stripping removes members of the list only, and leaves none in front.\<close>

lemma strip_prefix:
  "\<exists>qs. set qs \<subseteq> set ps \<and> s = concat qs @ strip ps s"
proof (induction ps s rule: strip.induct)
  case (1 ps s)
  show ?case
  proof (cases "\<exists>s'. strip_one ps s = Some s' \<and> length s' < length s")
    case True
    then obtain s' p where s': "strip_one ps s = Some s'" "length s' < length s" "p \<in> set ps" "s = p @ s'"
      using strip_oneD by blast
    with 1 obtain qs where "set qs \<subseteq> set ps" "s' = concat qs @ strip ps s'" by blast
    moreover have "strip ps s = strip ps s'" using s'(1,2) by (simp add: strip.simps [of ps s])
    ultimately have "set (p # qs) \<subseteq> set ps" "s = concat (p # qs) @ strip ps s"
      using s'(3,4) by simp_all
    then show ?thesis by blast
  next
    case False
    then have "strip ps s = s" by (auto simp: strip.simps [of ps s] split: option.split)
    then show ?thesis by (intro exI [of _ "[]"]) simp
  qed
qed

lemma strip_stripped:
  assumes "[] \<notin> set ps" "p \<in> set ps"
  shows "\<not> has_prefix (strip ps s) p"
  using assms
proof (induction ps s rule: strip.induct)
  case (1 ps s)
  show ?case
  proof (cases "strip_one ps s")
    case None
    then have "\<not> has_prefix s p" using 1(3) by (auto simp: strip_one_def first_such_None_iff split: option.splits)
    with None show ?thesis by (simp add: strip.simps [of ps s])
  next
    case (Some s')
    then obtain q where "q \<in> set ps" "s = q @ s'"
      using strip_oneD by blast
    with 1(2) have "length s' < length s" by (cases q) auto
    with Some 1 show ?thesis by (simp add: strip.simps [of ps s])
  qed
qed

lemma spaces_nonempty: "[] \<notin> set spaces" "[] \<notin> set (map rev spaces)"
  by (auto simp: spaces_def utf8_spaces_def)

lemma has_prefix_rev: "has_prefix (rev s) (rev p) \<longleftrightarrow> (\<exists>u. s = u @ p)"
  by (metis has_prefix_iff rev_append rev_rev_ident)

text \<open>The token is what the file holds between the spaces at its two ends, all of them; it is
  read again with every call.\<close>

theorem token_trimmed:
  assumes "readFile tokenFile = Inr data"
  shows "\<exists>t qs rs. fileTokenSource_Token readFile tokenFile = Inr t \<and>
    set qs \<subseteq> set spaces \<and> set rs \<subseteq> set spaces \<and> data = concat qs @ t @ concat rs \<and>
    (\<forall>p \<in> set spaces. \<nexists>u. t = p @ u \<or> t = u @ p)"
proof -
  let ?l = "strip spaces data" and ?t = "trimSpace data"
  obtain qs where qs: "set qs \<subseteq> set spaces" "data = concat qs @ ?l"
    using strip_prefix [of spaces data] by blast
  obtain rs where rs: "set rs \<subseteq> set (map rev spaces)" "rev ?l = concat rs @ rev ?t"
    using strip_prefix [of "map rev spaces" "rev ?l"] by (auto simp: trimSpace_def)
  have l: "?l = ?t @ concat (rev (map rev rs))"
    using arg_cong [OF rs(2), of rev] by (simp add: rev_concat rev_map)
  have "set (rev (map rev rs)) \<subseteq> set spaces" using rs(1) by force
  moreover have "\<nexists>u. ?t = p @ u \<or> ?t = u @ p" if "p \<in> set spaces" for p
  proof -
    have "\<not> has_prefix ?l p" by (rule strip_stripped [OF spaces_nonempty(1) that])
    then have "\<nexists>u. ?t = p @ u" using l by (auto simp: has_prefix_iff)
    moreover have "\<not> has_prefix (rev ?t) (rev p)"
      using strip_stripped [OF spaces_nonempty(2), of "rev p" "rev ?l"] that by (simp add: trimSpace_def)
    then have "\<nexists>u. ?t = u @ p" by (simp add: has_prefix_rev)
    ultimately show ?thesis by blast
  qed
  ultimately show ?thesis
    using assms qs l by (intro exI [of _ ?t] exI [of _ qs] exI [of _ "rev (map rev rs)"])
      (simp add: fileTokenSource_Token_def)
qed

end
