(* ===== verification/Teardown.thy ===== *)
theory Teardown
  imports Kube_Client "HOL-Library.Sublist"
begin

text \<open>
  Deletions that go through stages, reconciliation after reconciliation, while others use the
  cluster too. The locale \<open>staged_teardown\<close> is the contract between a reconciler and the theorem
  that its deletion terminates: a round issues some request, and keeps what it knows of its state
  while the finalizer is held; when everything before a stage is gone for good, a round brings
  about that the stage is gone a bounded number of events later, unless it gives up the
  finalizer; and when all stages are gone, a round gives up the finalizer. The reconcilers of
  compute instances (with no stage), tenants, cluster orders and host pools meet it.
\<close>

text \<open>However the history goes on, once \<open>d\<close> more events have happened the object is gone.\<close>

definition gone_after :: "(history \<Rightarrow> bool) \<Rightarrow> nat \<Rightarrow> history \<Rightarrow> bool" where
  "gone_after gone d h \<longleftrightarrow> (\<forall>es. d \<le> length es \<longrightarrow> gone (es @ h))"

lemma gone_after_append: "gone_after gone d h \<Longrightarrow> gone_after gone (d - length es) (es @ h)"
  unfolding gone_after_def
proof (intro allI impI)
  fix fs :: history assume "\<forall>es. d \<le> length es \<longrightarrow> gone (es @ h)" "d - length es \<le> length fs"
  then show "gone (fs @ es @ h)" by (metis append.assoc le_diff_conv length_append)
qed

lemma gone_after_now: "gone_after gone 0 h \<Longrightarrow> gone h"
  unfolding gone_after_def by (metis append_Nil le0)

lemma gone_after_mono: "gone_after gone d h \<Longrightarrow> gone_after gone d (es @ h)"
  unfolding gone_after_def by (metis append.assoc le_add1 length_append order_trans add.commute)

lemma gone_after_weaken: "gone_after gone 0 h \<Longrightarrow> gone_after gone d h"
  by (simp add: gone_after_def)

text \<open>For the reference clusters, in which an object goes two events after it was asked to.\<close>

lemma set_drop_later:
  "x \<in> set (drop n h) \<Longrightarrow> x \<in> set (drop (n - m) h)"
  "x \<in> set h \<Longrightarrow> n \<le> length es \<Longrightarrow> x \<in> set (drop n (es @ h))"
  using set_drop_subset_set_drop [of "n - m" n h] by auto

section \<open>Rounds among other steps\<close>

text \<open>
  From one world to another in \<open>n\<close> rounds of a reconciler, among any number of other steps: the
  other controllers run, and the same one for other objects; events are added, and what the
  reconciler knows of its state stays true.
\<close>

inductive rounds_among ::
    "(world \<Rightarrow> world) \<Rightarrow> (world \<Rightarrow> bool) \<Rightarrow> world \<Rightarrow> nat \<Rightarrow> world \<Rightarrow> bool"
  for round :: "world \<Rightarrow> world" and known :: "world \<Rightarrow> bool" and w0 :: world where
  rounds_start: "rounds_among round known w0 0 w0"
| rounds_other: "rounds_among round known w0 n w \<Longrightarrow> trace w' = es @ trace w \<Longrightarrow> (known w \<longrightarrow> known w') \<Longrightarrow>
    rounds_among round known w0 n w'"
| rounds_round: "rounds_among round known w0 n w \<Longrightarrow> rounds_among round known w0 (Suc n) (round w)"

text \<open>In particular, one round after the other.\<close>

lemma rounds_among_self: "rounds_among round known w n ((round ^^ n) w)"
  by (induction n) (simp_all add: rounds_start rounds_round)

text \<open>The same as sequences: the \<open>n\<close>-th round starts in \<open>v n\<close> and ends in \<open>u (Suc n)\<close>.\<close>

definition round_sequence ::
    "(world \<Rightarrow> world) \<Rightarrow> (world \<Rightarrow> bool) \<Rightarrow> nat \<Rightarrow> (nat \<Rightarrow> world) \<Rightarrow> (nat \<Rightarrow> world) \<Rightarrow> bool" where
  "round_sequence round known M v u \<longleftrightarrow>
     (\<forall>n < M. (\<exists>es. trace (v n) = es @ trace (u n)) \<and> (known (u n) \<longrightarrow> known (v n)) \<and> u (Suc n) = round (v n))"

lemma rounds_among_sequence:
  assumes "rounds_among round known w0 M w"
  obtains v u es where "round_sequence round known M v u" "u 0 = w0" "trace w = es @ trace (u M)"
    "known (u M) \<Longrightarrow> known w"
  using assms
proof (induction arbitrary: thesis)
  case rounds_start
  show ?case by (rule rounds_start [of _ "\<lambda>n. w0" "[]"]) (simp_all add: round_sequence_def)
next
  case (rounds_other n w w' es)
  from rounds_other.IH obtain v u es' where "round_sequence round known n v u" "u 0 = w0"
      "trace w = es' @ trace (u n)" "known (u n) \<Longrightarrow> known w" by blast
  with rounds_other.hyps rounds_other.prems [of v u "es @ es'"] show ?case by simp
next
  case (rounds_round n w)
  from rounds_round.IH obtain v u es where seq: "round_sequence round known n v u" "u 0 = w0"
      "trace w = es @ trace (u n)" "known (u n) \<Longrightarrow> known w" by blast
  let ?v = "v(n := w)" and ?u = "u(Suc n := round w)"
  have "round_sequence round known (Suc n) ?v ?u"
    using seq unfolding round_sequence_def by (auto simp: less_Suc_eq)
  then show ?case by (rule rounds_round.prems [where es = "[]"]) (simp_all add: seq(2))
qed

text \<open>A reconciler first reads its object.\<close>

lemma grows_after_get:
  assumes "\<And>x. footprint (\<lambda>e. True) (k x)"
  shows "\<exists>es. trace (snd (run_state (State_Monad.bind (request e f) k) w)) = es @ trace w \<and> es \<noteq> []"
proof -
  let ?w = "w\<lparr>trace := e # trace w\<rparr>"
  obtain es where "trace (snd (run_state (k (f (trace w))) ?w)) = es @ trace ?w"
    using assms [of "f (trace w)"] unfolding footprint_def by metis
  then show ?thesis by (intro exI [of _ "es @ [e]"]) simp
qed

section \<open>What an operation keeps\<close>

definition keeps :: "(world \<Rightarrow> bool) \<Rightarrow> 'a act \<Rightarrow> bool" where
  "keeps I m \<longleftrightarrow> triple I m (\<lambda>x. I)"

named_theorems keep_intros \<open>what operations keep\<close>

lemma keepsD: "keeps I m \<Longrightarrow> I w \<Longrightarrow> I (snd (run_state m w))"
  by (simp add: keeps_def triple_def)

lemma keeps_bind [keep_intros]: "keeps I m \<Longrightarrow> (\<And>x. keeps I (f x)) \<Longrightarrow> keeps I (State_Monad.bind m f)"
  unfolding keeps_def by (rule triple_bind)

lemma keeps_return [keep_intros]: "keeps I (State_Monad.return x)"
  unfolding keeps_def by (rule triple_return)

lemma keeps_request [keep_intros]: "(\<And>w. I w \<Longrightarrow> I (w\<lparr>trace := e # trace w\<rparr>)) \<Longrightarrow> keeps I (request e f)"
  unfolding keeps_def by (rule triple_request)

lemma keeps_if [keep_intros]: "(b \<Longrightarrow> keeps I m) \<Longrightarrow> (\<not> b \<Longrightarrow> keeps I n) \<Longrightarrow> keeps I (if b then m else n)"
  by simp

lemma keeps_option [keep_intros]:
  "(x = None \<Longrightarrow> keeps I m) \<Longrightarrow> (\<And>y. x = Some y \<Longrightarrow> keeps I (f y)) \<Longrightarrow>
   keeps I (case x of None \<Rightarrow> m | Some y \<Rightarrow> f y)"
  by (cases x) simp_all

lemma keeps_sum [keep_intros]:
  "(\<And>y. x = Inl y \<Longrightarrow> keeps I (f y)) \<Longrightarrow> (\<And>y. x = Inr y \<Longrightarrow> keeps I (g y)) \<Longrightarrow>
   keeps I (case x of Inl y \<Rightarrow> f y | Inr y \<Rightarrow> g y)"
  by (cases x) simp_all

lemma keeps_prod [keep_intros]:
  "(\<And>a b. x = (a, b) \<Longrightarrow> keeps I (f a b)) \<Longrightarrow> keeps I (case x of (a, b) \<Rightarrow> f a b)"
  by (cases x) simp

lemma keeps_outcome [keep_intros]:
  "(\<And>a b c. x = Done a b c \<Longrightarrow> keeps I (f a b c)) \<Longrightarrow> (\<And>s. x = Panicked s \<Longrightarrow> keeps I (g s)) \<Longrightarrow>
   keeps I (case x of Done a b c \<Rightarrow> f a b c | Panicked s \<Rightarrow> g s)"
  by (cases x) simp_all

lemma keeps_list [keep_intros]:
  "(x = [] \<Longrightarrow> keeps I m) \<Longrightarrow> (\<And>y ys. x = y # ys \<Longrightarrow> keeps I (f y ys)) \<Longrightarrow>
   keeps I (case x of [] \<Rightarrow> m | y # ys \<Rightarrow> f y ys)"
  by (cases x) simp_all

lemma keeps_res [keep_intros]:
  "(\<And>y. x = Ok y \<Longrightarrow> keeps I (f y)) \<Longrightarrow> (\<And>e. x = Error e \<Longrightarrow> keeps I (g e)) \<Longrightarrow>
   (\<And>s. x = Panic s \<Longrightarrow> keeps I (h s)) \<Longrightarrow>
   keeps I (case x of Ok y \<Rightarrow> f y | Error e \<Rightarrow> g e | Panic s \<Rightarrow> h s)"
  by (cases x) simp_all

text \<open>When what comes next depends on what was found.\<close>

lemma keeps_bind_run:
  "keeps I m \<Longrightarrow> (\<And>w. I w \<Longrightarrow> keeps I (f (fst (run_state m w)))) \<Longrightarrow> keeps I (State_Monad.bind m f)"
  unfolding keeps_def triple_def by (simp add: split_beta)

section \<open>Termination\<close>

locale staged_teardown =
  fixes round :: "world \<Rightarrow> world"
    and known :: "world \<Rightarrow> bool"
    and over :: "history \<Rightarrow> bool"
    and stages :: "(history \<Rightarrow> bool) list"
    and N d :: nat
  assumes round_grows: "\<exists>es. trace (round w) = es @ trace w \<and> es \<noteq> []"
    and over_later: "over h \<Longrightarrow> over (es @ h)"
    and round_known: "known w \<Longrightarrow> \<not> over (trace w) \<Longrightarrow> \<not> over (trace (round w)) \<Longrightarrow> known (round w)"
    and stage_ends: "known w \<Longrightarrow> \<not> over (trace w) \<Longrightarrow> N \<le> length (trace w) \<Longrightarrow> i < length stages \<Longrightarrow>
      (\<And>j. j < i \<Longrightarrow> gone_after (stages ! j) 0 (trace w)) \<Longrightarrow>
      over (trace (round w)) \<or> gone_after (stages ! i) d (trace (round w))"
    and all_gone: "known w \<Longrightarrow> \<not> over (trace w) \<Longrightarrow> N \<le> length (trace w) \<Longrightarrow>
      (\<And>j. j < length stages \<Longrightarrow> gone_after (stages ! j) 0 (trace w)) \<Longrightarrow> over (trace (round w))"
begin

lemma steps:
  assumes "round_sequence round known M v w" "n < M"
  obtains es where "trace (v n) = es @ trace (w n)" "known (w n) \<Longrightarrow> known (v n)" "w (Suc n) = round (v n)"
  using assms unfolding round_sequence_def by blast

lemma rounds_grow:
  assumes run: "round_sequence round known M v w"
  shows "n + m \<le> M \<Longrightarrow> \<exists>es. trace (w (n + m)) = es @ trace (w n) \<and> m \<le> length es"
proof (induction m)
  case (Suc m)
  obtain es where es: "trace (w (n + m)) = es @ trace (w n)" "m \<le> length es" using Suc by auto
  have "n + m < M" using Suc.prems by simp
  from steps [OF run this] obtain fs where fs: "trace (v (n + m)) = fs @ trace (w (n + m))" "w (Suc (n + m)) = round (v (n + m))"
    by metis
  obtain gs where "trace (round (v (n + m))) = gs @ trace (v (n + m))" "gs \<noteq> []"
    using round_grows by blast
  then show ?case using es fs by (intro exI [of _ "gs @ fs @ es"]) (cases gs, auto)
qed simp

text \<open>While the finalizer is held at the end, it was held all along.\<close>

lemma alive_before:
  assumes run: "round_sequence round known M v w" and over: "\<not> over (trace (w M))"
  shows "n \<le> M \<Longrightarrow> \<not> over (trace (w n))" "n < M \<Longrightarrow> \<not> over (trace (v n))"
proof -
  show w: "\<not> over (trace (w n))" if "n \<le> M" for n
    using rounds_grow [OF run, of n "M - n"] that over over_later by force
  show "\<not> over (trace (v n))" if n: "n < M"
  proof -
    obtain es where "w (Suc n) = round (v n)" "trace (round (v n)) = es @ trace (v n)"
      using steps [OF run n] round_grows by metis
    then show ?thesis using w [of "Suc n"] n over_later by (metis Suc_leI)
  qed
qed

lemma rounds_known:
  assumes run: "round_sequence round known M v w" and over: "\<not> over (trace (w M))" and start: "known (w 0)"
  shows "n \<le> M \<Longrightarrow> known (w n)"
proof (induction n)
  case (Suc n)
  then have n: "n < M" and "known (w n)" by simp_all
  with steps [OF run n] have "known (v n)" "w (Suc n) = round (v n)" by metis+
  then show ?case
    using round_known [of "v n"] alive_before [OF run over] n by (metis Suc_leI)
qed (simp add: start)

lemma stage_done:
  assumes run: "round_sequence round known M v w" and over: "\<not> over (trace (w M))" and start: "known (w 0)"
    and i: "i \<le> length stages" and M: "N + i * (d + 1) \<le> M" and j: "j < i"
  shows "gone_after (stages ! j) 0 (trace (w (N + i * (d + 1))))"
  using i M j
proof (induction i arbitrary: j)
  case (Suc i)
  let ?n = "N + i * (d + 1)"
  have n: "N + Suc i * (d + 1) = Suc ?n + d" by simp
  have lt: "?n < M" using Suc.prems(2) by simp
  obtain es where es: "trace (w (Suc ?n + d)) = es @ trace (w (Suc ?n))" "d \<le> length es"
    using rounds_grow [OF run, of "Suc ?n" d] Suc.prems(2) n by auto
  obtain fs where fs: "trace (w (?n + Suc d)) = fs @ trace (w ?n)"
    using rounds_grow [OF run, of ?n "Suc d"] Suc.prems(2) n by auto
  from steps [OF run lt] rounds_known [OF run over start, of ?n] lt obtain gs where
    v: "trace (v ?n) = gs @ trace (w ?n)" "known (v ?n)" "w (Suc ?n) = round (v ?n)"
    by (metis less_imp_le_nat)
  have before: "gone_after (stages ! k) 0 (trace (w ?n))" if "k < i" for k
    using Suc.IH that Suc.prems(1,2) by simp
  show ?case
  proof (cases "j < i")
    case True
    from gone_after_mono [OF before [OF this], of fs] show ?thesis
      unfolding n fs [symmetric] by (simp only: add_Suc_right add_Suc)
  next
    case False
    with Suc.prems(3) have j: "j = i" by simp
    have "N \<le> length (trace (v ?n))" using rounds_grow [OF run, of 0 ?n] lt v(1) by force
    moreover have "gone_after (stages ! k) 0 (trace (v ?n))" if "k < i" for k
      unfolding v(1) by (rule gone_after_mono [OF before [OF that]])
    moreover have "\<not> over (trace (v ?n))" "\<not> over (trace (round (v ?n)))"
      using alive_before(2) [OF run over lt] alive_before(1) [OF run over, of "Suc ?n"] lt v(3) by simp_all
    ultimately have "gone_after (stages ! i) d (trace (w (Suc ?n)))"
      using stage_ends [of "v ?n" i] v(2,3) Suc.prems(1) by simp
    then have "gone_after (stages ! i) (d - length es) (trace (w (Suc ?n + d)))"
      unfolding es(1) using gone_after_append by simp
    then show ?thesis unfolding n j using es(2) by simp
  qed
qed simp

lemma sequence_terminates:
  assumes run: "round_sequence round known M v w" and start: "known (w 0)"
    and M: "N + length stages * (d + 1) < M"
  shows "over (trace (w M))"
proof (rule ccontr)
  assume over: "\<not> over (trace (w M))"
  let ?n = "N + length stages * (d + 1)"
  from steps [OF run M] rounds_known [OF run over start, of ?n] M obtain gs where
    v: "trace (v ?n) = gs @ trace (w ?n)" "known (v ?n)" "w (Suc ?n) = round (v ?n)"
    by (metis less_imp_le_nat)
  have "N \<le> length (trace (v ?n))" using rounds_grow [OF run, of 0 ?n] M v(1) by force
  moreover have "gone_after (stages ! j) 0 (trace (v ?n))" if "j < length stages" for j
    unfolding v(1) by (rule gone_after_mono [OF stage_done [OF run over start _ _ that]]) (use M in simp_all)
  ultimately have "over (trace (w (Suc ?n)))"
    using all_gone [of "v ?n"] v(2,3) alive_before(2) [OF run over M] by simp
  then show False using alive_before(1) [OF run over, of "Suc ?n"] M by simp
qed

theorem terminates:
  assumes "rounds_among round known w0 M w" "known w0" "N + length stages * (d + 1) < M"
  shows "over (trace w)"
proof -
  from assms(1) obtain v u es where run: "round_sequence round known M v u" "u 0 = w0" "trace w = es @ trace (u M)"
    by (rule rounds_among_sequence)
  with sequence_terminates [OF run(1)] assms(2,3) show ?thesis using over_later by simp
qed

end

end
