(* ===== verification/CI_Deletion.thy ===== *)
theory CI_Deletion
  imports CI_Controller Teardown
begin

text \<open>
  Deletion terminates: the reconciler of compute instances run again and again on an instance
  that is being deleted, as its requeue intervals make the manager do, while everything else
  goes on. Whatever the provider answers meanwhile, once it reports that the deprovision job
  has ended the finalizer is given up. The API server may serve old states of the instance and
  refuse updates and status writes.
\<close>

section \<open>Rounds\<close>

definition instance_step ::
    "env \<Rightarrow> compute_instance_reconciler \<Rightarrow> object_key \<Rightarrow> world \<Rightarrow> world" where
  "instance_step E r key w = snd (run_state (ci_Reconcile E r key) w)"

text \<open>Since the history \<open>h0\<close> an update of the instance without the finalizer has been accepted.\<close>

definition instance_released :: "env \<Rightarrow> object_key \<Rightarrow> history \<Rightarrow> history \<Rightarrow> bool" where
  "instance_released E key h0 h \<longleftrightarrow>
     (\<exists>later y before y'. h = later @ EvUpdate (KComputeInstance y) # before \<and> suffix h0 before \<and>
        key_of (ci_meta y) = key \<and> cloudkitComputeInstanceFinalizer \<notin> set (ci_finalizers y) \<and>
        update_compute_instance (kube E) y before = Inr y')"

definition being_deleted :: "compute_instance \<Rightarrow> bool" where
  "being_deleted c \<longleftrightarrow> deleting (ci_meta c) \<and> \<not> ci_unmanaged c \<and> \<not> managed_manually c \<and>
     cloudkitComputeInstanceFinalizer \<in> set (ci_finalizers c)"

text \<open>The deprovision jobs in a status are one job, which has been triggered.\<close>

definition deprovisioned_by :: "string \<Rightarrow> bool \<Rightarrow> compute_instance_status \<Rightarrow> bool" where
  "deprovisioned_by i block st \<longleftrightarrow> i \<noteq> [] \<and>
     (\<exists>j \<in> set (cis_jobs st). js_type j = JobTypeDeprovision) \<and>
     (\<forall>j \<in> set (cis_jobs st). js_type j = JobTypeDeprovision \<longrightarrow>
        js_jobID j = i \<and> js_blockDeletionOnFailure j = block)"

text \<open>The statuses of the instance that have been written since the history \<open>h0\<close>.\<close>

definition status_written :: "object_key \<Rightarrow> history \<Rightarrow> history \<Rightarrow> compute_instance \<Rightarrow> bool" where
  "status_written key h0 h x \<longleftrightarrow> key_of (ci_meta x) = key \<and>
     (\<exists>later before. h = later @ EvStatusUpdate (KComputeInstance x) # before \<and> suffix h0 before)"

text \<open>
  Until the finalizer is given up the API server serves the instance, being deleted, with the
  status \<open>st\<close> it had at first or with one that has been written since.
\<close>

definition serves_instance :: "env \<Rightarrow> object_key \<Rightarrow> compute_instance_status \<Rightarrow> history \<Rightarrow> bool" where
  "serves_instance E key st h0 \<longleftrightarrow>
     (\<forall>h. suffix h0 h \<and> \<not> instance_released E key h0 h \<longrightarrow>
        (\<exists>c. get_compute_instance (kube E) key h = Inr c \<and> key_of (ci_meta c) = key \<and> being_deleted c \<and>
           (ci_status c = st \<or> (\<exists>x. status_written key h0 h x \<and> ci_status c = ci_status x))))"

text \<open>From the \<open>N\<close>-th event on it accepts the update that gives up the finalizer.\<close>

definition instance_release_accepted :: "env \<Rightarrow> nat \<Rightarrow> bool" where
  "instance_release_accepted E N \<longleftrightarrow>
     (\<forall>h y. N \<le> length h \<and> cloudkitComputeInstanceFinalizer \<notin> set (ci_finalizers y) \<longrightarrow>
        (\<exists>y'. update_compute_instance (kube E) y h = Inr y'))"

text \<open>After \<open>N\<close> events the provider reports that the job has ended, and with success if it must.\<close>

definition job_ends :: "env \<Rightarrow> object_key \<Rightarrow> provider \<Rightarrow> string \<Rightarrow> bool \<Rightarrow> nat \<Rightarrow> bool" where
  "job_ends E key P i block N \<longleftrightarrow>
     (\<forall>h c w. N \<le> length h \<and> get_compute_instance (kube E) key h = Inr c \<and> N \<le> length (trace w) \<longrightarrow>
        (\<exists>s. fst (run_state (getDeprovisionStatus P
               (ResComputeInstance (set_phase ComputeInstancePhaseDeleting c)) i) w) = Ok s \<and>
           isTerminal (ps_state s) \<and> (block \<longrightarrow> ps_state s = JobStateSucceeded)))"

section \<open>One round\<close>

lemma deprovisioned_by_latest:
  assumes "deprovisioned_by i block (ci_status c)"
  obtains job where "findLatestJobByType (ci_jobs c) JobTypeDeprovision = Some job" "job \<in> set (ci_jobs c)"
    "js_jobID job = i" "js_blockDeletionOnFailure job = block" "js_type job = JobTypeDeprovision" "js_jobID job \<noteq> []"
proof -
  from assms obtain j where "j \<in> set (ci_jobs c)" "js_type j = JobTypeDeprovision"
    by (auto simp: deprovisioned_by_def)
  then have "findLatestJobByType (ci_jobs c) JobTypeDeprovision \<noteq> None"
    by (auto simp: findLatestJobByType_None_iff)
  then obtain job where job: "findLatestJobByType (ci_jobs c) JobTypeDeprovision = Some job" by blast
  with findLatestJobByType_SomeD(1,2) [OF job] assms show thesis
    by (intro that [of job]) (auto simp: deprovisioned_by_def)
qed

lemma deprovisioned_by_update:
  assumes "deprovisioned_by i block (ci_status c)" "js_type u = JobTypeDeprovision" "js_jobID u = i"
    "js_blockDeletionOnFailure u = block"
  shows "deprovisioned_by i block (ci_status (update_job u c))"
proof -
  from assms(1) obtain j where j: "j \<in> set (ci_jobs c)" "js_jobID j = i" by (auto simp: deprovisioned_by_def)
  then have found: "findJobByID (ci_jobs c) i \<noteq> None"
    by (auto simp: findJobByID_def first_such_None_iff)
  have "findJobByID (snd (updateJob (ci_jobs c) u)) i = Some u"
    using found assms(3) by (simp add: findJobByID_updateJob)
  then have "u \<in> set (snd (updateJob (ci_jobs c) u))"
    by (auto simp: findJobByID_def dest: first_such_SomeD)
  moreover have "set (snd (updateJob (ci_jobs c) u)) \<subseteq> insert u (set (ci_jobs c))"
    by (auto simp: updateJob_def split: option.splits dest: set_replace_first_subset [THEN subsetD])
  ultimately show ?thesis
    using assms unfolding deprovisioned_by_def by (auto simp: update_job_jobs)
qed

context provisioning_provider
begin

text \<open>A poll keeps the jobs as they are; it ends the deprovisioning when the job has ended.\<close>

lemma deprovision_poll_step:
  assumes "deprovisioned_by i block (ci_status c)" "js_type job = JobTypeDeprovision" "js_jobID job = i"
    "js_blockDeletionOnFailure job = block"
  obtains c' res where "fst (run_state (deprovision_poll r P c job) w) = Done c' res None"
    "deprovisioned_by i block (ci_status c')" "ci_meta c' = ci_meta c"
    "\<And>s. fst (run_state (getDeprovisionStatus P (ResComputeInstance c) i) w) = Ok s \<Longrightarrow>
       isTerminal (ps_state s) \<Longrightarrow> block \<longrightarrow> ps_state s = JobStateSucceeded \<Longrightarrow> requeueAfter res = 0"
proof (cases "fst (run_state (getDeprovisionStatus P (ResComputeInstance c) i) w)")
  case (Ok s)
  let ?c = "update_job (with_status s job) c"
  have "deprovisioned_by i block (ci_status ?c)" "ci_meta ?c = ci_meta c"
    using deprovisioned_by_update [OF assms(1), of "with_status s job"] assms(2-4)
    by (simp_all add: with_status_def update_job_def set_jobs_def)
  moreover have "fst (run_state (deprovision_poll r P c job) w) = Done ?c
      (if isTerminal (ps_state s) \<and> (isSuccessful (ps_state s) \<or> \<not> block) then result_none
       else requeue_after (cir_statusPollInterval r)) None"
    using Ok assms(3,4) by (auto simp: deprovision_poll_def State_Monad.return_def split_beta Let_def)
  ultimately show thesis
    using Ok by (intro that [of ?c]) (auto simp: isSuccessful_def)
next
  case (Error e)
  let ?u = "job\<lparr>js_message := ''Failed to get job status: '' @ err_text e\<rparr>"
  have "deprovisioned_by i block (ci_status (update_job ?u c))" "ci_meta (update_job ?u c) = ci_meta c"
    using deprovisioned_by_update [OF assms(1), of ?u] assms(2-4)
    by (simp_all add: update_job_def set_jobs_def)
  with Error assms(3) that [of "update_job ?u c"] show thesis
    by (auto simp: deprovision_poll_def State_Monad.return_def split_beta)
qed (use status_no_panic in blast)

text \<open>The deletion handler gives up the finalizer, or leaves the jobs as they are.\<close>

lemma handleDelete_step:
  assumes prov: "cir_provider r = Some P" and laws: "finalizer_laws (lib E)"
    and c: "being_deleted c" "key_of (ci_meta c) = key" "deprovisioned_by i block (ci_status c)"
    and since: "suffix h0 (trace w)"
    and run: "run_state (ci_handleDelete E r c) w = (out, w')"
  shows "instance_released E key h0 (trace w') \<or>
      (\<exists>c' res err. out = Done c' res err \<and> deprovisioned_by i block (ci_status c'))"
    and "fst (run_state (getDeprovisionStatus P (ResComputeInstance (set_phase ComputeInstancePhaseDeleting c)) i) w) =
        Ok s \<Longrightarrow> isTerminal (ps_state s) \<Longrightarrow> block \<longrightarrow> ps_state s = JobStateSucceeded \<Longrightarrow>
      instance_release_accepted E N \<Longrightarrow> N \<le> length (trace w) \<Longrightarrow> instance_released E key h0 (trace w')"
proof -
  let ?c1 = "set_phase ComputeInstancePhaseDeleting c"
  have c1: "deprovisioned_by i block (ci_status ?c1)" "\<not> managed_manually ?c1" "ci_meta ?c1 = ci_meta c"
    using c by (simp_all add: set_phase_def deprovisioned_by_def managed_manually_def being_deleted_def)
  obtain job where job: "findLatestJobByType (ci_jobs ?c1) JobTypeDeprovision = Some job"
      "js_jobID job = i" "js_blockDeletionOnFailure job = block" "js_type job = JobTypeDeprovision" "js_jobID job \<noteq> []"
    by (rule deprovisioned_by_latest [OF c1(1)]) blast
  let ?poll = "run_state (deprovision_poll r P ?c1 job) w"
  obtain c2 res where c2: "fst ?poll = Done c2 res None" "deprovisioned_by i block (ci_status c2)"
      "ci_meta c2 = ci_meta ?c1" and over: "\<And>s. fst (run_state (getDeprovisionStatus P (ResComputeInstance ?c1) i) w) = Ok s \<Longrightarrow>
       isTerminal (ps_state s) \<Longrightarrow> block \<longrightarrow> ps_state s = JobStateSucceeded \<Longrightarrow> requeueAfter res = 0"
    by (rule deprovision_poll_step [OF c1(1) job(4,2,3)]) blast
  let ?c3 = "set_finalizers (snd (removeFinalizer (lib E) (ci_finalizers c2) cloudkitComputeInstanceFinalizer)) c2"
  let ?u = "update_compute_instance (kube E) ?c3 (trace (snd ?poll))"
  have handled: "run_state (handleDeprovisioning E r ?c1) w = ?poll"
    using job c1(2) by (simp add: handleDeprovisioning_def prov)
  obtain es where es: "trace (snd ?poll) = es @ trace w"
    by (rule footprintD [OF footprint_handleDeprovisioning [OF prov] surjective_pairing, of E ?c1 w]) (simp add: handled)
  have "0 < requeueAfter res \<and> out = Done c2 res None \<or>
      requeueAfter res \<le> 0 \<and> trace w' = EvUpdate (KComputeInstance ?c3) # trace (snd ?poll) \<and>
        (\<forall>e. ?u = Inl e \<longrightarrow> out = Done ?c3 result_none (Some e))"
    using run c(1) c1(3) c2(1,3)
    by (auto simp: containsFinalizer_delete [OF laws] being_deleted_def Let_def split_beta handled kc_defs
        State_Monad.return_def finalizer_simps [OF laws] split: if_splits)
  moreover have "instance_released E key h0 (EvUpdate (KComputeInstance ?c3) # trace (snd ?poll))" if "?u = Inr y'" for y'
    unfolding instance_released_def
    by (rule exI [of _ "[]"], rule exI [of _ ?c3], rule exI [of _ "trace (snd ?poll)"])
      (use that since es c(2) c1(3) c2(3) in \<open>simp add: set_finalizers_def finalizer_simps [OF laws] key_of_def suffix_appendI\<close>)
  ultimately have step: "0 < requeueAfter res \<and> out = Done c2 res None \<or>
      requeueAfter res \<le> 0 \<and> (instance_released E key h0 (trace w') \<or>
        (\<exists>e. ?u = Inl e \<and> out = Done ?c3 result_none (Some e)))"
    by (cases ?u) auto
  have "deprovisioned_by i block (ci_status ?c3)" using c2(2) by (simp add: set_finalizers_def)
  with step c2(2) show "instance_released E key h0 (trace w') \<or>
      (\<exists>c' res err. out = Done c' res err \<and> deprovisioned_by i block (ci_status c'))" by auto
  show "instance_released E key h0 (trace w')"
    if "fst (run_state (getDeprovisionStatus P (ResComputeInstance ?c1) i) w) = Ok s" "isTerminal (ps_state s)"
      "block \<longrightarrow> ps_state s = JobStateSucceeded" "instance_release_accepted E N" "N \<le> length (trace w)"
  proof -
    have "cloudkitComputeInstanceFinalizer \<notin> set (ci_finalizers ?c3)"
      by (simp add: set_finalizers_def finalizer_simps [OF laws])
    then have "\<exists>y'. ?u = Inr y'" using that(4,5) es unfolding instance_release_accepted_def by simp
    then show ?thesis using step over [OF that(1,2,3)] by auto
  qed
qed

end

text \<open>What the rounds know: the statuses written so far tell of the deprovision job.\<close>

definition statuses_written :: "string \<Rightarrow> bool \<Rightarrow> object_key \<Rightarrow> history \<Rightarrow> world \<Rightarrow> bool" where
  "statuses_written i block key h0 w \<longleftrightarrow> suffix h0 (trace w) \<and>
     (\<forall>x. status_written key h0 (trace w) x \<longrightarrow> deprovisioned_by i block (ci_status x))"

lemma status_written_append:
  assumes "status_written key h0 (es @ h) x"
  shows "EvStatusUpdate (KComputeInstance x) \<in> set es \<or> status_written key h0 h x"
proof -
  from assms obtain later before where "es @ h = later @ EvStatusUpdate (KComputeInstance x) # before"
      "suffix h0 before" "key_of (ci_meta x) = key"
    by (auto simp: status_written_def)
  then show ?thesis
    unfolding status_written_def append_eq_append_conv2 by (auto simp: append_eq_Cons_conv Cons_eq_append_conv)
qed

lemma status_written_self: "\<not> status_written key h h x"
proof
  assume "status_written key h h x"
  then obtain later before where "h = later @ EvStatusUpdate (KComputeInstance x) # before" "suffix h before"
    by (auto simp: status_written_def)
  then have "length h = length later + Suc (length before)" "length h \<le> length before"
    by (simp, intro suffix_length_le)
  then show False by simp
qed

lemma instance_released_append: "instance_released E key h0 h \<Longrightarrow> instance_released E key h0 (es @ h)"
  unfolding instance_released_def by (metis append.assoc)

text \<open>What a reconciliation does after its handler: it reads the instance and writes its status.\<close>

lemma reconcile_tail:
  assumes "get_compute_instance (kube E) key (trace w) = Inr c" "\<not> ci_unmanaged c" "retry_law (lib E)"
    and "run_state (ci_handle E r c) (w\<lparr>trace := EvGet KindComputeInstance key # trace w\<rparr>) = (out, w1)"
  obtains es where "trace (snd (run_state (ci_Reconcile E r key) w)) = es @ trace w1"
    "\<forall>e \<in> set es. e = EvGet KindComputeInstance key \<or> (\<exists>x. e = EvStatusUpdate x)"
proof -
  let ?rest = "case out of
        Panicked s \<Rightarrow> State_Monad.return (Panicked s)
      | Done ci' res err \<Rightarrow>
          if ci_status ci' \<noteq> ci_status c
          then do { e \<leftarrow> updateStatusWithRetry E key (ci_status ci');
                    State_Monad.return (Done () res (case e of Some e' \<Rightarrow> Some e' | None \<Rightarrow> err)) }
          else State_Monad.return (Done () res err)"
  have "snd (run_state (ci_Reconcile E r key) w) = snd (run_state ?rest w1)"
    using assms by (simp add: ci_Reconcile_def kc_defs ci_handle_def)
  moreover have "footprint (\<lambda>e. e = EvGet KindComputeInstance key \<or> (\<exists>x. e = EvStatusUpdate x)) ?rest"
    by (intro fp_intros footprint_mono [OF footprint_updateStatusWithRetry [OF assms(3)]])
      (auto simp: writes_status_def)
  then obtain es where "trace (snd (run_state ?rest w1)) = es @ trace w1"
      "\<forall>e \<in> set es. e = EvGet KindComputeInstance key \<or> (\<exists>x. e = EvStatusUpdate x)"
    by (rule footprintD [OF _ surjective_pairing])
  ultimately show thesis using that by simp
qed

lemma instance_round:
  assumes P: "provisioning_provider P" "cir_provider r = Some P"
    and laws: "finalizer_laws (lib E)" "retry_law (lib E)"
    and serves: "serves_instance E key st h0" "deprovisioned_by i block st" "statuses_written i block key h0 w"
    and alive: "\<not> instance_released E key h0 (trace w)"
  defines "w' \<equiv> instance_step E r key w"
  shows "\<not> instance_released E key h0 (trace w') \<Longrightarrow> statuses_written i block key h0 w'"
    and "job_ends E key P i block N \<Longrightarrow> instance_release_accepted E N \<Longrightarrow> N \<le> length (trace w) \<Longrightarrow>
      instance_released E key h0 (trace w')"
proof -
  let ?w1 = "w\<lparr>trace := EvGet KindComputeInstance key # trace w\<rparr>"
  have since: "suffix h0 (trace w)" "suffix h0 (trace ?w1)"
    using serves(3) by (simp_all add: statuses_written_def suffix_Cons)
  obtain c where c: "get_compute_instance (kube E) key (trace w) = Inr c" "being_deleted c"
      "key_of (ci_meta c) = key" "deprovisioned_by i block (ci_status c)"
    using serves alive since(1) unfolding serves_instance_def statuses_written_def by metis
  obtain out w2 where h: "run_state (ci_handleDelete E r c) ?w1 = (out, w2)" by fastforce
  obtain es2 where es2: "trace w' = es2 @ trace w2"
    unfolding w'_def instance_step_def by (rule reconcile_tail [OF c(1) _ laws(2), of r])
      (use c(2) h in \<open>auto simp: being_deleted_def ci_handle_def\<close>)
  then have grows: "instance_released E key h0 (trace w2) \<Longrightarrow> instance_released E key h0 (trace w')"
    using instance_released_append by simp
  obtain es1 where "trace w2 = es1 @ trace ?w1"
    by (rule footprintD [OF provisioning_provider.footprint_handleDelete [OF P] h]) blast
  with es2 have es: "trace w' = (es2 @ es1 @ [EvGet KindComputeInstance key]) @ trace w" by simp
  note step = provisioning_provider.handleDelete_step [OF P laws(1) c(2,3,4) since(2) h]
  show "statuses_written i block key h0 w'" if "\<not> instance_released E key h0 (trace w')"
    unfolding statuses_written_def
  proof (intro conjI allI impI)
    show "suffix h0 (trace w')" unfolding es using since(1) by (rule suffix_appendI)
    fix x
    assume "status_written key h0 (trace w') x"
    then consider "EvStatusUpdate (KComputeInstance x) \<in> set (es2 @ es1 @ [EvGet KindComputeInstance key])"
      | "status_written key h0 (trace w) x" unfolding es by (blast dest: status_written_append)
    then show "deprovisioned_by i block (ci_status x)"
    proof cases
      case 1
      from reconcile_status_writes [OF P laws(2) surjective_pairing es [unfolded w'_def instance_step_def] this] c(1,2)
      obtain ci' res err where "out = Done ci' res err" "ci_status x = ci_status ci'"
        by (auto simp: ci_handle_def being_deleted_def h)
      with step(1) that grows show ?thesis by auto
    qed (use serves(3) in \<open>simp add: statuses_written_def\<close>)
  qed
  show "instance_released E key h0 (trace w')"
    if "job_ends E key P i block N" "instance_release_accepted E N" "N \<le> length (trace w)"
  proof -
    let ?c1 = "ResComputeInstance (set_phase ComputeInstancePhaseDeleting c)"
    have "\<exists>s. fst (run_state (getDeprovisionStatus P ?c1 i) ?w1) = Ok s \<and>
        isTerminal (ps_state s) \<and> (block \<longrightarrow> ps_state s = JobStateSucceeded)"
      by (rule that(1) [unfolded job_ends_def, rule_format, of "trace w"]) (use that(3) c(1) in simp)
    then show ?thesis using step(2) [OF _ _ _ that(2)] that(3) grows by auto
  qed
qed

lemma instance_step_grows:
  assumes "provisioning_provider P" "cir_provider r = Some P" "retry_law (lib E)"
  shows "\<exists>es. trace (instance_step E r key w) = es @ trace w \<and> es \<noteq> []"
proof -
  have "footprint (\<lambda>e. True) (ci_handleDelete E r c)" "footprint (\<lambda>e. True) (ci_handleUpdate E r c)" for c
    by (simp_all add: footprint_mono [OF provisioning_provider.footprint_handleDelete [OF assms(1,2)]]
        footprint_mono [OF provisioning_provider.footprint_handleUpdate [OF assms(1,2)]])
  then show ?thesis
    unfolding instance_step_def ci_Reconcile_def kc_get_ci_def
    by (intro grows_after_get fp_intros footprint_mono [OF footprint_updateStatusWithRetry [OF assms(3)]]; simp)
qed

section \<open>All rounds\<close>

text \<open>Nothing has to go before the finalizer but the job, so there are no stages.\<close>

lemma instance_teardown:
  assumes P: "provisioning_provider P" "cir_provider r = Some P"
    and laws: "finalizer_laws (lib E)" "retry_law (lib E)"
    and serves: "serves_instance E key st h0" "deprovisioned_by i block st"
    and ends: "job_ends E key P i block N" "instance_release_accepted E N"
  shows "staged_teardown (instance_step E r key) (statuses_written i block key h0) (instance_released E key h0) [] N d"
proof (unfold_locales, rule instance_step_grows [OF P laws(2)], rule instance_released_append, assumption)
  fix w assume w: "statuses_written i block key h0 w" "\<not> instance_released E key h0 (trace w)"
  note round = instance_round [OF P laws serves w]
  show "statuses_written i block key h0 (instance_step E r key w)"
    if "\<not> instance_released E key h0 (trace (instance_step E r key w))"
    using that by (rule round(1))
  show "instance_released E key h0 (trace (instance_step E r key w))" if "N \<le> length (trace w)"
    by (rule round(2) [OF ends that])
qed simp

section \<open>Properties\<close>

text \<open>Deletion terminates. Take an instance that is being deleted and that a deprovision job
  with an identifier follows. Suppose that the API server keeps serving it, with its first
  status or any status that has been written for it since, until it accepts an update that
  gives up the finalizer, and that from the \<open>N\<close>-th event on it accepts such an update and the
  provider reports the job as ended (successfully, if it is to block the deletion on failure).
  Then \<open>N + 1\<close> reconciliations give up the finalizer: no error of the provider, no lost or
  refused update and no stale read before prevents it, nor anything that the other controllers
  do in between, who write no status of the instance.\<close>

theorem ci_deletion_completes:
  assumes "createProvider E0 getenv ty s = Ok (P, iv)" "cir_provider r = Some P"
    and "finalizer_laws (lib E)" "retry_law (lib E)"
    and "serves_instance E key st h0" "deprovisioned_by i block st" "statuses_written i block key h0 w0"
    and "job_ends E key P i block N" "instance_release_accepted E N"
    and "rounds_among (instance_step E r key) (statuses_written i block key h0) w0 M w" "N < M"
  shows "instance_released E key h0 (trace w)"
  by (rule staged_teardown.terminates [OF instance_teardown
        [OF createProvider_contract [OF assms(1)] assms(2-6,8,9)] assms(10,7)])
    (use assms(11) in simp)

text \<open>EDA: the playbook gives up its own finalizer while the controller waits.\<close>

definition slow_ci :: "bool \<Rightarrow> compute_instance" where
  "slow_ci done =
     set_finalizers (cloudkitComputeInstanceFinalizer # (if done then [] else [aap_finalizer]))
       (set_jobs [new_job ''7'' JobTypeDeprovision 1 JobStateRunning [] False] gone_ci)"

definition slow_status :: compute_instance_status where
  "slow_status = (ci_status gone_ci)\<lparr>cis_jobs := [new_job ''7'' JobTypeDeprovision 1 JobStateRunning [] False]\<rparr>"

definition slow_env :: env where
  "slow_env = ref_env\<lparr>kube := ref_kube\<lparr>get_compute_instance := (\<lambda>k h. Inr (slow_ci (4 \<le> length h)))\<rparr>\<rparr>"

lemma slow_ci_simps [simp]:
  "ci_status (slow_ci d) = slow_status" "deleting (ci_meta (slow_ci d))"
  "ci_finalizers (slow_ci d) = cloudkitComputeInstanceFinalizer # (if d then [] else [aap_finalizer])"
  "\<not> ci_unmanaged (slow_ci d)" "\<not> managed_manually (slow_ci d)"
  "cis_jobs slow_status = [new_job ''7'' JobTypeDeprovision 1 JobStateRunning [] False]"
  "key_of (ci_meta (slow_ci d)) = key_of sample_meta"
  by (simp_all add: key_of_def slow_ci_def slow_status_def set_finalizers_def set_jobs_def gone_ci_def sample_ci_def sample_meta_def
      new_meta_def deleting_def is_zero_time_def zero_time_def ci_unmanaged_def managed_manually_def)

lemma slow_env_simps [simp]:
  "lib slow_env = ref_lib" "get_compute_instance (kube slow_env) k h = Inr (slow_ci (4 \<le> length h))"
  "update_compute_instance (kube slow_env) y h = Inr y"
  by (simp_all add: slow_env_def ref_kube_def)

lemma slow_job_ends: "job_ends slow_env (key_of sample_meta) the_eda ''7'' False 4"
  by (auto simp: job_ends_def the_eda_def edaProvider_def eda_getDeprovisionStatus_def State_Monad.return_def
      set_phase_def isTerminal_def aap_finalizer_name ci_finalizers_distinct [symmetric])

theorem ci_deletion_completes_witness:
  "instance_released slow_env (key_of sample_meta) []
     (trace ((instance_step slow_env (sample_reconciler (Some the_eda)) (key_of sample_meta) ^^ 5) empty_world))"
proof -
  have serves: "serves_instance slow_env (key_of sample_meta) slow_status []"
    by (simp add: serves_instance_def being_deleted_def)
  have job: "deprovisioned_by ''7'' False slow_status"
    by (auto simp: deprovisioned_by_def)
  have start: "statuses_written ''7'' False (key_of sample_meta) [] empty_world"
    by (simp add: statuses_written_def status_written_def)
  show ?thesis
    by (rule ci_deletion_completes [OF create_the_eda _ _ _ serves job _ slow_job_ends,
          OF _ _ _ _ _ rounds_among_self])
      (simp_all add: start ref_finalizer_laws ref_retry_law instance_release_accepted_def)
qed

end
