(* ===== verification/Ownership.thy ===== *)
theory Ownership
  imports Manager_Setup
begin

text \<open>
  Who writes what. Each kind of object in the cluster, and each service, has its writers among
  the seven controllers; a reconciliation issues no other writes. The tenant of an instance is
  created by the controller of instances and then belongs to the controller of tenants; the
  finalizers of an instance are edited by its controller and by its feedback controller.
\<close>

datatype controller = Orders | Pools | Instances | Tenants | OrderFeedback | PoolFeedback | InstanceFeedback

text \<open>\<open>Update\<close>, \<open>Status().Update\<close>, \<open>Delete\<close> and \<open>CreateOrUpdate\<close>.\<close>

fun updates :: "controller \<Rightarrow> k8s_object \<Rightarrow> bool" where
  "updates c (KComputeInstance _) \<longleftrightarrow> c = Instances \<or> c = InstanceFeedback"
| "updates c (KTenant _) \<longleftrightarrow> c = Tenants"
| "updates c (KClusterOrder _) \<longleftrightarrow> c = Orders"
| "updates c (KHostPool _) \<longleftrightarrow> c = Pools"
| "updates c _ \<longleftrightarrow> False"

fun updates_status :: "controller \<Rightarrow> k8s_object \<Rightarrow> bool" where
  "updates_status c (KComputeInstance _) \<longleftrightarrow> c = Instances"
| "updates_status c (KTenant _) \<longleftrightarrow> c = Tenants"
| "updates_status c (KClusterOrder _) \<longleftrightarrow> c = Orders"
| "updates_status c (KHostPool _) \<longleftrightarrow> c = Pools"
| "updates_status c _ \<longleftrightarrow> False"

fun deletes :: "controller \<Rightarrow> k8s_object \<Rightarrow> bool" where
  "deletes c (KNamespace _) \<longleftrightarrow> c = Tenants \<or> c = Orders \<or> c = Pools"
| "deletes c (KUserDefinedNetwork _) \<longleftrightarrow> c = Tenants"
| "deletes c (KVirtualMachineInstance _) \<longleftrightarrow> c = Instances"
| "deletes c _ \<longleftrightarrow> False"

fun commits :: "controller \<Rightarrow> k8s_object \<Rightarrow> bool" where
  "commits c (KTenant _) \<longleftrightarrow> c = Instances"
| "commits c (KNamespace _) \<longleftrightarrow> c = Tenants \<or> c = Orders \<or> c = Pools"
| "commits c (KUserDefinedNetwork _) \<longleftrightarrow> c = Tenants"
| "commits c (KServiceAccount _) \<longleftrightarrow> c = Orders"
| "commits c (KRoleBinding _) \<longleftrightarrow> c = Orders"
| "commits c _ \<longleftrightarrow> False"

fun reports :: "controller \<Rightarrow> rpc_record \<Rightarrow> bool" where
  "reports c (RpcComputeInstance _) \<longleftrightarrow> c = InstanceFeedback"
| "reports c (RpcCluster _) \<longleftrightarrow> c = OrderFeedback"
| "reports c (RpcHostPool _) \<longleftrightarrow> c = PoolFeedback"

text \<open>Every controller may read the cluster and the clock.\<close>

fun may :: "controller \<Rightarrow> event \<Rightarrow> bool" where
  "may c (EvUpdate x) \<longleftrightarrow> updates c x"
| "may c (EvStatusUpdate x) \<longleftrightarrow> updates_status c x"
| "may c (EvDelete x) \<longleftrightarrow> deletes c x"
| "may c (EvCommit x) \<longleftrightarrow> commits c x"
| "may c (EvHttp _) \<longleftrightarrow> c = Orders \<or> c = Pools \<or> c = Instances"
| "may c (EvRpcGet _ _) \<longleftrightarrow> c = OrderFeedback \<or> c = PoolFeedback \<or> c = InstanceFeedback"
| "may c (EvRpcUpdate r) \<longleftrightarrow> reports c r"
| "may c (EvRpcSignal s _) \<longleftrightarrow> c = InstanceFeedback \<and> s = ComputeInstances"
| "may c _ \<longleftrightarrow> True"

section \<open>The reconciliations keep to it\<close>

lemma footprint_deleteTenant [fp_intros]:
  "(\<And>k. P (EvGet KindUserDefinedNetwork k)) \<Longrightarrow> (\<And>u. P (EvDelete (KUserDefinedNetwork u))) \<Longrightarrow>
   footprint P (deleteTenantUDN E t)"
  "(\<And>k. P (EvGet KindNamespace k)) \<Longrightarrow> (\<And>n. P (EvDelete (KNamespace n))) \<Longrightarrow>
   footprint P (deleteTenantNamespace E t)"
  unfolding deleteTenantUDN_def deleteTenantNamespace_def Let_def by (intro fp_intros; simp)+

lemma footprint_createOrUpdate_any [fp_intros]:
  "P (EvFetch (wrap x)) \<Longrightarrow> (\<And>y. P (EvCommit (wrap y))) \<Longrightarrow>
   footprint P (createOrUpdate wrap fetch commit x mutate i)"
  by (rule footprint_createOrUpdate)

lemma createTenant_may [fp_intros]:
  "footprint (may Tenants) (createOrUpdateTenantNamespace E t)"
  "footprint (may Tenants) (createOrUpdateTenantUDN E t)"
  unfolding createOrUpdateTenantNamespace_def createOrUpdateTenantUDN_def Let_def
  by (intro fp_intros; simp)+

lemma tenant_may: "footprint (may Tenants) (tenant_Reconcile E key)"
  unfolding tenant_Reconcile_def tenant_handle_def tenant_handleUpdate_def tenant_handleDelete_def
    tenant_finish_delete_def Let_def
  by (rule footprint_bind, (intro fp_intros; simp), intro createTenant_may fp_intros; simp)

lemma webhook_may: "c = Orders \<or> c = Pools \<or> c = Instances \<Longrightarrow> footprint (may c) (triggerWebhook E wc url r)"
  by (rule footprint_mono [OF footprint_triggerWebhook]) (auto simp: webhook_events_def)

lemma order_may: "footprint (may Orders) (co_Reconcile E r key)"
  unfolding co_Reconcile_def co_handle_def co_handleDelete_def co_handleUpdate_def co_delete_resources_def
    co_release_def co_update_cluster_def co_webhook_def components_def component_namespace_def
    component_service_account_def component_role_binding_def handleHostedCluster_def newNamespace_def
    co_findNamespace_def findHostedCluster_def Let_def run_components.simps
  by (intro fp_intros webhook_may; simp)

lemma pool_may: "footprint (may Pools) (hp_Reconcile E r key)"
  unfolding hp_Reconcile_def hp_handle_def hp_handleDelete_def hp_handleUpdate_def hp_components_def
    hp_create_webhook_def hp_delete_with_webhook_def hp_delete_namespace_def hp_release_def Let_def
  by (intro fp_intros webhook_may; simp)

lemma outside_may: "outside_event e \<Longrightarrow> may Instances e"
  by (auto simp: outside_event_def)

lemma createTenant_by_instances [fp_intros]: "footprint (may Instances) (ci_createOrUpdateTenant E ci)"
  by (intro fp_intros; simp)

lemma restart_may [fp_intros]: "footprint (may Instances) (handleRestartRequest E ci)"
  unfolding handleRestartRequest_def performRestart_def checkRestartCompletion_def
  by (intro fp_intros; simp)

lemma status_retry_may:
  "retry_law (lib E) \<Longrightarrow> footprint (may Instances) (updateStatusWithRetry E key st)"
  by (rule footprint_mono [OF footprint_updateStatusWithRetry]) (auto simp: writes_status_def)

lemma instance_may:
  assumes P: "provisioning_provider P" "cir_provider r = Some P" and retry: "retry_law (lib E)"
  shows "footprint (may Instances) (ci_Reconcile E r key)"
proof -
  note up = footprint_mono [OF provisioning_provider.footprint_handleProvisioning [OF P] outside_may]
  note down = footprint_mono [OF provisioning_provider.footprint_handleDeprovisioning [OF P] outside_may]
  have "footprint (may Instances) (ci_handleUpdate E r ci)" for ci
    unfolding ci_handleUpdate_def ci_update_tenant_def ci_update_vm_def ci_update_versions_def Let_def
    by (intro fp_intros up; simp)
  moreover have "footprint (may Instances) (ci_handleDelete E r ci)" for ci
    unfolding ci_handleDelete_def Let_def by (intro fp_intros down; simp)
  ultimately show ?thesis
    unfolding ci_Reconcile_def by (intro fp_intros status_retry_may [OF retry]; simp)
qed

lemma instance_feedback_may: "footprint (may InstanceFeedback) (ci_feedback_Reconcile E key)"
  unfolding ci_feedback_Reconcile_def feedback_unlabelled_def feedback_labelled_def feedback_release_def Let_def
  by (intro fp_intros footprint_feedback_sync footprint_feedback_finish; simp)

lemma order_feedback_may: "footprint (may OrderFeedback) (cluster_feedback_Reconcile E key)"
  unfolding cluster_feedback_Reconcile_def cluster_feedback_labelled_def saveCluster_def Let_def
  by (intro fp_intros footprint_cluster_handle; simp)

lemma pool_feedback_may: "footprint (may PoolFeedback) (pool_feedback_Reconcile E key)"
  unfolding pool_feedback_Reconcile_def pool_feedback_labelled_def saveHostPool_def pool_feedback_handleUpdate_def
    pool_syncConditions_def fetchHostPool_def Let_def
  by (intro fp_intros; simp)

end
