(* ===== verification/Tenant_Deletion.thy ===== *)
theory Tenant_Deletion
  imports Ownership Teardown
begin

text \<open>
  The deletion of a tenant, reconciliation after reconciliation, whatever happens in between:
  with an API server that from some point on accepts deletions and carries them out within a
  bounded number of events, the reconciler gets through the network, the namespace and the
  finalizer, and stops.
\<close>

section \<open>Rounds\<close>

definition tenant_step :: "env \<Rightarrow> object_key \<Rightarrow> world \<Rightarrow> world" where
  "tenant_step E key w = snd (run_state (tenant_Reconcile E key) w)"

text \<open>Since the history \<open>h0\<close> an update of the tenant without the finalizer has been accepted.\<close>

definition tenant_released :: "env \<Rightarrow> object_key \<Rightarrow> history \<Rightarrow> history \<Rightarrow> bool" where
  "tenant_released E key h0 h \<longleftrightarrow>
     (\<exists>later y before y'. h = later @ EvUpdate (KTenant y) # before \<and> suffix h0 before \<and>
        key_of (tn_meta y) = key \<and> tenantFinalizer \<notin> set (om_finalizers (tn_meta y)) \<and> update_tenant (kube E) y before = Inr y')"

text \<open>Until then the API server serves the tenant, being deleted, with its namespace.\<close>

definition serves_tenant :: "env \<Rightarrow> object_key \<Rightarrow> string \<Rightarrow> history \<Rightarrow> bool" where
  "serves_tenant E key ns h0 \<longleftrightarrow>
     (\<forall>h. suffix h0 h \<and> \<not> tenant_released E key h0 h \<longrightarrow>
       (\<exists>t. get_tenant (kube E) key h = Inr t \<and> key_of (tn_meta t) = key \<and> deleting (tn_meta t) \<and>
          tenantFinalizer \<in> set (om_finalizers (tn_meta t)) \<and> ts_namespace (tn_status t) = ns))"

text \<open>
  The API server's side of the deletion of an object, from the \<open>N\<close>-th event on: it says that
  the object is not found, for good, or it has it; a deletion of what it has is accepted, and
  \<open>d\<close> events later the object is gone. A namespace can also be terminating already.
\<close>

definition network_goes :: "env \<Rightarrow> string \<Rightarrow> nat \<Rightarrow> nat \<Rightarrow> bool" where
  "network_goes E ns N d \<longleftrightarrow>
     (\<forall>h. N \<le> length h \<longrightarrow>
       (case get_udn (kube E) \<lparr>key_namespace = ns, key_name = udnName\<rparr> h of
          Inl e \<Rightarrow> is_not_found e \<and> (\<forall>es. udn_gone E ns (es @ h))
        | Inr u \<Rightarrow>
            (let h' = EvGet KindUserDefinedNetwork \<lparr>key_namespace = ns, key_name = udnName\<rparr> # h
             in delete_udn (kube E) u h' = None \<and>
                (\<forall>es. d \<le> length es \<longrightarrow> udn_gone E ns (es @ EvDelete (KUserDefinedNetwork u) # h')))))"

definition namespace_goes :: "env \<Rightarrow> string \<Rightarrow> nat \<Rightarrow> nat \<Rightarrow> bool" where
  "namespace_goes E ns N d \<longleftrightarrow>
     (\<forall>h. N \<le> length h \<longrightarrow>
       (case get_namespace (kube E) \<lparr>key_namespace = [], key_name = ns\<rparr> h of
          Inl e \<Rightarrow> is_not_found e \<and> (\<forall>es. namespace_gone E ns (es @ h))
        | Inr n \<Rightarrow>
            (let h' = EvGet KindNamespace \<lparr>key_namespace = [], key_name = ns\<rparr> # h
             in if ns_terminating n then \<forall>es. d \<le> length es \<longrightarrow> namespace_gone E ns (es @ h')
                else delete_namespace (kube E) n h' = None \<and>
                  (\<forall>es. d \<le> length es \<longrightarrow> namespace_gone E ns (es @ EvDelete (KNamespace n) # h')))))"

text \<open>From the \<open>N\<close>-th event on it accepts the update that gives up the finalizer.\<close>

definition release_accepted :: "env \<Rightarrow> nat \<Rightarrow> bool" where
  "release_accepted E N \<longleftrightarrow>
     (\<forall>h y. N \<le> length h \<and> tenantFinalizer \<notin> set (om_finalizers (tn_meta y)) \<longrightarrow>
        (\<exists>y'. update_tenant (kube E) y h = Inr y'))"

section \<open>One round\<close>

lemma network_round:
  assumes law: "network_goes E ns N d" and N: "N \<le> length (trace w)" and t: "ts_namespace (tn_status t) = ns"
    and run: "run_state (deleteTenantUDN E t) w = (r, w')"
  shows "\<exists>es. trace w' = es @ trace w" "gone_after (udn_gone E ns) d (trace w')"
    and "udn_gone E ns (trace w) \<Longrightarrow> r = (None, None)"
proof -
  let ?k = "\<lparr>key_namespace = ns, key_name = udnName\<rparr>"
  have "(\<exists>es. trace w' = es @ trace w) \<and> gone_after (udn_gone E ns) d (trace w') \<and>
      (udn_gone E ns (trace w) \<longrightarrow> r = (None, None))"
  proof (cases "ns = []")
    case True
    then show ?thesis
      using run t by (auto simp: deleteTenantUDN_def State_Monad.return_def gone_after_def udn_gone_def)
  next
    case False
    show ?thesis
    proof (cases "get_udn (kube E) ?k (trace w)")
      case (Inl e)
      then have nf: "is_not_found e" "\<And>es. udn_gone E ns (es @ trace w)"
        using law N unfolding network_goes_def by (metis (no_types, lifting) sum.simps(5))+
      have "trace w' = [EvGet KindUserDefinedNetwork ?k] @ trace w" "r = (None, None)"
        using run t False Inl nf(1)
        by (auto simp: deleteTenantUDN_def kc_defs State_Monad.return_def ignore_not_found_None)
      moreover have "gone_after (udn_gone E ns) d ([EvGet KindUserDefinedNetwork ?k] @ trace w)"
        unfolding gone_after_def append.assoc [symmetric] using nf(2) by blast
      ultimately show ?thesis by auto
    next
      case (Inr u)
      let ?h = "EvGet KindUserDefinedNetwork ?k # trace w"
      have "gone_after (udn_gone E ns) d (EvDelete (KUserDefinedNetwork u) # ?h)"
        using law N Inr unfolding network_goes_def gone_after_def by (auto simp: Let_def split: sum.splits)
      moreover have "trace w' = [EvDelete (KUserDefinedNetwork u), EvGet KindUserDefinedNetwork ?k] @ trace w"
        using run t False Inr by (auto simp: deleteTenantUDN_def kc_defs State_Monad.return_def)
      ultimately show ?thesis using Inr False by (auto simp: udn_gone_def)
    qed
  qed
  then show "\<exists>es. trace w' = es @ trace w" "gone_after (udn_gone E ns) d (trace w')"
    "udn_gone E ns (trace w) \<Longrightarrow> r = (None, None)" by auto
qed

lemma namespace_round:
  assumes law: "namespace_goes E ns N d" and N: "N \<le> length (trace w)" and t: "ts_namespace (tn_status t) = ns"
    and run: "run_state (deleteTenantNamespace E t) w = (r, w')"
  shows "\<exists>es. trace w' = es @ trace w" "gone_after (namespace_gone E ns) d (trace w')"
    and "namespace_gone E ns (trace w) \<Longrightarrow> r = (None, None)"
proof -
  let ?k = "\<lparr>key_namespace = [], key_name = ns\<rparr>"
  have "(\<exists>es. trace w' = es @ trace w) \<and> gone_after (namespace_gone E ns) d (trace w') \<and>
      (namespace_gone E ns (trace w) \<longrightarrow> r = (None, None))"
  proof (cases "ns = []")
    case True
    then show ?thesis
      using run t by (auto simp: deleteTenantNamespace_def State_Monad.return_def gone_after_def namespace_gone_def)
  next
    case False
    show ?thesis
    proof (cases "get_namespace (kube E) ?k (trace w)")
      case (Inl e)
      then have nf: "is_not_found e" "\<And>es. namespace_gone E ns (es @ trace w)"
        using law N unfolding namespace_goes_def by (metis (no_types, lifting) sum.simps(5))+
      have "trace w' = [EvGet KindNamespace ?k] @ trace w" "r = (None, None)"
        using run t False Inl nf(1)
        by (auto simp: deleteTenantNamespace_def kc_defs State_Monad.return_def ignore_not_found_None)
      moreover have "gone_after (namespace_gone E ns) d ([EvGet KindNamespace ?k] @ trace w)"
        unfolding gone_after_def append.assoc [symmetric] using nf(2) by blast
      ultimately show ?thesis by auto
    next
      case (Inr n)
      let ?h = "EvGet KindNamespace ?k # trace w"
      have "gone_after (namespace_gone E ns) d (if ns_terminating n then ?h else EvDelete (KNamespace n) # ?h)"
        using law N Inr unfolding namespace_goes_def gone_after_def by (auto simp: Let_def split: sum.splits)
      moreover have "trace w' = (if ns_terminating n then [EvGet KindNamespace ?k]
          else [EvDelete (KNamespace n), EvGet KindNamespace ?k]) @ trace w"
        using run t False Inr by (auto simp: deleteTenantNamespace_def kc_defs State_Monad.return_def split: if_splits)
      ultimately show ?thesis using Inr False by (auto simp: namespace_gone_def)
    qed
  qed
  then show "\<exists>es. trace w' = es @ trace w" "gone_after (namespace_gone E ns) d (trace w')"
    "namespace_gone E ns (trace w) \<Longrightarrow> r = (None, None)" by auto
qed

lemma tenant_handleDelete_trace:
  assumes laws: "finalizer_laws (lib E)" and fin: "tenantFinalizer \<in> set (om_finalizers (tn_meta t))"
    and u: "run_state (deleteTenantUDN E (tenant_set_phase TenantPhaseDeleting t)) w = (ru, wu)"
    and n: "run_state (deleteTenantNamespace E (tenant_set_phase TenantPhaseDeleting t)) wu = (rn, wn)"
    and run: "run_state (tenant_handleDelete E t) w = (out, w')"
  shows "\<exists>y t' res err. out = Done t' res err \<and> tenantFinalizer \<notin> set (om_finalizers (tn_meta y)) \<and>
    key_of (tn_meta y) = key_of (tn_meta t) \<and> trace w' = (if ru \<noteq> (None, None) then trace wu else if rn \<noteq> (None, None) then trace wn
      else EvUpdate (KTenant y) # trace wn)"
proof -
  let ?y = "tenant_set_finalizers (snd (removeFinalizer (lib E) (om_finalizers (tn_meta t)) tenantFinalizer))
      (tenant_set_phase TenantPhaseDeleting t)"
  have y: "tenantFinalizer \<notin> set (om_finalizers (tn_meta ?y))" "key_of (tn_meta ?y) = key_of (tn_meta t)"
    by (simp_all add: tenant_set_finalizers_def tenant_set_phase_def key_of_def finalizer_simps [OF laws])
  have meta: "tn_meta (tenant_set_phase TenantPhaseDeleting t) = tn_meta t" by (simp add: tenant_set_phase_def)
  obtain ru1 ru2 rn1 rn2 where r: "ru = (ru1, ru2)" "rn = (rn1, rn2)" by (cases ru; cases rn) auto
  have "\<exists>t' res err. out = Done t' res err \<and>
    trace w' = (if ru \<noteq> (None, None) then trace wu else if rn \<noteq> (None, None) then trace wn
      else EvUpdate (KTenant ?y) # trace wn)"
    using run u n fin
    by (auto simp: tenant_handleDelete_def tenant_finish_delete_def meta r Let_def finalizer_simps [OF laws]
        kc_defs State_Monad.return_def split: if_splits sum.splits)
  with y show ?thesis by blast
qed

lemma tenant_round:
  assumes laws: "finalizer_laws (lib E)" and serves: "serves_tenant E key ns h0" and since: "suffix h0 (trace w)"
    and alive: "\<not> tenant_released E key h0 (trace w)"
    and net: "network_goes E ns N d" and space: "namespace_goes E ns N d" and acc: "release_accepted E N"
  defines "w' \<equiv> tenant_step E key w"
  shows "\<exists>es. trace w' = es @ trace w \<and> es \<noteq> []"
    and "N \<le> length (trace w) \<Longrightarrow> gone_after (udn_gone E ns) d (trace w')"
    and "N \<le> length (trace w) \<Longrightarrow> gone_after (udn_gone E ns) 0 (trace w) \<Longrightarrow>
      gone_after (namespace_gone E ns) d (trace w')"
    and "N \<le> length (trace w) \<Longrightarrow> gone_after (udn_gone E ns) 0 (trace w) \<Longrightarrow>
      gone_after (namespace_gone E ns) 0 (trace w) \<Longrightarrow> tenant_released E key h0 (trace w')"
proof -
  let ?w1 = "w\<lparr>trace := EvGet KindTenant key # trace w\<rparr>"
  obtain t where t: "get_tenant (kube E) key (trace w) = Inr t" "deleting (tn_meta t)"
      "tenantFinalizer \<in> set (om_finalizers (tn_meta t))" "ts_namespace (tn_status t) = ns" "key_of (tn_meta t) = key"
    using serves alive since unfolding serves_tenant_def by blast
  let ?t = "tenant_set_phase TenantPhaseDeleting t"
  have ns: "ts_namespace (tn_status ?t) = ns" using t(4) by (simp add: tenant_set_phase_def)
  obtain ru wu where u: "run_state (deleteTenantUDN E ?t) ?w1 = (ru, wu)" by fastforce
  obtain rn wn where n: "run_state (deleteTenantNamespace E ?t) wu = (rn, wn)" by fastforce
  obtain out w2 where run: "run_state (tenant_handleDelete E t) ?w1 = (out, w2)" by fastforce
  obtain y t' res err where y: "out = Done t' res err" "tenantFinalizer \<notin> set (om_finalizers (tn_meta y))"
      "key_of (tn_meta y) = key"
      "trace w2 = (if ru \<noteq> (None, None) then trace wu else if rn \<noteq> (None, None) then trace wn
        else EvUpdate (KTenant y) # trace wn)"
    using tenant_handleDelete_trace [OF laws t(3) u n run] t(5) by blast
  have "trace w' = (if tn_status t' \<noteq> tn_status t then [EvStatusUpdate (KTenant t')] else []) @ trace w2"
    using t(1,2) run y(1)
    by (simp add: w'_def tenant_step_def tenant_Reconcile_def tenant_handle_def kc_defs State_Monad.return_def split_beta)
  then obtain es3 where es3: "trace w' = es3 @ trace w2" by blast
  obtain es1 where es1: "trace wu = es1 @ trace ?w1" using run_deleteTenantUDN [of E ?t ?w1] u by auto
  obtain es2 where es2: "trace wn = es2 @ trace wu" using run_deleteTenantNamespace [of E ?t wu] n by auto
  have from_wu: "\<exists>es. trace w' = es @ trace wu" and from_wn: "ru = (None, None) \<Longrightarrow> \<exists>es. trace w' = es @ trace wn"
    using es3 es2 y(4) by (auto split: if_splits)
  show "\<exists>es. trace w' = es @ trace w \<and> es \<noteq> []"
    using from_wu es1 by auto
  assume N: "N \<le> length (trace w)"
  have N1: "N \<le> length (trace ?w1)" and Nu: "N \<le> length (trace wu)" using N es1 by simp_all
  show "gone_after (udn_gone E ns) d (trace w')"
    using network_round(2) [OF net N1 ns u] from_wu gone_after_mono by metis
  assume gone: "gone_after (udn_gone E ns) 0 (trace w)"
  have "gone_after (udn_gone E ns) 0 ([EvGet KindTenant key] @ trace w)" by (rule gone_after_mono [OF gone])
  then have ru: "ru = (None, None)"
    using network_round(3) [OF net N1 ns u] gone_after_now [of "udn_gone E ns"] by simp
  show "gone_after (namespace_gone E ns) d (trace w')"
    using namespace_round(2) [OF space Nu ns n] from_wn [OF ru] gone_after_mono by metis
  assume gone': "gone_after (namespace_gone E ns) 0 (trace w)"
  have "gone_after (namespace_gone E ns) 0 ((es1 @ [EvGet KindTenant key]) @ trace w)" by (rule gone_after_mono [OF gone'])
  then have "rn = (None, None)"
    using namespace_round(3) [OF space Nu ns n] gone_after_now [of "namespace_gone E ns"] es1 by simp
  then have "trace w' = es3 @ EvUpdate (KTenant y) # trace wn"
    using y(4) ru es3 by simp
  moreover obtain y' where "update_tenant (kube E) y (trace wn) = Inr y'"
    using acc y(2) Nu es2 unfolding release_accepted_def by (metis le_add2 le_trans length_append)
  moreover have "suffix h0 (trace wn)" using since es1 es2 by (auto intro!: suffix_appendI simp: suffix_Cons)
  ultimately show "tenant_released E key h0 (trace w')"
    using y(2,3) unfolding tenant_released_def by blast
qed

lemma tenant_released_append: "tenant_released E key h0 h \<Longrightarrow> tenant_released E key h0 (es @ h)"
  unfolding tenant_released_def by (metis append.assoc)

lemma tenant_step_grows: "\<exists>es. trace (tenant_step E key w) = es @ trace w \<and> es \<noteq> []"
proof -
  have "footprint (\<lambda>e. True) (tenant_handle E t)" for t
    unfolding tenant_handle_def tenant_handleUpdate_def tenant_handleDelete_def tenant_finish_delete_def Let_def
    by (intro fp_intros; simp)
  then show ?thesis
    unfolding tenant_step_def tenant_Reconcile_def kc_get_tenant_def
    by (intro grows_after_get fp_intros; simp)
qed

section \<open>All rounds\<close>

text \<open>The network and the namespace are the two stages of the deletion.\<close>

lemma tenant_teardown:
  assumes "finalizer_laws (lib E)" "serves_tenant E key ns h0" "network_goes E ns N d" "namespace_goes E ns N d"
    and "release_accepted E N"
  shows "staged_teardown (tenant_step E key) (\<lambda>w. suffix h0 (trace w)) (tenant_released E key h0)
    [udn_gone E ns, namespace_gone E ns] N d"
proof (unfold_locales, rule tenant_step_grows, rule tenant_released_append, assumption)
  fix w :: world assume since: "suffix h0 (trace w)"
  show "suffix h0 (trace (tenant_step E key w))"
    using tenant_step_grows [of E key w] since suffix_appendI by metis
  assume alive: "\<not> tenant_released E key h0 (trace w)" and N: "N \<le> length (trace w)"
  note round = tenant_round [OF assms(1,2) since alive assms(3,4,5)]
  show "tenant_released E key h0 (trace (tenant_step E key w)) \<or>
      gone_after ([udn_gone E ns, namespace_gone E ns] ! i) d (trace (tenant_step E key w))"
    if "i < length [udn_gone E ns, namespace_gone E ns]"
      and "\<And>j. j < i \<Longrightarrow> gone_after ([udn_gone E ns, namespace_gone E ns] ! j) 0 (trace w)" for i
    using that(1) that(2) [of 0] round(2,3) [OF N] by (cases i) auto
  show "tenant_released E key h0 (trace (tenant_step E key w))"
    if "\<And>j. j < length [udn_gone E ns, namespace_gone E ns] \<Longrightarrow>
      gone_after ([udn_gone E ns, namespace_gone E ns] ! j) 0 (trace w)"
    using round(4) [OF N] that [of 0] that [of 1] by simp
qed

text \<open>
  The deletion of a tenant terminates. Let the API server serve the tenant, being deleted,
  until it accepts an update without the finalizer, and from the \<open>N\<close>-th event on accept such an
  update, accept the deletion of the tenant's network and of its namespace, and carry each out
  within \<open>d\<close> events. Then \<open>N + 2 d + 3\<close> reconciliations are enough, whatever errors, refused
  deletions and lost status updates came before, and whatever else was done between them.
\<close>

theorem tenant_deletion_terminates:
  assumes laws: "finalizer_laws (lib E)" and serves: "serves_tenant E key ns h0" and start: "suffix h0 (trace w0)"
    and net: "network_goes E ns N d" and space: "namespace_goes E ns N d" and acc: "release_accepted E N"
    and run: "rounds_among (tenant_step E key) (\<lambda>w. suffix h0 (trace w)) w0 M w" and M: "N + 2 * d + 3 \<le> M"
  shows "tenant_released E key h0 (trace w)"
  by (rule staged_teardown.terminates [OF tenant_teardown [OF laws serves net space acc] run start]) (use M in simp_all)

text \<open>A cluster in which an object is gone two events after it was asked to be deleted.\<close>

definition leaving_tenant :: tenant where
  "leaving_tenant = sample_tenant\<lparr>tn_meta := (tn_meta sample_tenant)\<lparr>om_deletionTimestamp := Some 1\<rparr>\<rparr>"

definition leaving_udn :: user_defined_network where
  "leaving_udn = new_tenant_udn sample_tenant ''sub''"

definition leaving_namespace :: namespace_obj where
  "leaving_namespace = new_tenant_namespace sample_tenant"

definition leaving_env :: env where
  "leaving_env = ref_env\<lparr>kube := ref_kube\<lparr>
     get_tenant := (\<lambda>k h. Inr leaving_tenant),
     get_udn := (\<lambda>k h. if EvDelete (KUserDefinedNetwork leaving_udn) \<in> set (drop 2 h)
       then Inl ref_not_found else Inr leaving_udn),
     get_namespace := (\<lambda>k h. if EvDelete (KNamespace leaving_namespace) \<in> set (drop 2 h)
       then Inl ref_not_found else Inr leaving_namespace)\<rparr>\<rparr>"

lemma leaving_env_simps [simp]:
  "lib leaving_env = ref_lib" "get_tenant (kube leaving_env) k h = Inr leaving_tenant"
  "get_udn (kube leaving_env) k h = (if EvDelete (KUserDefinedNetwork leaving_udn) \<in> set (drop 2 h)
     then Inl ref_not_found else Inr leaving_udn)"
  "get_namespace (kube leaving_env) k h = (if EvDelete (KNamespace leaving_namespace) \<in> set (drop 2 h)
     then Inl ref_not_found else Inr leaving_namespace)"
  "delete_udn (kube leaving_env) u h = None" "delete_namespace (kube leaving_env) n h = None"
  "update_tenant (kube leaving_env) y h = Inr y"
  by (simp_all add: leaving_env_def ref_kube_def)

lemma leaving_env_laws:
  "serves_tenant leaving_env (key_of (tn_meta sample_tenant)) ''sub'' []" "network_goes leaving_env ''sub'' 0 2"
  "namespace_goes leaving_env ''sub'' 0 2" "release_accepted leaving_env 0"
proof -
  show "serves_tenant leaving_env (key_of (tn_meta sample_tenant)) ''sub'' []"
    by (simp add: serves_tenant_def leaving_tenant_def sample_tenant_simps deleting_def is_zero_time_def
        zero_time_def key_of_def)
  show "release_accepted leaving_env 0" by (simp add: release_accepted_def)
  show "network_goes leaving_env ''sub'' 0 2"
    by (simp add: network_goes_def udn_gone_def set_drop_later)
  have "\<not> ns_terminating leaving_namespace" by (simp add: leaving_namespace_def new_tenant_namespace_def)
  then show "namespace_goes leaving_env ''sub'' 0 2"
    by (simp add: namespace_goes_def namespace_gone_def set_drop_later)
qed

interpretation leaving: staged_teardown
  "tenant_step leaving_env (key_of (tn_meta sample_tenant))" "\<lambda>w. suffix [] (trace w)"
  "tenant_released leaving_env (key_of (tn_meta sample_tenant)) []"
  "[udn_gone leaving_env ''sub'', namespace_gone leaving_env ''sub'']" 0 2
  by (rule tenant_teardown) (simp_all add: leaving_env_laws ref_finalizer_laws)

theorem tenant_deletion_terminates_witness:
  "tenant_released leaving_env (key_of (tn_meta sample_tenant)) []
     (trace ((tenant_step leaving_env (key_of (tn_meta sample_tenant)) ^^ 7) empty_world))"
  by (rule tenant_deletion_terminates [OF _ leaving_env_laws(1) _ leaving_env_laws(2-4),
        OF _ _ rounds_among_self])
    (simp_all add: ref_finalizer_laws)

end
