(* ===== verification/Cluster_Order_Deletion.thy ===== *)
theory Cluster_Order_Deletion
  imports Ownership Teardown
begin

text \<open>
  The deletion of a cluster order, reconciliation after reconciliation. The hosted cluster is
  the first stage: the operator does not delete it, it announces the deletion at the delete
  webhook and waits, and the cache of the webhook client may keep it from asking again. What
  the client has cached it has sent, which is the invariant of the rounds. The namespace is the
  second stage, and the finalizer comes last.
\<close>

section \<open>Rounds\<close>

definition order_step :: "env \<Rightarrow> cluster_order_reconciler \<Rightarrow> object_key \<Rightarrow> world \<Rightarrow> world" where
  "order_step E r key w = snd (run_state (co_Reconcile E r key) w)"

text \<open>Since the history \<open>h0\<close> an update of the order without the finalizer has been accepted.\<close>

definition order_released :: "env \<Rightarrow> object_key \<Rightarrow> history \<Rightarrow> history \<Rightarrow> bool" where
  "order_released E key h0 h \<longleftrightarrow>
     (\<exists>later y before y'. h = later @ EvUpdate (KClusterOrder y) # before \<and> suffix h0 before \<and>
        key_of (co_meta y) = key \<and> cloudkitFinalizer \<notin> set (om_finalizers (co_meta y)) \<and> update_cluster_order (kube E) y before = Inr y')"

text \<open>Until then the API server serves the order, being deleted and under full management.\<close>

definition serves_order :: "env \<Rightarrow> object_key \<Rightarrow> string \<Rightarrow> history \<Rightarrow> bool" where
  "serves_order E key name h0 \<longleftrightarrow>
     (\<forall>h. suffix h0 h \<and> \<not> order_released E key h0 h \<longrightarrow>
       (\<exists>co. get_cluster_order (kube E) key h = Inr co \<and> key_of (co_meta co) = key \<and> deleting (co_meta co) \<and>
          cloudkitFinalizer \<in> set (om_finalizers (co_meta co)) \<and> \<not> co_unmanaged co \<and> \<not> co_manual co \<and>
          ClusterOrder_GetName co = name))"

text \<open>Since \<open>h0\<close> the delete webhook has accepted a request for an order of the name.\<close>

definition deletion_request :: "env \<Rightarrow> cluster_order_reconciler \<Rightarrow> string \<Rightarrow> http_request \<Rightarrow> bool" where
  "deletion_request E r name rq \<longleftrightarrow>
     (\<exists>co j. ClusterOrder_GetName co = name \<and> marshal_cluster_order (lib E) co = Inr j \<and>
        rq = webhook_request (lib E) (cor_deleteClusterWebhook r) j)"

definition accepts_request :: "env \<Rightarrow> cluster_order_reconciler \<Rightarrow> http_request \<Rightarrow> history \<Rightarrow> bool" where
  "accepts_request E r rq h \<longleftrightarrow>
     (case http_do E (wc_clientTimeout (cor_webhookClient r)) rq h of
        Inl _ \<Rightarrow> False | Inr a \<Rightarrow> is_success_code (hs_statusCode a))"

definition deletion_announced ::
    "env \<Rightarrow> cluster_order_reconciler \<Rightarrow> string \<Rightarrow> history \<Rightarrow> history \<Rightarrow> bool" where
  "deletion_announced E r name h0 h \<longleftrightarrow>
     (\<exists>later rq before. h = later @ EvHttp rq # before \<and> suffix h0 before \<and> deletion_request E r name rq \<and>
        accepts_request E r rq before)"

text \<open>
  The environment's side, from the \<open>N\<close>-th event on. The delete webhook accepts requests; once it
  has, the hosted cluster is gone \<open>d\<close> events later, for good; what the API server no longer
  lists does not come back; it accepts the deletion of the one namespace, which is gone \<open>d\<close>
  events later; and it accepts the update that gives up the finalizer.
\<close>

definition webhook_answers :: "env \<Rightarrow> cluster_order_reconciler \<Rightarrow> string \<Rightarrow> nat \<Rightarrow> bool" where
  "webhook_answers E r name N \<longleftrightarrow>
     cor_deleteClusterWebhook r \<noteq> [] \<and> http_new E ''POST'' (cor_deleteClusterWebhook r) = None \<and>
     (\<forall>co. ClusterOrder_GetName co = name \<longrightarrow> (\<exists>j. marshal_cluster_order (lib E) co = Inr j)) \<and>
     (\<forall>h rq. N \<le> length h \<and> deletion_request E r name rq \<longrightarrow> accepts_request E r rq h)"

definition order_selector :: "string \<Rightarrow> (string \<times> string) list" where
  "order_selector name = [(cloudkitClusterOrderNameLabel, name)]"

definition hosted_gone :: "env \<Rightarrow> string \<Rightarrow> string \<Rightarrow> history \<Rightarrow> bool" where
  "hosted_gone E name ns h \<longleftrightarrow> list_hosted_clusters (kube E) ns (order_selector name) h = Inr []"

definition space_gone :: "env \<Rightarrow> string \<Rightarrow> history \<Rightarrow> bool" where
  "space_gone E name h \<longleftrightarrow> list_namespaces (kube E) (order_selector name) h = Inr []"

definition hosted_goes ::
    "env \<Rightarrow> cluster_order_reconciler \<Rightarrow> string \<Rightarrow> string \<Rightarrow> history \<Rightarrow> nat \<Rightarrow> nat \<Rightarrow> bool" where
  "hosted_goes E r name ns h0 N d \<longleftrightarrow>
     (\<forall>h. N \<le> length h \<longrightarrow>
        (hosted_gone E name ns h \<and> gone_after (hosted_gone E name ns) 0 h \<or>
         (\<exists>hc. list_hosted_clusters (kube E) ns (order_selector name) h = Inr [hc])) \<and>
        (deletion_announced E r name h0 h \<longrightarrow> gone_after (hosted_gone E name ns) d h))"

definition space_goes :: "env \<Rightarrow> string \<Rightarrow> string \<Rightarrow> nat \<Rightarrow> nat \<Rightarrow> bool" where
  "space_goes E name ns N d \<longleftrightarrow>
     (\<forall>h. N \<le> length h \<longrightarrow>
        space_gone E name h \<and> gone_after (space_gone E name) 0 h \<or>
        (\<exists>n. list_namespaces (kube E) (order_selector name) h = Inr [n] \<and> om_name (ns_meta n) = ns \<and>
           (let h' = EvList KindHostedCluster (Some ns) (order_selector name) #
                  EvList KindNamespace None (order_selector name) # h
            in delete_namespace (kube E) n h' = None \<and>
               gone_after (space_gone E name) d (EvDelete (KNamespace n) # h'))))"

definition order_release_accepted :: "env \<Rightarrow> nat \<Rightarrow> bool" where
  "order_release_accepted E N \<longleftrightarrow>
     (\<forall>h y. N \<le> length h \<and> cloudkitFinalizer \<notin> set (om_finalizers (co_meta y)) \<longrightarrow>
        (\<exists>y'. update_cluster_order (kube E) y h = Inr y'))"

section \<open>The webhook and its cache\<close>

text \<open>What the client has cached under the order's key it has sent since \<open>h0\<close>, with success.\<close>

definition cached_announced :: "env \<Rightarrow> cluster_order_reconciler \<Rightarrow> string \<Rightarrow> history \<Rightarrow> world \<Rightarrow> bool" where
  "cached_announced E r name h0 w \<longleftrightarrow> suffix h0 (trace w) \<and>
     (cache_key (cor_deleteClusterWebhook r) name \<in> fst ` set (inflight w) \<longrightarrow> deletion_announced E r name h0 (trace w))"

lemma deletion_announced_append:
  "deletion_announced E r name h0 h \<Longrightarrow> deletion_announced E r name h0 (es @ h)"
  unfolding deletion_announced_def by (metis append.assoc)

lemma cached_announced_later:
  "cached_announced E r name h0 w \<Longrightarrow> fst ` set (inflight w') \<subseteq> fst ` set (inflight w) \<Longrightarrow> trace w' = es @ trace w \<Longrightarrow>
   cached_announced E r name h0 w'"
  unfolding cached_announced_def using deletion_announced_append suffix_appendI by auto

lemma purge_keys: "fst ` set (inflight (snd (run_state (purgeExpiredRequests E wc) w))) \<subseteq> fst ` set (inflight w)"
  by (simp add: run_purge image_mono purge_loop_subset)

lemma after_check_keys: "fst ` set (inflight (after_check E wc key w)) \<subseteq> fst ` set (inflight w)"
  by (auto simp: after_check_def run_purge split: option.split intro!: imageI dest!: subsetD [OF purge_loop_subset])

lemma cached_announced_check:
  assumes "cached_announced E r name h0 w"
  shows "cached_announced E r name h0 (after_check E wc key w)"
proof -
  obtain n where "trace (after_check E wc key w) = replicate n EvNow @ trace w" using after_check_frame(2) by blast
  then show ?thesis by (rule cached_announced_later [OF assms after_check_keys])
qed

lemma pending_in_cache: "pending_delta E wc key w \<noteq> 0 \<Longrightarrow> key \<in> fst ` set (inflight w)"
  by (auto simp: pending_delta_def image_iff split: option.splits dest: map_of_SomeD intro: rev_bexI)

lemma cache_key_inject [simp]: "cache_key url a = cache_key url b \<longleftrightarrow> a = b"
  by (simp add: cache_key_def)

lemma sent_announces:
  assumes "send_result E (cor_webhookClient r) (cor_deleteClusterWebhook r) (ResClusterOrder co) h = (Ok 0, es)"
    and since: "suffix h0 h"
  shows "deletion_announced E r (ClusterOrder_GetName co) h0 (es @ h)"
proof -
  obtain j a where "marshal_cluster_order (lib E) co = Inr j"
      "es = [EvHttp (webhook_request (lib E) (cor_deleteClusterWebhook r) j)]"
      "http_do E (wc_clientTimeout (cor_webhookClient r)) (webhook_request (lib E) (cor_deleteClusterWebhook r) j) h =
         Inr a" "is_success_code (hs_statusCode a)"
    using assms(1) by (auto simp: send_result_def Let_def split: sum.splits option.splits if_splits)
  with since show ?thesis
    unfolding deletion_announced_def deletion_request_def accepts_request_def
    by (intro exI [of _ "[]"] exI [of _ "webhook_request (lib E) (cor_deleteClusterWebhook r) j"] exI [of _ h]) auto
qed

text \<open>
  A call keeps the invariant, whichever order it is about, and whichever webhook it calls
  unless the cache takes it for a call of the delete webhook.
\<close>

lemma trigger_keeps_cached:
  fixes co :: cluster_order
  assumes inv: "cached_announced E r name h0 w"
    and url: "url \<noteq> cor_deleteClusterWebhook r \<Longrightarrow>
      cache_key url (ClusterOrder_GetName co) \<noteq> cache_key (cor_deleteClusterWebhook r) name"
  defines "w' \<equiv> snd (run_state (triggerWebhook E (cor_webhookClient r) url (ResClusterOrder co)) w)"
  shows "cached_announced E r name h0 w'"
proof -
  let ?wc = "cor_webhookClient r"
  let ?key = "cache_key url (ClusterOrder_GetName co)"
  let ?w1 = "after_check E ?wc ?key w"
  have inv1: "cached_announced E r name h0 ?w1" by (rule cached_announced_check [OF inv])
  show ?thesis
  proof (cases "pending_delta E ?wc ?key w = 0")
    case False
    then show ?thesis unfolding w'_def by (simp add: triggerWebhook_early inv1)
  next
    case True
    obtain res es where s: "send_result E ?wc url (ResClusterOrder co) (trace ?w1) = (res, es)" by fastforce
    let ?w2 = "?w1\<lparr>trace := es @ trace ?w1\<rparr>"
    have inv2: "cached_announced E r name h0 ?w2" by (rule cached_announced_later [OF inv1]) auto
    show ?thesis
    proof (cases "res = Ok 0")
      case False
      with True s inv2 show ?thesis unfolding w'_def by (simp add: triggerWebhook_send)
    next
      case sent: True
      let ?w3 = "?w2\<lparr>trace := EvNow # trace ?w2, inflight := AList.update ?key (clock E (trace ?w2)) (inflight ?w2)\<rparr>"
      have w': "w' = snd (run_state (purgeExpiredRequests E ?wc) ?w3)"
        using True s sent unfolding w'_def by (simp add: triggerWebhook_send run_addInflight)
      have since: "suffix h0 (trace ?w1)" using inv1 by (simp add: cached_announced_def)
      have "deletion_announced E r name h0 (trace ?w3)" if "cache_key (cor_deleteClusterWebhook r) name = ?key"
      proof -
        from that url have u: "url = cor_deleteClusterWebhook r" by metis
        with that have "ClusterOrder_GetName co = name" by simp
        then show ?thesis
          using sent_announces [OF _ since, of E r co es] s sent u
            deletion_announced_append [of E r name h0 "es @ trace ?w1" "[EvNow]"] by simp
      qed
      then have "cached_announced E r name h0 ?w3"
        using cached_announced_later [OF inv2, of "?w2\<lparr>trace := EvNow # trace ?w2\<rparr>" "[EvNow]"]
        by (auto simp: cached_announced_def dom_update [unfolded dom_map_of_conv_image_fst])
      then show ?thesis
        unfolding w' by (rule cached_announced_later [OF _ purge_keys]) (simp add: run_purge)
    qed
  qed
qed

text \<open>Once the webhook answers, the deletion has been announced after a call.\<close>

lemma trigger_announces:
  assumes inv: "cached_announced E r name h0 w" and law: "webhook_answers E r name N" and N: "N \<le> length (trace w)"
    and name: "ClusterOrder_GetName co = name"
  defines "w' \<equiv> snd (run_state (triggerWebhook E (cor_webhookClient r) (cor_deleteClusterWebhook r) (ResClusterOrder co)) w)"
  shows "deletion_announced E r name h0 (trace w')"
proof -
  let ?wc = "cor_webhookClient r" and ?url = "cor_deleteClusterWebhook r"
  let ?key = "cache_key ?url name"
  let ?w1 = "after_check E ?wc ?key w"
  obtain n where n: "trace ?w1 = replicate n EvNow @ trace w" using after_check_frame(2) by blast
  show ?thesis
  proof (cases "pending_delta E ?wc ?key w = 0")
    case False
    then have "deletion_announced E r name h0 (trace w)"
      using inv pending_in_cache unfolding cached_announced_def by blast
    with False n show ?thesis
      unfolding w'_def by (simp add: triggerWebhook_early name deletion_announced_append)
  next
    case True
    obtain j where j: "marshal_cluster_order (lib E) co = Inr j" "http_new E ''POST'' ?url = None"
      using law name unfolding webhook_answers_def by blast
    let ?rq = "webhook_request (lib E) ?url j"
    have "deletion_request E r name ?rq" unfolding deletion_request_def using j name by blast
    moreover have "N \<le> length (trace ?w1)" using N n by simp
    ultimately have "accepts_request E r ?rq (trace ?w1)" using law unfolding webhook_answers_def by blast
    then have s: "send_result E ?wc ?url (ResClusterOrder co) (trace ?w1) = (Ok 0, [EvHttp ?rq])"
      using j by (auto simp: send_result_def accepts_request_def Let_def split: sum.splits)
    moreover have "suffix h0 (trace ?w1)" using cached_announced_check [OF inv] by (simp add: cached_announced_def name)
    ultimately have "deletion_announced E r name h0 (EvHttp ?rq # trace ?w1)" using sent_announces name by fastforce
    moreover have "\<exists>m. trace w' = replicate m EvNow @ EvHttp ?rq # trace ?w1"
      unfolding w'_def using True s
      by (auto simp: triggerWebhook_send name run_addInflight run_purge replicate_app_Cons_same
          intro: exI [of _ "Suc m" for m])
    ultimately show ?thesis using deletion_announced_append by metis
  qed
qed

section \<open>One round\<close>

lemma co_webhook_keeps_cached:
  "cached_announced E r name h0 w \<Longrightarrow>
   (url \<noteq> cor_deleteClusterWebhook r \<Longrightarrow>
      cache_key url (ClusterOrder_GetName co) \<noteq> cache_key (cor_deleteClusterWebhook r) name) \<Longrightarrow>
   cached_announced E r name h0 (snd (run_state (co_webhook E r url co) w))"
  using trigger_keeps_cached [of E r name h0 w url co]
  by (simp add: co_webhook_def State_Monad.return_def split_beta)

lemma co_webhook_announces:
  assumes "cached_announced E r name h0 w" "webhook_answers E r name N" "N \<le> length (trace w)"
    and "ClusterOrder_GetName co = name" "\<not> co_manual co"
  shows "deletion_announced E r name h0 (trace (snd (run_state (co_webhook E r (cor_deleteClusterWebhook r) co) w)))"
proof -
  have "cor_deleteClusterWebhook r \<noteq> []" using assms(2) by (simp add: webhook_answers_def)
  then show ?thesis
    using trigger_announces [OF assms(1-4)] assms(5)
    by (simp add: co_webhook_def State_Monad.return_def split_beta)
qed

lemma co_webhook_grows: "\<exists>es. trace (snd (run_state (co_webhook E r url co) w)) = es @ trace w"
proof -
  have "footprint (\<lambda>e. True) (co_webhook E r url co)" by (rule footprint_co_webhook) simp_all
  then show ?thesis by (rule footprintD) (auto intro: prod.collapse [symmetric])
qed

text \<open>The part of the handler before the webhook changes the trace only.\<close>

lemma delete_resources_inflight: "inflight (snd (run_state (co_delete_resources E co) w)) = inflight w"
  by (simp add: co_delete_resources_def co_findNamespace_def findHostedCluster_def co_release_def kc_defs Let_def
      State_Monad.return_def split_beta split: sum.split option.split)

lemma delete_resources_grows:
  "\<exists>es. trace (snd (run_state (co_delete_resources E co) w)) = es @ trace w"
proof -
  have "footprint (\<lambda>e. True) (co_delete_resources E co)" by (intro fp_intros) simp_all
  then show ?thesis by (rule footprintD) (auto intro: prod.collapse [symmetric])
qed

lemma run_delete_resources:
  assumes name: "ClusterOrder_GetName co = name"
  shows "list_namespaces (kube E) (order_selector name) (trace w) = Inr [] \<Longrightarrow>
      run_state (co_delete_resources E co) w =
        run_state (co_release E co) (w\<lparr>trace := EvList KindNamespace None (order_selector name) # trace w\<rparr>)"
    and "list_namespaces (kube E) (order_selector name) (trace w) = Inr [n] \<Longrightarrow> om_name (ns_meta n) = ns \<Longrightarrow>
      list_hosted_clusters (kube E) ns (order_selector name)
        (EvList KindNamespace None (order_selector name) # trace w) = Inr [hc] \<Longrightarrow>
      run_state (co_delete_resources E co) w = ((co, None), w\<lparr>trace :=
        EvList KindHostedCluster (Some ns) (order_selector name) #
        EvList KindNamespace None (order_selector name) # trace w\<rparr>)"
    and "list_namespaces (kube E) (order_selector name) (trace w) = Inr [n] \<Longrightarrow> om_name (ns_meta n) = ns \<Longrightarrow>
      list_hosted_clusters (kube E) ns (order_selector name)
        (EvList KindNamespace None (order_selector name) # trace w) = Inr [] \<Longrightarrow>
      trace (snd (run_state (co_delete_resources E co) w)) = EvDelete (KNamespace n) #
        EvList KindHostedCluster (Some ns) (order_selector name) #
        EvList KindNamespace None (order_selector name) # trace w"
  using name
  by (simp_all add: co_delete_resources_def co_findNamespace_def findHostedCluster_def kc_defs State_Monad.return_def
      labelSelectorFromInstance_def order_selector_def)

lemma release_releases:
  assumes laws: "finalizer_laws (lib E)" and fin: "cloudkitFinalizer \<in> set (om_finalizers (co_meta co))"
    and acc: "order_release_accepted E N" "N \<le> length (trace w)"
    and key: "key_of (co_meta co) = key" and since: "suffix h0 (trace w)"
  shows "order_released E key h0 (trace (snd (run_state (co_release E co) w)))"
proof -
  let ?y = "co_set_finalizers (snd (removeFinalizer (lib E) (om_finalizers (co_meta co)) cloudkitFinalizer)) co"
  have y: "cloudkitFinalizer \<notin> set (om_finalizers (co_meta ?y))" "key_of (co_meta ?y) = key"
    using key by (simp_all add: co_set_finalizers_def key_of_def finalizer_simps [OF laws])
  with acc obtain y' where "update_cluster_order (kube E) ?y (trace w) = Inr y'"
    unfolding order_release_accepted_def by blast
  moreover have "trace (snd (run_state (co_release E co) w)) = [] @ EvUpdate (KClusterOrder ?y) # trace w"
    using fin by (simp add: co_release_def Let_def kc_defs State_Monad.return_def split_beta finalizer_simps [OF laws])
  ultimately show ?thesis using y since unfolding order_released_def by blast
qed

lemma order_released_append: "order_released E key h0 h \<Longrightarrow> order_released E key h0 (es @ h)"
  unfolding order_released_def by (metis append.assoc)

text \<open>The whole round, as its parts.\<close>

lemma co_Reconcile_world:
  fixes r :: cluster_order_reconciler
  assumes co: "get_cluster_order (kube E) key (trace w) = Inr co" "deleting (co_meta co)" "\<not> co_unmanaged co"
  defines "w1 \<equiv> w\<lparr>trace := EvGet KindClusterOrder key # trace w\<rparr>"
  defines "p \<equiv> run_state (co_delete_resources E (co_set_phase ClusterOrderPhaseDeleting co)) w1"
  defines "w2 \<equiv> (if snd (fst p) = None
    then snd (run_state (co_webhook E r (cor_deleteClusterWebhook r) (fst (fst p))) (snd p)) else snd p)"
  obtains es where "snd (run_state (co_Reconcile E r key) w) = w2\<lparr>trace := es @ trace w2\<rparr>"
proof -
  have w2: "snd (run_state (co_handleDelete E r co) w1) = w2"
    by (simp add: co_handleDelete_def w2_def p_def split_beta State_Monad.return_def split: option.split)
  show thesis
  proof (cases "fst (run_state (co_handleDelete E r co) w1)")
    case (Panicked s)
    then show thesis
      using co w2 by (intro that [of "[]"]) (simp add: co_Reconcile_def co_handle_def kc_defs State_Monad.return_def
          split_beta w1_def)
  next
    case (Done co' res err)
    then show thesis
      using co w2 by (intro that [of "if err = None \<and> co_status co' \<noteq> co_status co
          then [EvStatusUpdate (KClusterOrder co')] else []"])
        (simp add: co_Reconcile_def co_handle_def kc_defs State_Monad.return_def split_beta w1_def)
  qed
qed

lemma order_round:
  assumes laws: "finalizer_laws (lib E)" and serves: "serves_order E key name h0"
    and alive: "\<not> order_released E key h0 (trace w)" and inv: "cached_announced E r name h0 w"
    and hook: "webhook_answers E r name N" and hosted: "hosted_goes E r name ns h0 N d"
    and space: "space_goes E name ns N d" and acc: "order_release_accepted E N"
  defines "w' \<equiv> order_step E r key w"
  shows "cached_announced E r name h0 w'"
    and "\<exists>es. trace w' = es @ trace w \<and> es \<noteq> []"
    and "N \<le> length (trace w) \<Longrightarrow> order_released E key h0 (trace w') \<or> gone_after (hosted_gone E name ns) d (trace w')"
    and "N \<le> length (trace w) \<Longrightarrow> gone_after (hosted_gone E name ns) 0 (trace w) \<Longrightarrow>
      order_released E key h0 (trace w') \<or> gone_after (space_gone E name) d (trace w')"
    and "N \<le> length (trace w) \<Longrightarrow> gone_after (space_gone E name) 0 (trace w) \<Longrightarrow> order_released E key h0 (trace w')"
proof -
  let ?w1 = "w\<lparr>trace := EvGet KindClusterOrder key # trace w\<rparr>"
  obtain co where co: "get_cluster_order (kube E) key (trace w) = Inr co" "deleting (co_meta co)"
      "cloudkitFinalizer \<in> set (om_finalizers (co_meta co))" "\<not> co_unmanaged co" "\<not> co_manual co"
      "ClusterOrder_GetName co = name" "key_of (co_meta co) = key"
    using serves alive inv unfolding cached_announced_def serves_order_def by blast
  let ?co = "co_set_phase ClusterOrderPhaseDeleting co"
  have co': "ClusterOrder_GetName ?co = name" "\<not> co_manual ?co" "co_meta ?co = co_meta co"
    using co(5,6) by (simp_all add: co_set_phase_def ClusterOrder_GetName_def co_manual_def)
  let ?p = "run_state (co_delete_resources E ?co) ?w1"
  let ?hook = "\<lambda>p. snd (run_state (co_webhook E r (cor_deleteClusterWebhook r) (fst (fst p))) (snd p))"
  let ?w2 = "if snd (fst ?p) = None then ?hook ?p else snd ?p"
  obtain es3 where w': "w' = ?w2\<lparr>trace := es3 @ trace ?w2\<rparr>"
    using co_Reconcile_world [OF co(1,2,4), of r] unfolding w'_def order_step_def by metis
  obtain es1 where es1: "trace (snd ?p) = es1 @ trace ?w1" using delete_resources_grows by blast
  have inv_p: "cached_announced E r name h0 (snd ?p)"
    by (rule cached_announced_later [OF inv, of _ "es1 @ [EvGet KindClusterOrder key]"])
      (simp_all add: delete_resources_inflight es1)
  then have inv2: "cached_announced E r name h0 ?w2" using co_webhook_keeps_cached by simp
  then show "cached_announced E r name h0 w'" unfolding w' by (rule cached_announced_later) auto
  have "\<exists>es2. trace ?w2 = es2 @ trace (snd ?p)" using co_webhook_grows by simp
  then obtain es2 where es2: "trace w' = es2 @ trace (snd ?p)" using w' by auto
  then show "\<exists>es. trace w' = es @ trace w \<and> es \<noteq> []" using es1 by simp
  assume N: "N \<le> length (trace w)"
  let ?l = "EvList KindNamespace None (order_selector name)"
  have N1: "N \<le> length (trace ?w1)" and N2: "N \<le> length (?l # trace ?w1)" and Np: "N \<le> length (trace (snd ?p))"
    using N es1 by simp_all
  have released: "order_released E key h0 (trace w')" if "space_gone E name (trace ?w1)"
  proof -
    have "?p = run_state (co_release E ?co) (?w1\<lparr>trace := ?l # trace ?w1\<rparr>)"
      using run_delete_resources(1) [OF co'(1), of E ?w1] that by (simp add: space_gone_def)
    then have "order_released E key h0 (trace (snd ?p))"
      using release_releases [OF laws, of ?co N "?w1\<lparr>trace := ?l # trace ?w1\<rparr>" key h0] co(3,7) co'(3) acc N inv
      by (simp add: cached_announced_def suffix_Cons)
    then show ?thesis unfolding es2 by (rule order_released_append)
  qed
  consider (gone) "space_gone E name (trace ?w1)"
    | (there) n where "list_namespaces (kube E) (order_selector name) (trace ?w1) = Inr [n]" "om_name (ns_meta n) = ns"
        "gone_after (space_gone E name) d (EvDelete (KNamespace n) #
           EvList KindHostedCluster (Some ns) (order_selector name) # ?l # trace ?w1)"
    using space [unfolded space_goes_def Let_def, rule_format, OF N1] by blast
  note spaces = this
  consider (no_cluster) "gone_after (hosted_gone E name ns) 0 (?l # trace ?w1)"
      "list_hosted_clusters (kube E) ns (order_selector name) (?l # trace ?w1) = Inr []"
    | (cluster) hc where "list_hosted_clusters (kube E) ns (order_selector name) (?l # trace ?w1) = Inr [hc]"
    using hosted [unfolded hosted_goes_def, rule_format, OF N2] unfolding hosted_gone_def by blast
  note clusters = this
  show "order_released E key h0 (trace w') \<or> gone_after (hosted_gone E name ns) d (trace w')"
  proof (cases rule: spaces)
    case (there n)
    show ?thesis
    proof (cases rule: clusters)
      case no_cluster
      have "gone_after (hosted_gone E name ns) 0 ([EvDelete (KNamespace n),
          EvList KindHostedCluster (Some ns) (order_selector name)] @ ?l # trace ?w1)"
        by (rule gone_after_mono) (rule no_cluster(1))
      then have "gone_after (hosted_gone E name ns) 0 (trace (snd ?p))"
        using run_delete_resources(3) [OF co'(1) there(1,2) no_cluster(2)] by simp
      then show ?thesis unfolding es2 using gone_after_mono gone_after_weaken by blast
    next
      case (cluster hc)
      then have p: "?p = ((?co, None), ?w1\<lparr>trace := EvList KindHostedCluster (Some ns) (order_selector name) #
          ?l # trace ?w1\<rparr>)"
        using run_delete_resources(2) [OF co'(1) there(1,2)] by blast
      then have "deletion_announced E r name h0 (trace (?hook ?p))"
        using co_webhook_announces [OF inv_p hook Np, of ?co] co' by simp
      then have "deletion_announced E r name h0 (trace w')"
        using p unfolding w' by (simp add: deletion_announced_append)
      moreover have "N \<le> length (trace w')" using Np es2 by simp
      ultimately show ?thesis using hosted unfolding hosted_goes_def by blast
    qed
  qed (rule disjI1, rule released)
  show "order_released E key h0 (trace w')" if gone: "gone_after (space_gone E name) 0 (trace w)"
    by (rule released) (use gone_after_now [OF gone_after_mono [OF gone, of "[EvGet KindClusterOrder key]"]] in simp)
  assume gone: "gone_after (hosted_gone E name ns) 0 (trace w)"
  have none: "list_hosted_clusters (kube E) ns (order_selector name) (?l # trace ?w1) = Inr []"
    using gone_after_now [OF gone_after_mono [OF gone, of "[?l, EvGet KindClusterOrder key]"]]
    by (simp add: hosted_gone_def)
  show "order_released E key h0 (trace w') \<or> gone_after (space_gone E name) d (trace w')"
  proof (cases rule: spaces)
    case (there n)
    have "gone_after (space_gone E name) d (trace (snd ?p))"
      using run_delete_resources(3) [OF co'(1) there(1,2) none] there(3) by simp
    then show ?thesis unfolding es2 using gone_after_mono by blast
  qed (rule disjI1, rule released)
qed

lemma order_step_grows: "\<exists>es. trace (order_step E r key w) = es @ trace w \<and> es \<noteq> []"
proof -
  have "footprint (\<lambda>e. True) (co_handle E r co)" for co
    unfolding co_handle_def co_handleDelete_def co_handleUpdate_def co_update_cluster_def Let_def
    by (intro fp_intros footprint_co_webhook; simp)
  then show ?thesis
    unfolding order_step_def co_Reconcile_def kc_get_co_def
    by (intro grows_after_get fp_intros; simp)
qed

section \<open>All rounds\<close>

text \<open>The hosted cluster and the namespace are the two stages of the deletion.\<close>

lemma order_teardown:
  assumes "finalizer_laws (lib E)" "serves_order E key name h0" "webhook_answers E r name N" "hosted_goes E r name ns h0 N d"
    and "space_goes E name ns N d" "order_release_accepted E N"
  shows "staged_teardown (order_step E r key) (cached_announced E r name h0) (order_released E key h0)
    [hosted_gone E name ns, space_gone E name] N d"
proof (unfold_locales, rule order_step_grows, rule order_released_append, assumption)
  fix w :: world assume known: "cached_announced E r name h0 w" and alive: "\<not> order_released E key h0 (trace w)"
  note round = order_round [OF assms(1,2) alive known assms(3-6)]
  show "cached_announced E r name h0 (order_step E r key w)" by (rule round(1))
  assume N: "N \<le> length (trace w)"
  show "order_released E key h0 (trace (order_step E r key w)) \<or>
      gone_after ([hosted_gone E name ns, space_gone E name] ! i) d (trace (order_step E r key w))"
    if "i < length [hosted_gone E name ns, space_gone E name]"
      and "\<And>j. j < i \<Longrightarrow> gone_after ([hosted_gone E name ns, space_gone E name] ! j) 0 (trace w)" for i
    using that(1) that(2) [of 0] round(3,4) [OF N] by (cases i) auto
  show "order_released E key h0 (trace (order_step E r key w))"
    if "\<And>j. j < length [hosted_gone E name ns, space_gone E name] \<Longrightarrow>
      gone_after ([hosted_gone E name ns, space_gone E name] ! j) 0 (trace w)"
    using round(5) [OF N] that [of 1] by simp
qed

text \<open>
  A reconciliation of any order keeps the invariant, provided that the cache does not take a
  call of the create webhook for a call of the delete webhook.
\<close>

definition webhooks_apart :: "cluster_order_reconciler \<Rightarrow> string \<Rightarrow> bool" where
  "webhooks_apart r name \<longleftrightarrow> cor_createClusterWebhook r = cor_deleteClusterWebhook r \<or>
     (\<forall>other. cache_key (cor_createClusterWebhook r) other \<noteq> cache_key (cor_deleteClusterWebhook r) name)"

lemma cached_announced_event: "cached_announced E r name h0 w \<Longrightarrow> cached_announced E r name h0 (w\<lparr>trace := e # trace w\<rparr>)"
  by (rule cached_announced_later [of E r name h0 w _ "[e]"]) simp_all

lemma order_parts_keep:
  assumes "\<And>w e. I w \<Longrightarrow> I (w\<lparr>trace := e # trace w\<rparr>)"
  shows "keeps I (co_delete_resources E co)" "keeps I (co_initializeStatusConditions E co)"
    "keeps I (co_setStatusCondition E t s msg reason co)" "keeps I (run_components (components E) co)"
    "keeps I (co_findNamespace E co)" "keeps I (findHostedCluster E co ns)" "keeps I (handleHostedCluster E hc co)"
  unfolding co_delete_resources_def co_release_def co_initializeStatusConditions_def co_initializeStatusCondition_def
    co_setStatusCondition_def set_condition_def components_def component_namespace_def component_service_account_def
    component_role_binding_def newNamespace_def createOrUpdate_def handleHostedCluster_def co_findNamespace_def
    findHostedCluster_def kc_defs now_def Let_def run_components.simps
  by (intro keep_intros assms; simp)+

lemma order_keeps_cached:
  assumes "webhooks_apart r name"
  shows "keeps (cached_announced E r name h0) (co_Reconcile E r key)"
proof -
  have hook: "keeps (cached_announced E r name h0) (co_webhook E r url co)"
    if "url = cor_createClusterWebhook r \<or> url = cor_deleteClusterWebhook r" for url co
    using co_webhook_keeps_cached [of E r name h0 _ url co] assms that
    unfolding keeps_def triple_def webhooks_apart_def by auto
  show ?thesis
    unfolding co_Reconcile_def co_handle_def co_handleDelete_def co_handleUpdate_def co_update_cluster_def kc_defs Let_def
    by (intro keep_intros order_parts_keep hook; simp add: cached_announced_event)
qed

text \<open>
  The deletion of a cluster order terminates. Let the API server serve the order, being
  deleted and under full management, until it accepts an update without the finalizer. Let,
  from the \<open>N\<close>-th event on, the delete webhook accept requests, the hosted cluster be gone \<open>d\<close>
  events after the webhook has accepted one for the order, the namespace be gone \<open>d\<close> events
  after its deletion, and the release be accepted. Let the client's cache hold nothing for the
  order that was not sent, at first and when others are done between two rounds. Then
  \<open>N + 2 d + 3\<close> reconciliations are enough: the rate limit of the webhook never keeps the
  deletion from being announced.
\<close>

theorem order_deletion_terminates:
  assumes laws: "finalizer_laws (lib E)" and serves: "serves_order E key name h0"
    and hook: "webhook_answers E r name N" and hosted: "hosted_goes E r name ns h0 N d"
    and space: "space_goes E name ns N d" and acc: "order_release_accepted E N"
    and run: "rounds_among (order_step E r key) (cached_announced E r name h0) w0 M w"
    and cache: "cached_announced E r name h0 w0" and M: "N + 2 * d + 3 \<le> M"
  shows "order_released E key h0 (trace w)"
  by (rule staged_teardown.terminates [OF order_teardown [OF laws serves hook hosted space acc] run cache])
    (use M in simp_all)

text \<open>A cluster in which AAP takes the hosted cluster down two events after the webhook call.\<close>

definition leaving_co :: cluster_order where
  "leaving_co = co_set_finalizers [cloudkitFinalizer] gone_co"

definition leaving_space :: namespace_obj where
  "leaving_space = order_namespace leaving_co ''ns''"

definition leaving_cluster :: hosted_cluster where
  "leaving_cluster = \<lparr>hc_meta = new_meta ''hc'' ''ns'' Map.empty, hc_conditions = [],
     hc_endpointHost = [], hc_endpointPort = 0, hc_baseDomain = []\<rparr>"

definition called_two_ago :: "history \<Rightarrow> bool" where
  "called_two_ago h \<longleftrightarrow> (\<exists>e \<in> set (drop 2 h). case e of EvHttp rq \<Rightarrow> hr_url rq = ''d'' | _ \<Rightarrow> False)"

definition leaving_order_env :: env where
  "leaving_order_env = ref_env\<lparr>kube := ref_kube\<lparr>
     get_cluster_order := (\<lambda>k h. Inr leaving_co),
     list_hosted_clusters := (\<lambda>n s h. if called_two_ago h then Inr [] else Inr [leaving_cluster]),
     list_namespaces := (\<lambda>s h. if EvDelete (KNamespace leaving_space) \<in> set (drop 2 h)
       then Inr [] else Inr [leaving_space])\<rparr>\<rparr>"

lemma leaving_order_env_simps [simp]:
  "lib leaving_order_env = ref_lib" "get_cluster_order (kube leaving_order_env) k h = Inr leaving_co"
  "list_hosted_clusters (kube leaving_order_env) n s h = (if called_two_ago h then Inr [] else Inr [leaving_cluster])"
  "list_namespaces (kube leaving_order_env) s h = (if EvDelete (KNamespace leaving_space) \<in> set (drop 2 h)
     then Inr [] else Inr [leaving_space])"
  "delete_namespace (kube leaving_order_env) ns h = None" "update_cluster_order (kube leaving_order_env) y h = Inr y"
  "http_new leaving_order_env m u = None"
  "http_do leaving_order_env t rq h = Inr \<lparr>hs_statusCode = 200, hs_body = Inr []\<rparr>"
  by (simp_all add: leaving_order_env_def ref_kube_def ref_env_def)

lemma called_later:
  "called_two_ago h \<Longrightarrow> called_two_ago (es @ h)"
  "EvHttp rq \<in> set h \<Longrightarrow> hr_url rq = ''d'' \<Longrightarrow> 2 \<le> length es \<Longrightarrow> called_two_ago (es @ h)"
  unfolding called_two_ago_def
proof -
  show "\<exists>e \<in> set (drop 2 (es @ h)). case e of EvHttp rq \<Rightarrow> hr_url rq = ''d'' | _ \<Rightarrow> False"
    if "\<exists>e \<in> set (drop 2 h). case e of EvHttp rq \<Rightarrow> hr_url rq = ''d'' | _ \<Rightarrow> False"
    using that by (auto intro: set_drop_later(1))
  show "\<exists>e \<in> set (drop 2 (es @ h)). case e of EvHttp rq \<Rightarrow> hr_url rq = ''d'' | _ \<Rightarrow> False"
    if "EvHttp rq \<in> set h" "hr_url rq = ''d''" "2 \<le> length es"
    using set_drop_later(2) [OF that(1,3)] that(2) by (intro bexI [of _ "EvHttp rq"]) simp_all
qed

lemma leaving_order_laws:
  "serves_order leaving_order_env (key_of sample_meta) ''x'' []" "webhook_answers leaving_order_env announcing ''x'' 0"
  "hosted_goes leaving_order_env announcing ''x'' ''ns'' [] 0 2" "space_goes leaving_order_env ''x'' ''ns'' 0 2"
  "order_release_accepted leaving_order_env 0" "cached_announced leaving_order_env announcing ''x'' [] empty_world"
proof -
  have url: "cor_deleteClusterWebhook announcing = ''d''" by (simp add: announcing_def newClusterOrderReconciler_def)
  show "serves_order leaving_order_env (key_of sample_meta) ''x'' []"
    by (simp add: serves_order_def leaving_co_def gone_co_def sample_co_def sample_meta_def new_meta_def
        deleting_def is_zero_time_def zero_time_def co_unmanaged_def co_manual_def co_set_finalizers_def
        ClusterOrder_GetName_def key_of_def)
  show "webhook_answers leaving_order_env announcing ''x'' 0"
    by (simp add: webhook_answers_def url accepts_request_def is_success_code_def ref_lib_def)
  have announced: "called_two_ago (es @ h)"
    if ann: "deletion_announced leaving_order_env announcing ''x'' [] h" and es: "2 \<le> length es" for es h
  proof -
    obtain later rq before where "h = later @ EvHttp rq # before" "deletion_request leaving_order_env announcing ''x'' rq"
      using ann unfolding deletion_announced_def by blast
    then have "EvHttp rq \<in> set h" "hr_url rq = ''d''"
      by (auto simp: deletion_request_def webhook_request_def url)
    then show ?thesis using es by (rule called_later(2))
  qed
  show "hosted_goes leaving_order_env announcing ''x'' ''ns'' [] 0 2"
    unfolding hosted_goes_def hosted_gone_def gone_after_def using announced called_later(1) by simp
  show "space_goes leaving_order_env ''x'' ''ns'' 0 2"
    unfolding space_goes_def space_gone_def gone_after_def
    by (simp add: set_drop_later leaving_space_def order_namespace_def new_meta_def)
  show "order_release_accepted leaving_order_env 0" by (simp add: order_release_accepted_def)
  show "cached_announced leaving_order_env announcing ''x'' [] empty_world" by (simp add: cached_announced_def)
qed

interpretation leaving_order: staged_teardown
  "order_step leaving_order_env announcing (key_of sample_meta)" "cached_announced leaving_order_env announcing ''x'' []"
  "order_released leaving_order_env (key_of sample_meta) []"
  "[hosted_gone leaving_order_env ''x'' ''ns'', space_gone leaving_order_env ''x'']" 0 2
  by (rule order_teardown) (simp_all add: leaving_order_laws ref_finalizer_laws)

theorem order_deletion_terminates_witness:
  "order_released leaving_order_env (key_of sample_meta) []
     (trace ((order_step leaving_order_env announcing (key_of sample_meta) ^^ 7) empty_world))"
  by (rule order_deletion_terminates [OF _ leaving_order_laws(1-5),
        OF _ rounds_among_self])
    (simp_all add: ref_finalizer_laws leaving_order_laws(6))

end
