(* ===== verification/Host_Pool_Deletion.thy ===== *)
theory Host_Pool_Deletion
  imports Ownership Teardown
begin

text \<open>
  The deletion of a host pool, reconciliation after reconciliation. The controller announces the
  deletion at the delete webhook and deletes the namespace in the same reconciliation; while
  the webhook client remembers the call it does neither. So a refused deletion of the namespace
  is repeated only when the minimum interval is over, and the clock has a part in the proof.
\<close>

section \<open>Rounds\<close>

definition pool_step :: "env \<Rightarrow> host_pool_reconciler \<Rightarrow> object_key \<Rightarrow> world \<Rightarrow> world" where
  "pool_step E r key w = snd (run_state (hp_Reconcile E r key) w)"

text \<open>Since the history \<open>h0\<close> an update of the pool without the finalizer has been accepted.\<close>

definition pool_released :: "env \<Rightarrow> object_key \<Rightarrow> history \<Rightarrow> history \<Rightarrow> bool" where
  "pool_released E key h0 h \<longleftrightarrow>
     (\<exists>later y before y'. h = later @ EvUpdate (KHostPool y) # before \<and> suffix h0 before \<and>
        key_of (hp_meta y) = key \<and> hostPoolFinalizer \<notin> set (om_finalizers (hp_meta y)) \<and>
        update_host_pool (kube E) y before = Inr y')"

text \<open>Until then the API server serves the pool, being deleted.\<close>

definition serves_pool :: "env \<Rightarrow> object_key \<Rightarrow> string \<Rightarrow> history \<Rightarrow> bool" where
  "serves_pool E key name h0 \<longleftrightarrow>
     (\<forall>h. suffix h0 h \<and> \<not> pool_released E key h0 h \<longrightarrow>
       (\<exists>hp. get_host_pool (kube E) key h = Inr hp \<and> key_of (hp_meta hp) = key \<and> deleting (hp_meta hp) \<and>
          hostPoolFinalizer \<in> set (om_finalizers (hp_meta hp)) \<and> \<not> hp_unmanaged hp \<and> HostPool_GetName hp = name))"

text \<open>A namespace of the pool is one that the list for the pool's name has shown at some time.\<close>

definition pool_selector :: "string \<Rightarrow> (string \<times> string) list" where
  "pool_selector name = [(cloudkitHostPoolNameLabel, name)]"

definition pool_namespace :: "env \<Rightarrow> string \<Rightarrow> namespace_obj \<Rightarrow> bool" where
  "pool_namespace E name n \<longleftrightarrow> (\<exists>h. list_namespaces (kube E) (pool_selector name) h = Inr [n])"

text \<open>Since \<open>h0\<close> a deletion of the pool's namespace has been accepted.\<close>

definition namespace_asked :: "env \<Rightarrow> string \<Rightarrow> history \<Rightarrow> history \<Rightarrow> bool" where
  "namespace_asked E name h0 h \<longleftrightarrow>
     (\<exists>later n before. h = later @ EvDelete (KNamespace n) # before \<and> suffix h0 before \<and>
        pool_namespace E name n \<and> delete_namespace (kube E) n before = None)"

text \<open>
  The environment's side, from the \<open>N\<close>-th event on: what the API server no longer lists does not
  come back, a deletion of the namespace is accepted, \<open>d\<close> events after one the namespace is gone,
  and the release is accepted; the delete webhook, if there is one, accepts requests for the
  pool; and \<open>K\<close> events take at least the minimum interval.
\<close>

definition pool_space_gone :: "env \<Rightarrow> string \<Rightarrow> history \<Rightarrow> bool" where
  "pool_space_gone E name h \<longleftrightarrow> list_namespaces (kube E) (pool_selector name) h = Inr []"

definition pool_space_goes :: "env \<Rightarrow> string \<Rightarrow> history \<Rightarrow> nat \<Rightarrow> nat \<Rightarrow> bool" where
  "pool_space_goes E name h0 N d \<longleftrightarrow>
     (\<forall>h. N \<le> length h \<longrightarrow>
        (pool_space_gone E name h \<and> gone_after (pool_space_gone E name) 0 h \<or>
         (\<exists>n. list_namespaces (kube E) (pool_selector name) h = Inr [n])) \<and>
        (\<forall>n. pool_namespace E name n \<longrightarrow> delete_namespace (kube E) n h = None) \<and>
        (namespace_asked E name h0 h \<longrightarrow> gone_after (pool_space_gone E name) d h))"

definition pool_release_accepted :: "env \<Rightarrow> nat \<Rightarrow> bool" where
  "pool_release_accepted E N \<longleftrightarrow>
     (\<forall>h y. N \<le> length h \<and> hostPoolFinalizer \<notin> set (om_finalizers (hp_meta y)) \<longrightarrow>
        (\<exists>y'. update_host_pool (kube E) y h = Inr y'))"

definition pool_webhook_answers :: "env \<Rightarrow> host_pool_reconciler \<Rightarrow> string \<Rightarrow> nat \<Rightarrow> bool" where
  "pool_webhook_answers E r name N \<longleftrightarrow>
     hpr_deleteHostPoolWebhook r \<noteq> [] \<longrightarrow>
       http_new E ''POST'' (hpr_deleteHostPoolWebhook r) = None \<and>
       (\<forall>hp. HostPool_GetName hp = name \<longrightarrow> (\<exists>j. marshal_host_pool (lib E) hp = Inr j)) \<and>
       (\<forall>h rq. N \<le> length h \<and> hr_url rq = hpr_deleteHostPoolWebhook r \<longrightarrow>
          (\<exists>a. http_do E (wc_clientTimeout (hpr_webhookClient r)) rq h = Inr a \<and> is_success_code (hs_statusCode a)))"

definition interval_passes :: "env \<Rightarrow> duration \<Rightarrow> nat \<Rightarrow> bool" where
  "interval_passes E i K \<longleftrightarrow> (\<forall>h es. K \<le> length es \<longrightarrow> i \<le> sub_time (clock E (es @ h)) (clock E h))"

section \<open>The cache of the webhook client\<close>

text \<open>A call adds its own entry only, and only when it was sent with success.\<close>

lemma set_update_subset: "set (AList.update k v xs) \<subseteq> insert (k, v) (set xs)"
  by (induction xs) auto

lemma trigger_inflight:
  assumes "(k, t) \<in> set (inflight (snd (run_state (triggerWebhook E wc url x) w)))"
  shows "(k, t) \<in> set (inflight w) \<or>
    k = cache_key url (resource_name x) \<and> fst (run_state (triggerWebhook E wc url x) w) = Ok 0 \<and>
    (\<exists>h. suffix h (trace (snd (run_state (triggerWebhook E wc url x) w))) \<and> t = clock E h)"
proof -
  let ?key = "cache_key url (resource_name x)"
  let ?w1 = "after_check E wc ?key w"
  have check: "set (inflight ?w1) \<subseteq> set (inflight w)"
    using purge_loop_subset by (auto simp: after_check_def run_purge split: option.splits)
  show ?thesis
  proof (cases "pending_delta E wc ?key w = 0 \<and> fst (send_result E wc url x (trace ?w1)) = Ok 0")
    case False
    with assms check show ?thesis
      by (cases "pending_delta E wc ?key w = 0") (auto simp: triggerWebhook_early triggerWebhook_send)
  next
    case True
    let ?h = "snd (send_result E wc url x (trace ?w1)) @ trace ?w1"
    let ?w2 = "?w1\<lparr>trace := ?h\<rparr>"
    have run: "run_state (triggerWebhook E wc url x) w = (Ok 0, snd (run_state (addInflightRequest E wc url (resource_name x)) ?w2))"
      using True by (simp add: triggerWebhook_send)
    have "(k, t) \<in> set (AList.update ?key (clock E ?h) (inflight ?w1))"
      using assms by (auto simp: run run_addInflight run_purge dest: subsetD [OF purge_loop_subset])
    then have "(k, t) = (?key, clock E ?h) \<or> (k, t) \<in> set (inflight w)"
      using set_update_subset check by fast
    moreover have "suffix ?h (trace (snd (run_state (triggerWebhook E wc url x) w)))"
      by (simp add: run run_addInflight run_purge suffix_appendI suffix_Cons)
    ultimately show ?thesis using run by auto
  qed
qed

lemma trigger_grows: "\<exists>es. trace (snd (run_state (triggerWebhook E wc url x) w)) = es @ trace w"
  using footprint_triggerWebhook [of url E wc x] unfolding footprint_def by blast

lemma answers_sends:
  assumes "pool_webhook_answers E r name N" "hpr_deleteHostPoolWebhook r \<noteq> []" "HostPool_GetName hp = name" "N \<le> length h"
  shows "fst (send_result E (hpr_webhookClient r) (hpr_deleteHostPoolWebhook r) (ResHostPool hp) h) = Ok 0"
proof -
  obtain j where j: "marshal_host_pool (lib E) hp = Inr j" "http_new E ''POST'' (hpr_deleteHostPoolWebhook r) = None"
    using assms by (auto simp: pool_webhook_answers_def)
  obtain a where "http_do E (wc_clientTimeout (hpr_webhookClient r))
      (webhook_request (lib E) (hpr_deleteHostPoolWebhook r) j) h = Inr a" "is_success_code (hs_statusCode a)"
    using assms by (force simp: pool_webhook_answers_def webhook_request_def)
  with j show ?thesis by (simp add: send_result_def Let_def)
qed

text \<open>
  What the rounds know: when the client remembers a call for the pool, the deletion of the
  namespace has been accepted since, or the call was made before the \<open>N\<close>-th event.
\<close>

definition pool_cache_known :: "env \<Rightarrow> host_pool_reconciler \<Rightarrow> string \<Rightarrow> history \<Rightarrow> nat \<Rightarrow> world \<Rightarrow> bool" where
  "pool_cache_known E r name h0 N w \<longleftrightarrow> suffix h0 (trace w) \<and>
     (\<forall>t. (cache_key (hpr_deleteHostPoolWebhook r) name, t) \<in> set (inflight w) \<longrightarrow>
        namespace_asked E name h0 (trace w) \<or>
        (\<exists>h. suffix h (trace w) \<and> length h \<le> N \<and> t = clock E h))"

lemma namespace_asked_append: "namespace_asked E name h0 h \<Longrightarrow> namespace_asked E name h0 (es @ h)"
  unfolding namespace_asked_def by (metis append.assoc)

lemma pool_cache_later:
  assumes "pool_cache_known E r name h0 N w" "trace w' = es @ trace w"
    and "\<And>t. (cache_key (hpr_deleteHostPoolWebhook r) name, t) \<in> set (inflight w') \<Longrightarrow>
      (cache_key (hpr_deleteHostPoolWebhook r) name, t) \<in> set (inflight w)"
  shows "pool_cache_known E r name h0 N w'"
  using assms namespace_asked_append suffix_appendI unfolding pool_cache_known_def by metis

lemma pool_cache_event: "pool_cache_known E r name h0 N w \<Longrightarrow> pool_cache_known E r name h0 N (w\<lparr>trace := e # trace w\<rparr>)"
  by (rule pool_cache_later [of E r name h0 N w _ "[e]"]) simp_all

section \<open>The webhook and the namespace\<close>

lemma run_delete_with_webhook:
  fixes w :: world and E :: env and r :: host_pool_reconciler and hp :: host_pool and n :: namespace_obj
  defines "p \<equiv> run_state (triggerWebhook E (hpr_webhookClient r) (hpr_deleteHostPoolWebhook r) (ResHostPool hp)) w"
  defines "w' \<equiv> snd (run_state (hp_delete_with_webhook E r n hp) w)"
  shows "hpr_deleteHostPoolWebhook r = [] \<or> hp_manual hp \<Longrightarrow> w' = w\<lparr>trace := EvDelete (KNamespace n) # trace w\<rparr>"
    and "\<not> (hpr_deleteHostPoolWebhook r = [] \<or> hp_manual hp) \<Longrightarrow> fst p = Ok 0 \<Longrightarrow>
      w' = (snd p)\<lparr>trace := EvDelete (KNamespace n) # trace (snd p)\<rparr>"
    and "\<not> (hpr_deleteHostPoolWebhook r = [] \<or> hp_manual hp) \<Longrightarrow> fst p \<noteq> Ok 0 \<Longrightarrow> w' = snd p"
  unfolding w'_def p_def
  by (auto simp: hp_delete_with_webhook_def hp_delete_namespace_def kc_defs State_Monad.return_def split_beta
      split: res.splits)

lemma asked_now:
  "delete_namespace (kube E) n h = None \<Longrightarrow> suffix h0 h \<Longrightarrow> pool_namespace E name n \<Longrightarrow>
   namespace_asked E name h0 (EvDelete (KNamespace n) # h)"
  unfolding namespace_asked_def by (metis append_Nil)

lemma delete_keeps_known:
  assumes law: "pool_space_goes E name h0 N d" and known: "pool_cache_known E r name h0 N w"
    and n: "HostPool_GetName hp = name \<Longrightarrow> pool_namespace E name n"
  shows "pool_cache_known E r name h0 N (snd (run_state (hp_delete_with_webhook E r n hp) w))"
proof (cases "hpr_deleteHostPoolWebhook r = [] \<or> hp_manual hp")
  case True
  from run_delete_with_webhook(1) [OF True] pool_cache_event [OF known] show ?thesis by simp
next
  case False
  let ?key = "cache_key (hpr_deleteHostPoolWebhook r) name"
  let ?p = "run_state (triggerWebhook E (hpr_webhookClient r) (hpr_deleteHostPoolWebhook r) (ResHostPool hp)) w"
  obtain es where es: "trace (snd ?p) = es @ trace w" using trigger_grows by blast
  then have since: "suffix h0 (trace (snd ?p))" using known by (simp add: pool_cache_known_def suffix_appendI)
  have old: "namespace_asked E name h0 (trace (snd ?p)) \<or> (\<exists>h. suffix h (trace (snd ?p)) \<and> length h \<le> N \<and> t = clock E h)"
    if "(?key, t) \<in> set (inflight w)" for t
    using known that es namespace_asked_append suffix_appendI unfolding pool_cache_known_def by metis
  show ?thesis
  proof (cases "fst ?p = Ok 0")
    case sent: False
    then have "(?key, t) \<in> set (inflight w)" if "(?key, t) \<in> set (inflight (snd ?p))" for t
      using trigger_inflight that by blast
    with old since show ?thesis
      unfolding run_delete_with_webhook(3) [OF False sent] pool_cache_known_def by blast
  next
    case sent: True
    let ?h = "EvDelete (KNamespace n) # trace (snd ?p)"
    have "namespace_asked E name h0 ?h \<or> (\<exists>h. suffix h ?h \<and> length h \<le> N \<and> t = clock E h)"
      if t: "(?key, t) \<in> set (inflight (snd ?p))" for t
    proof (cases "(?key, t) \<in> set (inflight w)")
      case True
      from old [OF this] show ?thesis
        using namespace_asked_append [of E name h0 _ "[EvDelete (KNamespace n)]"] suffix_Cons by (metis append_Cons append_Nil)
    next
      case False
      with trigger_inflight [OF t] obtain h where h: "HostPool_GetName hp = name" "suffix h (trace (snd ?p))" "t = clock E h"
        by (auto simp: cache_key_def)
      show ?thesis
      proof (cases "N \<le> length (trace (snd ?p))")
        case True
        with law n [OF h(1)] have "delete_namespace (kube E) n (trace (snd ?p)) = None" by (auto simp: pool_space_goes_def)
        from asked_now [OF this since n [OF h(1)]] show ?thesis ..
      next
        case False
        with h suffix_length_le [OF h(2)] show ?thesis
          by (intro disjI2 exI [of _ h]) (simp add: suffix_Cons)
      qed
    qed
    then show ?thesis
      unfolding run_delete_with_webhook(2) [OF False sent] pool_cache_known_def
      using since by (simp add: suffix_Cons)
  qed
qed

lemma delete_grows: "\<exists>es. trace (snd (run_state (hp_delete_with_webhook E r n hp) w)) = es @ trace w"
proof -
  have "footprint (\<lambda>e. True) (hp_delete_with_webhook E r n hp)"
    unfolding hp_delete_with_webhook_def hp_delete_namespace_def
    by (intro fp_intros footprint_mono [OF footprint_triggerWebhook]; simp)
  then show ?thesis unfolding footprint_def by blast
qed

lemma delete_asks:
  assumes law: "pool_space_goes E name h0 N d" and hook: "pool_webhook_answers E r name N"
    and clock: "interval_passes E (wc_minimumRequestInterval (hpr_webhookClient r)) K"
    and known: "pool_cache_known E r name h0 N w" and late: "N + K \<le> length (trace w)"
    and name: "HostPool_GetName hp = name" and n: "pool_namespace E name n"
  shows "namespace_asked E name h0 (trace (snd (run_state (hp_delete_with_webhook E r n hp) w)))"
proof -
  have since: "suffix h0 (trace w)" using known by (simp add: pool_cache_known_def)
  have accepted: "delete_namespace (kube E) n h = None" if "N \<le> length h" for h
    using law n that by (simp add: pool_space_goes_def)
  show ?thesis
  proof (cases "hpr_deleteHostPoolWebhook r = [] \<or> hp_manual hp")
    case True
    show ?thesis
      unfolding run_delete_with_webhook(1) [OF True] using asked_now [OF accepted since n] late by simp
  next
    case False
    let ?wc = "hpr_webhookClient r" and ?url = "hpr_deleteHostPoolWebhook r"
    let ?p = "run_state (triggerWebhook E ?wc ?url (ResHostPool hp)) w" and ?key = "cache_key ?url name"
    obtain es where es: "trace (snd ?p) = es @ trace w" using trigger_grows by blast
    show ?thesis
    proof (cases "pending_delta E ?wc ?key w = 0")
      case True
      obtain m where "trace (after_check E ?wc ?key w) = replicate m EvNow @ trace w" using after_check_frame(2) by blast
      then have "N \<le> length (trace (after_check E ?wc ?key w))" using late by simp
      from answers_sends [OF hook _ name this] True False name have ok: "fst ?p = Ok 0"
        by (simp add: triggerWebhook_send)
      have "suffix h0 (trace (snd ?p))" "N \<le> length (trace (snd ?p))"
        using since late es by (simp_all add: suffix_appendI)
      then show ?thesis
        unfolding run_delete_with_webhook(2) [OF False ok] using asked_now [OF accepted _ n] by simp
    next
      case pending: False
      then obtain t where t: "map_of (inflight w) ?key = Some t"
          "sub_time (clock E (trace w)) t < wc_minimumRequestInterval ?wc"
        by (auto simp: pending_delta_def Let_def not_le split: option.splits if_splits)
      have "\<not> (suffix h (trace w) \<and> length h \<le> N \<and> t = clock E h)" for h
      proof
        assume h: "suffix h (trace w) \<and> length h \<le> N \<and> t = clock E h"
        then obtain fs where "trace w = fs @ h" by (auto simp: suffix_def)
        moreover from this h late have "K \<le> length fs" by simp
        ultimately have "wc_minimumRequestInterval ?wc \<le> sub_time (clock E (trace w)) t"
          using clock h by (simp add: interval_passes_def)
        with t(2) show False by simp
      qed
      with known map_of_SomeD [OF t(1)] have "namespace_asked E name h0 (trace w)"
        unfolding pool_cache_known_def by blast
      then show ?thesis
        using delete_grows [of E r n hp w] namespace_asked_append by metis
    qed
  qed
qed

section \<open>One round\<close>

lemma run_hp_handleDelete:
  fixes hp :: host_pool and w :: world and E :: env
  defines "s \<equiv> run_state (SetCondition E HostPoolConditionDeleting ConditionTrue ''HostPoolDeleting''
      ''HostPool is being deleted'' hp) w"
  defines "hp1 \<equiv> hp_set_phase HostPoolPhaseDeleting (fst s)"
  defines "w1 \<equiv> (snd s)\<lparr>trace := EvList KindNamespace None (pool_selector (HostPool_GetName hp)) # trace (snd s)\<rparr>"
  assumes laws: "finalizer_laws (lib E)" and fin: "hostPoolFinalizer \<in> set (om_finalizers (hp_meta hp))"
  shows "list_namespaces (kube E) (pool_selector (HostPool_GetName hp)) (trace (snd s)) = Inr [] \<Longrightarrow>
      \<exists>y. key_of (hp_meta y) = key_of (hp_meta hp) \<and> hostPoolFinalizer \<notin> set (om_finalizers (hp_meta y)) \<and>
        trace (snd (run_state (hp_handleDelete E r hp) w)) = EvUpdate (KHostPool y) # trace w1"
    and "list_namespaces (kube E) (pool_selector (HostPool_GetName hp)) (trace (snd s)) = Inr [n] \<Longrightarrow>
      snd (run_state (hp_handleDelete E r hp) w) = snd (run_state (hp_delete_with_webhook E r n hp1) w1)"
proof -
  have same: "hp_meta (fst s) = hp_meta hp" "hp_meta hp1 = hp_meta hp" by (simp_all add: hp1_def s_def)
  have sel: "labelSelectorFromHostPoolInstance hp1 = pool_selector (HostPool_GetName hp)"
    by (simp add: labelSelectorFromHostPoolInstance_def pool_selector_def HostPool_GetName_def same)
  have find: "run_state (hp_findNamespace E hp1) (snd s) =
      (case list_namespaces (kube E) (pool_selector (HostPool_GetName hp)) (trace (snd s)) of
         Inl e \<Rightarrow> Inl e
       | Inr [] \<Rightarrow> Inr None
       | Inr [n] \<Rightarrow> Inr (Some n)
       | Inr (n # m # ns) \<Rightarrow> Inl (Errorf (''found too many ('' @ itoa (int (length (n # m # ns))) @
           '') matching namespaces for '' @ HostPool_GetName hp1)), w1)"
    by (simp add: hp_findNamespace_def kc_defs State_Monad.return_def sel w1_def split: sum.split list.split)
  have run: "run_state (hp_handleDelete E r hp) w = run_state (do { ns \<leftarrow> hp_findNamespace E hp1;
         case ns of
           Inl e \<Rightarrow> State_Monad.return (Done hp1 result_none (Some e))
         | Inr (Some n) \<Rightarrow> hp_delete_with_webhook E r n hp1
         | Inr None \<Rightarrow> hp_release E hp1 }) (snd s)"
    using fin by (simp add: hp_handleDelete_def finalizer_simps [OF laws] Let_def split_beta same
        flip: s_def hp1_def)
  let ?y = "hp_set_finalizers (snd (removeFinalizer (lib E) (om_finalizers (hp_meta hp1)) hostPoolFinalizer)) hp1"
  show "\<exists>y. key_of (hp_meta y) = key_of (hp_meta hp) \<and> hostPoolFinalizer \<notin> set (om_finalizers (hp_meta y)) \<and>
        trace (snd (run_state (hp_handleDelete E r hp) w)) = EvUpdate (KHostPool y) # trace w1"
    if "list_namespaces (kube E) (pool_selector (HostPool_GetName hp)) (trace (snd s)) = Inr []"
    using that fin
    by (intro exI [of _ ?y])
      (simp add: run find kc_defs State_Monad.return_def hp_release_def Let_def same
        finalizer_simps [OF laws] split_beta hp_set_finalizers_def key_of_def)
  show "snd (run_state (hp_handleDelete E r hp) w) = snd (run_state (hp_delete_with_webhook E r n hp1) w1)"
    if "list_namespaces (kube E) (pool_selector (HostPool_GetName hp)) (trace (snd s)) = Inr [n]"
    using that by (simp add: run find)
qed

lemma hp_Reconcile_world:
  fixes r :: host_pool_reconciler
  assumes hp: "get_host_pool (kube E) key (trace w) = Inr hp" "deleting (hp_meta hp)" "\<not> hp_unmanaged hp"
  defines "w2 \<equiv> snd (run_state (hp_handleDelete E r hp) (w\<lparr>trace := EvGet KindHostPool key # trace w\<rparr>))"
  obtains es where "pool_step E r key w = w2\<lparr>trace := es @ trace w2\<rparr>"
proof (cases "fst (run_state (hp_handleDelete E r hp) (w\<lparr>trace := EvGet KindHostPool key # trace w\<rparr>))")
  case (Panicked s)
  then show thesis
    using hp by (intro that [of "[]"]) (simp add: pool_step_def hp_Reconcile_def hp_handle_def kc_defs
        State_Monad.return_def split_beta w2_def)
next
  case (Done hp' res err)
  then show thesis
    using hp by (intro that [of "if err = None \<and> hp_status hp' \<noteq> hp_status hp
        then [EvStatusUpdate (KHostPool hp')] else []"])
      (simp add: pool_step_def hp_Reconcile_def hp_handle_def kc_defs State_Monad.return_def split_beta w2_def)
qed

lemma pool_step_grows: "\<exists>es. trace (pool_step E r key w) = es @ trace w \<and> es \<noteq> []"
proof -
  have "footprint (\<lambda>e. True) (hp_handle E r hp)" for hp
    by (rule footprint_mono [OF footprint_hp_handle]) simp
  then show ?thesis
    unfolding pool_step_def hp_Reconcile_def kc_get_hp_def
    by (intro grows_after_get fp_intros; simp)
qed

lemma pool_released_append: "pool_released E key h0 h \<Longrightarrow> pool_released E key h0 (es @ h)"
  unfolding pool_released_def by (metis append.assoc)

lemma pool_round:
  assumes laws: "finalizer_laws (lib E)" and serves: "serves_pool E key name h0"
    and alive: "\<not> pool_released E key h0 (trace w)" and known: "pool_cache_known E r name h0 N w"
    and law: "pool_space_goes E name h0 N d" and acc: "pool_release_accepted E N"
    and hook: "pool_webhook_answers E r name N"
    and clock: "interval_passes E (wc_minimumRequestInterval (hpr_webhookClient r)) K"
    and late: "N + K \<le> length (trace w)"
  defines "w' \<equiv> pool_step E r key w"
  shows "pool_released E key h0 (trace w') \<or> gone_after (pool_space_gone E name) d (trace w')"
    and "gone_after (pool_space_gone E name) 0 (trace w) \<Longrightarrow> pool_released E key h0 (trace w')"
proof -
  let ?w1 = "w\<lparr>trace := EvGet KindHostPool key # trace w\<rparr>"
  have since: "suffix h0 (trace w)" using known by (simp add: pool_cache_known_def)
  obtain hp where hp: "get_host_pool (kube E) key (trace w) = Inr hp" "key_of (hp_meta hp) = key" "deleting (hp_meta hp)"
      "hostPoolFinalizer \<in> set (om_finalizers (hp_meta hp))" "\<not> hp_unmanaged hp" "HostPool_GetName hp = name"
    using serves since alive unfolding serves_pool_def by blast
  let ?s = "run_state (SetCondition E HostPoolConditionDeleting ConditionTrue ''HostPoolDeleting''
      ''HostPool is being deleted'' hp) ?w1"
  let ?hp = "hp_set_phase HostPoolPhaseDeleting (fst ?s)"
  let ?l = "EvList KindNamespace None (pool_selector name)"
  let ?w2 = "(snd ?s)\<lparr>trace := ?l # trace (snd ?s)\<rparr>"
  let ?d = "snd (run_state (hp_handleDelete E r hp) ?w1)"
  obtain es where "w' = ?d\<lparr>trace := es @ trace ?d\<rparr>"
    using hp_Reconcile_world [OF hp(1,3,5), of r] unfolding w'_def by blast
  then have w': "trace w' = es @ trace ?d" by simp
  obtain es0 where s: "trace (snd ?s) = es0 @ trace w" "inflight (snd ?s) = inflight w"
    by (auto simp: run_SetCondition)
  note run = run_hp_handleDelete [OF laws hp(4), where w = ?w1 and r = r, unfolded hp(6)]
  have released: "pool_released E key h0 (trace w')"
    if gone: "list_namespaces (kube E) (pool_selector name) (trace (snd ?s)) = Inr []"
  proof -
    obtain y where y: "key_of (hp_meta y) = key" "hostPoolFinalizer \<notin> set (om_finalizers (hp_meta y))"
        "trace ?d = EvUpdate (KHostPool y) # ?l # trace (snd ?s)"
      using run(1) [OF gone] hp(2) by auto
    have "N \<le> length (?l # trace (snd ?s))" using late s by simp
    with acc y(2) obtain y' where "update_host_pool (kube E) y (?l # trace (snd ?s)) = Inr y'"
      unfolding pool_release_accepted_def by blast
    moreover have "suffix h0 (?l # trace (snd ?s))" using since s by (simp add: suffix_Cons suffix_appendI)
    ultimately show ?thesis using y w' unfolding pool_released_def by auto
  qed
  show "pool_released E key h0 (trace w')" if "gone_after (pool_space_gone E name) 0 (trace w)"
    by (rule released) (use gone_after_now [OF gone_after_mono [OF that, of es0]] s in \<open>simp add: pool_space_gone_def\<close>)
  have "N \<le> length (trace (snd ?s))" using late s by simp
  then consider "list_namespaces (kube E) (pool_selector name) (trace (snd ?s)) = Inr []"
    | n where "list_namespaces (kube E) (pool_selector name) (trace (snd ?s)) = Inr [n]"
    using law unfolding pool_space_goes_def pool_space_gone_def by blast
  then show "pool_released E key h0 (trace w') \<or> gone_after (pool_space_gone E name) d (trace w')"
  proof cases
    case (2 n)
    then have n: "pool_namespace E name n" unfolding pool_namespace_def by blast
    have "pool_cache_known E r name h0 N ?w2"
      by (rule pool_cache_later [OF known, of _ "?l # es0"]) (simp_all add: s)
    moreover have "HostPool_GetName ?hp = name" using hp(6) by (simp add: HostPool_GetName_def)
    ultimately have "namespace_asked E name h0 (trace (snd (run_state (hp_delete_with_webhook E r n ?hp) ?w2)))"
      using delete_asks [OF law hook clock _ _ _ n, of ?w2 ?hp] late s by simp
    then have "namespace_asked E name h0 (trace ?d)" using run(2) [OF 2] by simp
    moreover have "N \<le> length (trace ?d)"
      using delete_grows [of E r n ?hp ?w2] run(2) [OF 2] late s by auto
    ultimately have "gone_after (pool_space_gone E name) d (trace ?d)" using law unfolding pool_space_goes_def by blast
    then show ?thesis unfolding w' using gone_after_mono by blast
  qed (rule disjI1, rule released)
qed

text \<open>Every reconciliation keeps what is known, of this pool and of others.\<close>

definition pool_webhooks_apart :: "host_pool_reconciler \<Rightarrow> string \<Rightarrow> bool" where
  "pool_webhooks_apart r name \<longleftrightarrow> hpr_createHostPoolWebhook r = [] \<or>
     (\<forall>other. cache_key (hpr_createHostPoolWebhook r) other \<noteq> cache_key (hpr_deleteHostPoolWebhook r) name)"

lemma found_in_pool_namespace:
  "fst (run_state (hp_findNamespace E hp) w) = Inr (Some n) \<Longrightarrow> HostPool_GetName hp = name \<Longrightarrow> pool_namespace E name n"
  by (auto simp: hp_findNamespace_def kc_defs State_Monad.return_def labelSelectorFromHostPoolInstance_def
      pool_namespace_def pool_selector_def split: sum.splits list.splits if_splits)

lemma create_call_keeps_known:
  assumes "pool_webhooks_apart r name" "hpr_createHostPoolWebhook r \<noteq> []" "pool_cache_known E r name h0 N w"
  shows "pool_cache_known E r name h0 N
    (snd (run_state (triggerWebhook E (hpr_webhookClient r) (hpr_createHostPoolWebhook r) (ResHostPool hp)) w))"
proof -
  let ?p = "run_state (triggerWebhook E (hpr_webhookClient r) (hpr_createHostPoolWebhook r) (ResHostPool hp)) w"
  obtain es where es: "trace (snd ?p) = es @ trace w" using trigger_grows by blast
  show ?thesis
    by (rule pool_cache_later [OF assms(3) es])
      (use assms(1,2) trigger_inflight in \<open>unfold pool_webhooks_apart_def, metis\<close>)
qed

lemma pool_parts_keep:
  assumes "\<And>w e. I w \<Longrightarrow> I (w\<lparr>trace := e # trace w\<rparr>)"
  shows "keeps I (SetCondition E t s reason msg hp)" "keeps I (newHostPoolNamespace E hp)"
    "keeps I (createOrUpdate K (fetch_namespace (kube E)) (commit_namespace (kube E)) n f x)"
    "keeps I (hp_findNamespace E hp)" "keeps I (hp_release E hp)"
  unfolding SetCondition_def newHostPoolNamespace_def createOrUpdate_def hp_findNamespace_def hp_release_def kc_defs
    now_def Let_def
  by (intro keep_intros assms; simp)+

lemma pool_keeps_known:
  assumes law: "pool_space_goes E name h0 N d" and apart: "pool_webhooks_apart r name"
  shows "keeps (pool_cache_known E r name h0 N) (hp_Reconcile E r key)"
proof -
  let ?I = "pool_cache_known E r name h0 N"
  note parts = pool_parts_keep [of ?I, OF pool_cache_event]
  have create: "keeps ?I (triggerWebhook E (hpr_webhookClient r) (hpr_createHostPoolWebhook r) (ResHostPool hp))"
    if "hpr_createHostPoolWebhook r \<noteq> []" for hp
    using create_call_keeps_known [OF apart that] by (simp add: keeps_def triple_def)
  have delete: "keeps ?I (hp_delete_with_webhook E r n hp)"
    if "HostPool_GetName hp = name \<Longrightarrow> pool_namespace E name n" for n hp
    using delete_keeps_known [OF law _ that] by (simp add: keeps_def triple_def)
  have found: "keeps ?I (do { ns \<leftarrow> hp_findNamespace E hp;
         case ns of
           Inl e \<Rightarrow> State_Monad.return (Done hp result_none (Some e))
         | Inr (Some n) \<Rightarrow> hp_delete_with_webhook E r n hp
         | Inr None \<Rightarrow> hp_release E hp })" for hp
    by (intro keeps_bind_run keep_intros parts delete) (auto intro: found_in_pool_namespace)
  have handle: "keeps ?I (hp_handleDelete E r hp)" for hp
    unfolding hp_handleDelete_def Let_def by (intro keeps_bind [of ?I "SetCondition E t s reason msg h" for t s reason msg h] parts(1) keeps_if keeps_return found)
  show ?thesis
    unfolding hp_Reconcile_def hp_handle_def hp_handleUpdate_def hp_initialize_def hp_components_def
      hp_create_webhook_def hp_ready_def hp_fail_def kc_get_hp_def kc_update_hp_def kc_status_hp_def Let_def
    by (intro keep_intros parts create handle; simp add: pool_cache_event)
qed

section \<open>Termination\<close>

lemma pool_teardown:
  assumes laws: "finalizer_laws (lib E)" and serves: "serves_pool E key name h0"
    and law: "pool_space_goes E name h0 N d" and acc: "pool_release_accepted E N"
    and hook: "pool_webhook_answers E r name N" and apart: "pool_webhooks_apart r name"
    and clock: "interval_passes E (wc_minimumRequestInterval (hpr_webhookClient r)) K"
  shows "staged_teardown (pool_step E r key) (pool_cache_known E r name h0 N) (pool_released E key h0)
    [pool_space_gone E name] (N + K) d"
proof
  note round = pool_round [OF laws serves _ _ law acc hook clock]
  fix w :: world and i :: nat
  show "\<exists>es. trace (pool_step E r key w) = es @ trace w \<and> es \<noteq> []" by (rule pool_step_grows)
  show "pool_cache_known E r name h0 N (pool_step E r key w)" if "pool_cache_known E r name h0 N w"
    unfolding pool_step_def by (rule keepsD [OF pool_keeps_known [OF law apart] that])
  assume w: "pool_cache_known E r name h0 N w" "\<not> pool_released E key h0 (trace w)" "N + K \<le> length (trace w)"
  show "pool_released E key h0 (trace (pool_step E r key w)) \<or>
      gone_after ([pool_space_gone E name] ! i) d (trace (pool_step E r key w))" if "i < length [pool_space_gone E name]"
    using round(1) [OF w(2,1,3)] that by simp
  show "pool_released E key h0 (trace (pool_step E r key w))"
    if "\<And>j. j < length [pool_space_gone E name] \<Longrightarrow> gone_after ([pool_space_gone E name] ! j) 0 (trace w)"
    using round(2) [OF w(2,1,3)] that [of 0] by simp
qed (rule pool_released_append)

text \<open>At first the cache may hold what was put in by the \<open>N\<close>-th event.\<close>

lemma pool_known_at_first:
  assumes "\<And>t. (cache_key (hpr_deleteHostPoolWebhook r) name, t) \<in> set (inflight w) \<Longrightarrow>
      \<exists>h. suffix h (trace w) \<and> t = clock E h" "length (trace w) \<le> N"
  shows "pool_cache_known E r name (trace w) N w"
  unfolding pool_cache_known_def using assms suffix_length_le by fastforce

text \<open>
  The deletion of a host pool terminates. Let the API server serve the pool, being deleted, until
  it accepts an update without the finalizer. From the \<open>N\<close>-th event on let the namespace stay away
  once it is no longer listed, its deletion and the release be accepted, and the namespace be
  gone \<open>d\<close> events after its deletion; let the delete webhook accept requests, if there is one. If
  \<open>K\<close> events take at least the minimum interval of the webhook client, \<open>N + K + d + 2\<close>
  reconciliations are enough: a deletion of the namespace that was refused while the client
  remembers the call of the webhook is repeated once the interval is over.
\<close>

theorem pool_deletion_terminates:
  assumes laws: "finalizer_laws (lib E)" and serves: "serves_pool E key name h0"
    and law: "pool_space_goes E name h0 N d" and acc: "pool_release_accepted E N"
    and hook: "pool_webhook_answers E r name N" and apart: "pool_webhooks_apart r name"
    and clock: "interval_passes E (wc_minimumRequestInterval (hpr_webhookClient r)) K"
    and run: "rounds_among (pool_step E r key) (pool_cache_known E r name h0 N) w0 M w"
    and start: "pool_cache_known E r name h0 N w0" and M: "N + K + d + 2 \<le> M"
  shows "pool_released E key h0 (trace w)"
  by (rule staged_teardown.terminates [OF pool_teardown [OF laws serves law acc hook apart clock] run start])
    (use M in simp_all)

text \<open>A cluster in which the namespace goes two events after its deletion.\<close>

definition leaving_hp :: host_pool where
  "leaving_hp = finalized_hp\<lparr>hp_meta := (hp_meta finalized_hp)\<lparr>om_deletionTimestamp := Some 1\<rparr>\<rparr>"

definition leaving_hp_space :: namespace_obj where
  "leaving_hp_space = host_pool_namespace leaving_hp ''ns''"

definition leaving_pool_env :: env where
  "leaving_pool_env = ref_env\<lparr>kube := ref_kube\<lparr>
     get_host_pool := (\<lambda>k h. Inr leaving_hp),
     list_namespaces := (\<lambda>s h. if EvDelete (KNamespace leaving_hp_space) \<in> set (drop 2 h)
       then Inr [] else Inr [leaving_hp_space])\<rparr>\<rparr>"

definition pool_announcing :: host_pool_reconciler where
  "pool_announcing = newHostPoolReconciler ''c'' ''d'' [] second"

lemma leaving_pool_env_simps [simp]:
  "lib leaving_pool_env = ref_lib" "get_host_pool (kube leaving_pool_env) k h = Inr leaving_hp"
  "list_namespaces (kube leaving_pool_env) s h = (if EvDelete (KNamespace leaving_hp_space) \<in> set (drop 2 h)
     then Inr [] else Inr [leaving_hp_space])"
  "delete_namespace (kube leaving_pool_env) ns h = None" "update_host_pool (kube leaving_pool_env) y h = Inr y"
  "http_new leaving_pool_env m u = None" "clock leaving_pool_env h = int (length h) * second"
  "http_do leaving_pool_env t rq h = Inr \<lparr>hs_statusCode = 200, hs_body = Inr []\<rparr>"
  by (simp_all add: leaving_pool_env_def ref_kube_def ref_env_def)

lemma leaving_pool_laws:
  "serves_pool leaving_pool_env (key_of sample_meta) ''x'' []" "pool_space_goes leaving_pool_env ''x'' [] 0 2"
  "pool_release_accepted leaving_pool_env 0" "pool_webhook_answers leaving_pool_env pool_announcing ''x'' 0"
  "pool_webhooks_apart pool_announcing ''x''" "interval_passes leaving_pool_env second 1"
proof -
  show "serves_pool leaving_pool_env (key_of sample_meta) ''x'' []"
    by (simp add: serves_pool_def leaving_hp_def finalized_hp_def sample_hp_def sample_meta_def new_meta_def
        deleting_def is_zero_time_def zero_time_def hp_unmanaged_def hp_set_finalizers_def HostPool_GetName_def key_of_def)
  show "pool_space_goes leaving_pool_env ''x'' [] 0 2"
    unfolding pool_space_goes_def pool_space_gone_def gone_after_def namespace_asked_def pool_namespace_def
    by (auto simp: set_drop_later split: if_splits)
  show "pool_release_accepted leaving_pool_env 0" by (simp add: pool_release_accepted_def)
  show "pool_webhook_answers leaving_pool_env pool_announcing ''x'' 0"
    by (simp add: pool_webhook_answers_def is_success_code_def ref_lib_def)
  show "pool_webhooks_apart pool_announcing ''x''"
    by (simp add: pool_webhooks_apart_def pool_announcing_def newHostPoolReconciler_def cache_key_def)
  show "interval_passes leaving_pool_env second 1"
    by (simp add: interval_passes_def sub_time_def second_def max_int_def)
qed

lemma pool_interval: "wc_minimumRequestInterval (hpr_webhookClient pool_announcing) = second"
  by (simp add: pool_announcing_def newHostPoolReconciler_def newWebhookClient_def)

interpretation leaving_pool: staged_teardown
  "pool_step leaving_pool_env pool_announcing (key_of sample_meta)" "pool_cache_known leaving_pool_env pool_announcing ''x'' [] 0"
  "pool_released leaving_pool_env (key_of sample_meta) []" "[pool_space_gone leaving_pool_env ''x'']" "0 + 1" 2
  by (rule pool_teardown)
    (use leaving_pool_laws in \<open>simp_all add: ref_finalizer_laws pool_interval\<close>)

theorem pool_deletion_terminates_witness:
  "pool_released leaving_pool_env (key_of sample_meta) []
     (trace ((pool_step leaving_pool_env pool_announcing (key_of sample_meta) ^^ 5) empty_world))"
  by (rule pool_deletion_terminates [OF _ leaving_pool_laws(1-5), of 1, OF _ _ rounds_among_self])
    (simp_all add: ref_finalizer_laws pool_interval leaving_pool_laws(6) [unfolded One_nat_def] pool_cache_known_def)

end
