(* ===== verification/Operator_Run.thy ===== *)
theory Operator_Run
  imports Operator_Main CI_Deletion Tenant_Deletion Cluster_Order_Deletion Host_Pool_Deletion
begin

text \<open>
  The operator at work: the controllers that \<open>main\<close> has registered, on one cluster. A step is a
  reconciliation of some object by one of them, an event of a watched object that is mapped to
  requests, or a restart of the process. The cluster is shared, through the history of the
  requests that all of them issue; the caches of a controller are its own, and a restart
  empties them. Which controller may write what is the table of \<open>Ownership\<close>; here it follows
  what a run of the operator can do, and what the other controllers cannot spoil of a deletion.
\<close>

section \<open>Steps\<close>

record process_memory =
  pm_templates :: "string \<rightharpoonup> template"
  pm_inflight :: "(string \<times> time) list"

definition fresh_memory :: process_memory where
  "fresh_memory = \<lparr>pm_templates = Map.empty, pm_inflight = []\<rparr>"

record operator_state =
  os_history :: history
  os_memory :: "nat \<Rightarrow> process_memory"  \<comment> \<open>per registration\<close>

definition operator_start :: operator_state where
  "operator_start = \<lparr>os_history = [], os_memory = (\<lambda>i. fresh_memory)\<rparr>"

text \<open>The world as the \<open>i\<close>-th controller sees it.\<close>

definition world_of :: "operator_state \<Rightarrow> nat \<Rightarrow> world" where
  "world_of s i =
     \<lparr>trace = os_history s, templates = pm_templates (os_memory s i), inflight = pm_inflight (os_memory s i)\<rparr>"

definition memory_of :: "world \<Rightarrow> process_memory" where
  "memory_of w = \<lparr>pm_templates = templates w, pm_inflight = inflight w\<rparr>"

datatype task = Reconciled object_key | Mapped nat object_meta
datatype step = Worked nat task | Restarted

fun run_task :: "registration \<Rightarrow> task \<Rightarrow> world \<Rightarrow> world" where
  "run_task reg (Reconciled key) w = snd (run_state (reg_reconcile reg key) w)"
| "run_task reg (Mapped n m) w =
     (if n < length (reg_watches reg) \<and> w_predicate (reg_watches reg ! n) m
      then snd (run_state (w_requests (reg_watches reg ! n) m) w) else w)"

fun perform :: "registration list \<Rightarrow> operator_state \<Rightarrow> step \<Rightarrow> operator_state" where
  "perform regs s (Worked i t) =
     (if i < length regs
      then let w = run_task (regs ! i) t (world_of s i)
           in \<lparr>os_history = trace w, os_memory = (os_memory s)(i := memory_of w)\<rparr>
      else s)"
| "perform regs s Restarted = s\<lparr>os_memory := (\<lambda>i. fresh_memory)\<rparr>"

fun operator_run :: "registration list \<Rightarrow> operator_state \<Rightarrow> step list \<Rightarrow> operator_state" where
  "operator_run regs s [] = s"
| "operator_run regs s (x # xs) = operator_run regs (perform regs s x) xs"

section \<open>Who is who\<close>

definition controller_of :: "registration \<Rightarrow> controller option" where
  "controller_of reg =
     (case reg_for reg of
        KindClusterOrder \<Rightarrow> Some (if reg_name reg = None then Orders else OrderFeedback)
      | KindHostPool \<Rightarrow> Some (if reg_name reg = None then Pools else PoolFeedback)
      | KindComputeInstance \<Rightarrow> Some (if reg_name reg = None then Instances else InstanceFeedback)
      | KindTenant \<Rightarrow> Some Tenants
      | _ \<Rightarrow> None)"

lemma controllers_registered:
  "map controller_of (feedback_registrations E getenv) = map Some [OrderFeedback, PoolFeedback, InstanceFeedback]"
  "controller_of (co_registration E cr p) = Some Orders" "controller_of (hp_registration E hr p) = Some Pools"
  "controller_of (ci_registration M E ir p) = Some Instances" "controller_of (tenant_registration E tr p) = Some Tenants"
  by (simp_all add: controller_of_def feedback_registrations_def registration_defs)

text \<open>Reading is all that the mapping of an event to requests does.\<close>

fun reads :: "event \<Rightarrow> bool" where
  "reads (EvGet k key) \<longleftrightarrow> True"
| "reads _ \<longleftrightarrow> False"

lemma reads_may: "reads e \<Longrightarrow> may c e"
  by (cases e) simp_all

lemma mapping_reads:
  "footprint reads (mapObjectToCluster E cr m)" "footprint reads (mapObjectToHostPool E hr m)"
  "footprint reads (mapObjectToComputeInstance E ir m)" "footprint reads (mapObjectToTenant E tr m)"
  unfolding mapObjectToCluster_def mapObjectToHostPool_def mapObjectToComputeInstance_def mapObjectToTenant_def Let_def
  by (intro fp_intros; simp)+

definition within :: "env \<Rightarrow> registration \<Rightarrow> bool" where
  "within E reg \<longleftrightarrow> (\<exists>c. controller_of reg = Some c \<and> (\<forall>key. footprint (may c) (reg_reconcile reg key))) \<and>
     (\<forall>x \<in> set (reg_watches reg). \<forall>m. footprint reads (w_requests x m))"

lemma registered_within:
  assumes retry: "retry_law (lib E)" and P: "provisioning_provider P"
  shows "\<forall>reg \<in> set (feedback_registrations E getenv). within E reg" "within E (co_registration E cr p)"
    "within E (hp_registration E hr p)" "within E (ci_registration M E (main_instance_reconciler getenv P i) p)"
    "within E (tenant_registration E tr p)"
proof -
  have prov: "cir_provider (main_instance_reconciler getenv P i) = Some P"
    by (simp add: main_instance_reconciler_def newComputeInstanceReconciler_def)
  note may = tenant_may order_may pool_may instance_feedback_may order_feedback_may pool_feedback_may
    instance_may [OF P prov retry] mapping_reads footprint_return
  show "\<forall>reg \<in> set (feedback_registrations E getenv). within E reg" "within E (co_registration E cr p)"
    "within E (hp_registration E hr p)" "within E (ci_registration M E (main_instance_reconciler getenv P i) p)"
    "within E (tenant_registration E tr p)"
    by (auto simp: within_def controller_of_def feedback_registrations_def registration_defs watches_of_def may)
qed

lemma main_within:
  assumes "operator_main pf E getenv = Inr regs" "retry_law (lib E)"
  shows "distinct (map controller_of regs)" "\<forall>reg \<in> set regs. within E reg"
proof -
  from assms(1) obtain fl M P i p q p' q' where
    P: "createProvider E getenv (provider_type getenv) (provider_settings_of getenv fl) = Ok (P, i)" and
    regs: "regs = (if fl_fulfillmentServerAddress fl \<noteq> [] then feedback_registrations E getenv else []) @
      [co_registration E (main_order_reconciler getenv fl) p,
       hp_registration E (main_pool_reconciler getenv fl) q,
       ci_registration M E (main_instance_reconciler getenv P i) p',
       tenant_registration E (main_tenant_reconciler getenv) q']"
    by (rule operator_main_Inr)
  show "distinct (map controller_of regs)" unfolding regs map_append if_distrib [of "map controller_of"] by (simp add: controllers_registered)
  show "\<forall>reg \<in> set regs. within E reg"
    using registered_within [OF assms(2) createProvider_contract [OF P]] by (auto simp: regs)
qed

section \<open>What a step does\<close>

lemma world_of_simps [simp]:
  "trace (world_of s i) = os_history s" "inflight (world_of s i) = pm_inflight (os_memory s i)"
  "pm_inflight (memory_of w) = inflight w" "pm_inflight fresh_memory = []"
  by (simp_all add: world_of_def memory_of_def fresh_memory_def)

lemma world_of_update [simp]: "world_of \<lparr>os_history = trace w, os_memory = m(i := memory_of w)\<rparr> i = w"
  by (simp add: world_of_def memory_of_def)

lemma mapped_within:
  assumes "within E reg"
  shows "\<exists>es. trace (run_task reg (Mapped n m) w) = es @ trace w \<and> (\<forall>e \<in> set es. reads e)"
proof (cases "n < length (reg_watches reg) \<and> w_predicate (reg_watches reg ! n) m")
  case True
  with assms have "footprint reads (w_requests (reg_watches reg ! n) m)" by (simp add: within_def)
  with True show ?thesis by (simp add: footprint_def)
qed auto

lemma run_task_within:
  assumes "within E reg" "controller_of reg = Some c"
  shows "\<exists>es. trace (run_task reg t w) = es @ trace w \<and> (\<forall>e \<in> set es. may c e)"
proof (cases t)
  case (Reconciled key)
  then show ?thesis using assms by (auto simp: within_def footprint_def)
next
  case (Mapped n m)
  from mapped_within [OF assms(1), of n m w] show ?thesis unfolding Mapped using reads_may by blast
qed

lemma perform_within:
  assumes "\<forall>reg \<in> set regs. within E reg"
  shows "\<exists>es. os_history (perform regs s x) = es @ os_history s \<and>
    (\<forall>e \<in> set es. \<exists>i t c. x = Worked i t \<and> i < length regs \<and> controller_of (regs ! i) = Some c \<and> may c e)"
proof (cases x)
  case (Worked i t)
  show ?thesis
  proof (cases "i < length regs")
    case True
    with assms have reg: "within E (regs ! i)" by simp
    then obtain c where c: "controller_of (regs ! i) = Some c" by (auto simp: within_def)
    from run_task_within [OF reg c, of t "world_of s i"] show ?thesis
      using Worked True c by (auto simp: Let_def)
  qed (simp add: Worked)
qed simp

lemma operator_run_append: "operator_run regs s (xs @ ys) = operator_run regs (operator_run regs s xs) ys"
  by (induction xs arbitrary: s) simp_all

text \<open>A run as rounds of one controller on one object, among the other steps.\<close>

lemma run_rounds:
  assumes main: "\<forall>reg \<in> set regs. within E reg" and i: "i < length regs"
    and round: "\<And>w. round w = snd (run_state (reg_reconcile (regs ! i) key) w)"
    and other: "\<And>s x. x \<noteq> Worked i (Reconciled key) \<Longrightarrow> known (world_of s i) \<Longrightarrow> known (world_of (perform regs s x) i)"
  shows "rounds_among round known (world_of s i) (count_list xs (Worked i (Reconciled key)))
    (world_of (operator_run regs s xs) i)"
proof (induction xs rule: rev_induct)
  case (snoc x xs)
  let ?s = "operator_run regs s xs"
  show ?case
  proof (cases "x = Worked i (Reconciled key)")
    case True
    then have "world_of (perform regs ?s x) i = round (world_of ?s i)"
      using i by (simp add: Let_def round)
    then show ?thesis using rounds_round [OF snoc] True by (simp add: operator_run_append)
  next
    case False
    obtain es where "os_history (perform regs ?s x) = es @ os_history ?s"
      using perform_within [OF main] by blast
    then show ?thesis
      using rounds_other [OF snoc, of "world_of (perform regs ?s x) i" es] other [OF False, of ?s] False
      by (simp add: operator_run_append)
  qed
qed (simp add: rounds_start)

text \<open>The reconcilers behind the registrations.\<close>

definition parsed_flags :: "platform \<Rightarrow> env \<Rightarrow> environ \<Rightarrow> flags" where
  "parsed_flags pf E getenv = pf_parse pf (default_flags (lib E) getenv)"

lemma main_reconcilers:
  assumes main: "operator_main pf E getenv = Inr regs" and i: "i < length regs"
  shows "controller_of (regs ! i) = Some Tenants \<Longrightarrow> reg_reconcile (regs ! i) = tenant_Reconcile E"
    and "controller_of (regs ! i) = Some Orders \<Longrightarrow>
      \<exists>p. regs ! i = co_registration E (main_order_reconciler getenv (parsed_flags pf E getenv)) p"
    and "controller_of (regs ! i) = Some Pools \<Longrightarrow>
      \<exists>p. regs ! i = hp_registration E (main_pool_reconciler getenv (parsed_flags pf E getenv)) p"
    and "controller_of (regs ! i) = Some Instances \<Longrightarrow>
      createProvider E getenv (provider_type getenv) (provider_settings_of getenv (parsed_flags pf E getenv)) = Ok (P, iv) \<Longrightarrow>
      reg_reconcile (regs ! i) = ci_Reconcile E (main_instance_reconciler getenv P iv)"
    and "controller_of (regs ! i) = Some InstanceFeedback \<Longrightarrow> reg_reconcile (regs ! i) = ci_feedback_Reconcile E"
proof -
  from main obtain fl M P' j p q p' q' where
    fl: "fl = pf_parse pf (default_flags (lib E) getenv)" and
    P': "createProvider E getenv (provider_type getenv) (provider_settings_of getenv fl) = Ok (P', j)" and
    regs: "regs = (if fl_fulfillmentServerAddress fl \<noteq> [] then feedback_registrations E getenv else []) @
      [co_registration E (main_order_reconciler getenv fl) p,
       hp_registration E (main_pool_reconciler getenv fl) q,
       ci_registration M E (main_instance_reconciler getenv P' j) p',
       tenant_registration E (main_tenant_reconciler getenv) q']"
    by (rule operator_main_Inr)
  have fl': "parsed_flags pf E getenv = fl" by (simp add: parsed_flags_def fl)
  have feedback: "controller_of reg \<in> Some ` {OrderFeedback, PoolFeedback, InstanceFeedback}"
    if "reg \<in> set (feedback_registrations E getenv)" for reg
    using arg_cong [OF controllers_registered(1) [of E getenv], of set] that by auto
  have "regs ! i \<in> set regs" using i by simp
  then consider "regs ! i \<in> set (feedback_registrations E getenv)"
      "controller_of (regs ! i) \<in> Some ` {OrderFeedback, PoolFeedback, InstanceFeedback}"
    | "regs ! i = co_registration E (main_order_reconciler getenv fl) p"
    | "regs ! i = hp_registration E (main_pool_reconciler getenv fl) q"
    | "regs ! i = ci_registration M E (main_instance_reconciler getenv P' j) p'"
    | "regs ! i = tenant_registration E (main_tenant_reconciler getenv) q'"
    using feedback [of "regs ! i"] by (auto simp: regs simp del: nth_mem split: if_splits)
  note cases = this
  show "reg_reconcile (regs ! i) = tenant_Reconcile E" if "controller_of (regs ! i) = Some Tenants"
    by (rule cases) (use that in \<open>auto simp: controllers_registered, simp add: tenant_registration_def\<close>)
  show "reg_reconcile (regs ! i) = ci_feedback_Reconcile E" if "controller_of (regs ! i) = Some InstanceFeedback"
    by (rule cases)
      (use that in \<open>auto simp: controllers_registered feedback_registrations_def\<close>,
       simp_all add: controller_of_def registration_defs)
  show "\<exists>p. regs ! i = co_registration E (main_order_reconciler getenv (parsed_flags pf E getenv)) p"
    if "controller_of (regs ! i) = Some Orders"
    by (rule cases) (use that in \<open>auto simp: controllers_registered fl'\<close>)
  show "\<exists>p. regs ! i = hp_registration E (main_pool_reconciler getenv (parsed_flags pf E getenv)) p"
    if "controller_of (regs ! i) = Some Pools"
    by (rule cases) (use that in \<open>auto simp: controllers_registered fl'\<close>)
  show "reg_reconcile (regs ! i) = ci_Reconcile E (main_instance_reconciler getenv P iv)"
    if "controller_of (regs ! i) = Some Instances"
      "createProvider E getenv (provider_type getenv) (provider_settings_of getenv (parsed_flags pf E getenv)) = Ok (P, iv)"
    by (rule cases) (use that P' in \<open>auto simp: controllers_registered fl', simp add: ci_registration_def\<close>)
qed

section \<open>What the others cannot spoil\<close>

text \<open>No other step writes a status of the instance.\<close>

definition served_as_asked :: "env \<Rightarrow> bool" where
  "served_as_asked E \<longleftrightarrow>
     (\<forall>k h c. get_compute_instance (kube E) k h = Inr c \<longrightarrow> key_of (ci_meta c) = k)"

lemma statuses_written_others:
  assumes "statuses_written i block key h0 w" "trace w' = es @ trace w"
    and "\<And>x. EvStatusUpdate (KComputeInstance x) \<in> set es \<Longrightarrow> key_of (ci_meta x) \<noteq> key"
  shows "statuses_written i block key h0 w'"
  unfolding statuses_written_def
proof (intro conjI allI impI)
  show "suffix h0 (trace w')" using assms(1,2) by (simp add: statuses_written_def suffix_appendI)
  fix x assume x: "status_written key h0 (trace w') x"
  then have "key_of (ci_meta x) = key" by (simp add: status_written_def)
  with assms(3) status_written_append [OF x [unfolded assms(2)]] have "status_written key h0 (trace w) x" by blast
  with assms(1) show "deprovisioned_by i block (ci_status x)" by (simp add: statuses_written_def)
qed

lemma other_step_statuses:
  assumes P: "provisioning_provider P" "cir_provider r = Some P" and retry: "retry_law (lib E)"
    and served: "served_as_asked E" and reg: "within E reg" "controller_of reg = Some c"
    and mine: "c = Instances \<Longrightarrow> reg_reconcile reg = ci_Reconcile E r"
    and other: "c = Instances \<Longrightarrow> t \<noteq> Reconciled key"
    and es: "trace (run_task reg t w) = es @ trace w" "EvStatusUpdate (KComputeInstance x) \<in> set es"
  shows "key_of (ci_meta x) \<noteq> key"
proof -
  obtain fs where "trace (run_task reg t w) = fs @ trace w" "\<forall>e \<in> set fs. may c e"
    using run_task_within [OF reg, of t w] by blast
  with es have c: "c = Instances" by force
  show ?thesis
  proof (cases t)
    case (Reconciled key')
    with es(1) mine c have "trace (snd (run_state (ci_Reconcile E r key') w)) = es @ trace w" by simp
    from reconcile_status_writes [OF P retry surjective_pairing this es(2)] obtain latest h st where
      "get_compute_instance (kube E) key' h = Inr latest" "x = latest\<lparr>ci_status := st\<rparr>" by auto
    then have "key_of (ci_meta x) = key'" using served by (simp add: served_as_asked_def)
    then show ?thesis using other [OF c] Reconciled by auto
  next
    case (Mapped n m)
    from mapped_within [OF reg(1), of n m w] es Mapped have "reads (EvStatusUpdate (KComputeInstance x))" by auto
    then show ?thesis by simp
  qed
qed

lemma instance_rounds:
  assumes main: "\<forall>reg \<in> set regs. within E reg" "distinct (map controller_of regs)"
    and P: "provisioning_provider P" "cir_provider r = Some P"
    and retry: "retry_law (lib E)" and served: "served_as_asked E"
    and i: "i < length regs" "controller_of (regs ! i) = Some Instances" "reg_reconcile (regs ! i) = ci_Reconcile E r"
  shows "rounds_among (instance_step E r key) (statuses_written ident block key h0) (world_of s i)
    (count_list xs (Worked i (Reconciled key))) (world_of (operator_run regs s xs) i)"
proof (rule run_rounds [OF main(1) i(1)])
  show "instance_step E r key w = snd (run_state (reg_reconcile (regs ! i) key) w)" for w
    by (simp add: instance_step_def i(3))
  fix s x
  assume x: "x \<noteq> Worked i (Reconciled key)" and known: "statuses_written ident block key h0 (world_of s i)"
  show "statuses_written ident block key h0 (world_of (perform regs s x) i)"
  proof (cases "\<exists>j t. x = Worked j t \<and> j < length regs")
    case True
    then obtain j t where jt: "x = Worked j t" "j < length regs" by blast
    with main(1) have reg: "within E (regs ! j)" by simp
    then obtain c where c: "controller_of (regs ! j) = Some c" by (auto simp: within_def)
    obtain es where es: "trace (run_task (regs ! j) t (world_of s j)) = es @ trace (world_of s j)"
      using run_task_within [OF reg c] by blast
    have "j = i" if "c = Instances"
      using nth_eq_iff_index_eq [OF main(2), of j i] i(1,2) jt(2) c that by simp
    then show ?thesis
      using other_step_statuses [OF P retry served reg c _ _ es, of key] x jt es i(3)
      by (intro statuses_written_others [OF known, of _ es]) (auto simp: Let_def)
  next
    case False
    then have "os_history (perform regs s x) = os_history s" by (cases x) auto
    then show ?thesis using statuses_written_others [OF known, of _ "[]"] by simp
  qed
qed

lemma tenant_rounds:
  assumes main: "\<forall>reg \<in> set regs. within E reg" and i: "i < length regs" "reg_reconcile (regs ! i) = tenant_Reconcile E"
  shows "rounds_among (tenant_step E key) (\<lambda>w. suffix h0 (trace w)) (world_of s i)
    (count_list xs (Worked i (Reconciled key))) (world_of (operator_run regs s xs) i)"
proof (rule run_rounds [OF main i(1)])
  show "tenant_step E key w = snd (run_state (reg_reconcile (regs ! i) key) w)" for w
    by (simp add: tenant_step_def i(2))
  fix s x assume "suffix h0 (trace (world_of s i))"
  moreover obtain es where "os_history (perform regs s x) = es @ os_history s" using perform_within [OF main] by blast
  ultimately show "suffix h0 (trace (world_of (perform regs s x) i))" by (simp add: suffix_appendI)
qed

text \<open>
  What a controller knows of its cache stays true when others add to the history and when a
  restart empties the cache.
\<close>

lemma cached_rounds:
  assumes main: "\<forall>reg \<in> set regs. within E reg" and i: "i < length regs"
    and round: "\<And>w. round w = snd (run_state (reg_reconcile (regs ! i) key) w)"
    and later: "\<And>w w' es. known w \<Longrightarrow> trace w' = es @ trace w \<Longrightarrow> set (inflight w') \<subseteq> set (inflight w) \<Longrightarrow> known w'"
    and reconciles: "\<And>key. keeps known (reg_reconcile (regs ! i) key)"
    and maps: "\<And>x m. x \<in> set (reg_watches (regs ! i)) \<Longrightarrow> keeps known (w_requests x m)"
  shows "rounds_among round known (world_of s i)
    (count_list xs (Worked i (Reconciled key))) (world_of (operator_run regs s xs) i)"
proof (rule run_rounds [OF main i round])
  fix s x assume known: "known (world_of s i)"
  obtain es where es: "os_history (perform regs s x) = es @ os_history s" using perform_within [OF main] by blast
  show "known (world_of (perform regs s x) i)"
  proof (cases "\<exists>t. x = Worked i t")
    case True
    then obtain t where t: "x = Worked i t" by blast
    have "known (run_task (regs ! i) t (world_of s i))"
      using keepsD [OF reconciles known] keepsD [OF maps known] known by (cases t) simp_all
    then show ?thesis using t i by (simp add: Let_def)
  next
    case False
    then have "set (inflight (world_of (perform regs s x) i)) \<subseteq> set (inflight (world_of s i))"
      by (cases x) (auto simp: Let_def)
    then show ?thesis by (intro later [OF known, of _ es]) (simp_all add: es)
  qed
qed

lemma order_rounds:
  assumes main: "\<forall>reg \<in> set regs. within E reg" and apart: "webhooks_apart r name"
    and i: "i < length regs" "regs ! i = co_registration E r p"
  shows "rounds_among (order_step E r key) (cached_announced E r name h0) (world_of s i)
    (count_list xs (Worked i (Reconciled key))) (world_of (operator_run regs s xs) i)"
proof (rule cached_rounds [OF main i(1)])
  show "order_step E r key w = snd (run_state (reg_reconcile (regs ! i) key) w)" for w
    by (simp add: order_step_def i(2) co_registration_def)
  show "cached_announced E r name h0 w'" if "cached_announced E r name h0 w" "trace w' = es @ trace w"
    "set (inflight w') \<subseteq> set (inflight w)" for w w' :: world and es
    using cached_announced_later [OF that(1) image_mono [OF that(3)] that(2)] .
  show "keeps (cached_announced E r name h0) (reg_reconcile (regs ! i) key)" for key
    using order_keeps_cached [OF apart] by (simp add: i(2) co_registration_def)
  have "keeps (cached_announced E r name h0) (mapObjectToCluster E r m)" for m
    unfolding mapObjectToCluster_def kc_get_co_def Let_def by (intro keep_intros cached_announced_event; simp)
  then show "keeps (cached_announced E r name h0) (w_requests x m)" if "x \<in> set (reg_watches (regs ! i))" for x m
    using that by (auto simp: i(2) co_registration_def watches_of_def)
qed

lemma pool_rounds:
  assumes main: "\<forall>reg \<in> set regs. within E reg"
    and law: "pool_space_goes E name h0 N d" and apart: "pool_webhooks_apart r name"
    and i: "i < length regs" "regs ! i = hp_registration E r p"
  shows "rounds_among (pool_step E r key) (pool_cache_known E r name h0 N) (world_of s i)
    (count_list xs (Worked i (Reconciled key))) (world_of (operator_run regs s xs) i)"
proof (rule cached_rounds [OF main i(1)])
  show "pool_step E r key w = snd (run_state (reg_reconcile (regs ! i) key) w)" for w
    by (simp add: pool_step_def i(2) hp_registration_def)
  show "pool_cache_known E r name h0 N w'" if "pool_cache_known E r name h0 N w" "trace w' = es @ trace w"
    "set (inflight w') \<subseteq> set (inflight w)" for w w' :: world and es
    by (rule pool_cache_later [OF that(1,2)]) (use that(3) in blast)
  show "keeps (pool_cache_known E r name h0 N) (reg_reconcile (regs ! i) key)" for key
    using pool_keeps_known [OF law apart] by (simp add: i(2) hp_registration_def)
  have "keeps (pool_cache_known E r name h0 N) (mapObjectToHostPool E r m)" for m
    unfolding mapObjectToHostPool_def kc_get_hp_def Let_def by (intro keep_intros pool_cache_event; simp)
  then show "keeps (pool_cache_known E r name h0 N) (w_requests x m)" if "x \<in> set (reg_watches (regs ! i))" for x m
    using that by (auto simp: i(2) hp_registration_def watches_of_def)
qed

section \<open>A run for the examples\<close>

text \<open>Webhooks, an interval set on the command line, and the address of the fulfillment service.\<close>

definition run_platform :: platform where
  "run_platform = sample_platform\<lparr>pf_parse := (\<lambda>fl. fl\<lparr>fl_minimumRequestInterval := second\<rparr>)\<rparr>"

definition run_environ :: environ where
  "run_environ v =
     (if v = ''CLOUDKIT_CLUSTER_CREATE_WEBHOOK'' then ''c''
      else if v = ''CLOUDKIT_CLUSTER_DELETE_WEBHOOK'' then ''d''
      else if v = ''CLOUDKIT_HOSTPOOL_CREATE_WEBHOOK'' then ''c''
      else if v = ''CLOUDKIT_HOSTPOOL_DELETE_WEBHOOK'' then ''d''
      else if v = envComputeInstanceProvisionWebhook then ''u''
      else if v = envComputeInstanceDeprovisionWebhook then ''d''
      else if v = ''CLOUDKIT_FULFILLMENT_SERVER_ADDRESS'' then ''f'' else [])"

lemma run_provider:
  "createProvider E run_environ (provider_type run_environ)
     (provider_settings_of run_environ (parsed_flags run_platform E run_environ)) =
   Ok (edaProvider (lib E) (newEDAProvider (triggerWebhook E (newWebhookClient (10 * second) second)) ''u'' ''d''),
     DefaultStatusPollInterval)"
proof -
  have "provider_type run_environ = ProviderTypeEDA"
    by (simp add: provider_type_def run_environ_def envProvisioningProvider_def envComputeInstanceProvisionWebhook_def
        envComputeInstanceDeprovisionWebhook_def)
  then show ?thesis
    by (simp add: createProvider_eda provider_settings_of_def parsed_flags_def run_platform_def run_environ_def
        envComputeInstanceProvisionWebhook_def envComputeInstanceDeprovisionWebhook_def)
qed

lemma run_reconcilers:
  "main_order_reconciler run_environ (parsed_flags run_platform E run_environ) = announcing"
  "main_pool_reconciler run_environ (parsed_flags run_platform E run_environ) = pool_announcing"
  by (simp_all add: main_order_reconciler_def main_pool_reconciler_def parsed_flags_def run_platform_def
      run_environ_def announcing_def pool_announcing_def envComputeInstanceProvisionWebhook_def envComputeInstanceDeprovisionWebhook_def)

lemma run_main:
  obtains regs where "operator_main run_platform E run_environ = Inr regs" "6 < length regs"
    "controller_of (regs ! 2) = Some InstanceFeedback" "controller_of (regs ! 3) = Some Orders"
    "controller_of (regs ! 4) = Some Pools" "controller_of (regs ! 5) = Some Instances"
    "controller_of (regs ! 6) = Some Tenants"
proof -
  let ?fl = "pf_parse run_platform (default_flags (lib E) run_environ)"
  have flags: "fl_fulfillmentServerAddress ?fl \<noteq> []"
    by (simp add: run_platform_def default_flags_def run_environ_def envComputeInstanceProvisionWebhook_def
        envComputeInstanceDeprovisionWebhook_def)
  have "\<exists>regs. operator_main run_platform E run_environ = Inr regs"
    using run_provider [of E] flags
    by (simp add: operator_main_def Let_def or_exit_Inr case_sum_Inr setup_controllers_def setup_feedback_def
        setup_orders_def setup_instances_def setup_defs parsed_flags_def)
      (simp add: run_platform_def sample_platform_def sample_manager_def checked_def createGrpcConn_def)
  then obtain regs where main: "operator_main run_platform E run_environ = Inr regs" by blast
  then obtain M P i p q p' q' where
    regs: "regs = feedback_registrations E run_environ @
      [co_registration E (main_order_reconciler run_environ ?fl) p, hp_registration E (main_pool_reconciler run_environ ?fl) q,
       ci_registration M E (main_instance_reconciler run_environ P i) p',
       tenant_registration E (main_tenant_reconciler run_environ) q']"
    by (rule operator_main_Inr) (use flags in auto)
  then show thesis
    by (intro that [OF main]) (simp_all add: controllers_registered feedback_registrations_def,
        simp add: controller_of_def ci_feedback_registration_def)
qed

text \<open>Seven reconciliations of one object, with a restart after each.\<close>

definition seven_times :: "nat \<Rightarrow> object_key \<Rightarrow> step list" where
  "seven_times i key = concat (replicate 7 [Worked i (Reconciled key), Restarted])"

lemma count_seven_times [simp]: "count_list (seven_times i key) (Worked i (Reconciled key)) = 7"
  by (simp add: seven_times_def numeral_eq_Suc)

section \<open>Properties\<close>

text \<open>C8: every kind of object and every service has its writers. Whatever a started operator does
  from any state, in whatever order its controllers come to work and however often it is
  restarted, each request it adds to the history is one that the table of ownership allows to
  a controller that worked in between; the controllers registered are seven different ones at
  most. So the status of an object, for one, changes only while its own controller works.\<close>

theorem operator_writes_owned:
  assumes "operator_main pf E getenv = Inr regs" "retry_law (lib E)"
  shows "distinct (map controller_of regs) \<and>
    (\<exists>es. os_history (operator_run regs s xs) = es @ os_history s \<and>
      (\<forall>e \<in> set es. \<exists>i t c. Worked i t \<in> set xs \<and> i < length regs \<and> controller_of (regs ! i) = Some c \<and> may c e))"
proof
  note within = main_within [OF assms]
  show "distinct (map controller_of regs)" by (rule within(1))
  show "\<exists>es. os_history (operator_run regs s xs) = es @ os_history s \<and>
      (\<forall>e \<in> set es. \<exists>i t c. Worked i t \<in> set xs \<and> i < length regs \<and> controller_of (regs ! i) = Some c \<and> may c e)"
  proof (induction xs arbitrary: s)
    case (Cons x xs)
    obtain es where es: "os_history (perform regs s x) = es @ os_history s" "\<forall>e \<in> set es. \<exists>i t c. x = Worked i t \<and>
        i < length regs \<and> controller_of (regs ! i) = Some c \<and> may c e"
      using perform_within [OF within(2)] by blast
    obtain fs where fs: "os_history (operator_run regs (perform regs s x) xs) = fs @ os_history (perform regs s x)"
        "\<forall>e \<in> set fs. \<exists>i t c. Worked i t \<in> set xs \<and> i < length regs \<and> controller_of (regs ! i) = Some c \<and> may c e"
      using Cons.IH by blast
    show ?case using es fs by (intro exI [of _ "fs @ es"]) fastforce
  qed simp
qed

theorem operator_writes_owned_witness:
  "\<exists>regs es. operator_main run_platform ref_env run_environ = Inr regs \<and>
     os_history (operator_run regs operator_start (seven_times 6 (key_of sample_meta))) = es \<and>
     (\<forall>e \<in> set es. may Tenants e)"
proof -
  obtain regs where main: "operator_main run_platform ref_env run_environ = Inr regs" "6 < length regs"
    "controller_of (regs ! 6) = Some Tenants" by (rule run_main)
  have worked: "set (seven_times 6 (key_of sample_meta)) \<subseteq> {Worked 6 (Reconciled (key_of sample_meta)), Restarted}"
    by (auto simp: seven_times_def)
  from operator_writes_owned [OF main(1), of operator_start "seven_times 6 (key_of sample_meta)"] obtain es where
    "os_history (operator_run regs operator_start (seven_times 6 (key_of sample_meta))) = es @ []"
    "\<forall>e \<in> set es. \<exists>i t c. Worked i t \<in> set (seven_times 6 (key_of sample_meta)) \<and> i < length regs \<and>
       controller_of (regs ! i) = Some c \<and> may c e"
    by (auto simp: ref_retry_law operator_start_def)
  with main worked show ?thesis by (intro exI [of _ regs] exI [of _ es]) fastforce
qed

text \<open>C7: the deletion of a tenant terminates in the running operator, from whatever state it is in
  when the deletion begins, whatever the other controllers do, whatever other tenants are
  reconciled and however often the process is restarted. Let the API server serve the tenant,
  being deleted, until it accepts an update without the finalizer; from the \<open>N\<close>-th event on let
  it accept such an update, accept the deletion of the tenant's network and of its namespace,
  and carry each out within \<open>d\<close> events. Then, when the tenant controller has worked on the
  tenant \<open>N + 2 d + 3\<close> times, the finalizer has been given up.\<close>

theorem operator_tenant_deletion:
  assumes main: "operator_main pf E getenv = Inr regs" and laws: "finalizer_laws (lib E)" "retry_law (lib E)"
    and i: "i < length regs" "controller_of (regs ! i) = Some Tenants"
    and serves: "serves_tenant E key ns (os_history s)"
    and net: "network_goes E ns N d" and space: "namespace_goes E ns N d" and acc: "release_accepted E N"
    and worked: "N + 2 * d + 3 \<le> count_list xs (Worked i (Reconciled key))"
  shows "tenant_released E key (os_history s) (os_history (operator_run regs s xs))"
proof -
  note within = main_within [OF main laws(2)]
  show ?thesis
    using staged_teardown.terminates [OF tenant_teardown [OF laws(1) serves net space acc]
        tenant_rounds [OF within(2) i(1) main_reconcilers(1) [OF main i]]] worked by simp
qed

theorem operator_tenant_deletion_witness:
  "\<exists>regs. operator_main run_platform leaving_env run_environ = Inr regs \<and>
     tenant_released leaving_env (key_of (tn_meta sample_tenant)) []
       (os_history (operator_run regs operator_start (seven_times 6 (key_of (tn_meta sample_tenant)))))"
proof -
  obtain regs where main: "operator_main run_platform leaving_env run_environ = Inr regs" "6 < length regs"
    "controller_of (regs ! 6) = Some Tenants" by (rule run_main)
  have start: "os_history operator_start = []" by (simp add: operator_start_def)
  from operator_tenant_deletion [OF main(1) _ _ main(2,3), of _ "''sub''" operator_start 0 2] main(1) show ?thesis
    by (intro exI [of _ regs]) (simp add: start ref_finalizer_laws ref_retry_law leaving_env_laws)
qed

text \<open>C5: the deletion of a cluster order terminates in the running operator. Let the API server
  serve the order, being deleted and under full management, until it accepts an update without
  the finalizer; from the \<open>N\<close>-th event on let the delete webhook accept requests, the hosted
  cluster be gone \<open>d\<close> events after the webhook has accepted one for the order, the namespace be
  gone \<open>d\<close> events after its deletion, and the release be accepted. If the cache of the order
  controller holds no call of the delete webhook for the order's name at first, and never takes
  one webhook for the other, then \<open>N + 2 d + 3\<close> reconciliations of the order are enough: no work
  on other orders, not even on one of the same name, and no restart keeps the deletion from
  being announced.\<close>

theorem operator_order_deletion:
  fixes s :: operator_state
  assumes main: "operator_main pf E getenv = Inr regs" and laws: "finalizer_laws (lib E)" "retry_law (lib E)"
    and r: "r = main_order_reconciler getenv (parsed_flags pf E getenv)"
    and i: "i < length regs" "controller_of (regs ! i) = Some Orders"
    and serves: "serves_order E key name (os_history s)"
    and hook: "webhook_answers E r name N" and hosted: "hosted_goes E r name ns (os_history s) N d"
    and space: "space_goes E name ns N d" and acc: "order_release_accepted E N"
    and apart: "webhooks_apart r name"
    and cache: "cache_key (cor_deleteClusterWebhook r) name \<notin> fst ` set (pm_inflight (os_memory s i))"
    and worked: "N + 2 * d + 3 \<le> count_list xs (Worked i (Reconciled key))"
  shows "order_released E key (os_history s) (os_history (operator_run regs s xs))"
proof -
  note within = main_within [OF main laws(2)]
  obtain p where p: "regs ! i = co_registration E r p" using main_reconcilers(2) [OF main i] r by blast
  have start: "cached_announced E r name (os_history s) (world_of s i)"
    using cache by (simp add: cached_announced_def)
  show ?thesis
    using staged_teardown.terminates [OF order_teardown [OF laws(1) serves hook hosted space acc]
        order_rounds [OF within(2) apart i(1) p] start] worked by simp
qed

theorem operator_order_deletion_witness:
  "\<exists>regs. operator_main run_platform leaving_order_env run_environ = Inr regs \<and>
     order_released leaving_order_env (key_of sample_meta) []
       (os_history (operator_run regs operator_start (seven_times 3 (key_of sample_meta))))"
proof -
  obtain regs where main: "operator_main run_platform leaving_order_env run_environ = Inr regs" "6 < length regs"
    "controller_of (regs ! 3) = Some Orders" by (rule run_main)
  have start: "os_history operator_start = []" "pm_inflight (os_memory operator_start 3) = []"
    by (simp_all add: operator_start_def)
  have apart: "webhooks_apart announcing ''x''"
    by (simp add: webhooks_apart_def cache_key_def announcing_def newClusterOrderReconciler_def)
  from operator_order_deletion [OF main(1) _ _ refl _ main(3), of _ "''x''" operator_start 0 "''ns''" 2] main(1,2)
  show ?thesis
    by (intro exI [of _ regs])
      (force simp: start run_reconcilers apart ref_finalizer_laws ref_retry_law leaving_order_laws)
qed

text \<open>C6: the deletion of a host pool terminates in the running operator. Let the API server serve
  the pool, being deleted, with the controller's finalizer and not unmanaged (an unmanaged one
  is never released), until it accepts an update without the finalizer. Let the create webhook
  have no address, or let no call of it, for whatever pool, have the key of the delete webhook
  for this pool in the cache of the webhook client. From the \<open>N\<close>-th event on, and not before
  the present one, let at most one namespace of the pool be listed and stay away once it is
  no longer listed, its deletion be accepted and carried out within \<open>d\<close> events, the release be
  accepted, and the delete webhook, if there is one, accept requests; let \<open>K\<close> events take at
  least the minimum interval between two calls, and the times in the cache of the pool
  controller be times that its clock has shown. Then \<open>N + K + d + 2\<close> reconciliations of the pool
  are enough. The controller deletes the namespace only in the reconciliation in which it calls
  the webhook; when that deletion is refused, the rate limit delays the next one, but no longer
  than \<open>K\<close> events. The finalizer and retry helpers are taken as documented.\<close>

theorem operator_pool_deletion:
  fixes s :: operator_state
  assumes main: "operator_main pf E getenv = Inr regs" and laws: "finalizer_laws (lib E)" "retry_law (lib E)"
    and r: "r = main_pool_reconciler getenv (parsed_flags pf E getenv)"
    and i: "i < length regs" "controller_of (regs ! i) = Some Pools"
    and serves: "serves_pool E key name (os_history s)" and law: "pool_space_goes E name (os_history s) N d"
    and acc: "pool_release_accepted E N" and hook: "pool_webhook_answers E r name N"
    and apart: "pool_webhooks_apart r name"
    and clock: "interval_passes E (wc_minimumRequestInterval (hpr_webhookClient r)) K"
    and cache: "\<forall>(k, t) \<in> set (pm_inflight (os_memory s i)). \<exists>h. suffix h (os_history s) \<and> t = clock E h"
      "length (os_history s) \<le> N"
    and worked: "N + K + d + 2 \<le> count_list xs (Worked i (Reconciled key))"
  shows "pool_released E key (os_history s) (os_history (operator_run regs s xs))"
proof -
  note within = main_within [OF main laws(2)]
  obtain p where p: "regs ! i = hp_registration E r p" using main_reconcilers(3) [OF main i] r by blast
  have start: "pool_cache_known E r name (os_history s) N (world_of s i)"
    by (rule pool_known_at_first [where w = "world_of s i", simplified]) (use cache in fastforce)+
  show ?thesis
    using staged_teardown.terminates [OF pool_teardown [OF laws(1) serves law acc hook apart clock]
        pool_rounds [OF within(2) law apart i(1) p] start] worked by simp
qed

theorem operator_pool_deletion_witness:
  "\<exists>regs. operator_main run_platform leaving_pool_env run_environ = Inr regs \<and>
     pool_released leaving_pool_env (key_of sample_meta) []
       (os_history (operator_run regs operator_start (seven_times 4 (key_of sample_meta))))"
proof -
  obtain regs where main: "operator_main run_platform leaving_pool_env run_environ = Inr regs" "6 < length regs"
    "controller_of (regs ! 4) = Some Pools" by (rule run_main)
  have start: "os_history operator_start = []" "pm_inflight (os_memory operator_start 4) = []"
    by (simp_all add: operator_start_def)
  from operator_pool_deletion [OF main(1) _ _ refl _ main(3), of "key_of sample_meta" "''x''" operator_start 0 2 1
      "seven_times 4 (key_of sample_meta)"] main(1,2) show ?thesis
    by (intro exI [of _ regs])
      (simp add: start run_reconcilers ref_finalizer_laws ref_retry_law leaving_pool_laws(1-5) pool_interval
        leaving_pool_laws(6) [unfolded One_nat_def])
qed

text \<open>C3: the deletion of a compute instance terminates in the running operator. Take an instance
  that is being deleted, holds the finalizer of the controller, is neither unmanaged nor
  managed by hand (the controller leaves an unmanaged one alone for ever), and that a
  deprovision job with an identifier follows. Let the API server serve what it is asked for,
  and until the finalizer is given up this instance, being deleted and under full management,
  with the status it had when the deletion began or one written for it since. If from the
  \<open>N\<close>-th event on the provider that the environment selects reports the job as ended
  (successfully, if it is to block the deletion on failure) and the release is accepted, then
  \<open>N + 1\<close> reconciliations of the instance give up the finalizer. That nobody else writes its
  status is not assumed: it follows from who writes what. The finalizer and retry helpers are
  taken as documented.\<close>

theorem operator_instance_deletion:
  fixes s :: operator_state
  assumes main: "operator_main pf E getenv = Inr regs" and laws: "finalizer_laws (lib E)" "retry_law (lib E)"
    and P: "createProvider E getenv (provider_type getenv) (provider_settings_of getenv (parsed_flags pf E getenv)) =
      Ok (P, iv)"
    and i: "i < length regs" "controller_of (regs ! i) = Some Instances"
    and served: "served_as_asked E" and serves: "serves_instance E key st (os_history s)"
    and job: "deprovisioned_by ident block st"
    and ends: "job_ends E key P ident block N" "instance_release_accepted E N"
    and worked: "N < count_list xs (Worked i (Reconciled key))"
  shows "instance_released E key (os_history s) (os_history (operator_run regs s xs))"
proof -
  note within = main_within [OF main laws(2)]
  let ?r = "main_instance_reconciler getenv P iv"
  have prov: "provisioning_provider P" "cir_provider ?r = Some P"
    using createProvider_contract [OF P] by (simp_all add: main_instance_reconciler_def newComputeInstanceReconciler_def)
  have start: "statuses_written ident block key (os_history s) (world_of s i)"
    by (simp add: statuses_written_def status_written_self)
  show ?thesis
    using staged_teardown.terminates [OF instance_teardown [OF prov laws serves job ends]
        instance_rounds [OF within(2,1) prov laws(2) served i main_reconcilers(4) [OF main i P]] start] worked by simp
qed

text \<open>As in \<open>CI_Deletion\<close>, with an API server that has no other instance.\<close>

definition asked_env :: env where
  "asked_env = ref_env\<lparr>kube := ref_kube\<lparr>get_compute_instance := (\<lambda>k h.
     if k = key_of sample_meta then Inr (slow_ci (4 \<le> length h)) else Inl ref_not_found)\<rparr>\<rparr>"

lemma asked_env_laws:
  "lib asked_env = ref_lib" "served_as_asked asked_env" "serves_instance asked_env (key_of sample_meta) slow_status []"
  "deprovisioned_by ''7'' False slow_status" "instance_release_accepted asked_env 4"
  by (auto simp: asked_env_def ref_kube_def served_as_asked_def serves_instance_def being_deleted_def
      deprovisioned_by_def instance_release_accepted_def)

lemma asked_job_ends:
  "job_ends asked_env (key_of sample_meta) (edaProvider ref_lib (newEDAProvider f u d)) ''7'' False 4"
  by (auto simp: job_ends_def asked_env_def edaProvider_def eda_getDeprovisionStatus_def State_Monad.return_def
      set_phase_def isTerminal_def aap_finalizer_name ci_finalizers_distinct [symmetric])

theorem operator_instance_deletion_witness:
  "\<exists>regs. operator_main run_platform asked_env run_environ = Inr regs \<and>
     instance_released asked_env (key_of sample_meta) []
       (os_history (operator_run regs operator_start (seven_times 5 (key_of sample_meta))))"
proof -
  obtain regs where main: "operator_main run_platform asked_env run_environ = Inr regs" "6 < length regs"
    "controller_of (regs ! 5) = Some Instances" by (rule run_main)
  have start: "os_history operator_start = []" by (simp add: operator_start_def)
  from operator_instance_deletion [OF main(1) _ _ run_provider _ main(3) asked_env_laws(2) _ asked_env_laws(4),
      of "key_of sample_meta" operator_start 4 "seven_times 5 (key_of sample_meta)"] main(1,2) show ?thesis
    by (intro exI [of _ regs])
      (simp add: start asked_env_laws(1,3,5) asked_job_ends ref_finalizer_laws ref_retry_law)
qed

end
