(* ===== verification/CI_Lifecycle.thy ===== *)
theory CI_Lifecycle
  imports CI_Deletion CI_Feedback
begin

text \<open>
  The two controllers of compute instances at work on one instance, in any order: the
  reconciler of \<open>CI_Controller\<close> and the feedback reconciler of \<open>CI_Feedback\<close>. They share nothing
  but the API server and never call each other; what orders them is the finalizers.
\<close>

section \<open>Interleavings\<close>

text \<open>What everyone else does, also for other instances: anything but to update the instance.\<close>

definition foreign :: "object_key \<Rightarrow> event \<Rightarrow> bool" where
  "foreign key e \<longleftrightarrow> (\<forall>y. e = EvUpdate (KComputeInstance y) \<longrightarrow> key_of (ci_meta y) \<noteq> key)"

text \<open>The steps since the history \<open>h\<close>.\<close>

inductive lifecycle :: "env \<Rightarrow> compute_instance_reconciler \<Rightarrow> object_key \<Rightarrow> history \<Rightarrow> world \<Rightarrow> bool"
  for E r key h where
  start: "trace w = h \<Longrightarrow> lifecycle E r key h w"
| provision: "lifecycle E r key h w \<Longrightarrow> lifecycle E r key h (snd (run_state (ci_Reconcile E r key) w))"
| report: "lifecycle E r key h w \<Longrightarrow> lifecycle E r key h (snd (run_state (ci_feedback_Reconcile E key) w))"
| others: "lifecycle E r key h w \<Longrightarrow> trace w' = es @ trace w \<Longrightarrow> \<forall>e \<in> set es. foreign key e \<Longrightarrow>
    lifecycle E r key h w'"

definition holds :: "compute_instance \<Rightarrow> bool" where
  "holds c \<longleftrightarrow> cloudkitComputeInstanceFinalizer \<in> set (ci_finalizers c)"

text \<open>The API server answers an update with the key and the finalizers that were sent.\<close>

definition answers_updates :: "env \<Rightarrow> bool" where
  "answers_updates E \<longleftrightarrow>
     (\<forall>x h c. update_compute_instance (kube E) x h = Inr c \<longrightarrow>
        holds c = holds x \<and> key_of (ci_meta c) = key_of (ci_meta x))"

text \<open>
  An update of the instance without the finalizer; and the API server, which changes finalizers
  only as updates ask it to: an instance that was served with the finalizer is served with
  it until such an update has been sent.
\<close>

definition gives_up :: "object_key \<Rightarrow> event \<Rightarrow> bool" where
  "gives_up key e \<longleftrightarrow> (\<exists>y. e = EvUpdate (KComputeInstance y) \<and> key_of (ci_meta y) = key \<and> \<not> holds y)"

definition keeps_finalizer :: "env \<Rightarrow> object_key \<Rightarrow> bool" where
  "keeps_finalizer E key \<longleftrightarrow>
     (\<forall>h es c c'. get_compute_instance (kube E) key h = Inr c \<and> holds c \<and>
        get_compute_instance (kube E) key (es @ h) = Inr c' \<longrightarrow>
        holds c' \<or> (\<exists>e \<in> set es. gives_up key e))"

definition served_held :: "env \<Rightarrow> object_key \<Rightarrow> history \<Rightarrow> bool" where
  "served_held E key h \<longleftrightarrow> (\<exists>c. get_compute_instance (kube E) key h = Inr c \<and> holds c)"

section \<open>The instance controller\<close>

definition holding :: "event \<Rightarrow> bool" where
  "holding e \<longleftrightarrow> (\<forall>y. e = EvUpdate (KComputeInstance y) \<longrightarrow> holds y) \<and> no_signal e"

lemma holding_simps [simp]:
  "holding EvNow" "holding (EvHttp rq)" "holding (EvGet k key')" "holding (EvList k n sel)" "holding (EvDelete x)"
  "holding (EvFetch x)" "holding (EvCommit x)" "holding (EvStatusUpdate x)" "holding (EvRpcGet s i)"
  "holding (EvRpcUpdate p)" "holding (EvUpdate (KComputeInstance y)) = holds y"
  by (simp_all add: holding_def no_signal_def)

lemma outside_holding: "outside_event e \<Longrightarrow> holding e"
  by (auto simp: outside_event_def)

lemma footprint_restart_holding: "footprint holding (handleRestartRequest E ci)"
  unfolding handleRestartRequest_def performRestart_def checkRestartCompletion_def
  by (intro fp_intros; simp)

text \<open>An update never gives the finalizer up.\<close>

lemma footprint_handleUpdate_holding:
  assumes "provisioning_provider P" "cir_provider r = Some P" "finalizer_laws (lib E)"
  shows "footprint holding (ci_handleUpdate E r ci)"
  unfolding ci_handleUpdate_def ci_update_tenant_def ci_update_vm_def ci_update_versions_def Let_def
  by (intro fp_intros footprint_restart_holding
      footprint_mono [OF provisioning_provider.footprint_handleProvisioning [OF assms(1,2)] outside_holding];
    simp add: holds_def set_finalizers_def finalizer_simps [OF assms(3)])

lemma footprint_handleDelete_events:
  assumes "provisioning_provider P" "cir_provider r = Some P"
  shows "footprint (\<lambda>e. outside_event e \<or> (\<exists>x. e = EvUpdate x)) (ci_handleDelete E r ci)"
  unfolding ci_handleDelete_def Let_def
  by (intro fp_intros footprint_mono [OF provisioning_provider.footprint_handleDeprovisioning [OF assms]]; simp)

text \<open>Anything but a reading or a status update comes from the handler.\<close>

lemma reconcile_handler:
  assumes P: "provisioning_provider P" "cir_provider r = Some P" and retry: "retry_law (lib E)"
    and es: "trace (snd (run_state (ci_Reconcile E r key) w)) = es @ trace w" "e \<in> set es"
    and e: "e \<noteq> EvGet KindComputeInstance key" "\<And>x. e \<noteq> EvStatusUpdate x"
  obtains c out w2 es1 where "get_compute_instance (kube E) key (trace w) = Inr c"
    "run_state (ci_handle E r c) (w\<lparr>trace := EvGet KindComputeInstance key # trace w\<rparr>) = (out, w2)"
    "trace w2 = es1 @ EvGet KindComputeInstance key # trace w" "e \<in> set es1"
proof -
  let ?w1 = "w\<lparr>trace := EvGet KindComputeInstance key # trace w\<rparr>"
  have quiet: "False" if "trace (snd (run_state (ci_Reconcile E r key) w)) = EvGet KindComputeInstance key # trace w"
    using that es e(1) by auto
  obtain c where got: "get_compute_instance (kube E) key (trace w) = Inr c"
    using quiet by (cases "get_compute_instance (kube E) key (trace w)")
      (auto simp: ci_Reconcile_def kc_defs State_Monad.return_def)
  have "\<not> ci_unmanaged c" using quiet got by (auto simp: ci_Reconcile_def kc_defs State_Monad.return_def)
  with got have c: "get_compute_instance (kube E) key (trace w) = Inr c" "\<not> ci_unmanaged c" by simp_all
  obtain out w2 where h: "run_state (ci_handle E r c) ?w1 = (out, w2)" by fastforce
  obtain es2 where es2: "trace (snd (run_state (ci_Reconcile E r key) w)) = es2 @ trace w2"
      "\<forall>e \<in> set es2. e = EvGet KindComputeInstance key \<or> (\<exists>x. e = EvStatusUpdate x)"
    by (rule reconcile_tail [OF c retry h])
  have "footprint handler_event (ci_handle E r c)"
    by (simp add: ci_handle_def provisioning_provider.footprint_handleDelete [OF P]
        provisioning_provider.footprint_handleUpdate [OF P])
  then obtain es1 where es1: "trace w2 = es1 @ trace ?w1" by (rule footprintD [OF _ h])
  have "e \<notin> set es2" using es2(2) e by blast
  with es es2(1) e(1) es1 have "e \<in> set es1" by auto
  with that c(1) h es1 show thesis by simp
qed

text \<open>The updates of a reconciliation are updates of its object.\<close>

definition updating :: "object_key \<Rightarrow> event \<Rightarrow> bool" where
  "updating key e \<longleftrightarrow> (\<forall>y. e = EvUpdate (KComputeInstance y) \<longrightarrow> key_of (ci_meta y) = key)"

lemma updating_simps [simp]:
  "updating key EvNow" "updating key (EvHttp rq)" "updating key (EvGet k key')" "updating key (EvList k n sel)"
  "updating key (EvDelete x)" "updating key (EvFetch x)" "updating key (EvCommit x)" "updating key (EvStatusUpdate x)"
  "updating key (EvUpdate (KComputeInstance y)) \<longleftrightarrow> key_of (ci_meta y) = key"
  by (simp_all add: updating_def)

lemma outside_updating: "outside_event e \<Longrightarrow> updating key e"
  by (auto simp: outside_event_def)

lemma footprint_handleUpdate_updating:
  assumes "provisioning_provider P" "cir_provider r = Some P"
  shows "footprint (updating (key_of (ci_meta ci))) (ci_handleUpdate E r ci)"
proof -
  have restart: "footprint (updating key) (handleRestartRequest E c)" for key c
    unfolding handleRestartRequest_def performRestart_def checkRestartCompletion_def by (intro fp_intros; simp)
  show ?thesis
    unfolding ci_handleUpdate_def
    by (rule footprint_bind_run, intro fp_intros, simp)
      (unfold ci_update_tenant_def ci_update_vm_def ci_update_versions_def Let_def,
       intro fp_intros restart
        footprint_mono [OF provisioning_provider.footprint_handleProvisioning [OF assms] outside_updating];
       simp add: set_finalizers_def set_phase_def key_of_def initialize_keeps)
qed

text \<open>Nobody gives the finalizer up before the deprovisioning is over.\<close>

lemma reconcile_step:
  assumes P: "provisioning_provider P" "cir_provider r = Some P"
    and set: "0 < cir_statusPollInterval r" "1 \<le> cir_maxJobHistory r"
    and laws: "finalizer_laws (lib E)" "retry_law (lib E)"
    and es: "trace (snd (run_state (ci_Reconcile E r key) w)) = es @ trace w" "e \<in> set es" "\<not> holding e"
  shows "no_signal e \<and> (\<exists>c. get_compute_instance (kube E) key (trace w) = Inr c \<and>
    deprovision_over P (set_phase ComputeInstancePhaseDeleting c)
      (w\<lparr>trace := EvGet KindComputeInstance key # trace w\<rparr>))"
proof (rule reconcile_handler [OF P laws(2) es(1,2)])
  fix c out w2 es1
  let ?w1 = "w\<lparr>trace := EvGet KindComputeInstance key # trace w\<rparr>"
  assume c: "get_compute_instance (kube E) key (trace w) = Inr c" and h: "run_state (ci_handle E r c) ?w1 = (out, w2)"
    and es1: "trace w2 = es1 @ EvGet KindComputeInstance key # trace w" "e \<in> set es1"
  show ?thesis
  proof (cases "deleting (ci_meta c)")
    case True
    with h have del: "run_state (ci_handleDelete E r c) ?w1 = (out, w2)" by (simp add: ci_handle_def)
    obtain es' where "trace w2 = es' @ trace ?w1" "\<forall>e \<in> set es'. outside_event e \<or> (\<exists>x. e = EvUpdate x)"
      by (rule footprintD [OF footprint_handleDelete_events [OF P] del])
    with es1 have "outside_event e \<or> (\<exists>x. e = EvUpdate x)" by simp
    then obtain x where x: "e = EvUpdate x" using es(3) outside_holding by blast
    from provisioning_provider.handleDelete_update_guard [OF P set laws(1) del _ es1(2) [unfolded x]] es1(1) c x
    show ?thesis by (auto simp: no_signal_def)
  next
    case False
    with h have "run_state (ci_handleUpdate E r c) ?w1 = (out, w2)" by (simp add: ci_handle_def)
    from footprintD [OF footprint_handleUpdate_holding [OF P laws(1)] this] es1 es(3) show ?thesis by auto
  qed
qed (use es(3) in auto)

lemma reconcile_updating:
  assumes P: "provisioning_provider P" "cir_provider r = Some P"
    and set: "0 < cir_statusPollInterval r" "1 \<le> cir_maxJobHistory r"
    and laws: "finalizer_laws (lib E)" "retry_law (lib E)"
    and served: "\<And>c. get_compute_instance (kube E) key (trace w) = Inr c \<Longrightarrow> key_of (ci_meta c) = key"
    and es: "trace (snd (run_state (ci_Reconcile E r key) w)) = es @ trace w" "EvUpdate (KComputeInstance y) \<in> set es"
  shows "key_of (ci_meta y) = key"
proof (rule reconcile_handler [OF P laws(2) es])
  fix c out w2 es1
  let ?w1 = "w\<lparr>trace := EvGet KindComputeInstance key # trace w\<rparr>"
  assume c: "get_compute_instance (kube E) key (trace w) = Inr c" and h: "run_state (ci_handle E r c) ?w1 = (out, w2)"
    and es1: "trace w2 = es1 @ EvGet KindComputeInstance key # trace w" "EvUpdate (KComputeInstance y) \<in> set es1"
  show ?thesis
  proof (cases "deleting (ci_meta c)")
    case True
    with h have del: "run_state (ci_handleDelete E r c) ?w1 = (out, w2)" by (simp add: ci_handle_def)
    from provisioning_provider.handleDelete_update_guard [OF P set laws(1) del _ es1(2)] es1(1) served [OF c]
    show ?thesis by auto
  next
    case False
    with h have "run_state (ci_handleUpdate E r c) ?w1 = (out, w2)" by (simp add: ci_handle_def)
    from footprintD [OF footprint_handleUpdate_updating [OF P] this] es1 served [OF c] show ?thesis
      by (auto simp: updating_def)
  qed
qed simp_all

section \<open>The feedback controller\<close>

text \<open>It never gives up the finalizer of the other controller.\<close>

definition carrying :: "compute_instance \<Rightarrow> event \<Rightarrow> bool" where
  "carrying obj e \<longleftrightarrow>
     (\<forall>y. e = EvUpdate (KComputeInstance y) \<longrightarrow>
        (holds obj \<longrightarrow> holds y) \<and> key_of (ci_meta y) = key_of (ci_meta obj))"

lemma carrying_simps [simp]:
  "carrying obj EvNow" "carrying obj (EvRpcGet s i)" "carrying obj (EvRpcUpdate x)" "carrying obj (EvRpcSignal s i)"
  "carrying obj (EvUpdate (KComputeInstance y)) \<longleftrightarrow>
     (holds obj \<longrightarrow> holds y) \<and> key_of (ci_meta y) = key_of (ci_meta obj)"
  by (simp_all add: carrying_def)

lemma holds_finalizers:
  assumes "finalizer_laws (lib E)"
  shows "holds (set_finalizers (snd (addFinalizer (lib E) (ci_finalizers obj) cloudkitComputeInstanceFeedbackFinalizer)) obj) =
      holds obj"
    "holds (set_finalizers (snd (removeFinalizer (lib E) (ci_finalizers obj) cloudkitComputeInstanceFeedbackFinalizer)) obj) =
      holds obj"
    "key_of (ci_meta (set_finalizers fs obj)) = key_of (ci_meta obj)"
  by (simp_all add: holds_def set_finalizers_def key_of_def finalizer_simps [OF assms])

lemma feedback_object_holds:
  assumes "finalizer_laws (lib E)" "answers_updates E"
    and "fst (run_state (feedback_sync E obj ci) w) = (obj', ci', None)"
  shows "holds obj' = holds obj" "key_of (ci_meta obj') = key_of (ci_meta obj)"
  using assms(2,3) holds_finalizers [OF assms(1), where obj = obj]
  by (auto simp: feedback_sync_def feedback_handleUpdate_def Let_def split_beta State_Monad.return_def
      kc_defs answers_updates_def split: if_splits sum.splits)

lemma footprint_labelled_carrying:
  assumes "finalizer_laws (lib E)" "answers_updates E"
  shows "footprint (carrying obj) (feedback_labelled E i obj)"
proof -
  have sync: "footprint (carrying obj) (feedback_sync E obj ci)" for ci
    unfolding feedback_sync_def feedback_handleUpdate_def Let_def
    by (intro fp_intros) (simp_all add: holds_finalizers [OF assms(1)])
  have finish: "footprint (carrying obj) (feedback_finish E i obj')"
      if "holds obj' = holds obj" "key_of (ci_meta obj') = key_of (ci_meta obj)" for obj'
    unfolding feedback_finish_def feedback_release_def Let_def
    by (intro fp_intros) (simp_all add: holds_finalizers [OF assms(1)] that)
  show ?thesis
    unfolding feedback_labelled_def
    by (intro footprint_bind_run fp_intros sync finish)
      (auto simp: prod_eq_iff intro!: feedback_object_holds [OF assms])
qed

lemma report_carries:
  assumes laws: "finalizer_laws (lib E)" "answers_updates E"
    and run: "run_state (ci_feedback_Reconcile E key) w = (out, w')" and es: "trace w' = es @ trace w"
    and new: "EvUpdate (KComputeInstance y) \<in> set es"
  obtains obj where "get_compute_instance (kube E) key (trace w) = Inr obj" "holds obj \<Longrightarrow> holds y"
    "key_of (ci_meta y) = key_of (ci_meta obj)"
proof -
  let ?w1 = "w\<lparr>trace := EvGet KindComputeInstance key # trace w\<rparr>"
  obtain obj where obj: "get_compute_instance (kube E) key (trace w) = Inr obj"
    using run es new by (cases "get_compute_instance (kube E) key (trace w)") (auto simp: run_ci_feedback Let_def)
  have unlabelled: "footprint (carrying obj) (feedback_unlabelled E obj)"
    unfolding feedback_unlabelled_def feedback_release_def Let_def
    by (intro fp_intros) (simp_all add: holds_finalizers [OF laws(1)])
  have "\<exists>es'. trace w' = es' @ trace ?w1 \<and> (\<forall>e \<in> set es'. carrying obj e)"
  proof (cases "om_labels (ci_meta obj) cloudkitComputeInstanceIDLabel")
    case None
    with run obj have "run_state (feedback_unlabelled E obj) ?w1 = (out, w')"
      by (simp only: run_ci_feedback Let_def sum.case option.case)
    from footprintD [OF unlabelled this] show ?thesis by blast
  next
    case (Some i)
    with run obj have "run_state (feedback_labelled E i obj) ?w1 = (out, w')"
      by (simp only: run_ci_feedback Let_def sum.case option.case)
    from footprintD [OF footprint_labelled_carrying [OF laws] this] show ?thesis by blast
  qed
  then obtain es' where "es = es' @ [EvGet KindComputeInstance key]" "\<forall>e \<in> set es'. carrying obj e"
    using es by auto
  with new have "carrying obj (EvUpdate (KComputeInstance y))" by (auto simp del: carrying_simps)
  with obj that show thesis by simp
qed

lemma report_step:
  assumes "finalizer_laws (lib E)" "answers_updates E" "keeps_finalizer E key" "served_held E key h"
    and "run_state (ci_feedback_Reconcile E key) w = (out, w')" "trace w' = es @ trace w" "trace w = fs @ h"
    and "EvUpdate (KComputeInstance y) \<in> set es" "\<not> holds y"
  shows "\<exists>e \<in> set fs. gives_up key e"
proof -
  obtain obj where "get_compute_instance (kube E) key (trace w) = Inr obj" "holds obj \<longrightarrow> holds y"
    by (rule report_carries [OF assms(1,2,5,6,8)]) blast
  then show ?thesis using assms(3,4,7,9) unfolding keeps_finalizer_def served_held_def by metis
qed

text \<open>A signal follows an update that leaves no finalizer.\<close>

lemma signal_released:
  assumes "finalizer_laws (lib E)" "run_state (ci_feedback_Reconcile E key) w = (out, w')"
    and "trace w' = es @ trace w" "EvRpcSignal s j \<in> set es"
  shows "\<exists>y. EvUpdate (KComputeInstance y) \<in> set es \<and> \<not> holds y"
proof (rule ci_feedback_rpc [OF assms(2-4)], simp)
  fix obj i es'
  assume 1: "EvRpcSignal s j \<in> set es'" "es = es' @ [EvGet KindComputeInstance key]"
    and 2: "run_state (feedback_labelled E i obj) (w\<lparr>trace := EvGet KindComputeInstance key # trace w\<rparr>) = (out, w')"
    "trace w' = es' @ EvGet KindComputeInstance key # trace w"
  from feedback_labelled_signal [OF assms(1) 2(1) _ 1(1)] 2(2) obtain obj' where
    "EvUpdate (KComputeInstance (set_finalizers [] obj')) \<in> set es'" by fastforce
  with 1(2) show ?thesis
    by (intro exI [of _ "set_finalizers [] obj'"]) (simp add: holds_def set_finalizers_def)
qed

section \<open>What has happened before\<close>

text \<open>A reconciliation of the run, from the world \<open>w1\<close> on, has found deprovisioning over.\<close>

definition over_before :: "env \<Rightarrow> compute_instance_reconciler \<Rightarrow> object_key \<Rightarrow> history \<Rightarrow> provider \<Rightarrow> world \<Rightarrow> bool" where
  "over_before E r key h P w \<longleftrightarrow>
     (\<exists>es w1 c. lifecycle E r key h w1 \<and> trace w = es @ trace w1 \<and>
        get_compute_instance (kube E) key (trace w1) = Inr c \<and>
        deprovision_over P (set_phase ComputeInstancePhaseDeleting c)
          (w1\<lparr>trace := EvGet KindComputeInstance key # trace w1\<rparr>))"

lemma over_before_extend: "over_before E r key h P w \<Longrightarrow> trace w' = es' @ trace w \<Longrightarrow> over_before E r key h P w'"
  unfolding over_before_def by (metis append.assoc)

text \<open>The events since \<open>h\<close> that give the finalizer up are accounted for.\<close>

definition accounted :: "env \<Rightarrow> compute_instance_reconciler \<Rightarrow> object_key \<Rightarrow> history \<Rightarrow> provider \<Rightarrow> world \<Rightarrow> bool" where
  "accounted E r key h P w \<longleftrightarrow>
     (\<exists>fs. trace w = fs @ h \<and> (\<forall>e \<in> set fs. gives_up key e \<longrightarrow> over_before E r key h P w))"

text \<open>A step whose new events are accounted for keeps everything accounted for.\<close>

lemma accounted_extend:
  assumes "accounted E r key h P w" "trace w' = es @ trace w"
    and "\<And>e. e \<in> set es \<Longrightarrow> gives_up key e \<Longrightarrow> over_before E r key h P w'"
  shows "accounted E r key h P w'"
proof -
  obtain fs where "trace w = fs @ h" "\<forall>e \<in> set fs. gives_up key e \<longrightarrow> over_before E r key h P w"
    using assms(1) unfolding accounted_def by blast
  with assms(2,3) over_before_extend [OF _ assms(2)] show ?thesis
    unfolding accounted_def by (intro exI [of _ "es @ fs"]) auto
qed

lemma footprint_both:
  assumes "provisioning_provider P" "cir_provider r = Some P" "retry_law (lib E)"
  shows "footprint (\<lambda>_. True) (ci_Reconcile E r key)" "footprint (\<lambda>_. True) (ci_feedback_Reconcile E key)"
  unfolding ci_Reconcile_def ci_feedback_Reconcile_def feedback_unlabelled_def feedback_release_def Let_def
  by (intro fp_intros footprint_mono [OF provisioning_provider.footprint_handleDelete [OF assms(1,2)]]
      footprint_mono [OF provisioning_provider.footprint_handleUpdate [OF assms(1,2)]]
      footprint_mono [OF footprint_updateStatusWithRetry [OF assms(3)]]
      footprint_mono [OF footprint_feedback_labelled]; simp)+

lemma lifecycle_accounted:
  assumes P: "provisioning_provider P" "cir_provider r = Some P"
    and set: "0 < cir_statusPollInterval r" "1 \<le> cir_maxJobHistory r"
    and laws: "finalizer_laws (lib E)" "retry_law (lib E)" "answers_updates E" "keeps_finalizer E key"
    and held: "served_held E key h" and run: "lifecycle E r key h w"
  shows "accounted E r key h P w"
  using run
proof (induction rule: lifecycle.induct)
  case (start w)
  then show ?case by (simp add: accounted_def)
next
  case (provision w)
  let ?w' = "snd (run_state (ci_Reconcile E r key) w)"
  obtain es where es: "trace ?w' = es @ trace w"
    by (rule footprintD [OF footprint_both(1) [OF P laws(2)] surjective_pairing]) blast
  have over: "over_before E r key h P ?w'" if "e \<in> set es" "\<not> holding e" for e
    using reconcile_step [OF P set laws(1,2) es that] provision.hyps es by (auto simp: over_before_def)
  show ?case by (rule accounted_extend [OF provision.IH es]) (use over in \<open>auto simp: gives_up_def holding_def\<close>)
next
  case (report w)
  let ?w' = "snd (run_state (ci_feedback_Reconcile E key) w)"
  obtain es where es: "trace ?w' = es @ trace w"
    by (rule footprintD [OF footprint_both(2) [OF P laws(2)] surjective_pairing]) blast
  obtain fs where fs: "trace w = fs @ h" "\<forall>e \<in> set fs. gives_up key e \<longrightarrow> over_before E r key h P w"
    using report.IH unfolding accounted_def by blast
  have "over_before E r key h P w" if "e \<in> set es" "gives_up key e" for e
    using report_step [OF laws(1,3,4) held surjective_pairing es fs(1)] that fs(2) by (auto simp: gives_up_def)
  with over_before_extend [OF _ es] show ?case by (intro accounted_extend [OF report.IH es]) blast
next
  case (others w w' es)
  show ?case
    by (rule accounted_extend [OF others.IH others.hyps(2)]) (use others.hyps(3) in \<open>auto simp: foreign_def gives_up_def\<close>)
qed

section \<open>The service learns last\<close>

text \<open>
  In every interleaving of the instance controller, the feedback controller and others who
  leave the instance alone, from a moment on at which the instance is served with the
  finalizer of the instance controller: a report that signals the service is preceded by a
  reconciliation of the instance controller that found the deprovisioning of the instance over:
  the instance was managed by hand, or the provider skipped the deprovisioning, or its job had
  ended as it must. What the API server has to promise is that it does not lose the finalizer
  of the instance controller by itself.
\<close>

theorem ci_signal_after_deprovision:
  assumes "createProvider E0 getenv ty s = Ok (P, i)" "cir_provider r = Some P"
    and "0 < cir_statusPollInterval r" "1 \<le> cir_maxJobHistory r" "finalizer_laws (lib E)" "retry_law (lib E)"
    and "answers_updates E" "keeps_finalizer E key" "served_held E key h" "lifecycle E r key h w"
    and report: "run_state (ci_feedback_Reconcile E key) w = (out, w')" "trace w' = es @ trace w"
      "EvRpcSignal sv j \<in> set es"
  shows "\<exists>fs w1 c. lifecycle E r key h w1 \<and> trace w = fs @ trace w1 \<and>
     get_compute_instance (kube E) key (trace w1) = Inr c \<and>
     deprovision_over P (set_phase ComputeInstancePhaseDeleting c)
       (w1\<lparr>trace := EvGet KindComputeInstance key # trace w1\<rparr>)"
proof -
  obtain y where y: "EvUpdate (KComputeInstance y) \<in> set es" "\<not> holds y"
    using signal_released [OF assms(5) report] by blast
  obtain fs where fs: "trace w = fs @ h" "\<forall>e \<in> set fs. gives_up key e \<longrightarrow> over_before E r key h P w"
    using lifecycle_accounted [OF createProvider_contract [OF assms(1)] assms(2-10)]
    unfolding accounted_def by blast
  from report_step [OF assms(5,7-9) report(1,2) fs(1) y] fs(2)
  show ?thesis unfolding over_before_def by blast
qed

text \<open>An instance that is being deleted, held by both controllers, with nothing to deprovision.\<close>

definition given_up :: "history \<Rightarrow> bool" where
  "given_up h \<longleftrightarrow> (\<exists>e \<in> set h. gives_up (key_of sample_meta) e)"

definition held_ci :: compute_instance where
  "held_ci = set_finalizers [cloudkitComputeInstanceFinalizer, cloudkitComputeInstanceFeedbackFinalizer] (feedback_ci True)"

definition life_env :: env where
  "life_env = ref_env\<lparr>kube := ref_kube\<lparr>get_compute_instance :=
     (\<lambda>k h. if k \<noteq> key_of sample_meta then Inl ref_not_found
       else Inr (if given_up h then feedback_ci True else held_ci))\<rparr>\<rparr>"

lemma life_env_simps [simp]:
  "lib life_env = ref_lib" "rpc life_env = ref_rpc" "update_compute_instance (kube life_env) x h = Inr x"
  "get_compute_instance (kube life_env) k h = (if k \<noteq> key_of sample_meta then Inl ref_not_found
     else Inr (if given_up h then feedback_ci True else held_ci))"
  by (simp_all add: life_env_def ref_env_def ref_kube_def)

lemma held_ci_simps [simp]:
  "ci_finalizers held_ci = [cloudkitComputeInstanceFinalizer, cloudkitComputeInstanceFeedbackFinalizer]"
  "key_of (ci_meta held_ci) = key_of sample_meta" "deleting (ci_meta held_ci)" "\<not> ci_unmanaged held_ci" "\<not> managed_manually held_ci" "ci_jobs held_ci = []"
  by (simp_all add: key_of_def held_ci_def set_finalizers_def feedback_ci_def sample_ci_def sample_meta_def new_meta_def
      deleting_def is_zero_time_def zero_time_def ci_unmanaged_def managed_manually_def)

lemma life_keeps:
  "keeps_finalizer life_env (key_of sample_meta)" "answers_updates life_env" "served_held life_env (key_of sample_meta) []"
proof -
  have "\<not> holds (feedback_ci True)" by (simp add: holds_def)
  then show "keeps_finalizer life_env (key_of sample_meta)" "served_held life_env (key_of sample_meta) []"
    by (auto simp: keeps_finalizer_def served_held_def given_up_def holds_def split: if_splits)
qed (simp add: answers_updates_def)

lemma life_released:
  assumes r: "cir_provider r = Some (edaProvider ref_lib (newEDAProvider f u d))" and w: "trace w = []"
  shows "given_up (trace (snd (run_state (ci_Reconcile life_env r (key_of sample_meta)) w)))"
proof -
  let ?key = "key_of sample_meta" and ?ci = "set_phase ComputeInstancePhaseDeleting held_ci"
  let ?w1 = "w\<lparr>trace := [EvGet KindComputeInstance ?key]\<rparr>"
  have ci: "ci_finalizers ?ci = ci_finalizers held_ci" "ci_jobs ?ci = []" "\<not> managed_manually ?ci"
    "om_namespace (ci_meta ?ci) = om_namespace sample_meta" "om_name (ci_meta ?ci) = om_name sample_meta"
    "deleting (ci_meta ?ci)"
    using held_ci_simps by (simp_all add: set_phase_def managed_manually_def key_of_def del: held_ci_simps)
  have mark: "deleting (m\<lparr>om_finalizers := fs\<rparr>) = deleting m" for m :: object_meta and fs
    by (simp add: deleting_def)
  have over: "run_state (handleDeprovisioning life_env r ?ci) ?w1 = (Done ?ci result_none None, ?w1)"
    using ci r by (simp add: handleDeprovisioning_cases needs_trigger_def findLatestJobByType_def
        deprovision_trigger_def edaProvider_def eda_triggerDeprovision_def
        aap_finalizer_name ci_finalizers_distinct [symmetric] State_Monad.return_def)
  obtain out w2 where h: "run_state (ci_handle life_env r held_ci) ?w1 = (out, w2)" by fastforce
  with over ci have "given_up (trace w2)"
    by (auto simp: ci_handle_def containsFinalizer_delete [of life_env] ref_finalizer_laws Let_def kc_defs
        State_Monad.return_def finalizer_simps [OF ref_finalizer_laws] given_up_def gives_up_def holds_def
        set_finalizers_def key_of_def mark)
  moreover have "\<not> given_up (trace w)" by (simp add: given_up_def w)
  with h w reconcile_tail [of life_env ?key w held_ci r out w2]
  obtain es where "trace (snd (run_state (ci_Reconcile life_env r ?key) w)) = es @ trace w2"
    using ref_retry_law by auto
  ultimately show ?thesis by (auto simp: given_up_def)
qed

theorem ci_signal_after_deprovision_witness:
  "\<exists>w1 c. deprovision_over the_eda (set_phase ComputeInstancePhaseDeleting c) w1"
proof -
  let ?r = "sample_reconciler (Some the_eda)" and ?key = "key_of sample_meta"
  let ?w = "snd (run_state (ci_Reconcile life_env ?r ?key) empty_world)"
  have life: "lifecycle life_env ?r ?key [] ?w"
    by (intro lifecycle.provision lifecycle.start) simp
  obtain w' es where run: "run_state (ci_feedback_Reconcile life_env ?key) ?w = (Done () result_none None, w')"
      "trace w' = es @ trace ?w" "EvRpcSignal ComputeInstances ''i'' \<in> set es"
  proof (rule feedback_run_at [of life_env ?key ?w True])
    show "get_compute_instance (kube life_env) ?key (trace ?w) = Inr (feedback_ci True)"
      using life_released [of ?r _ "''u''" "''d''" empty_world] by (simp add: the_eda_def)
  qed simp_all
  have "cir_provider ?r = Some the_eda" "0 < cir_statusPollInterval ?r" "1 \<le> cir_maxJobHistory ?r"
    "finalizer_laws (lib life_env)" "retry_law (lib life_env)"
    by (simp_all add: second_def ref_finalizer_laws ref_retry_law)
  from ci_signal_after_deprovision [OF create_the_eda this life_keeps(2,1,3) life run] show ?thesis by blast
qed

end
