(* ===== verification/Operator_Lifecycle.thy ===== *)
theory Operator_Lifecycle
  imports Operator_Run CI_Lifecycle
begin

text \<open>
  The two controllers of compute instances in the running operator. \<open>CI_Lifecycle\<close> interleaves
  them on one instance; here they are two of the controllers that \<open>main\<close> has registered, they
  work on all instances, and the other controllers work in between.
\<close>

section \<open>Who updates an instance\<close>

lemma run_extends:
  assumes "operator_main pf E getenv = Inr regs" "retry_law (lib E)"
  shows "\<exists>fs. os_history (operator_run regs s0 xs) = fs @ os_history s0"
proof (induction xs rule: rev_induct)
  case (snoc x xs)
  then obtain gs where gs: "os_history (operator_run regs s0 xs) = gs @ os_history s0" by blast
  show ?case
  proof (cases "\<exists>i t. x = Worked i t \<and> i < length regs")
    case True
    then obtain i t where x: "x = Worked i t" "i < length regs" by blast
    note reg = bspec [OF main_within(2) [OF assms] nth_mem [OF x(2)]]
    then obtain c where "controller_of (regs ! i) = Some c" by (auto simp: within_def)
    from run_task_within [OF reg this, of t "world_of (operator_run regs s0 xs) i"] x gs
    show ?thesis by (auto simp: operator_run_append Let_def)
  next
    case False
    then show ?thesis using gs by (cases x) (simp_all add: operator_run_append)
  qed
qed simp

text \<open>The instance controller, working on \<open>key\<close>, finds the deprovisioning over.\<close>

definition finds_over :: "env \<Rightarrow> provider \<Rightarrow> object_key \<Rightarrow> world \<Rightarrow> bool" where
  "finds_over E P key w \<longleftrightarrow>
     (\<exists>c. get_compute_instance (kube E) key (trace w) = Inr c \<and>
        deprovision_over P (set_phase ComputeInstancePhaseDeleting c)
          (w\<lparr>trace := EvGet KindComputeInstance key # trace w\<rparr>))"

text \<open>It has done so in a run of the operator from the state \<open>s0\<close> on.\<close>

definition decided ::
    "env \<Rightarrow> registration list \<Rightarrow> provider \<Rightarrow> object_key \<Rightarrow> operator_state \<Rightarrow> step list \<Rightarrow> bool" where
  "decided E regs P key s0 xs \<longleftrightarrow>
     (\<exists>ys k zs. xs = ys @ Worked k (Reconciled key) # zs \<and> k < length regs \<and>
        controller_of (regs ! k) = Some Instances \<and>
        finds_over E P key (world_of (operator_run regs s0 ys) k))"

lemma decided_append: "decided E regs P key s0 xs \<Longrightarrow> decided E regs P key s0 (xs @ ys)"
  unfolding decided_def by (metis append.assoc append_Cons)

lemma task_gives_up:
  assumes P: "provisioning_provider P" "cir_provider r = Some P"
    and set: "0 < cir_statusPollInterval r" "1 \<le> cir_maxJobHistory r"
    and laws: "finalizer_laws (lib E)" "retry_law (lib E)"
    and api: "served_as_asked E" "answers_updates E" "keeps_finalizer E key" "served_held E key h"
    and reg: "within E reg" "controller_of reg = Some c"
    and inst: "c = Instances \<Longrightarrow> reg_reconcile reg = ci_Reconcile E r"
    and fb: "c = InstanceFeedback \<Longrightarrow> reg_reconcile reg = ci_feedback_Reconcile E"
    and es: "trace (run_task reg t w) = es @ trace w" "e \<in> set es" "gives_up key e" "trace w = fs @ h"
  shows "t = Reconciled key \<and> c = Instances \<and> finds_over E P key w \<or> (\<exists>e \<in> set fs. gives_up key e)"
proof -
  obtain y where y: "e = EvUpdate (KComputeInstance y)" "key_of (ci_meta y) = key" "\<not> holds y"
    using es(3) by (auto simp: gives_up_def)
  obtain gs where "trace (run_task reg t w) = gs @ trace w" "\<forall>e \<in> set gs. may c e"
    using run_task_within [OF reg, of t w] by blast
  with es y(1) have c: "c = Instances \<or> c = InstanceFeedback" by force
  show ?thesis
  proof (cases t)
    case (Mapped n m)
    from mapped_within [OF reg(1), of n m w] es(1,2) Mapped y(1) have "reads (EvUpdate (KComputeInstance y))" by auto
    then show ?thesis by simp
  next
    case (Reconciled key')
    from c show ?thesis
    proof
      assume c: "c = Instances"
      with Reconciled es(1) inst have run: "trace (snd (run_state (ci_Reconcile E r key') w)) = es @ trace w" by simp
      have "key' = key"
        using reconcile_updating [OF P set laws _ run es(2) [unfolded y(1)]] api(1) y(2) by (simp add: served_as_asked_def)
      moreover have "finds_over E P key' w"
        using reconcile_step [OF P set laws run es(2)] y(1,3) by (auto simp: finds_over_def holding_def)
      ultimately show ?thesis using c Reconciled by simp
    next
      assume c: "c = InstanceFeedback"
      obtain out w' where run: "run_state (ci_feedback_Reconcile E key') w = (out, w')" by fastforce
      with c Reconciled es(1) fb have w': "trace w' = es @ trace w" by simp
      obtain obj where "get_compute_instance (kube E) key' (trace w) = Inr obj" "key_of (ci_meta y) = key_of (ci_meta obj)"
        by (rule report_carries [OF laws(1) api(2) run w' es(2) [unfolded y(1)]])
      then have "key' = key" using api(1) y(2) by (simp add: served_as_asked_def)
      then show ?thesis
        using report_step [OF laws(1) api(2-4) _ w' es(4) es(2) [unfolded y(1)] y(3)] run by blast
    qed
  qed
qed

section \<open>Properties\<close>

lemma run_gives_up:
  assumes main: "operator_main pf E getenv = Inr regs" and laws: "finalizer_laws (lib E)" "retry_law (lib E)"
    and P: "createProvider E getenv (provider_type getenv) (provider_settings_of getenv (parsed_flags pf E getenv)) =
      Ok (P, iv)" "0 \<le> iv"
    and api: "served_as_asked E" "answers_updates E" "keeps_finalizer E key" "served_held E key (os_history s0)"
    and e: "os_history (operator_run regs s0 xs) = fs @ os_history s0" "e \<in> set fs" "gives_up key e"
  shows "decided E regs P key s0 xs"
  using e
proof (induction xs arbitrary: e fs rule: rev_induct)
  case Nil
  then show ?case by simp
next
  case (snoc x xs)
  let ?r = "main_instance_reconciler getenv P iv" and ?s = "operator_run regs s0 xs"
  have prov: "provisioning_provider P" "cir_provider ?r = Some P" "0 < cir_statusPollInterval ?r"
      "1 \<le> cir_maxJobHistory ?r"
    using createProvider_contract [OF P(1)] P(2)
    by (auto simp: main_instance_reconciler_def newComputeInstanceReconciler_def DefaultMaxJobHistory_def second_def)
  obtain gs where gs: "os_history ?s = gs @ os_history s0"
    using run_extends [OF main laws(2)] by blast
  show ?case
  proof (cases "\<exists>e \<in> set gs. gives_up key e")
    case True
    with snoc.IH [OF gs] show ?thesis by (blast intro: decided_append)
  next
    case False
    with snoc.prems gs obtain i t where x: "x = Worked i t" "i < length regs"
      by (cases x) (auto simp: operator_run_append split: if_splits)
    note reg = bspec [OF main_within(2) [OF main laws(2)] nth_mem [OF x(2)]]
    obtain c where c: "controller_of (regs ! i) = Some c" using reg by (auto simp: within_def)
    obtain es where es: "trace (run_task (regs ! i) t (world_of ?s i)) = es @ os_history ?s"
      using run_task_within [OF reg c, of t "world_of ?s i"] by auto
    have "fs = es @ gs" using snoc.prems(1) x es gs by (simp add: operator_run_append Let_def)
    with snoc.prems(2,3) False have "e \<in> set es" by auto
    from task_gives_up [OF prov laws api reg c _ _ _ this snoc.prems(3), of t "world_of ?s i" gs]
      main_reconcilers(4,5) [OF main x(2)] c P(1) es gs False
    have "t = Reconciled key" "c = Instances" "finds_over E P key (world_of ?s i)" by auto
    then show ?thesis
      unfolding decided_def using x c
      by (intro exI [of _ xs] exI [of _ i] exI [of _ "[]"]) simp
  qed
qed

text \<open>C2: the fulfillment service learns last, in the running operator. Take any state in which the
  API server serves an instance with the finalizer of the instance controller, and whatever
  the controllers do from then on, in whatever order and with whatever restarts: when the
  feedback controller, working on the instance, signals the service, then the instance
  controller has worked on it in between, and has found its deprovisioning over (the instance
  was managed by hand, or the provider skipped the deprovisioning, or its job had ended as it
  must). The two share nothing but the finalizers. It holds for a polling interval that is
  not negative (with a negative one it is false, see C33). It says nothing of an instance that
  is deleted before the instance controller has put its finalizer on it. What it asks of the
  API server: it serves the object it was asked for; it answers an update with the key and the
  finalizers it was sent; and it changes finalizers only as updates of this operator ask it
  to, so that nobody else removes the finalizer and no reading is older than that state. The
  finalizer and retry helpers are taken as documented.\<close>

theorem operator_signals_last:
  assumes main: "operator_main pf E getenv = Inr regs" and laws: "finalizer_laws (lib E)" "retry_law (lib E)"
    and P: "createProvider E getenv (provider_type getenv) (provider_settings_of getenv (parsed_flags pf E getenv)) =
      Ok (P, iv)" "0 \<le> iv"
    and api: "served_as_asked E" "answers_updates E" "keeps_finalizer E key"
    and start: "get_compute_instance (kube E) key (os_history s0) = Inr c0"
      "cloudkitComputeInstanceFinalizer \<in> set (ci_finalizers c0)"
    and i: "i < length regs" "controller_of (regs ! i) = Some InstanceFeedback"
    and s: "s = operator_run regs s0 xs"
    and es: "os_history (perform regs s (Worked i (Reconciled key))) = es @ os_history s" "EvRpcSignal sv j \<in> set es"
  shows "\<exists>ys k zs. xs = ys @ Worked k (Reconciled key) # zs \<and> k < length regs \<and>
    controller_of (regs ! k) = Some Instances \<and>
    finds_over E P key (world_of (operator_run regs s0 ys) k)"
proof -
  have held: "served_held E key (os_history s0)" using start by (auto simp: served_held_def holds_def)
  obtain out w' where run: "run_state (ci_feedback_Reconcile E key) (world_of s i) = (out, w')" by fastforce
  have w': "trace w' = es @ trace (world_of s i)"
    using es(1) i(1) run by (simp add: main_reconcilers(5) [OF main i] Let_def)
  obtain y where y: "EvUpdate (KComputeInstance y) \<in> set es" "\<not> holds y"
    using signal_released [OF laws(1) run w' es(2)] by blast
  obtain fs where fs: "os_history s = fs @ os_history s0" using run_extends [OF main laws(2)] s by blast
  with report_step [OF laws(1) api(2,3) held run w' _ y, of fs] obtain e where "e \<in> set fs" "gives_up key e" by auto
  from run_gives_up [OF main laws P api held fs [unfolded s] this] show ?thesis by (simp add: decided_def)
qed

text \<open>First the one controller, then the other.\<close>

theorem operator_signals_last_witness:
  "\<exists>regs P. operator_main run_platform life_env run_environ = Inr regs \<and>
     decided life_env regs P (key_of sample_meta) operator_start [Worked 5 (Reconciled (key_of sample_meta))]"
proof -
  obtain regs where main: "operator_main run_platform life_env run_environ = Inr regs" "6 < length regs"
    "controller_of (regs ! 2) = Some InstanceFeedback" "controller_of (regs ! 5) = Some Instances" by (rule run_main)
  let ?key = "key_of sample_meta" and ?P = "edaProvider (lib life_env) (newEDAProvider
      (triggerWebhook life_env (newWebhookClient (10 * second) second)) ''u'' ''d'')"
  let ?r = "main_instance_reconciler run_environ ?P DefaultStatusPollInterval"
  have r: "cir_provider ?r = Some ?P" "0 \<le> DefaultStatusPollInterval"
    by (simp_all add: main_instance_reconciler_def newComputeInstanceReconciler_def DefaultStatusPollInterval_def second_def)
  let ?xs = "[Worked 5 (Reconciled ?key)]"
  let ?s = "operator_run regs operator_start ?xs"
  have "os_history ?s = trace (snd (run_state (ci_Reconcile life_env ?r ?key) (world_of operator_start 5)))"
    using main(2) main_reconcilers(4) [OF main(1) _ main(4) run_provider] by (simp add: Let_def)
  then have up: "given_up (os_history ?s)"
    using life_released [of ?r _ _ _ "world_of operator_start 5"] r(1) by (simp add: operator_start_def)
  obtain w' es where run: "run_state (ci_feedback_Reconcile life_env ?key) (world_of ?s 2) = (Done () result_none None, w')"
      "trace w' = es @ trace (world_of ?s 2)" "EvRpcSignal ComputeInstances ''i'' \<in> set es"
  proof (rule feedback_run_at [of life_env ?key "world_of ?s 2" True])
    show "get_compute_instance (kube life_env) ?key (trace (world_of ?s 2)) = Inr (feedback_ci True)"
      using up by simp
  qed simp_all
  have es: "os_history (perform regs ?s (Worked 2 (Reconciled ?key))) = es @ os_history ?s"
    using main(2) main_reconcilers(5) [OF main(1) _ main(3)] run(1,2) by (simp add: Let_def)
  have "key_of (ci_meta (feedback_ci True)) = ?key" by (simp add: feedback_ci_def sample_ci_def key_of_def)
  then have "served_as_asked life_env" by (auto simp: served_as_asked_def)
  moreover have "get_compute_instance (kube life_env) ?key (os_history operator_start) = Inr held_ci"
    by (simp add: operator_start_def given_up_def)
  ultimately show ?thesis
    using operator_signals_last [OF main(1) _ _ run_provider r(2) _ life_keeps(2,1) _ _ _ main(3) refl es run(3)] main(1,2)
    by (intro exI [of _ regs] exI [of _ ?P]) (simp add: ref_finalizer_laws ref_retry_law decided_def)
qed

end
