(* ===== verification/Go_Memory.thy ===== *)
theory Go_Memory
  imports Go_Runtime "HOL-Library.Monad_Syntax"
begin

text \<open>
  Go's memory, as far as the deep copies and the in-place updates of \<open>src\<close> need it: a store
  of blocks that is never freed, pointers into a block, slices with offset, length and
  capacity, \<open>new\<close>, \<open>make\<close>, the builtins \<open>copy\<close> and \<open>append\<close>. The locale \<open>deep_copier\<close> is the
  contract of a copy function: what it returns reads as the same value, the store it leaves
  extends the old one, and nothing of the copy lies in the old one. Its instances are closed
  under pointers, slices and records, so that the copiers of the API types are built from
  those of their fields.
\<close>

section \<open>Blocks, pointers and slices\<close>

text \<open>
  A store is the list of the allocated blocks; the address of a block is its position. A
  block holds the elements of an array of one Go type, a single object being an array of
  one; \<open>None\<close> is the zero value that \<open>make\<close> leaves. A \<open>kind\<close> is an element type: how its
  arrays are tagged as blocks, and how they are read back.
\<close>

record ('a, 'b) kind =
  block_of :: "'a option list \<Rightarrow> 'b"
  cells_of :: "'b \<Rightarrow> 'a option list option"

type_synonym pointer = "nat \<times> nat"  \<comment> \<open>a block and an index in it\<close>

record slice =
  sl_block :: nat
  sl_off :: nat
  sl_len :: nat
  sl_cap :: nat

definition cells :: "('a, 'b) kind \<Rightarrow> 'b list \<Rightarrow> nat \<Rightarrow> 'a option list option" where
  "cells k h b = (if b < length h then cells_of k (h ! b) else None)"

definition load :: "('a, 'b) kind \<Rightarrow> 'b list \<Rightarrow> pointer \<Rightarrow> 'a option" where
  "load k h p =
     (case cells k h (fst p) of None \<Rightarrow> None
      | Some xs \<Rightarrow> if snd p < length xs then xs ! snd p else None)"

definition store :: "('a, 'b) kind \<Rightarrow> 'b list \<Rightarrow> pointer \<Rightarrow> 'a \<Rightarrow> 'b list option" where
  "store k h p x =
     (case cells k h (fst p) of None \<Rightarrow> None
      | Some xs \<Rightarrow> if snd p < length xs then Some (h[fst p := block_of k (xs[snd p := Some x])]) else None)"

text \<open>\<open>new(T)\<close> with the value then stored, and \<open>make([]T, n)\<close>.\<close>

definition new_object :: "('a, 'b) kind \<Rightarrow> 'b list \<Rightarrow> 'a \<Rightarrow> 'b list \<times> pointer" where
  "new_object k h x = (h @ [block_of k [Some x]], (length h, 0))"

definition make_slice :: "('a, 'b) kind \<Rightarrow> 'b list \<Rightarrow> nat \<Rightarrow> 'b list \<times> slice" where
  "make_slice k h n =
     (h @ [block_of k (replicate n None)], \<lparr>sl_block = length h, sl_off = 0, sl_len = n, sl_cap = n\<rparr>)"

definition slice_at :: "slice \<Rightarrow> nat \<Rightarrow> pointer" where
  "slice_at s i = (sl_block s, sl_off s + i)"

text \<open>The elements a slice shows; a nil slice has none.\<close>

definition window :: "('a, 'b) kind \<Rightarrow> 'b list \<Rightarrow> slice \<Rightarrow> 'a option list option" where
  "window k h s =
     (case cells k h (sl_block s) of None \<Rightarrow> None
      | Some xs \<Rightarrow>
          if sl_len s \<le> sl_cap s \<and> sl_off s + sl_cap s \<le> length xs
          then Some (take (sl_len s) (drop (sl_off s) xs)) else None)"

definition elements :: "('a, 'b) kind \<Rightarrow> 'b list \<Rightarrow> slice option \<Rightarrow> 'a list option" where
  "elements k h so = (case so of None \<Rightarrow> Some [] | Some s \<Rightarrow> Option.bind (window k h s) those)"

text \<open>The builtin \<open>copy(dst, src)\<close>: as many elements as both slices have.\<close>

definition copy_builtin :: "('a, 'b) kind \<Rightarrow> 'b list \<Rightarrow> slice \<Rightarrow> slice \<Rightarrow> 'b list option" where
  "copy_builtin k h dst src = do {
     xs \<leftarrow> window k h src;
     ys \<leftarrow> cells k h (sl_block dst);
     let n = min (sl_len dst) (sl_len src);
     Some (h[sl_block dst :=
       block_of k (take (sl_off dst) ys @ take n xs @ drop (sl_off dst + n) ys)]) }"

text \<open>
  The builtin \<open>append(s, x)\<close>: in place when the capacity allows, otherwise into a new array
  whose capacity is for the runtime to choose (\<open>grow\<close>, of the old capacity).
\<close>

definition append_slice ::
    "(nat \<Rightarrow> nat) \<Rightarrow> ('a, 'b) kind \<Rightarrow> 'b list \<Rightarrow> slice option \<Rightarrow> 'a \<Rightarrow> ('b list \<times> slice) option" where
  "append_slice grow k h so x =
     (case so of
        None \<Rightarrow>
          let c = max 1 (grow 0)
          in Some (h @ [block_of k (Some x # replicate (c - 1) None)],
                   \<lparr>sl_block = length h, sl_off = 0, sl_len = 1, sl_cap = c\<rparr>)
      | Some s \<Rightarrow>
          if sl_len s < sl_cap s
          then do {
            h \<leftarrow> store k h (slice_at s (sl_len s)) x;
            Some (h, s\<lparr>sl_len := Suc (sl_len s)\<rparr>) }
          else do {
            xs \<leftarrow> window k h s;
            let c = max (Suc (sl_len s)) (grow (sl_cap s));
            Some (h @ [block_of k (xs @ Some x # replicate (c - Suc (sl_len s)) None)],
                  \<lparr>sl_block = length h, sl_off = 0, sl_len = Suc (sl_len s), sl_cap = c\<rparr>) })"

text \<open>The slice expression \<open>s[n:]\<close>; out of range it panics.\<close>

definition reslice :: "slice \<Rightarrow> nat \<Rightarrow> slice option" where
  "reslice s n =
     (if n \<le> sl_len s
      then Some (s\<lparr>sl_off := sl_off s + n, sl_len := sl_len s - n, sl_cap := sl_cap s - n\<rparr>) else None)"

section \<open>Copying\<close>

text \<open>
  The loop \<open>for i := range *in { (*in)[i].DeepCopyInto(&(*out)[i]) }\<close>, from index \<open>i\<close> with
  \<open>n\<close> elements left.
\<close>

fun copy_loop ::
    "('a, 'b) kind \<Rightarrow> ('b list \<Rightarrow> 'a \<Rightarrow> ('b list \<times> 'a) option) \<Rightarrow> slice \<Rightarrow> slice \<Rightarrow>
     'b list \<Rightarrow> nat \<Rightarrow> nat \<Rightarrow> 'b list option" where
  "copy_loop k cp src dst h i 0 = Some h"
| "copy_loop k cp src dst h i (Suc n) = do {
     x \<leftarrow> load k h (slice_at src i);
     (h, y) \<leftarrow> cp h x;
     h \<leftarrow> store k h (slice_at dst i) y;
     copy_loop k cp src dst h (Suc i) n }"

definition copy_slice ::
    "('a, 'b) kind \<Rightarrow> ('b list \<Rightarrow> 'a \<Rightarrow> ('b list \<times> 'a) option) \<Rightarrow>
     'b list \<Rightarrow> slice option \<Rightarrow> ('b list \<times> slice option) option" where
  "copy_slice k cp h so =
     (case so of None \<Rightarrow> Some (h, None)
      | Some s \<Rightarrow> do {
          let (h, d) = make_slice k h (sl_len s);
          h \<leftarrow> copy_loop k cp s d h 0 (sl_len s);
          Some (h, Some d) })"

definition copy_plain_slice ::
    "('a, 'b) kind \<Rightarrow> 'b list \<Rightarrow> slice option \<Rightarrow> ('b list \<times> slice option) option" where
  "copy_plain_slice k h so =
     (case so of None \<Rightarrow> Some (h, None)
      | Some s \<Rightarrow> do {
          let (h, d) = make_slice k h (sl_len s);
          h \<leftarrow> copy_builtin k h d s;
          Some (h, Some d) })"

text \<open>
  \<open>DeepCopy\<close>: \<open>if in == nil { return nil }; out := new(T); in.DeepCopyInto(out); return out\<close>. The
  receiver is the object read through the pointer, \<open>None\<close> the nil pointer. The new object is
  allocated here once its contents are known; nothing reads it before, and no program can
  tell the order of two allocations.
\<close>

definition deep_copy ::
    "('a, 'b) kind \<Rightarrow> ('b list \<Rightarrow> 'a \<Rightarrow> ('b list \<times> 'a) option) \<Rightarrow>
     'b list \<Rightarrow> 'a option \<Rightarrow> ('b list \<times> pointer option) option" where
  "deep_copy k cp h i =
     (case i of None \<Rightarrow> Some (h, None)
      | Some x \<Rightarrow> do {
          (h, y) \<leftarrow> cp h x;
          let (h, q) = new_object k h y;
          Some (h, Some q) })"

definition copy_pointer ::
    "('a, 'b) kind \<Rightarrow> ('b list \<Rightarrow> 'a \<Rightarrow> ('b list \<times> 'a) option) \<Rightarrow>
     'b list \<Rightarrow> pointer option \<Rightarrow> ('b list \<times> pointer option) option" where
  "copy_pointer k cp h po =
     (case po of None \<Rightarrow> Some (h, None)
      | Some p \<Rightarrow> do {
          x \<leftarrow> load k h p;
          deep_copy k cp h (Some x) })"

definition copy_plain :: "'b list \<Rightarrow> 'a \<Rightarrow> ('b list \<times> 'a) option" where
  "copy_plain h x = Some (h, x)"

definition copy_pair ::
    "('b list \<Rightarrow> 'a \<Rightarrow> ('b list \<times> 'a) option) \<Rightarrow> ('b list \<Rightarrow> 'c \<Rightarrow> ('b list \<times> 'c) option) \<Rightarrow>
     'b list \<Rightarrow> 'a \<times> 'c \<Rightarrow> ('b list \<times> 'a \<times> 'c) option" where
  "copy_pair cp cq h z = do {
     (h, x) \<leftarrow> cp h (fst z);
     (h, y) \<leftarrow> cq h (snd z);
     Some (h, (x, y)) }"

section \<open>Reading a value back\<close>

definition read_plain :: "'b list \<Rightarrow> 'a \<Rightarrow> 'a option" where
  "read_plain h x = Some x"

definition read_pointer ::
    "('a, 'b) kind \<Rightarrow> ('b list \<Rightarrow> 'a \<Rightarrow> 'v option) \<Rightarrow> 'b list \<Rightarrow> pointer option \<Rightarrow> 'v option option" where
  "read_pointer k rd h po =
     (case po of None \<Rightarrow> Some None | Some p \<Rightarrow> map_option Some (Option.bind (load k h p) (rd h)))"

definition read_slice ::
    "('a, 'b) kind \<Rightarrow> ('b list \<Rightarrow> 'a \<Rightarrow> 'v option) \<Rightarrow> 'b list \<Rightarrow> slice option \<Rightarrow> 'v list option" where
  "read_slice k rd h so = Option.bind (elements k h so) (\<lambda>xs. those (map (rd h) xs))"

definition read_pair ::
    "('b list \<Rightarrow> 'a \<Rightarrow> 'v option) \<Rightarrow> ('b list \<Rightarrow> 'c \<Rightarrow> 'w option) \<Rightarrow>
     'b list \<Rightarrow> 'a \<times> 'c \<Rightarrow> ('v \<times> 'w) option" where
  "read_pair rd rd' h z = do { v \<leftarrow> rd h (fst z); w \<leftarrow> rd' h (snd z); Some (v, w) }"

text \<open>The blocks a value reaches.\<close>

definition reach_plain :: "'b list \<Rightarrow> 'a \<Rightarrow> nat list" where
  "reach_plain h x = []"

definition reach_pointer ::
    "('a, 'b) kind \<Rightarrow> ('b list \<Rightarrow> 'a \<Rightarrow> nat list) \<Rightarrow> 'b list \<Rightarrow> pointer option \<Rightarrow> nat list" where
  "reach_pointer k re h po =
     (case po of None \<Rightarrow> []
      | Some p \<Rightarrow> fst p # (case load k h p of None \<Rightarrow> [] | Some x \<Rightarrow> re h x))"

definition reach_slice ::
    "('a, 'b) kind \<Rightarrow> ('b list \<Rightarrow> 'a \<Rightarrow> nat list) \<Rightarrow> 'b list \<Rightarrow> slice option \<Rightarrow> nat list" where
  "reach_slice k re h so =
     (case so of None \<Rightarrow> []
      | Some s \<Rightarrow> sl_block s # (case elements k h so of None \<Rightarrow> [] | Some xs \<Rightarrow> concat (map (re h) xs)))"

definition reach_pair ::
    "('b list \<Rightarrow> 'a \<Rightarrow> nat list) \<Rightarrow> ('b list \<Rightarrow> 'c \<Rightarrow> nat list) \<Rightarrow> 'b list \<Rightarrow> 'a \<times> 'c \<Rightarrow> nat list" where
  "reach_pair re re' h z = re h (fst z) @ re' h (snd z)"

section \<open>Stores that agree, stores that extend another\<close>

definition same_on :: "nat list \<Rightarrow> 'b list \<Rightarrow> 'b list \<Rightarrow> bool" where
  "same_on as h h' \<longleftrightarrow> (\<forall>a \<in> set as. a < length h' \<and> h' ! a = h ! a)"

definition grows :: "'b list \<Rightarrow> 'b list \<Rightarrow> bool" where
  "grows h h' \<longleftrightarrow> take (length h) h' = h"

lemma grows_refl [simp]: "grows h h"
  by (simp add: grows_def)

lemma grows_append [simp]: "grows h (h @ ys)"
  by (simp add: grows_def)

lemma grows_iff: "grows h h' \<longleftrightarrow> length h \<le> length h' \<and> (\<forall>a < length h. h' ! a = h ! a)"
  by (auto simp: grows_def list_eq_iff_nth_eq min_def)

lemma grows_trans: "grows h h' \<Longrightarrow> grows h' h'' \<Longrightarrow> grows h h''"
  by (auto simp: grows_iff)

lemma grows_update: "grows h h' \<Longrightarrow> length h \<le> b \<Longrightarrow> grows h (h'[b := x])"
  by (simp add: grows_iff)

lemma grows_snoc: "grows h h' \<Longrightarrow> grows h (h' @ ys)"
  by (auto intro: grows_trans)

lemma same_on_grows: "grows h h' \<Longrightarrow> (\<And>a. a \<in> set as \<Longrightarrow> a < length h) \<Longrightarrow> same_on as h h'"
  unfolding grows_iff same_on_def by fastforce

lemma same_on_simps [simp]:
  "same_on [] h h'" "same_on (a # as) h h' \<longleftrightarrow> (a < length h' \<and> h' ! a = h ! a) \<and> same_on as h h'"
  "same_on (as @ bs) h h' \<longleftrightarrow> same_on as h h' \<and> same_on bs h h'"
  by (auto simp: same_on_def)

lemma same_on_concat: "same_on (concat ass) h h' \<longleftrightarrow> (\<forall>as \<in> set ass. same_on as h h')"
  by (auto simp: same_on_def)

lemma cells_same: "a < length h' \<Longrightarrow> h' ! a = h ! a \<Longrightarrow> a < length h \<Longrightarrow> cells k h' a = cells k h a"
  by (simp add: cells_def)

lemma cells_SomeD: "cells k h b = Some xs \<Longrightarrow> b < length h"
  by (simp add: cells_def split: if_splits)

lemma load_SomeD: "load k h p = Some x \<Longrightarrow> fst p < length h"
  by (auto simp: load_def cells_def split: option.splits if_splits)

lemma those_eq_Some_conv: "those xs = Some ys \<longleftrightarrow> xs = map Some ys"
  by (induction xs arbitrary: ys) (auto split: option.split simp: Cons_eq_map_conv)

lemma elements_eq_Some:
  "elements k h (Some s) = Some xs \<longleftrightarrow> window k h s = Some (map Some xs)"
  by (auto simp: elements_def bind_eq_Some_conv those_eq_Some_conv)

lemma window_SomeD:
  "window k h s = Some xs \<Longrightarrow>
     \<exists>ys. cells k h (sl_block s) = Some ys \<and> sl_len s \<le> sl_cap s \<and> sl_off s + sl_cap s \<le> length ys \<and>
       xs = take (sl_len s) (drop (sl_off s) ys) \<and> length xs = sl_len s"
  by (auto simp: window_def split: option.splits if_splits)

lemma window_load:
  assumes "window k h s = Some xs" "i < sl_len s"
  shows "load k h (slice_at s i) = xs ! i"
  using assms by (auto dest!: window_SomeD simp: load_def slice_at_def)

lemma elements_SomeD:
  assumes "elements k h (Some s) = Some xs"
  shows "sl_block s < length h" "length xs = sl_len s"
    and "i < sl_len s \<Longrightarrow> load k h (slice_at s i) = Some (xs ! i)"
proof -
  have w: "window k h s = Some (map Some xs)" using assms by (simp add: elements_eq_Some)
  then show "sl_block s < length h" by (auto dest: window_SomeD cells_SomeD)
  have "length (map Some xs) = sl_len s" using window_SomeD [OF w] by blast
  then show len: "length xs = sl_len s" by simp
  show "load k h (slice_at s i) = Some (xs ! i)" if "i < sl_len s"
    using window_load [OF w that] len that by simp
qed

lemma load_same: "fst p < length h \<Longrightarrow> fst p < length h' \<Longrightarrow> h' ! fst p = h ! fst p \<Longrightarrow> load k h' p = load k h p"
  unfolding load_def using cells_same [of "fst p" h' h k] by simp

lemma elements_same:
  "sl_block s < length h \<Longrightarrow> sl_block s < length h' \<Longrightarrow> h' ! sl_block s = h ! sl_block s \<Longrightarrow>
   elements k h' (Some s) = elements k h (Some s)"
  unfolding elements_def window_def using cells_same [of "sl_block s" h' h k] by simp

section \<open>The contract of a copy function\<close>

locale block_kind =
  fixes k :: "('a, 'b) kind"
  assumes cells_block: "cells_of k (block_of k xs) = Some xs"
begin

lemma cells_update: "b < length h \<Longrightarrow> cells k (h[b := block_of k xs]) b = Some xs"
  by (simp add: cells_def cells_block)

lemma cells_new: "cells k (h @ [block_of k xs]) (length h) = Some xs"
  by (simp add: cells_def cells_block)

lemma load_new: "load k (h @ [block_of k [Some x]]) (length h, 0) = Some x"
  by (simp add: load_def cells_new)

lemma store_cells:
  assumes "cells k h b = Some xs" "i < length xs"
  shows "store k h (b, i) x = Some (h[b := block_of k (xs[i := Some x])])"
    and "cells k (h[b := block_of k (xs[i := Some x])]) b = Some (xs[i := Some x])"
  using assms by (simp_all add: store_def cells_update cells_SomeD)

end

locale deep_copier =
  fixes rd :: "'b list \<Rightarrow> 'a \<Rightarrow> 'v option"
    and re :: "'b list \<Rightarrow> 'a \<Rightarrow> nat list"
    and cp :: "'b list \<Rightarrow> 'a \<Rightarrow> ('b list \<times> 'a) option"
  assumes read_local: "rd h x = Some v \<Longrightarrow> same_on (re h x) h h' \<Longrightarrow> rd h' x = Some v \<and> re h' x = re h x"
    and reach_below: "rd h x = Some v \<Longrightarrow> a \<in> set (re h x) \<Longrightarrow> a < length h"
    and copy_reads: "rd h x = Some v \<Longrightarrow>
      \<exists>h' y. cp h x = Some (h', y) \<and> grows h h' \<and> rd h' y = Some v \<and> (\<forall>a \<in> set (re h' y). length h \<le> a)"
begin

lemma read_grows:
  "rd h x = Some v \<Longrightarrow> grows h h' \<Longrightarrow> rd h' x = Some v \<and> re h' x = re h x"
  by (rule read_local) (auto intro: same_on_grows reach_below)

text \<open>Whatever happens to the cells of the source, the copy reads as before.\<close>

lemma copy_independent:
  assumes "rd h x = Some v" "cp h x = Some (h', y)"
    and "\<And>a. length h \<le> a \<Longrightarrow> a < length h' \<Longrightarrow> a < length h'' \<and> h'' ! a = h' ! a"
  shows "rd h'' y = Some v"
proof -
  have y: "rd h' y = Some v" "\<forall>a \<in> set (re h' y). length h \<le> a"
    using copy_reads [OF assms(1)] assms(2) by auto
  then have "same_on (re h' y) h' h''"
    unfolding same_on_def using assms(3) reach_below [OF y(1)] by blast
  then show ?thesis using read_local [OF y(1)] by blast
qed

text \<open>Whatever happens to the cells of the copy, the source reads as before.\<close>

lemma source_independent:
  assumes "rd h x = Some v" "\<And>a. a < length h \<Longrightarrow> a < length h'' \<and> h'' ! a = h ! a"
  shows "rd h'' x = Some v"
  using read_local [OF assms(1)] assms reach_below [OF assms(1)] unfolding same_on_def by blast

end

section \<open>Copiers of plain values, pairs, pointers and slices\<close>

lemmas copier_defs = read_plain_def reach_plain_def copy_plain_def read_pair_def reach_pair_def
  copy_pair_def read_pointer_def reach_pointer_def copy_pointer_def deep_copy_def

lemma deep_copier_plain: "deep_copier read_plain reach_plain copy_plain"
  by unfold_locales (simp_all add: copier_defs)

lemma read_pair_eq_Some:
  "read_pair r1 r2 h z = Some v \<longleftrightarrow> r1 h (fst z) = Some (fst v) \<and> r2 h (snd z) = Some (snd v)"
  by (cases v) (auto simp: read_pair_def bind_eq_Some_conv)

lemma deep_copier_pair:
  assumes "deep_copier r1 e1 c1" "deep_copier r2 e2 c2"
  shows "deep_copier (read_pair r1 r2) (reach_pair e1 e2) (copy_pair c1 c2)"
proof unfold_locales
  fix h z v h' assume "read_pair r1 r2 h z = Some v" "same_on (reach_pair e1 e2 h z) h h'"
  then have rd: "r1 h (fst z) = Some (fst v)" "r2 h (snd z) = Some (snd v)"
    and same: "same_on (e1 h (fst z)) h h'" "same_on (e2 h (snd z)) h h'"
    by (simp_all add: read_pair_eq_Some reach_pair_def)
  show "read_pair r1 r2 h' z = Some v \<and> reach_pair e1 e2 h' z = reach_pair e1 e2 h z"
    using deep_copier.read_local [OF assms(1) rd(1) same(1)] deep_copier.read_local [OF assms(2) rd(2) same(2)]
    by (simp add: read_pair_eq_Some reach_pair_def)
next
  fix h z v a assume "read_pair r1 r2 h z = Some v" "a \<in> set (reach_pair e1 e2 h z)"
  then have "r1 h (fst z) = Some (fst v)" "r2 h (snd z) = Some (snd v)"
    and "a \<in> set (e1 h (fst z)) \<or> a \<in> set (e2 h (snd z))"
    by (simp_all add: read_pair_eq_Some reach_pair_def)
  then show "a < length h"
    using deep_copier.reach_below [OF assms(1)] deep_copier.reach_below [OF assms(2)] by blast
next
  fix h z v assume rd: "read_pair r1 r2 h z = Some v"
  then have v: "r1 h (fst z) = Some (fst v)" "r2 h (snd z) = Some (snd v)"
    by (simp_all add: read_pair_eq_Some)
  obtain h1 x1 where 1: "c1 h (fst z) = Some (h1, x1)" "grows h h1" "r1 h1 x1 = Some (fst v)"
      "\<forall>a \<in> set (e1 h1 x1). length h \<le> a"
    using deep_copier.copy_reads [OF assms(1) v(1)] by blast
  have "r2 h1 (snd z) = Some (snd v)" using deep_copier.read_grows [OF assms(2) v(2) 1(2)] by blast
  then obtain h2 y2 where 2: "c2 h1 (snd z) = Some (h2, y2)" "grows h1 h2" "r2 h2 y2 = Some (snd v)"
      "\<forall>a \<in> set (e2 h2 y2). length h1 \<le> a"
    using deep_copier.copy_reads [OF assms(2)] by blast
  have 3: "r1 h2 x1 = Some (fst v)" "e1 h2 x1 = e1 h1 x1"
    using deep_copier.read_grows [OF assms(1) 1(3) 2(2)] by blast+
  have "length h \<le> length h1" using 1(2) by (simp add: grows_iff)
  then have fresh: "\<forall>a \<in> set (reach_pair e1 e2 h2 (x1, y2)). length h \<le> a"
    using 1(4) 2(4) 3(2) by (auto simp: reach_pair_def)
  have "copy_pair c1 c2 h z = Some (h2, x1, y2)" using 1(1) 2(1) by (simp add: copy_pair_def)
  moreover have "read_pair r1 r2 h2 (x1, y2) = Some v" using 3(1) 2(3) by (simp add: read_pair_eq_Some)
  ultimately show "\<exists>h' y. copy_pair c1 c2 h z = Some (h', y) \<and> grows h h' \<and>
      read_pair r1 r2 h' y = Some v \<and> (\<forall>a \<in> set (reach_pair e1 e2 h' y). length h \<le> a)"
    using fresh grows_trans [OF 1(2) 2(2)] by blast
qed

text \<open>A record is the tuple of its fields, in the order its copier treats them.\<close>

lemma deep_copier_via:
  assumes "deep_copier r e c"
    and mk_un: "\<And>x. mk (un x) = x" and un_mk: "\<And>z. un (mk z) = z"
    and r': "\<And>h z. r' h (mk z) = map_option f (r h z)"
    and e': "\<And>h z. e' h (mk z) = e h z"
    and c': "\<And>h z. c' h (mk z) = map_option (\<lambda>(h, z). (h, mk z)) (c h z)"
  shows "deep_copier r' e' c'"
proof -
  have r: "r' h x = map_option f (r h (un x))" and e: "e' h x = e h (un x)"
    and c: "c' h x = map_option (\<lambda>(h, z). (h, mk z)) (c h (un x))" for h x
    using r' [of h "un x"] e' [of h "un x"] c' [of h "un x"] by (simp_all add: mk_un)
  show ?thesis
  proof unfold_locales
    fix h x v h' assume "r' h x = Some v" "same_on (e' h x) h h'"
    then obtain w where w: "r h (un x) = Some w" "f w = v" and same: "same_on (e h (un x)) h h'"
      by (auto simp: r e)
    show "r' h' x = Some v \<and> e' h' x = e' h x"
      using deep_copier.read_local [OF assms(1) w(1) same] w(2) by (simp add: r e)
  next
    fix h x v a assume "r' h x = Some v" "a \<in> set (e' h x)"
    then obtain w where w: "r h (un x) = Some w" "a \<in> set (e h (un x))"
      by (auto simp: r e)
    then show "a < length h" by (rule deep_copier.reach_below [OF assms(1)])
  next
    fix h x v assume "r' h x = Some v"
    then obtain w where w: "r h (un x) = Some w" "f w = v" by (auto simp: r)
    obtain h' z where z: "c h (un x) = Some (h', z)" "grows h h'" "r h' z = Some w"
        "\<forall>a \<in> set (e h' z). length h \<le> a"
      using deep_copier.copy_reads [OF assms(1) w(1)] by blast
    have "c' h x = Some (h', mk z)" using z(1) by (simp add: c)
    moreover have "r' h' (mk z) = Some v" "e' h' (mk z) = e h' z"
      using z(3) w(2) by (simp_all add: r' e')
    ultimately show "\<exists>h' y. c' h x = Some (h', y) \<and> grows h h' \<and> r' h' y = Some v \<and>
        (\<forall>a \<in> set (e' h' y). length h \<le> a)"
      using z(2,4) by auto
  qed
qed

lemma deep_copy_reads:
  assumes k: "block_kind k" and c: "deep_copier r e c" and x: "r h x = Some v"
  shows "\<exists>h' p. deep_copy k c h (Some x) = Some (h', Some p) \<and> grows h h' \<and>
    read_pointer k r h' (Some p) = Some (Some v) \<and> (\<forall>a \<in> set (reach_pointer k e h' (Some p)). length h \<le> a)"
proof -
  obtain h1 y where y: "c h x = Some (h1, y)" "grows h h1" "r h1 y = Some v" "\<forall>a \<in> set (e h1 y). length h \<le> a"
    using deep_copier.copy_reads [OF c x] by blast
  let ?h2 = "h1 @ [block_of k [Some y]]"
  have "r ?h2 y = Some v" "e ?h2 y = e h1 y"
    using deep_copier.read_grows [OF c y(3) grows_append] by blast+
  moreover have "length h \<le> length h1" using y(2) by (simp add: grows_iff)
  ultimately show ?thesis
    using y block_kind.load_new [OF k, of h1 y]
    by (auto simp: copier_defs new_object_def intro: grows_snoc)
qed

lemma deep_copier_pointer:
  assumes k: "block_kind k" and c: "deep_copier r e c"
  shows "deep_copier (read_pointer k r) (reach_pointer k e) (copy_pointer k c)"
proof unfold_locales
  fix h z v h' assume rd: "read_pointer k r h z = Some v" and same: "same_on (reach_pointer k e h z) h h'"
  show "read_pointer k r h' z = Some v \<and> reach_pointer k e h' z = reach_pointer k e h z"
  proof (cases z)
    case (Some p)
    with rd obtain x w where x: "load k h p = Some x" "r h x = Some w" "v = Some w"
      by (auto simp: copier_defs bind_eq_Some_conv)
    then have "load k h' p = Some x"
      using same Some load_SomeD [OF x(1)] load_same [of p h h' k] by (simp add: copier_defs)
    then show ?thesis
      using x Some same deep_copier.read_local [OF c x(2)] by (simp add: copier_defs)
  qed (use rd in \<open>simp add: copier_defs\<close>)
next
  fix h z v a assume "read_pointer k r h z = Some v" "a \<in> set (reach_pointer k e h z)"
  then show "a < length h"
    using deep_copier.reach_below [OF c]
    by (fastforce simp: copier_defs bind_eq_Some_conv dest: load_SomeD split: option.splits)
next
  fix h z v assume rd: "read_pointer k r h z = Some v"
  show "\<exists>h' y. copy_pointer k c h z = Some (h', y) \<and> grows h h' \<and> read_pointer k r h' y = Some v \<and>
      (\<forall>a \<in> set (reach_pointer k e h' y). length h \<le> a)"
  proof (cases z)
    case (Some p)
    with rd obtain x w where x: "load k h p = Some x" "r h x = Some w" "v = Some w"
      by (auto simp: copier_defs bind_eq_Some_conv)
    have "copy_pointer k c h z = deep_copy k c h (Some x)" using Some x(1) by (simp add: copy_pointer_def)
    then show ?thesis unfolding x(3) using deep_copy_reads [OF k c x(2)] by metis
  qed (use rd in \<open>simp add: copier_defs\<close>)
qed

text \<open>
  The copying loop: with the elements copied so far in the destination block \<open>b\<close>, none of
  which reaches \<open>b\<close> or an earlier block, the loop copies the rest.
\<close>

definition copied_above ::
    "('b list \<Rightarrow> 'a \<Rightarrow> 'v option) \<Rightarrow> ('b list \<Rightarrow> 'a \<Rightarrow> nat list) \<Rightarrow> nat \<Rightarrow> 'b list \<Rightarrow> 'a \<Rightarrow> 'v \<Rightarrow> bool" where
  "copied_above r e b h y v \<longleftrightarrow> r h y = Some v \<and> (\<forall>a \<in> set (e h y). b < a)"

lemma copied_above_step:
  assumes "deep_copier r e c" "copied_above r e b h y v" "grows h h1"
  shows "copied_above r e b (h1[b := z]) y v"
proof -
  have r: "r h y = Some v" "\<forall>a \<in> set (e h y). b < a" using assms(2) by (auto simp: copied_above_def)
  have "same_on (e h y) h (h1[b := z])"
    unfolding same_on_def
  proof
    fix a assume "a \<in> set (e h y)"
    then have "b < a" "a < length h" using r deep_copier.reach_below [OF assms(1) r(1)] by auto
    then show "a < length (h1[b := z]) \<and> h1[b := z] ! a = h ! a" using assms(3) by (auto simp: grows_iff)
  qed
  then show ?thesis using deep_copier.read_local [OF assms(1) r(1)] r(2) by (simp add: copied_above_def)
qed

lemma copy_loop_copies:
  assumes k: "block_kind k" and c: "deep_copier r e c"
    and xs: "elements k h0 (Some src) = Some xs" "map (r h0) xs = map Some vs"
    and d: "sl_block dst = b" "sl_off dst = 0"
    and h: "grows h0 h" "length h0 \<le> b" "b < length h"
    and fin: "cells k h b = Some (map Some ys @ replicate n None)" "length ys = i" "i + n = length xs"
      "list_all2 (copied_above r e b h) ys (take i vs)"
  shows "\<exists>h' ys'. copy_loop k c src dst h i n = Some h' \<and> grows h0 h' \<and> b < length h' \<and>
    cells k h' b = Some (map Some ys') \<and> list_all2 (copied_above r e b h') ys' vs"
  using h fin
proof (induction n arbitrary: h i ys)
  case 0
  have "length vs = length xs" using xs(2) by (metis length_map)
  with 0 show ?case by auto
next
  case (Suc n)
  have len: "length vs = length xs" "length xs = sl_len src"
    using xs elements_SomeD(2) [OF xs(1)] by (metis length_map)+
  have i: "i < length xs" using Suc.prems by simp
  have src: "sl_block src < length h0" using elements_SomeD(1) [OF xs(1)] .
  have "load k h (slice_at src i) = load k h0 (slice_at src i)"
    using src Suc.prems(1) by (intro load_same) (auto simp: slice_at_def grows_iff)
  then have x: "load k h (slice_at src i) = Some (xs ! i)"
    using elements_SomeD(3) [OF xs(1)] i len by simp
  have "r h0 (xs ! i) = Some (vs ! i)"
    using arg_cong [where f = "\<lambda>l. l ! i", OF xs(2)] i len by simp
  then have "r h (xs ! i) = Some (vs ! i)"
    using deep_copier.read_grows [OF c _ Suc.prems(1)] by blast
  then obtain h1 y where y: "c h (xs ! i) = Some (h1, y)" "grows h h1" "r h1 y = Some (vs ! i)"
      "\<forall>a \<in> set (e h1 y). length h \<le> a"
    using deep_copier.copy_reads [OF c] by blast
  let ?zs = "map Some ys @ replicate (Suc n) None"
  let ?h2 = "h1[b := block_of k (?zs[i := Some y])]"
  have cells1: "cells k h1 b = Some ?zs"
    using cells_same [of b h1 h k] Suc.prems(3,4) y(2) by (simp add: grows_iff)
  have st: "store k h1 (slice_at dst i) y = Some ?h2"
    and cells2: "cells k ?h2 b = Some (?zs[i := Some y])"
    using block_kind.store_cells [OF k cells1, of i y] Suc.prems(5) d by (simp_all add: slice_at_def)
  have upd: "?zs[i := Some y] = map Some (ys @ [y]) @ replicate n None"
    using Suc.prems(5) by (simp add: list_update_append)
  have above: "copied_above r e b h1 y (vs ! i)"
    using y(3,4) Suc.prems(3) by (auto simp: copied_above_def)
  have "list_all2 (copied_above r e b ?h2) ys (take i vs)"
    using Suc.prems(7) by (rule list_all2_mono) (rule copied_above_step [OF c _ y(2)])
  moreover have "copied_above r e b ?h2 y (vs ! i)"
    by (rule copied_above_step [OF c above grows_refl])
  ultimately have all: "list_all2 (copied_above r e b ?h2) (ys @ [y]) (take (Suc i) vs)"
    using i len by (simp add: take_Suc_conv_app_nth list_all2_appendI)
  have g: "grows h0 ?h2"
    using grows_trans [OF Suc.prems(1) y(2)] Suc.prems(2) by (rule grows_update)
  have b: "b < length ?h2" using Suc.prems(3) y(2) by (simp add: grows_iff)
  have "\<exists>h' ys'. copy_loop k c src dst ?h2 (Suc i) n = Some h' \<and> grows h0 h' \<and> b < length h' \<and>
      cells k h' b = Some (map Some ys') \<and> list_all2 (copied_above r e b h') ys' vs"
    using Suc.IH [OF g Suc.prems(2) b, of "ys @ [y]" "Suc i"] cells2 upd all Suc.prems(5,6) by simp
  then show ?case using x y(1) st by simp
qed

lemma slice_read_back:
  assumes "cells k h b = Some (map Some ys)" "list_all2 (copied_above r e b h) ys vs"
  shows "read_slice k r h (Some \<lparr>sl_block = b, sl_off = 0, sl_len = length vs, sl_cap = length vs\<rparr>) = Some vs"
    and "a \<in> set (reach_slice k e h
      (Some \<lparr>sl_block = b, sl_off = 0, sl_len = length vs, sl_cap = length vs\<rparr>)) \<Longrightarrow> b \<le> a"
proof -
  let ?s = "\<lparr>sl_block = b, sl_off = 0, sl_len = length vs, sl_cap = length vs\<rparr>"
  have len: "length ys = length vs" using assms(2) by (rule list_all2_lengthD)
  have el: "elements k h (Some ?s) = Some ys"
    using assms(1) len by (simp add: elements_eq_Some window_def)
  have "map (r h) ys = map Some vs"
    using assms(2) len by (auto simp: list_eq_iff_nth_eq list_all2_conv_all_nth copied_above_def)
  then show "read_slice k r h (Some ?s) = Some vs"
    using el by (simp add: read_slice_def those_eq_Some_conv)
  show "b \<le> a" if "a \<in> set (reach_slice k e h (Some ?s))"
  proof -
    have "\<forall>y \<in> set ys. \<forall>x \<in> set (e h y). b < x"
      using assms(2) unfolding list_all2_conv_all_nth copied_above_def by (metis in_set_conv_nth)
    then show ?thesis using that el by (auto simp: reach_slice_def intro: less_imp_le)
  qed
qed

lemma read_slice_local:
  assumes c: "deep_copier r e c"
    and rd: "read_slice k r h z = Some v" and same: "same_on (reach_slice k e h z) h h'"
  shows "read_slice k r h' z = Some v" "reach_slice k e h' z = reach_slice k e h z"
proof -
  have "read_slice k r h' z = Some v \<and> reach_slice k e h' z = reach_slice k e h z"
  proof (cases z)
    case (Some s)
    with rd obtain xs where xs: "elements k h (Some s) = Some xs" "map (r h) xs = map Some v"
      by (auto simp: read_slice_def bind_eq_Some_conv those_eq_Some_conv)
    have same': "sl_block s < length h' \<and> h' ! sl_block s = h ! sl_block s"
        "\<forall>x \<in> set xs. same_on (e h x) h h'"
      using same xs(1) Some by (auto simp: reach_slice_def same_on_concat)
    have el: "elements k h' (Some s) = Some xs"
      using elements_same [of s h h' k] elements_SomeD(1) [OF xs(1)] same'(1) xs(1) by simp
    have each: "r h' x = r h x \<and> e h' x = e h x" if "x \<in> set xs" for x
    proof -
      have "r h x \<in> Some ` set v" using that xs(2) by (metis image_eqI image_set)
      then obtain w where w: "r h x = Some w" by auto
      have "same_on (e h x) h h'" using same'(2) that by blast
      then show ?thesis using deep_copier.read_local [OF c w] w by simp
    qed
    then have "map (r h') xs = map Some v" "map (e h') xs = map (e h) xs"
      unfolding xs(2) [symmetric] by (simp_all add: each)
    then show ?thesis
      using el xs Some by (auto simp add: read_slice_def reach_slice_def those_eq_Some_conv
          simp del: map_eq_conv)
  qed (use rd in \<open>simp add: read_slice_def reach_slice_def elements_def\<close>)
  then show "read_slice k r h' z = Some v" "reach_slice k e h' z = reach_slice k e h z" by auto
qed

lemma reach_slice_below:
  assumes c: "deep_copier r e c" and rd: "read_slice k r h z = Some v" and a: "a \<in> set (reach_slice k e h z)"
  shows "a < length h"
proof (cases z)
  case (Some s)
  with rd obtain xs where xs: "elements k h (Some s) = Some xs" "map (r h) xs = map Some v"
    by (auto simp: read_slice_def bind_eq_Some_conv those_eq_Some_conv)
  have "a = sl_block s \<or> (\<exists>x \<in> set xs. a \<in> set (e h x))"
    using a Some xs(1) by (auto simp: reach_slice_def)
  then show ?thesis
  proof
    assume "\<exists>x \<in> set xs. a \<in> set (e h x)"
    then obtain x where x: "x \<in> set xs" "a \<in> set (e h x)" by blast
    then have "r h x \<in> Some ` set v" using xs(2) by (metis image_eqI image_set)
    then show ?thesis using deep_copier.reach_below [OF c] x(2) by blast
  qed (use elements_SomeD(1) [OF xs(1)] in simp)
qed (use a in \<open>simp add: reach_slice_def\<close>)

lemma deep_copier_slice:
  assumes k: "block_kind k" and c: "deep_copier r e c"
  shows "deep_copier (read_slice k r) (reach_slice k e) (copy_slice k c)"
proof unfold_locales
  fix h z v assume rd: "read_slice k r h z = Some v"
  show "\<exists>h' y. copy_slice k c h z = Some (h', y) \<and> grows h h' \<and> read_slice k r h' y = Some v \<and>
      (\<forall>a \<in> set (reach_slice k e h' y). length h \<le> a)"
  proof (cases z)
    case (Some s)
    with rd obtain xs where xs: "elements k h (Some s) = Some xs" "map (r h) xs = map Some v"
      by (auto simp: read_slice_def bind_eq_Some_conv those_eq_Some_conv)
    let ?n = "sl_len s"
    let ?h1 = "h @ [block_of k (replicate ?n None)]"
    let ?d = "\<lparr>sl_block = length h, sl_off = 0, sl_len = ?n, sl_cap = ?n\<rparr>"
    have len: "length xs = ?n" "length v = ?n"
      using elements_SomeD(2) [OF xs(1)] xs(2) by (metis length_map)+
    have "\<exists>h' ys'. copy_loop k c s ?d ?h1 0 ?n = Some h' \<and> grows h h' \<and> length h < length h' \<and>
        cells k h' (length h) = Some (map Some ys') \<and> list_all2 (copied_above r e (length h) h') ys' v"
      by (rule copy_loop_copies [OF k c xs]) (simp_all add: block_kind.cells_new [OF k] len)
    then obtain h' ys where h': "copy_loop k c s ?d ?h1 0 ?n = Some h'" "grows h h'"
        "cells k h' (length h) = Some (map Some ys)" "list_all2 (copied_above r e (length h) h') ys v"
      by blast
    have "copy_slice k c h z = Some (h', Some ?d)"
      using Some h'(1) by (simp add: copy_slice_def make_slice_def)
    moreover have "read_slice k r h' (Some ?d) = Some v"
      using slice_read_back(1) [OF h'(3,4)] len by simp
    moreover have "\<forall>a \<in> set (reach_slice k e h' (Some ?d)). length h \<le> a"
      using slice_read_back(2) [OF h'(3,4)] len by simp
    ultimately show ?thesis using h'(2) by blast
  qed (use rd in \<open>simp add: read_slice_def reach_slice_def copy_slice_def elements_def\<close>)
qed (use read_slice_local [OF c] reach_slice_below [OF c] in blast)+

text \<open>For elements that hold no pointer, the builtin does what the loop does.\<close>

lemma deep_copier_plain_slice:
  assumes k: "block_kind k"
  shows "deep_copier (read_slice k read_plain) (reach_slice k reach_plain) (copy_plain_slice k)"
proof unfold_locales
  fix h z v assume rd: "read_slice k read_plain h z = Some v"
  show "\<exists>h' y. copy_plain_slice k h z = Some (h', y) \<and> grows h h' \<and> read_slice k read_plain h' y = Some v \<and>
      (\<forall>a \<in> set (reach_slice k reach_plain h' y). length h \<le> a)"
  proof (cases z)
    case (Some s)
    with rd obtain ys where ys: "elements k h (Some s) = Some ys" "map (read_plain h) ys = map Some v"
      by (auto simp: read_slice_def bind_eq_Some_conv those_eq_Some_conv)
    then have "map Some ys = map Some v" by (simp add: read_plain_def [abs_def])
    then have "ys = v" by (simp add: inj_map_eq_map)
    with ys(1) have xs: "elements k h (Some s) = Some v" by simp
    let ?n = "sl_len s"
    let ?h1 = "h @ [block_of k (replicate ?n None)]"
    let ?d = "\<lparr>sl_block = length h, sl_off = 0, sl_len = ?n, sl_cap = ?n\<rparr>"
    have len: "length v = ?n" using elements_SomeD(2) [OF xs] .
    have "elements k ?h1 (Some s) = Some v"
      using elements_same [of s h ?h1 k] elements_SomeD(1) [OF xs] xs by (simp add: nth_append)
    then have "copy_plain_slice k h z = Some (h @ [block_of k (map Some v)], Some ?d)"
      using Some len
      by (simp add: copy_plain_slice_def make_slice_def copy_builtin_def elements_eq_Some
          block_kind.cells_new [OF k])
    moreover have cells: "cells k (h @ [block_of k (map Some v)]) (length h) = Some (map Some v)"
      by (rule block_kind.cells_new [OF k])
    moreover have all: "list_all2 (copied_above read_plain reach_plain (length h) (h @ [block_of k (map Some v)])) v v"
      by (simp add: list_all2_same copied_above_def read_plain_def reach_plain_def)
    ultimately show ?thesis
      using slice_read_back [OF cells all] len by auto
  qed (use rd in \<open>simp add: read_slice_def reach_slice_def copy_plain_slice_def elements_def\<close>)
qed (use read_slice_local [OF deep_copier_plain] reach_slice_below [OF deep_copier_plain] in blast)+

text \<open>Nil stays nil, and an empty slice stays one that is not nil.\<close>

lemma copy_keeps_nil:
  "copy_slice k c h so = Some (h', so') \<Longrightarrow> so' = None \<longleftrightarrow> so = None"
  "copy_plain_slice k h so = Some (h', so') \<Longrightarrow> so' = None \<longleftrightarrow> so = None"
  "copy_pointer k c h po = Some (h', po') \<Longrightarrow> po' = None \<longleftrightarrow> po = None"
  by (auto simp: copy_slice_def copy_plain_slice_def copy_pointer_def deep_copy_def make_slice_def new_object_def
      bind_eq_Some_conv split: option.splits prod.splits)

end
