(* ===== verification/Deep_Copy.thy ===== *)
theory Deep_Copy
  imports Go_Memory Compute_Instance_Types Cluster_Order_Types Host_Pool_Types Tenant_Types
begin

text \<open>
  \<open>api/v1alpha1/zz_generated.deepcopy.go\<close>: \<open>DeepCopyInto\<close>, \<open>DeepCopy\<close> and \<open>DeepCopyObject\<close> of
  the API types, on Go's memory (theory \<open>Go_Memory\<close>). A record \<open>h_...\<close> is a struct of the API
  as it lies in memory, with its slices, maps and pointers; reading it back gives the record
  the controllers' theories work on. \<open>ObjectMeta.DeepCopyInto\<close> and \<open>ListMeta.DeepCopyInto\<close> are
  parameters with the contract of a deep copy; \<open>metav1.Condition\<close> and \<open>metav1.Time\<close> hold no
  pointer the operator can see, so their copies are plain.
\<close>

section \<open>The structs in memory\<close>

record type_meta =
  tm_kind :: string
  tm_apiVersion :: string

record h_object_meta =
  hm_name :: string
  hm_namespace :: string
  hm_labels :: "pointer option"
  hm_annotations :: "pointer option"
  hm_finalizers :: "slice option"
  hm_deletionTimestamp :: "pointer option"
  hm_generation :: int
  hm_ownerReferences :: "slice option"  \<comment> \<open>of the owners' names\<close>

record h_list_meta =
  hl_resourceVersion :: string
  hl_continue :: string
  hl_remainingItemCount :: "pointer option"

text \<open>A list of resources; the four list types differ in the element type of the items.\<close>

record h_list =
  hlist_type :: type_meta
  hlist_meta :: h_list_meta
  hlist_items :: "slice option"

record h_compute_instance_spec =
  hcsp_templateID :: string
  hcsp_templateParameters :: string
  hcsp_restartRequestedAt :: "pointer option"

record h_compute_instance_status =
  hcs_phase :: compute_instance_phase
  hcs_conditions :: "slice option"
  hcs_virtualMachineReference :: "pointer option"
  hcs_tenantReference :: "pointer option"
  hcs_desiredConfigVersion :: string
  hcs_reconciledConfigVersion :: string
  hcs_lastRestartedAt :: "pointer option"
  hcs_jobs :: "slice option"

record h_compute_instance =
  hci_type :: type_meta
  hci_meta :: h_object_meta
  hci_spec :: h_compute_instance_spec
  hci_status :: h_compute_instance_status

record h_cluster_order_spec =
  hcosp_templateID :: string
  hcosp_templateParameters :: string
  hcosp_nodeRequests :: "slice option"

record h_cluster_order_status =
  hcost_phase :: cluster_order_phase
  hcost_conditions :: "slice option"
  hcost_clusterReference :: "pointer option"
  hcost_nodeRequests :: "slice option"

record h_cluster_order =
  hco_type :: type_meta
  hco_meta :: h_object_meta
  hco_spec :: h_cluster_order_spec
  hco_status :: h_cluster_order_status

record h_host_pool_spec =
  hhpsp_hostSets :: "slice option"

record h_host_pool_status =
  hhps_phase :: host_pool_phase
  hhps_conditions :: "slice option"
  hhps_hostPoolReference :: "pointer option"
  hhps_hostSets :: "slice option"

record h_host_pool =
  hhp_type :: type_meta
  hhp_meta :: h_object_meta
  hhp_spec :: h_host_pool_spec
  hhp_status :: h_host_pool_status

record h_tenant =
  htn_type :: type_meta
  htn_meta :: h_object_meta
  htn_spec :: string  \<comment> \<open>\<open>Spec.Name\<close>, the only field of the spec\<close>
  htn_status :: tenant_status

section \<open>Blocks\<close>

text \<open>What a block can hold: an array of one of the element types.\<close>

datatype block =
    ConditionBlock "condition option list"
  | TimeBlock "time option list"
  | StringBlock "string option list"
  | StringMapBlock "(string \<rightharpoonup> string) option list"
  | Int64Block "int option list"
  | ClusterOrderBlock "h_cluster_order option list"
  | ClusterOrderClusterReferenceTypeBlock "cluster_reference option list"
  | ClusterOrderListBlock "h_list option list"
  | ClusterOrderSpecBlock "h_cluster_order_spec option list"
  | ClusterOrderStatusBlock "h_cluster_order_status option list"
  | ComputeInstanceBlock "h_compute_instance option list"
  | ComputeInstanceListBlock "h_list option list"
  | ComputeInstanceSpecBlock "h_compute_instance_spec option list"
  | ComputeInstanceStatusBlock "h_compute_instance_status option list"
  | HostPoolBlock "h_host_pool option list"
  | HostPoolListBlock "h_list option list"
  | HostPoolReferenceTypeBlock "string option list"
  | HostPoolSpecBlock "h_host_pool_spec option list"
  | HostPoolStatusBlock "h_host_pool_status option list"
  | HostSetBlock "host_set option list"
  | JobStatusBlock "job_status option list"
  | NodeRequestBlock "node_request option list"
  | TenantBlock "h_tenant option list"
  | TenantListBlock "h_list option list"
  | TenantReferenceTypeBlock "tenant_reference option list"
  | TenantSpecBlock "string option list"
  | TenantStatusBlock "tenant_status option list"
  | VirtualMachineReferenceTypeBlock "virtual_machine_reference option list"

type_synonym heap = "block list"

definition k_Condition :: "(condition, block) kind" where
  "k_Condition = \<lparr>block_of = ConditionBlock, cells_of = (\<lambda>b. case b of ConditionBlock xs \<Rightarrow> Some xs | _ \<Rightarrow> None)\<rparr>"
definition k_Time :: "(time, block) kind" where
  "k_Time = \<lparr>block_of = TimeBlock, cells_of = (\<lambda>b. case b of TimeBlock xs \<Rightarrow> Some xs | _ \<Rightarrow> None)\<rparr>"
definition k_String :: "(string, block) kind" where
  "k_String = \<lparr>block_of = StringBlock, cells_of = (\<lambda>b. case b of StringBlock xs \<Rightarrow> Some xs | _ \<Rightarrow> None)\<rparr>"
definition k_StringMap :: "(string \<rightharpoonup> string, block) kind" where
  "k_StringMap = \<lparr>block_of = StringMapBlock, cells_of = (\<lambda>b. case b of StringMapBlock xs \<Rightarrow> Some xs | _ \<Rightarrow> None)\<rparr>"
definition k_Int64 :: "(int, block) kind" where
  "k_Int64 = \<lparr>block_of = Int64Block, cells_of = (\<lambda>b. case b of Int64Block xs \<Rightarrow> Some xs | _ \<Rightarrow> None)\<rparr>"
definition k_ClusterOrder :: "(h_cluster_order, block) kind" where
  "k_ClusterOrder = \<lparr>block_of = ClusterOrderBlock, cells_of = (\<lambda>b. case b of ClusterOrderBlock xs \<Rightarrow> Some xs | _ \<Rightarrow> None)\<rparr>"
definition k_ClusterOrderClusterReferenceType :: "(cluster_reference, block) kind" where
  "k_ClusterOrderClusterReferenceType = \<lparr>block_of = ClusterOrderClusterReferenceTypeBlock, cells_of = (\<lambda>b. case b of ClusterOrderClusterReferenceTypeBlock xs \<Rightarrow> Some xs | _ \<Rightarrow> None)\<rparr>"
definition k_ClusterOrderList :: "(h_list, block) kind" where
  "k_ClusterOrderList = \<lparr>block_of = ClusterOrderListBlock, cells_of = (\<lambda>b. case b of ClusterOrderListBlock xs \<Rightarrow> Some xs | _ \<Rightarrow> None)\<rparr>"
definition k_ClusterOrderSpec :: "(h_cluster_order_spec, block) kind" where
  "k_ClusterOrderSpec = \<lparr>block_of = ClusterOrderSpecBlock, cells_of = (\<lambda>b. case b of ClusterOrderSpecBlock xs \<Rightarrow> Some xs | _ \<Rightarrow> None)\<rparr>"
definition k_ClusterOrderStatus :: "(h_cluster_order_status, block) kind" where
  "k_ClusterOrderStatus = \<lparr>block_of = ClusterOrderStatusBlock, cells_of = (\<lambda>b. case b of ClusterOrderStatusBlock xs \<Rightarrow> Some xs | _ \<Rightarrow> None)\<rparr>"
definition k_ComputeInstance :: "(h_compute_instance, block) kind" where
  "k_ComputeInstance = \<lparr>block_of = ComputeInstanceBlock, cells_of = (\<lambda>b. case b of ComputeInstanceBlock xs \<Rightarrow> Some xs | _ \<Rightarrow> None)\<rparr>"
definition k_ComputeInstanceList :: "(h_list, block) kind" where
  "k_ComputeInstanceList = \<lparr>block_of = ComputeInstanceListBlock, cells_of = (\<lambda>b. case b of ComputeInstanceListBlock xs \<Rightarrow> Some xs | _ \<Rightarrow> None)\<rparr>"
definition k_ComputeInstanceSpec :: "(h_compute_instance_spec, block) kind" where
  "k_ComputeInstanceSpec = \<lparr>block_of = ComputeInstanceSpecBlock, cells_of = (\<lambda>b. case b of ComputeInstanceSpecBlock xs \<Rightarrow> Some xs | _ \<Rightarrow> None)\<rparr>"
definition k_ComputeInstanceStatus :: "(h_compute_instance_status, block) kind" where
  "k_ComputeInstanceStatus = \<lparr>block_of = ComputeInstanceStatusBlock, cells_of = (\<lambda>b. case b of ComputeInstanceStatusBlock xs \<Rightarrow> Some xs | _ \<Rightarrow> None)\<rparr>"
definition k_HostPool :: "(h_host_pool, block) kind" where
  "k_HostPool = \<lparr>block_of = HostPoolBlock, cells_of = (\<lambda>b. case b of HostPoolBlock xs \<Rightarrow> Some xs | _ \<Rightarrow> None)\<rparr>"
definition k_HostPoolList :: "(h_list, block) kind" where
  "k_HostPoolList = \<lparr>block_of = HostPoolListBlock, cells_of = (\<lambda>b. case b of HostPoolListBlock xs \<Rightarrow> Some xs | _ \<Rightarrow> None)\<rparr>"
definition k_HostPoolReferenceType :: "(string, block) kind" where
  "k_HostPoolReferenceType = \<lparr>block_of = HostPoolReferenceTypeBlock, cells_of = (\<lambda>b. case b of HostPoolReferenceTypeBlock xs \<Rightarrow> Some xs | _ \<Rightarrow> None)\<rparr>"
definition k_HostPoolSpec :: "(h_host_pool_spec, block) kind" where
  "k_HostPoolSpec = \<lparr>block_of = HostPoolSpecBlock, cells_of = (\<lambda>b. case b of HostPoolSpecBlock xs \<Rightarrow> Some xs | _ \<Rightarrow> None)\<rparr>"
definition k_HostPoolStatus :: "(h_host_pool_status, block) kind" where
  "k_HostPoolStatus = \<lparr>block_of = HostPoolStatusBlock, cells_of = (\<lambda>b. case b of HostPoolStatusBlock xs \<Rightarrow> Some xs | _ \<Rightarrow> None)\<rparr>"
definition k_HostSet :: "(host_set, block) kind" where
  "k_HostSet = \<lparr>block_of = HostSetBlock, cells_of = (\<lambda>b. case b of HostSetBlock xs \<Rightarrow> Some xs | _ \<Rightarrow> None)\<rparr>"
definition k_JobStatus :: "(job_status, block) kind" where
  "k_JobStatus = \<lparr>block_of = JobStatusBlock, cells_of = (\<lambda>b. case b of JobStatusBlock xs \<Rightarrow> Some xs | _ \<Rightarrow> None)\<rparr>"
definition k_NodeRequest :: "(node_request, block) kind" where
  "k_NodeRequest = \<lparr>block_of = NodeRequestBlock, cells_of = (\<lambda>b. case b of NodeRequestBlock xs \<Rightarrow> Some xs | _ \<Rightarrow> None)\<rparr>"
definition k_Tenant :: "(h_tenant, block) kind" where
  "k_Tenant = \<lparr>block_of = TenantBlock, cells_of = (\<lambda>b. case b of TenantBlock xs \<Rightarrow> Some xs | _ \<Rightarrow> None)\<rparr>"
definition k_TenantList :: "(h_list, block) kind" where
  "k_TenantList = \<lparr>block_of = TenantListBlock, cells_of = (\<lambda>b. case b of TenantListBlock xs \<Rightarrow> Some xs | _ \<Rightarrow> None)\<rparr>"
definition k_TenantReferenceType :: "(tenant_reference, block) kind" where
  "k_TenantReferenceType = \<lparr>block_of = TenantReferenceTypeBlock, cells_of = (\<lambda>b. case b of TenantReferenceTypeBlock xs \<Rightarrow> Some xs | _ \<Rightarrow> None)\<rparr>"
definition k_TenantSpec :: "(string, block) kind" where
  "k_TenantSpec = \<lparr>block_of = TenantSpecBlock, cells_of = (\<lambda>b. case b of TenantSpecBlock xs \<Rightarrow> Some xs | _ \<Rightarrow> None)\<rparr>"
definition k_TenantStatus :: "(tenant_status, block) kind" where
  "k_TenantStatus = \<lparr>block_of = TenantStatusBlock, cells_of = (\<lambda>b. case b of TenantStatusBlock xs \<Rightarrow> Some xs | _ \<Rightarrow> None)\<rparr>"
definition k_VirtualMachineReferenceType :: "(virtual_machine_reference, block) kind" where
  "k_VirtualMachineReferenceType = \<lparr>block_of = VirtualMachineReferenceTypeBlock, cells_of = (\<lambda>b. case b of VirtualMachineReferenceTypeBlock xs \<Rightarrow> Some xs | _ \<Rightarrow> None)\<rparr>"

interpretation k_Condition: block_kind k_Condition by unfold_locales (simp add: k_Condition_def)
interpretation k_Time: block_kind k_Time by unfold_locales (simp add: k_Time_def)
interpretation k_String: block_kind k_String by unfold_locales (simp add: k_String_def)
interpretation k_StringMap: block_kind k_StringMap by unfold_locales (simp add: k_StringMap_def)
interpretation k_Int64: block_kind k_Int64 by unfold_locales (simp add: k_Int64_def)
interpretation k_ClusterOrder: block_kind k_ClusterOrder by unfold_locales (simp add: k_ClusterOrder_def)
interpretation k_ClusterOrderClusterReferenceType: block_kind k_ClusterOrderClusterReferenceType by unfold_locales (simp add: k_ClusterOrderClusterReferenceType_def)
interpretation k_ClusterOrderList: block_kind k_ClusterOrderList by unfold_locales (simp add: k_ClusterOrderList_def)
interpretation k_ClusterOrderSpec: block_kind k_ClusterOrderSpec by unfold_locales (simp add: k_ClusterOrderSpec_def)
interpretation k_ClusterOrderStatus: block_kind k_ClusterOrderStatus by unfold_locales (simp add: k_ClusterOrderStatus_def)
interpretation k_ComputeInstance: block_kind k_ComputeInstance by unfold_locales (simp add: k_ComputeInstance_def)
interpretation k_ComputeInstanceList: block_kind k_ComputeInstanceList by unfold_locales (simp add: k_ComputeInstanceList_def)
interpretation k_ComputeInstanceSpec: block_kind k_ComputeInstanceSpec by unfold_locales (simp add: k_ComputeInstanceSpec_def)
interpretation k_ComputeInstanceStatus: block_kind k_ComputeInstanceStatus by unfold_locales (simp add: k_ComputeInstanceStatus_def)
interpretation k_HostPool: block_kind k_HostPool by unfold_locales (simp add: k_HostPool_def)
interpretation k_HostPoolList: block_kind k_HostPoolList by unfold_locales (simp add: k_HostPoolList_def)
interpretation k_HostPoolReferenceType: block_kind k_HostPoolReferenceType by unfold_locales (simp add: k_HostPoolReferenceType_def)
interpretation k_HostPoolSpec: block_kind k_HostPoolSpec by unfold_locales (simp add: k_HostPoolSpec_def)
interpretation k_HostPoolStatus: block_kind k_HostPoolStatus by unfold_locales (simp add: k_HostPoolStatus_def)
interpretation k_HostSet: block_kind k_HostSet by unfold_locales (simp add: k_HostSet_def)
interpretation k_JobStatus: block_kind k_JobStatus by unfold_locales (simp add: k_JobStatus_def)
interpretation k_NodeRequest: block_kind k_NodeRequest by unfold_locales (simp add: k_NodeRequest_def)
interpretation k_Tenant: block_kind k_Tenant by unfold_locales (simp add: k_Tenant_def)
interpretation k_TenantList: block_kind k_TenantList by unfold_locales (simp add: k_TenantList_def)
interpretation k_TenantReferenceType: block_kind k_TenantReferenceType by unfold_locales (simp add: k_TenantReferenceType_def)
interpretation k_TenantSpec: block_kind k_TenantSpec by unfold_locales (simp add: k_TenantSpec_def)
interpretation k_TenantStatus: block_kind k_TenantStatus by unfold_locales (simp add: k_TenantStatus_def)
interpretation k_VirtualMachineReferenceType: block_kind k_VirtualMachineReferenceType by unfold_locales (simp add: k_VirtualMachineReferenceType_def)

section \<open>Object and list metadata\<close>

text \<open>
  The metadata are read back with the owners' names beside the fields that the controllers
  use. A nil map reads as an empty one.
\<close>

definition map_of_pointer :: "(string \<rightharpoonup> string) option \<Rightarrow> (string \<rightharpoonup> string)" where
  "map_of_pointer m = (case m of None \<Rightarrow> Map.empty | Some f \<Rightarrow> f)"

definition read_object_meta :: "heap \<Rightarrow> h_object_meta \<Rightarrow> (object_meta \<times> string list) option" where
  "read_object_meta h m = do {
     ls \<leftarrow> read_pointer k_StringMap read_plain h (hm_labels m);
     as \<leftarrow> read_pointer k_StringMap read_plain h (hm_annotations m);
     fs \<leftarrow> read_slice k_String read_plain h (hm_finalizers m);
     d \<leftarrow> read_pointer k_Time read_plain h (hm_deletionTimestamp m);
     os \<leftarrow> read_slice k_String read_plain h (hm_ownerReferences m);
     Some (\<lparr>om_name = hm_name m, om_namespace = hm_namespace m, om_labels = map_of_pointer ls,
            om_annotations = map_of_pointer as, om_finalizers = fs, om_deletionTimestamp = d,
            om_generation = hm_generation m\<rparr>, os) }"

definition reach_object_meta :: "heap \<Rightarrow> h_object_meta \<Rightarrow> nat list" where
  "reach_object_meta h m =
     reach_pointer k_StringMap reach_plain h (hm_labels m) @
     reach_pointer k_StringMap reach_plain h (hm_annotations m) @
     reach_slice k_String reach_plain h (hm_finalizers m) @
     reach_pointer k_Time reach_plain h (hm_deletionTimestamp m) @
     reach_slice k_String reach_plain h (hm_ownerReferences m)"

definition read_list_meta :: "heap \<Rightarrow> h_list_meta \<Rightarrow> (string \<times> string \<times> int option) option" where
  "read_list_meta h m = do {
     n \<leftarrow> read_pointer k_Int64 read_plain h (hl_remainingItemCount m);
     Some (hl_resourceVersion m, hl_continue m, n) }"

definition reach_list_meta :: "heap \<Rightarrow> h_list_meta \<Rightarrow> nat list" where
  "reach_list_meta h m = reach_pointer k_Int64 reach_plain h (hl_remainingItemCount m)"

text \<open>
  What the generated code relies on: the library's \<open>DeepCopyInto\<close> of the metadata is a deep
  copy. \<open>ObjectMeta_copy\<close> and \<open>ListMeta_copy\<close> are copies that meet it, field by field.
\<close>

type_synonym 'a copier = "heap \<Rightarrow> 'a \<Rightarrow> (heap \<times> 'a) option"

definition copies_object_meta :: "h_object_meta copier \<Rightarrow> bool" where
  "copies_object_meta mc \<longleftrightarrow> deep_copier read_object_meta reach_object_meta mc"

definition copies_list_meta :: "h_list_meta copier \<Rightarrow> bool" where
  "copies_list_meta lc \<longleftrightarrow> deep_copier read_list_meta reach_list_meta lc"

definition ObjectMeta_copy :: "h_object_meta copier" where
  "ObjectMeta_copy h m = do {
     (h, ls) \<leftarrow> copy_pointer k_StringMap copy_plain h (hm_labels m);
     (h, as) \<leftarrow> copy_pointer k_StringMap copy_plain h (hm_annotations m);
     (h, fs) \<leftarrow> copy_plain_slice k_String h (hm_finalizers m);
     (h, d) \<leftarrow> copy_pointer k_Time copy_plain h (hm_deletionTimestamp m);
     (h, os) \<leftarrow> copy_plain_slice k_String h (hm_ownerReferences m);
     Some (h, m\<lparr>hm_labels := ls, hm_annotations := as, hm_finalizers := fs,
               hm_deletionTimestamp := d, hm_ownerReferences := os\<rparr>) }"

definition ListMeta_copy :: "h_list_meta copier" where
  "ListMeta_copy h m = do {
     (h, n) \<leftarrow> copy_pointer k_Int64 copy_plain h (hl_remainingItemCount m);
     Some (h, m\<lparr>hl_remainingItemCount := n\<rparr>) }"

text \<open>
  The method for a struct: it is the tuple of its plain fields and of the fields copied in
  turn, and \<open>deep_copier_via\<close> carries the copier of the tuple over.
\<close>

lemmas plain_pointer [intro] = deep_copier_pointer [OF _ deep_copier_plain]
lemmas via_simps = read_pair_def reach_pair_def copy_pair_def read_plain_def reach_plain_def copy_plain_def
  map_conv_bind_option Option.bind_assoc case_prod_beta' split_paired_all comp_def

lemma ObjectMeta_copy_deep: "copies_object_meta ObjectMeta_copy"
  unfolding copies_object_meta_def
  by (rule deep_copier_via [where
        un = "\<lambda>m. ((hm_name m, hm_namespace m, hm_generation m), hm_labels m, hm_annotations m,
          hm_finalizers m, hm_deletionTimestamp m, hm_ownerReferences m)"
        and mk = "\<lambda>((n, ns, g), ls, as, fs, d, os). \<lparr>hm_name = n, hm_namespace = ns, hm_labels = ls,
          hm_annotations = as, hm_finalizers = fs, hm_deletionTimestamp = d, hm_generation = g,
          hm_ownerReferences = os\<rparr>"
        and f = "\<lambda>((n, ns, g), ls, as, fs, d, os). (\<lparr>om_name = n, om_namespace = ns,
          om_labels = map_of_pointer ls, om_annotations = map_of_pointer as, om_finalizers = fs,
          om_deletionTimestamp = d, om_generation = g\<rparr>, os)",
      OF deep_copier_pair [OF deep_copier_plain deep_copier_pair [OF
        deep_copier_pointer [OF k_StringMap.block_kind_axioms deep_copier_plain] deep_copier_pair [OF
        deep_copier_pointer [OF k_StringMap.block_kind_axioms deep_copier_plain] deep_copier_pair [OF
        deep_copier_plain_slice [OF k_String.block_kind_axioms] deep_copier_pair [OF
        deep_copier_pointer [OF k_Time.block_kind_axioms deep_copier_plain]
        deep_copier_plain_slice [OF k_String.block_kind_axioms]]]]]]])
    (simp_all add: read_object_meta_def reach_object_meta_def ObjectMeta_copy_def via_simps)

lemma ListMeta_copy_deep: "copies_list_meta ListMeta_copy"
  unfolding copies_list_meta_def
  by (rule deep_copier_via [where
        un = "\<lambda>m. ((hl_resourceVersion m, hl_continue m), hl_remainingItemCount m)"
        and mk = "\<lambda>((r, c), n). \<lparr>hl_resourceVersion = r, hl_continue = c, hl_remainingItemCount = n\<rparr>"
        and f = "\<lambda>((r, c), n). (r, c, n)",
      OF deep_copier_pair [OF deep_copier_plain
        deep_copier_pointer [OF k_Int64.block_kind_axioms deep_copier_plain]]])
    (simp_all add: read_list_meta_def reach_list_meta_def ListMeta_copy_def via_simps)

section \<open>Structs without pointers\<close>

definition ClusterOrderClusterReferenceType_DeepCopyInto :: "cluster_reference copier" where
  "ClusterOrderClusterReferenceType_DeepCopyInto h i = (let out = i in Some (h, out))"

definition HostPoolReferenceType_DeepCopyInto :: "string copier" where
  "HostPoolReferenceType_DeepCopyInto h i = (let out = i in Some (h, out))"

definition HostSet_DeepCopyInto :: "host_set copier" where
  "HostSet_DeepCopyInto h i = (let out = i in Some (h, out))"

definition NodeRequest_DeepCopyInto :: "node_request copier" where
  "NodeRequest_DeepCopyInto h i = (let out = i in Some (h, out))"

definition TenantReferenceType_DeepCopyInto :: "tenant_reference copier" where
  "TenantReferenceType_DeepCopyInto h i = (let out = i in Some (h, out))"

definition TenantSpec_DeepCopyInto :: "string copier" where
  "TenantSpec_DeepCopyInto h i = (let out = i in Some (h, out))"

definition TenantStatus_DeepCopyInto :: "tenant_status copier" where
  "TenantStatus_DeepCopyInto h i = (let out = i in Some (h, out))"

definition VirtualMachineReferenceType_DeepCopyInto :: "virtual_machine_reference copier" where
  "VirtualMachineReferenceType_DeepCopyInto h i = (let out = i in Some (h, out))"

text \<open>\<open>metav1.Time\<close> and \<open>metav1.Condition\<close> are the library's; they are copied as they are.\<close>

definition JobStatus_DeepCopyInto :: "job_status copier" where
  "JobStatus_DeepCopyInto h i = do {
     let out = i;
     (h, t) \<leftarrow> copy_plain h (js_timestamp i);
     let out = out\<lparr>js_timestamp := t\<rparr>;
     Some (h, out) }"

lemma plain_copiers:
  "ClusterOrderClusterReferenceType_DeepCopyInto = copy_plain"
  "HostPoolReferenceType_DeepCopyInto = copy_plain"
  "HostSet_DeepCopyInto = copy_plain"
  "NodeRequest_DeepCopyInto = copy_plain"
  "TenantReferenceType_DeepCopyInto = copy_plain"
  "TenantSpec_DeepCopyInto = copy_plain"
  "TenantStatus_DeepCopyInto = copy_plain"
  "VirtualMachineReferenceType_DeepCopyInto = copy_plain"
  "JobStatus_DeepCopyInto = copy_plain"
  by (simp_all add: fun_eq_iff copy_plain_def JobStatus_DeepCopyInto_def
    ClusterOrderClusterReferenceType_DeepCopyInto_def
    HostPoolReferenceType_DeepCopyInto_def
    HostSet_DeepCopyInto_def
    NodeRequest_DeepCopyInto_def
    TenantReferenceType_DeepCopyInto_def
    TenantSpec_DeepCopyInto_def
    TenantStatus_DeepCopyInto_def
    VirtualMachineReferenceType_DeepCopyInto_def)

section \<open>Specs and statuses\<close>

lemmas condition_slice = deep_copier_slice [OF k_Condition.block_kind_axioms deep_copier_plain]
lemmas time_pointer = deep_copier_pointer [OF k_Time.block_kind_axioms deep_copier_plain]

subsection \<open>ComputeInstance\<close>

definition ComputeInstanceSpec_DeepCopyInto :: "h_compute_instance_spec copier" where
  "ComputeInstanceSpec_DeepCopyInto h i = do {
     let out = i;
     (h, t) \<leftarrow> copy_pointer k_Time copy_plain h (hcsp_restartRequestedAt i);
     let out = out\<lparr>hcsp_restartRequestedAt := t\<rparr>;
     Some (h, out) }"

definition ComputeInstanceStatus_DeepCopyInto :: "h_compute_instance_status copier" where
  "ComputeInstanceStatus_DeepCopyInto h i = do {
     let out = i;
     (h, cs) \<leftarrow> copy_slice k_Condition copy_plain h (hcs_conditions i);
     let out = out\<lparr>hcs_conditions := cs\<rparr>;
     (h, vm) \<leftarrow> copy_pointer k_VirtualMachineReferenceType copy_plain h (hcs_virtualMachineReference i);
     let out = out\<lparr>hcs_virtualMachineReference := vm\<rparr>;
     (h, tr) \<leftarrow> copy_pointer k_TenantReferenceType copy_plain h (hcs_tenantReference i);
     let out = out\<lparr>hcs_tenantReference := tr\<rparr>;
     (h, t) \<leftarrow> copy_pointer k_Time copy_plain h (hcs_lastRestartedAt i);
     let out = out\<lparr>hcs_lastRestartedAt := t\<rparr>;
     (h, js) \<leftarrow> copy_slice k_JobStatus JobStatus_DeepCopyInto h (hcs_jobs i);
     let out = out\<lparr>hcs_jobs := js\<rparr>;
     Some (h, out) }"

definition read_ComputeInstanceSpec :: "heap \<Rightarrow> h_compute_instance_spec \<Rightarrow> compute_instance_spec option" where
  "read_ComputeInstanceSpec h x = do {
     t \<leftarrow> read_pointer k_Time read_plain h (hcsp_restartRequestedAt x);
     Some \<lparr>cisp_templateID = hcsp_templateID x, cisp_templateParameters = hcsp_templateParameters x,
           cisp_restartRequestedAt = t\<rparr> }"

definition reach_ComputeInstanceSpec :: "heap \<Rightarrow> h_compute_instance_spec \<Rightarrow> nat list" where
  "reach_ComputeInstanceSpec h x = reach_pointer k_Time reach_plain h (hcsp_restartRequestedAt x)"

definition read_ComputeInstanceStatus ::
    "heap \<Rightarrow> h_compute_instance_status \<Rightarrow> compute_instance_status option" where
  "read_ComputeInstanceStatus h x = do {
     cs \<leftarrow> read_slice k_Condition read_plain h (hcs_conditions x);
     vm \<leftarrow> read_pointer k_VirtualMachineReferenceType read_plain h (hcs_virtualMachineReference x);
     tr \<leftarrow> read_pointer k_TenantReferenceType read_plain h (hcs_tenantReference x);
     t \<leftarrow> read_pointer k_Time read_plain h (hcs_lastRestartedAt x);
     js \<leftarrow> read_slice k_JobStatus read_plain h (hcs_jobs x);
     Some \<lparr>cis_phase = hcs_phase x, cis_conditions = cs, cis_virtualMachineReference = vm,
           cis_tenantReference = tr, cis_desiredConfigVersion = hcs_desiredConfigVersion x,
           cis_reconciledConfigVersion = hcs_reconciledConfigVersion x, cis_lastRestartedAt = t,
           cis_jobs = js\<rparr> }"

definition reach_ComputeInstanceStatus :: "heap \<Rightarrow> h_compute_instance_status \<Rightarrow> nat list" where
  "reach_ComputeInstanceStatus h x =
     reach_slice k_Condition reach_plain h (hcs_conditions x) @
     reach_pointer k_VirtualMachineReferenceType reach_plain h (hcs_virtualMachineReference x) @
     reach_pointer k_TenantReferenceType reach_plain h (hcs_tenantReference x) @
     reach_pointer k_Time reach_plain h (hcs_lastRestartedAt x) @
     reach_slice k_JobStatus reach_plain h (hcs_jobs x)"

interpretation instance_spec_copy:
  deep_copier read_ComputeInstanceSpec reach_ComputeInstanceSpec ComputeInstanceSpec_DeepCopyInto
  by (rule deep_copier_via [where
        un = "\<lambda>x. ((hcsp_templateID x, hcsp_templateParameters x), hcsp_restartRequestedAt x)"
        and mk = "\<lambda>((i, p), t). \<lparr>hcsp_templateID = i, hcsp_templateParameters = p, hcsp_restartRequestedAt = t\<rparr>"
        and f = "\<lambda>((i, p), t). \<lparr>cisp_templateID = i, cisp_templateParameters = p, cisp_restartRequestedAt = t\<rparr>",
      OF deep_copier_pair [OF deep_copier_plain time_pointer]])
    (simp_all add: read_ComputeInstanceSpec_def reach_ComputeInstanceSpec_def
      ComputeInstanceSpec_DeepCopyInto_def via_simps)

interpretation instance_status_copy:
  deep_copier read_ComputeInstanceStatus reach_ComputeInstanceStatus ComputeInstanceStatus_DeepCopyInto
  by (rule deep_copier_via [where
        un = "\<lambda>x. ((hcs_phase x, hcs_desiredConfigVersion x, hcs_reconciledConfigVersion x), hcs_conditions x,
          hcs_virtualMachineReference x, hcs_tenantReference x, hcs_lastRestartedAt x, hcs_jobs x)"
        and mk = "\<lambda>((p, d, r), cs, vm, tr, t, js). \<lparr>hcs_phase = p, hcs_conditions = cs,
          hcs_virtualMachineReference = vm, hcs_tenantReference = tr, hcs_desiredConfigVersion = d,
          hcs_reconciledConfigVersion = r, hcs_lastRestartedAt = t, hcs_jobs = js\<rparr>"
        and f = "\<lambda>((p, d, r), cs, vm, tr, t, js). \<lparr>cis_phase = p, cis_conditions = cs,
          cis_virtualMachineReference = vm, cis_tenantReference = tr, cis_desiredConfigVersion = d,
          cis_reconciledConfigVersion = r, cis_lastRestartedAt = t, cis_jobs = js\<rparr>",
      OF deep_copier_pair [OF deep_copier_plain deep_copier_pair [OF condition_slice deep_copier_pair [OF
        deep_copier_pointer [OF k_VirtualMachineReferenceType.block_kind_axioms deep_copier_plain]
        deep_copier_pair [OF
        deep_copier_pointer [OF k_TenantReferenceType.block_kind_axioms deep_copier_plain]
        deep_copier_pair [OF time_pointer
        deep_copier_slice [OF k_JobStatus.block_kind_axioms deep_copier_plain]]]]]]])
    (simp_all add: read_ComputeInstanceStatus_def reach_ComputeInstanceStatus_def
      ComputeInstanceStatus_DeepCopyInto_def plain_copiers via_simps)

subsection \<open>ClusterOrder\<close>

definition ClusterOrderSpec_DeepCopyInto :: "h_cluster_order_spec copier" where
  "ClusterOrderSpec_DeepCopyInto h i = do {
     let out = i;
     (h, ns) \<leftarrow> copy_plain_slice k_NodeRequest h (hcosp_nodeRequests i);
     let out = out\<lparr>hcosp_nodeRequests := ns\<rparr>;
     Some (h, out) }"

definition ClusterOrderStatus_DeepCopyInto :: "h_cluster_order_status copier" where
  "ClusterOrderStatus_DeepCopyInto h i = do {
     let out = i;
     (h, cs) \<leftarrow> copy_slice k_Condition copy_plain h (hcost_conditions i);
     let out = out\<lparr>hcost_conditions := cs\<rparr>;
     (h, r) \<leftarrow> copy_pointer k_ClusterOrderClusterReferenceType copy_plain h (hcost_clusterReference i);
     let out = out\<lparr>hcost_clusterReference := r\<rparr>;
     (h, ns) \<leftarrow> copy_plain_slice k_NodeRequest h (hcost_nodeRequests i);
     let out = out\<lparr>hcost_nodeRequests := ns\<rparr>;
     Some (h, out) }"

definition read_ClusterOrderSpec :: "heap \<Rightarrow> h_cluster_order_spec \<Rightarrow> cluster_order_spec option" where
  "read_ClusterOrderSpec h x = do {
     ns \<leftarrow> read_slice k_NodeRequest read_plain h (hcosp_nodeRequests x);
     Some \<lparr>cos_templateID = hcosp_templateID x, cos_templateParameters = hcosp_templateParameters x,
           cos_nodeRequests = ns\<rparr> }"

definition reach_ClusterOrderSpec :: "heap \<Rightarrow> h_cluster_order_spec \<Rightarrow> nat list" where
  "reach_ClusterOrderSpec h x = reach_slice k_NodeRequest reach_plain h (hcosp_nodeRequests x)"

definition read_ClusterOrderStatus :: "heap \<Rightarrow> h_cluster_order_status \<Rightarrow> cluster_order_status option" where
  "read_ClusterOrderStatus h x = do {
     cs \<leftarrow> read_slice k_Condition read_plain h (hcost_conditions x);
     r \<leftarrow> read_pointer k_ClusterOrderClusterReferenceType read_plain h (hcost_clusterReference x);
     ns \<leftarrow> read_slice k_NodeRequest read_plain h (hcost_nodeRequests x);
     Some \<lparr>cost_phase = hcost_phase x, cost_conditions = cs, cost_clusterReference = r,
           cost_nodeRequests = ns\<rparr> }"

definition reach_ClusterOrderStatus :: "heap \<Rightarrow> h_cluster_order_status \<Rightarrow> nat list" where
  "reach_ClusterOrderStatus h x =
     reach_slice k_Condition reach_plain h (hcost_conditions x) @
     reach_pointer k_ClusterOrderClusterReferenceType reach_plain h (hcost_clusterReference x) @
     reach_slice k_NodeRequest reach_plain h (hcost_nodeRequests x)"

lemmas node_slice = deep_copier_plain_slice [OF k_NodeRequest.block_kind_axioms]

interpretation order_spec_copy:
  deep_copier read_ClusterOrderSpec reach_ClusterOrderSpec ClusterOrderSpec_DeepCopyInto
  by (rule deep_copier_via [where
        un = "\<lambda>x. ((hcosp_templateID x, hcosp_templateParameters x), hcosp_nodeRequests x)"
        and mk = "\<lambda>((i, p), ns). \<lparr>hcosp_templateID = i, hcosp_templateParameters = p, hcosp_nodeRequests = ns\<rparr>"
        and f = "\<lambda>((i, p), ns). \<lparr>cos_templateID = i, cos_templateParameters = p, cos_nodeRequests = ns\<rparr>",
      OF deep_copier_pair [OF deep_copier_plain node_slice]])
    (simp_all add: read_ClusterOrderSpec_def reach_ClusterOrderSpec_def
      ClusterOrderSpec_DeepCopyInto_def via_simps)

interpretation order_status_copy:
  deep_copier read_ClusterOrderStatus reach_ClusterOrderStatus ClusterOrderStatus_DeepCopyInto
  by (rule deep_copier_via [where
        un = "\<lambda>x. (hcost_phase x, hcost_conditions x, hcost_clusterReference x, hcost_nodeRequests x)"
        and mk = "\<lambda>(p, cs, r, ns). \<lparr>hcost_phase = p, hcost_conditions = cs, hcost_clusterReference = r,
          hcost_nodeRequests = ns\<rparr>"
        and f = "\<lambda>(p, cs, r, ns). \<lparr>cost_phase = p, cost_conditions = cs, cost_clusterReference = r,
          cost_nodeRequests = ns\<rparr>",
      OF deep_copier_pair [OF deep_copier_plain deep_copier_pair [OF condition_slice deep_copier_pair [OF
        deep_copier_pointer [OF k_ClusterOrderClusterReferenceType.block_kind_axioms deep_copier_plain]
        node_slice]]]])
    (simp_all add: read_ClusterOrderStatus_def reach_ClusterOrderStatus_def
      ClusterOrderStatus_DeepCopyInto_def via_simps)

subsection \<open>HostPool\<close>

definition HostPoolSpec_DeepCopyInto :: "h_host_pool_spec copier" where
  "HostPoolSpec_DeepCopyInto h i = do {
     let out = i;
     (h, hs) \<leftarrow> copy_plain_slice k_HostSet h (hhpsp_hostSets i);
     let out = out\<lparr>hhpsp_hostSets := hs\<rparr>;
     Some (h, out) }"

definition HostPoolStatus_DeepCopyInto :: "h_host_pool_status copier" where
  "HostPoolStatus_DeepCopyInto h i = do {
     let out = i;
     (h, cs) \<leftarrow> copy_slice k_Condition copy_plain h (hhps_conditions i);
     let out = out\<lparr>hhps_conditions := cs\<rparr>;
     (h, r) \<leftarrow> copy_pointer k_HostPoolReferenceType copy_plain h (hhps_hostPoolReference i);
     let out = out\<lparr>hhps_hostPoolReference := r\<rparr>;
     (h, hs) \<leftarrow> copy_plain_slice k_HostSet h (hhps_hostSets i);
     let out = out\<lparr>hhps_hostSets := hs\<rparr>;
     Some (h, out) }"

definition read_HostPoolSpec :: "heap \<Rightarrow> h_host_pool_spec \<Rightarrow> host_set list option" where
  "read_HostPoolSpec h x = read_slice k_HostSet read_plain h (hhpsp_hostSets x)"

definition reach_HostPoolSpec :: "heap \<Rightarrow> h_host_pool_spec \<Rightarrow> nat list" where
  "reach_HostPoolSpec h x = reach_slice k_HostSet reach_plain h (hhpsp_hostSets x)"

definition read_HostPoolStatus :: "heap \<Rightarrow> h_host_pool_status \<Rightarrow> host_pool_status option" where
  "read_HostPoolStatus h x = do {
     cs \<leftarrow> read_slice k_Condition read_plain h (hhps_conditions x);
     r \<leftarrow> read_pointer k_HostPoolReferenceType read_plain h (hhps_hostPoolReference x);
     hs \<leftarrow> read_slice k_HostSet read_plain h (hhps_hostSets x);
     Some \<lparr>hps_phase = hhps_phase x, hps_conditions = cs, hps_hostPoolReference = r, hps_hostSets = hs\<rparr> }"

definition reach_HostPoolStatus :: "heap \<Rightarrow> h_host_pool_status \<Rightarrow> nat list" where
  "reach_HostPoolStatus h x =
     reach_slice k_Condition reach_plain h (hhps_conditions x) @
     reach_pointer k_HostPoolReferenceType reach_plain h (hhps_hostPoolReference x) @
     reach_slice k_HostSet reach_plain h (hhps_hostSets x)"

lemmas host_slice = deep_copier_plain_slice [OF k_HostSet.block_kind_axioms]

interpretation pool_spec_copy:
  deep_copier read_HostPoolSpec reach_HostPoolSpec HostPoolSpec_DeepCopyInto
  by (rule deep_copier_via [where un = hhpsp_hostSets and mk = "\<lambda>hs. \<lparr>hhpsp_hostSets = hs\<rparr>" and f = "\<lambda>hs. hs",
      OF host_slice])
    (simp_all add: read_HostPoolSpec_def reach_HostPoolSpec_def HostPoolSpec_DeepCopyInto_def via_simps)

interpretation pool_status_copy:
  deep_copier read_HostPoolStatus reach_HostPoolStatus HostPoolStatus_DeepCopyInto
  by (rule deep_copier_via [where
        un = "\<lambda>x. (hhps_phase x, hhps_conditions x, hhps_hostPoolReference x, hhps_hostSets x)"
        and mk = "\<lambda>(p, cs, r, hs). \<lparr>hhps_phase = p, hhps_conditions = cs, hhps_hostPoolReference = r,
          hhps_hostSets = hs\<rparr>"
        and f = "\<lambda>(p, cs, r, hs). \<lparr>hps_phase = p, hps_conditions = cs, hps_hostPoolReference = r,
          hps_hostSets = hs\<rparr>",
      OF deep_copier_pair [OF deep_copier_plain deep_copier_pair [OF condition_slice deep_copier_pair [OF
        deep_copier_pointer [OF k_HostPoolReferenceType.block_kind_axioms deep_copier_plain] host_slice]]]])
    (simp_all add: read_HostPoolStatus_def reach_HostPoolStatus_def HostPoolStatus_DeepCopyInto_def via_simps)

section \<open>Resources and their lists\<close>

text \<open>
  A resource is read back with its kind and the names of its owners (the record of a tenant
  has its owners itself).
\<close>

type_synonym 'o object_value = "(type_meta \<times> string list) \<times> 'o"

definition ComputeInstance_DeepCopyInto :: "h_object_meta copier \<Rightarrow> h_compute_instance copier" where
  "ComputeInstance_DeepCopyInto mc h i = do {
     let out = i;
     let out = out\<lparr>hci_type := hci_type i\<rparr>;
     (h, m) \<leftarrow> mc h (hci_meta i);
     let out = out\<lparr>hci_meta := m\<rparr>;
     (h, sp) \<leftarrow> ComputeInstanceSpec_DeepCopyInto h (hci_spec i);
     let out = out\<lparr>hci_spec := sp\<rparr>;
     (h, st) \<leftarrow> ComputeInstanceStatus_DeepCopyInto h (hci_status i);
     let out = out\<lparr>hci_status := st\<rparr>;
     Some (h, out) }"

definition read_ComputeInstance :: "heap \<Rightarrow> h_compute_instance \<Rightarrow> compute_instance object_value option" where
  "read_ComputeInstance h x = do {
     (m, os) \<leftarrow> read_object_meta h (hci_meta x);
     sp \<leftarrow> read_ComputeInstanceSpec h (hci_spec x);
     st \<leftarrow> read_ComputeInstanceStatus h (hci_status x);
     Some ((hci_type x, os), \<lparr>ci_meta = m, ci_spec = sp, ci_status = st\<rparr>) }"

definition reach_ComputeInstance :: "heap \<Rightarrow> h_compute_instance \<Rightarrow> nat list" where
  "reach_ComputeInstance h x =
     reach_object_meta h (hci_meta x) @ reach_ComputeInstanceSpec h (hci_spec x) @
     reach_ComputeInstanceStatus h (hci_status x)"

lemma ComputeInstance_copier:
  assumes "copies_object_meta mc"
  shows "deep_copier read_ComputeInstance reach_ComputeInstance (ComputeInstance_DeepCopyInto mc)"
  by (rule deep_copier_via [where
        un = "\<lambda>x. (hci_type x, hci_meta x, hci_spec x, hci_status x)"
        and mk = "\<lambda>(t, m, sp, st). \<lparr>hci_type = t, hci_meta = m, hci_spec = sp, hci_status = st\<rparr>"
        and f = "\<lambda>(t, (m, os), sp, st). ((t, os), \<lparr>ci_meta = m, ci_spec = sp, ci_status = st\<rparr>)",
      OF deep_copier_pair [OF deep_copier_plain deep_copier_pair [OF
        assms [unfolded copies_object_meta_def] deep_copier_pair [OF
        instance_spec_copy.deep_copier_axioms instance_status_copy.deep_copier_axioms]]]])
    (simp_all add: read_ComputeInstance_def reach_ComputeInstance_def ComputeInstance_DeepCopyInto_def via_simps)

definition ClusterOrder_DeepCopyInto :: "h_object_meta copier \<Rightarrow> h_cluster_order copier" where
  "ClusterOrder_DeepCopyInto mc h i = do {
     let out = i;
     let out = out\<lparr>hco_type := hco_type i\<rparr>;
     (h, m) \<leftarrow> mc h (hco_meta i);
     let out = out\<lparr>hco_meta := m\<rparr>;
     (h, sp) \<leftarrow> ClusterOrderSpec_DeepCopyInto h (hco_spec i);
     let out = out\<lparr>hco_spec := sp\<rparr>;
     (h, st) \<leftarrow> ClusterOrderStatus_DeepCopyInto h (hco_status i);
     let out = out\<lparr>hco_status := st\<rparr>;
     Some (h, out) }"

definition read_ClusterOrder :: "heap \<Rightarrow> h_cluster_order \<Rightarrow> cluster_order object_value option" where
  "read_ClusterOrder h x = do {
     (m, os) \<leftarrow> read_object_meta h (hco_meta x);
     sp \<leftarrow> read_ClusterOrderSpec h (hco_spec x);
     st \<leftarrow> read_ClusterOrderStatus h (hco_status x);
     Some ((hco_type x, os), \<lparr>co_meta = m, co_spec = sp, co_status = st\<rparr>) }"

definition reach_ClusterOrder :: "heap \<Rightarrow> h_cluster_order \<Rightarrow> nat list" where
  "reach_ClusterOrder h x =
     reach_object_meta h (hco_meta x) @ reach_ClusterOrderSpec h (hco_spec x) @
     reach_ClusterOrderStatus h (hco_status x)"

lemma ClusterOrder_copier:
  assumes "copies_object_meta mc"
  shows "deep_copier read_ClusterOrder reach_ClusterOrder (ClusterOrder_DeepCopyInto mc)"
  by (rule deep_copier_via [where
        un = "\<lambda>x. (hco_type x, hco_meta x, hco_spec x, hco_status x)"
        and mk = "\<lambda>(t, m, sp, st). \<lparr>hco_type = t, hco_meta = m, hco_spec = sp, hco_status = st\<rparr>"
        and f = "\<lambda>(t, (m, os), sp, st). ((t, os), \<lparr>co_meta = m, co_spec = sp, co_status = st\<rparr>)",
      OF deep_copier_pair [OF deep_copier_plain deep_copier_pair [OF
        assms [unfolded copies_object_meta_def] deep_copier_pair [OF
        order_spec_copy.deep_copier_axioms order_status_copy.deep_copier_axioms]]]])
    (simp_all add: read_ClusterOrder_def reach_ClusterOrder_def ClusterOrder_DeepCopyInto_def via_simps)

definition HostPool_DeepCopyInto :: "h_object_meta copier \<Rightarrow> h_host_pool copier" where
  "HostPool_DeepCopyInto mc h i = do {
     let out = i;
     let out = out\<lparr>hhp_type := hhp_type i\<rparr>;
     (h, m) \<leftarrow> mc h (hhp_meta i);
     let out = out\<lparr>hhp_meta := m\<rparr>;
     (h, sp) \<leftarrow> HostPoolSpec_DeepCopyInto h (hhp_spec i);
     let out = out\<lparr>hhp_spec := sp\<rparr>;
     (h, st) \<leftarrow> HostPoolStatus_DeepCopyInto h (hhp_status i);
     let out = out\<lparr>hhp_status := st\<rparr>;
     Some (h, out) }"

definition read_HostPool :: "heap \<Rightarrow> h_host_pool \<Rightarrow> host_pool object_value option" where
  "read_HostPool h x = do {
     (m, os) \<leftarrow> read_object_meta h (hhp_meta x);
     sp \<leftarrow> read_HostPoolSpec h (hhp_spec x);
     st \<leftarrow> read_HostPoolStatus h (hhp_status x);
     Some ((hhp_type x, os), \<lparr>hp_meta = m, hp_spec_hostSets = sp, hp_status = st\<rparr>) }"

definition reach_HostPool :: "heap \<Rightarrow> h_host_pool \<Rightarrow> nat list" where
  "reach_HostPool h x =
     reach_object_meta h (hhp_meta x) @ reach_HostPoolSpec h (hhp_spec x) @
     reach_HostPoolStatus h (hhp_status x)"

lemma HostPool_copier:
  assumes "copies_object_meta mc"
  shows "deep_copier read_HostPool reach_HostPool (HostPool_DeepCopyInto mc)"
  by (rule deep_copier_via [where
        un = "\<lambda>x. (hhp_type x, hhp_meta x, hhp_spec x, hhp_status x)"
        and mk = "\<lambda>(t, m, sp, st). \<lparr>hhp_type = t, hhp_meta = m, hhp_spec = sp, hhp_status = st\<rparr>"
        and f = "\<lambda>(t, (m, os), sp, st). ((t, os), \<lparr>hp_meta = m, hp_spec_hostSets = sp, hp_status = st\<rparr>)",
      OF deep_copier_pair [OF deep_copier_plain deep_copier_pair [OF
        assms [unfolded copies_object_meta_def] deep_copier_pair [OF
        pool_spec_copy.deep_copier_axioms pool_status_copy.deep_copier_axioms]]]])
    (simp_all add: read_HostPool_def reach_HostPool_def HostPool_DeepCopyInto_def via_simps)

definition Tenant_DeepCopyInto :: "h_object_meta copier \<Rightarrow> h_tenant copier" where
  "Tenant_DeepCopyInto mc h i = do {
     let out = i;
     let out = out\<lparr>htn_type := htn_type i\<rparr>;
     (h, m) \<leftarrow> mc h (htn_meta i);
     let out = out\<lparr>htn_meta := m\<rparr>;
     let out = out\<lparr>htn_spec := htn_spec i\<rparr>;
     let out = out\<lparr>htn_status := htn_status i\<rparr>;
     Some (h, out) }"

definition read_Tenant :: "heap \<Rightarrow> h_tenant \<Rightarrow> tenant object_value option" where
  "read_Tenant h x = do {
     (m, os) \<leftarrow> read_object_meta h (htn_meta x);
     Some ((htn_type x, os),
       \<lparr>tn_meta = m, tn_spec_name = htn_spec x, tn_status = htn_status x, tn_ownerReferences = os\<rparr>) }"

definition reach_Tenant :: "heap \<Rightarrow> h_tenant \<Rightarrow> nat list" where
  "reach_Tenant h x = reach_object_meta h (htn_meta x)"

lemma Tenant_copier:
  assumes "copies_object_meta mc"
  shows "deep_copier read_Tenant reach_Tenant (Tenant_DeepCopyInto mc)"
  by (rule deep_copier_via [where
        un = "\<lambda>x. ((htn_type x, htn_spec x, htn_status x), htn_meta x)"
        and mk = "\<lambda>((t, sp, st), m). \<lparr>htn_type = t, htn_meta = m, htn_spec = sp, htn_status = st\<rparr>"
        and f = "\<lambda>((t, sp, st), m, os). ((t, os), \<lparr>tn_meta = m, tn_spec_name = sp, tn_status = st,
          tn_ownerReferences = os\<rparr>)",
      OF deep_copier_pair [OF deep_copier_plain assms [unfolded copies_object_meta_def]]])
    (simp_all add: read_Tenant_def reach_Tenant_def Tenant_DeepCopyInto_def via_simps)

text \<open>The items of a list are copied by the loop, each with its own \<open>DeepCopyInto\<close>.\<close>

type_synonym list_meta_value = "string \<times> string \<times> int option"

definition read_list ::
    "('i, block) kind \<Rightarrow> (heap \<Rightarrow> 'i \<Rightarrow> 'v option) \<Rightarrow> heap \<Rightarrow> h_list \<Rightarrow> (type_meta \<times> list_meta_value \<times> 'v list) option" where
  "read_list k rd h x = do {
     m \<leftarrow> read_list_meta h (hlist_meta x);
     vs \<leftarrow> read_slice k rd h (hlist_items x);
     Some (hlist_type x, m, vs) }"

definition reach_list :: "('i, block) kind \<Rightarrow> (heap \<Rightarrow> 'i \<Rightarrow> nat list) \<Rightarrow> heap \<Rightarrow> h_list \<Rightarrow> nat list" where
  "reach_list k re h x = reach_list_meta h (hlist_meta x) @ reach_slice k re h (hlist_items x)"

definition ClusterOrderList_DeepCopyInto :: "h_object_meta copier \<Rightarrow> h_list_meta copier \<Rightarrow> h_list copier" where
  "ClusterOrderList_DeepCopyInto mc lc h i = do {
     let out = i;
     let out = out\<lparr>hlist_type := hlist_type i\<rparr>;
     (h, m) \<leftarrow> lc h (hlist_meta i);
     let out = out\<lparr>hlist_meta := m\<rparr>;
     (h, is) \<leftarrow> copy_slice k_ClusterOrder (ClusterOrder_DeepCopyInto mc) h (hlist_items i);
     let out = out\<lparr>hlist_items := is\<rparr>;
     Some (h, out) }"

definition ComputeInstanceList_DeepCopyInto :: "h_object_meta copier \<Rightarrow> h_list_meta copier \<Rightarrow> h_list copier" where
  "ComputeInstanceList_DeepCopyInto mc lc h i = do {
     let out = i;
     let out = out\<lparr>hlist_type := hlist_type i\<rparr>;
     (h, m) \<leftarrow> lc h (hlist_meta i);
     let out = out\<lparr>hlist_meta := m\<rparr>;
     (h, is) \<leftarrow> copy_slice k_ComputeInstance (ComputeInstance_DeepCopyInto mc) h (hlist_items i);
     let out = out\<lparr>hlist_items := is\<rparr>;
     Some (h, out) }"

definition HostPoolList_DeepCopyInto :: "h_object_meta copier \<Rightarrow> h_list_meta copier \<Rightarrow> h_list copier" where
  "HostPoolList_DeepCopyInto mc lc h i = do {
     let out = i;
     let out = out\<lparr>hlist_type := hlist_type i\<rparr>;
     (h, m) \<leftarrow> lc h (hlist_meta i);
     let out = out\<lparr>hlist_meta := m\<rparr>;
     (h, is) \<leftarrow> copy_slice k_HostPool (HostPool_DeepCopyInto mc) h (hlist_items i);
     let out = out\<lparr>hlist_items := is\<rparr>;
     Some (h, out) }"

definition TenantList_DeepCopyInto :: "h_object_meta copier \<Rightarrow> h_list_meta copier \<Rightarrow> h_list copier" where
  "TenantList_DeepCopyInto mc lc h i = do {
     let out = i;
     let out = out\<lparr>hlist_type := hlist_type i\<rparr>;
     (h, m) \<leftarrow> lc h (hlist_meta i);
     let out = out\<lparr>hlist_meta := m\<rparr>;
     (h, is) \<leftarrow> copy_slice k_Tenant (Tenant_DeepCopyInto mc) h (hlist_items i);
     let out = out\<lparr>hlist_items := is\<rparr>;
     Some (h, out) }"

lemma list_copier:
  assumes "copies_list_meta lc" "block_kind k" "deep_copier rd re cp"
    and "\<And>h i. into h i = Option.bind (lc h (hlist_meta i)) (\<lambda>(h, m).
      Option.bind (copy_slice k cp h (hlist_items i)) (\<lambda>(h, is).
      Some (h, i\<lparr>hlist_meta := m, hlist_items := is\<rparr>)))"
  shows "deep_copier (read_list k rd) (reach_list k re) into"
  by (rule deep_copier_via [where
        un = "\<lambda>x. (hlist_type x, hlist_meta x, hlist_items x)"
        and mk = "\<lambda>(t, m, is). \<lparr>hlist_type = t, hlist_meta = m, hlist_items = is\<rparr>"
        and f = "\<lambda>(t, m, vs). (t, m, vs)",
      OF deep_copier_pair [OF deep_copier_plain deep_copier_pair [OF
        assms(1) [unfolded copies_list_meta_def] deep_copier_slice [OF assms(2,3)]]]])
    (simp_all add: assms(4) read_list_def reach_list_def via_simps)

lemma ClusterOrderList_copier:
  assumes "copies_object_meta mc" "copies_list_meta lc"
  shows "deep_copier (read_list k_ClusterOrder read_ClusterOrder) (reach_list k_ClusterOrder reach_ClusterOrder) (ClusterOrderList_DeepCopyInto mc lc)"
  by (rule list_copier [OF assms(2) k_ClusterOrder.block_kind_axioms ClusterOrder_copier [OF assms(1)]])
    (simp add: ClusterOrderList_DeepCopyInto_def case_prod_beta')

lemma ComputeInstanceList_copier:
  assumes "copies_object_meta mc" "copies_list_meta lc"
  shows "deep_copier (read_list k_ComputeInstance read_ComputeInstance) (reach_list k_ComputeInstance reach_ComputeInstance) (ComputeInstanceList_DeepCopyInto mc lc)"
  by (rule list_copier [OF assms(2) k_ComputeInstance.block_kind_axioms ComputeInstance_copier [OF assms(1)]])
    (simp add: ComputeInstanceList_DeepCopyInto_def case_prod_beta')

lemma HostPoolList_copier:
  assumes "copies_object_meta mc" "copies_list_meta lc"
  shows "deep_copier (read_list k_HostPool read_HostPool) (reach_list k_HostPool reach_HostPool) (HostPoolList_DeepCopyInto mc lc)"
  by (rule list_copier [OF assms(2) k_HostPool.block_kind_axioms HostPool_copier [OF assms(1)]])
    (simp add: HostPoolList_DeepCopyInto_def case_prod_beta')

lemma TenantList_copier:
  assumes "copies_object_meta mc" "copies_list_meta lc"
  shows "deep_copier (read_list k_Tenant read_Tenant) (reach_list k_Tenant reach_Tenant) (TenantList_DeepCopyInto mc lc)"
  by (rule list_copier [OF assms(2) k_Tenant.block_kind_axioms Tenant_copier [OF assms(1)]])
    (simp add: TenantList_DeepCopyInto_def case_prod_beta')

section \<open>DeepCopy\<close>

definition ClusterOrderClusterReferenceType_DeepCopy :: "heap \<Rightarrow> cluster_reference option \<Rightarrow> (heap \<times> pointer option) option" where
  "ClusterOrderClusterReferenceType_DeepCopy = deep_copy k_ClusterOrderClusterReferenceType ClusterOrderClusterReferenceType_DeepCopyInto"

definition ClusterOrderSpec_DeepCopy :: "heap \<Rightarrow> h_cluster_order_spec option \<Rightarrow> (heap \<times> pointer option) option" where
  "ClusterOrderSpec_DeepCopy = deep_copy k_ClusterOrderSpec ClusterOrderSpec_DeepCopyInto"

definition ClusterOrderStatus_DeepCopy :: "heap \<Rightarrow> h_cluster_order_status option \<Rightarrow> (heap \<times> pointer option) option" where
  "ClusterOrderStatus_DeepCopy = deep_copy k_ClusterOrderStatus ClusterOrderStatus_DeepCopyInto"

definition ComputeInstanceSpec_DeepCopy :: "heap \<Rightarrow> h_compute_instance_spec option \<Rightarrow> (heap \<times> pointer option) option" where
  "ComputeInstanceSpec_DeepCopy = deep_copy k_ComputeInstanceSpec ComputeInstanceSpec_DeepCopyInto"

definition ComputeInstanceStatus_DeepCopy :: "heap \<Rightarrow> h_compute_instance_status option \<Rightarrow> (heap \<times> pointer option) option" where
  "ComputeInstanceStatus_DeepCopy = deep_copy k_ComputeInstanceStatus ComputeInstanceStatus_DeepCopyInto"

definition HostPoolReferenceType_DeepCopy :: "heap \<Rightarrow> string option \<Rightarrow> (heap \<times> pointer option) option" where
  "HostPoolReferenceType_DeepCopy = deep_copy k_HostPoolReferenceType HostPoolReferenceType_DeepCopyInto"

definition HostPoolSpec_DeepCopy :: "heap \<Rightarrow> h_host_pool_spec option \<Rightarrow> (heap \<times> pointer option) option" where
  "HostPoolSpec_DeepCopy = deep_copy k_HostPoolSpec HostPoolSpec_DeepCopyInto"

definition HostPoolStatus_DeepCopy :: "heap \<Rightarrow> h_host_pool_status option \<Rightarrow> (heap \<times> pointer option) option" where
  "HostPoolStatus_DeepCopy = deep_copy k_HostPoolStatus HostPoolStatus_DeepCopyInto"

definition HostSet_DeepCopy :: "heap \<Rightarrow> host_set option \<Rightarrow> (heap \<times> pointer option) option" where
  "HostSet_DeepCopy = deep_copy k_HostSet HostSet_DeepCopyInto"

definition JobStatus_DeepCopy :: "heap \<Rightarrow> job_status option \<Rightarrow> (heap \<times> pointer option) option" where
  "JobStatus_DeepCopy = deep_copy k_JobStatus JobStatus_DeepCopyInto"

definition NodeRequest_DeepCopy :: "heap \<Rightarrow> node_request option \<Rightarrow> (heap \<times> pointer option) option" where
  "NodeRequest_DeepCopy = deep_copy k_NodeRequest NodeRequest_DeepCopyInto"

definition TenantReferenceType_DeepCopy :: "heap \<Rightarrow> tenant_reference option \<Rightarrow> (heap \<times> pointer option) option" where
  "TenantReferenceType_DeepCopy = deep_copy k_TenantReferenceType TenantReferenceType_DeepCopyInto"

definition TenantSpec_DeepCopy :: "heap \<Rightarrow> string option \<Rightarrow> (heap \<times> pointer option) option" where
  "TenantSpec_DeepCopy = deep_copy k_TenantSpec TenantSpec_DeepCopyInto"

definition TenantStatus_DeepCopy :: "heap \<Rightarrow> tenant_status option \<Rightarrow> (heap \<times> pointer option) option" where
  "TenantStatus_DeepCopy = deep_copy k_TenantStatus TenantStatus_DeepCopyInto"

definition VirtualMachineReferenceType_DeepCopy :: "heap \<Rightarrow> virtual_machine_reference option \<Rightarrow> (heap \<times> pointer option) option" where
  "VirtualMachineReferenceType_DeepCopy = deep_copy k_VirtualMachineReferenceType VirtualMachineReferenceType_DeepCopyInto"

definition ClusterOrder_DeepCopy ::
    "h_object_meta copier \<Rightarrow> heap \<Rightarrow> h_cluster_order option \<Rightarrow> (heap \<times> pointer option) option" where
  "ClusterOrder_DeepCopy mc = deep_copy k_ClusterOrder (ClusterOrder_DeepCopyInto mc)"

definition ClusterOrderList_DeepCopy ::
    "h_object_meta copier \<Rightarrow> h_list_meta copier \<Rightarrow> heap \<Rightarrow> h_list option \<Rightarrow> (heap \<times> pointer option) option" where
  "ClusterOrderList_DeepCopy mc lc = deep_copy k_ClusterOrderList (ClusterOrderList_DeepCopyInto mc lc)"

definition ComputeInstance_DeepCopy ::
    "h_object_meta copier \<Rightarrow> heap \<Rightarrow> h_compute_instance option \<Rightarrow> (heap \<times> pointer option) option" where
  "ComputeInstance_DeepCopy mc = deep_copy k_ComputeInstance (ComputeInstance_DeepCopyInto mc)"

definition ComputeInstanceList_DeepCopy ::
    "h_object_meta copier \<Rightarrow> h_list_meta copier \<Rightarrow> heap \<Rightarrow> h_list option \<Rightarrow> (heap \<times> pointer option) option" where
  "ComputeInstanceList_DeepCopy mc lc = deep_copy k_ComputeInstanceList (ComputeInstanceList_DeepCopyInto mc lc)"

definition HostPool_DeepCopy ::
    "h_object_meta copier \<Rightarrow> heap \<Rightarrow> h_host_pool option \<Rightarrow> (heap \<times> pointer option) option" where
  "HostPool_DeepCopy mc = deep_copy k_HostPool (HostPool_DeepCopyInto mc)"

definition HostPoolList_DeepCopy ::
    "h_object_meta copier \<Rightarrow> h_list_meta copier \<Rightarrow> heap \<Rightarrow> h_list option \<Rightarrow> (heap \<times> pointer option) option" where
  "HostPoolList_DeepCopy mc lc = deep_copy k_HostPoolList (HostPoolList_DeepCopyInto mc lc)"

definition Tenant_DeepCopy ::
    "h_object_meta copier \<Rightarrow> heap \<Rightarrow> h_tenant option \<Rightarrow> (heap \<times> pointer option) option" where
  "Tenant_DeepCopy mc = deep_copy k_Tenant (Tenant_DeepCopyInto mc)"

definition TenantList_DeepCopy ::
    "h_object_meta copier \<Rightarrow> h_list_meta copier \<Rightarrow> heap \<Rightarrow> h_list option \<Rightarrow> (heap \<times> pointer option) option" where
  "TenantList_DeepCopy mc lc = deep_copy k_TenantList (TenantList_DeepCopyInto mc lc)"

section \<open>DeepCopyObject\<close>

text \<open>
  A value of the interface \<open>runtime.Object\<close> that is not nil has a dynamic type and a pointer,
  which could itself be nil. \<open>DeepCopyObject\<close> takes care not to wrap a nil pointer.
\<close>

datatype runtime_object =
    ClusterOrderObject "pointer option" | ClusterOrderListObject "pointer option"
  | ComputeInstanceObject "pointer option" | ComputeInstanceListObject "pointer option"
  | HostPoolObject "pointer option" | HostPoolListObject "pointer option"
  | TenantObject "pointer option" | TenantListObject "pointer option"

definition ClusterOrder_DeepCopyObject ::
    "h_object_meta copier \<Rightarrow> heap \<Rightarrow> h_cluster_order option \<Rightarrow> (heap \<times> runtime_object option) option" where
  "ClusterOrder_DeepCopyObject mc h i = do {
     (h, c) \<leftarrow> ClusterOrder_DeepCopy mc h i;
     if c \<noteq> None then Some (h, Some (ClusterOrderObject c)) else Some (h, None) }"

definition ClusterOrderList_DeepCopyObject ::
    "h_object_meta copier \<Rightarrow> h_list_meta copier \<Rightarrow> heap \<Rightarrow> h_list option \<Rightarrow> (heap \<times> runtime_object option) option" where
  "ClusterOrderList_DeepCopyObject mc lc h i = do {
     (h, c) \<leftarrow> ClusterOrderList_DeepCopy mc lc h i;
     if c \<noteq> None then Some (h, Some (ClusterOrderListObject c)) else Some (h, None) }"

definition ComputeInstance_DeepCopyObject ::
    "h_object_meta copier \<Rightarrow> heap \<Rightarrow> h_compute_instance option \<Rightarrow> (heap \<times> runtime_object option) option" where
  "ComputeInstance_DeepCopyObject mc h i = do {
     (h, c) \<leftarrow> ComputeInstance_DeepCopy mc h i;
     if c \<noteq> None then Some (h, Some (ComputeInstanceObject c)) else Some (h, None) }"

definition ComputeInstanceList_DeepCopyObject ::
    "h_object_meta copier \<Rightarrow> h_list_meta copier \<Rightarrow> heap \<Rightarrow> h_list option \<Rightarrow> (heap \<times> runtime_object option) option" where
  "ComputeInstanceList_DeepCopyObject mc lc h i = do {
     (h, c) \<leftarrow> ComputeInstanceList_DeepCopy mc lc h i;
     if c \<noteq> None then Some (h, Some (ComputeInstanceListObject c)) else Some (h, None) }"

definition HostPool_DeepCopyObject ::
    "h_object_meta copier \<Rightarrow> heap \<Rightarrow> h_host_pool option \<Rightarrow> (heap \<times> runtime_object option) option" where
  "HostPool_DeepCopyObject mc h i = do {
     (h, c) \<leftarrow> HostPool_DeepCopy mc h i;
     if c \<noteq> None then Some (h, Some (HostPoolObject c)) else Some (h, None) }"

definition HostPoolList_DeepCopyObject ::
    "h_object_meta copier \<Rightarrow> h_list_meta copier \<Rightarrow> heap \<Rightarrow> h_list option \<Rightarrow> (heap \<times> runtime_object option) option" where
  "HostPoolList_DeepCopyObject mc lc h i = do {
     (h, c) \<leftarrow> HostPoolList_DeepCopy mc lc h i;
     if c \<noteq> None then Some (h, Some (HostPoolListObject c)) else Some (h, None) }"

definition Tenant_DeepCopyObject ::
    "h_object_meta copier \<Rightarrow> heap \<Rightarrow> h_tenant option \<Rightarrow> (heap \<times> runtime_object option) option" where
  "Tenant_DeepCopyObject mc h i = do {
     (h, c) \<leftarrow> Tenant_DeepCopy mc h i;
     if c \<noteq> None then Some (h, Some (TenantObject c)) else Some (h, None) }"

definition TenantList_DeepCopyObject ::
    "h_object_meta copier \<Rightarrow> h_list_meta copier \<Rightarrow> heap \<Rightarrow> h_list option \<Rightarrow> (heap \<times> runtime_object option) option" where
  "TenantList_DeepCopyObject mc lc h i = do {
     (h, c) \<leftarrow> TenantList_DeepCopy mc lc h i;
     if c \<noteq> None then Some (h, Some (TenantListObject c)) else Some (h, None) }"

text \<open>The call through the interface: the method of the dynamic type, on the object pointed to.\<close>

definition DeepCopyObject ::
    "h_object_meta copier \<Rightarrow> h_list_meta copier \<Rightarrow> heap \<Rightarrow> runtime_object \<Rightarrow> (heap \<times> runtime_object option) option" where
  "DeepCopyObject mc lc h ob =
     (case ob of
        ClusterOrderObject p \<Rightarrow> ClusterOrder_DeepCopyObject mc h (Option.bind p (load k_ClusterOrder h))
      |   ClusterOrderListObject p \<Rightarrow> ClusterOrderList_DeepCopyObject mc lc h (Option.bind p (load k_ClusterOrderList h))
      |   ComputeInstanceObject p \<Rightarrow> ComputeInstance_DeepCopyObject mc h (Option.bind p (load k_ComputeInstance h))
      |   ComputeInstanceListObject p \<Rightarrow> ComputeInstanceList_DeepCopyObject mc lc h (Option.bind p (load k_ComputeInstanceList h))
      |   HostPoolObject p \<Rightarrow> HostPool_DeepCopyObject mc h (Option.bind p (load k_HostPool h))
      |   HostPoolListObject p \<Rightarrow> HostPoolList_DeepCopyObject mc lc h (Option.bind p (load k_HostPoolList h))
      |   TenantObject p \<Rightarrow> Tenant_DeepCopyObject mc h (Option.bind p (load k_Tenant h))
      |   TenantListObject p \<Rightarrow> TenantList_DeepCopyObject mc lc h (Option.bind p (load k_TenantList h)))"

text \<open>The value an object has, tagged with its type.\<close>

datatype api_value =
    ClusterOrderValue "cluster_order object_value"
  | ClusterOrderListValue "type_meta \<times> list_meta_value \<times> cluster_order object_value list"
  | ComputeInstanceValue "compute_instance object_value"
  | ComputeInstanceListValue "type_meta \<times> list_meta_value \<times> compute_instance object_value list"
  | HostPoolValue "host_pool object_value"
  | HostPoolListValue "type_meta \<times> list_meta_value \<times> host_pool object_value list"
  | TenantValue "tenant object_value"
  | TenantListValue "type_meta \<times> list_meta_value \<times> tenant object_value list"

definition read_object :: "heap \<Rightarrow> runtime_object \<Rightarrow> api_value option" where
  "read_object h ob =
     (case ob of
        ClusterOrderObject p \<Rightarrow> map_option ClusterOrderValue (Option.bind (Option.bind p (load k_ClusterOrder h)) (read_ClusterOrder h))
      | ClusterOrderListObject p \<Rightarrow> map_option ClusterOrderListValue (Option.bind (Option.bind p (load k_ClusterOrderList h)) (read_list k_ClusterOrder read_ClusterOrder h))
      | ComputeInstanceObject p \<Rightarrow> map_option ComputeInstanceValue (Option.bind (Option.bind p (load k_ComputeInstance h)) (read_ComputeInstance h))
      | ComputeInstanceListObject p \<Rightarrow> map_option ComputeInstanceListValue (Option.bind (Option.bind p (load k_ComputeInstanceList h)) (read_list k_ComputeInstance read_ComputeInstance h))
      | HostPoolObject p \<Rightarrow> map_option HostPoolValue (Option.bind (Option.bind p (load k_HostPool h)) (read_HostPool h))
      | HostPoolListObject p \<Rightarrow> map_option HostPoolListValue (Option.bind (Option.bind p (load k_HostPoolList h)) (read_list k_HostPool read_HostPool h))
      | TenantObject p \<Rightarrow> map_option TenantValue (Option.bind (Option.bind p (load k_Tenant h)) (read_Tenant h))
      | TenantListObject p \<Rightarrow> map_option TenantListValue (Option.bind (Option.bind p (load k_TenantList h)) (read_list k_Tenant read_Tenant h)))"

text \<open>Part of a store is as it was: the blocks from \<open>lo\<close> up to \<open>hi\<close>.\<close>

definition kept :: "nat \<Rightarrow> nat \<Rightarrow> 'b list \<Rightarrow> 'b list \<Rightarrow> bool" where
  "kept lo hi h h' \<longleftrightarrow> (\<forall>a \<in> {lo..<hi}. a < length h' \<and> h' ! a = h ! a)"

lemma kept_same_on:
  "kept lo hi h h' \<Longrightarrow> (\<And>a. a \<in> set as \<Longrightarrow> lo \<le> a \<and> a < hi) \<Longrightarrow> same_on as h h'"
  unfolding kept_def same_on_def by simp

lemma deep_copy_separate:
  assumes k: "block_kind k" and c: "deep_copier r e c" and x: "load k h p = Some x" "r h x = Some v"
  shows "\<exists>h' q. deep_copy k c h (Some x) = Some (h', Some q) \<and> grows h h' \<and>
    (\<forall>h''. kept (length h) (length h') h' h'' \<longrightarrow> Option.bind (load k h'' q) (r h'') = Some v) \<and>
    (\<forall>h''. kept 0 (length h) h h'' \<longrightarrow> Option.bind (load k h'' p) (r h'') = Some v)"
proof -
  note p = deep_copier_pointer [OF k c]
  obtain h' q where q: "deep_copy k c h (Some x) = Some (h', Some q)" "grows h h'"
      "read_pointer k r h' (Some q) = Some (Some v)" "\<forall>a \<in> set (reach_pointer k e h' (Some q)). length h \<le> a"
    using deep_copy_reads [OF k c x(2)] by blast
  have rd: "read_pointer k r h (Some p) = Some (Some v)" using x by (simp add: read_pointer_def)
  have "read_pointer k r h'' (Some q) = Some (Some v)" if "kept (length h) (length h') h' h''" for h''
    using deep_copier.read_local [OF p q(3)] kept_same_on [OF that] q(4) deep_copier.reach_below [OF p q(3)] by blast
  moreover have "read_pointer k r h'' (Some p) = Some (Some v)" if "kept 0 (length h) h h''" for h''
    using deep_copier.read_local [OF p rd] kept_same_on [OF that] deep_copier.reach_below [OF p rd] by blast
  ultimately show ?thesis using q(1,2) by (auto simp: read_pointer_def)
qed

text \<open>The same of an object behind the interface, whatever its dynamic type.\<close>

lemma object_separate:
  assumes k: "block_kind k" and c: "deep_copier r e cp"
    and copy: "\<And>p. DeepCopyObject mc lc h (C p) = Option.bind (deep_copy k cp h (Option.bind p (load k h)))
      (\<lambda>(h, c). if c \<noteq> None then Some (h, Some (C c)) else Some (h, None))"
    and rd: "\<And>h p. read_object h (C p) = map_option V (Option.bind (Option.bind p (load k h)) (r h))"
    and v: "read_object h (C p) = Some v"
  shows "\<exists>h' ob'. DeepCopyObject mc lc h (C p) = Some (h', Some ob') \<and> grows h h' \<and>
    (\<forall>h''. kept (length h) (length h') h' h'' \<longrightarrow> read_object h'' ob' = Some v) \<and>
    (\<forall>h''. kept 0 (length h) h h'' \<longrightarrow> read_object h'' (C p) = Some v)"
proof -
  obtain q x w where x: "p = Some q" "load k h q = Some x" "r h x = Some w" and vw: "v = V w"
    using v by (auto simp: rd bind_eq_Some_conv)
  obtain h' q' where q: "deep_copy k cp h (Some x) = Some (h', Some q')" "grows h h'"
      "\<And>h''. kept (length h) (length h') h' h'' \<Longrightarrow> Option.bind (load k h'' q') (r h'') = Some w"
      "\<And>h''. kept 0 (length h) h h'' \<Longrightarrow> Option.bind (load k h'' q) (r h'') = Some w"
    using deep_copy_separate [OF k c x(2,3)] by blast
  then have "DeepCopyObject mc lc h (C p) = Some (h', Some (C (Some q')))" by (simp add: copy x)
  then show ?thesis
    using q(2,3,4) by (intro exI [of _ h'] exI [of _ "C (Some q')"]) (simp add: rd x(1) vw)
qed

lemmas object_defs = DeepCopyObject_def read_object_def
  ClusterOrder_DeepCopyObject_def ClusterOrder_DeepCopy_def ClusterOrderList_DeepCopyObject_def
  ClusterOrderList_DeepCopy_def ComputeInstance_DeepCopyObject_def ComputeInstance_DeepCopy_def
  ComputeInstanceList_DeepCopyObject_def ComputeInstanceList_DeepCopy_def
  HostPool_DeepCopyObject_def HostPool_DeepCopy_def HostPoolList_DeepCopyObject_def
  HostPoolList_DeepCopy_def Tenant_DeepCopyObject_def Tenant_DeepCopy_def
  TenantList_DeepCopyObject_def TenantList_DeepCopy_def

text \<open>C18: for every resource and list of the API group, \<open>DeepCopyObject\<close> through the interface does
  not panic and returns an object of the same dynamic type and value; the copy keeps that value
  whatever is later written to the memory that existed before the call, and the original keeps
  it whatever is written to the memory allocated since. The metadata are copied by the library.\<close>

theorem deep_copy_object_separate:
  assumes mc: "copies_object_meta mc" and lc: "copies_list_meta lc" and v: "read_object h ob = Some v"
  shows "\<exists>h' ob'. DeepCopyObject mc lc h ob = Some (h', Some ob') \<and> grows h h' \<and>
    (\<forall>h''. kept (length h) (length h') h' h'' \<longrightarrow> read_object h'' ob' = Some v) \<and>
    (\<forall>h''. kept 0 (length h) h h'' \<longrightarrow> read_object h'' ob = Some v)"
proof (cases ob)
  case (ClusterOrderObject p)
  then show ?thesis
    using object_separate [where C = ClusterOrderObject and V = ClusterOrderValue,
        OF k_ClusterOrder.block_kind_axioms ClusterOrder_copier [OF mc], of mc lc h p v] v by (simp add: object_defs)
next
  case (ClusterOrderListObject p)
  then show ?thesis
    using object_separate [where C = ClusterOrderListObject and V = ClusterOrderListValue,
        OF k_ClusterOrderList.block_kind_axioms ClusterOrderList_copier [OF mc lc], of mc lc h p v] v by (simp add: object_defs)
next
  case (ComputeInstanceObject p)
  then show ?thesis
    using object_separate [where C = ComputeInstanceObject and V = ComputeInstanceValue,
        OF k_ComputeInstance.block_kind_axioms ComputeInstance_copier [OF mc], of mc lc h p v] v by (simp add: object_defs)
next
  case (ComputeInstanceListObject p)
  then show ?thesis
    using object_separate [where C = ComputeInstanceListObject and V = ComputeInstanceListValue,
        OF k_ComputeInstanceList.block_kind_axioms ComputeInstanceList_copier [OF mc lc], of mc lc h p v] v by (simp add: object_defs)
next
  case (HostPoolObject p)
  then show ?thesis
    using object_separate [where C = HostPoolObject and V = HostPoolValue,
        OF k_HostPool.block_kind_axioms HostPool_copier [OF mc], of mc lc h p v] v by (simp add: object_defs)
next
  case (HostPoolListObject p)
  then show ?thesis
    using object_separate [where C = HostPoolListObject and V = HostPoolListValue,
        OF k_HostPoolList.block_kind_axioms HostPoolList_copier [OF mc lc], of mc lc h p v] v by (simp add: object_defs)
next
  case (TenantObject p)
  then show ?thesis
    using object_separate [where C = TenantObject and V = TenantValue,
        OF k_Tenant.block_kind_axioms Tenant_copier [OF mc], of mc lc h p v] v by (simp add: object_defs)
next
  case (TenantListObject p)
  then show ?thesis
    using object_separate [where C = TenantListObject and V = TenantListValue,
        OF k_TenantList.block_kind_axioms TenantList_copier [OF mc lc], of mc lc h p v] v by (simp add: object_defs)
qed

subsection \<open>An example\<close>

text \<open>A list of one compute instance, with a finalizer, an annotation and a job.\<close>

definition example_job :: job_status where
  "example_job = \<lparr>js_jobID = ''7'', js_type = JobTypeProvision, js_timestamp = 1,
     js_state = JobStateRunning, js_message = [], js_blockDeletionOnFailure = False\<rparr>"

definition example_h_instance :: h_compute_instance where
  "example_h_instance =
     \<lparr>hci_type = \<lparr>tm_kind = ''ComputeInstance'', tm_apiVersion = ''v1alpha1''\<rparr>,
      hci_meta = \<lparr>hm_name = ''vm'', hm_namespace = ''ns'', hm_labels = None, hm_annotations = Some (1, 0),
        hm_finalizers = Some \<lparr>sl_block = 2, sl_off = 0, sl_len = 1, sl_cap = 1\<rparr>,
        hm_deletionTimestamp = None, hm_generation = 1, hm_ownerReferences = None\<rparr>,
      hci_spec = \<lparr>hcsp_templateID = ''t'', hcsp_templateParameters = [], hcsp_restartRequestedAt = None\<rparr>,
      hci_status = \<lparr>hcs_phase = ComputeInstancePhaseStarting, hcs_conditions = None,
        hcs_virtualMachineReference = None, hcs_tenantReference = None, hcs_desiredConfigVersion = [],
        hcs_reconciledConfigVersion = [], hcs_lastRestartedAt = None,
        hcs_jobs = Some \<lparr>sl_block = 0, sl_off = 0, sl_len = 1, sl_cap = 2\<rparr>\<rparr>\<rparr>"

definition example_heap :: heap where
  "example_heap =
     [JobStatusBlock [Some example_job, None],
      StringMapBlock [Some [''a'' \<mapsto> ''b'']],
      StringBlock [Some ''f''],
      ComputeInstanceBlock [Some example_h_instance],
      ComputeInstanceListBlock
        [Some \<lparr>hlist_type = \<lparr>tm_kind = ''ComputeInstanceList'', tm_apiVersion = ''v1alpha1''\<rparr>,
               hlist_meta = \<lparr>hl_resourceVersion = ''5'', hl_continue = [], hl_remainingItemCount = None\<rparr>,
               hlist_items = Some \<lparr>sl_block = 3, sl_off = 0, sl_len = 1, sl_cap = 1\<rparr>\<rparr>]]"

definition example_instance :: compute_instance where
  "example_instance =
     \<lparr>ci_meta = \<lparr>om_name = ''vm'', om_namespace = ''ns'', om_labels = Map.empty,
        om_annotations = [''a'' \<mapsto> ''b''], om_finalizers = [''f''], om_deletionTimestamp = None,
        om_generation = 1\<rparr>,
      ci_spec = \<lparr>cisp_templateID = ''t'', cisp_templateParameters = [], cisp_restartRequestedAt = None\<rparr>,
      ci_status = \<lparr>cis_phase = ComputeInstancePhaseStarting, cis_conditions = [],
        cis_virtualMachineReference = None, cis_tenantReference = None, cis_desiredConfigVersion = [],
        cis_reconciledConfigVersion = [], cis_lastRestartedAt = None, cis_jobs = [example_job]\<rparr>\<rparr>"

lemmas memory_eval = cells_def load_def window_def elements_def read_pointer_def read_slice_def read_plain_def

lemma example_meta:
  "read_object_meta example_heap (hci_meta example_h_instance) = Some (ci_meta example_instance, [])"
  by (simp add: read_object_meta_def memory_eval example_heap_def example_h_instance_def example_instance_def
      map_of_pointer_def k_StringMap_def k_String_def)

lemma example_status:
  "read_ComputeInstanceStatus example_heap (hci_status example_h_instance) = Some (ci_status example_instance)"
  by (simp add: read_ComputeInstanceStatus_def memory_eval example_heap_def example_h_instance_def
      example_instance_def k_JobStatus_def)

lemma example_spec:
  "read_ComputeInstanceSpec example_heap (hci_spec example_h_instance) = Some (ci_spec example_instance)"
  by (simp add: read_ComputeInstanceSpec_def memory_eval example_h_instance_def example_instance_def)

lemma example_read:
  "read_object example_heap (ComputeInstanceListObject (Some (4, 0))) =
     Some (ComputeInstanceListValue
       (\<lparr>tm_kind = ''ComputeInstanceList'', tm_apiVersion = ''v1alpha1''\<rparr>, (''5'', [], None),
        [((\<lparr>tm_kind = ''ComputeInstance'', tm_apiVersion = ''v1alpha1''\<rparr>, []), example_instance)]))"
proof -
  have "read_ComputeInstance example_heap example_h_instance =
      Some ((\<lparr>tm_kind = ''ComputeInstance'', tm_apiVersion = ''v1alpha1''\<rparr>, []), example_instance)"
    unfolding read_ComputeInstance_def example_meta example_spec example_status
    by (simp add: example_h_instance_def)
  moreover have "load k_ComputeInstanceList example_heap (4, 0) =
      Some \<lparr>hlist_type = \<lparr>tm_kind = ''ComputeInstanceList'', tm_apiVersion = ''v1alpha1''\<rparr>,
            hlist_meta = \<lparr>hl_resourceVersion = ''5'', hl_continue = [], hl_remainingItemCount = None\<rparr>,
            hlist_items = Some \<lparr>sl_block = 3, sl_off = 0, sl_len = 1, sl_cap = 1\<rparr>\<rparr>"
    and "elements k_ComputeInstance example_heap (Some \<lparr>sl_block = 3, sl_off = 0, sl_len = 1, sl_cap = 1\<rparr>) =
      Some [example_h_instance]"
    by (simp_all add: memory_eval example_heap_def k_ComputeInstanceList_def k_ComputeInstance_def)
  ultimately show ?thesis
    by (simp add: read_object_def read_list_def read_list_meta_def read_slice_def read_pointer_def)
qed

lemma deep_copy_object_separate_witness:
  "\<exists>h' ob'. DeepCopyObject ObjectMeta_copy ListMeta_copy example_heap (ComputeInstanceListObject (Some (4, 0))) =
      Some (h', Some ob') \<and> grows example_heap h' \<and>
    read_object h' ob' = read_object example_heap (ComputeInstanceListObject (Some (4, 0))) \<and>
    read_object example_heap (ComputeInstanceListObject (Some (4, 0))) \<noteq> None"
  using deep_copy_object_separate [OF ObjectMeta_copy_deep ListMeta_copy_deep example_read]
  unfolding example_read by (auto simp: kept_def)

end
