(* ===== verification/Go_Writes.thy ===== *)
theory Go_Writes
  imports Go_Memory
begin

text \<open>
  Writing to Go's memory in place: an element of a slice, \<open>append\<close>, a slice expression, a
  field behind a pointer, and the search loops that return a pointer into a slice. \<open>writes\<close>
  bounds what such an operation changes: blocks of one kind, among those given, and blocks
  allocated since. A value that reaches none of them reads as before.
\<close>

section \<open>What a write changes\<close>

definition writes :: "('a, 'b) kind \<Rightarrow> nat list \<Rightarrow> 'b list \<Rightarrow> 'b list \<Rightarrow> bool" where
  "writes k bs h h' \<longleftrightarrow>
     length h \<le> length h' \<and>
     (\<forall>a < length h. h' ! a = h ! a \<or> (a \<in> set bs \<and> cells k h a \<noteq> None \<and> cells k h' a \<noteq> None))"

definition kinds_disjoint :: "('a, 'b) kind \<Rightarrow> ('c, 'b) kind \<Rightarrow> bool" where
  "kinds_disjoint k k' \<longleftrightarrow> (\<forall>b. cells_of k b = None \<or> cells_of k' b = None)"

lemma writes_grows: "grows h h' \<Longrightarrow> writes k bs h h'"
  by (simp add: writes_def grows_iff)

lemma writes_refl [simp]: "writes k bs h h"
  by (simp add: writes_def)

lemma writes_mono: "writes k bs h h' \<Longrightarrow> set bs \<subseteq> set cs \<Longrightarrow> writes k cs h h'"
  unfolding writes_def by blast

lemma writes_update:
  assumes "cells k h b = Some ys" "cells k (h[b := z]) b = Some zs"
  shows "writes k [b] h (h[b := z])"
  unfolding writes_def
proof (intro conjI allI impI)
  fix a assume "a < length h"
  show "h[b := z] ! a = h ! a \<or> (a \<in> set [b] \<and> cells k h a \<noteq> None \<and> cells k (h[b := z]) a \<noteq> None)"
    using assms by (cases "a = b") auto
qed simp

lemma cells_writes_other:
  assumes "writes k bs h h'" "kinds_disjoint k k'" "a < length h"
  shows "cells k' h' a = cells k' h a"
proof (cases "h' ! a = h ! a")
  case False
  then have "cells k h a \<noteq> None" "cells k h' a \<noteq> None" using assms(1,3) by (auto simp: writes_def)
  then have "cells k' h a = None" "cells k' h' a = None"
    using assms(2) [unfolded kinds_disjoint_def, THEN spec, of "h ! a"]
      assms(2) [unfolded kinds_disjoint_def, THEN spec, of "h' ! a"]
    by (auto simp: cells_def split: if_splits)
  then show ?thesis by simp
next
  case True
  moreover have "a < length h'" using assms(1,3) by (simp add: writes_def)
  ultimately show ?thesis using assms(3) by (simp add: cells_def)
qed

lemma writes_same_on:
  assumes "writes k bs h h'" "\<And>a. a \<in> set as \<Longrightarrow> a < length h \<and> a \<notin> set bs"
  shows "same_on as h h'"
  unfolding same_on_def
proof
  fix a assume "a \<in> set as"
  then have "a < length h" "a \<notin> set bs" using assms(2) by auto
  then show "a < length h' \<and> h' ! a = h ! a" using assms(1) by (auto simp: writes_def)
qed

text \<open>Slices and pointers of plain elements: what they reach, and when they read as before.\<close>

definition slice_block :: "slice option \<Rightarrow> nat list" where
  "slice_block so = (case so of None \<Rightarrow> [] | Some s \<Rightarrow> [sl_block s])"

definition pointer_block :: "pointer option \<Rightarrow> nat list" where
  "pointer_block po = (case po of None \<Rightarrow> [] | Some p \<Rightarrow> [fst p])"

lemma block_simps [simp]:
  "slice_block None = []" "slice_block (Some s) = [sl_block s]"
  "pointer_block None = []" "pointer_block (Some p) = [fst p]"
  by (simp_all add: slice_block_def pointer_block_def)

lemma reach_plain_blocks [simp]:
  "reach_slice k reach_plain h so = slice_block so"
  "reach_pointer k reach_plain h po = pointer_block po"
  by (auto simp: reach_slice_def slice_block_def reach_pointer_def pointer_block_def reach_plain_def
      split: option.split)

lemma read_plain_slice: "read_slice k read_plain h so = elements k h so"
  by (cases "elements k h so") (simp_all add: read_slice_def read_plain_def [abs_def] those_eq_Some_conv)

lemma read_plain_pointer:
  "read_pointer k read_plain h po = (case po of None \<Rightarrow> Some None | Some p \<Rightarrow> map_option Some (load k h p))"
  by (auto simp: read_pointer_def read_plain_def [abs_def] split: option.split)

lemma elements_cells: "cells k h' (sl_block s) = cells k h (sl_block s) \<Longrightarrow> elements k h' (Some s) = elements k h (Some s)"
  by (simp add: elements_def window_def)

lemma load_cells: "cells k h' (fst p) = cells k h (fst p) \<Longrightarrow> load k h' p = load k h p"
  by (simp add: load_def)

lemma elements_writes_other:
  assumes "writes k bs h h'" "kinds_disjoint k k'" "elements k' h so = Some xs"
  shows "elements k' h' so = Some xs"
proof (cases so)
  case (Some s)
  then have "elements k' h (Some s) = Some xs" using assms(3) by simp
  then show ?thesis
    using Some elements_cells [OF cells_writes_other [OF assms(1,2)]] elements_SomeD(1) by metis
qed (use assms(3) in \<open>simp add: elements_def\<close>)

lemma read_pointer_writes_other:
  assumes "writes k bs h h'" "kinds_disjoint k k'" "read_pointer k' read_plain h po = Some v"
  shows "read_pointer k' read_plain h' po = Some v"
proof (cases po)
  case (Some p)
  with assms(3) obtain x where x: "load k' h p = Some x" "v = Some x" by (auto simp: read_plain_pointer)
  then have "load k' h' p = Some x"
    using load_cells [OF cells_writes_other [OF assms(1,2) load_SomeD [OF x(1)]]] by simp
  with x Some show ?thesis by (simp add: read_plain_pointer)
qed (use assms(3) in \<open>simp add: read_plain_pointer\<close>)

section \<open>Writing an element of a slice\<close>

lemma store_element:
  assumes k: "block_kind k" and xs: "elements k h (Some s) = Some xs" and i: "i < length xs"
  shows "\<exists>h'. store k h (slice_at s i) x = Some h' \<and> elements k h' (Some s) = Some (xs[i := x]) \<and>
    writes k [sl_block s] h h'"
proof -
  have len: "length xs = sl_len s" using elements_SomeD(2) [OF xs] .
  obtain ys where ys: "cells k h (sl_block s) = Some ys" "sl_len s \<le> sl_cap s"
      "sl_off s + sl_cap s \<le> length ys" "map Some xs = take (sl_len s) (drop (sl_off s) ys)"
    using xs by (auto simp: elements_eq_Some dest!: window_SomeD)
  let ?h = "h[sl_block s := block_of k (ys[sl_off s + i := Some x])]"
  have "sl_off s + i < length ys" using ys(2,3) i len by simp
  note st = block_kind.store_cells [OF k ys(1) this, of x]
  have "take (sl_len s) (drop (sl_off s) (ys[sl_off s + i := Some x])) = (map Some xs)[i := Some x]"
    using i len by (simp add: ys(4) drop_update_swap take_update_swap)
  then have "elements k ?h (Some s) = Some (xs[i := x])"
    using st(2) ys(2,3) by (simp add: elements_eq_Some window_def map_update)
  moreover have "writes k [sl_block s] h ?h"
    using ys(1) st(2) by (rule writes_update)
  ultimately show ?thesis using st(1) by (auto simp: slice_at_def)
qed

lemma append_slice_reads:
  assumes k: "block_kind k" and xs: "elements k h so = Some xs"
  shows "\<exists>h' s'. append_slice grow k h so x = Some (h', s') \<and> elements k h' (Some s') = Some (xs @ [x]) \<and>
    writes k (slice_block so) h h' \<and> (sl_block s' \<in> set (slice_block so) \<or> length h \<le> sl_block s')"
proof (cases so)
  case None
  let ?c = "max 1 (grow 0)"
  have "window k (h @ [block_of k (Some x # replicate (?c - 1) None)])
      \<lparr>sl_block = length h, sl_off = 0, sl_len = 1, sl_cap = ?c\<rparr> = Some [Some x]"
    by (simp add: window_def block_kind.cells_new [OF k])
  then show ?thesis
    using None xs by (auto simp: append_slice_def Let_def elements_def intro: writes_grows)
next
  case (Some s)
  have el: "elements k h (Some s) = Some xs" using xs Some by simp
  have len: "length xs = sl_len s" using elements_SomeD(2) [OF el] .
  obtain ys where ys: "cells k h (sl_block s) = Some ys" "sl_len s \<le> sl_cap s"
      "sl_off s + sl_cap s \<le> length ys" "map Some xs = take (sl_len s) (drop (sl_off s) ys)"
    using el by (auto simp: elements_eq_Some dest!: window_SomeD)
  show ?thesis
  proof (cases "sl_len s < sl_cap s")
    case True
    let ?s = "s\<lparr>sl_len := Suc (sl_len s)\<rparr>"
    let ?i = "sl_off s + sl_len s"
    let ?h = "h[sl_block s := block_of k (ys[?i := Some x])]"
    have i: "?i < length ys" using True ys(3) by simp
    note st = block_kind.store_cells [OF k ys(1) i, of x]
    have "take (Suc (sl_len s)) (drop (sl_off s) (ys[?i := Some x])) = map Some xs @ [Some x]"
      using i len by (simp add: take_Suc_conv_app_nth drop_update_swap take_update_swap ys(4)
          list_update_append)
    then have "elements k ?h (Some ?s) = Some (xs @ [x])"
      using st(2) True ys(3) by (simp add: elements_eq_Some window_def)
    moreover have "writes k [sl_block s] h ?h"
      using ys(1) st(2) by (rule writes_update)
    ultimately show ?thesis using Some True st(1) by (simp add: append_slice_def slice_at_def)
  next
    case False
    let ?c = "max (Suc (sl_len s)) (grow (sl_cap s))"
    have "window k h s = Some (map Some xs)" using el by (simp add: elements_eq_Some)
    moreover have "window k (h @ [block_of k (map Some xs @ Some x # replicate (?c - Suc (sl_len s)) None)])
        \<lparr>sl_block = length h, sl_off = 0, sl_len = Suc (sl_len s), sl_cap = ?c\<rparr> = Some (map Some xs @ [Some x])"
      using len by (simp add: window_def block_kind.cells_new [OF k])
    ultimately show ?thesis
      using Some False by (auto simp: append_slice_def Let_def elements_eq_Some intro: writes_grows)
  qed
qed

lemma reslice_reads:
  assumes "elements k h (Some s) = Some xs" "n \<le> length xs"
  shows "\<exists>s'. reslice s n = Some s' \<and> elements k h (Some s') = Some (drop n xs) \<and> sl_block s' = sl_block s"
proof -
  have len: "length xs = sl_len s" using elements_SomeD(2) [OF assms(1)] .
  obtain ys where ys: "cells k h (sl_block s) = Some ys" "sl_len s \<le> sl_cap s"
      "sl_off s + sl_cap s \<le> length ys" "map Some xs = take (sl_len s) (drop (sl_off s) ys)"
    using assms(1) by (auto simp: elements_eq_Some dest!: window_SomeD)
  have "take (sl_len s - n) (drop (sl_off s + n) ys) = drop n (map Some xs)"
    unfolding ys(4) by (simp add: drop_take add.commute)
  then show ?thesis
    using assms(2) len ys(1,2,3) by (simp add: reslice_def elements_eq_Some window_def drop_map)
qed

section \<open>A search that returns a pointer into the slice\<close>

fun find_at :: "('a, 'b) kind \<Rightarrow> ('a \<Rightarrow> bool) \<Rightarrow> 'b list \<Rightarrow> slice \<Rightarrow> nat \<Rightarrow> nat \<Rightarrow> pointer option option" where
  "find_at k P h s i 0 = Some None"
| "find_at k P h s i (Suc n) = do {
     x \<leftarrow> load k h (slice_at s i);
     if P x then Some (Some (slice_at s i)) else find_at k P h s (Suc i) n }"

lemma find_at_first:
  assumes xs: "elements k h (Some s) = Some xs" and n: "i + n = length xs"
  shows "find_at k P h s i n =
    Some (if \<exists>x \<in> set (drop i xs). P x
          then Some (slice_at s (i + length (takeWhile (\<lambda>x. \<not> P x) (drop i xs)))) else None)"
  using n
proof (induction n arbitrary: i)
  case (Suc n)
  then have i: "i < length xs" by simp
  then have d: "drop i xs = xs ! i # drop (Suc i) xs" by (simp add: Cons_nth_drop_Suc)
  have "load k h (slice_at s i) = Some (xs ! i)"
    using elements_SomeD(2,3) [OF xs] i by simp
  then show ?case using Suc by (simp add: d)
qed simp

lemma replace_first_takeWhile:
  "\<exists>x \<in> set xs. P x \<Longrightarrow> xs[length (takeWhile (\<lambda>x. \<not> P x) xs) := y] = replace_first P y xs"
  by (induction xs) auto

lemma takeWhile_not_less: "\<exists>x \<in> set xs. P x \<Longrightarrow> length (takeWhile (\<lambda>x. \<not> P x) xs) < length xs"
  by (induction xs) auto

text \<open>\<open>for i := range s { if P(s[i]) { return &s[i] } }; return nil\<close>; a nil slice has no element.\<close>

definition find_in :: "('a, 'b) kind \<Rightarrow> ('a \<Rightarrow> bool) \<Rightarrow> 'b list \<Rightarrow> slice option \<Rightarrow> pointer option option" where
  "find_in k P h so = (case so of None \<Rightarrow> Some None | Some s \<Rightarrow> find_at k P h s 0 (sl_len s))"

lemma find_in_None:
  assumes "elements k h so = Some xs" "first_such P xs = None"
  shows "find_in k P h so = Some None"
proof (cases so)
  case (Some s)
  with assms(1) have xs: "elements k h (Some s) = Some xs" by simp
  show ?thesis
    using find_at_first [OF xs, of 0 "sl_len s" P] elements_SomeD(2) [OF xs] assms(2) Some
    by (simp add: find_in_def first_such_None_iff)
qed (simp add: find_in_def)

lemma first_such_takeWhile:
  "\<exists>x \<in> set xs. P x \<Longrightarrow> first_such P xs = Some (xs ! length (takeWhile (\<lambda>x. \<not> P x) xs))"
  by (induction xs) auto

text \<open>The pointer found is to the first such element, and writing through it replaces that element.\<close>

lemma find_in_Some:
  assumes k: "block_kind k" and el: "elements k h so = Some xs" and x: "first_such P xs = Some x"
  shows "\<exists>p. find_in k P h so = Some (Some p) \<and> load k h p = Some x \<and>
    (\<forall>y. \<exists>h'. store k h p y = Some h' \<and> elements k h' so = Some (replace_first P y xs) \<and>
      writes k (slice_block so) h h')"
proof (cases so)
  case (Some s)
  let ?n = "length (takeWhile (\<lambda>x. \<not> P x) xs)"
  have xs: "elements k h (Some s) = Some xs" using el Some by simp
  have ex: "\<exists>x \<in> set xs. P x" using first_such_SomeD [OF x] by blast
  have n: "?n < length xs" by (rule takeWhile_not_less [OF ex])
  have "find_in k P h so = Some (Some (slice_at s ?n))"
    using find_at_first [OF xs, of 0 "sl_len s" P] elements_SomeD(2) [OF xs] ex Some
    by (simp add: find_in_def)
  moreover have "load k h (slice_at s ?n) = Some x"
    using elements_SomeD(2,3) [OF xs] n first_such_takeWhile [OF ex] x by simp
  ultimately show ?thesis
    using store_element [OF k xs n] replace_first_takeWhile [OF ex] Some by auto
qed (use el x in \<open>simp add: elements_def\<close>)

section \<open>A field behind a pointer\<close>

text \<open>
  \<open>if p == nil { p = &T{} }; p.f = v\<close>: the object is allocated when there is none, and then
  updated in place.
\<close>

definition set_behind ::
    "('a, 'b) kind \<Rightarrow> 'a \<Rightarrow> ('a \<Rightarrow> 'a) \<Rightarrow> 'b list \<Rightarrow> pointer option \<Rightarrow> ('b list \<times> pointer) option" where
  "set_behind k zero f h po = do {
     let (h, p) = (case po of None \<Rightarrow> new_object k h zero | Some p \<Rightarrow> (h, p));
     x \<leftarrow> load k h p;
     h \<leftarrow> store k h p (f x);
     Some (h, p) }"

lemma store_object:
  assumes k: "block_kind k" and x: "load k h p = Some x"
  shows "\<exists>h'. store k h p y = Some h' \<and> load k h' p = Some y \<and> writes k [fst p] h h'"
proof -
  obtain xs where xs: "cells k h (fst p) = Some xs" "snd p < length xs"
    using x by (auto simp: load_def split: option.splits if_splits)
  note st = block_kind.store_cells [OF k xs, of y]
  let ?h = "h[fst p := block_of k (xs[snd p := Some y])]"
  have "load k ?h p = Some y" using st(2) xs(2) by (simp add: load_def)
  moreover have "writes k [fst p] h ?h" using xs(1) st(2) by (rule writes_update)
  ultimately show ?thesis using st(1) by auto
qed

lemma set_behind_reads:
  assumes k: "block_kind k" and v: "read_pointer k read_plain h po = Some v"
  shows "\<exists>h' p. set_behind k zero f h po = Some (h', p) \<and>
    read_pointer k read_plain h' (Some p) = Some (Some (f (case v of None \<Rightarrow> zero | Some x \<Rightarrow> x))) \<and>
    writes k (pointer_block po) h h' \<and> (fst p \<in> set (pointer_block po) \<or> length h \<le> fst p)"
proof (cases po)
  case None
  let ?h = "h @ [block_of k [Some zero]]"
  have ld: "load k ?h (length h, 0) = Some zero" by (rule block_kind.load_new [OF k])
  obtain h' where h': "store k ?h (length h, 0) (f zero) = Some h'" "load k h' (length h, 0) = Some (f zero)"
      "writes k [length h] ?h h'"
    using store_object [OF k ld] by auto
  have "writes k [] h h'"
    unfolding writes_def
  proof (intro conjI allI impI)
    show "length h \<le> length h'" using h'(3) by (simp add: writes_def)
    fix a assume "a < length h"
    then show "h' ! a = h ! a \<or> (a \<in> set [] \<and> cells k h a \<noteq> None \<and> cells k h' a \<noteq> None)"
      using h'(3) by (auto simp: writes_def nth_append dest!: spec [of _ a])
  qed
  then show ?thesis
    using None v ld h' by (simp add: set_behind_def new_object_def read_plain_pointer)
next
  case (Some p)
  with v obtain x where x: "load k h p = Some x" "v = Some x" by (auto simp: read_plain_pointer)
  then show ?thesis
    using store_object [OF k x(1), of "f x"] Some
    by (cases p) (auto simp: set_behind_def read_plain_pointer)
qed

end
