(* ===== verification/CI_Status_Memory.thy ===== *)
theory CI_Status_Memory
  imports Deep_Copy Go_Writes CI_Provisioning
begin

text \<open>
  The status of a compute instance as the reconciler changes it in memory: \<open>findJobByID\<close> and
  \<open>FindLatestJobByType\<close> return pointers into \<open>Status.Jobs\<close>, \<open>updateJob\<close> writes through one,
  \<open>appendJob\<close> appends within the capacity of the slice, the reference setters write behind a
  pointer. The lemmas show that each does on the memory what its counterpart on values does
  (\<open>CI_Provisioning\<close>, \<open>Compute_Instance_Types\<close>), and that the snapshot \<open>oldstatus\<close> which
  \<open>Reconcile\<close> takes with \<open>instance.Status.DeepCopy()\<close> is not touched by any sequence of them.
\<close>

section \<open>The job slice\<close>

definition memory_findJobByID :: "heap \<Rightarrow> slice option \<Rightarrow> string \<Rightarrow> pointer option option" where
  "memory_findJobByID h jobs jobID =
     find_in k_JobStatus (\<lambda>j. js_jobID j = jobID) h jobs"

definition memory_updateJob :: "heap \<Rightarrow> slice option \<Rightarrow> job_status \<Rightarrow> (heap \<times> bool) option" where
  "memory_updateJob h jobs updatedJob = do {
     job \<leftarrow> memory_findJobByID h jobs (js_jobID updatedJob);
     case job of
       None \<Rightarrow> Some (h, False)
     | Some p \<Rightarrow> do { h \<leftarrow> store k_JobStatus h p updatedJob; Some (h, True) } }"

text \<open>A limit that is negative makes the slice expression panic.\<close>

definition memory_appendJob ::
    "(nat \<Rightarrow> nat) \<Rightarrow> compute_instance_reconciler \<Rightarrow> heap \<Rightarrow> slice option \<Rightarrow> job_status \<Rightarrow> (heap \<times> slice) option" where
  "memory_appendJob grow r h jobs newJob = do {
     (h, jobs) \<leftarrow> append_slice grow k_JobStatus h jobs newJob;
     if int (sl_len jobs) > cir_maxJobHistory r
     then do {
       jobs \<leftarrow> reslice jobs (nat (int (sl_len jobs) - cir_maxJobHistory r));
       Some (h, jobs) }
     else Some (h, jobs) }"

text \<open>The loop of \<open>FindLatestJobByType\<close>, with the pointer found so far.\<close>

fun memory_latest_loop ::
    "job_type \<Rightarrow> heap \<Rightarrow> slice \<Rightarrow> pointer option \<Rightarrow> nat \<Rightarrow> nat \<Rightarrow> pointer option option" where
  "memory_latest_loop t h s latest i 0 = Some latest"
| "memory_latest_loop t h s latest i (Suc n) = do {
     j \<leftarrow> load k_JobStatus h (slice_at s i);
     latest \<leftarrow>
       (if js_type j = t
        then (case latest of None \<Rightarrow> Some (Some (slice_at s i))
              | Some p \<Rightarrow> do {
                  l \<leftarrow> load k_JobStatus h p;
                  Some (if js_timestamp l < js_timestamp j then Some (slice_at s i) else latest) })
        else Some latest);
     memory_latest_loop t h s latest (Suc i) n }"

definition memory_findLatestJobByType :: "heap \<Rightarrow> slice option \<Rightarrow> job_type \<Rightarrow> pointer option option" where
  "memory_findLatestJobByType h jobs t =
     (case jobs of None \<Rightarrow> Some None | Some s \<Rightarrow> memory_latest_loop t h s None 0 (sl_len s))"

lemma memory_findJobByID_reads:
  assumes "elements k_JobStatus h jobs = Some js"
  shows "\<exists>po. memory_findJobByID h jobs i = Some po \<and>
    read_pointer k_JobStatus read_plain h po = Some (findJobByID js i)"
proof (cases "findJobByID js i")
  case None
  then show ?thesis
    using find_in_None [OF assms] by (simp add: memory_findJobByID_def findJobByID_def read_plain_pointer)
next
  case (Some j)
  then obtain p where "memory_findJobByID h jobs i = Some (Some p)" "load k_JobStatus h p = Some j"
    using find_in_Some [OF k_JobStatus.block_kind_axioms assms] unfolding memory_findJobByID_def findJobByID_def
    by blast
  then show ?thesis using Some by (simp add: read_plain_pointer)
qed

lemma memory_updateJob_reads:
  assumes "elements k_JobStatus h jobs = Some js"
  shows "\<exists>h'. memory_updateJob h jobs u = Some (h', fst (updateJob js u)) \<and>
    elements k_JobStatus h' jobs = Some (snd (updateJob js u)) \<and> writes k_JobStatus (slice_block jobs) h h'"
proof (cases "findJobByID js (js_jobID u)")
  case None
  then show ?thesis
    using find_in_None [OF assms] assms
    by (simp add: memory_updateJob_def memory_findJobByID_def updateJob_def findJobByID_def)
next
  case (Some j)
  let ?P = "\<lambda>j. js_jobID j = js_jobID u"
  obtain p h' where "find_in k_JobStatus ?P h jobs = Some (Some p)" "store k_JobStatus h p u = Some h'"
      "elements k_JobStatus h' jobs = Some (replace_first ?P u js)" "writes k_JobStatus (slice_block jobs) h h'"
    using find_in_Some [OF k_JobStatus.block_kind_axioms assms] Some unfolding findJobByID_def by blast
  then show ?thesis using Some by (simp add: memory_updateJob_def memory_findJobByID_def updateJob_def)
qed

lemma memory_appendJob_reads:
  assumes js: "elements k_JobStatus h jobs = Some js" and limit: "1 \<le> cir_maxJobHistory r"
  shows "\<exists>h' s'. memory_appendJob grow r h jobs j = Some (h', s') \<and>
    elements k_JobStatus h' (Some s') = Some (appendJob r js j) \<and> writes k_JobStatus (slice_block jobs) h h' \<and>
    (sl_block s' \<in> set (slice_block jobs) \<or> length h \<le> sl_block s')"
proof -
  obtain h1 s1 where 1: "append_slice grow k_JobStatus h jobs j = Some (h1, s1)"
      "elements k_JobStatus h1 (Some s1) = Some (js @ [j])" "writes k_JobStatus (slice_block jobs) h h1"
      "sl_block s1 \<in> set (slice_block jobs) \<or> length h \<le> sl_block s1"
    using append_slice_reads [OF k_JobStatus.block_kind_axioms js] by blast
  have len: "sl_len s1 = length (js @ [j])" using elements_SomeD(2) [OF 1(2)] by simp
  let ?n = "nat (int (length (js @ [j])) - cir_maxJobHistory r)"
  show ?thesis
  proof (cases "int (length (js @ [j])) > cir_maxJobHistory r")
    case True
    have "?n \<le> length (js @ [j])" using limit by simp
    then obtain s2 where "reslice s1 ?n = Some s2" "elements k_JobStatus h1 (Some s2) = Some (drop ?n (js @ [j]))"
        "sl_block s2 = sl_block s1"
      using reslice_reads [OF 1(2)] by blast
    then show ?thesis using 1 len True by (simp add: memory_appendJob_def appendJob_def Let_def)
  qed (use 1 len in \<open>simp add: memory_appendJob_def appendJob_def Let_def\<close>)
qed

lemma memory_latest_loop_reads:
  assumes js: "elements k_JobStatus h (Some s) = Some js" and n: "i + n = length js"
    and l: "read_pointer k_JobStatus read_plain h po = Some l"
  shows "\<exists>po'. memory_latest_loop t h s po i n = Some po' \<and>
    read_pointer k_JobStatus read_plain h po' = Some (find_latest_loop t l (drop i js))"
  using n l
proof (induction n arbitrary: i po l)
  case (Suc n)
  then have i: "i < length js" by simp
  have d: "drop i js = js ! i # drop (Suc i) js" using i by (simp add: Cons_nth_drop_Suc)
  have ld: "load k_JobStatus h (slice_at s i) = Some (js ! i)"
    using elements_SomeD(2,3) [OF js] i by simp
  have "\<exists>po1 l1. memory_latest_loop t h s po i (Suc n) = memory_latest_loop t h s po1 (Suc i) n \<and>
      read_pointer k_JobStatus read_plain h po1 = Some l1 \<and>
      find_latest_loop t l (drop i js) = find_latest_loop t l1 (drop (Suc i) js)"
  proof (cases "js_type (js ! i) = t \<and> (\<forall>p. po = Some p \<longrightarrow> js_timestamp (the l) < js_timestamp (js ! i))")
    case True
    then have "memory_latest_loop t h s po i (Suc n) = memory_latest_loop t h s (Some (slice_at s i)) (Suc i) n"
      "find_latest_loop t l (drop i js) = find_latest_loop t (Some (js ! i)) (drop (Suc i) js)"
      using Suc.prems(2) ld d by (auto simp: read_plain_pointer split: option.splits)
    moreover have "read_pointer k_JobStatus read_plain h (Some (slice_at s i)) = Some (Some (js ! i))"
      using ld by (simp add: read_plain_pointer)
    ultimately show ?thesis by blast
  next
    case False
    then have "memory_latest_loop t h s po i (Suc n) = memory_latest_loop t h s po (Suc i) n"
      "find_latest_loop t l (drop i js) = find_latest_loop t l (drop (Suc i) js)"
      using Suc.prems(2) ld d by (auto simp: read_plain_pointer split: option.splits)
    then show ?thesis using Suc.prems(2) by blast
  qed
  then show ?case using Suc.IH [of "Suc i"] Suc.prems(1) by auto
qed simp

lemma memory_findLatestJobByType_reads:
  assumes "elements k_JobStatus h jobs = Some js"
  shows "\<exists>po. memory_findLatestJobByType h jobs t = Some po \<and>
    read_pointer k_JobStatus read_plain h po = Some (findLatestJobByType js t)"
proof (cases jobs)
  case (Some s)
  with assms have js: "elements k_JobStatus h (Some s) = Some js" by simp
  show ?thesis
    using memory_latest_loop_reads [OF js, of 0 "sl_len s" None None t] elements_SomeD(2) [OF js] Some
    by (simp add: memory_findLatestJobByType_def findLatestJobByType_def read_plain_pointer)
qed (use assms in \<open>simp add: memory_findLatestJobByType_def findLatestJobByType_def elements_def read_plain_pointer\<close>)

section \<open>The conditions\<close>

text \<open>
  \<open>meta.SetStatusCondition\<close> and \<open>meta.RemoveStatusCondition\<close> are given the slice by address. What
  the reconciler relies on: they read the conditions it shows, leave it showing others (\<open>F\<close>), and
  write to no other memory that existed. \<open>HostPool.SetCondition\<close> is such an operation.
\<close>

type_synonym condition_op = "heap \<Rightarrow> slice option \<Rightarrow> (heap \<times> slice option) option"

definition lawful_op :: "condition_op \<Rightarrow> (condition list \<Rightarrow> condition list) \<Rightarrow> bool" where
  "lawful_op f F \<longleftrightarrow>
     (\<forall>h s cs. elements k_Condition h s = Some cs \<longrightarrow>
       (\<exists>h' s'. f h s = Some (h', s') \<and> elements k_Condition h' s' = Some (F cs) \<and>
         writes k_Condition (slice_block s) h h' \<and>
         (\<forall>b \<in> set (slice_block s'). b \<in> set (slice_block s) \<or> length h \<le> b)))"

text \<open>The clock is read for the new condition (\<open>t0\<close>) and again when the status changes (\<open>t1\<close>).\<close>

definition memory_SetCondition ::
    "(nat \<Rightarrow> nat) \<Rightarrow> string \<Rightarrow> cond_status \<Rightarrow> string \<Rightarrow> string \<Rightarrow> time \<Rightarrow> time \<Rightarrow> condition_op" where
  "memory_SetCondition grow t s reason msg t0 t1 h conds = do {
     let c = (mk_condition t s reason msg)\<lparr>c_lastTransitionTime := t0\<rparr>;
     existing \<leftarrow> find_in k_Condition (\<lambda>d. c_type d = t) h conds;
     case existing of
       Some p \<Rightarrow> do {
         old \<leftarrow> load k_Condition h p;
         let c = c\<lparr>c_lastTransitionTime := (if c_status old \<noteq> s then t1 else c_lastTransitionTime old)\<rparr>;
         h \<leftarrow> store k_Condition h p c;
         Some (h, conds) }
     | None \<Rightarrow> do {
         (h, conds) \<leftarrow> append_slice grow k_Condition h conds c;
         Some (h, Some conds) } }"

definition put_condition ::
    "string \<Rightarrow> cond_status \<Rightarrow> string \<Rightarrow> string \<Rightarrow> time \<Rightarrow> time \<Rightarrow> condition list \<Rightarrow> condition list" where
  "put_condition t s reason msg t0 t1 cs =
     (let c = (mk_condition t s reason msg)\<lparr>c_lastTransitionTime := t0\<rparr>
      in case first_such (\<lambda>d. c_type d = t) cs of
           None \<Rightarrow> cs @ [c]
         | Some old \<Rightarrow> replace_first (\<lambda>d. c_type d = t)
             (c\<lparr>c_lastTransitionTime := (if c_status old \<noteq> s then t1 else c_lastTransitionTime old)\<rparr>) cs)"

lemma memory_SetCondition_lawful:
  "lawful_op (memory_SetCondition grow t s reason msg t0 t1) (put_condition t s reason msg t0 t1)"
  unfolding lawful_op_def
proof (intro allI impI)
  fix h so cs assume cs: "elements k_Condition h so = Some cs"
  let ?P = "\<lambda>d. c_type d = t"
  let ?f = "memory_SetCondition grow t s reason msg t0 t1"
  let ?c = "(mk_condition t s reason msg)\<lparr>c_lastTransitionTime := t0\<rparr>"
  show "\<exists>h' s'. ?f h so = Some (h', s') \<and>
      elements k_Condition h' s' = Some (put_condition t s reason msg t0 t1 cs) \<and>
      writes k_Condition (slice_block so) h h' \<and> (\<forall>b \<in> set (slice_block s'). b \<in> set (slice_block so) \<or> length h \<le> b)"
  proof (cases "first_such ?P cs")
    case None
    obtain h' s' where "append_slice grow k_Condition h so ?c = Some (h', s')"
        "elements k_Condition h' (Some s') = Some (cs @ [?c])" "writes k_Condition (slice_block so) h h'"
        "sl_block s' \<in> set (slice_block so) \<or> length h \<le> sl_block s'"
      using append_slice_reads [OF k_Condition.block_kind_axioms cs] by blast
    then show ?thesis
      using find_in_None [OF cs None] None
      by (intro exI [of _ h'] exI [of _ "Some s'"]) (simp add: memory_SetCondition_def put_condition_def)
  next
    case (Some old)
    let ?d = "?c\<lparr>c_lastTransitionTime := (if c_status old \<noteq> s then t1 else c_lastTransitionTime old)\<rparr>"
    obtain p h' where "find_in k_Condition ?P h so = Some (Some p)" "load k_Condition h p = Some old"
        "store k_Condition h p ?d = Some h'" "elements k_Condition h' so = Some (replace_first ?P ?d cs)"
        "writes k_Condition (slice_block so) h h'"
      using find_in_Some [OF k_Condition.block_kind_axioms cs Some] by blast
    then show ?thesis
      using Some by (intro exI [of _ h'] exI [of _ so]) (simp add: memory_SetCondition_def put_condition_def Let_def)
  qed
qed

section \<open>The references\<close>

text \<open>\<open>Ensure...Reference\<close> and the assignment behind the pointer.\<close>

abbreviation zero_vm_reference :: virtual_machine_reference where
  "zero_vm_reference \<equiv> \<lparr>vmr_namespace = [], vmr_kubeVirtVirtualMachineName = []\<rparr>"

abbreviation zero_tenant_reference :: tenant_reference where
  "zero_tenant_reference \<equiv> \<lparr>tr_name = [], tr_namespace = []\<rparr>"

type_synonym status_op = "heap \<Rightarrow> h_compute_instance_status \<Rightarrow> (heap \<times> h_compute_instance_status) option"

definition memory_set_vm :: "(virtual_machine_reference \<Rightarrow> virtual_machine_reference) \<Rightarrow> status_op" where
  "memory_set_vm f h st = do {
     (h, p) \<leftarrow> set_behind k_VirtualMachineReferenceType zero_vm_reference f h (hcs_virtualMachineReference st);
     Some (h, st\<lparr>hcs_virtualMachineReference := Some p\<rparr>) }"

definition memory_set_tenant :: "(tenant_reference \<Rightarrow> tenant_reference) \<Rightarrow> status_op" where
  "memory_set_tenant f h st = do {
     (h, p) \<leftarrow> set_behind k_TenantReferenceType zero_tenant_reference f h (hcs_tenantReference st);
     Some (h, st\<lparr>hcs_tenantReference := Some p\<rparr>) }"

definition memory_SetVirtualMachineReferenceNamespace :: "string \<Rightarrow> status_op" where
  "memory_SetVirtualMachineReferenceNamespace name = memory_set_vm (\<lambda>r. r\<lparr>vmr_namespace := name\<rparr>)"

definition memory_SetVirtualMachineReferenceKubeVirtVirtualMachineName :: "string \<Rightarrow> status_op" where
  "memory_SetVirtualMachineReferenceKubeVirtVirtualMachineName name =
     memory_set_vm (\<lambda>r. r\<lparr>vmr_kubeVirtVirtualMachineName := name\<rparr>)"

definition memory_SetTenantReferenceName :: "string \<Rightarrow> status_op" where
  "memory_SetTenantReferenceName name = memory_set_tenant (\<lambda>r. r\<lparr>tr_name := name\<rparr>)"

definition memory_SetTenantReferenceNamespace :: "string \<Rightarrow> status_op" where
  "memory_SetTenantReferenceNamespace name = memory_set_tenant (\<lambda>r. r\<lparr>tr_namespace := name\<rparr>)"

section \<open>The writes of a reconciliation\<close>

text \<open>
  The ways in which the handlers change the status of the instance they were given, with
  the restart handler's \<open>ci.Status.LastRestartedAt = ci.Spec.RestartRequestedAt.DeepCopy()\<close>.
\<close>

datatype status_write =
    WritePhase compute_instance_phase
  | WriteDesiredVersion string
  | WriteReconciledVersion string
  | UpdateJob job_status
  | AppendJob job_status
  | WriteVMNamespace string
  | WriteVMName string
  | WriteTenantName string
  | WriteTenantNamespace string
  | WriteRestarted
  | WriteConditions condition_op "condition list \<Rightarrow> condition list"

definition memory_write ::
    "(nat \<Rightarrow> nat) \<Rightarrow> compute_instance_reconciler \<Rightarrow> status_write \<Rightarrow>
     heap \<Rightarrow> h_compute_instance \<Rightarrow> (heap \<times> h_compute_instance) option" where
  "memory_write grow r w h x =
     (let st = hci_status x
      in case w of
           WritePhase p \<Rightarrow> Some (h, x\<lparr>hci_status := st\<lparr>hcs_phase := p\<rparr>\<rparr>)
         | WriteDesiredVersion v \<Rightarrow> Some (h, x\<lparr>hci_status := st\<lparr>hcs_desiredConfigVersion := v\<rparr>\<rparr>)
         | WriteReconciledVersion v \<Rightarrow> Some (h, x\<lparr>hci_status := st\<lparr>hcs_reconciledConfigVersion := v\<rparr>\<rparr>)
         | UpdateJob j \<Rightarrow> do {
             (h, found) \<leftarrow> memory_updateJob h (hcs_jobs st) j;
             Some (h, x) }
         | AppendJob j \<Rightarrow> do {
             (h, js) \<leftarrow> memory_appendJob grow r h (hcs_jobs st) j;
             Some (h, x\<lparr>hci_status := st\<lparr>hcs_jobs := Some js\<rparr>\<rparr>) }
         | WriteVMNamespace n \<Rightarrow> do {
             (h, st) \<leftarrow> memory_SetVirtualMachineReferenceNamespace n h st;
             Some (h, x\<lparr>hci_status := st\<rparr>) }
         | WriteVMName n \<Rightarrow> do {
             (h, st) \<leftarrow> memory_SetVirtualMachineReferenceKubeVirtVirtualMachineName n h st;
             Some (h, x\<lparr>hci_status := st\<rparr>) }
         | WriteTenantName n \<Rightarrow> do {
             (h, st) \<leftarrow> memory_SetTenantReferenceName n h st;
             Some (h, x\<lparr>hci_status := st\<rparr>) }
         | WriteTenantNamespace n \<Rightarrow> do {
             (h, st) \<leftarrow> memory_SetTenantReferenceNamespace n h st;
             Some (h, x\<lparr>hci_status := st\<rparr>) }
         | WriteRestarted \<Rightarrow> do {
             (h, t) \<leftarrow> copy_pointer k_Time copy_plain h (hcsp_restartRequestedAt (hci_spec x));
             Some (h, x\<lparr>hci_status := st\<lparr>hcs_lastRestartedAt := t\<rparr>\<rparr>) }
         | WriteConditions f F \<Rightarrow> do {
             (h, cs) \<leftarrow> f h (hcs_conditions st);
             Some (h, x\<lparr>hci_status := st\<lparr>hcs_conditions := cs\<rparr>\<rparr>) })"

fun memory_writes ::
    "(nat \<Rightarrow> nat) \<Rightarrow> compute_instance_reconciler \<Rightarrow> status_write list \<Rightarrow>
     heap \<Rightarrow> h_compute_instance \<Rightarrow> (heap \<times> h_compute_instance) option" where
  "memory_writes grow r [] h x = Some (h, x)"
| "memory_writes grow r (w # ws) h x = do {
     (h, x) \<leftarrow> memory_write grow r w h x;
     memory_writes grow r ws h x }"

text \<open>The same write on the value, with the operations of the controller's model.\<close>

definition value_write :: "compute_instance_reconciler \<Rightarrow> status_write \<Rightarrow> compute_instance \<Rightarrow> compute_instance" where
  "value_write r w ci =
     (case w of
        WritePhase p \<Rightarrow> set_phase p ci
      | WriteDesiredVersion v \<Rightarrow> ci\<lparr>ci_status := (ci_status ci)\<lparr>cis_desiredConfigVersion := v\<rparr>\<rparr>
      | WriteReconciledVersion v \<Rightarrow> ci\<lparr>ci_status := (ci_status ci)\<lparr>cis_reconciledConfigVersion := v\<rparr>\<rparr>
      | UpdateJob j \<Rightarrow> update_job j ci
      | AppendJob j \<Rightarrow> add_job r j ci
      | WriteVMNamespace n \<Rightarrow> SetVirtualMachineReferenceNamespace n ci
      | WriteVMName n \<Rightarrow> SetVirtualMachineReferenceKubeVirtVirtualMachineName n ci
      | WriteTenantName n \<Rightarrow> SetTenantReferenceName n ci
      | WriteTenantNamespace n \<Rightarrow> SetTenantReferenceNamespace n ci
      | WriteRestarted \<Rightarrow>
          ci\<lparr>ci_status := (ci_status ci)\<lparr>cis_lastRestartedAt := cisp_restartRequestedAt (ci_spec ci)\<rparr>\<rparr>
      | WriteConditions f F \<Rightarrow> set_conditions (F (ci_conditions ci)) ci)"

definition lawful_write :: "status_write \<Rightarrow> bool" where
  "lawful_write w = (case w of WriteConditions f F \<Rightarrow> lawful_op f F | _ \<Rightarrow> True)"

section \<open>Each write does on the memory what it does on the value\<close>

definition holds :: "heap \<Rightarrow> h_compute_instance \<Rightarrow> compute_instance \<Rightarrow> bool" where
  "holds h x ci \<longleftrightarrow>
     read_ComputeInstanceSpec h (hci_spec x) = Some (ci_spec ci) \<and>
     read_ComputeInstanceStatus h (hci_status x) = Some (ci_status ci)"

abbreviation status_reach :: "heap \<Rightarrow> h_compute_instance \<Rightarrow> nat list" where
  "status_reach h x \<equiv> reach_ComputeInstanceStatus h (hci_status x)"

text \<open>A write changes memory of one kind that the status reaches, or memory it allocates.\<close>

definition confined :: "heap \<Rightarrow> h_compute_instance \<Rightarrow> heap \<Rightarrow> h_compute_instance \<Rightarrow> bool" where
  "confined h x h' x' \<longleftrightarrow>
     length h \<le> length h' \<and>
     (\<forall>a < length h. a \<notin> set (status_reach h x) \<longrightarrow> h' ! a = h ! a) \<and>
     (\<forall>b \<in> set (status_reach h' x'). b \<in> set (status_reach h x) \<or> length h \<le> b)"

lemma read_status_iff:
  "read_ComputeInstanceStatus h st = Some v \<longleftrightarrow>
     elements k_Condition h (hcs_conditions st) = Some (cis_conditions v) \<and>
     read_pointer k_VirtualMachineReferenceType read_plain h (hcs_virtualMachineReference st)
       = Some (cis_virtualMachineReference v) \<and>
     read_pointer k_TenantReferenceType read_plain h (hcs_tenantReference st) = Some (cis_tenantReference v) \<and>
     read_pointer k_Time read_plain h (hcs_lastRestartedAt st) = Some (cis_lastRestartedAt v) \<and>
     elements k_JobStatus h (hcs_jobs st) = Some (cis_jobs v) \<and>
     cis_phase v = hcs_phase st \<and> cis_desiredConfigVersion v = hcs_desiredConfigVersion st \<and>
     cis_reconciledConfigVersion v = hcs_reconciledConfigVersion st"
  by (cases v) (auto simp: read_ComputeInstanceStatus_def read_plain_slice bind_eq_Some_conv)

lemma read_spec_iff:
  "read_ComputeInstanceSpec h sp = Some v \<longleftrightarrow>
     read_pointer k_Time read_plain h (hcsp_restartRequestedAt sp) = Some (cisp_restartRequestedAt v) \<and>
     cisp_templateID v = hcsp_templateID sp \<and> cisp_templateParameters v = hcsp_templateParameters sp"
  by (cases v) (auto simp: read_ComputeInstanceSpec_def bind_eq_Some_conv)

lemma status_kinds_disjoint:
  "kinds_disjoint k_JobStatus k_Condition" "kinds_disjoint k_JobStatus k_VirtualMachineReferenceType"
  "kinds_disjoint k_JobStatus k_TenantReferenceType" "kinds_disjoint k_JobStatus k_Time"
  "kinds_disjoint k_Condition k_JobStatus" "kinds_disjoint k_Condition k_VirtualMachineReferenceType"
  "kinds_disjoint k_Condition k_TenantReferenceType" "kinds_disjoint k_Condition k_Time"
  "kinds_disjoint k_VirtualMachineReferenceType k_JobStatus" "kinds_disjoint k_VirtualMachineReferenceType k_Condition"
  "kinds_disjoint k_VirtualMachineReferenceType k_TenantReferenceType"
  "kinds_disjoint k_VirtualMachineReferenceType k_Time"
  "kinds_disjoint k_TenantReferenceType k_JobStatus" "kinds_disjoint k_TenantReferenceType k_Condition"
  "kinds_disjoint k_TenantReferenceType k_VirtualMachineReferenceType"
  "kinds_disjoint k_TenantReferenceType k_Time"
  by (simp_all add: kinds_disjoint_def k_JobStatus_def k_Condition_def k_VirtualMachineReferenceType_def
      k_TenantReferenceType_def k_Time_def split: block.split)

lemma confined_writes:
  assumes "writes k bs h h'" "set bs \<subseteq> set (status_reach h x)"
    and "\<And>b. b \<in> set (status_reach h' x') \<Longrightarrow> b \<in> set (status_reach h x) \<or> length h \<le> b"
  shows "confined h x h' x'"
  using assms unfolding confined_def writes_def by blast

lemma jobs_write:
  assumes "holds h x ci" and w: "writes k_JobStatus (slice_block (hcs_jobs (hci_status x))) h h'"
    and "elements k_JobStatus h' so = Some vs"
    and "\<And>b. b \<in> set (slice_block so) \<Longrightarrow> b \<in> set (slice_block (hcs_jobs (hci_status x))) \<or> length h \<le> b"
  shows "holds h' (x\<lparr>hci_status := (hci_status x)\<lparr>hcs_jobs := so\<rparr>\<rparr>) (set_jobs vs ci) \<and>
    confined h x h' (x\<lparr>hci_status := (hci_status x)\<lparr>hcs_jobs := so\<rparr>\<rparr>)"
  using assms(1,3) elements_writes_other [OF w status_kinds_disjoint(1)]
    read_pointer_writes_other [OF w status_kinds_disjoint(2)]
    read_pointer_writes_other [OF w status_kinds_disjoint(3)]
    read_pointer_writes_other [OF w status_kinds_disjoint(4)]
  by (intro conjI confined_writes [OF w])
    (auto simp: holds_def read_status_iff read_spec_iff set_jobs_def reach_ComputeInstanceStatus_def dest: assms(4))

lemma conditions_write:
  assumes "holds h x ci" and w: "writes k_Condition (slice_block (hcs_conditions (hci_status x))) h h'"
    and "elements k_Condition h' so = Some vs"
    and "\<And>b. b \<in> set (slice_block so) \<Longrightarrow> b \<in> set (slice_block (hcs_conditions (hci_status x))) \<or> length h \<le> b"
  shows "holds h' (x\<lparr>hci_status := (hci_status x)\<lparr>hcs_conditions := so\<rparr>\<rparr>) (set_conditions vs ci) \<and>
    confined h x h' (x\<lparr>hci_status := (hci_status x)\<lparr>hcs_conditions := so\<rparr>\<rparr>)"
  using assms(1,3) elements_writes_other [OF w status_kinds_disjoint(5)]
    read_pointer_writes_other [OF w status_kinds_disjoint(6)]
    read_pointer_writes_other [OF w status_kinds_disjoint(7)]
    read_pointer_writes_other [OF w status_kinds_disjoint(8)]
  by (intro conjI confined_writes [OF w])
    (auto simp: holds_def read_status_iff read_spec_iff set_conditions_def reach_ComputeInstanceStatus_def
      dest: assms(4))

lemma vm_write:
  assumes "holds h x ci"
  shows "\<exists>h' st. memory_set_vm f h (hci_status x) = Some (h', st) \<and>
    holds h' (x\<lparr>hci_status := st\<rparr>) (ci\<lparr>ci_status := (ci_status ci)\<lparr>cis_virtualMachineReference :=
      Some (f (ensureVirtualMachineReference ci))\<rparr>\<rparr>) \<and>
    confined h x h' (x\<lparr>hci_status := st\<rparr>)"
proof -
  let ?k = k_VirtualMachineReferenceType
  have rd: "read_pointer ?k read_plain h (hcs_virtualMachineReference (hci_status x)) =
      Some (cis_virtualMachineReference (ci_status ci))"
    using assms by (simp add: holds_def read_status_iff)
  obtain h' p where hp: "set_behind ?k zero_vm_reference f h (hcs_virtualMachineReference (hci_status x)) = Some (h', p)"
      "read_pointer ?k read_plain h' (Some p) = Some (Some (f (ensureVirtualMachineReference ci)))"
      and w: "writes ?k (pointer_block (hcs_virtualMachineReference (hci_status x))) h h'"
      and b: "fst p \<in> set (pointer_block (hcs_virtualMachineReference (hci_status x))) \<or> length h \<le> fst p"
    using set_behind_reads [OF k_VirtualMachineReferenceType.block_kind_axioms rd, of zero_vm_reference f]
    unfolding ensureVirtualMachineReference_def by blast
  show ?thesis
    using assms hp b elements_writes_other [OF w status_kinds_disjoint(9)]
      elements_writes_other [OF w status_kinds_disjoint(10)]
      read_pointer_writes_other [OF w status_kinds_disjoint(11)]
      read_pointer_writes_other [OF w status_kinds_disjoint(12)]
    by (intro exI [of _ h'] exI [of _ "(hci_status x)\<lparr>hcs_virtualMachineReference := Some p\<rparr>"]
        conjI confined_writes [OF w])
      (auto simp: memory_set_vm_def holds_def read_status_iff read_spec_iff reach_ComputeInstanceStatus_def)
qed

lemma tenant_write:
  assumes "holds h x ci"
  shows "\<exists>h' st. memory_set_tenant f h (hci_status x) = Some (h', st) \<and>
    holds h' (x\<lparr>hci_status := st\<rparr>) (ci\<lparr>ci_status := (ci_status ci)\<lparr>cis_tenantReference :=
      Some (f (ensureTenantReference ci))\<rparr>\<rparr>) \<and>
    confined h x h' (x\<lparr>hci_status := st\<rparr>)"
proof -
  let ?k = k_TenantReferenceType
  have rd: "read_pointer ?k read_plain h (hcs_tenantReference (hci_status x)) =
      Some (cis_tenantReference (ci_status ci))"
    using assms by (simp add: holds_def read_status_iff)
  obtain h' p where hp: "set_behind ?k zero_tenant_reference f h (hcs_tenantReference (hci_status x)) = Some (h', p)"
      "read_pointer ?k read_plain h' (Some p) = Some (Some (f (ensureTenantReference ci)))"
      and w: "writes ?k (pointer_block (hcs_tenantReference (hci_status x))) h h'"
      and b: "fst p \<in> set (pointer_block (hcs_tenantReference (hci_status x))) \<or> length h \<le> fst p"
    using set_behind_reads [OF k_TenantReferenceType.block_kind_axioms rd, of zero_tenant_reference f]
    unfolding ensureTenantReference_def by blast
  show ?thesis
    using assms hp b elements_writes_other [OF w status_kinds_disjoint(13)]
      elements_writes_other [OF w status_kinds_disjoint(14)]
      read_pointer_writes_other [OF w status_kinds_disjoint(15)]
      read_pointer_writes_other [OF w status_kinds_disjoint(16)]
    by (intro exI [of _ h'] exI [of _ "(hci_status x)\<lparr>hcs_tenantReference := Some p\<rparr>"]
        conjI confined_writes [OF w])
      (auto simp: memory_set_tenant_def holds_def read_status_iff read_spec_iff reach_ComputeInstanceStatus_def)
qed

lemma restarted_write:
  assumes "holds h x ci"
  shows "\<exists>h' x'. memory_write grow r WriteRestarted h x = Some (h', x') \<and>
    holds h' x' (value_write r WriteRestarted ci) \<and> confined h x h' x'"
proof -
  have rd: "read_pointer k_Time read_plain h (hcsp_restartRequestedAt (hci_spec x)) =
      Some (cisp_restartRequestedAt (ci_spec ci))"
    using assms by (simp add: holds_def read_spec_iff)
  obtain h' t where t: "copy_pointer k_Time copy_plain h (hcsp_restartRequestedAt (hci_spec x)) = Some (h', t)"
      "grows h h'" "read_pointer k_Time read_plain h' t = Some (cisp_restartRequestedAt (ci_spec ci))"
      "\<forall>a \<in> set (reach_pointer k_Time reach_plain h' t). length h \<le> a"
    using deep_copier.copy_reads [OF time_pointer rd] by blast
  let ?x = "x\<lparr>hci_status := (hci_status x)\<lparr>hcs_lastRestartedAt := t\<rparr>\<rparr>"
  have "read_ComputeInstanceSpec h' (hci_spec x) = Some (ci_spec ci)"
    using instance_spec_copy.read_grows [OF _ t(2)] assms by (auto simp: holds_def)
  moreover have "read_ComputeInstanceStatus h' (hci_status x) = Some (ci_status ci)"
    using instance_status_copy.read_grows [OF _ t(2)] assms by (auto simp: holds_def)
  ultimately have "holds h' ?x (value_write r WriteRestarted ci)"
    using t(3) by (simp add: holds_def read_status_iff value_write_def)
  moreover have "confined h x h' ?x"
    using t(4) by (intro confined_writes [OF writes_grows [OF t(2), of k_Time "[]"]])
      (auto simp: reach_ComputeInstanceStatus_def)
  ultimately show ?thesis using t(1) by (simp add: memory_write_def)
qed

lemma memory_write_simulates:
  assumes x: "holds h x ci" and lawful: "lawful_write w" and limit: "1 \<le> cir_maxJobHistory r"
  shows "\<exists>h' x'. memory_write grow r w h x = Some (h', x') \<and> holds h' x' (value_write r w ci) \<and> confined h x h' x'"
proof -
  have plain: "confined h x h x'" if "status_reach h x' = status_reach h x" for x'
    using that by (simp add: confined_def)
  have js: "elements k_JobStatus h (hcs_jobs (hci_status x)) = Some (ci_jobs ci)"
    and cs: "elements k_Condition h (hcs_conditions (hci_status x)) = Some (ci_conditions ci)"
    using x by (simp_all add: holds_def read_status_iff)
  show ?thesis
  proof (cases w)
    case (UpdateJob j)
    obtain h' where h': "memory_updateJob h (hcs_jobs (hci_status x)) j = Some (h', fst (updateJob (ci_jobs ci) j))"
        "elements k_JobStatus h' (hcs_jobs (hci_status x)) = Some (snd (updateJob (ci_jobs ci) j))"
        "writes k_JobStatus (slice_block (hcs_jobs (hci_status x))) h h'"
      using memory_updateJob_reads [OF js] by blast
    then show ?thesis
      using jobs_write [OF x h'(3,2)] UpdateJob by (auto simp: memory_write_def value_write_def update_job_def)
  next
    case (AppendJob j)
    obtain h' s' where h': "memory_appendJob grow r h (hcs_jobs (hci_status x)) j = Some (h', s')"
        "elements k_JobStatus h' (Some s') = Some (appendJob r (ci_jobs ci) j)"
        "writes k_JobStatus (slice_block (hcs_jobs (hci_status x))) h h'"
        "sl_block s' \<in> set (slice_block (hcs_jobs (hci_status x))) \<or> length h \<le> sl_block s'"
      using memory_appendJob_reads [OF js limit] by blast
    then show ?thesis
      using jobs_write [OF x h'(3,2)] AppendJob by (auto simp: memory_write_def value_write_def add_job_def)
  next
    case (WriteConditions f F)
    then have "lawful_op f F" using lawful by (simp add: lawful_write_def)
    then obtain h' s' where h': "f h (hcs_conditions (hci_status x)) = Some (h', s')"
        "elements k_Condition h' s' = Some (F (ci_conditions ci))"
        "writes k_Condition (slice_block (hcs_conditions (hci_status x))) h h'"
        "\<forall>b \<in> set (slice_block s'). b \<in> set (slice_block (hcs_conditions (hci_status x))) \<or> length h \<le> b"
      using cs unfolding lawful_op_def by blast
    then show ?thesis
      using conditions_write [OF x h'(3,2)] WriteConditions by (auto simp: memory_write_def value_write_def)
  next
    case (WriteVMNamespace n)
    then show ?thesis
      using vm_write [OF x, of "\<lambda>r. r\<lparr>vmr_namespace := n\<rparr>"]
      by (auto simp: memory_write_def value_write_def memory_SetVirtualMachineReferenceNamespace_def
          SetVirtualMachineReferenceNamespace_def)
  next
    case (WriteVMName n)
    then show ?thesis
      using vm_write [OF x, of "\<lambda>r. r\<lparr>vmr_kubeVirtVirtualMachineName := n\<rparr>"]
      by (auto simp: memory_write_def value_write_def
          memory_SetVirtualMachineReferenceKubeVirtVirtualMachineName_def
          SetVirtualMachineReferenceKubeVirtVirtualMachineName_def)
  next
    case (WriteTenantName n)
    then show ?thesis
      using tenant_write [OF x, of "\<lambda>r. r\<lparr>tr_name := n\<rparr>"]
      by (auto simp: memory_write_def value_write_def memory_SetTenantReferenceName_def SetTenantReferenceName_def)
  next
    case (WriteTenantNamespace n)
    then show ?thesis
      using tenant_write [OF x, of "\<lambda>r. r\<lparr>tr_namespace := n\<rparr>"]
      by (auto simp: memory_write_def value_write_def memory_SetTenantReferenceNamespace_def
          SetTenantReferenceNamespace_def)
  next
    case WriteRestarted
    then show ?thesis using restarted_write [OF x] by simp
  qed (use x in \<open>auto simp: memory_write_def value_write_def set_phase_def holds_def read_status_iff
      reach_ComputeInstanceStatus_def intro!: plain\<close>)
qed

section \<open>The snapshot of a reconciliation\<close>

text \<open>What a pointer to a status reads as.\<close>

definition status_behind :: "heap \<Rightarrow> pointer \<Rightarrow> compute_instance_status option" where
  "status_behind h p = Option.bind (load k_ComputeInstanceStatus h p) (read_ComputeInstanceStatus h)"

text \<open>
  \<open>Reconcile\<close> on the memory: the snapshot is taken, the handlers make their writes, and then
  the status is compared with the snapshot (\<open>equality.Semantic.DeepEqual\<close>, which compares the
  values). The result has the memory, the instance, the snapshot, and whether the status is
  to be written.
\<close>

definition memory_Reconcile ::
    "(nat \<Rightarrow> nat) \<Rightarrow> compute_instance_reconciler \<Rightarrow> status_write list \<Rightarrow>
     heap \<Rightarrow> h_compute_instance \<Rightarrow> (heap \<times> h_compute_instance \<times> pointer \<times> bool) option" where
  "memory_Reconcile grow r ws h x = do {
     (h, oldstatus) \<leftarrow> ComputeInstanceStatus_DeepCopy h (Some (hci_status x));
     oldstatus \<leftarrow> oldstatus;
     (h, x) \<leftarrow> memory_writes grow r ws h x;
     new \<leftarrow> read_ComputeInstanceStatus h (hci_status x);
     old \<leftarrow> status_behind h oldstatus;
     Some (h, x, oldstatus, new \<noteq> old) }"

text \<open>A snapshot that the status does not reach survives confined changes.\<close>

definition snapshot :: "heap \<Rightarrow> h_compute_instance \<Rightarrow> pointer \<Rightarrow> compute_instance_status \<Rightarrow> bool" where
  "snapshot h x p v \<longleftrightarrow>
     read_pointer k_ComputeInstanceStatus read_ComputeInstanceStatus h (Some p) = Some (Some v) \<and>
     set (reach_pointer k_ComputeInstanceStatus reach_ComputeInstanceStatus h (Some p)) \<inter> set (status_reach h x) = {}"

lemmas status_pointer =
  deep_copier_pointer [OF k_ComputeInstanceStatus.block_kind_axioms instance_status_copy.deep_copier_axioms]

lemma snapshot_confined:
  assumes "snapshot h x p v" "confined h x h' x'"
  shows "snapshot h' x' p v"
proof -
  let ?R = "\<lambda>h. set (reach_pointer k_ComputeInstanceStatus reach_ComputeInstanceStatus h (Some p))"
  have rd: "read_pointer k_ComputeInstanceStatus read_ComputeInstanceStatus h (Some p) = Some (Some v)"
    and dis: "?R h \<inter> set (status_reach h x) = {}"
    using assms(1) by (auto simp: snapshot_def)
  have below: "a < length h" if "a \<in> ?R h" for a using deep_copier.reach_below [OF status_pointer rd that] .
  have "same_on (reach_pointer k_ComputeInstanceStatus reach_ComputeInstanceStatus h (Some p)) h h'"
    unfolding same_on_def using below dis assms(2) unfolding confined_def
    by (meson disjoint_iff less_le_trans)
  then have "read_pointer k_ComputeInstanceStatus read_ComputeInstanceStatus h' (Some p) = Some (Some v)"
    and "?R h' = ?R h"
    using deep_copier.read_local [OF status_pointer rd] by auto
  moreover have "?R h \<inter> set (status_reach h' x') = {}"
    using below dis assms(2) unfolding confined_def by (meson disjoint_iff not_le)
  ultimately show ?thesis by (simp add: snapshot_def)
qed

lemma memory_writes_simulate:
  assumes "holds h x ci" "snapshot h x p v" "list_all lawful_write ws" "1 \<le> cir_maxJobHistory r"
  shows "\<exists>h' x'. memory_writes grow r ws h x = Some (h', x') \<and>
    holds h' x' (fold (value_write r) ws ci) \<and> snapshot h' x' p v"
  using assms(1,2,3)
proof (induction ws arbitrary: h x ci)
  case (Cons w ws)
  then have "lawful_write w" by simp
  then obtain h1 x1 where 1: "memory_write grow r w h x = Some (h1, x1)" "holds h1 x1 (value_write r w ci)"
      "confined h x h1 x1"
    using memory_write_simulates [OF Cons.prems(1) _ assms(4)] by blast
  show ?case
    using Cons.IH [OF 1(2) snapshot_confined [OF Cons.prems(2) 1(3)]] Cons.prems(3) 1(1) by simp
qed simp

lemma snapshot_taken:
  assumes "holds h x ci"
  shows "\<exists>h' p. ComputeInstanceStatus_DeepCopy h (Some (hci_status x)) = Some (h', Some p) \<and>
    holds h' x ci \<and> snapshot h' x p (ci_status ci)"
proof -
  have rd: "read_ComputeInstanceStatus h (hci_status x) = Some (ci_status ci)"
    and sp: "read_ComputeInstanceSpec h (hci_spec x) = Some (ci_spec ci)"
    using assms by (simp_all add: holds_def)
  obtain h' p where p: "ComputeInstanceStatus_DeepCopy h (Some (hci_status x)) = Some (h', Some p)" "grows h h'"
      "read_pointer k_ComputeInstanceStatus read_ComputeInstanceStatus h' (Some p) = Some (Some (ci_status ci))"
      "\<forall>a \<in> set (reach_pointer k_ComputeInstanceStatus reach_ComputeInstanceStatus h' (Some p)). length h \<le> a"
    using deep_copy_reads [OF k_ComputeInstanceStatus.block_kind_axioms instance_status_copy.deep_copier_axioms rd]
    unfolding ComputeInstanceStatus_DeepCopy_def by blast
  have st: "read_ComputeInstanceStatus h' (hci_status x) = Some (ci_status ci)"
    "status_reach h' x = status_reach h x"
    using instance_status_copy.read_grows [OF rd p(2)] by auto
  then have "holds h' x ci"
    using instance_spec_copy.read_grows [OF sp p(2)] by (simp add: holds_def)
  moreover have "snapshot h' x p (ci_status ci)"
    unfolding snapshot_def st(2) using p(3,4) instance_status_copy.reach_below [OF rd]
    by (meson disjoint_iff not_le)
  ultimately show ?thesis using p(1) by blast
qed

text \<open>C11: the snapshot \<open>oldstatus\<close>, which \<open>Reconcile\<close> takes with the generated \<open>DeepCopy\<close>, is immune
  to the in-place updates that follow. For any sequence of the handlers' writes (job updates
  through a pointer into \<open>Status.Jobs\<close>, appends within or beyond the capacity of the slice,
  references set behind their pointers, conditions) on any memory that holds the instance,
  nothing panics, the status then reads as the controller's model of the same writes says, the
  snapshot still reads as the status at the start, and so the final comparison asks for a
  status update exactly if the status has changed.
\<close>

theorem reconcile_snapshot_immune:
  assumes "holds h x ci" "list_all lawful_write ws" "1 \<le> cir_maxJobHistory r"
  shows "\<exists>h' x' p. memory_Reconcile grow r ws h x =
      Some (h', x', p, ci_status (fold (value_write r) ws ci) \<noteq> ci_status ci) \<and>
    holds h' x' (fold (value_write r) ws ci) \<and> status_behind h' p = Some (ci_status ci)"
proof -
  obtain h1 p where 1: "ComputeInstanceStatus_DeepCopy h (Some (hci_status x)) = Some (h1, Some p)"
      "holds h1 x ci" "snapshot h1 x p (ci_status ci)"
    using snapshot_taken [OF assms(1)] by blast
  obtain h2 x2 where 2: "memory_writes grow r ws h1 x = Some (h2, x2)"
      "holds h2 x2 (fold (value_write r) ws ci)" "snapshot h2 x2 p (ci_status ci)"
    using memory_writes_simulate [OF 1(2,3) assms(2,3)] by blast
  have "status_behind h2 p = Some (ci_status ci)"
    using 2(3) by (simp add: snapshot_def status_behind_def read_pointer_def)
  then show ?thesis using 1(1) 2(1,2) by (simp add: memory_Reconcile_def holds_def)
qed

subsection \<open>An example\<close>

definition example_writes :: "status_write list" where
  "example_writes =
     [UpdateJob (example_job\<lparr>js_state := JobStateSucceeded\<rparr>),
      AppendJob (example_job\<lparr>js_jobID := ''8'', js_type := JobTypeDeprovision\<rparr>),
      WriteConditions (memory_SetCondition (\<lambda>c. 2 * c) ''Available'' ConditionTrue [] [] 3 4)
        (put_condition ''Available'' ConditionTrue [] [] 3 4),
      WriteVMName ''vm'', WritePhase ComputeInstancePhaseRunning]"

lemma example_holds: "holds example_heap example_h_instance example_instance"
  by (simp add: holds_def example_spec example_status)

lemma reconcile_snapshot_immune_witness:
  "\<exists>h' x' p. memory_Reconcile (\<lambda>c. 2 * c) (newComputeInstanceReconciler ''ns'' None 0 0) example_writes
      example_heap example_h_instance = Some (h', x', p, True) \<and>
    status_behind h' p = Some (ci_status example_instance)"
proof -
  let ?r = "newComputeInstanceReconciler ''ns'' None 0 0"
  have "ci_phase (fold (value_write ?r) example_writes example_instance) = ComputeInstancePhaseRunning"
    by (simp add: example_writes_def value_write_def set_phase_def)
  moreover have "ci_phase example_instance = ComputeInstancePhaseStarting"
    by (simp add: example_instance_def)
  ultimately have "ci_status (fold (value_write ?r) example_writes example_instance) \<noteq> ci_status example_instance"
    by auto
  moreover have "list_all lawful_write example_writes"
    by (simp add: example_writes_def lawful_write_def memory_SetCondition_lawful)
  moreover have "1 \<le> cir_maxJobHistory ?r"
    by (simp add: newComputeInstanceReconciler_def DefaultMaxJobHistory_def)
  ultimately show ?thesis
    using reconcile_snapshot_immune [OF example_holds, of example_writes ?r "\<lambda>c. 2 * c"] by auto
qed

text \<open>
  A snapshot that copied the struct only (\<open>*oldstatus = instance.Status\<close>) would share the job
  array: after an update of a job in place it reads as the new status, and the change would
  not be noticed.
\<close>

lemma shallow_snapshot_misses:
  "\<exists>h' x'. memory_writes grow r [UpdateJob (example_job\<lparr>js_state := JobStateSucceeded\<rparr>)]
      example_heap example_h_instance = Some (h', x') \<and>
    read_ComputeInstanceStatus h' (hci_status example_h_instance) =
      read_ComputeInstanceStatus h' (hci_status x') \<and>
    value_write r (UpdateJob (example_job\<lparr>js_state := JobStateSucceeded\<rparr>)) example_instance \<noteq> example_instance"
  by (simp add: memory_write_def memory_updateJob_def memory_findJobByID_def find_in_def
      example_h_instance_def example_heap_def memory_eval store_def k_JobStatus_def slice_at_def
      example_job_def value_write_def update_job_def updateJob_def findJobByID_def set_jobs_def example_instance_def)

end
