(* ===== verification/Scheme.thy ===== *)
theory Scheme
  imports Manager_Setup
begin

text \<open>
  Which Go types the client can encode: \<open>api/v1alpha1/groupversion_info.go\<close>, the \<open>init\<close>
  functions of the four files of API types, which the Go tool runs in the order of the file
  names, and the \<open>init\<close> of \<open>cmd/main.go\<close>. The scheme builder of controller-runtime, the schemes of
  apimachinery and the types of the other projects are parameters; the locale \<open>scheme_library\<close>
  holds what they are documented to do.
\<close>

section \<open>Types and their names\<close>

record group_version =
  gv_group :: string
  gv_version :: string

definition GroupVersion :: group_version where
  "GroupVersion = \<lparr>gv_group = ''cloudkit.openshift.io'', gv_version = ''v1alpha1''\<rparr>"

text \<open>The pointers the files register, and the names of the types they point to.\<close>

datatype api_type =
    TypeClusterOrder | TypeClusterOrderList | TypeComputeInstance | TypeComputeInstanceList
  | TypeHostPool | TypeHostPoolList | TypeTenant | TypeTenantList

fun type_name :: "api_type \<Rightarrow> string" where
  "type_name TypeClusterOrder = ''ClusterOrder''"
| "type_name TypeClusterOrderList = ''ClusterOrderList''"
| "type_name TypeComputeInstance = ''ComputeInstance''"
| "type_name TypeComputeInstanceList = ''ComputeInstanceList''"
| "type_name TypeHostPool = ''HostPool''"
| "type_name TypeHostPoolList = ''HostPoolList''"
| "type_name TypeTenant = ''Tenant''"
| "type_name TypeTenantList = ''TenantList''"

text \<open>The type a request of each kind is encoded with, and for a list the type of the list.\<close>

fun kind_gvk :: "kind \<Rightarrow> group_version \<times> string" where
  "kind_gvk KindComputeInstance = (GroupVersion, ''ComputeInstance'')"
| "kind_gvk KindTenant = (GroupVersion, ''Tenant'')"
| "kind_gvk KindClusterOrder = (GroupVersion, ''ClusterOrder'')"
| "kind_gvk KindHostPool = (GroupVersion, ''HostPool'')"
| "kind_gvk KindNamespace = (\<lparr>gv_group = [], gv_version = ''v1''\<rparr>, ''Namespace'')"
| "kind_gvk KindServiceAccount = (\<lparr>gv_group = [], gv_version = ''v1''\<rparr>, ''ServiceAccount'')"
| "kind_gvk KindRoleBinding =
     (\<lparr>gv_group = ''rbac.authorization.k8s.io'', gv_version = ''v1''\<rparr>, ''RoleBinding'')"
| "kind_gvk KindVirtualMachine = (\<lparr>gv_group = ''kubevirt.io'', gv_version = ''v1''\<rparr>, ''VirtualMachine'')"
| "kind_gvk KindVirtualMachineInstance =
     (\<lparr>gv_group = ''kubevirt.io'', gv_version = ''v1''\<rparr>, ''VirtualMachineInstance'')"
| "kind_gvk KindUserDefinedNetwork =
     (\<lparr>gv_group = ''k8s.ovn.org'', gv_version = ''v1''\<rparr>, ''UserDefinedNetwork'')"
| "kind_gvk KindHostedCluster =
     (\<lparr>gv_group = ''hypershift.openshift.io'', gv_version = ''v1beta1''\<rparr>, ''HostedCluster'')"
| "kind_gvk KindNodePool =
     (\<lparr>gv_group = ''hypershift.openshift.io'', gv_version = ''v1beta1''\<rparr>, ''NodePool'')"

section \<open>The init functions\<close>

record ('b, 's) scheme_lib =
  sl_builder :: "group_version \<Rightarrow> 'b"  \<comment> \<open>\<open>&scheme.Builder{GroupVersion: gv}\<close>\<close>
  sl_Register :: "api_type list \<Rightarrow> 'b \<Rightarrow> 'b"
  sl_AddToScheme :: "'b \<Rightarrow> 's \<Rightarrow> go_error option \<times> 's"
  sl_NewScheme :: 's
  sl_clientgo :: "'s \<Rightarrow> go_error option \<times> 's"
  sl_hypershift :: "'s \<Rightarrow> go_error option \<times> 's"
  sl_kubevirt :: "'s \<Rightarrow> go_error option \<times> 's"
  sl_ovn :: "'s \<Rightarrow> go_error option \<times> 's"

definition init_clusterorder :: "('b, 's) scheme_lib \<Rightarrow> 'b \<Rightarrow> 'b" where
  "init_clusterorder S b = sl_Register S [TypeClusterOrder, TypeClusterOrderList] b"

definition init_computeinstance :: "('b, 's) scheme_lib \<Rightarrow> 'b \<Rightarrow> 'b" where
  "init_computeinstance S b = sl_Register S [TypeComputeInstance, TypeComputeInstanceList] b"

definition init_hostpool :: "('b, 's) scheme_lib \<Rightarrow> 'b \<Rightarrow> 'b" where
  "init_hostpool S b = sl_Register S [TypeHostPool, TypeHostPoolList] b"

definition init_tenant :: "('b, 's) scheme_lib \<Rightarrow> 'b \<Rightarrow> 'b" where
  "init_tenant S b = sl_Register S [TypeTenant, TypeTenantList] b"

text \<open>The builder as the package leaves it.\<close>

definition SchemeBuilder :: "('b, 's) scheme_lib \<Rightarrow> 'b" where
  "SchemeBuilder S =
     init_tenant S (init_hostpool S (init_computeinstance S (init_clusterorder S (sl_builder S GroupVersion))))"

text \<open>\<open>AddToScheme = SchemeBuilder.AddToScheme\<close>: the function value holds the builder's address, so
  it adds what the \<open>init\<close> functions, which run later, register.\<close>

definition AddToScheme :: "('b, 's) scheme_lib \<Rightarrow> 's \<Rightarrow> go_error option \<times> 's" where
  "AddToScheme S = sl_AddToScheme S (SchemeBuilder S)"

text \<open>\<open>utilruntime.Must\<close> panics with the error.\<close>

definition must_add :: "('s \<Rightarrow> go_error option \<times> 's) \<Rightarrow> 's \<Rightarrow> go_error + 's" where
  "must_add add s = (case add s of (Some e, _) \<Rightarrow> Inl e | (None, s') \<Rightarrow> Inr s')"

fun must_all :: "('s \<Rightarrow> go_error option \<times> 's) list \<Rightarrow> 's \<Rightarrow> go_error + 's" where
  "must_all [] s = Inr s"
| "must_all (add # adds) s = (case must_add add s of Inl e \<Rightarrow> Inl e | Inr s' \<Rightarrow> must_all adds s')"

definition main_init :: "('b, 's) scheme_lib \<Rightarrow> go_error + 's" where
  "main_init S =
     must_all [sl_clientgo S, AddToScheme S, sl_hypershift S, sl_kubevirt S, sl_ovn S] (sl_NewScheme S)"

section \<open>What the libraries are documented to do\<close>

text \<open>
  A builder remembers what it was given; adding its types, or those of another project, makes
  a scheme recognize them and forgets none; the other projects bring their own kinds.
\<close>

locale scheme_library =
  fixes S :: "('b, 's) scheme_lib"
    and types_of :: "'b \<Rightarrow> group_version \<times> api_type set"
    and recognizes :: "'s \<Rightarrow> group_version \<times> string \<Rightarrow> bool"
  assumes builder: "types_of (sl_builder S gv) = (gv, {})"
    and Register: "types_of (sl_Register S ts b) = (fst (types_of b), snd (types_of b) \<union> set ts)"
    and AddToScheme_adds: "sl_AddToScheme S b s = (None, s') \<Longrightarrow> t \<in> snd (types_of b) \<Longrightarrow>
      recognizes s' (fst (types_of b), type_name t)"
    and forgets_none: "add \<in> {sl_AddToScheme S b, sl_clientgo S, sl_hypershift S, sl_kubevirt S, sl_ovn S} \<Longrightarrow>
      add s = (None, s') \<Longrightarrow> recognizes s g \<Longrightarrow> recognizes s' g"
    and clientgo: "sl_clientgo S s = (None, s') \<Longrightarrow> k \<in> {KindNamespace, KindServiceAccount, KindRoleBinding} \<Longrightarrow>
      recognizes s' (kind_gvk k)"
    and hypershift: "sl_hypershift S s = (None, s') \<Longrightarrow> k \<in> {KindHostedCluster, KindNodePool} \<Longrightarrow>
      recognizes s' (kind_gvk k)"
    and kubevirt: "sl_kubevirt S s = (None, s') \<Longrightarrow> k \<in> {KindVirtualMachine, KindVirtualMachineInstance} \<Longrightarrow>
      recognizes s' (kind_gvk k)"
    and ovn: "sl_ovn S s = (None, s') \<Longrightarrow> recognizes s' (kind_gvk KindUserDefinedNetwork)"
begin

lemma SchemeBuilder_types: "types_of (SchemeBuilder S) = (GroupVersion, UNIV)"
proof -
  have "t \<in> {TypeClusterOrder, TypeClusterOrderList, TypeComputeInstance, TypeComputeInstanceList,
      TypeHostPool, TypeHostPoolList, TypeTenant, TypeTenantList}" for t
    by (cases t) simp_all
  then show ?thesis
    by (auto simp: SchemeBuilder_def init_clusterorder_def init_computeinstance_def init_hostpool_def
        init_tenant_def Register builder)
qed

lemma AddToScheme_types: "AddToScheme S s = (None, s') \<Longrightarrow> recognizes s' (GroupVersion, type_name t)"
  using AddToScheme_adds [of "SchemeBuilder S"] by (simp add: AddToScheme_def SchemeBuilder_types)

text \<open>If the program starts at all, its client can encode every kind of object it handles.\<close>

theorem main_init_recognizes:
  assumes "main_init S = Inr s"
  shows "recognizes s (kind_gvk k)" "recognizes s (GroupVersion, type_name t)"
proof -
  obtain s1 s2 s3 s4 where run: "sl_clientgo S (sl_NewScheme S) = (None, s1)" "AddToScheme S s1 = (None, s2)"
      "sl_hypershift S s2 = (None, s3)" "sl_kubevirt S s3 = (None, s4)" "sl_ovn S s4 = (None, s)"
    using assms by (auto simp: main_init_def must_add_def split: prod.splits option.splits sum.splits)
  have ovn_keeps: "recognizes s4 g \<Longrightarrow> recognizes s g" for g using forgets_none [where add = "sl_ovn S", OF _ run(5)] by simp
  have kubevirt_keeps: "recognizes s3 g \<Longrightarrow> recognizes s g" for g
    using forgets_none [where add = "sl_kubevirt S", OF _ run(4)] ovn_keeps by simp
  have hypershift_keeps: "recognizes s2 g \<Longrightarrow> recognizes s g" for g
    using forgets_none [where add = "sl_hypershift S", OF _ run(3)] kubevirt_keeps by simp
  have own_keeps: "recognizes s1 g \<Longrightarrow> recognizes s g" for g
    using forgets_none [where add = "sl_AddToScheme S (SchemeBuilder S)" and b = "SchemeBuilder S",
        OF _ run(2) [unfolded AddToScheme_def]] hypershift_keeps by simp
  show own: "recognizes s (GroupVersion, type_name t)" for t
    using AddToScheme_types [OF run(2)] hypershift_keeps by blast
  show "recognizes s (kind_gvk k)"
    by (cases k)
      (use own [of TypeComputeInstance] own [of TypeTenant] own [of TypeClusterOrder] own [of TypeHostPool]
         own_keeps [OF clientgo [OF run(1), of KindNamespace]] own_keeps [OF clientgo [OF run(1), of KindServiceAccount]]
         own_keeps [OF clientgo [OF run(1), of KindRoleBinding]]
         kubevirt_keeps [OF hypershift [OF run(3), of KindHostedCluster]]
         kubevirt_keeps [OF hypershift [OF run(3), of KindNodePool]]
         ovn_keeps [OF kubevirt [OF run(4), of KindVirtualMachine]]
         ovn_keeps [OF kubevirt [OF run(4), of KindVirtualMachineInstance]] ovn [OF run(5)] in simp_all)
qed

end

text \<open>It panics with the error of the first registration that fails.\<close>

lemma must_all_first_error:
  "must_all before s = Inr s' \<Longrightarrow> fst (add s') = Some e \<Longrightarrow> must_all (before @ add # after) s = Inl e"
  by (induction before arbitrary: s) (auto simp: must_add_def split: prod.split option.split sum.splits)

lemma must_all_starts:
  "(\<And>add s. add \<in> set adds \<Longrightarrow> fst (add s) = None) \<Longrightarrow> \<exists>s'. must_all adds s = Inr s'"
proof (induction adds arbitrary: s)
  case (Cons add adds)
  from Cons.prems [of add s] obtain s1 where "add s = (None, s1)" by (cases "add s") auto
  then show ?case using Cons by (simp add: must_add_def)
qed simp

section \<open>A library that keeps the contract\<close>

type_synonym ref_scheme = "(group_version \<times> string) list"

definition ref_scheme_lib :: "(group_version \<times> api_type list, ref_scheme) scheme_lib" where
  "ref_scheme_lib =
     \<lparr>sl_builder = (\<lambda>gv. (gv, [])), sl_Register = (\<lambda>ts b. (fst b, snd b @ ts)),
      sl_AddToScheme = (\<lambda>b s. (None, s @ map (\<lambda>t. (fst b, type_name t)) (snd b))), sl_NewScheme = [],
      sl_clientgo = (\<lambda>s. (None, s @ map kind_gvk [KindNamespace, KindServiceAccount, KindRoleBinding])),
      sl_hypershift = (\<lambda>s. (None, s @ map kind_gvk [KindHostedCluster, KindNodePool])),
      sl_kubevirt = (\<lambda>s. (None, s @ map kind_gvk [KindVirtualMachine, KindVirtualMachineInstance])),
      sl_ovn = (\<lambda>s. (None, s @ map kind_gvk [KindUserDefinedNetwork]))\<rparr>"

interpretation ref_schemes: scheme_library ref_scheme_lib "\<lambda>b. (fst b, set (snd b))" "\<lambda>s g. g \<in> set s"
  by unfold_locales (auto simp: ref_scheme_lib_def)

lemma ref_main_init: "\<exists>s. main_init ref_scheme_lib = Inr s \<and> (\<forall>k. kind_gvk k \<in> set s)"
proof -
  obtain s where s: "main_init ref_scheme_lib = Inr s"
    by (simp add: main_init_def must_add_def AddToScheme_def ref_scheme_lib_def)
  then have "kind_gvk k \<in> set s" for k by (rule ref_schemes.main_init_recognizes)
  with s show ?thesis by blast
qed

end
