(* ===== verification/Spec2Isabelle.thy ===== *)
theory Spec2Isabelle
  imports Operator_Lifecycle CI_Status_Memory Scheme
begin

text \<open>
  A verification development of the cloudkit operator, a Kubernetes operator in Go that
  provisions compute instances, clusters and host pools for the tenants of a cloud. The
  sources are under \<open>src/\<close>; every definition below has the name of the Go function it models,
  with a prefix where two controllers use the same name (\<open>ci_\<close>, \<open>co_\<close>, \<open>hp_\<close>, \<open>tenant_\<close>,
  \<open>cluster_\<close>, \<open>pool_\<close>).

  \<^bold>\<open>How the program works.\<close> Four controllers each watch one kind of custom resource. Their
  \<open>Reconcile\<close> reads the resource, runs an update or a delete handler on it, and writes its
  status back. The ComputeInstance controller makes sure that the instance's Tenant exists,
  triggers a provisioning job through a provider (EDA by webhook, AAP by REST), polls it,
  carries out restart requests and, on deletion, lets the provider deprovision before it
  gives up its finalizer. The Tenant controller creates a namespace and a network. The
  ClusterOrder and the HostPool controller create a namespace with its contents and call
  webhooks. Three feedback controllers copy the state of the resources into the records of
  the fulfillment service over gRPC.

  \<^bold>\<open>How it is modelled.\<close> A handler is a function in the state monad of \<open>World\<close>. The state
  holds what the process keeps in memory (the template cache of the AAP client, the request
  cache of the webhook client) and the history of everything it has asked of the outside,
  newest event first: API calls, HTTP requests, RPCs, readings of the clock. Each answer is
  a function of that history, a parameter of the model bundled in the record \<open>env\<close>: the API
  server (\<open>kube_api\<close>), HTTP, the service (\<open>rpc_api\<close>), the clock, and third-party code
  (\<open>go_lib\<close>: finalizer and condition helpers, JSON, time formats). So other writers, lost
  updates and every failure are in the model, and the statements hold for all of them. What a
  property relies on is a named hypothesis: \<open>finalizer_laws\<close>, \<open>condition_laws\<close>, \<open>retry_law\<close>,
  \<open>clock_mono\<close>, \<open>clock_strict\<close>, and of the API server \<open>served_as_asked\<close> (it serves the object it
  was asked for), \<open>answers_updates\<close> (it answers an update with the key and the finalizers it was
  sent) and \<open>keeps_finalizer\<close> (it changes the finalizers of an instance only as updates ask it
  to); the text of a property names those it has. \<open>Reference_Env\<close> has an environment that satisfies them,
  on which the witnesses compute. A Go error is a \<open>go_error\<close>; a handler ends with
  \<open>Done object result error\<close> or \<open>Panicked\<close>, so that a nil dereference is a value too. Go's
  ints are unbounded ints, with \<open>wrap64\<close> and \<open>wrap32\<close> where the code can overflow.

  \<^bold>\<open>Which theory models what.\<close>

  \<^item> \<open>Prelude\<close>, \<open>Go_Runtime\<close> (errors, \<open>strconv\<close>, \<open>strings\<close>, durations), \<open>Go_Encoding\<close> (FNV-1a,
    hex and base32 with their injectivity), \<open>Json_Decode\<close> (decoding of JSON into structs).
  \<^item> \<open>Meta_Types\<close>, \<open>Job_Types\<close>, \<open>Compute_Instance_Types\<close>, \<open>Tenant_Types\<close>, \<open>Cluster_Order_Types\<close>,
    \<open>Host_Pool_Types\<close> (\<open>api/v1alpha1\<close>), \<open>Fulfillment_Types\<close> (the records of the service).
  \<^item> \<open>World\<close>, \<open>Effects\<close> (footprints: the events an operation can issue; triples; the laws),
    \<open>Kube_Client\<close> (the calls of the API server, \<open>CreateOrUpdate\<close>), \<open>Reference_Env\<close>.
  \<^item> \<open>Webhook_Client\<close> (\<open>webhook_common.go\<close>), \<open>Aap_Client\<close> (\<open>internal/aap/client.go\<close>), \<open>Provider\<close>,
    \<open>Eda_Provider\<close>, \<open>Aap_Provider\<close> (\<open>internal/provisioning\<close>), \<open>Names\<close> (the files of names
    and constants), \<open>Provider_Config\<close> (\<open>factory.go\<close> and the configuration in \<open>cmd/main.go\<close>).
  \<^item> \<open>CI_Provisioning\<close>, \<open>CI_Restart\<close>, \<open>CI_Controller\<close> (\<open>computeinstance_controller.go\<close>,
    \<open>_resources.go\<close>, \<open>_restart.go\<close>), \<open>Tenant_Controller\<close>, \<open>Cluster_Order_Controller\<close>,
    \<open>Host_Pool_Controller\<close> with their resources.
  \<^item> \<open>Feedback\<close> (what the feedback controllers share), \<open>CI_Feedback\<close>, \<open>Cluster_Feedback\<close>,
    \<open>Host_Pool_Feedback\<close>.
  \<^item> \<open>Teardown\<close> (rounds of a reconciler among other steps, \<open>rounds_among\<close>, and when they end a
    deletion), met by \<open>CI_Deletion\<close>, \<open>Tenant_Deletion\<close>, \<open>Cluster_Order_Deletion\<close> and
    \<open>Host_Pool_Deletion\<close>; \<open>CI_Lifecycle\<close> (both controllers of instances interleaved, an inductive
    relation on worlds); \<open>Ownership\<close> (the table of who writes what, met by all reconcilers).
  \<^item> \<open>Go_Memory\<close> (blocks, pointers and slices, with aliasing), \<open>Go_Writes\<close> (assignments through
    them), \<open>Deep_Copy\<close> (\<open>zz_generated.deepcopy.go\<close>) and \<open>CI_Status_Memory\<close> (the helpers that
    edit a status in place, against the functions on values that the controllers' models use).
  \<^item> \<open>Scheme\<close> (\<open>groupversion_info.go\<close> and the \<open>init\<close> functions).
  \<^item> \<open>Manager_Setup\<close> (the seven \<open>SetupWithManager\<close>, as registrations) and \<open>Operator_Main\<close> (\<open>main\<close>,
    \<open>createGrpcConn\<close> and \<open>fileTokenSource\<close> of \<open>cmd/main.go\<close>).
  \<^item> \<open>Operator_Run\<close> and \<open>Operator_Lifecycle\<close>: the operator that \<open>main\<close> has started, at work. A state
    (\<open>operator_state\<close>) is the history and the caches of each registered controller; a step is a
    reconciliation by one of them, an event mapped to requests, or a restart of the process.
    The properties that span controllers stand here.

  \<^bold>\<open>Contracts.\<close> The interfaces between the parts are locales, each interpreted on the model:
  \<open>webhook_service\<close> (what a caller of the webhook client may rely on), \<open>aap_service\<close> (the AAP client
  as its provider sees it), \<open>provisioning_provider\<close> (what the ComputeInstance controller may
  rely on, discharged for both providers and for whatever \<open>createProvider\<close> returns),
  \<open>condition_sync\<close> (a copy of conditions that touches one kind and is idempotent),
  \<open>block_kind\<close> and \<open>deep_copier\<close> (how a Go type lies in memory, and what its generated copy
  promises: the same value, in blocks of its own), \<open>staged_teardown\<close> (a deletion that goes
  through stages and keeps an invariant, among whatever others do; met by instances, tenants,
  cluster orders and host pools), and \<open>scheme_library\<close> (the schemes of the API machinery).

  \<^bold>\<open>What the lemmas show.\<close> For each controller: which events its handlers can issue and under
  which conditions (finalizers removed last and only when the teardown is over, status
  written only when it changed, webhooks only for resources that are not managed by hand),
  what the resource says afterwards, and which errors are visible. For the clients: caches,
  the spacing of requests, the classification of HTTP answers. For the providers: job
  identifiers, when a job may be launched. For the names: validity and injectivity up to hash
  collisions. For the feedback: the records mirror the resources (\<open>mirrors\<close> is the abstract
  specification that \<open>syncState\<close> implements), when it comes to rest, and when it does not.
  For the memory: a deep copy shares nothing with its original, so that the snapshot a
  reconciler takes of the status is immune to what the handlers write, and in-place edits
  agree with the functions on values.
  For the started operator as a whole, whatever the order in which its controllers work and
  however often it is restarted: each object and each service is written by its own controllers
  only (\<open>operator_writes_owned\<close>); the deletions of compute instances, tenants, cluster orders and
  host pools end, whatever failures came before, once the cluster does its part
  (\<open>operator_instance_deletion\<close>, \<open>operator_tenant_deletion\<close>, \<open>operator_order_deletion\<close>,
  \<open>operator_pool_deletion\<close>); and the service hears last of the deletion of an instance
  that the instance controller has taken charge of (\<open>operator_signals_last\<close>). The namespaces that \<open>main\<close> hands out decide which controllers see each
  other's objects (\<open>tenants_need_namespace\<close>, \<open>feedback_needs_namespace\<close>).
  What is created is stated to the last field: \<open>wrote\<close> (in \<open>Kube_Client\<close>) says which object
  \<open>CreateOrUpdate\<close> looked up, what it changed in what was there, and what was answered.
  Several theorems state behaviour that the code has and surely should not have; they say so.
  Some promises hold only as far as the code keeps them: with a negative polling interval an
  instance is released too early (\<open>ci_waiting_needs_positive_interval\<close>), a restart is repeated
  when its status is lost (\<open>restart_deletes_once\<close> counts such losses), and a provision job of
  EDA is not waited for (\<open>aap_eda_job_not_awaited\<close>).

  \<^bold>\<open>Bounds.\<close> All operations are total functions; loops are structural recursion over lists, or
  have a measure (\<open>strip\<close>). \<open>retry.RetryOnConflict\<close> is any number of attempts (\<open>attempts n\<close>), so
  no fuel is chosen. The deletions count reconciliations of the object, from any start: when the
  cluster works from its \<open>N\<close>-th event on and takes \<open>d\<close> events for each object, \<open>N + 1\<close> are enough
  for an instance, \<open>N + 2 d + 3\<close> for a tenant or a cluster order, which have two stages, and
  \<open>N + K + d + 2\<close> for a host pool, where \<open>K\<close> events take the minimum interval between two calls of
  the webhook. A reconciliation issues at least one event, which is why \<open>N\<close> of them are past the
  \<open>N\<close>-th event.

  \<^bold>\<open>Not modelled.\<close> Certificates and logging, which have no state of their own; what
  controller-runtime does with a registration (queues, back-off, leader election); the
  generated clients in \<open>internal/api\<close>, which the feedback controllers only call; the copies of
  \<open>ObjectMeta\<close> and \<open>ListMeta\<close>, which belong to apimachinery and are parameters with the
  contract of a deep copy. Outside the theories of memory an object is a value: the copies the
  handlers take of one are the value itself, which \<open>Deep_Copy\<close> justifies. A run of the operator is
  a sequence of whole tasks, in any order: that controller-runtime runs tasks of different
  controllers at the same time is covered only by the answers of the API server, which may
  depend on anything, and a restart comes between two tasks. Each controller has caches of its
  own in a run; below \<open>Operator_Run\<close> a world has the caches of one controller. That each task is
  run often enough is a hypothesis of the deletions, as queues and back-off are not
  modelled. \<open>IsStatusConditionPresentAndEqual\<close>
  of cluster orders, which nothing calls, is left out.
\<close>

section \<open>A new pool in a cluster where every call succeeds\<close>

definition new_pool :: host_pool where
  "new_pool = hp_set_finalizers [hostPoolFinalizer]
     (sample_hp\<lparr>hp_meta := sample_meta\<lparr>om_labels := [cloudkitHostPoolIDLabel \<mapsto> ''i'']\<rparr>\<rparr>)"

text \<open>The API server and the service answer what they were sent last.\<close>

primrec stored_pool :: "history \<Rightarrow> host_pool" where
  "stored_pool [] = new_pool"
| "stored_pool (e # h) = (case e of EvStatusUpdate (KHostPool y) \<Rightarrow> y | _ \<Rightarrow> stored_pool h)"

definition new_pool_env :: env where
  "new_pool_env = pool_env\<lparr>kube := ref_kube\<lparr>get_host_pool := (\<lambda>k h. Inr (stored_pool h))\<rparr>\<rparr>"

lemma new_pool_simps [simp]:
  "om_finalizers (hp_meta new_pool) = [hostPoolFinalizer]" "hp_conditions new_pool = []" "\<not> deleting (hp_meta new_pool)"
  "om_labels (hp_meta new_pool) cloudkitHostPoolIDLabel = Some ''i''"
  "lib new_pool_env = ref_lib" "clock new_pool_env h = int (length h) * second"
  "get_host_pool (kube new_pool_env) k h = Inr (stored_pool h)"
  "list_namespaces (kube new_pool_env) s h = Inr []" "fetch_namespace (kube new_pool_env) n h = (None, n)"
  "commit_namespace (kube new_pool_env) n h = (None, n)"
  "rpc_get_host_pool (rpc new_pool_env) i h = Inr (stored_pool_record h)"
  by (simp_all add: new_pool_def new_pool_env_def pool_env_def hp_set_finalizers_def sample_hp_def sample_meta_def
      new_meta_def deleting_def is_zero_time_def ref_kube_def ref_rpc_def)

section \<open>The host pool controller and its feedback\<close>

text \<open>C22: a host pool that has become ready is reported for ever. The controller leaves a new pool
  that it has made ready with Accepted true and Progressing false; the feedback controller
  copies both into the one condition PROGRESSING of the record. So a reconciliation of the
  feedback that finds in the service exactly the record it has produced for this pool before
  sends another one, with a new transition time.\<close>

theorem ready_pool_feedback_never_settles:
  assumes "clock_strict E" "finalizer_laws (lib E)"
    and "hostPoolFinalizer \<in> set (om_finalizers (hp_meta hp))" "hp_conditions hp = []" "\<not> deleting (hp_meta hp)"
    and "fst (run_state (hp_handleUpdate E r hp) w0) = Done hp' res None"
    and "run_state (pool_feedback_handleUpdate E hp' p) w = (p1, w1)" "trace w2 = es @ trace w1"
    and "get_host_pool (kube E) key (trace w2) = Inr hp'"
    and "om_labels (hp_meta hp) cloudkitHostPoolIDLabel = Some i"
    and "rpc_get_host_pool (rpc E) i (EvGet KindHostPool key # trace w2) = Inr p1"
  shows "\<exists>p2. p2 \<noteq> p1 \<and> hd (trace (snd (run_state (pool_feedback_Reconcile E key) w2))) = EvRpcUpdate (RpcHostPool p2)"
proof -
  let ?i = "fst (run_state (hp_initialize E hp) w0)"
  have "hp_ends ?i (Done hp' res None)"
    using hp_update_ends [OF assms(2,3), where r = r and w = w0] assms(6) by simp
  then have same: "hp_meta hp' = hp_meta hp" "GetCondition HostPoolConditionAccepted hp' = GetCondition HostPoolConditionAccepted ?i"
      "IsConditionFalse HostPoolConditionProgressing hp'"
    by (auto simp: hp_ends_def hp_initialize_frame)
  with hp_initialize_frame(3) [OF assms(4), of E w0] obtain c d where
    "GetCondition HostPoolConditionAccepted hp' = Some c" "c_status c = ConditionTrue"
    "GetCondition HostPoolConditionProgressing hp' = Some d" "c_status d = ConditionFalse"
    by (auto simp: IsConditionTrue_def IsConditionFalse_def split: option.splits)
  then have cd: "c \<in> set (hp_conditions hp')" "d \<in> set (hp_conditions hp')" "c_type c = HostPoolConditionAccepted"
      "c_type d = HostPoolConditionProgressing" "c_status c \<noteq> c_status d"
    by (auto simp: GetCondition_def dest: first_such_SomeD)
  then have "pool_condition_kind (c_type c) = Some HP_TYPE_PROGRESSING" "pool_condition_kind (c_type d) = Some HP_TYPE_PROGRESSING"
    by (simp_all add: pool_condition_kind_def)
  from pool_feedback_unsettled [OF assms(1) cd(1,2) this cd(5) assms(7,8,9) _ _ assms(11)] assms(5,10) same(1)
  show ?thesis by simp
qed

theorem ready_pool_feedback_never_settles_witness:
  "\<exists>w p2. p2 \<noteq> stored_pool_record (trace w) \<and>
     hd (trace (snd (run_state (pool_feedback_Reconcile new_pool_env \<lparr>key_namespace = [], key_name = []\<rparr>) w))) =
       EvRpcUpdate (RpcHostPool p2)"
proof -
  let ?E = new_pool_env and ?key = "\<lparr>key_namespace = [], key_name = []\<rparr>"
  obtain hp' where ready: "fst (run_state (hp_handleUpdate ?E quiet_hp new_pool) empty_world) = Done hp' result_none None"
    using calm_update_succeeds [of ?E new_pool empty_world] by (auto simp: ref_finalizer_laws)
  obtain p1 w1 where first: "run_state (pool_feedback_handleUpdate ?E hp' empty_pool) empty_world = (p1, w1)"
    by (cases "run_state (pool_feedback_handleUpdate ?E hp' empty_pool) empty_world")
  let ?w2 = "w1\<lparr>trace := [EvRpcUpdate (RpcHostPool p1), EvStatusUpdate (KHostPool hp')] @ trace w1\<rparr>"
  have "\<exists>p2. p2 \<noteq> p1 \<and> hd (trace (snd (run_state (pool_feedback_Reconcile ?E ?key) ?w2))) = EvRpcUpdate (RpcHostPool p2)"
    by (rule ready_pool_feedback_never_settles [OF _ _ _ _ _ ready first, of _ "[EvRpcUpdate (RpcHostPool p1), EvStatusUpdate (KHostPool hp')]" _ "''i''"])
      (simp_all add: clock_strict_def second_def ref_finalizer_laws)
  then show ?thesis by (intro exI [of _ ?w2]) auto
qed

end
